(* ===== verification/Prelude.thy ===== *)
theory Prelude
  imports Complex_Main "HOL-Library.List_Lexorder" "HOL-Library.Char_ord"
begin

text \<open>
  Shared vocabulary of the development: Python values as a datatype with Python's own notion of
  equality and truth, exceptions as values, operations that thread a state and may raise, the
  clock and the UUID source every component reads, the few SQL constructs the SQLite adapters use
  (uniqueness checks, \<open>ORDER BY\<close>, \<open>LIMIT\<close>), and the generic interfaces (locales) that several
  components share.
\<close>

section \<open>Python values\<close>

text \<open>
  A value of the type \<open>Any\<close> that crosses the API is a JSON value. Finite floats are the rational
  they denote; a \<open>dict\<close> is an association list in insertion order.
\<close>

datatype json =
    JNull
  | JBool bool
  | JInt int
  | JFloat rat
  | JStr string
  | JList "json list"
  | JObj "(string \<times> json) list"

type_synonym pdict = "(string \<times> json) list"

fun json_num :: "json \<Rightarrow> rat option" where
  "json_num (JBool b) = Some (if b then 1 else 0)"
| "json_num (JInt i) = Some (of_int i)"
| "json_num (JFloat r) = Some r"
| "json_num _ = None"

text \<open>
  Python's \<open>==\<close>: numbers (and booleans) by value, dicts regardless of order, everything else
  structurally.
\<close>

function py_eq :: "json \<Rightarrow> json \<Rightarrow> bool" where
  "py_eq a b = (case a of
      JNull \<Rightarrow> b = JNull
    | JStr s \<Rightarrow> b = JStr s
    | JList xs \<Rightarrow> (case b of
          JList ys \<Rightarrow> length xs = length ys \<and> list_all (\<lambda>(x, y). py_eq x y) (zip xs ys)
        | _ \<Rightarrow> False)
    | JObj d \<Rightarrow> (case b of
          JObj e \<Rightarrow> length d = length e \<and>
            list_all (\<lambda>(k, x). case map_of e k of None \<Rightarrow> False | Some y \<Rightarrow> py_eq x y) d
        | _ \<Rightarrow> False)
    | _ \<Rightarrow> (case json_num b of None \<Rightarrow> False | Some y \<Rightarrow> json_num a = Some y))"
  by pat_completeness auto
termination
proof (relation "measure (\<lambda>(a, b). size a)", goal_cases)
  case 1
  show ?case by simp
next
  case (2 a b xs ys z x y)
  then have "x \<in> set xs" by (auto dest: set_zip_leftD)
  then have "size x < Suc (size_list size xs)"
    by (induction xs) auto
  with 2 show ?case by auto
next
  case (3 a b d e z k x v)
  then have "(k, x) \<in> set d" by auto
  then have "size x < Suc (size_list (size_prod (\<lambda>_. 0) size) d)"
    by (induction d) auto
  with 3 show ?case by auto
qed

declare py_eq.simps [simp del]

text \<open>A dict read with \<open>.get\<close>; a dict written with \<open>d[k] = v\<close> keeps the position of \<open>k\<close>.\<close>

definition dict_get :: "('k \<times> 'v) list \<Rightarrow> 'k \<Rightarrow> 'v option" where
  "dict_get d k = map_of d k"

fun dict_set :: "('k \<times> 'v) list \<Rightarrow> 'k \<Rightarrow> 'v \<Rightarrow> ('k \<times> 'v) list" where
  "dict_set [] k v = [(k, v)]"
| "dict_set ((k', v') # d) k v = (if k' = k then (k, v) # d else (k', v') # dict_set d k v)"

definition dict_keys :: "('k \<times> 'v) list \<Rightarrow> 'k list" where
  "dict_keys d = map fst d"

definition dict_pop :: "('k \<times> 'v) list \<Rightarrow> 'k \<Rightarrow> ('k \<times> 'v) list" where
  "dict_pop d k = filter (\<lambda>(k', _). k' \<noteq> k) d"

text \<open>\<open>{**d, **e}\<close>\<close>

definition dict_merge :: "('k \<times> 'v) list \<Rightarrow> ('k \<times> 'v) list \<Rightarrow> ('k \<times> 'v) list" where
  "dict_merge d e = fold (\<lambda>(k, v) acc. dict_set acc k v) e d"

text \<open>Equality of two dicts with string values (\<open>dict[str, str]\<close>) is independent of the order.\<close>

definition dict_eq :: "('v \<Rightarrow> 'v \<Rightarrow> bool) \<Rightarrow> ('k \<times> 'v) list \<Rightarrow> ('k \<times> 'v) list \<Rightarrow> bool" where
  "dict_eq eq d e \<longleftrightarrow> length d = length e \<and>
     list_all (\<lambda>(k, x). case map_of e k of None \<Rightarrow> False | Some y \<Rightarrow> eq x y) d"

fun truthy :: "json \<Rightarrow> bool" where
  "truthy JNull = False"
| "truthy (JBool b) = b"
| "truthy (JInt i) = (i \<noteq> 0)"
| "truthy (JFloat r) = (r \<noteq> 0)"
| "truthy (JStr s) = (s \<noteq> [])"
| "truthy (JList xs) = (xs \<noteq> [])"
| "truthy (JObj d) = (d \<noteq> [])"

definition truthy_get :: "pdict \<Rightarrow> string \<Rightarrow> bool" where
  "truthy_get d k = (case dict_get d k of None \<Rightarrow> False | Some v \<Rightarrow> truthy v)"

text \<open>The truth value of a \<open>str | None\<close>.\<close>

definition truthy_str :: "string option \<Rightarrow> bool" where
  "truthy_str x = (case x of None \<Rightarrow> False | Some s \<Rightarrow> s \<noteq> [])"

text \<open>Well-formed values: the keys of every dict are distinct, as Python guarantees.\<close>

fun wf_json :: "json \<Rightarrow> bool" where
  "wf_json (JList xs) = list_all wf_json xs"
| "wf_json (JObj d) = (distinct (map fst d) \<and> list_all (\<lambda>(k, v). wf_json v) d)"
| "wf_json _ = True"

lemma py_eq_refl: "wf_json a \<Longrightarrow> py_eq a a"
proof (induction a rule: wf_json.induct)
  case (1 xs)
  then have "\<And>x. x \<in> set xs \<Longrightarrow> py_eq x x" by (simp add: list_all_iff)
  then show ?case by (auto simp: py_eq.simps [of "JList xs"] list_all_iff set_zip)
next
  case (2 d)
  have d: "distinct (map fst d)" using 2 by simp
  then have m: "\<And>k x. (k, x) \<in> set d \<Longrightarrow> map_of d k = Some x" by simp
  have *: "\<And>k x. (k, x) \<in> set d \<Longrightarrow> py_eq x x"
    using 2 by (force simp: list_all_iff)
  then show ?case
    by (auto simp: py_eq.simps [of "JObj d"] list_all_iff m)
qed (simp_all add: py_eq.simps)

lemma dict_get_set [simp]: "dict_get (dict_set d k v) k' = (if k' = k then Some v else dict_get d k')"
  by (induction d) (auto simp: dict_get_def)

lemma dict_keys_set [simp]: "set (dict_keys (dict_set d k v)) = insert k (set (dict_keys d))"
  by (induction d) (force simp: dict_keys_def)+

lemma distinct_dict_set: "distinct (dict_keys d) \<Longrightarrow> distinct (dict_keys (dict_set d k v))"
proof (induction d)
  case (Cons p d)
  then show ?case
    using dict_keys_set [of d k v] by (cases p) (auto simp: dict_keys_def)
qed (simp add: dict_keys_def)

lemma dict_get_pop: "dict_get (dict_pop d k) k' = (if k' = k then None else dict_get d k')"
  by (induction d) (auto simp: dict_get_def dict_pop_def)

lemma dict_get_None: "dict_get d k = None \<longleftrightarrow> k \<notin> set (dict_keys d)"
  by (simp add: dict_get_def dict_keys_def map_of_eq_None_iff)

lemma dict_eq_refl:
  "distinct (dict_keys d) \<Longrightarrow> (\<And>k x. (k, x) \<in> set d \<Longrightarrow> eq x x) \<Longrightarrow> dict_eq eq d d"
  by (auto simp: dict_eq_def dict_keys_def list_all_iff)

section \<open>Strings\<close>

text \<open>Decimal rendering of an integer, as in an f-string.\<close>

fun str_nat :: "nat \<Rightarrow> string" where
  "str_nat n = (if n < 10 then [char_of (48 + n)] else str_nat (n div 10) @ [char_of (48 + n mod 10)])"

declare str_nat.simps [simp del]

definition str_int :: "int \<Rightarrow> string" where
  "str_int i = (if i < 0 then ''-'' @ str_nat (nat (- i)) else str_nat (nat i))"

fun join :: "string \<Rightarrow> string list \<Rightarrow> string" where
  "join sep [] = []"
| "join sep [x] = x"
| "join sep (x # y # zs) = x @ sep @ join sep (y # zs)"

definition starts_with :: "string \<Rightarrow> string \<Rightarrow> bool" where
  "starts_with p s \<longleftrightarrow> take (length p) s = p"

text \<open>\<open>p in s\<close> for strings.\<close>

fun substring :: "string \<Rightarrow> string \<Rightarrow> bool" where
  "substring p [] = (p = [])"
| "substring p (c # cs) = (take (length p) (c # cs) = p \<or> substring p cs)"

fun lower_char :: "char \<Rightarrow> char" where
  "lower_char c = (let n = (of_char c :: nat) in if 65 \<le> n \<and> n \<le> 90 then char_of (n + 32) else c)"

definition lower :: "string \<Rightarrow> string" where
  "lower s = map lower_char s"

section \<open>Exceptions and operations\<close>

text \<open>
  The exceptions the modelled code raises. \<open>ValidationError\<close> is pydantic's subclass of
  \<open>ValueError\<close>, \<open>RequestError\<close> the class \<open>ValidationError\<close> of \<open>errors.py\<close>;
  \<open>OtherError\<close> carries the class name of an exception raised by an adapter that is not part of the
  repository.
\<close>

datatype exn =
    ValueError string
  | ValidationError string
  | KeyError string
  | TypeError string
  | AssertionError
  | IntegrityError string
  | CaseConflict string
  | ActionConflict string
  | HandoffConflict string
  | AuthorizationError string "string option"
  | AuthenticationError string string
  | ProcedureError string string
  | NotFoundError string string
  | RequestError string "string option" pdict
  | HTTPException int json
  | IndexError
  | OtherError string

text \<open>\<open>type(exc).__name__\<close>\<close>

fun exn_name :: "exn \<Rightarrow> string" where
  "exn_name (ValueError _) = ''ValueError''"
| "exn_name (ValidationError _) = ''ValidationError''"
| "exn_name (KeyError _) = ''KeyError''"
| "exn_name (TypeError _) = ''TypeError''"
| "exn_name AssertionError = ''AssertionError''"
| "exn_name (IntegrityError _) = ''IntegrityError''"
| "exn_name (CaseConflict _) = ''CaseConflict''"
| "exn_name (ActionConflict _) = ''ActionConflict''"
| "exn_name (HandoffConflict _) = ''HandoffConflict''"
| "exn_name (AuthorizationError _ _) = ''AuthorizationError''"
| "exn_name (AuthenticationError _ _) = ''AuthenticationError''"
| "exn_name (ProcedureError _ _) = ''ProcedureError''"
| "exn_name (NotFoundError _ _) = ''NotFoundError''"
| "exn_name (RequestError _ _ _) = ''ValidationError''"
| "exn_name (HTTPException _ _) = ''HTTPException''"
| "exn_name IndexError = ''IndexError''"
| "exn_name (OtherError n) = n"

text \<open>Sequencing of computations that touch no state and may raise.\<close>

definition andThen :: "exn + 'a \<Rightarrow> ('a \<Rightarrow> exn + 'b) \<Rightarrow> exn + 'b" where
  "andThen x f = (case x of Inl e \<Rightarrow> Inl e | Inr v \<Rightarrow> f v)"

lemma andThen_simps: "andThen (Inl e) f = Inl e" "andThen (Inr x) f = f x"
  by (simp_all add: andThen_def)

lemma andThen_Inr: "andThen r f = Inr y \<longleftrightarrow> (\<exists>x. r = Inr x \<and> f x = Inr y)"
  by (cases r) (simp_all add: andThen_def)

text \<open>
  An operation reads and writes a state and either returns or raises. What it wrote before it
  raised stays written, as in the source; only a transaction (\<open>tx\<close> of the kernel) rolls back.
\<close>

type_synonym ('a, 's) op = "'s \<Rightarrow> (exn + 'a) \<times> 's"

definition returnE :: "'a \<Rightarrow> ('a, 's) op" where
  "returnE x s = (Inr x, s)"

definition raiseE :: "exn \<Rightarrow> ('a, 's) op" where
  "raiseE e s = (Inl e, s)"

definition bindE :: "('a, 's) op \<Rightarrow> ('a \<Rightarrow> ('b, 's) op) \<Rightarrow> ('b, 's) op" where
  "bindE m f s = (case m s of (Inl e, t) \<Rightarrow> (Inl e, t) | (Inr x, t) \<Rightarrow> f x t)"

definition catchE :: "('a, 's) op \<Rightarrow> (exn \<Rightarrow> ('a, 's) op) \<Rightarrow> ('a, 's) op" where
  "catchE m h s = (case m s of (Inl e, t) \<Rightarrow> h e t | (Inr x, t) \<Rightarrow> (Inr x, t))"

definition getE :: "('s \<Rightarrow> 'a) \<Rightarrow> ('a, 's) op" where
  "getE f s = (Inr (f s), s)"

definition modifyE :: "('s \<Rightarrow> 's) \<Rightarrow> (unit, 's) op" where
  "modifyE f s = (Inr (), f s)"

text \<open>\<open>if cond: raise e\<close>\<close>

definition raise_if :: "bool \<Rightarrow> exn \<Rightarrow> (unit, 's) op" where
  "raise_if c e = (if c then raiseE e else returnE ())"

text \<open>A pure computation that may raise, as an operation.\<close>

definition liftE :: "exn + 'a \<Rightarrow> ('a, 's) op" where
  "liftE r s = (r, s)"

text \<open>\<open>for x in xs: body\<close> with an accumulator for the variables the body assigns.\<close>

fun foldE :: "('x \<Rightarrow> 'a \<Rightarrow> ('a, 's) op) \<Rightarrow> 'x list \<Rightarrow> 'a \<Rightarrow> ('a, 's) op" where
  "foldE f [] a = returnE a"
| "foldE f (x # xs) a = bindE (f x a) (foldE f xs)"

named_theorems op_defs \<open>unfolding of the operation combinators\<close>

lemmas op_combinators [op_defs] =
  returnE_def raiseE_def bindE_def catchE_def getE_def modifyE_def raise_if_def liftE_def

lemma bindE_simps [simp]:
  "bindE (returnE x) f = f x"
  "bindE (raiseE e) f = raiseE e"
  "bindE m returnE = m"
  by (auto simp: fun_eq_iff op_defs split: prod.splits sum.splits)

lemma bindE_assoc: "bindE (bindE m f) g = bindE m (\<lambda>x. bindE (f x) g)"
  by (auto simp: fun_eq_iff op_defs split: prod.splits sum.splits)

lemma bindE_Inr:
  "bindE m f s = (Inr y, t) \<longleftrightarrow> (\<exists>x u. m s = (Inr x, u) \<and> f x u = (Inr y, t))"
  by (auto simp: op_defs split: prod.splits sum.splits)

lemma bindE_Inl:
  "bindE m f s = (Inl e, t) \<longleftrightarrow>
     m s = (Inl e, t) \<or> (\<exists>x u. m s = (Inr x, u) \<and> f x u = (Inl e, t))"
  by (auto simp: op_defs split: prod.splits sum.splits)

lemma bindE_step: "m s = (Inr x, u) \<Longrightarrow> bindE m f s = f x u"
  by (simp add: bindE_def)

lemma bindE_stop: "m s = (Inl e, u) \<Longrightarrow> bindE m f s = (Inl e, u)"
  by (simp add: bindE_def)

lemma raise_if_simps [simp]:
  "raise_if True e = raiseE e" "raise_if False e = returnE ()"
  by (simp_all add: raise_if_def)

lemma fst_map_sum_Inr: "map_sum (\<lambda>e. e) f (fst p) = Inr y \<Longrightarrow> \<exists>x. p = (Inr x, snd p) \<and> f x = y"
  by (cases p; cases "fst p") auto

section \<open>Relations and invariants of operations\<close>

text \<open>
  The contract every composed operation inherits from its parts: a reflexive and transitive
  relation between the state before and the state after, whether it returns or raises.
\<close>

locale op_rel =
  fixes R :: "'s \<Rightarrow> 's \<Rightarrow> bool"
  assumes R_refl: "R s s"
    and R_trans: "R s t \<Longrightarrow> R t u \<Longrightarrow> R s u"
begin

definition keeps :: "('a, 's) op \<Rightarrow> bool" where
  "keeps m \<longleftrightarrow> (\<forall>s. R s (snd (m s)))"

lemma keeps_returnE: "keeps (returnE x)"
  by (simp add: keeps_def op_defs R_refl)

lemma keeps_raiseE: "keeps (raiseE e)"
  by (simp add: keeps_def op_defs R_refl)

lemma keeps_getE: "keeps (getE f)"
  by (simp add: keeps_def op_defs R_refl)

lemma keeps_liftE: "keeps (liftE r)"
  by (simp add: keeps_def op_defs R_refl)

lemma keeps_raise_if: "keeps (raise_if c e)"
  by (simp add: keeps_def op_defs R_refl)

lemma keeps_bindE: "keeps m \<Longrightarrow> (\<And>x. keeps (f x)) \<Longrightarrow> keeps (bindE m f)"
  unfolding keeps_def bindE_def
  by (auto split: prod.splits sum.splits) (metis R_trans snd_conv)+

lemma keeps_catchE: "keeps m \<Longrightarrow> (\<And>e. keeps (h e)) \<Longrightarrow> keeps (catchE m h)"
  unfolding keeps_def catchE_def
  by (auto split: prod.splits sum.splits) (metis R_trans snd_conv)+

lemma keeps_foldE: "(\<And>x a. keeps (f x a)) \<Longrightarrow> keeps (foldE f xs a)"
  by (induction xs arbitrary: a) (auto intro: keeps_returnE keeps_bindE)

lemma keepsD: "keeps m \<Longrightarrow> m s = (r, t) \<Longrightarrow> R s t"
  unfolding keeps_def by (metis snd_conv)

lemmas keeps_intros =
  keeps_returnE keeps_raiseE keeps_getE keeps_liftE keeps_raise_if keeps_bindE keeps_catchE
  keeps_foldE

end

section \<open>The clock and the UUID source\<close>

text \<open>
  \<open>datetime.now(timezone.utc)\<close> and \<open>uuid.uuid4().hex\<close> are successive reads of two sources.
  A timestamp is the number of microseconds; the ISO strings the code stores and compares are
  ordered as those numbers are, since every stored string is in UTC and of the same shape.
\<close>

type_synonym time = int

record env =
  clock_src :: "nat \<Rightarrow> time"
  clock_idx :: nat
  uuid_src :: "nat \<Rightarrow> string"
  uuid_idx :: nat

definition now_op :: "(time, 'z env_scheme) op" where
  "now_op s = (Inr (clock_src s (clock_idx s)), s\<lparr>clock_idx := Suc (clock_idx s)\<rparr>)"

definition uuid_op :: "(string, 'z env_scheme) op" where
  "uuid_op s = (Inr (uuid_src s (uuid_idx s)), s\<lparr>uuid_idx := Suc (uuid_idx s)\<rparr>)"

definition seconds :: "int \<Rightarrow> time" where
  "seconds n = n * 1000000"

section \<open>SQL\<close>

text \<open>\<open>LIMIT ?\<close>: a negative limit is no limit.\<close>

definition sql_limit :: "int \<Rightarrow> 'a list \<Rightarrow> 'a list" where
  "sql_limit n xs = (if n < 0 then xs else take (nat n) xs)"

text \<open>\<open>ORDER BY key\<close>, rows with the same key in table order.\<close>

definition order_by :: "('a \<Rightarrow> 'k::linorder) \<Rightarrow> 'a list \<Rightarrow> 'a list" where
  "order_by k xs = sort_key k xs"

text \<open>\<open>UPDATE ... WHERE p\<close>\<close>

definition sql_update :: "('a \<Rightarrow> bool) \<Rightarrow> ('a \<Rightarrow> 'a) \<Rightarrow> 'a list \<Rightarrow> 'a list" where
  "sql_update p f xs = map (\<lambda>x. if p x then f x else x) xs"

text \<open>\<open>cursor.rowcount\<close> of such an update.\<close>

definition row_count :: "('a \<Rightarrow> bool) \<Rightarrow> 'a list \<Rightarrow> nat" where
  "row_count p xs = length (filter p xs)"

text \<open>\<open>SELECT ... WHERE key = ?\<close> followed by \<open>fetchone\<close>.\<close>

definition select_one :: "('a \<Rightarrow> bool) \<Rightarrow> 'a list \<Rightarrow> 'a option" where
  "select_one p xs = List.find p xs"

text \<open>Python slicing \<open>xs[:n]\<close>.\<close>

definition py_take :: "int \<Rightarrow> 'a list \<Rightarrow> 'a list" where
  "py_take n xs = (if 0 \<le> n then take (nat n) xs else take (length xs - nat (- n)) xs)"

subsection \<open>Tables with a primary key\<close>

lemma select_one_Some: "select_one p xs = Some x \<Longrightarrow> x \<in> set xs \<and> p x"
  by (auto simp: select_one_def find_Some_iff)

lemma select_one_None: "select_one p xs = None \<longleftrightarrow> (\<forall>x \<in> set xs. \<not> p x)"
  by (auto simp: select_one_def find_None_iff)

lemma select_one_unique:
  "distinct (map k xs) \<Longrightarrow> x \<in> set xs \<Longrightarrow> select_one (\<lambda>y. k y = k x) xs = Some x"
  by (induction xs) (auto simp: select_one_def)

lemma select_one_append:
  "select_one p (xs @ [y]) =
     (case select_one p xs of None \<Rightarrow> if p y then Some y else None | Some x \<Rightarrow> Some x)"
  by (induction xs) (auto simp: select_one_def)

lemma select_one_update:
  assumes "\<And>x. k (f x) = k x"
  shows "select_one (\<lambda>x. k x = a) (sql_update (\<lambda>x. k x = b \<and> q x) f xs) =
    map_option (\<lambda>x. if a = b \<and> q x then f x else x) (select_one (\<lambda>x. k x = a) xs)"
  by (induction xs) (auto simp: select_one_def sql_update_def assms)

lemma row_count_key:
  assumes "distinct (map k xs)"
  shows "row_count (\<lambda>x. k x = a \<and> q x) xs =
    (case select_one (\<lambda>x. k x = a) xs of None \<Rightarrow> 0 | Some x \<Rightarrow> if q x then 1 else 0)"
  using assms
proof (induction xs)
  case (Cons y ys)
  have "k y = a \<Longrightarrow> filter (\<lambda>x. k x = a \<and> q x) ys = []"
    using Cons.prems by (auto simp: filter_empty_conv) (metis imageI)
  then show ?case using Cons
    by (auto simp: row_count_def select_one_def)
qed (simp add: row_count_def select_one_def)

lemma map_sql_update [simp]:
  "(\<And>x. k (f x) = k x) \<Longrightarrow> map k (sql_update p f xs) = map k xs"
  by (simp add: sql_update_def)

lemma set_sql_update:
  "set (sql_update p f xs) = f ` {x \<in> set xs. p x} \<union> {x \<in> set xs. \<not> p x}"
  by (auto simp: sql_update_def)

lemma in_sql_updateE:
  assumes "y \<in> set (sql_update p f xs)"
  obtains "y \<in> set xs" "\<not> p y" | x where "x \<in> set xs" "p x" "y = f x"
  using assms by (auto simp: sql_update_def split: if_splits)

lemma length_sql_limit: "0 \<le> n \<Longrightarrow> length (sql_limit n xs) \<le> nat n"
  by (simp add: sql_limit_def)

lemma set_sql_limit: "set (sql_limit n xs) \<subseteq> set xs"
  by (auto simp: sql_limit_def dest: in_set_takeD)

lemma set_order_by [simp]: "set (order_by k xs) = set xs"
  by (simp add: order_by_def)

lemma distinct_sql_limit: "distinct xs \<Longrightarrow> distinct (sql_limit n xs)"
  by (simp add: sql_limit_def)

section \<open>Transition systems\<close>

text \<open>
  Reachability and invariants, stated once for every component that is a step relation. \<open>step\<close>
  covers any interleaving of the atomic operations of concurrent tasks.
\<close>

locale transition_system =
  fixes init :: "'s \<Rightarrow> bool"
    and step :: "'s \<Rightarrow> 's \<Rightarrow> bool"
    and inv :: "'s \<Rightarrow> bool"
  assumes inv_init: "init s \<Longrightarrow> inv s"
    and inv_step: "inv s \<Longrightarrow> step s t \<Longrightarrow> inv t"
begin

lemma inv_steps: "step\<^sup>*\<^sup>* s t \<Longrightarrow> inv s \<Longrightarrow> inv t"
  by (induction rule: rtranclp_induct) (auto intro: inv_step)

lemma inv_reachable: "init s \<Longrightarrow> step\<^sup>*\<^sup>* s t \<Longrightarrow> inv t"
  by (blast intro: inv_steps inv_init)

end

end
