(* ===== verification/Action_Specs.thy ===== *)
theory Action_Specs
  imports Prelude
begin

text \<open>
  The closed inventory of consequential commands (\<open>core/action_specs.py\<close>). A \<open>frozenset\<close> of
  parameter names is a list without duplicates; Python leaves its iteration order open, the
  definitions that iterate over one use the order written here.
\<close>

record ActionSpecification =
  spec_name :: string
  required_parameters :: "string list"
  authoritative_parameters :: "string list"
  customer_binding_parameter :: "string option"
  requires_consent :: bool
  requires_approval :: bool

definition mk_spec ::
  "string \<Rightarrow> string list \<Rightarrow> string list \<Rightarrow> bool \<Rightarrow> bool \<Rightarrow> string option \<Rightarrow> ActionSpecification"
where
  "mk_spec n req auth consent approval binding =
     \<lparr>spec_name = n, required_parameters = req, authoritative_parameters = auth,
      customer_binding_parameter = binding, requires_consent = consent,
      requires_approval = approval\<rparr>"

definition specification_list :: "ActionSpecification list" where
  "specification_list =
    [mk_spec ''issue_refund''
       [''order_id'', ''customer_id'', ''refund_amount'', ''currency'', ''payment_method'', ''reason'']
       [''order_id'', ''customer_id'', ''refund_amount'', ''currency'', ''payment_method'']
       True False (Some ''customer_id''),
     mk_spec ''issue_store_credit''
       [''order_id'', ''customer_id'', ''amount'', ''currency'', ''reason'']
       [''order_id'', ''customer_id'', ''amount'', ''currency'']
       True False (Some ''customer_id''),
     mk_spec ''update_case_status'' [''target_status'', ''reason''] [] False False None,
     mk_spec ''file_eft_dispute''
       [''customer_id'', ''transaction_id'', ''amount'', ''dispute_type'']
       [''customer_id'', ''transaction_id'', ''amount'']
       True False (Some ''customer_id''),
     mk_spec ''issue_provisional_credit''
       [''customer_id'', ''dispute_id'', ''amount'']
       [''customer_id'', ''dispute_id'', ''amount'']
       False True (Some ''customer_id''),
     mk_spec ''escalate_to_supervisor'' [''reason'', ''priority''] [] False False None,
     mk_spec ''add_case_note'' [''note''] [] False False None,
     mk_spec ''flag_account'' [''account_id'', ''reason'', ''restriction''] [''account_id'']
       False True None,
     mk_spec ''submit_sar'' [''account_id'', ''alert_id'', ''narrative_ref'']
       [''account_id'', ''alert_id'']
       False True None,
     mk_spec ''close_alert'' [''alert_id'', ''resolution''] [''alert_id''] False True None]"

definition ACTION_SPECIFICATIONS :: "(string \<times> ActionSpecification) list" where
  "ACTION_SPECIFICATIONS = map (\<lambda>sp. (spec_name sp, sp)) specification_list"

text \<open>The inventory is internally consistent: one entry per name, and every authoritative or
  binding parameter is a required one.\<close>

lemma specifications_wf:
  "distinct (dict_keys ACTION_SPECIFICATIONS) \<and>
   (\<forall>(n, sp) \<in> set ACTION_SPECIFICATIONS.
      spec_name sp = n \<and>
      set (authoritative_parameters sp) \<subseteq> set (required_parameters sp) \<and>
      (\<forall>b. customer_binding_parameter sp = Some b \<longrightarrow> b \<in> set (authoritative_parameters sp)) \<and>
      \<not> (requires_consent sp \<and> requires_approval sp))"
  by (simp add: ACTION_SPECIFICATIONS_def specification_list_def mk_spec_def dict_keys_def)

lemma spec_lookup_name: "dict_get ACTION_SPECIFICATIONS n = Some sp \<Longrightarrow> spec_name sp = n"
  by (auto simp: ACTION_SPECIFICATIONS_def dict_get_def dest!: map_of_SomeD)

lemma spec_binding_authoritative:
  "dict_get ACTION_SPECIFICATIONS n = Some sp \<Longrightarrow> customer_binding_parameter sp = Some b \<Longrightarrow>
   b \<in> set (authoritative_parameters sp)"
  using specifications_wf by (fastforce simp: dict_get_def dest!: map_of_SomeD)

lemma spec_authoritative_required:
  "dict_get ACTION_SPECIFICATIONS n = Some sp \<Longrightarrow>
   set (authoritative_parameters sp) \<subseteq> set (required_parameters sp)"
  using specifications_wf by (fastforce simp: dict_get_def dest!: map_of_SomeD)

end
