(* ===== verification/Kernel_Types.thy ===== *)
theory Kernel_Types
  imports Action_Specs
begin

text \<open>
  The data model of \<open>core/kernel.py\<close>: the enumerations, the pydantic records and the tables of
  \<open>SQLiteCoreStore\<close>. A table is the list of its rows in rowid order. A JSON column holds the
  value itself (\<open>json.loads (json.dumps v) = v\<close> on JSON values). \<open>PRAGMA foreign_keys=ON\<close> is
  issued on the connection of \<open>initialize\<close> only, and SQLite keeps that switch per connection, so
  the declared foreign keys constrain none of the operations below.
\<close>

section \<open>Enumerations\<close>

datatype FactAuthority = ASSERTED | OBSERVED | VERIFIED | DERIVED

fun AUTHORITY_RANK :: "FactAuthority \<Rightarrow> nat" where
  "AUTHORITY_RANK ASSERTED = 0"
| "AUTHORITY_RANK OBSERVED = 1"
| "AUTHORITY_RANK DERIVED = 1"
| "AUTHORITY_RANK VERIFIED = 2"

datatype ActionStatus =
  REQUESTED | AUTHORIZED | DISPATCHED | SUCCEEDED | FAILED | UNKNOWN | RECONCILED

fun action_status_value :: "ActionStatus \<Rightarrow> string" where
  "action_status_value REQUESTED = ''requested''"
| "action_status_value AUTHORIZED = ''authorized''"
| "action_status_value DISPATCHED = ''dispatched''"
| "action_status_value SUCCEEDED = ''succeeded''"
| "action_status_value FAILED = ''failed''"
| "action_status_value UNKNOWN = ''unknown''"
| "action_status_value RECONCILED = ''reconciled''"

datatype ActionProposalStatus = P_PENDING | P_CONFIRMED | P_CANCELLED | P_EXPIRED

fun proposal_status_value :: "ActionProposalStatus \<Rightarrow> string" where
  "proposal_status_value P_PENDING = ''pending''"
| "proposal_status_value P_CONFIRMED = ''confirmed''"
| "proposal_status_value P_CANCELLED = ''cancelled''"
| "proposal_status_value P_EXPIRED = ''expired''"

datatype OutboxStatus = O_PENDING | O_LEASED | O_DELIVERED | O_FAILED | O_QUARANTINED

section \<open>Records\<close>

record CaseRecord =
  cr_case_id :: string
  cr_customer_id :: string
  cr_procedure_id :: string
  cr_procedure_version :: string
  cr_status :: string
  cr_version :: int

record case_row = CaseRecord +
  cr_created_at :: time

record FactProposal =
  fp_name :: string
  fp_value :: json
  fp_authority :: FactAuthority
  fp_source :: string
  fp_evidence_ref :: string
  fp_expires_at :: "string option"

record FactRecord = FactProposal +
  fr_case_id :: string
  fr_committed_at :: time
  fr_superseded_at :: "time option"

record ActionCommand =
  cmd_action :: string
  cmd_case_id :: string
  cmd_policy_package_id :: string
  cmd_actor_id :: string
  cmd_idempotency_key :: string
  cmd_parameters :: pdict
  cmd_parameter_fact_refs :: "(string \<times> string) list"
  cmd_required_fact_authority :: "(string \<times> FactAuthority) list"
  cmd_consent_evidence_ref :: "string option"
  cmd_approval_evidence_ref :: "string option"
  cmd_policy_activation_signature :: "string option"
  cmd_connector_binding_id :: "string option"
  cmd_connector_binding_version :: "string option"
  cmd_contract_version :: "string option"

record ActionRecord =
  ar_action_id :: string
  ar_command :: ActionCommand
  ar_status :: ActionStatus
  ar_outcome :: "pdict option"
  ar_created_at :: time
  ar_updated_at :: time

record event_row =
  ev_event_id :: string
  ev_action_id :: string
  ev_status :: ActionStatus
  ev_details :: "pdict option"
  ev_recorded_at :: time

record ActionProposal =
  pr_proposal_id :: string
  pr_action :: string
  pr_payload :: pdict
  pr_case_id :: string
  pr_customer_id :: string
  pr_actor_id :: string
  pr_procedure_id :: string
  pr_procedure_version :: string
  pr_policy_package_id :: string
  pr_idempotency_key :: string
  pr_resource_type :: "string option"
  pr_resource_id :: "string option"
  pr_resource_version :: "int option"
  pr_conversation_id :: "string option"
  pr_message_id :: "string option"
  pr_connector_binding_id :: "string option"
  pr_connector_binding_version :: "string option"
  pr_contract_version :: "string option"
  pr_preview :: pdict
  pr_status :: ActionProposalStatus
  pr_confirmation_evidence_ref :: "string option"
  pr_action_id :: "string option"
  pr_created_at :: time
  pr_expires_at :: time
  pr_updated_at :: time
  pr_confirmed_at :: "time option"
  pr_cancelled_at :: "time option"

record OutboxRecord =
  ob_outbox_id :: string
  ob_topic :: string
  ob_aggregate_id :: string
  ob_payload :: pdict
  ob_status :: OutboxStatus
  ob_attempts :: int
  ob_available_at :: time
  ob_lease_owner :: "string option"
  ob_lease_until :: "time option"
  ob_last_error :: "string option"
  ob_created_at :: time
  ob_updated_at :: time

text \<open>
  The dict \<open>accept_message_result\<close> receives: the four keys it reads (\<open>None\<close> where the key is
  absent, for \<open>sequence\<close> also where it is \<open>null\<close>) and the whole envelope it stores.
\<close>

record envelope_dict =
  env_provider_id :: "string option"
  env_message_id :: "string option"
  env_conversation_id :: "string option"
  env_sequence :: "int option"
  env_json :: pdict

record inbox_row =
  ib_provider_id :: string
  ib_message_id :: string
  ib_conversation_id :: string
  ib_sequence :: "int option"
  ib_envelope :: pdict
  ib_ordering_status :: string
  ib_received_at :: time

record sequence_row =
  sq_provider_id :: string
  sq_conversation_id :: string
  sq_last_sequence :: int
  sq_updated_at :: time

record handoff_row =
  ho_handoff_id :: string
  ho_conversation_id :: string
  ho_case_id :: string
  ho_context :: pdict
  ho_status :: string
  ho_assigned_agent_id :: "string option"
  ho_created_at :: time
  ho_updated_at :: time

section \<open>The database and the world\<close>

record core_db =
  core_migrations :: "(string \<times> time) list"
  workflow_cases :: "case_row list"
  case_facts :: "FactRecord list"
  action_attempts :: "ActionRecord list"
  action_events :: "event_row list"
  action_proposals :: "ActionProposal list"
  conversation_inbox_v3 :: "inbox_row list"
  conversation_sequences :: "sequence_row list"
  core_outbox :: "OutboxRecord list"
  handoffs :: "handoff_row list"

definition empty_db :: core_db where
  "empty_db = \<lparr>core_migrations = [], workflow_cases = [], case_facts = [], action_attempts = [],
     action_events = [], action_proposals = [], conversation_inbox_v3 = [],
     conversation_sequences = [], core_outbox = [], handoffs = []\<rparr>"

text \<open>Replacing one table.\<close>

abbreviation set_workflow_cases where
  "set_workflow_cases v d \<equiv> d\<lparr>workflow_cases := v\<rparr>"

abbreviation set_case_facts where
  "set_case_facts v d \<equiv> d\<lparr>case_facts := v\<rparr>"

abbreviation set_action_attempts where
  "set_action_attempts v d \<equiv> d\<lparr>action_attempts := v\<rparr>"

abbreviation set_action_events where
  "set_action_events v d \<equiv> d\<lparr>action_events := v\<rparr>"

abbreviation set_action_proposals where
  "set_action_proposals v d \<equiv> d\<lparr>action_proposals := v\<rparr>"

abbreviation set_conversation_inbox_v3 where
  "set_conversation_inbox_v3 v d \<equiv> d\<lparr>conversation_inbox_v3 := v\<rparr>"

abbreviation set_conversation_sequences where
  "set_conversation_sequences v d \<equiv> d\<lparr>conversation_sequences := v\<rparr>"

abbreviation set_core_outbox where
  "set_core_outbox v d \<equiv> d\<lparr>core_outbox := v\<rparr>"

abbreviation set_handoffs where
  "set_handoffs v d \<equiv> d\<lparr>handoffs := v\<rparr>"

abbreviation set_core_migrations where
  "set_core_migrations v d \<equiv> d\<lparr>core_migrations := v\<rparr>"

text \<open>The state a kernel operation runs in; components that need more extend this record.\<close>

record kworld = env +
  db :: core_db

type_synonym ('a, 'z) kop = "('a, 'z kworld_scheme) op"

text \<open>Apply a change to the database.\<close>

definition upd_db :: "(core_db \<Rightarrow> core_db) \<Rightarrow> (unit, 'z) kop" where
  "upd_db f s = (Inr (), s\<lparr>db := f (db s)\<rparr>)"

definition read_db :: "(core_db \<Rightarrow> 'a) \<Rightarrow> ('a, 'z) kop" where
  "read_db f s = (Inr (f (db s)), s)"

text \<open>
  A connection whose work is committed only when the body returns: an exception, or a
  \<open>rollback\<close> followed by one, leaves the database as it was.
\<close>

definition tx :: "('a, 'z) kop \<Rightarrow> ('a, 'z) kop" where
  "tx m s = (case m s of (Inl e, t) \<Rightarrow> (Inl e, t\<lparr>db := db s\<rparr>) | (Inr x, t) \<Rightarrow> (Inr x, t))"

lemmas kop_defs [op_defs] = upd_db_def read_db_def tx_def now_op_def uuid_op_def

lemma tx_Inr: "tx m s = (Inr x, t) \<longleftrightarrow> m s = (Inr x, t)"
  by (auto simp: tx_def split: prod.splits sum.splits)

lemma tx_Inl_db: "tx m s = (Inl e, t) \<Longrightarrow> db t = db s"
  by (auto simp: tx_def split: prod.splits sum.splits)

text \<open>The sources of time and identifiers are never replaced, only read further.\<close>

definition same_env :: "'z env_scheme \<Rightarrow> 'z env_scheme \<Rightarrow> bool" where
  "same_env s t \<longleftrightarrow> clock_src t = clock_src s \<and> uuid_src t = uuid_src s \<and>
     clock_idx s \<le> clock_idx t \<and> uuid_idx s \<le> uuid_idx t"

end
