(* ===== verification/Kernel_Store.thy ===== *)
theory Kernel_Store
  imports Kernel_Types
begin

text \<open>
  \<open>SQLiteCoreStore\<close> of \<open>core/kernel.py\<close>, first half: schema migration, cases, facts and action
  attempts with their event log. Every operation is one transaction.
\<close>

section \<open>SQL statements over one table\<close>

text \<open>\<open>INSERT INTO t VALUES r\<close>: refused when a row clashes with a key or uniqueness constraint.\<close>

definition insert_row ::
  "(core_db \<Rightarrow> 'r list) \<Rightarrow> ('r list \<Rightarrow> core_db \<Rightarrow> core_db) \<Rightarrow>
   ('r \<Rightarrow> bool) \<Rightarrow> string \<Rightarrow> 'r \<Rightarrow> (unit, 'z) kop" where
  "insert_row tbl upd clash name r =
     bindE (read_db tbl) (\<lambda>rows.
     bindE (raise_if (list_ex clash rows) (IntegrityError name)) (\<lambda>_.
     upd_db (\<lambda>d. upd (tbl d @ [r]) d)))"

text \<open>\<open>UPDATE t SET f WHERE p\<close>, returning \<open>cursor.rowcount\<close>.\<close>

definition update_rows ::
  "(core_db \<Rightarrow> 'r list) \<Rightarrow> ('r list \<Rightarrow> core_db \<Rightarrow> core_db) \<Rightarrow>
   ('r \<Rightarrow> bool) \<Rightarrow> ('r \<Rightarrow> 'r) \<Rightarrow> (nat, 'z) kop" where
  "update_rows tbl upd p f =
     bindE (read_db tbl) (\<lambda>rows.
     bindE (upd_db (\<lambda>d. upd (sql_update p f (tbl d)) d)) (\<lambda>_.
     returnE (row_count p rows)))"

lemmas sql_op_defs [op_defs] = insert_row_def update_rows_def

section \<open>Cases and facts\<close>

definition create_case :: "CaseRecord \<Rightarrow> (unit, 'z) kop" where
  "create_case r = tx (
     bindE now_op (\<lambda>now.
     insert_row workflow_cases set_workflow_cases
       (\<lambda>x. cr_case_id x = cr_case_id r) ''workflow_cases.case_id''
       (CaseRecord.extend r (case_row.fields now))))"

definition get_case :: "string \<Rightarrow> (CaseRecord option, 'z) kop" where
  "get_case cid = read_db (\<lambda>d.
     map_option CaseRecord.truncate (select_one (\<lambda>x. cr_case_id x = cid) (workflow_cases d)))"

text \<open>The compare-and-swap on the case version shared by \<open>append_fact\<close> and \<open>insert_action\<close>.\<close>

definition bump_case_version :: "string \<Rightarrow> int \<Rightarrow> (unit, 'z) kop" where
  "bump_case_version cid expected =
     bindE (update_rows workflow_cases set_workflow_cases
              (\<lambda>x. cr_case_id x = cid \<and> cr_version x = expected)
              (\<lambda>x. x\<lparr>cr_version := cr_version x + 1\<rparr>)) (\<lambda>n.
     raise_if (n \<noteq> 1) (CaseConflict (''Case '' @ cid @ '' version conflict'')))"

definition fact_row :: "string \<Rightarrow> FactProposal \<Rightarrow> time \<Rightarrow> FactRecord" where
  "fact_row cid p now = FactProposal.extend p (FactRecord.fields cid now None)"

text \<open>\<open>INSERT ... ON CONFLICT(case_id,name) DO UPDATE\<close>\<close>

definition upsert_fact :: "FactRecord \<Rightarrow> FactRecord list \<Rightarrow> FactRecord list" where
  "upsert_fact r rows =
     (let same = (\<lambda>x. fr_case_id x = fr_case_id r \<and> fp_name x = fp_name r) in
      if list_ex same rows then sql_update same (\<lambda>_. r) rows else rows @ [r])"

definition append_fact :: "string \<Rightarrow> FactProposal \<Rightarrow> int \<Rightarrow> (CaseRecord, 'z) kop" where
  "append_fact cid p expected =
     bindE (tx (
       bindE (bump_case_version cid expected) (\<lambda>_.
       bindE now_op (\<lambda>now.
       upd_db (\<lambda>d. set_case_facts (upsert_fact (fact_row cid p now) (case_facts d)) d))))) (\<lambda>_.
     bindE (get_case cid) (\<lambda>record.
     case record of None \<Rightarrow> raiseE AssertionError | Some c \<Rightarrow> returnE c))"

definition get_fact :: "string \<Rightarrow> string \<Rightarrow> (FactRecord option, 'z) kop" where
  "get_fact cid name = read_db (\<lambda>d. select_one
     (\<lambda>x. fr_case_id x = cid \<and> fp_name x = name \<and> fr_superseded_at x = None) (case_facts d))"

section \<open>Action attempts and their events\<close>

definition append_event :: "string \<Rightarrow> ActionStatus \<Rightarrow> pdict option \<Rightarrow> (unit, 'z) kop" where
  "append_event aid status details =
     bindE uuid_op (\<lambda>u.
     bindE now_op (\<lambda>now.
     insert_row action_events set_action_events
       (\<lambda>e. ev_event_id e = ''AEV-'' @ u) ''action_events.event_id''
       \<lparr>ev_event_id = ''AEV-'' @ u, ev_action_id = aid, ev_status = status,
        ev_details = details, ev_recorded_at = now\<rparr>))"

definition insert_attempt :: "ActionRecord \<Rightarrow> (unit, 'z) kop" where
  "insert_attempt r =
     insert_row action_attempts set_action_attempts
       (\<lambda>x. ar_action_id x = ar_action_id r \<or>
            cmd_idempotency_key (ar_command x) = cmd_idempotency_key (ar_command r))
       ''action_attempts'' (r\<lparr>ar_outcome := None\<rparr>)"

definition new_outbox :: "string \<Rightarrow> string \<Rightarrow> string \<Rightarrow> pdict \<Rightarrow> time \<Rightarrow> OutboxRecord" where
  "new_outbox oid topic agg payload now =
     \<lparr>ob_outbox_id = oid, ob_topic = topic, ob_aggregate_id = agg, ob_payload = payload,
      ob_status = O_PENDING, ob_attempts = 0, ob_available_at = now, ob_lease_owner = None,
      ob_lease_until = None, ob_last_error = None, ob_created_at = now, ob_updated_at = now\<rparr>"

definition insert_outbox :: "OutboxRecord \<Rightarrow> (unit, 'z) kop" where
  "insert_outbox r =
     insert_row core_outbox set_core_outbox
       (\<lambda>x. ob_outbox_id x = ob_outbox_id r) ''core_outbox.outbox_id'' r"

definition insert_action :: "ActionRecord \<Rightarrow> int \<Rightarrow> (ActionRecord, 'z) kop" where
  "insert_action r expected = tx (
     bindE (bump_case_version (cmd_case_id (ar_command r)) expected) (\<lambda>_.
     bindE (insert_attempt r) (\<lambda>_.
     bindE (append_event (ar_action_id r) REQUESTED None) (\<lambda>_.
     bindE (append_event (ar_action_id r) AUTHORIZED None) (\<lambda>_.
     bindE now_op (\<lambda>now.
     bindE uuid_op (\<lambda>u.
     bindE (insert_outbox (new_outbox (''OUT-'' @ u) ''action.dispatch'' (ar_action_id r)
              [(''action_id'', JStr (ar_action_id r))] now)) (\<lambda>_.
     returnE r))))))))"

definition get_action_by_key :: "string \<Rightarrow> (ActionRecord option, 'z) kop" where
  "get_action_by_key key = read_db (\<lambda>d.
     select_one (\<lambda>x. cmd_idempotency_key (ar_command x) = key) (action_attempts d))"

definition get_action :: "string \<Rightarrow> (ActionRecord option, 'z) kop" where
  "get_action aid = read_db (\<lambda>d. select_one (\<lambda>x. ar_action_id x = aid) (action_attempts d))"

definition list_actions :: "ActionStatus option \<Rightarrow> int \<Rightarrow> (ActionRecord list, 'z) kop" where
  "list_actions status limit = read_db (\<lambda>d.
     sql_limit limit (order_by ar_created_at
       (case status of None \<Rightarrow> action_attempts d
        | Some st \<Rightarrow> filter (\<lambda>x. ar_status x = st) (action_attempts d))))"

definition list_action_events :: "string \<Rightarrow> (event_row list, 'z) kop" where
  "list_action_events aid = read_db (\<lambda>d. filter (\<lambda>e. ev_action_id e = aid) (action_events d))"

definition update_action ::
  "string \<Rightarrow> ActionStatus \<Rightarrow> pdict option \<Rightarrow> (ActionRecord, 'z) kop" where
  "update_action aid status outcome =
     bindE (tx (
       bindE now_op (\<lambda>now.
       bindE (update_rows action_attempts set_action_attempts (\<lambda>x. ar_action_id x = aid)
                (\<lambda>x. x\<lparr>ar_status := status, ar_outcome := outcome, ar_updated_at := now\<rparr>)) (\<lambda>n.
       bindE (raise_if (n \<noteq> 1) (KeyError aid)) (\<lambda>_.
       append_event aid status outcome))))) (\<lambda>_.
     bindE (get_action aid) (\<lambda>row.
     case row of None \<Rightarrow> raiseE (KeyError aid) | Some a \<Rightarrow> returnE a))"

definition transition_action ::
  "string \<Rightarrow> ActionStatus \<Rightarrow> ActionStatus \<Rightarrow> pdict option \<Rightarrow> (ActionRecord, 'z) kop" where
  "transition_action aid expected status outcome =
     bindE (tx (
       bindE now_op (\<lambda>now.
       bindE (update_rows action_attempts set_action_attempts
                (\<lambda>x. ar_action_id x = aid \<and> ar_status x = expected)
                (\<lambda>x. x\<lparr>ar_status := status, ar_outcome := outcome, ar_updated_at := now\<rparr>)) (\<lambda>n.
       bindE (raise_if (n \<noteq> 1) (ActionConflict (''Action '' @ aid @
                '' transition conflict from '' @ action_status_value expected))) (\<lambda>_.
       append_event aid status outcome))))) (\<lambda>_.
     bindE (get_action aid) (\<lambda>row.
     case row of None \<Rightarrow> raiseE AssertionError | Some a \<Rightarrow> returnE a))"

definition claim_action :: "string \<Rightarrow> (ActionRecord \<times> bool, 'z) kop" where
  "claim_action aid =
     bindE (tx (
       bindE now_op (\<lambda>now.
       bindE (update_rows action_attempts set_action_attempts
                (\<lambda>x. ar_action_id x = aid \<and> ar_status x = AUTHORIZED)
                (\<lambda>x. x\<lparr>ar_status := DISPATCHED, ar_updated_at := now\<rparr>)) (\<lambda>n.
       bindE (if n = 1 then append_event aid DISPATCHED None else returnE ()) (\<lambda>_.
       returnE (n = 1)))))) (\<lambda>claimed.
     bindE (get_action aid) (\<lambda>row.
     case row of None \<Rightarrow> raiseE (KeyError aid) | Some a \<Rightarrow> returnE (a, claimed)))"

section \<open>Initialisation and the v3 backfill of events\<close>

definition backfill_sequence :: "ActionStatus \<Rightarrow> ActionStatus list" where
  "backfill_sequence st =
     (let terminal = [SUCCEEDED, FAILED, UNKNOWN, RECONCILED] in
      [REQUESTED] @
      (if st \<noteq> REQUESTED then [AUTHORIZED] else []) @
      (if st \<in> set (DISPATCHED # terminal) then [DISPATCHED] else []) @
      (if st = RECONCILED then [UNKNOWN] else []) @
      (if st \<in> set terminal then [st] else []))"

definition backfill_event :: "ActionRecord \<Rightarrow> ActionStatus \<Rightarrow> (unit, 'z) kop" where
  "backfill_event a st =
     bindE uuid_op (\<lambda>u.
       insert_row action_events set_action_events
         (\<lambda>e. ev_event_id e = ''AEV-'' @ u) ''action_events.event_id''
         \<lparr>ev_event_id = ''AEV-'' @ u, ev_action_id = ar_action_id a, ev_status = st,
          ev_details = Some [(''migrated'', JBool True)],
          ev_recorded_at = (if st = ar_status a then ar_updated_at a else ar_created_at a)\<rparr>)"

definition backfill_action :: "ActionRecord \<Rightarrow> (unit, 'z) kop" where
  "backfill_action a = foldE (\<lambda>st _. backfill_event a st) (backfill_sequence (ar_status a)) ()"

definition initialize :: "(unit, 'z) kop" where
  "initialize = tx (
     bindE (read_db core_migrations) (\<lambda>m.
     if ''action_events_v3_backfill'' \<in> set (map fst m) then returnE ()
     else
       bindE (read_db (\<lambda>d. filter (\<lambda>a. \<not> list_ex (\<lambda>e. ev_action_id e = ar_action_id a)
                (action_events d)) (action_attempts d))) (\<lambda>legacy.
       bindE (foldE (\<lambda>a _. backfill_action a) legacy ()) (\<lambda>_.
       bindE now_op (\<lambda>now.
       upd_db (\<lambda>d. set_core_migrations
         (core_migrations d @ [(''action_events_v3_backfill'', now)]) d))))))"

end
