(* ===== verification/Kernel_Queues.thy ===== *)
theory Kernel_Queues
  imports Kernel_Store
begin

text \<open>
  \<open>SQLiteCoreStore\<close> of \<open>core/kernel.py\<close>, second half: action proposals, the ordered message
  inbox, the transactional outbox with its leases, and human handoffs.
\<close>

section \<open>Action proposals\<close>

definition create_action_proposal :: "ActionProposal \<Rightarrow> (ActionProposal, 'z) kop" where
  "create_action_proposal r = tx (
     bindE (insert_row action_proposals set_action_proposals
              (\<lambda>x. pr_proposal_id x = pr_proposal_id r) ''action_proposals.proposal_id'' r) (\<lambda>_.
     returnE r))"

definition get_action_proposal :: "string \<Rightarrow> (ActionProposal option, 'z) kop" where
  "get_action_proposal pid = read_db (\<lambda>d.
     select_one (\<lambda>x. pr_proposal_id x = pid) (action_proposals d))"

definition list_action_proposals ::
  "string option \<Rightarrow> string option \<Rightarrow> ActionProposalStatus option \<Rightarrow> int \<Rightarrow>
   (ActionProposal list, 'z) kop" where
  "list_action_proposals customer conversation status limit = read_db (\<lambda>d.
     sql_limit limit (order_by (\<lambda>x. - pr_created_at x) (filter (\<lambda>x.
         (customer \<noteq> None \<longrightarrow> customer = Some (pr_customer_id x)) \<and>
         (conversation \<noteq> None \<longrightarrow> pr_conversation_id x = conversation) \<and>
         (status \<noteq> None \<longrightarrow> status = Some (pr_status x))) (action_proposals d))))"

text \<open>\<open>COALESCE(a, b)\<close>\<close>

definition coalesce :: "'a option \<Rightarrow> 'a option \<Rightarrow> 'a option" where
  "coalesce a b = (case a of None \<Rightarrow> b | Some x \<Rightarrow> Some x)"

definition transition_action_proposal ::
  "string \<Rightarrow> ActionProposalStatus \<Rightarrow> ActionProposalStatus \<Rightarrow> string option \<Rightarrow> string option \<Rightarrow>
   (ActionProposal, 'z) kop" where
  "transition_action_proposal pid expected status evidence action_id =
     bindE now_op (\<lambda>now.
     let confirmed_at = (if status = P_CONFIRMED then Some now else None);
         cancelled_at = (if status = P_CANCELLED then Some now else None) in
     bindE (tx (
       bindE (update_rows action_proposals set_action_proposals
                (\<lambda>x. pr_proposal_id x = pid \<and> pr_status x = expected)
                (\<lambda>x. x\<lparr>pr_status := status,
                  pr_confirmation_evidence_ref := coalesce evidence (pr_confirmation_evidence_ref x),
                  pr_action_id := coalesce action_id (pr_action_id x),
                  pr_updated_at := now,
                  pr_confirmed_at := coalesce confirmed_at (pr_confirmed_at x),
                  pr_cancelled_at := coalesce cancelled_at (pr_cancelled_at x)\<rparr>)) (\<lambda>n.
       raise_if (n \<noteq> 1) (ActionConflict (''Action proposal '' @ pid @
                '' transition conflict from '' @ proposal_status_value expected))))) (\<lambda>_.
     bindE (get_action_proposal pid) (\<lambda>row.
     case row of None \<Rightarrow> raiseE AssertionError | Some p \<Rightarrow> returnE p)))"

section \<open>The message inbox\<close>

record acceptance =
  acc_accepted :: bool
  acc_status :: string
  acc_reason :: "string option"

definition sequence_of :: "core_db \<Rightarrow> string \<Rightarrow> string \<Rightarrow> int option" where
  "sequence_of d provider conversation = map_option sq_last_sequence
     (select_one (\<lambda>x. sq_provider_id x = provider \<and> sq_conversation_id x = conversation)
       (conversation_sequences d))"

definition upsert_sequence :: "sequence_row \<Rightarrow> sequence_row list \<Rightarrow> sequence_row list" where
  "upsert_sequence r rows =
     (let same = (\<lambda>x. sq_provider_id x = sq_provider_id r \<and>
                      sq_conversation_id x = sq_conversation_id r) in
      if list_ex same rows
      then sql_update same (\<lambda>x. x\<lparr>sq_last_sequence := sq_last_sequence r,
                                   sq_updated_at := sq_updated_at r\<rparr>) rows
      else rows @ [r])"

text \<open>
  A quarantined message that is delivered again has its envelope, status and time rewritten, not
  its conversation and sequence columns.
\<close>

definition store_inbox_message ::
  "inbox_row \<Rightarrow> bool \<Rightarrow> (unit, 'z) kop" where
  "store_inbox_message r existing =
     (let same = (\<lambda>x. ib_provider_id x = ib_provider_id r \<and> ib_message_id x = ib_message_id r) in
      if existing
      then bindE (update_rows conversation_inbox_v3 set_conversation_inbox_v3 same
             (\<lambda>x. x\<lparr>ib_envelope := ib_envelope r, ib_ordering_status := ib_ordering_status r,
                    ib_received_at := ib_received_at r\<rparr>)) (\<lambda>_. returnE ())
      else insert_row conversation_inbox_v3 set_conversation_inbox_v3 same
             ''conversation_inbox_v3'' r)"

definition settle_message ::
  "envelope_dict \<Rightarrow> string \<Rightarrow> string \<Rightarrow> string \<Rightarrow> bool \<Rightarrow> string \<Rightarrow> string option \<Rightarrow>
   (acceptance, 'z) kop" where
  "settle_message env provider_id message_id conversation_id existing ordering_status reason =
     bindE now_op (\<lambda>received.
     bindE (store_inbox_message
       \<lparr>ib_provider_id = provider_id, ib_message_id = message_id,
        ib_conversation_id = conversation_id, ib_sequence = env_sequence env,
        ib_envelope = env_json env, ib_ordering_status = ordering_status,
        ib_received_at = received\<rparr> existing) (\<lambda>_.
     bindE (if ordering_status = ''accepted'' then
              (case env_sequence env of None \<Rightarrow> returnE ()
               | Some sequence \<Rightarrow> bindE now_op (\<lambda>now.
                   upd_db (\<lambda>d. set_conversation_sequences (upsert_sequence
                     \<lparr>sq_provider_id = provider_id, sq_conversation_id = conversation_id,
                      sq_last_sequence = sequence, sq_updated_at = now\<rparr>
                     (conversation_sequences d)) d)))
            else returnE ()) (\<lambda>_.
     returnE \<lparr>acc_accepted = (ordering_status = ''accepted''), acc_status = ordering_status,
              acc_reason = reason\<rparr>)))"

definition accept_message_result :: "envelope_dict \<Rightarrow> (acceptance, 'z) kop" where
  "accept_message_result env =
     (case env_message_id env of
        None \<Rightarrow> raiseE (KeyError ''message_id'')
      | Some message_id \<Rightarrow>
     let provider_id = (case env_provider_id env of None \<Rightarrow> ''local'' | Some p \<Rightarrow> p);
         conversation_id = (case env_conversation_id env of None \<Rightarrow> [] | Some c \<Rightarrow> c) in
     tx (
     bindE (read_db (\<lambda>d. select_one (\<lambda>x. ib_provider_id x = provider_id \<and>
              ib_message_id x = message_id) (conversation_inbox_v3 d))) (\<lambda>existing.
     if existing \<noteq> None \<and> ib_ordering_status (the existing) \<noteq> ''quarantined''
     then returnE \<lparr>acc_accepted = False, acc_status = ''duplicate'', acc_reason = Some ''message_id''\<rparr>
     else
     bindE (read_db (\<lambda>d. sequence_of d provider_id conversation_id)) (\<lambda>last_sequence.
     case (env_sequence env, last_sequence) of
       (Some sequence, Some prev) \<Rightarrow>
         if sequence \<le> prev
         then returnE \<lparr>acc_accepted = False, acc_status = ''duplicate'',
                       acc_reason = Some ''sequence_already_processed''\<rparr>
         else if sequence > prev + 1
         then settle_message env provider_id message_id conversation_id (existing \<noteq> None)
                ''quarantined''
                (Some (''sequence_gap:expected='' @ str_int (prev + 1) @
                       '':received='' @ str_int sequence))
         else settle_message env provider_id message_id conversation_id (existing \<noteq> None)
                ''accepted'' None
     | _ \<Rightarrow> settle_message env provider_id message_id conversation_id (existing \<noteq> None)
              ''accepted'' None))))"

definition accept_message :: "envelope_dict \<Rightarrow> (bool, 'z) kop" where
  "accept_message env = bindE (accept_message_result env) (\<lambda>r. returnE (acc_accepted r))"

definition list_quarantined_messages :: "int \<Rightarrow> (inbox_row list, 'z) kop" where
  "list_quarantined_messages limit = read_db (\<lambda>d. sql_limit limit (order_by ib_received_at
     (filter (\<lambda>x. ib_ordering_status x = ''quarantined'') (conversation_inbox_v3 d))))"

section \<open>The outbox\<close>

definition enqueue_outbox :: "string \<Rightarrow> string \<Rightarrow> pdict \<Rightarrow> (OutboxRecord, 'z) kop" where
  "enqueue_outbox topic aggregate_id payload =
     bindE now_op (\<lambda>now.
     bindE uuid_op (\<lambda>u.
     let record = new_outbox (''OUT-'' @ u) topic aggregate_id payload now in
     bindE (tx (insert_outbox record)) (\<lambda>_. returnE record)))"

text \<open>The \<open>WHERE\<close> clause of the claim; a comparison with \<open>NULL\<close> is not true.\<close>

definition outbox_due :: "time \<Rightarrow> OutboxRecord \<Rightarrow> bool" where
  "outbox_due now r \<longleftrightarrow> ob_available_at r \<le> now \<and>
     (ob_status r \<in> {O_PENDING, O_FAILED} \<or>
      (ob_status r = O_LEASED \<and>
       (case ob_lease_until r of None \<Rightarrow> False | Some u \<Rightarrow> u < now)))"

definition lease_row :: "string \<Rightarrow> time \<Rightarrow> time \<Rightarrow> OutboxRecord \<Rightarrow> OutboxRecord" where
  "lease_row owner lease_until now r =
     r\<lparr>ob_status := O_LEASED, ob_lease_owner := Some owner, ob_lease_until := Some lease_until,
       ob_attempts := ob_attempts r + 1, ob_updated_at := now\<rparr>"

definition claim_outbox :: "string \<Rightarrow> int \<Rightarrow> int \<Rightarrow> (OutboxRecord list, 'z) kop" where
  "claim_outbox owner lease_seconds limit =
     bindE now_op (\<lambda>now.
     bindE now_op (\<lambda>now2.
     let lease_until = now2 + seconds lease_seconds in
     bindE (tx (
       bindE (read_db (\<lambda>d. map ob_outbox_id (sql_limit limit (order_by ob_created_at
                (filter (outbox_due now) (core_outbox d)))))) (\<lambda>ids.
       bindE (foldE (\<lambda>oid _. bindE (update_rows core_outbox set_core_outbox
                (\<lambda>x. ob_outbox_id x = oid) (lease_row owner lease_until now)) (\<lambda>_. returnE ()))
                ids ()) (\<lambda>_.
       returnE ids)))) (\<lambda>ids.
     read_db (\<lambda>d. filter (\<lambda>x. ob_outbox_id x \<in> set ids) (core_outbox d)))))"

definition settle_outbox ::
  "string \<Rightarrow> OutboxStatus \<Rightarrow> time option \<Rightarrow> string option \<Rightarrow> (OutboxRecord, 'z) kop" where
  "settle_outbox outbox_id status retry_at error =
     bindE now_op (\<lambda>now.
     bindE (tx (update_rows core_outbox set_core_outbox (\<lambda>x. ob_outbox_id x = outbox_id)
       (\<lambda>x. x\<lparr>ob_status := status,
              ob_available_at := (case retry_at of None \<Rightarrow> now | Some t \<Rightarrow> t),
              ob_lease_owner := None, ob_lease_until := None, ob_last_error := error,
              ob_updated_at := now\<rparr>))) (\<lambda>_.
     bindE (read_db (\<lambda>d. select_one (\<lambda>x. ob_outbox_id x = outbox_id) (core_outbox d))) (\<lambda>row.
     case row of None \<Rightarrow> raiseE (KeyError outbox_id) | Some r \<Rightarrow> returnE r)))"

definition complete_outbox :: "string \<Rightarrow> (OutboxRecord, 'z) kop" where
  "complete_outbox outbox_id = settle_outbox outbox_id O_DELIVERED None None"

definition fail_outbox ::
  "string \<Rightarrow> string \<Rightarrow> time option \<Rightarrow> bool \<Rightarrow> (OutboxRecord, 'z) kop" where
  "fail_outbox outbox_id error retry_at quarantine =
     settle_outbox outbox_id (if quarantine then O_QUARANTINED else O_FAILED) retry_at (Some error)"

definition list_outbox :: "OutboxStatus option \<Rightarrow> int \<Rightarrow> (OutboxRecord list, 'z) kop" where
  "list_outbox status limit = read_db (\<lambda>d.
     sql_limit limit (order_by ob_created_at
       (case status of None \<Rightarrow> core_outbox d
        | Some st \<Rightarrow> filter (\<lambda>x. ob_status x = st) (core_outbox d))))"

section \<open>Handoffs\<close>

definition create_handoff :: "handoff_row \<Rightarrow> (unit, 'z) kop" where
  "create_handoff r = tx (
     bindE (read_db (\<lambda>d. select_one (\<lambda>x. cr_case_id x = ho_case_id r) (workflow_cases d))) (\<lambda>c.
     bindE (raise_if (c = None) (KeyError (ho_case_id r))) (\<lambda>_.
     insert_row handoffs set_handoffs (\<lambda>x. ho_handoff_id x = ho_handoff_id r)
       ''handoffs.handoff_id'' (r\<lparr>ho_assigned_agent_id := None\<rparr>))))"

definition get_handoff :: "string \<Rightarrow> (handoff_row option, 'z) kop" where
  "get_handoff hid = read_db (\<lambda>d. select_one (\<lambda>x. ho_handoff_id x = hid) (handoffs d))"

definition update_handoff :: "string \<Rightarrow> string \<Rightarrow> string option \<Rightarrow> (handoff_row, 'z) kop" where
  "update_handoff hid status agent_id =
     bindE (tx (
       bindE now_op (\<lambda>now.
       update_rows handoffs set_handoffs (\<lambda>x. ho_handoff_id x = hid)
         (\<lambda>x. x\<lparr>ho_status := status, ho_assigned_agent_id := agent_id, ho_updated_at := now\<rparr>)))) (\<lambda>_.
     bindE (get_handoff hid) (\<lambda>row.
     case row of None \<Rightarrow> raiseE (KeyError hid) | Some h \<Rightarrow> returnE h))"

definition store_transition_handoff ::
  "string \<Rightarrow> string \<Rightarrow> string \<Rightarrow> string option \<Rightarrow> (handoff_row, 'z) kop" where
  "store_transition_handoff hid expected status agent_id =
     bindE (tx (
       bindE now_op (\<lambda>now.
       update_rows handoffs set_handoffs
         (\<lambda>x. ho_handoff_id x = hid \<and> ho_status x = expected)
         (\<lambda>x. x\<lparr>ho_status := status, ho_assigned_agent_id := agent_id,
                ho_updated_at := now\<rparr>)))) (\<lambda>n.
     bindE (raise_if (n \<noteq> 1) (HandoffConflict (''Handoff '' @ hid @
              '' transition conflict from '' @ expected))) (\<lambda>_.
     bindE (get_handoff hid) (\<lambda>row.
     case row of None \<Rightarrow> raiseE AssertionError | Some h \<Rightarrow> returnE h)))"

end
