(* ===== verification/Case_Kernel.thy ===== *)
theory Case_Kernel
  imports Kernel_Queues
begin

text \<open>
  \<open>CaseKernel\<close> of \<open>core/kernel.py\<close>: case creation, fact commits, authorisation of consequential
  commands and the action lifecycle.
\<close>

section \<open>Operations\<close>

definition kernel_create_case :: "string \<Rightarrow> string \<Rightarrow> string \<Rightarrow> string \<Rightarrow> (CaseRecord, 'z) kop" where
  "kernel_create_case case_id customer_id procedure_id version =
     (let record = \<lparr>cr_case_id = case_id, cr_customer_id = customer_id,
                    cr_procedure_id = procedure_id, cr_procedure_version = version,
                    cr_status = ''active'', cr_version = 0\<rparr> in
      bindE (create_case record) (\<lambda>_. returnE record))"

definition commit_fact :: "string \<Rightarrow> FactProposal \<Rightarrow> int \<Rightarrow> (CaseRecord, 'z) kop" where
  "commit_fact case_id proposal expected_version = append_fact case_id proposal expected_version"

text \<open>Field-wise \<open>==\<close> of two commands, as pydantic defines it.\<close>

definition cmd_eq :: "ActionCommand \<Rightarrow> ActionCommand \<Rightarrow> bool" where
  "cmd_eq a b \<longleftrightarrow>
     cmd_action a = cmd_action b \<and> cmd_case_id a = cmd_case_id b \<and>
     cmd_policy_package_id a = cmd_policy_package_id b \<and> cmd_actor_id a = cmd_actor_id b \<and>
     cmd_idempotency_key a = cmd_idempotency_key b \<and>
     py_eq (JObj (cmd_parameters a)) (JObj (cmd_parameters b)) \<and>
     dict_eq (=) (cmd_parameter_fact_refs a) (cmd_parameter_fact_refs b) \<and>
     dict_eq (=) (cmd_required_fact_authority a) (cmd_required_fact_authority b) \<and>
     cmd_consent_evidence_ref a = cmd_consent_evidence_ref b \<and>
     cmd_approval_evidence_ref a = cmd_approval_evidence_ref b \<and>
     cmd_policy_activation_signature a = cmd_policy_activation_signature b \<and>
     cmd_connector_binding_id a = cmd_connector_binding_id b \<and>
     cmd_connector_binding_version a = cmd_connector_binding_version b \<and>
     cmd_contract_version a = cmd_contract_version b"

text \<open>Set difference of a specification's names and the keys of a dict, in a fixed order.\<close>

definition missing_keys :: "string list \<Rightarrow> (string \<times> 'v) list \<Rightarrow> string list" where
  "missing_keys names d = filter (\<lambda>n. n \<notin> set (dict_keys d)) names"

definition check_parameter_fact :: "ActionCommand \<Rightarrow> string \<times> string \<Rightarrow> (unit, 'z) kop" where
  "check_parameter_fact command ref = (case ref of (parameter, fact_name) \<Rightarrow>
     bindE (get_fact (cmd_case_id command) fact_name) (\<lambda>fact.
     case fact of
       None \<Rightarrow> raiseE (ValueError (''Missing required fact: '' @ fact_name))
     | Some f \<Rightarrow>
       (case dict_get (cmd_required_fact_authority command) parameter of
          None \<Rightarrow> raiseE (KeyError parameter)
        | Some required \<Rightarrow>
          bindE (raise_if (AUTHORITY_RANK (fp_authority f) < AUTHORITY_RANK required)
                   (ValueError (''Fact '' @ fact_name @ '' has insufficient authority''))) (\<lambda>_.
          raise_if (\<not> py_eq (case dict_get (cmd_parameters command) parameter of
                               None \<Rightarrow> JNull | Some v \<Rightarrow> v) (fp_value f))
            (ValueError (''Parameter '' @ parameter @ '' does not match authoritative fact''))))))"

definition authorize_new_action ::
  "ActionCommand \<Rightarrow> ActionSpecification \<Rightarrow> int \<Rightarrow> (ActionRecord, 'z) kop" where
  "authorize_new_action command sp expected_version =
     (let missing = missing_keys (required_parameters sp) (cmd_parameters command);
          unverified = missing_keys (authoritative_parameters sp) (cmd_parameter_fact_refs command) in
      bindE (raise_if (missing \<noteq> [])
        (ValueError (''Missing required action parameters: '' @ join '', '' (sort missing)))) (\<lambda>_.
      bindE (raise_if (requires_consent sp \<and> \<not> truthy_str (cmd_consent_evidence_ref command))
        (ValueError (''Action '' @ cmd_action command @ '' requires explicit consent evidence''))) (\<lambda>_.
      bindE (raise_if (requires_approval sp \<and> \<not> truthy_str (cmd_approval_evidence_ref command))
        (ValueError (''Action '' @ cmd_action command @ '' requires approval evidence''))) (\<lambda>_.
      bindE (raise_if (unverified \<noteq> [])
        (ValueError (''Authoritative parameters lack fact references: '' @
           join '', '' (sort unverified)))) (\<lambda>_.
      bindE (foldE (\<lambda>ref _. check_parameter_fact command ref)
               (cmd_parameter_fact_refs command) ()) (\<lambda>_.
      bindE now_op (\<lambda>now.
      bindE uuid_op (\<lambda>u.
      insert_action \<lparr>ar_action_id = ''ACT-'' @ u, ar_command = command, ar_status = AUTHORIZED,
                     ar_outcome = None, ar_created_at = now, ar_updated_at = now\<rparr>
        expected_version))))))))"

definition authorize_action :: "ActionCommand \<Rightarrow> int \<Rightarrow> (ActionRecord, 'z) kop" where
  "authorize_action command expected_version =
     bindE (get_action_by_key (cmd_idempotency_key command)) (\<lambda>duplicate.
     case duplicate of
       Some d \<Rightarrow> if cmd_eq (ar_command d) command then returnE d
                 else raiseE (ValueError
                   ''Idempotency key is already bound to a different action command'')
     | None \<Rightarrow>
       (case dict_get ACTION_SPECIFICATIONS (cmd_action command) of
          None \<Rightarrow> raiseE (ValueError (''Unknown consequential action: '' @ cmd_action command))
        | Some sp \<Rightarrow> authorize_new_action command sp expected_version))"

definition mark_dispatched :: "string \<Rightarrow> (ActionRecord, 'z) kop" where
  "mark_dispatched aid = bindE (claim_action aid) (\<lambda>r. returnE (fst r))"

text \<open>The table of transitions \<open>record_outcome\<close> admits.\<close>

fun allowed_outcomes :: "ActionStatus \<Rightarrow> ActionStatus list" where
  "allowed_outcomes DISPATCHED = [SUCCEEDED, FAILED, UNKNOWN]"
| "allowed_outcomes UNKNOWN = [UNKNOWN, FAILED, RECONCILED]"
| "allowed_outcomes _ = []"

definition record_outcome ::
  "string \<Rightarrow> ActionStatus \<Rightarrow> pdict option \<Rightarrow> (ActionRecord, 'z) kop" where
  "record_outcome aid status outcome =
     bindE (raise_if (status \<notin> {SUCCEEDED, FAILED, UNKNOWN, RECONCILED})
              (ValueError ''Invalid terminal/reconciliation status'')) (\<lambda>_.
     bindE (get_action aid) (\<lambda>current.
     case current of
       None \<Rightarrow> raiseE (KeyError aid)
     | Some a \<Rightarrow>
       bindE (raise_if (status \<notin> set (allowed_outcomes (ar_status a)))
                (ValueError (''Invalid action transition: '' @ action_status_value (ar_status a) @
                   '' -> '' @ action_status_value status))) (\<lambda>_.
       transition_action aid (ar_status a) status outcome)))"

end
