(* ===== verification/Kernel_Laws.thy ===== *)
theory Kernel_Laws
  imports Case_Kernel
begin

text \<open>
  What the store operations of the kernel do to the database, and the contract that the three
  compare-and-set transitions (actions, proposals, handoffs) share.
\<close>

section \<open>Statements\<close>

lemma update_rows_eq:
  "update_rows tbl upd p f s =
     (Inr (row_count p (tbl (db s))), s\<lparr>db := upd (sql_update p f (tbl (db s))) (db s)\<rparr>)"
  by (simp add: op_defs)

lemma insert_row_eq:
  "insert_row tbl upd clash n r s =
     (if list_ex clash (tbl (db s)) then (Inl (IntegrityError n), s)
      else (Inr (), s\<lparr>db := upd (tbl (db s) @ [r]) (db s)\<rparr>))"
  by (simp add: op_defs)

lemma append_event_eq:
  "append_event aid st det s =
     (let u = uuid_src s (uuid_idx s);
          s' = s\<lparr>clock_idx := Suc (clock_idx s), uuid_idx := Suc (uuid_idx s)\<rparr> in
      if list_ex (\<lambda>e. ev_event_id e = ''AEV-'' @ u) (action_events (db s))
      then (Inl (IntegrityError ''action_events.event_id''), s')
      else (Inr (), s'\<lparr>db := (db s)\<lparr>action_events := action_events (db s) @
        [\<lparr>ev_event_id = ''AEV-'' @ u, ev_action_id = aid, ev_status = st, ev_details = det,
          ev_recorded_at = clock_src s (clock_idx s)\<rparr>]\<rparr>\<rparr>))"
  by (simp add: append_event_def insert_row_eq bindE_def uuid_op_def now_op_def Let_def)

text \<open>The event written by a transition, and the database it leaves.\<close>

definition with_event :: "core_db \<Rightarrow> string \<Rightarrow> ActionStatus \<Rightarrow> pdict option \<Rightarrow> core_db \<Rightarrow> bool" where
  "with_event d aid st det d' \<longleftrightarrow> (\<exists>eid rec_at.
     (\<forall>e \<in> set (action_events d). ev_event_id e \<noteq> eid) \<and>
     d' = d\<lparr>action_events := action_events d @
       [\<lparr>ev_event_id = eid, ev_action_id = aid, ev_status = st, ev_details = det,
         ev_recorded_at = rec_at\<rparr>]\<rparr>)"

lemma append_event_Inr: "append_event aid st det s = (Inr u, t) \<Longrightarrow> with_event (db s) aid st det (db t)"
  unfolding with_event_def
  by (rule exI [of _ "''AEV-'' @ uuid_src s (uuid_idx s)"], rule exI [of _ "clock_src s (clock_idx s)"])
    (auto simp: append_event_eq Let_def list_ex_iff split: if_splits)

lemma append_event_Inl: "append_event aid st det s = (Inl e, t) \<Longrightarrow> db t = db s"
  by (auto simp: append_event_eq Let_def split: if_splits)

section \<open>Transitions of an action\<close>

definition status_of :: "core_db \<Rightarrow> string \<Rightarrow> ActionStatus option" where
  "status_of d aid = map_option ar_status (select_one (\<lambda>x. ar_action_id x = aid) (action_attempts d))"

definition action_keys :: "core_db \<Rightarrow> bool" where
  "action_keys d \<longleftrightarrow> distinct (map ar_action_id (action_attempts d))"

lemma get_action_eq:
  "get_action aid s = (Inr (select_one (\<lambda>x. ar_action_id x = aid) (action_attempts (db s))), s)"
  by (simp add: get_action_def op_defs)

text \<open>The database after a status change of one action and its event.\<close>

definition moved ::
  "core_db \<Rightarrow> string \<Rightarrow> ActionStatus \<Rightarrow> (ActionRecord \<Rightarrow> ActionRecord) \<Rightarrow> core_db" where
  "moved d aid expected f =
     d\<lparr>action_attempts := sql_update (\<lambda>x. ar_action_id x = aid \<and> ar_status x = expected) f
        (action_attempts d)\<rparr>"

lemma transition_action_cases:
  assumes "transition_action aid e st out s = (r, t)" and "action_keys (db s)"
  shows "(\<exists>x. r = Inl x \<and> db t = db s) \<or>
    (\<exists>a now. r = Inr a \<and> status_of (db s) aid = Some e \<and> ar_action_id a = aid \<and> ar_status a = st \<and>
       ar_outcome a = out \<and>
       with_event (moved (db s) aid e
         (\<lambda>x. x\<lparr>ar_status := st, ar_outcome := out, ar_updated_at := now\<rparr>)) aid st out (db t))"
proof -
  let ?f = "\<lambda>now x. x\<lparr>ar_status := st, ar_outcome := out, ar_updated_at := now\<rparr>"
  let ?now = "clock_src s (clock_idx s)"
  let ?s1 = "s\<lparr>clock_idx := Suc (clock_idx s), db := moved (db s) aid e (?f ?now)\<rparr>"
  have keys: "distinct (map ar_action_id (action_attempts (db s)))"
    using assms(2) by (simp add: action_keys_def)
  have rc: "row_count (\<lambda>x. ar_action_id x = aid \<and> ar_status x = e) (action_attempts (db s)) =
      (if status_of (db s) aid = Some e then 1 else 0)"
    unfolding row_count_key [OF keys] by (auto simp: status_of_def split: option.splits)
  show ?thesis
  proof (cases "status_of (db s) aid = Some e")
    case False
    then show ?thesis using assms(1)
      by (auto simp: transition_action_def op_defs update_rows_eq rc)
  next
    case True
    then obtain a0 where a0: "select_one (\<lambda>x. ar_action_id x = aid) (action_attempts (db s)) = Some a0"
        "ar_status a0 = e"
      by (auto simp: status_of_def)
    have sel: "select_one (\<lambda>x. ar_action_id x = aid) (action_attempts (moved (db s) aid e (?f ?now)))
        = Some (?f ?now a0)"
      using a0 by (simp add: moved_def select_one_update [where k = ar_action_id])
    show ?thesis
    proof (cases "append_event aid st out ?s1")
      case (Pair r1 t1)
      show ?thesis
      proof (cases r1)
        case (Inl x)
        then show ?thesis using assms(1) Pair True
          by (auto simp: transition_action_def op_defs update_rows_eq rc moved_def
              split: prod.splits)
      next
        case (Inr u)
        then have we: "with_event (moved (db s) aid e (?f ?now)) aid st out (db t1)"
          using Pair append_event_Inr by fastforce
        then have "select_one (\<lambda>x. ar_action_id x = aid) (action_attempts (db t1)) = Some (?f ?now a0)"
          using sel by (auto simp: with_event_def)
        then have "r = Inr (?f ?now a0) \<and> t = t1"
          using assms(1) Pair Inr True
          by (auto simp: transition_action_def op_defs update_rows_eq rc moved_def get_action_eq
              split: prod.splits)
        then show ?thesis using we True select_one_Some [OF a0(1)] by auto
      qed
    qed
  qed
qed

lemma claim_action_cases:
  assumes "claim_action aid s = (r, t)" and "action_keys (db s)"
  shows "(db t = db s \<and> (\<forall>a. r \<noteq> Inr (a, True)) \<and>
          (\<forall>a. r = Inr (a, False) \<longrightarrow> a \<in> set (action_attempts (db s)) \<and> ar_action_id a = aid \<and>
                                  ar_status a \<noteq> AUTHORIZED)) \<or>
    (\<exists>a now. r = Inr (a, True) \<and> status_of (db s) aid = Some AUTHORIZED \<and>
       ar_action_id a = aid \<and> ar_status a = DISPATCHED \<and>
       with_event (moved (db s) aid AUTHORIZED
         (\<lambda>x. x\<lparr>ar_status := DISPATCHED, ar_updated_at := now\<rparr>)) aid DISPATCHED None (db t))"
proof -
  let ?f = "\<lambda>now x. x\<lparr>ar_status := DISPATCHED, ar_updated_at := now\<rparr>"
  let ?now = "clock_src s (clock_idx s)"
  let ?s1 = "s\<lparr>clock_idx := Suc (clock_idx s), db := moved (db s) aid AUTHORIZED (?f ?now)\<rparr>"
  have keys: "distinct (map ar_action_id (action_attempts (db s)))"
    using assms(2) by (simp add: action_keys_def)
  have rc: "row_count (\<lambda>x. ar_action_id x = aid \<and> ar_status x = AUTHORIZED)
      (action_attempts (db s)) = (if status_of (db s) aid = Some AUTHORIZED then 1 else 0)"
    unfolding row_count_key [OF keys] by (auto simp: status_of_def split: option.splits)
  have same: "\<not> status_of (db s) aid = Some AUTHORIZED \<Longrightarrow>
      action_attempts (moved (db s) aid AUTHORIZED (?f ?now)) = action_attempts (db s)"
    using rc by (auto simp: moved_def sql_update_def row_count_def filter_empty_conv
        intro!: map_idI split: if_splits)
  show ?thesis
  proof (cases "status_of (db s) aid = Some AUTHORIZED")
    case False
    then have "db t = db s \<and> (\<forall>a. r \<noteq> Inr (a, True)) \<and>
        (\<forall>a. r = Inr (a, False) \<longrightarrow> select_one (\<lambda>x. ar_action_id x = aid) (action_attempts (db s)) = Some a)"
      using assms(1) same [unfolded moved_def]
      by (auto simp: claim_action_def op_defs update_rows_eq rc get_action_eq split: option.splits)
    then show ?thesis using False by (auto simp: status_of_def dest: select_one_Some)
  next
    case True
    then obtain a0 where a0: "select_one (\<lambda>x. ar_action_id x = aid) (action_attempts (db s)) = Some a0"
        "ar_status a0 = AUTHORIZED"
      by (auto simp: status_of_def)
    have sel: "select_one (\<lambda>x. ar_action_id x = aid)
        (action_attempts (moved (db s) aid AUTHORIZED (?f ?now))) = Some (?f ?now a0)"
      using a0 by (simp add: moved_def select_one_update [where k = ar_action_id])
    obtain r1 t1 where ev: "append_event aid DISPATCHED None ?s1 = (r1, t1)" by fastforce
    show ?thesis
    proof (cases r1)
      case (Inl x)
      then show ?thesis using assms(1) ev True
        by (auto simp: claim_action_def op_defs update_rows_eq rc moved_def split: prod.splits)
    next
      case (Inr u)
      then have we: "with_event (moved (db s) aid AUTHORIZED (?f ?now)) aid DISPATCHED None (db t1)"
        using ev append_event_Inr by fastforce
      then have "select_one (\<lambda>x. ar_action_id x = aid) (action_attempts (db t1)) = Some (?f ?now a0)"
        using sel by (auto simp: with_event_def)
      then have "r = Inr (?f ?now a0, True) \<and> t = t1"
        using assms(1) ev Inr True
        by (auto simp: claim_action_def op_defs update_rows_eq rc moved_def get_action_eq
            split: prod.splits)
      then show ?thesis using we True select_one_Some [OF a0(1)] by auto
    qed
  qed
qed

section \<open>Transitions of a proposal and of a handoff\<close>

definition proposal_status :: "core_db \<Rightarrow> string \<Rightarrow> ActionProposalStatus option" where
  "proposal_status d pid =
     map_option pr_status (select_one (\<lambda>x. pr_proposal_id x = pid) (action_proposals d))"

definition proposal_keys :: "core_db \<Rightarrow> bool" where
  "proposal_keys d \<longleftrightarrow> distinct (map pr_proposal_id (action_proposals d))"

definition confirm_row ::
  "ActionProposalStatus \<Rightarrow> string option \<Rightarrow> string option \<Rightarrow> time \<Rightarrow> ActionProposal \<Rightarrow> ActionProposal" where
  "confirm_row status evidence action_id now x = x\<lparr>pr_status := status,
     pr_confirmation_evidence_ref := coalesce evidence (pr_confirmation_evidence_ref x),
     pr_action_id := coalesce action_id (pr_action_id x),
     pr_updated_at := now,
     pr_confirmed_at := coalesce (if status = P_CONFIRMED then Some now else None) (pr_confirmed_at x),
     pr_cancelled_at := coalesce (if status = P_CANCELLED then Some now else None) (pr_cancelled_at x)\<rparr>"

lemma confirm_row_simps [simp]:
  "pr_proposal_id (confirm_row st e a n x) = pr_proposal_id x"
  "pr_status (confirm_row st e a n x) = st"
  "pr_customer_id (confirm_row st e a n x) = pr_customer_id x"
  "pr_actor_id (confirm_row st e a n x) = pr_actor_id x"
  "pr_idempotency_key (confirm_row st e a n x) = pr_idempotency_key x"
  "pr_action_id (confirm_row st e a n x) = coalesce a (pr_action_id x)"
  by (simp_all add: confirm_row_def)

lemma get_action_proposal_eq:
  "get_action_proposal pid s =
     (Inr (select_one (\<lambda>x. pr_proposal_id x = pid) (action_proposals (db s))), s)"
  by (simp add: get_action_proposal_def op_defs)

lemma transition_action_proposal_eq:
  assumes "proposal_keys (db s)"
  shows "transition_action_proposal pid e st ev aid s =
    (let now = clock_src s (clock_idx s); s' = s\<lparr>clock_idx := Suc (clock_idx s)\<rparr> in
     case select_one (\<lambda>x. pr_proposal_id x = pid) (action_proposals (db s)) of
       Some p \<Rightarrow> if pr_status p = e
         then (Inr (confirm_row st ev aid now p),
               s'\<lparr>db := (db s)\<lparr>action_proposals := sql_update
                  (\<lambda>x. pr_proposal_id x = pid \<and> pr_status x = e) (confirm_row st ev aid now)
                  (action_proposals (db s))\<rparr>\<rparr>)
         else (Inl (ActionConflict (''Action proposal '' @ pid @
                '' transition conflict from '' @ proposal_status_value e)), s')
     | None \<Rightarrow> (Inl (ActionConflict (''Action proposal '' @ pid @
                '' transition conflict from '' @ proposal_status_value e)), s'))"
proof -
  have keys: "distinct (map pr_proposal_id (action_proposals (db s)))"
    using assms by (simp add: proposal_keys_def)
  note rc = row_count_key [OF keys, of pid "\<lambda>x. pr_status x = e"]
  note sel = select_one_update [where k = pr_proposal_id and a = pid and b = pid
      and q = "\<lambda>x. pr_status x = e"]
  show ?thesis
    by (simp add: transition_action_proposal_def op_defs update_rows_eq rc Let_def
        get_action_proposal_eq sel confirm_row_def [abs_def] split: option.splits)
qed

definition handoff_status :: "core_db \<Rightarrow> string \<Rightarrow> string option" where
  "handoff_status d hid = map_option ho_status (select_one (\<lambda>x. ho_handoff_id x = hid) (handoffs d))"

definition handoff_keys :: "core_db \<Rightarrow> bool" where
  "handoff_keys d \<longleftrightarrow> distinct (map ho_handoff_id (handoffs d))"

lemma get_handoff_eq:
  "get_handoff hid s = (Inr (select_one (\<lambda>x. ho_handoff_id x = hid) (handoffs (db s))), s)"
  by (simp add: get_handoff_def op_defs)

lemma store_transition_handoff_eq:
  assumes "handoff_keys (db s)"
  shows "store_transition_handoff hid e st agent s =
    (let s' = s\<lparr>clock_idx := Suc (clock_idx s)\<rparr>;
         f = (\<lambda>x. x\<lparr>ho_status := st, ho_assigned_agent_id := agent,
                     ho_updated_at := clock_src s (clock_idx s)\<rparr>);
         d = (db s)\<lparr>handoffs := sql_update (\<lambda>x. ho_handoff_id x = hid \<and> ho_status x = e) f
                (handoffs (db s))\<rparr> in
     case select_one (\<lambda>x. ho_handoff_id x = hid) (handoffs (db s)) of
       Some h \<Rightarrow> if ho_status h = e then (Inr (f h), s'\<lparr>db := d\<rparr>)
         else (Inl (HandoffConflict (''Handoff '' @ hid @ '' transition conflict from '' @ e)),
               s'\<lparr>db := d\<rparr>)
     | None \<Rightarrow> (Inl (HandoffConflict (''Handoff '' @ hid @ '' transition conflict from '' @ e)),
               s'\<lparr>db := d\<rparr>))"
proof -
  have keys: "distinct (map ho_handoff_id (handoffs (db s)))"
    using assms by (simp add: handoff_keys_def)
  have rc: "row_count (\<lambda>x. ho_handoff_id x = hid \<and> ho_status x = e) (handoffs (db s)) =
     (case select_one (\<lambda>x. ho_handoff_id x = hid) (handoffs (db s)) of
        None \<Rightarrow> 0 | Some x \<Rightarrow> if ho_status x = e then 1 else 0)"
    by (rule row_count_key [OF keys])
  show ?thesis
  proof (cases "select_one (\<lambda>x. ho_handoff_id x = hid) (handoffs (db s))")
    case None
    then show ?thesis unfolding store_transition_handoff_def Let_def
      by (simp add: op_defs update_rows_eq rc)
  next
    case (Some h)
    then show ?thesis unfolding store_transition_handoff_def Let_def
      by (cases "ho_status h = e")
        (simp_all add: op_defs update_rows_eq rc
          get_handoff_eq select_one_update [where k = ho_handoff_id])
  qed
qed

text \<open>An update whose condition no row meets changes nothing.\<close>

lemma sql_update_idle: "row_count p xs = 0 \<Longrightarrow> sql_update p f xs = xs"
  by (auto simp: sql_update_def row_count_def filter_empty_conv intro!: map_idI)

section \<open>The compare-and-set contract\<close>

text \<open>
  Three tables of the core store are advanced by an \<open>UPDATE ... WHERE key=? AND status=?\<close> whose row
  count decides the race. The contract: the transition succeeds only from the expected status, it
  touches one row, and when it fails nothing changed.
\<close>

locale cas_table =
  fixes keyed :: "core_db \<Rightarrow> bool"
    and status :: "core_db \<Rightarrow> string \<Rightarrow> 'st option"
    and cas :: "string \<Rightarrow> 'st \<Rightarrow> 'st \<Rightarrow> 'arg \<Rightarrow> ('r, 'z) kop"
  assumes cas_error: "keyed (db s) \<Longrightarrow> cas k e st a s = (Inl x, t) \<Longrightarrow> db t = db s"
    and cas_from: "keyed (db s) \<Longrightarrow> cas k e st a s = (Inr r, t) \<Longrightarrow> status (db s) k = Some e"
    and cas_to: "keyed (db s) \<Longrightarrow> cas k e st a s = (Inr r, t) \<Longrightarrow> status (db t) k = Some st"
    and cas_frame: "keyed (db s) \<Longrightarrow> cas k e st a s = (Inr r, t) \<Longrightarrow> k' \<noteq> k \<Longrightarrow>
          status (db t) k' = status (db s) k'"
    and cas_keyed: "keyed (db s) \<Longrightarrow> cas k e st a s = (Inr r, t) \<Longrightarrow> keyed (db t)"
begin

text \<open>Of two tasks racing from the same status, the second one loses and changes nothing.\<close>

lemma race:
  assumes "keyed (db s)" and "e \<noteq> st" and "cas k e st a s = (Inr r, t)"
  shows "\<exists>x u. cas k e st' a' t = (Inl x, u) \<and> db u = db t"
proof -
  have kt: "keyed (db t)" and st: "status (db t) k = Some st"
    using assms cas_keyed cas_to by blast+
  obtain r' u where c: "cas k e st' a' t = (r', u)" by fastforce
  then show ?thesis
    using cas_from [OF kt] cas_error [OF kt] st assms(2) by (cases r') fastforce+
qed

text \<open>A run of transitions, by any number of tasks in any order.\<close>

fun runs :: "(string \<times> 'st \<times> 'st \<times> 'arg) list \<Rightarrow> 'z kworld_scheme \<Rightarrow> 'z kworld_scheme" where
  "runs [] s = s"
| "runs ((k, e, st, a) # reqs) s = runs reqs (snd (cas k e st a s))"

lemma step_status:
  assumes "keyed (db s)" and "status (db s) k = Some x"
  shows "keyed (db (snd (cas k' e st a s))) \<and>
    (status (db (snd (cas k' e st a s))) k = Some x \<or>
     k' = k \<and> x = e \<and> status (db (snd (cas k' e st a s))) k = Some st)"
proof (cases "cas k' e st a s")
  case (Pair r t)
  show ?thesis
  proof (cases r)
    case (Inl y)
    then show ?thesis using assms Pair cas_error by fastforce
  next
    case (Inr y)
    then have c: "cas k' e st a s = (Inr y, t)" using Pair by simp
    then show ?thesis
      using assms cas_keyed [OF assms(1) c] cas_from [OF assms(1) c] cas_to [OF assms(1) c]
        cas_frame [OF assms(1) c]
      by (cases "k = k'") auto
  qed
qed

lemma runs_follow_edges:
  assumes "keyed (db s)" and "status (db s) k = Some x"
    and "\<forall>(k', e, st, a) \<in> set reqs. edge e st"
  shows "\<exists>y. status (db (runs reqs s)) k = Some y \<and> edge\<^sup>*\<^sup>* x y"
  using assms
proof (induction reqs arbitrary: s x)
  case Nil
  then show ?case by auto
next
  case (Cons q reqs)
  obtain k' e st a where q: "q = (k', e, st, a)" by (cases q) auto
  let ?t = "snd (cas k' e st a s)"
  obtain x' where x': "status (db ?t) k = Some x'" "x' = x \<or> edge x x'" and kt: "keyed (db ?t)"
    using step_status [OF Cons.prems(1,2), of k' e st a] Cons.prems(3) q by auto
  then obtain y where "status (db (runs reqs ?t)) k = Some y" "edge\<^sup>*\<^sup>* x' y"
    using Cons.IH [OF kt x'(1)] Cons.prems(3) by auto
  then show ?case using x'(2) q by (auto intro: converse_rtranclp_into_rtranclp)
qed

lemma runs_terminal:
  assumes "keyed (db s)" and "status (db s) k = Some x"
    and "\<forall>(k', e, st, a) \<in> set reqs. edge e st" and "\<And>y. \<not> edge x y"
  shows "status (db (runs reqs s)) k = Some x"
  using runs_follow_edges [OF assms(1-3)] assms(4) by (metis converse_rtranclpE)

end

interpretation action_cas: cas_table action_keys status_of
  "\<lambda>k e st out. transition_action k e st out"
proof
  fix s t :: "'z kworld_scheme" and k k' e st out x r
  assume keys: "action_keys (db s)"
  note cases = transition_action_cases [OF _ keys]
  show "transition_action k e st out s = (Inl x, t) \<Longrightarrow> db t = db s"
    by (drule cases) auto
  assume c: "transition_action k e st out s = (Inr r, t)"
  then show "status_of (db s) k = Some e"
    by (auto dest!: cases)
  from c obtain now where we: "with_event (moved (db s) k e
      (\<lambda>x. x\<lparr>ar_status := st, ar_outcome := out, ar_updated_at := now\<rparr>)) k st out (db t)"
    and from_e: "status_of (db s) k = Some e"
    by (auto dest!: cases)
  from we have rows: "action_attempts (db t) = sql_update (\<lambda>x. ar_action_id x = k \<and> ar_status x = e)
      (\<lambda>x. x\<lparr>ar_status := st, ar_outcome := out, ar_updated_at := now\<rparr>) (action_attempts (db s))"
    by (auto simp: with_event_def moved_def)
  show "status_of (db t) k = Some st" using from_e
    by (auto simp: status_of_def rows select_one_update [where k = ar_action_id])
  show "k' \<noteq> k \<Longrightarrow> status_of (db t) k' = status_of (db s) k'"
    by (simp add: status_of_def rows select_one_update [where k = ar_action_id] option.map_comp
        comp_def)
  show "action_keys (db t)" using keys by (simp add: action_keys_def rows)
qed

interpretation proposal_cas: cas_table proposal_keys proposal_status
  "\<lambda>k e st (ev, aid). transition_action_proposal k e st ev aid"
  by unfold_locales
    (auto simp: transition_action_proposal_eq Let_def proposal_status_def proposal_keys_def
      select_one_update [where k = pr_proposal_id] option.map_comp comp_def
      split: option.splits if_splits)

interpretation handoff_cas: cas_table handoff_keys handoff_status
  "\<lambda>k e st agent. store_transition_handoff k e st agent"
proof
  fix s t :: "'z kworld_scheme" and k k' e st agent x r
  assume keys: "handoff_keys (db s)"
  then have d: "distinct (map ho_handoff_id (handoffs (db s)))" by (simp add: handoff_keys_def)
  note eq = store_transition_handoff_eq [OF keys, unfolded Let_def]
  have same: "sql_update (\<lambda>x. ho_handoff_id x = k \<and> ho_status x = e) f (handoffs (db s)) = handoffs (db s)"
    if "handoff_status (db s) k \<noteq> Some e" for f
  proof (rule sql_update_idle)
    show "row_count (\<lambda>x. ho_handoff_id x = k \<and> ho_status x = e) (handoffs (db s)) = 0"
      using that by (auto simp: row_count_key [OF d] handoff_status_def split: option.splits)
  qed
  show "db t = db s" if "store_transition_handoff k e st agent s = (Inl x, t)"
  proof -
    from that have n: "handoff_status (db s) k \<noteq> Some e"
      by (auto simp: eq handoff_status_def split: option.splits if_splits)
    show ?thesis using that n
      by (auto simp: eq handoff_status_def same [OF n] split: option.splits if_splits)
  qed
  assume "store_transition_handoff k e st agent s = (Inr r, t)"
  then show "handoff_status (db s) k = Some e" "handoff_status (db t) k = Some st"
    "k' \<noteq> k \<Longrightarrow> handoff_status (db t) k' = handoff_status (db s) k'" "handoff_keys (db t)"
    using keys
    by (auto simp: eq handoff_status_def handoff_keys_def select_one_update [where k = ho_handoff_id]
        option.map_comp comp_def split: option.splits if_splits)
qed

end
