(* ===== verification/Kernel_Actions.thy ===== *)
theory Kernel_Actions
  imports Kernel_Laws
begin

text \<open>
  The action kernel as a transition system. A step is any one operation of the store, called by any
  task with any arguments the callers of \<open>core/\<close> can pass, so a run of steps is any interleaving of
  concurrent requests and workers. The invariant ties the status of every action to its
  append-only event log.
\<close>

section \<open>Case versions\<close>

definition case_version :: "core_db \<Rightarrow> string \<Rightarrow> int option" where
  "case_version d cid = map_option cr_version (select_one (\<lambda>x. cr_case_id x = cid) (workflow_cases d))"

definition case_keys :: "core_db \<Rightarrow> bool" where
  "case_keys d \<longleftrightarrow> distinct (map cr_case_id (workflow_cases d))"

definition bumped :: "core_db \<Rightarrow> string \<Rightarrow> int \<Rightarrow> core_db" where
  "bumped d cid v = d\<lparr>workflow_cases := sql_update (\<lambda>x. cr_case_id x = cid \<and> cr_version x = v)
     (\<lambda>x. x\<lparr>cr_version := cr_version x + 1\<rparr>) (workflow_cases d)\<rparr>"

lemma bump_case_version_eq:
  assumes "case_keys (db s)"
  shows "bump_case_version cid v s =
    (if case_version (db s) cid = Some v then (Inr (), s\<lparr>db := bumped (db s) cid v\<rparr>)
     else (Inl (CaseConflict (''Case '' @ cid @ '' version conflict'')), s\<lparr>db := bumped (db s) cid v\<rparr>))"
proof -
  have keys: "distinct (map cr_case_id (workflow_cases (db s)))"
    using assms by (simp add: case_keys_def)
  have "row_count (\<lambda>x. cr_case_id x = cid \<and> cr_version x = v) (workflow_cases (db s)) =
      (if case_version (db s) cid = Some v then 1 else 0)"
    unfolding row_count_key [OF keys] by (auto simp: case_version_def split: option.splits)
  then show ?thesis
    by (simp add: bump_case_version_def bindE_def update_rows_eq bumped_def raise_if_def
        raiseE_def returnE_def)
qed

lemma case_version_bumped:
  "case_version (bumped d cid v) c =
     (if c = cid \<and> case_version d c = Some v then Some (v + 1) else case_version d c)"
  by (cases "select_one (\<lambda>x. cr_case_id x = c) (workflow_cases d)")
    (auto simp: case_version_def bumped_def select_one_update [where k = cr_case_id])

lemma bumped_simps [simp]:
  "action_attempts (bumped d cid v) = action_attempts d"
  "action_events (bumped d cid v) = action_events d"
  "core_outbox (bumped d cid v) = core_outbox d"
  "case_facts (bumped d cid v) = case_facts d"
  "case_keys (bumped d cid v) = case_keys d"
  by (simp_all add: bumped_def case_keys_def)

section \<open>Inserting an action\<close>

text \<open>
  What a successful insertion adds: the attempt, the first two events and the outbox row, all in
  the transaction that bumps the version of the case.
\<close>

definition action_inserted :: "core_db \<Rightarrow> ActionRecord \<Rightarrow> int \<Rightarrow> core_db \<Rightarrow> bool" where
  "action_inserted d r v d' \<longleftrightarrow> (\<exists>d1 d2 ob.
     case_version d (cmd_case_id (ar_command r)) = Some v \<and>
     (\<forall>x \<in> set (action_attempts d). ar_action_id x \<noteq> ar_action_id r \<and>
        cmd_idempotency_key (ar_command x) \<noteq> cmd_idempotency_key (ar_command r)) \<and>
     with_event ((bumped d (cmd_case_id (ar_command r)) v)
         \<lparr>action_attempts := action_attempts d @ [r\<lparr>ar_outcome := None\<rparr>]\<rparr>)
       (ar_action_id r) REQUESTED None d1 \<and>
     with_event d1 (ar_action_id r) AUTHORIZED None d2 \<and>
     (\<forall>x \<in> set (core_outbox d). ob_outbox_id x \<noteq> ob_outbox_id ob) \<and>
     ob_topic ob = ''action.dispatch'' \<and> ob_aggregate_id ob = ar_action_id r \<and>
     ob_status ob = O_PENDING \<and> ob_attempts ob = 0 \<and>
     d' = d2\<lparr>core_outbox := core_outbox d2 @ [ob]\<rparr>)"

lemma with_event_frame:
  assumes "with_event d aid st det d'"
  shows "action_attempts d' = action_attempts d" "core_outbox d' = core_outbox d"
    "workflow_cases d' = workflow_cases d" "case_facts d' = case_facts d"
    "action_proposals d' = action_proposals d" "handoffs d' = handoffs d"
    "conversation_inbox_v3 d' = conversation_inbox_v3 d"
    "conversation_sequences d' = conversation_sequences d" "core_migrations d' = core_migrations d"
  using assms by (auto simp: with_event_def)

lemma insert_action_cases:
  assumes "insert_action r v s = (x, t)" and "case_keys (db s)"
  shows "(\<exists>e. x = Inl e \<and> db t = db s) \<or> (x = Inr r \<and> action_inserted (db s) r v (db t))"
proof (cases x)
  case (Inl e)
  then show ?thesis using assms(1) by (auto simp: insert_action_def dest: tx_Inl_db)
next
  case (Inr y)
  let ?cid = "cmd_case_id (ar_command r)"
  let ?s1 = "s\<lparr>db := (bumped (db s) ?cid v)\<lparr>action_attempts := action_attempts (db s) @ [r\<lparr>ar_outcome := None\<rparr>]\<rparr>\<rparr>"
  obtain u1 t1 u2 t2 where
    y: "y = r" and ver: "case_version (db s) ?cid = Some v"
    and fresh: "\<forall>x \<in> set (action_attempts (db s)). ar_action_id x \<noteq> ar_action_id r \<and>
        cmd_idempotency_key (ar_command x) \<noteq> cmd_idempotency_key (ar_command r)"
    and e1: "append_event (ar_action_id r) REQUESTED None ?s1 = (Inr u1, t1)"
    and e2: "append_event (ar_action_id r) AUTHORIZED None t1 = (Inr u2, t2)"
    and ob: "\<forall>x \<in> set (core_outbox (db t2)). ob_outbox_id x \<noteq> ''OUT-'' @ uuid_src t2 (uuid_idx t2)"
      "db t = (db t2)\<lparr>core_outbox := core_outbox (db t2) @
          [new_outbox (''OUT-'' @ uuid_src t2 (uuid_idx t2)) ''action.dispatch'' (ar_action_id r)
            [(''action_id'', JStr (ar_action_id r))] (clock_src t2 (clock_idx t2))]\<rparr>"
    using assms(1) [unfolded Inr insert_action_def tx_Inr] assms(2)
    by (auto simp: bindE_Inr bump_case_version_eq insert_attempt_def insert_row_eq insert_outbox_def
        now_op_def uuid_op_def list_ex_iff returnE_def new_outbox_def split: if_splits)
  have w1: "with_event (db ?s1) (ar_action_id r) REQUESTED None (db t1)"
    and w2: "with_event (db t1) (ar_action_id r) AUTHORIZED None (db t2)"
    using e1 e2 append_event_Inr by blast+
  have "action_inserted (db s) r v (db t)"
    unfolding action_inserted_def
    by (rule exI [of _ "db t1"], rule exI [of _ "db t2"],
        rule exI [of _ "new_outbox (''OUT-'' @ uuid_src t2 (uuid_idx t2)) ''action.dispatch''
          (ar_action_id r) [(''action_id'', JStr (ar_action_id r))] (clock_src t2 (clock_idx t2))"])
      (use ver fresh w1 w2 ob with_event_frame [OF w1] with_event_frame [OF w2] in
        \<open>auto simp: new_outbox_def\<close>)
  then show ?thesis using Inr y by blast
qed

section \<open>The lifecycle\<close>

fun action_edge :: "ActionStatus \<Rightarrow> ActionStatus \<Rightarrow> bool" where
  "action_edge REQUESTED st = (st = AUTHORIZED)"
| "action_edge AUTHORIZED st = (st = DISPATCHED)"
| "action_edge DISPATCHED st = (st \<in> {SUCCEEDED, FAILED, UNKNOWN})"
| "action_edge UNKNOWN st = (st \<in> {UNKNOWN, FAILED, RECONCILED})"
| "action_edge _ st = False"

text \<open>The statuses an action has gone through, oldest first.\<close>

definition log_of :: "core_db \<Rightarrow> string \<Rightarrow> ActionStatus list" where
  "log_of d aid = map ev_status (filter (\<lambda>e. ev_action_id e = aid) (action_events d))"

definition lifecycle :: "ActionStatus list \<Rightarrow> bool" where
  "lifecycle xs \<longleftrightarrow> xs \<noteq> [] \<and> hd xs = REQUESTED \<and> successively action_edge xs"

definition outbox_sig :: "core_db \<Rightarrow> (string \<times> string \<times> string) list" where
  "outbox_sig d = map (\<lambda>x. (ob_outbox_id x, ob_topic x, ob_aggregate_id x)) (core_outbox d)"

definition action_inv :: "core_db \<Rightarrow> bool" where
  "action_inv d \<longleftrightarrow>
     case_keys d \<and> action_keys d \<and>
     distinct (map (\<lambda>a. cmd_idempotency_key (ar_command a)) (action_attempts d)) \<and>
     distinct (map ev_event_id (action_events d)) \<and>
     distinct (map ob_outbox_id (core_outbox d)) \<and>
     ev_action_id ` set (action_events d) \<subseteq> ar_action_id ` set (action_attempts d) \<and>
     (\<forall>a \<in> set (action_attempts d).
        lifecycle (log_of d (ar_action_id a)) \<and>
        last (log_of d (ar_action_id a)) = ar_status a \<and>
        (\<exists>ob \<in> set (core_outbox d). ob_topic ob = ''action.dispatch'' \<and>
           ob_aggregate_id ob = ar_action_id a))"

lemma log_of_with_event:
  "with_event d aid st det d' \<Longrightarrow> log_of d' k = log_of d k @ (if k = aid then [st] else [])"
  by (auto simp: with_event_def log_of_def)

lemma lifecycle_snoc: "lifecycle xs \<Longrightarrow> action_edge (last xs) st \<Longrightarrow> lifecycle (xs @ [st])"
  by (auto simp: lifecycle_def successively_append_iff)

lemma with_event_ids:
  assumes "with_event d aid st det d'"
  shows "ev_action_id ` set (action_events d') = insert aid (ev_action_id ` set (action_events d))"
    "distinct (map ev_event_id (action_events d)) \<Longrightarrow> distinct (map ev_event_id (action_events d'))"
  using assms by (auto simp: with_event_def)

text \<open>An insertion starts the log of a new action and leaves the others alone.\<close>

lemma action_inv_insert:
  assumes "action_inv d" and "action_inserted d r v d'" and "ar_status r = AUTHORIZED"
  shows "action_inv d'"
proof -
  let ?aid = "ar_action_id r" and ?b = "bumped d (cmd_case_id (ar_command r)) v"
  let ?d0 = "?b\<lparr>action_attempts := action_attempts d @ [r\<lparr>ar_outcome := None\<rparr>]\<rparr>"
  from assms(2) obtain d1 d2 ob where
    fresh: "\<forall>x \<in> set (action_attempts d). ar_action_id x \<noteq> ?aid \<and>
        cmd_idempotency_key (ar_command x) \<noteq> cmd_idempotency_key (ar_command r)"
    and w1: "with_event ?d0 ?aid REQUESTED None d1" and w2: "with_event d1 ?aid AUTHORIZED None d2"
    and ob: "\<forall>x \<in> set (core_outbox d). ob_outbox_id x \<noteq> ob_outbox_id ob"
      "ob_topic ob = ''action.dispatch''" "ob_aggregate_id ob = ?aid"
    and d': "d' = d2\<lparr>core_outbox := core_outbox d2 @ [ob]\<rparr>"
    unfolding action_inserted_def by blast
  note f1 = with_event_frame [OF w1] and f2 = with_event_frame [OF w2]
  have rows: "action_attempts d' = action_attempts d @ [r\<lparr>ar_outcome := None\<rparr>]"
    and box: "core_outbox d' = core_outbox d @ [ob]"
    and cases: "workflow_cases d' = workflow_cases ?b"
    using f1 f2 d' by simp_all
  have no_log: "log_of d ?aid = []"
    using assms(1) fresh by (fastforce simp: log_of_def action_inv_def filter_empty_conv)
  have log: "log_of d' k = log_of d k @ (if k = ?aid then [REQUESTED, AUTHORIZED] else [])" for k
    using log_of_with_event [OF w1, of k] log_of_with_event [OF w2, of k] d'
    by (simp add: log_of_def)
  have inv: "case_keys d" "action_keys d"
    "distinct (map (\<lambda>a. cmd_idempotency_key (ar_command a)) (action_attempts d))"
    "distinct (map ev_event_id (action_events d))" "distinct (map ob_outbox_id (core_outbox d))"
    "ev_action_id ` set (action_events d) \<subseteq> ar_action_id ` set (action_attempts d)"
    using assms(1) by (simp_all add: action_inv_def)
  have each: "lifecycle (log_of d' (ar_action_id a)) \<and> last (log_of d' (ar_action_id a)) = ar_status a
      \<and> (\<exists>ob \<in> set (core_outbox d'). ob_topic ob = ''action.dispatch'' \<and> ob_aggregate_id ob = ar_action_id a)"
    if "a \<in> set (action_attempts d')" for a
  proof (cases "ar_action_id a = ?aid")
    case True
    then have "a = r\<lparr>ar_outcome := None\<rparr>" using that fresh rows by auto
    then show ?thesis using log no_log assms(3) ob box by (auto simp: lifecycle_def)
  next
    case False
    then have "a \<in> set (action_attempts d)" using that rows by auto
    then show ?thesis using assms(1) log False box by (force simp: action_inv_def)
  qed
  have "case_keys d'" using inv(1) cases by (simp add: case_keys_def bumped_def)
  moreover have "action_keys d'" using inv(2) fresh rows by (auto simp: action_keys_def)
  moreover have "distinct (map (\<lambda>a. cmd_idempotency_key (ar_command a)) (action_attempts d'))"
    using inv(3) fresh rows by auto
  moreover have "distinct (map ev_event_id (action_events d'))"
    using with_event_ids(2) [OF w1] with_event_ids(2) [OF w2] inv(4) d' by simp
  moreover have "distinct (map ob_outbox_id (core_outbox d'))" using inv(5) ob(1) box by auto
  moreover have "ev_action_id ` set (action_events d') \<subseteq> ar_action_id ` set (action_attempts d')"
    using with_event_ids(1) [OF w1] with_event_ids(1) [OF w2] inv(6) rows d' by auto
  ultimately show ?thesis using each by (simp add: action_inv_def)
qed

text \<open>A transition along an edge extends the log of its action.\<close>

lemma action_inv_move:
  assumes "action_inv d" and "status_of d aid = Some e" and "action_edge e st"
    and w: "with_event (moved d aid e f) aid st det d'"
    and f: "\<And>x. ar_action_id (f x) = ar_action_id x" "\<And>x. ar_command (f x) = ar_command x"
      "\<And>x. ar_status (f x) = st"
  shows "action_inv d'"
proof -
  have rows: "action_attempts d' = sql_update (\<lambda>x. ar_action_id x = aid \<and> ar_status x = e) f
      (action_attempts d)" and box: "core_outbox d' = core_outbox d"
      "workflow_cases d' = workflow_cases d"
    using with_event_frame [OF w] by (simp_all add: moved_def)
  have keys: "distinct (map ar_action_id (action_attempts d))"
    using assms(1) by (simp add: action_inv_def action_keys_def)
  have log: "log_of d' k = log_of d k @ (if k = aid then [st] else [])" for k
    using log_of_with_event [OF w, of k] by (simp add: log_of_def moved_def)
  obtain a0 where a0: "a0 \<in> set (action_attempts d)" "ar_action_id a0 = aid" "ar_status a0 = e"
    using assms(2) by (auto simp: status_of_def dest: select_one_Some)
  have each: "lifecycle (log_of d' (ar_action_id a)) \<and> last (log_of d' (ar_action_id a)) = ar_status a
      \<and> (\<exists>ob \<in> set (core_outbox d'). ob_topic ob = ''action.dispatch'' \<and> ob_aggregate_id ob = ar_action_id a)"
    if "a \<in> set (action_attempts d')" for a
    using that unfolding rows
  proof (cases rule: in_sql_updateE)
    case 1
    have "ar_action_id a \<noteq> aid"
    proof
      assume "ar_action_id a = aid"
      then have "a = a0" using keys 1(1) a0 by (auto simp: distinct_map dest: inj_onD)
      then show False using 1(2) a0 by simp
    qed
    then show ?thesis using 1 assms(1) log box by (simp add: action_inv_def)
  next
    case (2 x)
    then show ?thesis using assms(1,3) log box f lifecycle_snoc [of "log_of d aid" st]
      by (auto simp: action_inv_def)
  qed
  have sub: "ev_action_id ` set (action_events d') \<subseteq> ar_action_id ` set (action_attempts d')"
  proof -
    have "ar_action_id ` set (action_attempts d') = ar_action_id ` set (action_attempts d)"
      unfolding rows set_map [symmetric] by (simp add: f)
    then show ?thesis using with_event_ids(1) [OF w] assms(1) a0
      by (auto simp: action_inv_def moved_def)
  qed
  have m: "distinct (map ev_event_id (action_events d'))"
    using with_event_ids(2) [OF w] assms(1) by (simp add: moved_def action_inv_def)
  have "map (\<lambda>a. cmd_idempotency_key (ar_command a)) (action_attempts d') =
      map (\<lambda>a. cmd_idempotency_key (ar_command a)) (action_attempts d)"
    "map ar_action_id (action_attempts d') = map ar_action_id (action_attempts d)"
    unfolding rows by (simp_all add: f)
  then show ?thesis using each sub m assms(1) box
    by (simp add: action_inv_def action_keys_def case_keys_def)
qed

section \<open>Operations on the other tables\<close>

definition action_frame :: "core_db \<Rightarrow> core_db \<Rightarrow> bool" where
  "action_frame d d' \<longleftrightarrow>
     action_attempts d' = action_attempts d \<and> action_events d' = action_events d \<and>
     (case_keys d \<longrightarrow> case_keys d') \<and>
     (\<exists>new. outbox_sig d' = outbox_sig d @ new \<and>
        (distinct (map fst (outbox_sig d)) \<longrightarrow> distinct (map fst (outbox_sig d'))))"

lemma action_frame_same:
  "action_attempts d' = action_attempts d \<Longrightarrow> action_events d' = action_events d \<Longrightarrow>
   workflow_cases d' = workflow_cases d \<Longrightarrow> outbox_sig d' = outbox_sig d \<Longrightarrow> action_frame d d'"
  by (simp add: action_frame_def case_keys_def)

lemma action_frame_refl [simp]: "action_frame d d"
  by (simp add: action_frame_same)

lemma outbox_ids_sig: "map ob_outbox_id (core_outbox d) = map fst (outbox_sig d)"
  by (simp add: outbox_sig_def comp_def)

lemma dispatch_row_sig:
  "(\<exists>ob \<in> set (core_outbox d). ob_topic ob = t \<and> ob_aggregate_id ob = a) \<longleftrightarrow>
   (\<exists>i. (i, t, a) \<in> set (outbox_sig d))"
  by (force simp: outbox_sig_def)

lemma action_inv_frame:
  assumes inv: "action_inv d" and fr: "action_frame d d'"
  shows "action_inv d'"
proof -
  have eq: "action_attempts d' = action_attempts d" "action_events d' = action_events d"
    and "case_keys d'" using assms by (simp_all add: action_frame_def action_inv_def)
  moreover have "distinct (map ob_outbox_id (core_outbox d'))"
    using assms by (auto simp: action_frame_def action_inv_def outbox_ids_sig)
  moreover have "set (outbox_sig d) \<subseteq> set (outbox_sig d')"
    using fr by (auto simp: action_frame_def)
  moreover have "log_of d' = log_of d" by (simp add: log_of_def eq fun_eq_iff)
  ultimately show ?thesis using inv
    unfolding action_inv_def dispatch_row_sig by (simp add: action_keys_def) blast
qed

lemma outbox_sig_update [simp]:
  assumes "\<And>x. ob_outbox_id (f x) = ob_outbox_id x" "\<And>x. ob_topic (f x) = ob_topic x"
    "\<And>x. ob_aggregate_id (f x) = ob_aggregate_id x"
  shows "outbox_sig (d\<lparr>core_outbox := sql_update p f (core_outbox d)\<rparr>) = outbox_sig d"
  by (simp add: outbox_sig_def assms)

lemma create_case_frame: "create_case r s = (x, t) \<Longrightarrow> action_frame (db s) (db t)"
  by (auto simp: create_case_def op_defs action_frame_def case_keys_def outbox_sig_def list_ex_iff
      CaseRecord.defs split: if_splits) blast

lemma append_fact_frame:
  assumes "append_fact cid p v s = (x, t)" and "case_keys (db s)"
  shows "action_frame (db s) (db t)"
  using assms
  by (auto simp: append_fact_def bump_case_version_eq op_defs get_case_def bumped_def case_keys_def
      outbox_sig_def action_frame_def split: if_splits option.splits)

lemma create_action_proposal_frame: "create_action_proposal r s = (x, t) \<Longrightarrow> action_frame (db s) (db t)"
  by (auto simp: create_action_proposal_def op_defs outbox_sig_def intro!: action_frame_same
      split: if_splits)

lemma transition_action_proposal_frame:
  "transition_action_proposal pid e st ev aid s = (x, t) \<Longrightarrow> action_frame (db s) (db t)"
  by (auto simp: transition_action_proposal_def op_defs get_action_proposal_def outbox_sig_def Let_def
      intro!: action_frame_same split: if_splits option.splits)

lemma create_handoff_frame: "create_handoff r s = (x, t) \<Longrightarrow> action_frame (db s) (db t)"
  by (auto simp: create_handoff_def op_defs outbox_sig_def intro!: action_frame_same
      split: if_splits option.splits)

lemma update_handoff_frame: "update_handoff h st ag s = (x, t) \<Longrightarrow> action_frame (db s) (db t)"
  by (auto simp: update_handoff_def op_defs get_handoff_def outbox_sig_def intro!: action_frame_same
      split: if_splits option.splits)

lemma store_transition_handoff_frame:
  "store_transition_handoff h e st ag s = (x, t) \<Longrightarrow> action_frame (db s) (db t)"
  by (auto simp: store_transition_handoff_def op_defs get_handoff_def outbox_sig_def
      intro!: action_frame_same split: if_splits option.splits)

lemma settle_outbox_frame: "settle_outbox oid st ra er s = (x, t) \<Longrightarrow> action_frame (db s) (db t)"
  by (auto simp: settle_outbox_def op_defs intro!: action_frame_same split: option.splits)

lemma enqueue_outbox_frame: "enqueue_outbox tp ag pl s = (x, t) \<Longrightarrow> action_frame (db s) (db t)"
  by (auto simp: enqueue_outbox_def insert_outbox_def new_outbox_def op_defs Let_def outbox_sig_def
      list_ex_iff action_frame_def case_keys_def split: if_splits) blast

lemma lease_fold:
  "foldE (\<lambda>oid _. bindE (update_rows core_outbox set_core_outbox
            (\<lambda>x. ob_outbox_id x = oid) (lease_row owner u now)) (\<lambda>_. returnE ())) ids () s =
   (Inr (), s\<lparr>db := (db s)\<lparr>core_outbox := fold (\<lambda>oid. sql_update (\<lambda>x. ob_outbox_id x = oid)
       (lease_row owner u now)) ids (core_outbox (db s))\<rparr>\<rparr>)"
  by (induction ids arbitrary: s) (simp_all add: bindE_def update_rows_eq returnE_def)

lemma lease_row_simps [simp]:
  "ob_outbox_id (lease_row owner u now x) = ob_outbox_id x"
  "ob_topic (lease_row owner u now x) = ob_topic x"
  "ob_aggregate_id (lease_row owner u now x) = ob_aggregate_id x"
  "ob_status (lease_row owner u now x) = O_LEASED"
  "ob_attempts (lease_row owner u now x) = ob_attempts x + 1"
  "ob_lease_owner (lease_row owner u now x) = Some owner"
  "ob_lease_until (lease_row owner u now x) = Some u"
  "ob_available_at (lease_row owner u now x) = ob_available_at x"
  by (simp_all add: lease_row_def)

lemma outbox_sig_lease [simp]:
  "outbox_sig (d\<lparr>core_outbox := fold (\<lambda>oid. sql_update (\<lambda>x. ob_outbox_id x = oid)
       (lease_row owner u now)) ids (core_outbox d)\<rparr>) = outbox_sig d"
proof (induction ids arbitrary: d)
  case (Cons i ids)
  show ?case using Cons [of "d\<lparr>core_outbox := sql_update (\<lambda>x. ob_outbox_id x = i)
       (lease_row owner u now) (core_outbox d)\<rparr>"] by simp
qed simp

lemma claim_outbox_frame: "claim_outbox w ls n s = (x, t) \<Longrightarrow> action_frame (db s) (db t)"
  by (auto simp: claim_outbox_def Let_def bindE_def now_op_def tx_def read_db_def lease_fold
      returnE_def intro!: action_frame_same)

lemma accept_message_result_frame:
  "accept_message_result env s = (x, t) \<Longrightarrow> action_frame (db s) (db t)"
  by (auto simp: accept_message_result_def settle_message_def store_inbox_message_def op_defs Let_def
      outbox_sig_def intro!: action_frame_same split: if_splits option.splits)

lemma initialize_frame:
  assumes "initialize s = (x, t)" and "action_inv (db s)"
  shows "action_frame (db s) (db t)"
proof -
  have "log_of (db s) (ar_action_id a) \<noteq> []" if "a \<in> set (action_attempts (db s))" for a
    using assms(2) that by (auto simp: action_inv_def lifecycle_def)
  then have "filter (\<lambda>a. \<not> list_ex (\<lambda>e. ev_action_id e = ar_action_id a) (action_events (db s)))
      (action_attempts (db s)) = []"
    by (auto simp: filter_empty_conv list_ex_iff log_of_def)
  then show ?thesis using assms(1)
    by (auto simp: initialize_def op_defs outbox_sig_def intro!: action_frame_same split: if_splits)
qed

section \<open>The step relation\<close>

inductive core_step :: "'z kworld_scheme \<Rightarrow> 'z kworld_scheme \<Rightarrow> bool" where
  environment: "db t = db s \<Longrightarrow> core_step s t"
| insert_action: "insert_action r v s = (x, t) \<Longrightarrow> ar_status r = AUTHORIZED \<Longrightarrow> core_step s t"
| claim_action: "claim_action aid s = (y, t) \<Longrightarrow> core_step s t"
| outcome: "transition_action aid e st out s = (x, t) \<Longrightarrow> st \<in> set (allowed_outcomes e) \<Longrightarrow>
    core_step s t"
| create_case: "create_case c s = (u, t) \<Longrightarrow> core_step s t"
| append_fact: "append_fact cid p v s = (cr, t) \<Longrightarrow> core_step s t"
| propose: "create_action_proposal q s = (qr, t) \<Longrightarrow> core_step s t"
| settle_proposal: "transition_action_proposal pid pe pst ev act s = (qr, t) \<Longrightarrow> core_step s t"
| receive: "accept_message_result m s = (acc, t) \<Longrightarrow> core_step s t"
| enqueue: "enqueue_outbox tp ag pl s = (ob, t) \<Longrightarrow> core_step s t"
| lease: "claim_outbox w ls n s = (obs, t) \<Longrightarrow> core_step s t"
| settle: "settle_outbox oid ost ra er s = (ob, t) \<Longrightarrow> core_step s t"
| hand_off: "create_handoff h s = (u, t) \<Longrightarrow> core_step s t"
| set_handoff: "update_handoff hid hs agent s = (hr, t) \<Longrightarrow> core_step s t"
| move_handoff: "store_transition_handoff hid he hs agent s = (hr, t) \<Longrightarrow> core_step s t"
| start: "initialize s = (u, t) \<Longrightarrow> core_step s t"

lemmas action_frames =
  create_case_frame create_action_proposal_frame transition_action_proposal_frame
  accept_message_result_frame enqueue_outbox_frame claim_outbox_frame settle_outbox_frame
  create_handoff_frame update_handoff_frame store_transition_handoff_frame

lemma allowed_outcomes_edge: "st \<in> set (allowed_outcomes e) \<longleftrightarrow> e \<noteq> REQUESTED \<and> e \<noteq> AUTHORIZED \<and> action_edge e st"
  by (cases e) auto

lemma action_inv_step:
  assumes "core_step s t" and inv: "action_inv (db s)"
  shows "action_inv (db t)"
  using assms(1)
proof cases
  case (insert_action r v x)
  have "case_keys (db s)" using inv by (simp add: action_inv_def)
  from insert_action_cases [OF insert_action(1) this] show ?thesis
    using inv action_inv_insert [OF inv _ insert_action(2)] by metis
next
  case (claim_action aid y)
  have keys: "action_keys (db s)" using inv by (simp add: action_inv_def)
  show ?thesis using claim_action_cases [OF claim_action(1) keys]
  proof (elim disjE exE conjE)
    fix a now
    assume "status_of (db s) aid = Some AUTHORIZED"
      and "with_event (moved (db s) aid AUTHORIZED
         (\<lambda>x. x\<lparr>ar_status := DISPATCHED, ar_updated_at := now\<rparr>)) aid DISPATCHED None (db t)"
    then show ?thesis by (auto intro: action_inv_move [OF inv])
  qed (use inv in simp)
next
  case (outcome aid e st out x)
  have keys: "action_keys (db s)" using inv by (simp add: action_inv_def)
  have edge: "action_edge e st" using outcome(2) by (simp add: allowed_outcomes_edge)
  show ?thesis using transition_action_cases [OF outcome(1) keys]
  proof (elim disjE exE conjE)
    fix a now
    assume "status_of (db s) aid = Some e"
      and "with_event (moved (db s) aid e
         (\<lambda>x. x\<lparr>ar_status := st, ar_outcome := out, ar_updated_at := now\<rparr>)) aid st out (db t)"
    then show ?thesis using edge by (auto intro: action_inv_move [OF inv])
  qed (use inv in simp)
next
  case (append_fact cid p v cr)
  have "case_keys (db s)" using inv by (simp add: action_inv_def)
  then show ?thesis using append_fact_frame [OF append_fact] action_inv_frame [OF inv] by blast
next
  case (start u)
  then show ?thesis using initialize_frame [OF start inv] action_inv_frame [OF inv] by blast
qed (simp add: inv, (blast intro: action_inv_frame [OF inv] action_frames)+)

lemma action_inv_empty: "action_inv empty_db"
  by (simp add: action_inv_def empty_db_def case_keys_def action_keys_def)

text \<open>A fresh installation: the tables exist and are empty.\<close>

definition fresh_install :: "'z kworld_scheme \<Rightarrow> bool" where
  "fresh_install s \<longleftrightarrow> db s = empty_db"

interpretation core_ts: transition_system fresh_install core_step "\<lambda>s. action_inv (db s)"
  by unfold_locales (auto simp: fresh_install_def action_inv_empty intro: action_inv_step)

end
