(* ===== verification/Kernel_Properties.thy ===== *)
theory Kernel_Properties
  imports Kernel_Actions
begin

text \<open>
  What the kernel guarantees over every run: the lifecycle and its event log, idempotency keys,
  the dispatch row of every action, optimistic versions of cases, and the evidence an authorised
  command carries.
\<close>

section \<open>Actions over a run\<close>

definition action_sig :: "core_db \<Rightarrow> (string \<times> ActionCommand) list" where
  "action_sig d = map (\<lambda>a. (ar_action_id a, ar_command a)) (action_attempts d)"

lemma action_sig_frame: "action_frame d d' \<Longrightarrow> action_sig d' = action_sig d \<and> status_of d' = status_of d"
  by (simp add: action_frame_def action_sig_def status_of_def fun_eq_iff)

lemma status_of_append:
  "status_of d k = Some x \<Longrightarrow> action_attempts d' = action_attempts d @ [r] \<Longrightarrow> status_of d' k = Some x"
  by (auto simp: status_of_def select_one_append)

lemma status_of_moved:
  assumes "with_event (moved d aid e f) aid st det d'" and "status_of d aid = Some e"
    and "\<And>x. ar_action_id (f x) = ar_action_id x" "\<And>x. ar_status (f x) = st"
  shows "status_of d' k = (if k = aid then Some st else status_of d k)"
  using assms(2) with_event_frame(1) [OF assms(1)]
  by (auto simp: status_of_def moved_def select_one_update [where k = ar_action_id] assms(3,4)
      option.map_comp comp_def)

lemma action_sig_moved:
  assumes "with_event (moved d aid e f) aid st det d'"
    and "\<And>x. ar_action_id (f x) = ar_action_id x" "\<And>x. ar_command (f x) = ar_command x"
  shows "action_sig d' = action_sig d"
  using with_event_frame(1) [OF assms(1)] by (simp add: action_sig_def moved_def assms(2,3))

text \<open>One step adds attempts and events at the end and moves statuses along edges only.\<close>

definition action_grows :: "core_db \<Rightarrow> core_db \<Rightarrow> bool" where
  "action_grows d d' \<longleftrightarrow> (\<exists>new. action_sig d' = action_sig d @ new) \<and>
     (\<forall>k. \<exists>new. log_of d' k = log_of d k @ new) \<and>
     (\<forall>k x. status_of d k = Some x \<longrightarrow> (\<exists>y. status_of d' k = Some y \<and> (y = x \<or> action_edge x y)))"

lemma action_grows_frame:
  assumes "action_frame d d'"
  shows "action_grows d d'"
proof -
  have "action_events d' = action_events d" using assms by (simp add: action_frame_def)
  then show ?thesis using action_sig_frame [OF assms] by (simp add: action_grows_def log_of_def)
qed

lemma action_grows_moved:
  assumes "with_event (moved d aid e f) aid st det d'" and "status_of d aid = Some e"
    and "action_edge e st" and "\<And>x. ar_action_id (f x) = ar_action_id x"
    and "\<And>x. ar_command (f x) = ar_command x" and "\<And>x. ar_status (f x) = st"
  shows "action_grows d d'"
  using action_sig_moved [OF assms(1,4,5)] status_of_moved [OF assms(1,2,4,6)] assms(2,3)
    log_of_with_event [OF assms(1)]
  by (auto simp: action_grows_def log_of_def moved_def)

lemma action_grows_inserted:
  assumes "action_inserted d r v d'"
  shows "action_grows d d'"
proof -
  have rows: "action_attempts d' = action_attempts d @ [r\<lparr>ar_outcome := None\<rparr>]"
    using assms by (auto simp: action_inserted_def with_event_def)
  have "\<exists>new. log_of d' k = log_of d k @ new" for k
    using assms by (auto simp: action_inserted_def with_event_def log_of_def)
  then show ?thesis using rows status_of_append [OF _ rows] by (auto simp: action_grows_def action_sig_def)
qed

lemma action_grows_step:
  assumes "core_step s t" and inv: "action_inv (db s)"
  shows "action_grows (db s) (db t)"
  using assms(1)
proof cases
  case (insert_action r v x)
  have "case_keys (db s)" using inv by (simp add: action_inv_def)
  from insert_action_cases [OF insert_action(1) this] show ?thesis
    using action_grows_inserted action_grows_frame [OF action_frame_refl] by metis
next
  case (claim_action aid y)
  have keys: "action_keys (db s)" using inv by (simp add: action_inv_def)
  show ?thesis using claim_action_cases [OF claim_action(1) keys]
  proof (elim disjE exE conjE)
    fix a now
    assume "status_of (db s) aid = Some AUTHORIZED"
      and "with_event (moved (db s) aid AUTHORIZED
         (\<lambda>x. x\<lparr>ar_status := DISPATCHED, ar_updated_at := now\<rparr>)) aid DISPATCHED None (db t)"
    then show ?thesis by (auto intro: action_grows_moved)
  qed (simp add: action_grows_frame)
next
  case (outcome aid e st out x)
  have keys: "action_keys (db s)" using inv by (simp add: action_inv_def)
  have edge: "action_edge e st" using outcome(2) by (simp add: allowed_outcomes_edge)
  show ?thesis using transition_action_cases [OF outcome(1) keys]
  proof (elim disjE exE conjE)
    fix a now
    assume "status_of (db s) aid = Some e"
      and "with_event (moved (db s) aid e
         (\<lambda>x. x\<lparr>ar_status := st, ar_outcome := out, ar_updated_at := now\<rparr>)) aid st out (db t)"
    then show ?thesis using edge by (auto intro: action_grows_moved)
  qed (simp add: action_grows_frame)
next
  case (append_fact cid p v cr)
  have "case_keys (db s)" using inv by (simp add: action_inv_def)
  then show ?thesis using append_fact_frame [OF append_fact] action_grows_frame by blast
next
  case (start u)
  then show ?thesis using initialize_frame [OF start inv] action_grows_frame by blast
qed (simp add: action_grows_frame, (blast intro: action_grows_frame action_frames)+)

lemma actions_grow:
  assumes "core_step\<^sup>*\<^sup>* s t" and "action_inv (db s)"
  shows "(\<exists>new. action_sig (db t) = action_sig (db s) @ new) \<and>
    (status_of (db s) k = Some x \<longrightarrow> (\<exists>y. status_of (db t) k = Some y \<and> action_edge\<^sup>*\<^sup>* x y))"
  using assms(1)
proof (induction rule: rtranclp_induct)
  case (step t u)
  have "action_inv (db t)" using core_ts.inv_steps [OF step(1)] assms(2) by simp
  from action_grows_step [OF step(2) this] step.IH show ?case
    unfolding action_grows_def by (metis append.assoc rtranclp.rtrancl_into_rtrancl)
qed auto

text \<open>A lifecycle passes through \<open>dispatched\<close> at most once.\<close>

lemma late_not_dispatched:
  "successively action_edge xs \<Longrightarrow> xs \<noteq> [] \<Longrightarrow> hd xs \<in> {SUCCEEDED, FAILED, UNKNOWN, RECONCILED} \<Longrightarrow>
   count_list xs DISPATCHED = 0"
proof (induction xs)
  case (Cons x xs)
  then show ?case by (cases xs; cases x) auto
qed simp

lemma lifecycle_dispatched_once:
  assumes "lifecycle xs"
  shows "count_list xs DISPATCHED \<le> 1"
proof -
  have two: "successively action_edge ys \<Longrightarrow> ys \<noteq> [] \<Longrightarrow> hd ys = DISPATCHED \<Longrightarrow>
      count_list ys DISPATCHED = 1" for ys
    using late_not_dispatched [of "tl ys"] by (cases ys; cases "tl ys") auto
  have one: "successively action_edge ys \<Longrightarrow> ys \<noteq> [] \<Longrightarrow> hd ys = AUTHORIZED \<Longrightarrow>
      count_list ys DISPATCHED \<le> 1" for ys
    using two [of "tl ys"] by (cases ys; cases "tl ys") auto
  show ?thesis using assms one [of "tl xs"] unfolding lifecycle_def by (cases xs; cases "tl xs") auto
qed

lemma dispatched_at_most_once:
  assumes "action_inv d"
  shows "count_list (log_of d aid) DISPATCHED \<le> 1"
proof (cases "aid \<in> ar_action_id ` set (action_attempts d)")
  case True
  then obtain a where "a \<in> set (action_attempts d)" "aid = ar_action_id a" by auto
  then have "lifecycle (log_of d aid)" using assms by (simp add: action_inv_def)
  then show ?thesis by (rule lifecycle_dispatched_once)
next
  case False
  moreover have "ev_action_id ` set (action_events d) \<subseteq> ar_action_id ` set (action_attempts d)"
    using assms by (simp add: action_inv_def)
  ultimately have "log_of d aid = []" by (auto simp: log_of_def filter_empty_conv)
  then show ?thesis by simp
qed

section \<open>Kernel operations are runs of steps\<close>

interpretation core_run: op_rel "core_step\<^sup>*\<^sup>*"
  by unfold_locales auto

lemma keeps_step: "(\<And>s x t. m s = (x, t) \<Longrightarrow> core_step s t) \<Longrightarrow> core_run.keeps m"
  unfolding core_run.keeps_def by (metis prod.collapse r_into_rtranclp)

lemma keeps_db: "(\<And>s. db (snd (m s)) = db s) \<Longrightarrow> core_run.keeps m"
  unfolding core_run.keeps_def by (metis core_step.environment r_into_rtranclp)

lemma keeps_run: "core_run.keeps m \<Longrightarrow> core_step\<^sup>*\<^sup>* s (snd (m s))"
  by (simp add: core_run.keeps_def)

lemma store_ops_keep:
  "core_run.keeps now_op" "core_run.keeps uuid_op" "core_run.keeps (read_db f)"
  "core_run.keeps (get_case cid)" "core_run.keeps (get_fact cid n)"
  "core_run.keeps (get_action aid)" "core_run.keeps (get_action_by_key key)"
  "core_run.keeps (get_action_proposal pid)" "core_run.keeps (get_handoff hid)"
  "core_run.keeps (list_actions st lm)" "core_run.keeps (list_action_proposals cu co ps lm)"
  by (rule keeps_db, simp add: op_defs get_case_def get_fact_def get_action_def
      get_action_by_key_def get_action_proposal_def get_handoff_def list_actions_def
      list_action_proposals_def)+

lemma write_ops_keep:
  "core_run.keeps (create_case c)" "core_run.keeps (append_fact cid p v)"
  "ar_status r = AUTHORIZED \<Longrightarrow> core_run.keeps (insert_action r v)"
  "core_run.keeps (claim_action aid)" "core_run.keeps (create_action_proposal q)"
  "core_run.keeps (transition_action_proposal pid pe ps ev act)"
  "core_run.keeps (accept_message_result m)" "core_run.keeps (enqueue_outbox tp ag pl)"
  "core_run.keeps (claim_outbox w ls n)" "core_run.keeps (settle_outbox oid os ra er)"
  "core_run.keeps (create_handoff h)" "core_run.keeps (store_transition_handoff hid he hs agent)"
  by (rule keeps_step, erule core_step.intros; simp)+

lemmas core_keeps = core_run.keeps_intros store_ops_keep write_ops_keep

lemma check_parameter_fact_keeps: "core_run.keeps (check_parameter_fact cmd ref)"
  unfolding check_parameter_fact_def
  by (auto split: prod.split option.split intro!: core_keeps)

lemma authorize_action_keeps: "core_run.keeps (authorize_action cmd v)"
  unfolding authorize_action_def authorize_new_action_def Let_def
  by (auto split: option.split intro!: core_keeps check_parameter_fact_keeps)

lemma record_outcome_keeps: "core_run.keeps (record_outcome aid st out)"
proof (rule keeps_step)
  fix s t :: "'a kworld_scheme" and x
  assume r: "record_outcome aid st out s = (x, t)"
  have "t = s \<or> (\<exists>a :: ActionRecord. st \<in> set (allowed_outcomes (ar_status a)) \<and>
      transition_action aid (ar_status a) st out s = (x, t))"
    using r by (auto simp: record_outcome_def bindE_def get_action_eq raise_if_def raiseE_def
        returnE_def split: if_splits option.splits)
  then show "core_step s t" by (auto intro: core_step.environment core_step.outcome)
qed

lemma kernel_create_case_keeps: "core_run.keeps (kernel_create_case c cu p v)"
  unfolding kernel_create_case_def Let_def by (auto intro!: core_keeps)

lemma commit_fact_keeps: "core_run.keeps (commit_fact c p v)"
  unfolding commit_fact_def by (auto intro!: core_keeps)

lemma mark_dispatched_keeps: "core_run.keeps (mark_dispatched aid)"
  unfolding mark_dispatched_def by (auto intro!: core_keeps)

lemmas kernel_keeps = core_keeps authorize_action_keeps record_outcome_keeps
  kernel_create_case_keeps commit_fact_keeps mark_dispatched_keeps

section \<open>What an authorisation has checked\<close>

lemma foldE_checks:
  assumes "\<And>x u. snd (c x u) = u"
  shows "foldE (\<lambda>x _. c x) xs () s = (Inr (), t) \<longleftrightarrow> t = s \<and> (\<forall>x \<in> set xs. fst (c x s) = Inr ())"
proof (induction xs)
  case (Cons x xs)
  have "c x s = (fst (c x s), s)" using assms by (metis prod.collapse)
  then show ?case using Cons by (cases "c x s") (auto simp: bindE_Inr)
qed (auto simp: op_defs)

lemma check_parameter_fact_snd: "snd (check_parameter_fact cmd ref u) = u"
  by (auto simp: check_parameter_fact_def get_fact_def op_defs split: prod.splits option.splits)

text \<open>The fact a parameter is checked against.\<close>

definition backed_by :: "core_db \<Rightarrow> ActionCommand \<Rightarrow> string \<Rightarrow> string \<Rightarrow> bool" where
  "backed_by d cmd parameter fact_name \<longleftrightarrow> (\<exists>f \<in> set (case_facts d). \<exists>required.
     fr_case_id f = cmd_case_id cmd \<and> fp_name f = fact_name \<and> fr_superseded_at f = None \<and>
     dict_get (cmd_required_fact_authority cmd) parameter = Some required \<and>
     AUTHORITY_RANK required \<le> AUTHORITY_RANK (fp_authority f) \<and>
     py_eq (case dict_get (cmd_parameters cmd) parameter of None \<Rightarrow> JNull | Some v \<Rightarrow> v) (fp_value f))"

lemma check_parameter_fact_ok:
  assumes "fst (check_parameter_fact cmd (p, n) s) = Inr ()"
  shows "backed_by (db s) cmd p n"
proof -
  from assms obtain f where
    "select_one (\<lambda>x. fr_case_id x = cmd_case_id cmd \<and> fp_name x = n \<and> fr_superseded_at x = None)
       (case_facts (db s)) = Some f"
    and rest: "\<exists>required. dict_get (cmd_required_fact_authority cmd) p = Some required \<and>
      AUTHORITY_RANK required \<le> AUTHORITY_RANK (fp_authority f) \<and>
      py_eq (case dict_get (cmd_parameters cmd) p of None \<Rightarrow> JNull | Some v \<Rightarrow> v) (fp_value f)"
    by (auto simp: check_parameter_fact_def get_fact_def op_defs split: option.splits if_splits)
  from select_one_Some [OF this(1)] rest show ?thesis
    unfolding backed_by_def by blast
qed

lemma missing_keys_Nil: "missing_keys ns d = [] \<longleftrightarrow> set ns \<subseteq> set (dict_keys d)"
  by (auto simp: missing_keys_def filter_empty_conv)

text \<open>Everything the kernel has established about a command it records as authorised.\<close>

definition command_evidenced :: "core_db \<Rightarrow> ActionCommand \<Rightarrow> bool" where
  "command_evidenced d cmd \<longleftrightarrow> (\<exists>sp. dict_get ACTION_SPECIFICATIONS (cmd_action cmd) = Some sp \<and>
     set (required_parameters sp) \<subseteq> set (dict_keys (cmd_parameters cmd)) \<and>
     (requires_consent sp \<longrightarrow> truthy_str (cmd_consent_evidence_ref cmd)) \<and>
     (requires_approval sp \<longrightarrow> truthy_str (cmd_approval_evidence_ref cmd)) \<and>
     (\<forall>p \<in> set (authoritative_parameters sp). \<exists>n. (p, n) \<in> set (cmd_parameter_fact_refs cmd)) \<and>
     (\<forall>(p, n) \<in> set (cmd_parameter_fact_refs cmd). backed_by d cmd p n))"

lemma authorize_new_action_ok:
  assumes "authorize_new_action cmd sp v s = (Inr a, t)"
  shows "set (required_parameters sp) \<subseteq> set (dict_keys (cmd_parameters cmd)) \<and>
    (requires_consent sp \<longrightarrow> truthy_str (cmd_consent_evidence_ref cmd)) \<and>
    (requires_approval sp \<longrightarrow> truthy_str (cmd_approval_evidence_ref cmd)) \<and>
    set (authoritative_parameters sp) \<subseteq> set (dict_keys (cmd_parameter_fact_refs cmd)) \<and>
    (\<forall>ref \<in> set (cmd_parameter_fact_refs cmd). fst (check_parameter_fact cmd ref s) = Inr ()) \<and>
    insert_action \<lparr>ar_action_id = ''ACT-'' @ uuid_src s (uuid_idx s), ar_command = cmd,
      ar_status = AUTHORIZED, ar_outcome = None, ar_created_at = clock_src s (clock_idx s),
      ar_updated_at = clock_src s (clock_idx s)\<rparr> v
      (s\<lparr>clock_idx := Suc (clock_idx s), uuid_idx := Suc (uuid_idx s)\<rparr>) = (Inr a, t)"
  using assms unfolding authorize_new_action_def Let_def
  by (auto simp: bindE_Inr raise_if_def raiseE_def returnE_def missing_keys_Nil now_op_def uuid_op_def
      foldE_checks [OF check_parameter_fact_snd] split: if_splits)

lemma authorize_action_duplicate:
  "select_one (\<lambda>x. cmd_idempotency_key (ar_command x) = cmd_idempotency_key cmd)
     (action_attempts (db s)) = Some d \<Longrightarrow>
   authorize_action cmd v s =
     (if cmd_eq (ar_command d) cmd then (Inr d, s)
      else (Inl (ValueError ''Idempotency key is already bound to a different action command''), s))"
  by (simp add: authorize_action_def get_action_by_key_def op_defs)

lemma authorize_action_new:
  "select_one (\<lambda>x. cmd_idempotency_key (ar_command x) = cmd_idempotency_key cmd)
     (action_attempts (db s)) = None \<Longrightarrow>
   authorize_action cmd v s =
     (case dict_get ACTION_SPECIFICATIONS (cmd_action cmd) of
        None \<Rightarrow> (Inl (ValueError (''Unknown consequential action: '' @ cmd_action cmd)), s)
      | Some sp \<Rightarrow> authorize_new_action cmd sp v s)"
  by (simp add: authorize_action_def get_action_by_key_def op_defs split: option.split)

definition wf_command :: "ActionCommand \<Rightarrow> bool" where
  "wf_command c \<longleftrightarrow> wf_json (JObj (cmd_parameters c)) \<and>
     distinct (dict_keys (cmd_parameter_fact_refs c)) \<and>
     distinct (dict_keys (cmd_required_fact_authority c))"

lemma cmd_eq_refl: "wf_command c \<Longrightarrow> cmd_eq c c"
  by (auto simp: wf_command_def cmd_eq_def simp del: wf_json.simps intro!: py_eq_refl dict_eq_refl)

text \<open>After a successful authorisation the attempt is on record under its key.\<close>

lemma authorize_action_recorded:
  assumes "authorize_action cmd v s = (Inr a, t)" and "case_keys (db s)" and "wf_command cmd"
  shows "\<exists>c. (ar_action_id a, c) \<in> set (action_sig (db t)) \<and> cmd_eq c cmd \<and>
    cmd_idempotency_key c = cmd_idempotency_key cmd"
proof (cases "select_one (\<lambda>x. cmd_idempotency_key (ar_command x) = cmd_idempotency_key cmd)
     (action_attempts (db s))")
  case None
  then obtain sp where "authorize_new_action cmd sp v s = (Inr a, t)"
    using assms(1) by (auto simp: authorize_action_new split: option.splits)
  note ok = authorize_new_action_ok [OF this]
  let ?r = "\<lparr>ar_action_id = ''ACT-'' @ uuid_src s (uuid_idx s), ar_command = cmd,
      ar_status = AUTHORIZED, ar_outcome = None, ar_created_at = clock_src s (clock_idx s),
      ar_updated_at = clock_src s (clock_idx s)\<rparr>"
  let ?u = "s\<lparr>clock_idx := Suc (clock_idx s), uuid_idx := Suc (uuid_idx s)\<rparr>"
  have "insert_action ?r v ?u = (Inr a, t)" using ok by blast
  then have "a = ?r" "action_inserted (db s) ?r v (db t)"
    using insert_action_cases [of ?r v ?u "Inr a" t] assms(2) by auto
  then have "(ar_action_id a, cmd) \<in> set (action_sig (db t))"
    by (auto simp: action_inserted_def with_event_def action_sig_def)
  then show ?thesis using cmd_eq_refl [OF assms(3)] by blast
next
  case (Some d)
  then have "a = d" "t = s" "cmd_eq (ar_command d) cmd"
    using assms(1) by (auto simp: authorize_action_duplicate split: if_splits)
  then show ?thesis using select_one_Some [OF Some] by (auto simp: action_sig_def)
qed

lemma recorded_found:
  assumes "action_inv d" and "(aid, c) \<in> set (action_sig d)"
  shows "\<exists>b. select_one (\<lambda>x. cmd_idempotency_key (ar_command x) = cmd_idempotency_key c)
     (action_attempts d) = Some b \<and> ar_action_id b = aid \<and> ar_command b = c"
proof -
  from assms(2) obtain b where b: "b \<in> set (action_attempts d)" "ar_action_id b = aid" "ar_command b = c"
    by (auto simp: action_sig_def)
  have "distinct (map (\<lambda>a. cmd_idempotency_key (ar_command a)) (action_attempts d))"
    using assms(1) by (simp add: action_inv_def)
  from select_one_unique [OF this b(1)] show ?thesis using b by auto
qed

section \<open>Facts and versions\<close>

lemma select_upsert_fact:
  "select_one (\<lambda>x. fr_case_id x = cid \<and> fp_name x = n \<and> fr_superseded_at x = None)
     (upsert_fact (fact_row cid p now) rows) =
   (if n = fp_name p then Some (fact_row cid p now)
    else select_one (\<lambda>x. fr_case_id x = cid \<and> fp_name x = n \<and> fr_superseded_at x = None) rows)"
proof -
  let ?r = "fact_row cid p now"
  let ?p = "\<lambda>x. fr_case_id x = cid \<and> fp_name x = n \<and> fr_superseded_at x = None"
  let ?same = "\<lambda>x. fr_case_id x = fr_case_id ?r \<and> fp_name x = fp_name ?r"
  have r: "fr_case_id ?r = cid" "fp_name ?r = fp_name p" "fr_superseded_at ?r = None"
    by (simp_all add: fact_row_def FactProposal.defs FactRecord.defs)
  have upd: "select_one ?p (sql_update ?same (\<lambda>_. ?r) rows) =
      (if n = fp_name p then (if list_ex ?same rows then Some ?r else None) else select_one ?p rows)"
    by (induction rows) (auto simp: select_one_def sql_update_def r)
  show ?thesis
  proof (cases "list_ex ?same rows")
    case True
    then show ?thesis using upd by (simp add: upsert_fact_def)
  next
    case False
    then have "n = fp_name p \<Longrightarrow> select_one ?p rows = None"
      by (auto simp: select_one_None list_ex_iff r)
    then show ?thesis using False
      by (auto simp: upsert_fact_def select_one_append r split: option.splits)
  qed
qed

lemma append_fact_cases:
  assumes "append_fact cid p v s = (x, t)" and "case_keys (db s)"
  shows "if case_version (db s) cid = Some v
    then (\<exists>c. x = Inr c \<and> cr_case_id c = cid \<and> cr_version c = v + 1) \<and>
      db t = (bumped (db s) cid v)\<lparr>case_facts :=
        upsert_fact (fact_row cid p (clock_src s (clock_idx s))) (case_facts (db s))\<rparr>
    else x = Inl (CaseConflict (''Case '' @ cid @ '' version conflict'')) \<and> db t = db s"
proof (cases "case_version (db s) cid = Some v")
  case True
  then obtain c where c: "select_one (\<lambda>x. cr_case_id x = cid) (workflow_cases (db s)) = Some c"
      "cr_version c = v" by (auto simp: case_version_def)
  then have "select_one (\<lambda>x. cr_case_id x = cid) (workflow_cases (bumped (db s) cid v)) =
      Some (c\<lparr>cr_version := v + 1\<rparr>)"
    by (simp add: bumped_def select_one_update [where k = cr_case_id])
  then show ?thesis using assms True c select_one_Some [OF c(1)]
    by (auto simp: append_fact_def bindE_def tx_def bump_case_version_eq now_op_def upd_db_def
        get_case_def read_db_def returnE_def CaseRecord.defs)
next
  case False
  then show ?thesis using assms
    by (auto simp: append_fact_def bindE_def tx_def bump_case_version_eq)
qed

section \<open>The kernel's guarantees\<close>


text \<open>An action is claimed for dispatch at most once: after one task has been told that it
  claimed the action, no later claim of any task is told so, whatever happens in between.\<close>

theorem claim_wins_once:
  assumes "fresh_install s" and "core_step\<^sup>*\<^sup>* s t" and "claim_action aid t = (Inr (a, True), u)"
    and "core_step\<^sup>*\<^sup>* u v"
  shows "fst (claim_action aid v) \<noteq> Inr (b, True)"
proof
  assume win: "fst (claim_action aid v) = Inr (b, True)"
  have inv: "action_inv (db t)" using core_ts.inv_reachable [OF assms(1,2)] .
  then have "action_keys (db t)" by (simp add: action_inv_def)
  from claim_action_cases [OF assms(3) this] obtain now where
    "with_event (moved (db t) aid AUTHORIZED (\<lambda>x. x\<lparr>ar_status := DISPATCHED, ar_updated_at := now\<rparr>))
       aid DISPATCHED None (db u)" "status_of (db t) aid = Some AUTHORIZED" by auto
  from status_of_moved [OF this] have st: "status_of (db u) aid = Some DISPATCHED" by simp
  have inv_u: "action_inv (db u)"
    using inv core_step.claim_action [OF assms(3)] action_inv_step by blast
  then have inv_v: "action_inv (db v)" using core_ts.inv_steps [OF assms(4)] by simp
  obtain y where "status_of (db v) aid = Some y" "action_edge\<^sup>*\<^sup>* DISPATCHED y"
    using actions_grow [OF assms(4) inv_u] st by blast
  moreover have "action_edge\<^sup>*\<^sup>* DISPATCHED y \<Longrightarrow> y \<notin> {REQUESTED, AUTHORIZED}" for y
    by (induction rule: rtranclp_induct) (auto elim: action_edge.elims)
  moreover have "status_of (db v) aid = Some AUTHORIZED"
    using claim_action_cases [of aid v "Inr (b, True)" "snd (claim_action aid v)"]
      inv_v win by (auto simp: action_inv_def prod_eq_iff)
  ultimately show False by force
qed

text \<open>A succeeded, failed or reconciled action never changes its status again.\<close>

theorem terminal_status_stays:
  assumes "fresh_install s" and "core_step\<^sup>*\<^sup>* s t" and "core_step\<^sup>*\<^sup>* t u"
    and "status_of (db t) aid = Some st" and "st \<in> {SUCCEEDED, FAILED, RECONCILED}"
  shows "status_of (db u) aid = Some st"
proof -
  have "action_inv (db t)" using core_ts.inv_reachable [OF assms(1,2)] .
  then obtain y where "status_of (db u) aid = Some y" "action_edge\<^sup>*\<^sup>* st y"
    using actions_grow [OF assms(3)] assms(4) by blast
  moreover have "\<not> action_edge st z" for z using assms(5) by auto
  ultimately show ?thesis by (metis converse_rtranclpE)
qed

text \<open>Authorising a command again, at any later time, by any task and at any case version,
  returns the attempt that was recorded first and changes nothing.\<close>

theorem authorize_action_idempotent:
  assumes "fresh_install s" and "core_step\<^sup>*\<^sup>* s t" and "wf_command cmd"
    and "authorize_action cmd v t = (Inr a, u)" and "core_step\<^sup>*\<^sup>* u w"
  shows "\<exists>b. authorize_action cmd v' w = (Inr b, w) \<and> ar_action_id b = ar_action_id a"
proof -
  have inv: "action_inv (db t)" using core_ts.inv_reachable [OF assms(1,2)] .
  have tu: "core_step\<^sup>*\<^sup>* t u" using core_run.keepsD [OF authorize_action_keeps assms(4)] .
  have inv_u: "action_inv (db u)" using core_ts.inv_steps [OF tu] inv by simp
  have inv_w: "action_inv (db w)" using core_ts.inv_steps [OF assms(5)] inv_u by simp
  obtain c where c: "(ar_action_id a, c) \<in> set (action_sig (db u))" "cmd_eq c cmd"
      "cmd_idempotency_key c = cmd_idempotency_key cmd"
    using authorize_action_recorded [OF assms(4) _ assms(3)] inv by (auto simp: action_inv_def)
  have "(ar_action_id a, c) \<in> set (action_sig (db w))"
    using actions_grow [OF assms(5) inv_u] c(1) by fastforce
  from recorded_found [OF inv_w this] c(2,3) show ?thesis
    by (auto simp: authorize_action_duplicate)
qed

text \<open>C4: A command that is authorised for the first time names an action of the inventory,
  carries all its required parameters and the consent or approval evidence it demands, and every
  authoritative parameter equals a committed fact of the case of sufficient authority.\<close>

theorem authorize_action_evidence:
  assumes "authorize_action cmd v s = (Inr a, t)"
    and "\<forall>x \<in> set (action_attempts (db s)).
      cmd_idempotency_key (ar_command x) \<noteq> cmd_idempotency_key cmd"
  shows "command_evidenced (db s) cmd"
proof -
  from assms obtain sp where sp: "dict_get ACTION_SPECIFICATIONS (cmd_action cmd) = Some sp"
    and new: "authorize_new_action cmd sp v s = (Inr a, t)"
    using authorize_action_new [of cmd s v] by (auto simp: select_one_None split: option.splits)
  note ok = authorize_new_action_ok [OF new]
  have "\<exists>n. (p, n) \<in> set (cmd_parameter_fact_refs cmd)" if "p \<in> set (authoritative_parameters sp)" for p
    using ok that by (force simp: dict_keys_def)
  moreover have "backed_by (db s) cmd p n" if "(p, n) \<in> set (cmd_parameter_fact_refs cmd)" for p n
    using ok that check_parameter_fact_ok by blast
  ultimately show ?thesis unfolding command_evidenced_def using sp ok by blast
qed

text \<open>Every action on record has an \<open>action.dispatch\<close> row in the outbox, so no
  authorised action can be lost between authorisation and delivery, and no two actions share an
  idempotency key.\<close>

theorem action_has_outbox_row:
  assumes "fresh_install s" and "core_step\<^sup>*\<^sup>* s t"
  shows "distinct (map (\<lambda>a. cmd_idempotency_key (ar_command a)) (action_attempts (db t))) \<and>
    (\<forall>a \<in> set (action_attempts (db t)). \<exists>ob \<in> set (core_outbox (db t)).
       ob_topic ob = ''action.dispatch'' \<and> ob_aggregate_id ob = ar_action_id a)"
  using core_ts.inv_reachable [OF assms] by (simp add: action_inv_def)

text \<open>Optimistic concurrency of facts. A commit succeeds exactly when the case is at the
  version the caller expects; it then raises the version by one, the fact reads back as written and
  the other facts of the case are untouched; a second commit that expects the old version raises
  \<open>CaseConflict\<close> and changes nothing.\<close>

theorem commit_fact_versions:
  assumes "case_keys (db s)" and "commit_fact cid p v s = (x, t)"
  shows "if case_version (db s) cid = Some v
    then (\<exists>c. x = Inr c \<and> cr_version c = v + 1) \<and> case_version (db t) cid = Some (v + 1) \<and>
      (\<forall>n. fst (get_fact cid n t) =
         (if n = fp_name p then Inr (Some (fact_row cid p (clock_src s (clock_idx s))))
          else fst (get_fact cid n s))) \<and>
      (\<exists>u. commit_fact cid q v t =
         (Inl (CaseConflict (''Case '' @ cid @ '' version conflict'')), u) \<and> db u = db t)
    else x = Inl (CaseConflict (''Case '' @ cid @ '' version conflict'')) \<and> db t = db s"
proof (cases "case_version (db s) cid = Some v")
  case True
  note c = append_fact_cases [OF assms(2) [unfolded commit_fact_def] assms(1)]
  have dbt: "db t = (bumped (db s) cid v)\<lparr>case_facts :=
        upsert_fact (fact_row cid p (clock_src s (clock_idx s))) (case_facts (db s))\<rparr>"
    using c True by simp
  have ver: "case_version (db t) cid = Some (v + 1)"
    using True dbt case_version_bumped [of "db s" cid v cid] by (simp add: case_version_def)
  have keys: "case_keys (db t)" using assms(1) dbt by (simp add: case_keys_def bumped_def)
  obtain y u where y: "append_fact cid q v t = (y, u)" by fastforce
  have "fst (get_fact cid n t) = (if n = fp_name p
      then Inr (Some (fact_row cid p (clock_src s (clock_idx s)))) else fst (get_fact cid n s))" for n
    by (simp add: get_fact_def read_db_def dbt select_upsert_fact)
  moreover have "y = Inl (CaseConflict (''Case '' @ cid @ '' version conflict'')) \<and> db u = db t"
    using append_fact_cases [OF y keys] ver by simp
  ultimately show ?thesis using c True ver y by (auto simp: commit_fact_def)
next
  case False
  then show ?thesis using append_fact_cases [OF assms(2) [unfolded commit_fact_def] assms(1)] by simp
qed

section \<open>A concrete run\<close>

text \<open>One case, one note authorised on it, dispatched and completed.\<close>

definition demo_start :: kworld where
  "demo_start = \<lparr>clock_src = (\<lambda>n. seconds (int n)), clock_idx = 0,
     uuid_src = (\<lambda>n. replicate n (CHR ''x'')), uuid_idx = 0, db = empty_db\<rparr>"

definition demo_command :: ActionCommand where
  "demo_command = \<lparr>cmd_action = ''add_case_note'', cmd_case_id = ''C1'', cmd_policy_package_id = ''PP'',
     cmd_actor_id = ''agent'', cmd_idempotency_key = ''K1'',
     cmd_parameters = [(''note'', JStr ''called back'')], cmd_parameter_fact_refs = [],
     cmd_required_fact_authority = [], cmd_consent_evidence_ref = None,
     cmd_approval_evidence_ref = None, cmd_policy_activation_signature = None,
     cmd_connector_binding_id = None, cmd_connector_binding_version = None,
     cmd_contract_version = None\<rparr>"

definition demo_case :: kworld where
  "demo_case = snd (kernel_create_case ''C1'' ''U1'' ''refund'' ''1'' demo_start)"

definition demo_authorized :: kworld where
  "demo_authorized = snd (authorize_action demo_command 0 demo_case)"

definition demo_claimed :: kworld where
  "demo_claimed = snd (claim_action ''ACT-'' demo_authorized)"

definition demo_done :: kworld where
  "demo_done = snd (record_outcome ''ACT-'' SUCCEEDED None demo_claimed)"

lemma demo_runs:
  "fresh_install demo_start" "core_step\<^sup>*\<^sup>* demo_start demo_case"
  "core_step\<^sup>*\<^sup>* demo_start demo_authorized" "core_step\<^sup>*\<^sup>* demo_authorized demo_claimed"
  "core_step\<^sup>*\<^sup>* demo_claimed demo_done" "core_step\<^sup>*\<^sup>* demo_start demo_done"
proof -
  show "fresh_install demo_start" by (simp add: fresh_install_def demo_start_def)
  show a: "core_step\<^sup>*\<^sup>* demo_start demo_case"
    unfolding demo_case_def by (rule keeps_run) (rule kernel_create_case_keeps)
  have b: "core_step\<^sup>*\<^sup>* demo_case demo_authorized"
    unfolding demo_authorized_def by (rule keeps_run) (rule authorize_action_keeps)
  then show c: "core_step\<^sup>*\<^sup>* demo_start demo_authorized" using a by simp
  show d: "core_step\<^sup>*\<^sup>* demo_authorized demo_claimed"
    unfolding demo_claimed_def by (rule keeps_run) (rule write_ops_keep)
  show e: "core_step\<^sup>*\<^sup>* demo_claimed demo_done"
    unfolding demo_done_def by (rule keeps_run) (rule record_outcome_keeps)
  show "core_step\<^sup>*\<^sup>* demo_start demo_done" using c d e by simp
qed

lemma demo_results:
  "map (\<lambda>a. (ar_action_id a, ar_status a)) (action_attempts (db demo_done)) = [(''ACT-'', SUCCEEDED)]"
  "status_of (db demo_done) ''ACT-'' = Some SUCCEEDED"
  "wf_command demo_command"
  "map_sum (\<lambda>e. e) ar_action_id (fst (authorize_action demo_command 0 demo_case)) = Inr ''ACT-''"
  "map_sum (\<lambda>e. e) (\<lambda>r. (ar_action_id (fst r), snd r)) (fst (claim_action ''ACT-'' demo_authorized)) =
     Inr (''ACT-'', True)"
  "action_attempts (db demo_case) = []"
  "case_version (db demo_case) ''C1'' = Some 0"
  "map cr_case_id (workflow_cases (db demo_case)) = [''C1'']"
  by code_simp+


theorem claim_wins_once_witness: "\<forall>b. fst (claim_action ''ACT-'' demo_done) \<noteq> Inr (b, True)"
proof -
  obtain a where a: "fst (claim_action ''ACT-'' demo_authorized) = Inr (a, True)"
    using demo_results(5) by (cases "fst (claim_action ''ACT-'' demo_authorized)") auto
  then have "claim_action ''ACT-'' demo_authorized = (Inr (a, True), demo_claimed)"
    by (simp add: demo_claimed_def prod_eq_iff)
  from claim_wins_once [OF demo_runs(1,3) this demo_runs(5)] show ?thesis by blast
qed

theorem terminal_status_stays_witness:
  "status_of (db (snd (initialize demo_done))) ''ACT-'' = Some SUCCEEDED"
proof -
  have "core_step\<^sup>*\<^sup>* demo_done (snd (initialize demo_done))"
    by (rule r_into_rtranclp, rule core_step.start [of _ "fst (initialize demo_done)"]) simp
  from terminal_status_stays [OF demo_runs(1,6) this demo_results(2)] show ?thesis by simp
qed

theorem authorize_action_idempotent_witness:
  "\<exists>b. authorize_action demo_command 7 demo_done = (Inr b, demo_done) \<and> ar_action_id b = ''ACT-''"
proof -
  obtain a where a: "authorize_action demo_command 0 demo_case = (Inr a, demo_authorized)"
      "ar_action_id a = ''ACT-''"
    using demo_results(4) by (cases "authorize_action demo_command 0 demo_case")
      (auto simp: demo_authorized_def map_sum_def split: sum.splits)
  have "core_step\<^sup>*\<^sup>* demo_authorized demo_done" using demo_runs(4,5) by simp
  from authorize_action_idempotent [OF demo_runs(1,2) demo_results(3) a(1) this] a(2)
  show ?thesis by simp
qed

theorem authorize_action_evidence_witness: "command_evidenced (db demo_case) demo_command"
proof -
  obtain a where "authorize_action demo_command 0 demo_case = (Inr a, demo_authorized)"
    using demo_results(4) by (cases "authorize_action demo_command 0 demo_case")
      (auto simp: demo_authorized_def map_sum_def split: sum.splits)
  from authorize_action_evidence [OF this] show ?thesis by (simp add: demo_results(6))
qed

theorem action_has_outbox_row_witness:
  "\<exists>ob \<in> set (core_outbox (db demo_done)). ob_aggregate_id ob = ''ACT-''"
proof -
  obtain a where "a \<in> set (action_attempts (db demo_done))" "ar_action_id a = ''ACT-''"
    using demo_results(1) by (auto simp: map_eq_Cons_conv)
  then show ?thesis using action_has_outbox_row [OF demo_runs(1,6)] by force
qed

definition demo_fact :: FactProposal where
  "demo_fact = \<lparr>fp_name = ''order_id'', fp_value = JStr ''O1'', fp_authority = VERIFIED,
     fp_source = ''orders'', fp_evidence_ref = ''E1'', fp_expires_at = None\<rparr>"

theorem commit_fact_versions_witness:
  "case_version (db (snd (commit_fact ''C1'' demo_fact 0 demo_case))) ''C1'' = Some 1 \<and>
   (\<exists>m. fst (commit_fact ''C1'' demo_fact 0 (snd (commit_fact ''C1'' demo_fact 0 demo_case))) =
      Inl (CaseConflict m))"
proof -
  have k: "case_keys (db demo_case)" by (simp add: case_keys_def demo_results(8))
  have c: "commit_fact ''C1'' demo_fact 0 demo_case =
      (fst (commit_fact ''C1'' demo_fact 0 demo_case), snd (commit_fact ''C1'' demo_fact 0 demo_case))"
    by simp
  from commit_fact_versions [OF k c, of demo_fact] show ?thesis
    by (auto simp: demo_results(7))
qed

end
