(* ===== verification/Policy.thy ===== *)
theory Policy
  imports Kernel_Properties "HOL-Library.Product_Lexorder"
begin

text \<open>
  Governed policy packages (\<open>core/policy.py\<close>): the package, the signer with its separation of
  author and approver, and the in-process registry of active packages. \<open>hmac.new(k, m,
  sha256).hexdigest()\<close> is the parameter \<open>mac k m\<close> of every definition that signs; the message is the
  canonical JSON value whose serialisation the code signs. All that is used of it is that a digest
  is not the empty string.
\<close>

section \<open>Packages\<close>

datatype PolicyLifecycle = DRAFT | APPROVED | ACTIVE | RETIRED

fun lifecycle_value :: "PolicyLifecycle \<Rightarrow> string" where
  "lifecycle_value DRAFT = ''draft''"
| "lifecycle_value APPROVED = ''approved''"
| "lifecycle_value ACTIVE = ''active''"
| "lifecycle_value RETIRED = ''retired''"

record PolicyPackage =
  pp_package_id :: string
  pp_procedure_id :: string
  pp_version :: string
  pp_jurisdiction :: string
  pp_author :: string
  pp_rules :: pdict
  pp_lifecycle :: PolicyLifecycle
  pp_approver :: "string option"
  pp_signing_key_id :: "string option"
  pp_activation_signature :: "string option"
  pp_signature :: "string option"

definition json_opt :: "string option \<Rightarrow> json" where
  "json_opt x = (case x of None \<Rightarrow> JNull | Some s \<Rightarrow> JStr s)"

text \<open>\<open>json.dumps(..., sort_keys=True)\<close> orders the keys of every dict, nested ones included.\<close>

fun sort_keys :: "json \<Rightarrow> json" where
  "sort_keys (JList xs) = JList (map sort_keys xs)"
| "sort_keys (JObj d) = JObj (sort_key fst (map (\<lambda>(k, v). (k, sort_keys v)) d))"
| "sort_keys j = j"

text \<open>Everything but the two signatures, keys in order.\<close>

definition canonical_payload :: "PolicyPackage \<Rightarrow> json" where
  "canonical_payload p = sort_keys (JObj
     [(''package_id'', JStr (pp_package_id p)), (''procedure_id'', JStr (pp_procedure_id p)),
      (''version'', JStr (pp_version p)), (''jurisdiction'', JStr (pp_jurisdiction p)),
      (''author'', JStr (pp_author p)), (''rules'', JObj (pp_rules p)),
      (''lifecycle'', JStr (lifecycle_value (pp_lifecycle p))),
      (''approver'', json_opt (pp_approver p)),
      (''signing_key_id'', json_opt (pp_signing_key_id p))])"

type_synonym mac_fun = "string \<Rightarrow> json \<Rightarrow> string"

section \<open>The signer\<close>

record PolicySigner =
  sg_key :: string
  sg_key_id :: string
  sg_verification_keys :: "(string \<times> string) list"

definition new_signer :: "string \<Rightarrow> string \<Rightarrow> (string \<times> string) list \<Rightarrow> exn + PolicySigner" where
  "new_signer key key_id verification_keys =
     (if length key < 8 then Inl (ValueError ''Signing key is too short'')
      else Inr \<lparr>sg_key = key, sg_key_id = key_id,
                sg_verification_keys = dict_set verification_keys key_id key\<rparr>)"

definition signer_approve ::
  "mac_fun \<Rightarrow> PolicySigner \<Rightarrow> PolicyPackage \<Rightarrow> string \<Rightarrow> exn + PolicyPackage" where
  "signer_approve mac sg package approver =
     (if approver = pp_author package
      then Inl (ValueError ''Policy author and approver must be separate'')
      else let approved = package\<lparr>pp_approver := Some approver, pp_lifecycle := APPROVED,
                pp_signing_key_id := Some (sg_key_id sg), pp_signature := None\<rparr>;
               signature = mac (sg_key sg) (canonical_payload approved) in
           Inr (approved\<lparr>pp_signature := Some signature\<rparr>))"

definition verify :: "mac_fun \<Rightarrow> PolicySigner \<Rightarrow> PolicyPackage \<Rightarrow> bool" where
  "verify mac sg package =
     (if \<not> truthy_str (pp_signature package) \<or> pp_lifecycle package \<notin> {APPROVED, ACTIVE, RETIRED}
      then False
      else case pp_signing_key_id package of
        None \<Rightarrow> False
      | Some kid \<Rightarrow> (case dict_get (sg_verification_keys sg) kid of
          None \<Rightarrow> False
        | Some key \<Rightarrow> pp_signature package = Some (mac key (canonical_payload package))))"

definition signer_activate ::
  "mac_fun \<Rightarrow> PolicySigner \<Rightarrow> PolicyPackage \<Rightarrow> exn + PolicyPackage" where
  "signer_activate mac sg package =
     (if pp_lifecycle package \<noteq> APPROVED \<or> \<not> verify mac sg package
      then Inl (ValueError ''Only a valid approved package can be activated'')
      else let active = package\<lparr>pp_lifecycle := ACTIVE, pp_signing_key_id := Some (sg_key_id sg),
                pp_signature := None\<rparr>;
               signature = mac (sg_key sg) (canonical_payload active) in
           Inr (active\<lparr>pp_signature := Some signature, pp_activation_signature := Some signature\<rparr>))"

definition signer_retire ::
  "mac_fun \<Rightarrow> PolicySigner \<Rightarrow> PolicyPackage \<Rightarrow> exn + PolicyPackage" where
  "signer_retire mac sg package =
     (if pp_lifecycle package \<noteq> ACTIVE \<or> \<not> verify mac sg package
      then Inl (ValueError ''Only a valid active package can be retired'')
      else let retired = package\<lparr>pp_lifecycle := RETIRED, pp_signing_key_id := Some (sg_key_id sg),
                pp_signature := None\<rparr>;
               signature = mac (sg_key sg) (canonical_payload retired) in
           Inr (retired\<lparr>pp_signature := Some signature\<rparr>))"

section \<open>The registry\<close>

record policy_registry =
  reg_active :: "(string \<times> PolicyPackage) list"
  reg_packages :: "(string \<times> PolicyPackage) list"

definition registry_load ::
  "mac_fun \<Rightarrow> PolicySigner \<Rightarrow> PolicyPackage \<Rightarrow> policy_registry \<Rightarrow> exn + policy_registry" where
  "registry_load mac sg package reg =
     (if pp_lifecycle package \<noteq> ACTIVE \<or> \<not> verify mac sg package
      then Inl (ValueError ''Policy registry accepts only valid active packages'')
      else Inr (reg\<lparr>reg_active := dict_set (reg_active reg) (pp_package_id package) package,
                    reg_packages := dict_set (reg_packages reg) (pp_package_id package) package\<rparr>))"

definition registry_load_history ::
  "mac_fun \<Rightarrow> PolicySigner \<Rightarrow> PolicyPackage \<Rightarrow> policy_registry \<Rightarrow> exn + policy_registry" where
  "registry_load_history mac sg package reg =
     (if pp_lifecycle package \<notin> {ACTIVE, RETIRED}
      then Inl (ValueError ''Policy history accepts only active or retired packages'')
      else if \<not> verify mac sg package
      then Inl (ValueError ''Policy history package signature is invalid'')
      else let reg' = reg\<lparr>reg_packages := dict_set (reg_packages reg) (pp_package_id package) package\<rparr> in
        Inr (if pp_lifecycle package = ACTIVE
             then reg'\<lparr>reg_active := dict_set (reg_active reg) (pp_package_id package) package\<rparr>
             else reg'))"

definition registry_require_active :: "policy_registry \<Rightarrow> string \<Rightarrow> exn + PolicyPackage" where
  "registry_require_active reg package_id =
     (case dict_get (reg_active reg) package_id of
        None \<Rightarrow> Inl (ValueError (''Policy package is not active: '' @ package_id))
      | Some p \<Rightarrow> Inr p)"

definition registry_require_snapshot ::
  "mac_fun \<Rightarrow> PolicySigner \<Rightarrow> policy_registry \<Rightarrow> string \<Rightarrow> string \<Rightarrow> exn + PolicyPackage" where
  "registry_require_snapshot mac sg reg package_id activation_signature =
     (case dict_get (reg_packages reg) package_id of
        None \<Rightarrow> Inl (ValueError (''Policy package history is unavailable: '' @ package_id))
      | Some p \<Rightarrow>
          if pp_activation_signature p \<noteq> Some activation_signature
          then Inl (ValueError ''Action policy activation snapshot does not match policy history'')
          else if \<not> verify mac sg p
          then Inl (ValueError ''Action policy history signature is invalid'')
          else Inr p)"

definition registry_retire :: "string \<Rightarrow> policy_registry \<Rightarrow> policy_registry" where
  "registry_retire package_id reg = reg\<lparr>reg_active := dict_pop (reg_active reg) package_id\<rparr>"

definition active_packages :: "policy_registry \<Rightarrow> PolicyPackage list" where
  "active_packages reg = map snd (reg_active reg)"

definition registry_clear :: "policy_registry \<Rightarrow> policy_registry" where
  "registry_clear reg = \<lparr>reg_active = [], reg_packages = []\<rparr>"

section \<open>Properties of the signer\<close>

text \<open>A signer that \<open>new_signer\<close> built can verify what it signs.\<close>

definition signer_ok :: "PolicySigner \<Rightarrow> bool" where
  "signer_ok sg \<longleftrightarrow> dict_get (sg_verification_keys sg) (sg_key_id sg) = Some (sg_key sg)"

lemma new_signer_ok: "new_signer key kid vks = Inr sg \<Longrightarrow> signer_ok sg \<and> 8 \<le> length (sg_key sg)"
  by (auto simp: new_signer_def signer_ok_def split: if_splits)

lemma canonical_payload_unsigned [simp]:
  "canonical_payload (p\<lparr>pp_signature := s\<rparr>) = canonical_payload p"
  "canonical_payload (p\<lparr>pp_activation_signature := s\<rparr>) = canonical_payload p"
  by (simp_all add: canonical_payload_def)

text \<open>A hexadecimal digest is never empty (\<open>verify\<close> treats an empty signature as missing).\<close>

definition digests :: "mac_fun \<Rightarrow> bool" where
  "digests mac \<longleftrightarrow> (\<forall>k m. mac k m \<noteq> [])"

lemma sealed_verifies:
  assumes "digests mac" and "signer_ok sg" and "pp_lifecycle p \<in> {APPROVED, ACTIVE, RETIRED}"
    and "pp_signing_key_id p = Some (sg_key_id sg)"
  shows "verify mac sg (p\<lparr>pp_signature := Some (mac (sg_key sg) (canonical_payload p))\<rparr>)"
  using assms by (auto simp: verify_def truthy_str_def signer_ok_def digests_def)

lemma verify_activation_signature [simp]:
  "verify mac sg (p\<lparr>pp_activation_signature := s\<rparr>) = verify mac sg p"
  by (simp add: verify_def split: option.split)

lemma approve_verifies:
  assumes "digests mac" and "signer_ok sg" and "signer_approve mac sg p a = Inr q"
  shows "verify mac sg q \<and> pp_lifecycle q = APPROVED \<and> pp_approver q = Some a \<and> a \<noteq> pp_author q"
  using assms(3) sealed_verifies [OF assms(1,2)]
  by (auto simp: signer_approve_def Let_def split: if_splits)

lemma activate_verifies:
  assumes "digests mac" and "signer_ok sg" and "signer_activate mac sg p = Inr q"
  shows "verify mac sg q \<and> pp_lifecycle q = ACTIVE \<and> pp_activation_signature q = pp_signature q"
proof -
  let ?a = "p\<lparr>pp_lifecycle := ACTIVE, pp_signing_key_id := Some (sg_key_id sg), pp_signature := None\<rparr>"
  have "verify mac sg (?a\<lparr>pp_signature := Some (mac (sg_key sg) (canonical_payload ?a))\<rparr>)"
    by (rule sealed_verifies [OF assms(1,2)]) simp_all
  then have "verify mac sg (?a\<lparr>pp_signature := Some (mac (sg_key sg) (canonical_payload ?a))\<rparr>
      \<lparr>pp_activation_signature := s\<rparr>)" for s
    by (simp only: verify_activation_signature)
  then show ?thesis using assms(3)
    by (auto simp: signer_activate_def Let_def simp del: verify_activation_signature split: if_splits)
qed

lemma retire_verifies:
  assumes "digests mac" and "signer_ok sg" and "signer_retire mac sg p = Inr q"
  shows "verify mac sg q \<and> pp_lifecycle q = RETIRED \<and>
     pp_activation_signature q = pp_activation_signature p"
  using assms(3) sealed_verifies [OF assms(1,2)]
  by (auto simp: signer_retire_def Let_def split: if_splits)

text \<open>What a transition of the signer leaves as it was.\<close>

lemma signer_keeps:
  "signer_approve mac sg p a = Inr q \<Longrightarrow> pp_package_id q = pp_package_id p \<and>
     pp_procedure_id q = pp_procedure_id p \<and> pp_jurisdiction q = pp_jurisdiction p \<and>
     pp_version q = pp_version p \<and> pp_author q = pp_author p \<and> pp_rules q = pp_rules p"
  "signer_activate mac sg p = Inr q \<Longrightarrow> pp_package_id q = pp_package_id p \<and>
     pp_procedure_id q = pp_procedure_id p \<and> pp_jurisdiction q = pp_jurisdiction p \<and>
     pp_version q = pp_version p \<and> pp_author q = pp_author p \<and> pp_rules q = pp_rules p \<and>
     pp_approver q = pp_approver p \<and> pp_lifecycle p = APPROVED \<and> verify mac sg p \<and>
     pp_lifecycle q = ACTIVE"
  "signer_retire mac sg p = Inr q \<Longrightarrow> pp_package_id q = pp_package_id p \<and>
     pp_procedure_id q = pp_procedure_id p \<and> pp_jurisdiction q = pp_jurisdiction p \<and>
     pp_version q = pp_version p \<and> pp_author q = pp_author p \<and> pp_rules q = pp_rules p \<and>
     pp_approver q = pp_approver p \<and> pp_lifecycle p = ACTIVE \<and> verify mac sg p \<and>
     pp_lifecycle q = RETIRED"
  by (auto simp: signer_approve_def signer_activate_def signer_retire_def Let_def split: if_splits)

end
