(* ===== verification/Policy_Store.thy ===== *)
theory Policy_Store
  imports Policy
begin

text \<open>
  The durable policy repository and the governed workflow over it (\<open>core/policy_store.py\<close>). The
  table \<open>policy_packages\<close> carries a partial unique index: at most one row per procedure and
  jurisdiction is active.
\<close>

section \<open>The repository\<close>

record policy_row =
  row_package_id :: string
  row_procedure_id :: string
  row_version :: string
  row_jurisdiction :: string
  row_lifecycle :: PolicyLifecycle
  row_package :: PolicyPackage

record policy_world = kworld +
  policy_packages :: "policy_row list"
  registry :: policy_registry

type_synonym ('a, 'z) pop = "('a, 'z policy_world_scheme) op"

text \<open>\<open>idx_one_active_policy\<close>: another active row for the same procedure and jurisdiction.\<close>

definition active_clash :: "policy_row \<Rightarrow> policy_row \<Rightarrow> bool" where
  "active_clash r x \<longleftrightarrow> row_lifecycle r = ACTIVE \<and> row_lifecycle x = ACTIVE \<and>
     row_package_id x \<noteq> row_package_id r \<and> row_procedure_id x = row_procedure_id r \<and>
     row_jurisdiction x = row_jurisdiction r"

definition row_of_package :: "PolicyPackage \<Rightarrow> policy_row" where
  "row_of_package p = \<lparr>row_package_id = pp_package_id p, row_procedure_id = pp_procedure_id p,
     row_version = pp_version p, row_jurisdiction = pp_jurisdiction p,
     row_lifecycle = pp_lifecycle p, row_package = p\<rparr>"

text \<open>\<open>INSERT ... ON CONFLICT(package_id) DO UPDATE SET lifecycle, package_json\<close>\<close>

definition upsert_package :: "PolicyPackage \<Rightarrow> policy_row list \<Rightarrow> exn + policy_row list" where
  "upsert_package p rows =
     (let new = (case select_one (\<lambda>x. row_package_id x = pp_package_id p) rows of
                   None \<Rightarrow> row_of_package p
                 | Some x \<Rightarrow> x\<lparr>row_lifecycle := pp_lifecycle p, row_package := p\<rparr>) in
      if list_ex (active_clash new) rows then Inl (IntegrityError ''idx_one_active_policy'')
      else Inr (if list_ex (\<lambda>x. row_package_id x = pp_package_id p) rows
        then sql_update (\<lambda>x. row_package_id x = pp_package_id p)
               (\<lambda>x. x\<lparr>row_lifecycle := pp_lifecycle p, row_package := p\<rparr>) rows
        else rows @ [new]))"

definition repo_save :: "PolicyPackage \<Rightarrow> (unit, 'z) pop" where
  "repo_save p s = (case upsert_package p (policy_packages s) of
      Inl e \<Rightarrow> (Inl e, s) | Inr rows \<Rightarrow> (Inr (), s\<lparr>policy_packages := rows\<rparr>))"

definition retire_row :: "PolicyPackage \<Rightarrow> policy_row list \<Rightarrow> policy_row list" where
  "retire_row p rows = sql_update (\<lambda>x. row_package_id x = pp_package_id p)
     (\<lambda>x. x\<lparr>row_lifecycle := RETIRED, row_package := p\<rparr>) rows"

text \<open>One transaction: nothing is written when the activation is refused.\<close>

definition replace_active :: "PolicyPackage \<Rightarrow> PolicyPackage list \<Rightarrow> (unit, 'z) pop" where
  "replace_active active retired s =
     (case upsert_package active (fold retire_row retired (policy_packages s)) of
        Inl e \<Rightarrow> (Inl e, s) | Inr rows \<Rightarrow> (Inr (), s\<lparr>policy_packages := rows\<rparr>))"

definition repo_get :: "string \<Rightarrow> (PolicyPackage option, 'z) pop" where
  "repo_get package_id = getE (\<lambda>s.
     map_option row_package (select_one (\<lambda>x. row_package_id x = package_id) (policy_packages s)))"

definition repo_list :: "PolicyLifecycle option \<Rightarrow> (PolicyPackage list, 'z) pop" where
  "repo_list lc = getE (\<lambda>s. map row_package
     (order_by (\<lambda>x. (row_procedure_id x, row_version x))
       (case lc of None \<Rightarrow> policy_packages s
        | Some l \<Rightarrow> filter (\<lambda>x. row_lifecycle x = l) (policy_packages s))))"

section \<open>The service\<close>

definition on_registry :: "(policy_registry \<Rightarrow> exn + policy_registry) \<Rightarrow> (unit, 'z) pop" where
  "on_registry f s = (case f (registry s) of Inl e \<Rightarrow> (Inl e, s) | Inr r \<Rightarrow> (Inr (), s\<lparr>registry := r\<rparr>))"

definition policy_require :: "string \<Rightarrow> (PolicyPackage, 'z) pop" where
  "policy_require package_id = bindE (repo_get package_id) (\<lambda>p.
     case p of None \<Rightarrow> raiseE (KeyError package_id) | Some package \<Rightarrow> returnE package)"

definition hydrate :: "mac_fun \<Rightarrow> PolicySigner \<Rightarrow> (unit, 'z) pop" where
  "hydrate mac sg = bindE (repo_list None) (\<lambda>packages.
     foldE (\<lambda>p _. if pp_lifecycle p \<in> {ACTIVE, RETIRED}
                   then on_registry (registry_load_history mac sg p) else returnE ())
       packages ())"

definition service_require_active ::
  "mac_fun \<Rightarrow> PolicySigner \<Rightarrow> string \<Rightarrow> (PolicyPackage, 'z) pop" where
  "service_require_active mac sg package_id =
     bindE (policy_require package_id) (\<lambda>package.
     bindE (raise_if (pp_lifecycle package \<noteq> ACTIVE \<or> \<not> verify mac sg package)
              (ValueError (''Policy package is not active: '' @ package_id))) (\<lambda>_.
     bindE (on_registry (registry_load_history mac sg package)) (\<lambda>_.
     returnE package)))"

definition service_require_snapshot ::
  "mac_fun \<Rightarrow> PolicySigner \<Rightarrow> string \<Rightarrow> string \<Rightarrow> (PolicyPackage, 'z) pop" where
  "service_require_snapshot mac sg package_id activation_signature =
     bindE (policy_require package_id) (\<lambda>package.
     bindE (raise_if (pp_lifecycle package \<notin> {ACTIVE, RETIRED})
              (ValueError ''Policy package is not executable history'')) (\<lambda>_.
     bindE (raise_if (\<not> verify mac sg package)
              (ValueError ''Policy history signature is invalid'')) (\<lambda>_.
     bindE (raise_if (pp_activation_signature package \<noteq> Some activation_signature)
              (ValueError ''Action policy activation snapshot does not match history'')) (\<lambda>_.
     bindE (on_registry (registry_load_history mac sg package)) (\<lambda>_.
     returnE package)))))"

fun json_is_str :: "json \<Rightarrow> bool" where
  "json_is_str (JStr s) = True"
| "json_is_str _ = False"

fun json_str :: "json \<Rightarrow> string" where
  "json_str (JStr s) = s"
| "json_str _ = []"

text \<open>The names in \<open>allowed_actions\<close>, or \<open>None\<close> when it is not a list of strings.\<close>

definition allowed_actions_list :: "pdict \<Rightarrow> string list option" where
  "allowed_actions_list rules = (case dict_get rules ''allowed_actions'' of
      None \<Rightarrow> Some []
    | Some (JList xs) \<Rightarrow> if list_all json_is_str xs then Some (map json_str xs) else None
    | Some _ \<Rightarrow> None)"

definition create_draft :: "PolicyPackage \<Rightarrow> (PolicyPackage, 'z) pop" where
  "create_draft package =
     bindE (raise_if (pp_lifecycle package \<noteq> DRAFT)
              (ValueError ''New policy packages must begin as drafts'')) (\<lambda>_.
     bindE (repo_get (pp_package_id package)) (\<lambda>existing.
     bindE (raise_if (existing \<noteq> None)
              (ValueError (''Policy package already exists: '' @ pp_package_id package))) (\<lambda>_.
     case allowed_actions_list (pp_rules package) of
       None \<Rightarrow> raiseE (ValueError ''allowed_actions must be a list of action names'')
     | Some allowed \<Rightarrow>
       let unknown = remdups (filter (\<lambda>a. a \<notin> set (dict_keys ACTION_SPECIFICATIONS)) allowed) in
       bindE (raise_if (unknown \<noteq> [])
                (ValueError (''Policy contains unknown actions: '' @ join '', '' (sort unknown)))) (\<lambda>_.
       bindE (repo_save package) (\<lambda>_.
       returnE package)))))"

definition policy_approve ::
  "mac_fun \<Rightarrow> PolicySigner \<Rightarrow> string \<Rightarrow> string \<Rightarrow> (PolicyPackage, 'z) pop" where
  "policy_approve mac sg package_id approver =
     bindE (policy_require package_id) (\<lambda>package.
     bindE (raise_if (pp_lifecycle package \<noteq> DRAFT)
              (ValueError ''Only draft policies can be approved'')) (\<lambda>_.
     bindE (liftE (signer_approve mac sg package approver)) (\<lambda>approved.
     bindE (repo_save approved) (\<lambda>_.
     returnE approved))))"

definition policy_activate :: "mac_fun \<Rightarrow> PolicySigner \<Rightarrow> string \<Rightarrow> (PolicyPackage, 'z) pop" where
  "policy_activate mac sg package_id =
     bindE (policy_require package_id) (\<lambda>package.
     bindE (liftE (signer_activate mac sg package)) (\<lambda>active.
     bindE (repo_list (Some ACTIVE)) (\<lambda>existing.
     let prior = filter (\<lambda>e. pp_procedure_id e = pp_procedure_id active \<and>
                   pp_jurisdiction e = pp_jurisdiction active \<and>
                   pp_package_id e \<noteq> pp_package_id active) existing in
     bindE (foldE (\<lambda>e acc. bindE (liftE (signer_retire mac sg e)) (\<lambda>r. returnE (acc @ [r]))) prior [])
       (\<lambda>retired.
     bindE (replace_active active retired) (\<lambda>_.
     bindE (foldE (\<lambda>r _. on_registry (\<lambda>reg. Inr (registry_retire (pp_package_id r) reg))) retired ())
       (\<lambda>_.
     bindE (on_registry (registry_load mac sg active)) (\<lambda>_.
     returnE active)))))))"

definition policy_retire :: "mac_fun \<Rightarrow> PolicySigner \<Rightarrow> string \<Rightarrow> (PolicyPackage, 'z) pop" where
  "policy_retire mac sg package_id =
     bindE (policy_require package_id) (\<lambda>package.
     bindE (liftE (signer_retire mac sg package)) (\<lambda>retired.
     bindE (repo_save retired) (\<lambda>_.
     bindE (on_registry (\<lambda>reg. Inr (registry_retire package_id reg))) (\<lambda>_.
     returnE retired))))"

end
