(* ===== verification/Policy_Laws.thy ===== *)
theory Policy_Laws
  imports Policy_Store
begin

text \<open>
  What the repository and the governed workflow guarantee: one active package per procedure and
  jurisdiction, separation of author and approver, valid signatures, and activation snapshots that
  outlive the retirement of their package.
\<close>

section \<open>The table\<close>

definition one_active :: "policy_row list \<Rightarrow> bool" where
  "one_active rows \<longleftrightarrow> distinct (map row_package_id rows) \<and>
     (\<forall>x \<in> set rows. \<forall>y \<in> set rows. row_lifecycle x = ACTIVE \<longrightarrow> row_lifecycle y = ACTIVE \<longrightarrow>
        row_procedure_id x = row_procedure_id y \<longrightarrow> row_jurisdiction x = row_jurisdiction y \<longrightarrow> x = y)"

text \<open>The update that both \<open>ON CONFLICT\<close> branches and the retirement loop perform.\<close>

definition put :: "PolicyPackage \<Rightarrow> policy_row list \<Rightarrow> policy_row list" where
  "put p rows = sql_update (\<lambda>x. row_package_id x = pp_package_id p)
     (\<lambda>x. x\<lparr>row_lifecycle := pp_lifecycle p, row_package := p\<rparr>) rows"

lemma retire_row_put: "pp_lifecycle p = RETIRED \<Longrightarrow> retire_row p rows = put p rows"
  by (simp add: retire_row_def put_def)

lemma row_same: "distinct (map row_package_id rows) \<Longrightarrow> x \<in> set rows \<Longrightarrow> y \<in> set rows \<Longrightarrow>
    row_package_id x = row_package_id y \<Longrightarrow> x = y"
  by (auto simp: distinct_map dest: inj_onD)

lemma one_active_sql_update:
  assumes "one_active rows"
    and "\<And>x. f x = x\<lparr>row_lifecycle := l, row_package := p\<rparr>"
    and "\<And>x. x \<in> set rows \<Longrightarrow> row_package_id x = k \<Longrightarrow> \<not> list_ex (active_clash (f x)) rows"
  shows "one_active (sql_update (\<lambda>x. row_package_id x = k) f rows)"
proof -
  have d: "distinct (map row_package_id rows)" using assms(1) by (simp add: one_active_def)
  have "x = y" if x: "x \<in> set (sql_update (\<lambda>x. row_package_id x = k) f rows)"
    and y: "y \<in> set (sql_update (\<lambda>x. row_package_id x = k) f rows)"
    and a: "row_lifecycle x = ACTIVE" "row_lifecycle y = ACTIVE"
      "row_procedure_id x = row_procedure_id y" "row_jurisdiction x = row_jurisdiction y" for x y
    using x
  proof (cases rule: in_sql_updateE)
    case 1
    from y show ?thesis
    proof (cases rule: in_sql_updateE)
      case yy: 1
      then show ?thesis using 1 a assms(1) by (auto simp: one_active_def)
    next
      case (2 z)
      then show ?thesis using 1 a assms(3) [OF 2(1,2)]
        by (auto simp: list_ex_iff active_clash_def assms(2))
    qed
  next
    case (2 z)
    from y show ?thesis
    proof (cases rule: in_sql_updateE)
      case 1
      then show ?thesis using 2 a assms(3) [OF 2(1,2)]
        by (auto simp: list_ex_iff active_clash_def assms(2))
    next
      case (2 z')
      then have "z = z'" using row_same [OF d] \<open>z \<in> set rows\<close> \<open>row_package_id z = k\<close> by auto
      then show ?thesis using 2 \<open>x = f z\<close> by simp
    qed
  qed
  then show ?thesis using d by (auto simp: one_active_def assms(2))
qed

lemma one_active_retire_row: "one_active rows \<Longrightarrow> one_active (retire_row p rows)"
  unfolding retire_row_def
  by (rule one_active_sql_update [where l = RETIRED and p = p]) (auto simp: list_ex_iff active_clash_def)

lemma one_active_upsert:
  assumes "one_active rows" and "upsert_package p rows = Inr rows'"
  shows "one_active rows'"
proof (cases "select_one (\<lambda>x. row_package_id x = pp_package_id p) rows")
  case None
  then have fresh: "\<forall>x \<in> set rows. row_package_id x \<noteq> pp_package_id p" by (simp add: select_one_None)
  then have rows': "rows' = rows @ [row_of_package p]"
    and nc: "\<not> list_ex (active_clash (row_of_package p)) rows"
    using assms(2) None by (auto simp: upsert_package_def Let_def list_ex_iff split: if_splits)
  show ?thesis using assms(1) fresh nc unfolding rows' one_active_def
    by (auto simp: row_of_package_def list_ex_iff active_clash_def)
next
  case (Some x)
  then have x: "x \<in> set rows" "row_package_id x = pp_package_id p" using select_one_Some by fast+
  let ?f = "\<lambda>x. x\<lparr>row_lifecycle := pp_lifecycle p, row_package := p\<rparr>"
  have rows': "rows' = sql_update (\<lambda>x. row_package_id x = pp_package_id p) ?f rows"
    and nc: "\<not> list_ex (active_clash (?f x)) rows"
    using assms(2) Some x by (auto simp: upsert_package_def Let_def list_ex_iff split: if_splits)
  have "\<not> list_ex (active_clash (?f z)) rows" if "z \<in> set rows" "row_package_id z = pp_package_id p" for z
    using row_same [of rows z x] assms(1) that x nc by (simp add: one_active_def)
  then show ?thesis unfolding rows' using assms(1)
    by (intro one_active_sql_update [where l = "pp_lifecycle p" and p = p]) auto
qed

text \<open>Any write to the table, by any task and with any arguments.\<close>

inductive repo_step :: "policy_row list \<Rightarrow> policy_row list \<Rightarrow> bool" where
  saved: "upsert_package p rows = Inr rows' \<Longrightarrow> repo_step rows rows'"
| replaced: "upsert_package a (fold retire_row rs rows) = Inr rows' \<Longrightarrow> repo_step rows rows'"

lemma one_active_step: "one_active rows \<Longrightarrow> repo_step rows rows' \<Longrightarrow> one_active rows'"
proof (erule repo_step.cases)
  fix p r r' assume "one_active rows" "rows = r" "rows' = r'" "upsert_package p r = Inr r'"
  then show ?thesis using one_active_upsert by blast
next
  fix a rs r r'
  assume oa: "one_active rows" and eq: "rows = r" "rows' = r'"
    and up: "upsert_package a (fold retire_row rs r) = Inr r'"
  have "one_active (fold retire_row rs r)"
    using oa eq(1) by (induction rs arbitrary: r rows) (auto intro: one_active_retire_row)
  then show ?thesis using one_active_upsert up eq by blast
qed

interpretation repo_ts: transition_system "\<lambda>rows. rows = []" repo_step one_active
  by unfold_locales (simp add: one_active_def, rule one_active_step)

text \<open>C8: However the saves and the activations of concurrent tasks interleave, at most one
  package per procedure and jurisdiction is active.\<close>

theorem one_active_policy:
  assumes "repo_step\<^sup>*\<^sup>* [] rows" and "x \<in> set rows" and "y \<in> set rows"
    and "row_lifecycle x = ACTIVE" and "row_lifecycle y = ACTIVE"
    and "row_procedure_id x = row_procedure_id y" and "row_jurisdiction x = row_jurisdiction y"
  shows "x = y"
  using repo_ts.inv_reachable [OF refl assms(1)] assms(2-7) by (simp add: one_active_def)

section \<open>The workflow\<close>

text \<open>The effect of one operation of the service on the table.\<close>

inductive governed_step :: "mac_fun \<Rightarrow> PolicySigner \<Rightarrow> policy_row list \<Rightarrow> policy_row list \<Rightarrow> bool"
  for mac sg where
  unchanged: "governed_step mac sg rows rows"
| drafted: "pp_lifecycle p = DRAFT \<Longrightarrow> \<forall>x \<in> set rows. row_package_id x \<noteq> pp_package_id p \<Longrightarrow>
    upsert_package p rows = Inr rows' \<Longrightarrow> governed_step mac sg rows rows'"
| approved: "x \<in> set rows \<Longrightarrow> pp_lifecycle (row_package x) = DRAFT \<Longrightarrow>
    signer_approve mac sg (row_package x) a = Inr q \<Longrightarrow> upsert_package q rows = Inr rows' \<Longrightarrow>
    governed_step mac sg rows rows'"
| activated: "x \<in> set rows \<Longrightarrow> signer_activate mac sg (row_package x) = Inr q \<Longrightarrow>
    \<forall>r \<in> set rs. \<exists>e \<in> set rows. signer_retire mac sg (row_package e) = Inr r \<and>
      row_package_id e \<noteq> pp_package_id q \<Longrightarrow>
    upsert_package q (fold retire_row rs rows) = Inr rows' \<Longrightarrow> governed_step mac sg rows rows'"
| retired: "x \<in> set rows \<Longrightarrow> signer_retire mac sg (row_package x) = Inr q \<Longrightarrow>
    upsert_package q rows = Inr rows' \<Longrightarrow> governed_step mac sg rows rows'"

text \<open>A package that has left the draft stage was approved by someone other than its author and
  carries a valid signature.\<close>

definition sealed :: "mac_fun \<Rightarrow> PolicySigner \<Rightarrow> PolicyPackage \<Rightarrow> bool" where
  "sealed mac sg p \<longleftrightarrow> pp_lifecycle p = DRAFT \<or>
     verify mac sg p \<and> (\<exists>a. pp_approver p = Some a \<and> a \<noteq> pp_author p)"

definition governed :: "mac_fun \<Rightarrow> PolicySigner \<Rightarrow> policy_row list \<Rightarrow> bool" where
  "governed mac sg rows \<longleftrightarrow> one_active rows \<and>
     (\<forall>x \<in> set rows. row_of_package (row_package x) = x \<and> sealed mac sg (row_package x))"

definition same_columns :: "PolicyPackage \<Rightarrow> policy_row \<Rightarrow> bool" where
  "same_columns p x \<longleftrightarrow> row_procedure_id x = pp_procedure_id p \<and> row_version x = pp_version p \<and>
     row_jurisdiction x = pp_jurisdiction p"

lemma row_of_package_simps [simp]:
  "row_package (row_of_package p) = p" "row_package_id (row_of_package p) = pp_package_id p"
  "row_lifecycle (row_of_package p) = pp_lifecycle p"
  "row_procedure_id (row_of_package p) = pp_procedure_id p"
  "row_jurisdiction (row_of_package p) = pp_jurisdiction p"
  by (simp_all add: row_of_package_def)

lemma row_of_package_update:
  "row_package_id x = pp_package_id p \<Longrightarrow> same_columns p x \<Longrightarrow>
   x\<lparr>row_lifecycle := pp_lifecycle p, row_package := p\<rparr> = row_of_package p"
  by (simp add: same_columns_def row_of_package_def)

text \<open>What an upsert leaves in the table when the columns of an existing row agree.\<close>

lemma upsert_rows:
  assumes "upsert_package p rows = Inr rows'"
    and "\<And>x. x \<in> set rows \<Longrightarrow> row_package_id x = pp_package_id p \<Longrightarrow> same_columns p x"
  shows "set rows' = insert (row_of_package p) {x \<in> set rows. row_package_id x \<noteq> pp_package_id p}"
proof (cases "select_one (\<lambda>x. row_package_id x = pp_package_id p) rows")
  case None
  then have fresh: "\<forall>x \<in> set rows. row_package_id x \<noteq> pp_package_id p" by (simp add: select_one_None)
  then have "rows' = rows @ [row_of_package p]"
    using assms(1) None by (auto simp: upsert_package_def Let_def list_ex_iff split: if_splits)
  then show ?thesis using fresh by auto
next
  case (Some x)
  then have x: "x \<in> set rows" "row_package_id x = pp_package_id p" using select_one_Some by fast+
  then have rows': "rows' = sql_update (\<lambda>x. row_package_id x = pp_package_id p)
      (\<lambda>x. x\<lparr>row_lifecycle := pp_lifecycle p, row_package := p\<rparr>) rows"
    using assms(1) Some by (auto simp: upsert_package_def Let_def list_ex_iff split: if_splits)
  have "(\<lambda>x. x\<lparr>row_lifecycle := pp_lifecycle p, row_package := p\<rparr>) `
      {x \<in> set rows. row_package_id x = pp_package_id p} =
    (\<lambda>_. row_of_package p) ` {x \<in> set rows. row_package_id x = pp_package_id p}"
    by (rule image_cong) (auto simp: row_of_package_update assms(2))
  then show ?thesis unfolding rows' set_sql_update using x by auto
qed

lemma retire_rows:
  assumes "pp_lifecycle p = RETIRED"
    and "\<And>x. x \<in> set rows \<Longrightarrow> row_package_id x = pp_package_id p \<Longrightarrow> same_columns p x"
  shows "set (retire_row p rows) \<subseteq> insert (row_of_package p) {x \<in> set rows. row_package_id x \<noteq> pp_package_id p}"
  unfolding retire_row_def set_sql_update
  using row_of_package_update [of _ p] assms by auto

lemma governed_columns:
  assumes "governed mac sg rows" and "x \<in> set rows" and "y \<in> set rows"
    and "row_package_id y = pp_package_id q"
    and "pp_package_id q = pp_package_id (row_package x)"
    and "pp_procedure_id q = pp_procedure_id (row_package x)"
    and "pp_version q = pp_version (row_package x)"
    and "pp_jurisdiction q = pp_jurisdiction (row_package x)"
  shows "same_columns q y"
proof -
  have x: "row_of_package (row_package x) = x" using assms(1,2) by (simp add: governed_def)
  have col: "row_package_id x = pp_package_id (row_package x)" "row_procedure_id x = pp_procedure_id (row_package x)"
    "row_version x = pp_version (row_package x)" "row_jurisdiction x = pp_jurisdiction (row_package x)"
    by (subst x [symmetric], simp add: row_of_package_def)+
  have "y = x" using assms col(1) row_same [of rows y x] by (simp add: governed_def one_active_def)
  then show ?thesis using col assms(6-8) by (simp add: same_columns_def)
qed

lemma governed_upsert:
  assumes "governed mac sg rows" and "upsert_package p rows = Inr rows'" and "sealed mac sg p"
    and "\<And>x. x \<in> set rows \<Longrightarrow> row_package_id x = pp_package_id p \<Longrightarrow> same_columns p x"
  shows "governed mac sg rows'"
  using assms(1,3) one_active_upsert [OF _ assms(2)] upsert_rows [OF assms(2,4)]
  by (auto simp: governed_def row_of_package_def)

lemma governed_retire_row:
  assumes "governed mac sg rows" and "sealed mac sg p" and "pp_lifecycle p = RETIRED"
    and "\<And>x. x \<in> set rows \<Longrightarrow> row_package_id x = pp_package_id p \<Longrightarrow> same_columns p x"
  shows "governed mac sg (retire_row p rows)"
proof -
  have "y = row_of_package p \<or> y \<in> set rows" if "y \<in> set (retire_row p rows)" for y
    using that retire_rows [OF assms(3,4)] by blast
  moreover have "row_of_package (row_package y) = y \<and> sealed mac sg (row_package y)"
    if "y \<in> set rows" for y using assms(1) that by (simp add: governed_def)
  ultimately have "row_of_package (row_package y) = y \<and> sealed mac sg (row_package y)"
    if "y \<in> set (retire_row p rows)" for y
    using that assms(2) row_of_package_simps(1) by metis
  then show ?thesis using assms(1) one_active_retire_row [of rows p] by (simp add: governed_def)
qed

lemma governed_retire_all:
  assumes "governed mac sg rows"
    and "\<forall>r \<in> set rs. \<exists>e \<in> set rows0. signer_retire mac sg (row_package e) = Inr r" and "digests mac" and "signer_ok sg"
    and "governed mac sg rows0"
    and "\<forall>x \<in> set rows. \<exists>y \<in> set rows0. row_package_id y = row_package_id x \<and> row_procedure_id y = row_procedure_id x \<and>
       row_version y = row_version x \<and> row_jurisdiction y = row_jurisdiction x"
  shows "governed mac sg (fold retire_row rs rows) \<and>
    (\<forall>x \<in> set (fold retire_row rs rows). \<exists>y \<in> set rows0. row_package_id y = row_package_id x \<and>
       row_procedure_id y = row_procedure_id x \<and> row_version y = row_version x \<and> row_jurisdiction y = row_jurisdiction x)"
  using assms
proof (induction rs arbitrary: rows)
  case (Cons r rs)
  obtain e where e: "e \<in> set rows0" "signer_retire mac sg (row_package e) = Inr r"
    using Cons.prems(2) by auto
  note k = signer_keeps(3) [OF e(2)]
  have cols: "same_columns r x" if x: "x \<in> set rows" "row_package_id x = pp_package_id r" for x
  proof -
    obtain y where y: "y \<in> set rows0" "row_package_id y = row_package_id x"
        "row_procedure_id y = row_procedure_id x" "row_version y = row_version x"
        "row_jurisdiction y = row_jurisdiction x" using Cons.prems(6) x by blast
    have "same_columns r y" by (rule governed_columns [OF Cons.prems(5) e(1) y(1)]) (use y x k in auto)
    then show ?thesis using y by (simp add: same_columns_def)
  qed
  have "sealed mac sg (row_package e)" using Cons.prems(5) e(1) by (simp add: governed_def)
  then have "sealed mac sg r" using k retire_verifies [OF Cons.prems(3,4) e(2)] by (auto simp: sealed_def)
  then have g: "governed mac sg (retire_row r rows)"
    using governed_retire_row [OF Cons.prems(1)] cols k by blast
  have c: "\<forall>x \<in> set (retire_row r rows). \<exists>y \<in> set rows0. row_package_id y = row_package_id x \<and>
      row_procedure_id y = row_procedure_id x \<and> row_version y = row_version x \<and> row_jurisdiction y = row_jurisdiction x"
    unfolding retire_row_def using Cons.prems(6) by (fastforce simp: set_sql_update)
  show ?case using Cons.IH [OF g _ Cons.prems(3-5) c] Cons.prems(2) by simp
qed simp

lemma governed_step_inv:
  assumes "digests mac" and "signer_ok sg" and "governed mac sg rows" and "governed_step mac sg rows rows'"
  shows "governed mac sg rows'"
  using assms(4)
proof cases
  case (drafted p)
  then show ?thesis by (auto intro!: governed_upsert [OF assms(3)] simp: sealed_def)
next
  case (approved x a q)
  have "sealed mac sg q" using approve_verifies [OF assms(1,2) approved(3)] by (auto simp: sealed_def)
  moreover have "same_columns q y" if "y \<in> set rows" "row_package_id y = pp_package_id q" for y
    by (rule governed_columns [OF assms(3) approved(1) that]) (use signer_keeps(1) [OF approved(3)] in auto)
  ultimately show ?thesis using governed_upsert [OF assms(3) approved(4)] by blast
next
  case (activated x q rs)
  note k = signer_keeps(2) [OF activated(2)]
  have sx: "sealed mac sg (row_package x)" using assms(3) activated(1) by (simp add: governed_def)
  then have "sealed mac sg q" using k activate_verifies [OF assms(1,2) activated(2)] by (auto simp: sealed_def)
  moreover have "governed mac sg (fold retire_row rs rows) \<and>
      (\<forall>x \<in> set (fold retire_row rs rows). \<exists>y \<in> set rows. row_package_id y = row_package_id x \<and>
       row_procedure_id y = row_procedure_id x \<and> row_version y = row_version x \<and> row_jurisdiction y = row_jurisdiction x)"
    by (rule governed_retire_all [OF assms(3) _ assms(1,2,3)]) (use activated(3) in auto)
  moreover have "same_columns q y" if "y \<in> set rows" "row_package_id y = pp_package_id q" for y
    by (rule governed_columns [OF assms(3) activated(1) that]) (use k in auto)
  ultimately show ?thesis using governed_upsert [OF _ activated(4), of mac sg]
    by (metis same_columns_def)
next
  case (retired x q)
  note k = signer_keeps(3) [OF retired(2)]
  have sx: "sealed mac sg (row_package x)" using assms(3) retired(1) by (simp add: governed_def)
  then have "sealed mac sg q" using k retire_verifies [OF assms(1,2) retired(2)] by (auto simp: sealed_def)
  moreover have "same_columns q y" if "y \<in> set rows" "row_package_id y = pp_package_id q" for y
    by (rule governed_columns [OF assms(3) retired(1) that]) (use k in auto)
  ultimately show ?thesis using governed_upsert [OF assms(3) retired(3)] by blast
qed (use assms(3) in simp)

section \<open>The operations of the service\<close>

lemma policy_require_eq:
  "policy_require k s = (case select_one (\<lambda>x. row_package_id x = k) (policy_packages s) of
     None \<Rightarrow> (Inl (KeyError k), s) | Some x \<Rightarrow> (Inr (row_package x), s))"
  by (simp add: policy_require_def repo_get_def op_defs split: option.split)

lemma repo_save_cases:
  "repo_save p s = (r, t) \<Longrightarrow> (\<exists>e. r = Inl e \<and> t = s) \<or>
     (r = Inr () \<and> upsert_package p (policy_packages s) = Inr (policy_packages t))"
  by (auto simp: repo_save_def split: sum.splits)

lemma on_registry_packages: "on_registry f s = (r, t) \<Longrightarrow> policy_packages t = policy_packages s"
  by (auto simp: on_registry_def split: sum.splits)

lemma retire_each:
  assumes "foldE (\<lambda>e acc. bindE (liftE (signer_retire mac sg e)) (\<lambda>r. returnE (acc @ [r]))) es acc s = (res, t)"
  shows "t = s \<and> (\<forall>rs. res = Inr rs \<longrightarrow> (\<exists>new. rs = acc @ new \<and>
    list_all2 (\<lambda>e r. signer_retire mac sg e = Inr r) es new))"
  using assms
proof (induction es arbitrary: acc)
  case Nil
  then show ?case by (auto simp: returnE_def)
next
  case (Cons e es)
  show ?case
  proof (cases "signer_retire mac sg e")
    case (Inl x)
    then show ?thesis using Cons.prems by (auto simp: bindE_def liftE_def)
  next
    case (Inr r)
    then have one: "bindE (liftE (signer_retire mac sg e)) (\<lambda>r. returnE (acc @ [r])) s = (Inr (acc @ [r]), s)"
      by (simp add: bindE_def liftE_def returnE_def)
    have rest: "foldE (\<lambda>e acc. bindE (liftE (signer_retire mac sg e)) (\<lambda>r. returnE (acc @ [r])))
        es (acc @ [r]) s = (res, t)"
      using Cons.prems unfolding foldE.simps
      by (subst (asm) bindE_step [where m = "bindE (liftE (signer_retire mac sg e)) (\<lambda>r. returnE (acc @ [r]))", OF one])
    show ?thesis using Cons.IH [OF rest] Inr by force
  qed
qed

lemma registry_retires:
  "foldE (\<lambda>r _. on_registry (\<lambda>reg. Inr (registry_retire (pp_package_id r) reg))) rs () s = (x, t) \<Longrightarrow>
   policy_packages t = policy_packages s"
  by (induction rs arbitrary: s) (auto simp: op_defs on_registry_def)

lemma create_draft_step:
  assumes "create_draft p s = (r, t)"
  shows "governed_step mac sg (policy_packages s) (policy_packages t)"
proof (cases "policy_packages t = policy_packages s")
  case False
  then have "pp_lifecycle p = DRAFT \<and> (\<forall>x \<in> set (policy_packages s). row_package_id x \<noteq> pp_package_id p) \<and>
      upsert_package p (policy_packages s) = Inr (policy_packages t)"
    using assms repo_save_cases [of p s]
    by (auto simp: create_draft_def repo_get_def op_defs Let_def select_one_None
        split: if_splits option.splits prod.splits sum.splits)
  then show ?thesis using governed_step.drafted by blast
qed (simp add: governed_step.unchanged)

lemma policy_approve_step:
  assumes "policy_approve mac sg k a s = (r, t)"
  shows "governed_step mac sg (policy_packages s) (policy_packages t)"
proof (cases "policy_packages t = policy_packages s")
  case False
  then have "\<exists>x q. x \<in> set (policy_packages s) \<and> pp_lifecycle (row_package x) = DRAFT \<and>
      signer_approve mac sg (row_package x) a = Inr q \<and>
      upsert_package q (policy_packages s) = Inr (policy_packages t)"
    using assms
    by (auto simp: policy_approve_def bindE_def policy_require_eq raise_if_def raiseE_def returnE_def
        liftE_def split: if_splits option.splits prod.splits sum.splits
        dest!: repo_save_cases select_one_Some) metis
  then show ?thesis using governed_step.approved by blast
qed (simp add: governed_step.unchanged)

lemma policy_retire_step:
  assumes "policy_retire mac sg k s = (r, t)"
  shows "governed_step mac sg (policy_packages s) (policy_packages t)"
proof (cases "policy_packages t = policy_packages s")
  case False
  then have "\<exists>x q. x \<in> set (policy_packages s) \<and> signer_retire mac sg (row_package x) = Inr q \<and>
      upsert_package q (policy_packages s) = Inr (policy_packages t)"
    using assms
    by (auto simp: policy_retire_def bindE_def policy_require_eq raise_if_def raiseE_def returnE_def
        liftE_def split: if_splits option.splits prod.splits sum.splits
        dest!: repo_save_cases select_one_Some on_registry_packages) metis
  then show ?thesis using governed_step.retired by blast
qed (simp add: governed_step.unchanged)

lemma list_all2_back: "list_all2 P xs ys \<Longrightarrow> y \<in> set ys \<Longrightarrow> \<exists>x \<in> set xs. P x y"
  by (induction rule: list_all2_induct) auto

lemma repo_list_set:
  "fst (repo_list (Some ACTIVE) s) = Inr ps \<Longrightarrow> p \<in> set ps \<longleftrightarrow>
     (\<exists>e \<in> set (policy_packages s). row_lifecycle e = ACTIVE \<and> p = row_package e)"
  by (auto simp: repo_list_def getE_def)

lemma policy_activate_cases:
  assumes "policy_activate mac sg k s = (r, t)"
  shows "policy_packages t = policy_packages s \<and> (\<forall>q. r \<noteq> Inr q) \<or>
    (\<exists>x q rs. x \<in> set (policy_packages s) \<and> row_package_id x = k \<and>
       signer_activate mac sg (row_package x) = Inr q \<and>
       (\<forall>y. r = Inr y \<longrightarrow> y = q) \<and>
       list_all2 (\<lambda>e r. signer_retire mac sg e = Inr r)
         (filter (\<lambda>e. pp_procedure_id e = pp_procedure_id q \<and> pp_jurisdiction e = pp_jurisdiction q \<and>
             pp_package_id e \<noteq> pp_package_id q)
           (map row_package (order_by (\<lambda>x. (row_procedure_id x, row_version x))
             (filter (\<lambda>x. row_lifecycle x = ACTIVE) (policy_packages s))))) rs \<and>
       upsert_package q (fold retire_row rs (policy_packages s)) = Inr (policy_packages t))"
proof -
  show ?thesis
  proof (cases "select_one (\<lambda>x. row_package_id x = k) (policy_packages s)")
    case None
    then show ?thesis using assms
      by (auto simp: policy_activate_def bindE_def policy_require_eq)
  next
    case (Some x)
    show ?thesis
    proof (cases "signer_activate mac sg (row_package x)")
      case (Inl e)
      then show ?thesis using assms Some
        by (auto simp: policy_activate_def bindE_def policy_require_eq liftE_def)
    next
      case (Inr q)
      let ?prior = "filter (\<lambda>e. pp_procedure_id e = pp_procedure_id q \<and>
          pp_jurisdiction e = pp_jurisdiction q \<and> pp_package_id e \<noteq> pp_package_id q)
        (map row_package (order_by (\<lambda>x. (row_procedure_id x, row_version x))
             (filter (\<lambda>x. row_lifecycle x = ACTIVE) (policy_packages s))))"
      obtain res u where f: "foldE (\<lambda>e acc. bindE (liftE (signer_retire mac sg e)) (\<lambda>r. returnE (acc @ [r])))
          ?prior [] s = (res, u)" by fastforce
      note each = retire_each [OF f]
      have run: "policy_activate mac sg k s = (case res of Inl e \<Rightarrow> (Inl e, s) | Inr rs \<Rightarrow>
          bindE (replace_active q rs) (\<lambda>_.
          bindE (foldE (\<lambda>r _. on_registry (\<lambda>reg. Inr (registry_retire (pp_package_id r) reg))) rs ()) (\<lambda>_.
          bindE (on_registry (registry_load mac sg q)) (\<lambda>_. returnE q))) s)"
        using f each Some Inr
        by (auto simp: policy_activate_def bindE_def policy_require_eq liftE_def repo_list_def getE_def
            Let_def split: sum.split)
      show ?thesis
      proof (cases res)
        case (Inl e)
        then show ?thesis using assms run by auto
      next
        case rs: (Inr rs)
        show ?thesis
        proof (cases "upsert_package q (fold retire_row rs (policy_packages s))")
          case (Inl e)
          then show ?thesis using assms run rs by (auto simp: bindE_def replace_active_def)
        next
          case rows: (Inr rows)
          have "policy_packages t = rows \<and> (\<forall>y. r = Inr y \<longrightarrow> y = q)"
            using assms run rs rows
            by (auto simp: bindE_def replace_active_def returnE_def split: prod.splits sum.splits
                dest!: registry_retires on_registry_packages)
          then show ?thesis using Inr rows each rs select_one_Some [OF Some] by auto
        qed
      qed
    qed
  qed
qed

lemma policy_activate_step:
  assumes "policy_activate mac sg k s = (r, t)" and "governed mac sg (policy_packages s)"
  shows "governed_step mac sg (policy_packages s) (policy_packages t)"
  using policy_activate_cases [OF assms(1)]
proof (elim disjE exE conjE)
  fix x q rs
  assume x: "x \<in> set (policy_packages s)" and q: "signer_activate mac sg (row_package x) = Inr q"
    and rs: "list_all2 (\<lambda>e r. signer_retire mac sg e = Inr r)
         (filter (\<lambda>e. pp_procedure_id e = pp_procedure_id q \<and> pp_jurisdiction e = pp_jurisdiction q \<and>
             pp_package_id e \<noteq> pp_package_id q)
           (map row_package (order_by (\<lambda>x. (row_procedure_id x, row_version x))
             (filter (\<lambda>x. row_lifecycle x = ACTIVE) (policy_packages s))))) rs"
    and up: "upsert_package q (fold retire_row rs (policy_packages s)) = Inr (policy_packages t)"
  have "\<exists>e \<in> set (policy_packages s). signer_retire mac sg (row_package e) = Inr r \<and>
      row_package_id e \<noteq> pp_package_id q" if r: "r \<in> set rs" for r
  proof -
    obtain e where e: "e \<in> set (policy_packages s)" "signer_retire mac sg (row_package e) = Inr r"
        "pp_package_id (row_package e) \<noteq> pp_package_id q"
      using list_all2_back [OF rs r] by auto
    moreover have "row_package_id e = pp_package_id (row_package e)"
      using assms(2) e(1) row_of_package_simps(2) [of "row_package e"] by (simp add: governed_def)
    ultimately show ?thesis by metis
  qed
  then show ?thesis using governed_step.activated [OF x q _ up] by blast
qed (simp add: governed_step.unchanged)

section \<open>Runs of the service\<close>

inductive service_step :: "mac_fun \<Rightarrow> PolicySigner \<Rightarrow> 'z policy_world_scheme \<Rightarrow> 'z policy_world_scheme \<Rightarrow> bool"
  for mac sg where
  draft: "create_draft p s = (r, t) \<Longrightarrow> service_step mac sg s t"
| approve: "policy_approve mac sg k a s = (r, t) \<Longrightarrow> service_step mac sg s t"
| activate: "policy_activate mac sg k s = (r, t) \<Longrightarrow> service_step mac sg s t"
| retire: "policy_retire mac sg k s = (r, t) \<Longrightarrow> service_step mac sg s t"
| other: "policy_packages t = policy_packages s \<Longrightarrow> service_step mac sg s t"

lemma service_step_governed:
  "service_step mac sg s t \<Longrightarrow> governed mac sg (policy_packages s) \<Longrightarrow>
   governed_step mac sg (policy_packages s) (policy_packages t)"
  by (erule service_step.cases)
    (auto intro: create_draft_step policy_approve_step policy_activate_step policy_retire_step
      governed_step.unchanged)

lemma governed_run:
  assumes "digests mac" and "signer_ok sg" and "(service_step mac sg)\<^sup>*\<^sup>* s t" and "governed mac sg (policy_packages s)"
  shows "governed mac sg (policy_packages t)"
  using assms(3)
proof (induction rule: rtranclp_induct)
  case (step t u)
  then show ?case using governed_step_inv [OF assms(1,2)] service_step_governed by blast
qed (rule assms(4))

lemma governed_Nil: "governed mac sg []"
  by (simp add: governed_def one_active_def)

text \<open>C9: Separation of duties. Whatever sequence of draft, approval, activation and retirement
  requests is served, every package that is past the draft stage carries a valid signature and
  names an approver who is not its author.\<close>

theorem policy_governance:
  assumes "digests mac" and "signer_ok sg" and "policy_packages s = []"
    and "(service_step mac sg)\<^sup>*\<^sup>* s t" and "x \<in> set (policy_packages t)" and "row_lifecycle x \<noteq> DRAFT"
  shows "verify mac sg (row_package x) \<and>
    (\<exists>a. pp_approver (row_package x) = Some a \<and> a \<noteq> pp_author (row_package x))"
proof -
  have "governed mac sg (policy_packages t)"
    using governed_run [OF assms(1,2,4)] assms(3) governed_Nil by simp
  then have "row_of_package (row_package x) = x" "sealed mac sg (row_package x)"
    using assms(5) by (simp_all add: governed_def)
  then show ?thesis using assms(6) row_of_package_simps(3) [of "row_package x"] by (simp add: sealed_def)
qed

section \<open>Activation snapshots\<close>

definition snapshot_good :: "string \<Rightarrow> pdict \<Rightarrow> PolicyPackage \<Rightarrow> bool" where
  "snapshot_good sig rules p \<longleftrightarrow> pp_lifecycle p \<in> {ACTIVE, RETIRED} \<and>
     pp_activation_signature p = Some sig \<and> pp_rules p = rules"

definition snapshot :: "string \<Rightarrow> string \<Rightarrow> pdict \<Rightarrow> policy_row list \<Rightarrow> bool" where
  "snapshot k sig rules rows \<longleftrightarrow>
     (\<exists>x \<in> set rows. row_package_id x = k \<and> snapshot_good sig rules (row_package x))"

lemma snapshot_retire_all:
  assumes "snapshot k sig rules rows"
    and "\<forall>r \<in> set rs. pp_package_id r = k \<longrightarrow> snapshot_good sig rules r"
  shows "snapshot k sig rules (fold retire_row rs rows)"
  using assms
proof (induction rs arbitrary: rows)
  case (Cons r rs)
  obtain x where x: "x \<in> set rows" "row_package_id x = k" "snapshot_good sig rules (row_package x)"
    using Cons.prems(1) by (auto simp: snapshot_def)
  let ?y = "if row_package_id x = pp_package_id r then x\<lparr>row_lifecycle := RETIRED, row_package := r\<rparr> else x"
  have "?y \<in> set (retire_row r rows)" using x(1) by (auto simp: retire_row_def set_sql_update)
  moreover have "row_package_id ?y = k \<and> snapshot_good sig rules (row_package ?y)"
    using x Cons.prems(2) by auto
  ultimately have "snapshot k sig rules (retire_row r rows)" unfolding snapshot_def by blast
  then show ?case using Cons by simp
qed simp

lemma upsert_keeps_other:
  assumes "upsert_package p rows = Inr rows'" and "x \<in> set rows" and "row_package_id x \<noteq> pp_package_id p"
  shows "x \<in> set rows'"
  using assms by (auto simp: upsert_package_def Let_def set_sql_update split: if_splits)

lemma upsert_puts:
  assumes "upsert_package p rows = Inr rows'"
  shows "\<exists>y \<in> set rows'. row_package_id y = pp_package_id p \<and> row_package y = p \<and> row_lifecycle y = pp_lifecycle p"
proof (cases "select_one (\<lambda>x. row_package_id x = pp_package_id p) rows")
  case None
  then have "\<not> list_ex (\<lambda>x. row_package_id x = pp_package_id p) rows"
    by (auto simp: select_one_None list_ex_iff)
  then show ?thesis using assms None by (auto simp: upsert_package_def Let_def split: if_splits)
next
  case (Some x)
  have x: "x \<in> set rows" "row_package_id x = pp_package_id p" using select_one_Some [OF Some] by auto
  then have "rows' = put p rows"
    using assms Some by (auto simp: upsert_package_def Let_def list_ex_iff put_def split: if_splits)
  then have "x\<lparr>row_lifecycle := pp_lifecycle p, row_package := p\<rparr> \<in> set rows'"
    using x by (auto simp: put_def set_sql_update)
  then show ?thesis using x(2) by (intro bexI) auto
qed

lemma snapshot_step:
  assumes "governed mac sg rows" and "snapshot k sig rules rows" and "governed_step mac sg rows rows'"
  shows "snapshot k sig rules rows'"
proof -
  obtain x0 where x0: "x0 \<in> set rows" "row_package_id x0 = k" "snapshot_good sig rules (row_package x0)"
    using assms(2) by (auto simp: snapshot_def)
  have id: "row_package_id x = pp_package_id (row_package x)" if "x \<in> set rows" for x
    using assms(1) that row_of_package_simps(2) [of "row_package x"] by (simp add: governed_def)
  have same: "row_package x = row_package x0" if "x \<in> set rows" "pp_package_id (row_package x) = k" for x
    using row_same [of rows x x0] assms(1) that x0 id by (simp add: governed_def one_active_def)
  have keep: "snapshot k sig rules rows'" if "upsert_package q rs = Inr rows'" "snapshot k sig rules rs"
      "pp_package_id q \<noteq> k" for q rs
    using that upsert_keeps_other unfolding snapshot_def by metis
  from assms(3) show ?thesis
  proof cases
    case unchanged
    then show ?thesis using assms(2) by simp
  next
    case (drafted p)
    then have "pp_package_id p \<noteq> k" using x0 by auto
    then show ?thesis using keep drafted(3) assms(2) by blast
  next
    case (approved x a q)
    have "pp_package_id q \<noteq> k"
      using same [OF approved(1)] approved(2) x0(3) signer_keeps(1) [OF approved(3)]
      by (auto simp: snapshot_good_def)
    then show ?thesis using keep approved(4) assms(2) by blast
  next
    case (activated x q rs)
    have "pp_package_id q \<noteq> k"
      using same [OF activated(1)] x0(3) signer_keeps(2) [OF activated(2)] by (auto simp: snapshot_good_def)
    moreover have "snapshot_good sig rules r" if r: "r \<in> set rs" "pp_package_id r = k" for r
    proof -
      obtain e where e: "e \<in> set rows" "signer_retire mac sg (row_package e) = Inr r"
        using activated(3) r(1) by blast
      note sk = signer_keeps(3) [OF e(2)]
      have "pp_activation_signature r = pp_activation_signature (row_package e)"
        using e(2) by (auto simp: signer_retire_def Let_def split: if_splits)
      then show ?thesis using same [OF e(1)] sk r(2) x0(3) by (auto simp: snapshot_good_def)
    qed
    ultimately show ?thesis using keep [OF activated(4)] snapshot_retire_all [OF assms(2)] by blast
  next
    case (retired x q)
    show ?thesis
    proof (cases "pp_package_id q = k")
      case True
      have "pp_activation_signature q = pp_activation_signature (row_package x)"
        using retired(2) by (auto simp: signer_retire_def Let_def split: if_splits)
      then have "snapshot_good sig rules q"
        using same [OF retired(1)] signer_keeps(3) [OF retired(2)] True x0(3)
        by (auto simp: snapshot_good_def)
      then show ?thesis using upsert_puts [OF retired(3)] True by (auto simp: snapshot_def)
    qed (use keep retired(3) assms(2) in blast)
  qed
qed

lemma snapshot_run:
  assumes "digests mac" and "signer_ok sg" and "(service_step mac sg)\<^sup>*\<^sup>* s t"
    and "governed mac sg (policy_packages s)" and "snapshot k sig rules (policy_packages s)"
  shows "snapshot k sig rules (policy_packages t)"
  using assms(3)
proof (induction rule: rtranclp_induct)
  case (step t u)
  have "governed mac sg (policy_packages t)" using governed_run [OF assms(1,2) step(1) assms(4)] .
  then show ?case using snapshot_step service_step_governed step by blast
qed (rule assms(5))

lemma snapshot_accepted:
  assumes "governed mac sg (policy_packages s)" and "snapshot k sig rules (policy_packages s)"
  shows "\<exists>p t. service_require_snapshot mac sg k sig s = (Inr p, t) \<and> pp_rules p = rules \<and>
    pp_package_id p = k"
proof -
  obtain x where x: "x \<in> set (policy_packages s)" "row_package_id x = k"
      "snapshot_good sig rules (row_package x)" using assms(2) by (auto simp: snapshot_def)
  have sel: "select_one (\<lambda>y. row_package_id y = k) (policy_packages s) = Some x"
    using select_one_unique [of row_package_id "policy_packages s" x] x assms(1)
    by (simp add: governed_def one_active_def)
  have v: "verify mac sg (row_package x)"
    using assms(1) x by (auto simp: governed_def sealed_def snapshot_good_def)
  have id: "pp_package_id (row_package x) = k"
    using assms(1) x row_of_package_simps(2) [of "row_package x"] by (simp add: governed_def)
  show ?thesis using sel v x(3) id
    by (auto simp: service_require_snapshot_def bindE_def policy_require_eq raise_if_def returnE_def
        raiseE_def on_registry_def registry_load_history_def snapshot_good_def Let_def)
qed

text \<open>Activating a package retires every other active package of its procedure and
  jurisdiction in the same transaction: afterwards it is the one that is required as active.\<close>

theorem activation_replaces:
  assumes "digests mac" and "signer_ok sg" and "governed mac sg (policy_packages s)"
    and "policy_activate mac sg k s = (Inr q, t)"
  shows "(\<exists>u. service_require_active mac sg k t = (Inr q, u)) \<and>
    (\<forall>x \<in> set (policy_packages t). row_lifecycle x = ACTIVE \<longrightarrow>
       row_procedure_id x = pp_procedure_id q \<longrightarrow> row_jurisdiction x = pp_jurisdiction q \<longrightarrow>
       row_package x = q)"
proof -
  from policy_activate_cases [OF assms(4)] obtain x rs where
    x: "x \<in> set (policy_packages s)" "row_package_id x = k"
    and q: "signer_activate mac sg (row_package x) = Inr q"
    and up: "upsert_package q (fold retire_row rs (policy_packages s)) = Inr (policy_packages t)" by auto
  have g: "governed mac sg (policy_packages t)"
    using governed_step_inv [OF assms(1-3) policy_activate_step [OF assms(4,3)]] .
  obtain y where y: "y \<in> set (policy_packages t)" "row_package_id y = pp_package_id q" "row_package y = q"
      "row_lifecycle y = pp_lifecycle q" using upsert_puts [OF up] by blast
  have roy: "row_of_package q = y" using g y by (auto simp: governed_def)
  have act: "verify mac sg q" "pp_lifecycle q = ACTIVE" using activate_verifies [OF assms(1,2) q] by auto
  have k: "pp_package_id q = k"
    using signer_keeps(2) [OF q] x assms(3) row_of_package_simps(2) [of "row_package x"]
    by (simp add: governed_def)
  have "select_one (\<lambda>z. row_package_id z = k) (policy_packages t) = Some y"
    using select_one_unique [of row_package_id "policy_packages t" y] g y k
    by (simp add: governed_def one_active_def)
  then have "\<exists>u. service_require_active mac sg k t = (Inr q, u)" using act y
    by (auto simp: service_require_active_def bindE_def policy_require_eq raise_if_def returnE_def
        raiseE_def on_registry_def registry_load_history_def Let_def)
  moreover have "row_package z = q" if "z \<in> set (policy_packages t)" "row_lifecycle z = ACTIVE"
      "row_procedure_id z = pp_procedure_id q" "row_jurisdiction z = pp_jurisdiction q" for z
  proof -
    have "row_procedure_id y = pp_procedure_id q" "row_jurisdiction y = pp_jurisdiction q"
      using roy row_of_package_simps(4,5) [of q] by auto
    then have "z = y" using g y that act by (simp add: governed_def one_active_def)
    then show ?thesis using y by simp
  qed
  ultimately show ?thesis by blast
qed

text \<open>The snapshot an action was authorised under stays executable: after a package has been
  activated, whatever the service does later, retirement included, requiring that activation
  returns the package with the same rules.\<close>

theorem snapshot_survives:
  assumes "digests mac" and "signer_ok sg" and "policy_packages s = []" and "(service_step mac sg)\<^sup>*\<^sup>* s t"
    and "policy_activate mac sg k t = (Inr q, u)" and "(service_step mac sg)\<^sup>*\<^sup>* u v"
    and "pp_activation_signature q = Some sig"
  shows "\<exists>p w. service_require_snapshot mac sg k sig v = (Inr p, w) \<and> pp_rules p = pp_rules q \<and>
    pp_package_id p = k"
proof -
  have g: "governed mac sg (policy_packages t)"
    using governed_run [OF assms(1,2,4)] assms(3) governed_Nil by simp
  have gu: "governed mac sg (policy_packages u)"
    using governed_step_inv [OF assms(1,2) g policy_activate_step [OF assms(5) g]] .
  from policy_activate_cases [OF assms(5)] obtain x rs where
    x: "x \<in> set (policy_packages t)" "row_package_id x = k"
    and q: "signer_activate mac sg (row_package x) = Inr q"
    and up: "upsert_package q (fold retire_row rs (policy_packages t)) = Inr (policy_packages u)" by auto
  have "pp_package_id q = k"
    using signer_keeps(2) [OF q] x g row_of_package_simps(2) [of "row_package x"] by (simp add: governed_def)
  then have "snapshot k sig (pp_rules q) (policy_packages u)"
    using upsert_puts [OF up] activate_verifies [OF assms(1,2) q] assms(7)
    by (auto simp: snapshot_def snapshot_good_def)
  from snapshot_run [OF assms(1,2,6) gu this] governed_run [OF assms(1,2,6) gu]
  show ?thesis using snapshot_accepted by blast
qed

section \<open>A concrete package\<close>

definition demo_mac :: mac_fun where
  "demo_mac k m = ''mac:'' @ k"

definition demo_signer :: PolicySigner where
  "demo_signer = \<lparr>sg_key = ''secret-key'', sg_key_id = ''primary'',
     sg_verification_keys = [(''primary'', ''secret-key'')]\<rparr>"

definition demo_package :: PolicyPackage where
  "demo_package = \<lparr>pp_package_id = ''P1'', pp_procedure_id = ''cs_refund'', pp_version = ''1'',
     pp_jurisdiction = ''US'', pp_author = ''alice'',
     pp_rules = [(''allowed_actions'', JList [JStr ''issue_refund'', JStr ''add_case_note''])],
     pp_lifecycle = DRAFT, pp_approver = None, pp_signing_key_id = None,
     pp_activation_signature = None, pp_signature = None\<rparr>"

definition demo_policy_start :: policy_world where
  "demo_policy_start = kworld.extend demo_start
     (policy_world.fields [] \<lparr>reg_active = [], reg_packages = []\<rparr>)"

definition demo_drafted :: policy_world where
  "demo_drafted = snd (create_draft demo_package demo_policy_start)"

definition demo_approved :: policy_world where
  "demo_approved = snd (policy_approve demo_mac demo_signer ''P1'' ''bob'' demo_drafted)"

definition demo_active :: policy_world where
  "demo_active = snd (policy_activate demo_mac demo_signer ''P1'' demo_approved)"

definition demo_retired :: policy_world where
  "demo_retired = snd (policy_retire demo_mac demo_signer ''P1'' demo_active)"

lemma demo_signing: "digests demo_mac" "signer_ok demo_signer"
  by (simp_all add: digests_def demo_mac_def signer_ok_def demo_signer_def dict_get_def)

lemma demo_policy_run:
  "policy_packages demo_policy_start = []"
  "(service_step demo_mac demo_signer)\<^sup>*\<^sup>* demo_policy_start demo_approved"
  "(service_step demo_mac demo_signer)\<^sup>*\<^sup>* demo_active demo_retired"
proof -
  show "policy_packages demo_policy_start = []"
    by (simp add: demo_policy_start_def kworld.defs policy_world.defs)
  have "service_step demo_mac demo_signer demo_policy_start demo_drafted"
    unfolding demo_drafted_def by (rule service_step.draft [of demo_package, OF surjective_pairing])
  moreover have "service_step demo_mac demo_signer demo_drafted demo_approved"
    unfolding demo_approved_def
    by (rule service_step.approve [of _ _ "''P1''" "''bob''", OF surjective_pairing])
  ultimately show "(service_step demo_mac demo_signer)\<^sup>*\<^sup>* demo_policy_start demo_approved" by auto
  have "service_step demo_mac demo_signer demo_active demo_retired"
    unfolding demo_retired_def by (rule service_step.retire [of _ _ "''P1''", OF surjective_pairing])
  then show "(service_step demo_mac demo_signer)\<^sup>*\<^sup>* demo_active demo_retired" by auto
qed

lemma demo_policy_results:
  "map (\<lambda>x. (row_package_id x, row_lifecycle x)) (policy_packages demo_approved) = [(''P1'', APPROVED)]"
  "map_sum (\<lambda>e. e) (\<lambda>q. (pp_activation_signature q, pp_lifecycle q, pp_procedure_id q, pp_jurisdiction q))
     (fst (policy_activate demo_mac demo_signer ''P1'' demo_approved)) =
   Inr (Some ''mac:secret-key'', ACTIVE, ''cs_refund'', ''US'')"
  "map (\<lambda>x. (row_package_id x, row_lifecycle x)) (policy_packages demo_retired) = [(''P1'', RETIRED)]"
  by code_simp+

lemma demo_activated:
  obtains q where "policy_activate demo_mac demo_signer ''P1'' demo_approved = (Inr q, demo_active)"
    "pp_activation_signature q = Some ''mac:secret-key''" "pp_procedure_id q = ''cs_refund''"
    "pp_jurisdiction q = ''US''"
  using demo_policy_results(2)
  by (cases "policy_activate demo_mac demo_signer ''P1'' demo_approved")
    (auto simp: demo_active_def map_sum_def split: sum.splits)

theorem policy_governance_witness:
  "\<exists>x \<in> set (policy_packages demo_approved). verify demo_mac demo_signer (row_package x) \<and>
     (\<exists>a. pp_approver (row_package x) = Some a \<and> a \<noteq> pp_author (row_package x))"
proof -
  obtain x where x: "x \<in> set (policy_packages demo_approved)" "row_lifecycle x = APPROVED"
    using demo_policy_results(1) by (auto simp: map_eq_Cons_conv)
  from policy_governance [OF demo_signing demo_policy_run(1,2) x(1)] x show ?thesis by auto
qed

theorem activation_replaces_witness:
  "\<exists>q u. service_require_active demo_mac demo_signer ''P1'' demo_active = (Inr q, u)"
proof -
  have g: "governed demo_mac demo_signer (policy_packages demo_approved)"
    using governed_run [OF demo_signing demo_policy_run(2)] demo_policy_run(1) governed_Nil by simp
  obtain q where "policy_activate demo_mac demo_signer ''P1'' demo_approved = (Inr q, demo_active)"
    by (rule demo_activated)
  from activation_replaces [OF demo_signing g this] show ?thesis by blast
qed

theorem snapshot_survives_witness:
  "\<exists>p w. service_require_snapshot demo_mac demo_signer ''P1'' ''mac:secret-key'' demo_retired = (Inr p, w)"
proof -
  obtain q where q: "policy_activate demo_mac demo_signer ''P1'' demo_approved = (Inr q, demo_active)"
    "pp_activation_signature q = Some ''mac:secret-key''" by (rule demo_activated)
  from snapshot_survives [OF demo_signing demo_policy_run(1,2) q(1) demo_policy_run(3) q(2)]
  show ?thesis by blast
qed

theorem one_active_policy_witness:
  "\<exists>rows. repo_step\<^sup>*\<^sup>* [] rows \<and> rows \<noteq> [] \<and>
     (\<forall>x \<in> set rows. \<forall>y \<in> set rows. row_lifecycle x = ACTIVE \<longrightarrow> row_lifecycle y = ACTIVE \<longrightarrow>
        row_procedure_id x = row_procedure_id y \<longrightarrow> row_jurisdiction x = row_jurisdiction y \<longrightarrow> x = y)"
proof -
  let ?rows = "[row_of_package (demo_package\<lparr>pp_lifecycle := ACTIVE\<rparr>)]"
  have "upsert_package (demo_package\<lparr>pp_lifecycle := ACTIVE\<rparr>) [] = Inr ?rows"
    by (simp add: upsert_package_def select_one_def)
  then have r: "repo_step\<^sup>*\<^sup>* [] ?rows" using repo_step.saved by blast
  from one_active_policy [OF r] r show ?thesis by blast
qed

end
