(* ===== verification/Gateway.thy ===== *)
theory Gateway
  imports Policy_Laws
begin

text \<open>
  The action gateway (\<open>core/gateway.py\<close>): the only code that calls a provider. Connectors are code
  outside the repository (or the adapters of \<open>core/connectors.py\<close> and \<open>integrations/\<close>), so a
  connector is a parameter: a pair of functions on the state of the provider, which is the last
  field of the world. A connector may raise; the core tables are not reachable from it.
\<close>

section \<open>Connectors\<close>

record ConnectorOutcome =
  co_status :: ActionStatus
  co_details :: pdict

definition outcome_succeeded :: "pdict \<Rightarrow> ConnectorOutcome" where
  "outcome_succeeded d = \<lparr>co_status = SUCCEEDED, co_details = d\<rparr>"

definition outcome_failed :: "pdict \<Rightarrow> ConnectorOutcome" where
  "outcome_failed d = \<lparr>co_status = FAILED, co_details = d\<rparr>"

definition outcome_unknown :: "pdict \<Rightarrow> ConnectorOutcome" where
  "outcome_unknown d = \<lparr>co_status = UNKNOWN, co_details = d\<rparr>"

record 'p ActionConnector =
  conn_dispatch :: "ActionCommand \<Rightarrow> (ConnectorOutcome, 'p) op"
  conn_reconcile :: "ActionCommand \<Rightarrow> pdict option \<Rightarrow> (ConnectorOutcome, 'p) op"

record 'p ResolvedActionConnector =
  rc_action_name :: string
  rc_binding_id :: string
  rc_binding_version :: string
  rc_contract_version :: string
  rc_connector :: "'p ActionConnector"

text \<open>The gateway is built over a resolver or over a plain mapping of names to connectors.\<close>

datatype 'p connector_source =
    Resolver "string \<Rightarrow> string option \<Rightarrow> string option \<Rightarrow> string option \<Rightarrow>
              exn + 'p ResolvedActionConnector"
  | Connectors "(string \<times> 'p ActionConnector) list"

record 'p gworld = policy_world +
  provider :: 'p

type_synonym ('a, 'p, 'z) gop = "('a, ('p, 'z) gworld_scheme) op"

definition on_provider :: "('a, 'p) op \<Rightarrow> ('a, 'p, 'z) gop" where
  "on_provider m s = (case m (provider s) of (r, p) \<Rightarrow> (r, s\<lparr>provider := p\<rparr>))"

text \<open>
  The constructor arguments of the gateway; \<open>gw_policy_registry\<close> and \<open>gw_policy_resolver\<close> say
  whether the registry and the policy service are present.
\<close>

record 'p ActionGateway =
  gw_connectors :: "'p connector_source"
  gw_policy_registry :: bool
  gw_policy_resolver :: bool
  gw_mac :: mac_fun
  gw_signer :: PolicySigner

section \<open>Resolution and policy checks\<close>

definition resolve_connector ::
  "'p ActionGateway \<Rightarrow> ActionCommand \<Rightarrow> bool \<Rightarrow> exn + 'p ResolvedActionConnector" where
  "resolve_connector g command use_pinned_binding =
     (case gw_connectors g of
        Resolver resolve \<Rightarrow>
          if use_pinned_binding
          then resolve (cmd_action command) (cmd_connector_binding_id command)
                 (cmd_connector_binding_version command) (cmd_contract_version command)
          else resolve (cmd_action command) None None None
      | Connectors m \<Rightarrow>
          (case dict_get m (cmd_action command) of
             None \<Rightarrow> Inl (ValueError (''Unknown action connector: '' @ cmd_action command))
           | Some c \<Rightarrow> Inr \<lparr>rc_action_name = cmd_action command, rc_binding_id = ''legacy'',
                           rc_binding_version = ''1'', rc_contract_version = ''1'', rc_connector = c\<rparr>))"

text \<open>\<open>action in allowed\<close> for the value a policy package carries.\<close>

fun py_in :: "string \<Rightarrow> json \<Rightarrow> exn + bool" where
  "py_in a (JList xs) = Inr (list_ex (\<lambda>x. py_eq (JStr a) x) xs)"
| "py_in a (JObj d) = Inr (a \<in> set (dict_keys d))"
| "py_in a (JStr s) = Inr (substring a s)"
| "py_in a _ = Inl (TypeError ''argument is not iterable'')"

definition check_allowed :: "PolicyPackage \<Rightarrow> string \<Rightarrow> exn + unit" where
  "check_allowed package action =
     (case dict_get (pp_rules package) ''allowed_actions'' of
        None \<Rightarrow> Inr ()
      | Some JNull \<Rightarrow> Inr ()
      | Some allowed \<Rightarrow> (case py_in action allowed of
            Inl e \<Rightarrow> Inl e
          | Inr b \<Rightarrow> if b then Inr () else Inl (ValueError (''Policy package '' @
                      pp_package_id package @ '' does not allow '' @ action))))"

definition gateway_require_active ::
  "'p ActionGateway \<Rightarrow> string \<Rightarrow> (PolicyPackage, 'p, 'z) gop" where
  "gateway_require_active g package_id =
     (if gw_policy_resolver g then service_require_active (gw_mac g) (gw_signer g) package_id
      else bindE (getE registry) (\<lambda>reg. liftE (registry_require_active reg package_id)))"

definition gateway_require_snapshot ::
  "'p ActionGateway \<Rightarrow> string \<Rightarrow> string \<Rightarrow> (PolicyPackage, 'p, 'z) gop" where
  "gateway_require_snapshot g package_id sig =
     (if gw_policy_resolver g then service_require_snapshot (gw_mac g) (gw_signer g) package_id sig
      else bindE (getE registry) (\<lambda>reg.
        liftE (registry_require_snapshot (gw_mac g) (gw_signer g) reg package_id sig)))"

section \<open>Authorisation\<close>

definition gateway_authorize ::
  "'p ActionGateway \<Rightarrow> ActionCommand \<Rightarrow> int \<Rightarrow> (ActionRecord, 'p, 'z) gop" where
  "gateway_authorize g command0 expected_version =
     bindE (liftE (resolve_connector g command0 False)) (\<lambda>resolved.
     let command = command0\<lparr>cmd_connector_binding_id := Some (rc_binding_id resolved),
           cmd_connector_binding_version := Some (rc_binding_version resolved),
           cmd_contract_version := Some (rc_contract_version resolved)\<rparr> in
     if \<not> gw_policy_registry g \<and> \<not> gw_policy_resolver g
     then authorize_action command expected_version
     else
     bindE (gateway_require_active g (cmd_policy_package_id command)) (\<lambda>package.
     bindE (get_case (cmd_case_id command)) (\<lambda>c.
     case c of
       None \<Rightarrow> raiseE (ValueError (''Action case does not exist: '' @ cmd_case_id command))
     | Some case_record \<Rightarrow>
       bindE (raise_if (pp_procedure_id package \<noteq> cr_procedure_id case_record)
         (ValueError ''Policy package procedure does not match the action case procedure'')) (\<lambda>_.
       bindE (liftE (check_allowed package (cmd_action command))) (\<lambda>_.
       authorize_action
         (command\<lparr>cmd_policy_activation_signature := pp_activation_signature package\<rparr>)
         expected_version)))))"

section \<open>Dispatch\<close>

text \<open>The checks that precede the claim; they end with the connector to call.\<close>

definition dispatch_policy :: "'p ActionGateway \<Rightarrow> ActionCommand \<Rightarrow> (unit, 'p, 'z) gop" where
  "dispatch_policy g command =
     (if gw_policy_registry g \<or> gw_policy_resolver g then
        bindE (if truthy_str (cmd_policy_activation_signature command)
               then gateway_require_snapshot g (cmd_policy_package_id command)
                      (the (cmd_policy_activation_signature command))
               else gateway_require_active g (cmd_policy_package_id command)) (\<lambda>package.
        liftE (check_allowed package (cmd_action command)))
      else returnE ())"

definition dispatch_prepare ::
  "'p ActionGateway \<Rightarrow> ActionCommand \<Rightarrow> ('p ActionConnector, 'p, 'z) gop" where
  "dispatch_prepare g command =
     bindE (dispatch_policy g command) (\<lambda>_.
     bindE (liftE (resolve_connector g command True)) (\<lambda>resolved.
     returnE (rc_connector resolved)))"

text \<open>The provider call; any exception becomes an unknown outcome.\<close>

definition call_connector ::
  "'p ActionConnector \<Rightarrow> ActionCommand \<Rightarrow> (ConnectorOutcome, 'p, 'z) gop" where
  "call_connector c command =
     catchE (on_provider (conn_dispatch c command)) (\<lambda>exc.
       returnE (outcome_unknown [(''reason'', JStr ''connector_exception''),
                                 (''error_type'', JStr (exn_name exc))]))"

definition gateway_dispatch ::
  "'p ActionGateway \<Rightarrow> ActionRecord \<Rightarrow> (ActionRecord, 'p, 'z) gop" where
  "gateway_dispatch g action =
     (if ar_status action \<noteq> AUTHORIZED then returnE action
      else
      bindE (dispatch_prepare g (ar_command action)) (\<lambda>connector.
      bindE (claim_action (ar_action_id action)) (\<lambda>r. case r of (claimed_action, claimed) \<Rightarrow>
      if \<not> claimed then returnE claimed_action
      else
      bindE (call_connector connector (ar_command action)) (\<lambda>outcome.
      record_outcome (ar_action_id action) (co_status outcome) (Some (co_details outcome))))))"

section \<open>Reconciliation\<close>

definition gateway_reconcile ::
  "'p ActionGateway \<Rightarrow> ActionRecord \<Rightarrow> (ActionRecord, 'p, 'z) gop" where
  "gateway_reconcile g action0 =
     bindE (if ar_status action0 = DISPATCHED
            then record_outcome (ar_action_id action0) UNKNOWN
                   (Some [(''reason'', JStr ''dispatch_lease_expired_before_outcome_recorded''),
                          (''prior'', case ar_outcome action0 of None \<Rightarrow> JNull | Some d \<Rightarrow> JObj d)])
            else returnE action0) (\<lambda>action.
     if ar_status action \<noteq> UNKNOWN then returnE action
     else
     bindE (liftE (resolve_connector g (ar_command action) True)) (\<lambda>resolved.
     bindE (on_provider (conn_reconcile (rc_connector resolved) (ar_command action)
              (ar_outcome action))) (\<lambda>outcome.
     if co_status outcome = SUCCEEDED
     then record_outcome (ar_action_id action) RECONCILED (Some (co_details outcome))
     else record_outcome (ar_action_id action) (co_status outcome) (Some (co_details outcome)))))"

section \<open>Gateway operations are runs of the kernel\<close>

lemma on_registry_keeps: "core_run.keeps (on_registry f :: (unit, 'z) pop)"
  by (rule keeps_db) (auto simp: on_registry_def split: sum.split)

lemma policy_reads_keep:
  "core_run.keeps (policy_require k :: (PolicyPackage, 'z) pop)"
  "core_run.keeps (service_require_active mac sg k :: (PolicyPackage, 'z) pop)"
  "core_run.keeps (service_require_snapshot mac sg k sig :: (PolicyPackage, 'z) pop)"
  unfolding policy_require_def service_require_active_def service_require_snapshot_def repo_get_def
  by (auto intro!: core_keeps on_registry_keeps split: option.split)

lemma gateway_require_keeps:
  "core_run.keeps (gateway_require_active g k :: (PolicyPackage, 'p, 'z) gop)"
  "core_run.keeps (gateway_require_snapshot g k sig :: (PolicyPackage, 'p, 'z) gop)"
  unfolding gateway_require_active_def gateway_require_snapshot_def
  by (auto intro!: core_keeps policy_reads_keep)

lemma on_provider_keeps: "core_run.keeps (on_provider m :: ('a, 'p, 'z) gop)"
  by (rule keeps_db) (auto simp: on_provider_def split: prod.split)

lemma dispatch_prepare_keeps: "core_run.keeps (dispatch_prepare g c :: ('p ActionConnector, 'p, 'z) gop)"
  unfolding dispatch_prepare_def dispatch_policy_def
  by (auto intro!: core_keeps gateway_require_keeps)

lemma call_connector_keeps: "core_run.keeps (call_connector c cmd :: (ConnectorOutcome, 'p, 'z) gop)"
  unfolding call_connector_def by (auto intro!: core_keeps on_provider_keeps)

lemma gateway_authorize_keeps: "core_run.keeps (gateway_authorize g c v :: (ActionRecord, 'p, 'z) gop)"
  unfolding gateway_authorize_def Let_def
  by (auto intro!: core_keeps gateway_require_keeps authorize_action_keeps split: option.split)

lemma gateway_dispatch_keeps: "core_run.keeps (gateway_dispatch g a :: (ActionRecord, 'p, 'z) gop)"
  unfolding gateway_dispatch_def
  by (auto intro!: core_keeps dispatch_prepare_keeps call_connector_keeps record_outcome_keeps
      split: prod.split)

lemma gateway_reconcile_keeps: "core_run.keeps (gateway_reconcile g a :: (ActionRecord, 'p, 'z) gop)"
  unfolding gateway_reconcile_def
  by (auto intro!: core_keeps on_provider_keeps record_outcome_keeps)

lemmas gateway_keeps = kernel_keeps gateway_authorize_keeps gateway_dispatch_keeps
  gateway_reconcile_keeps

end
