(* ===== verification/Dispatch_Concurrency.thy ===== *)
theory Dispatch_Concurrency
  imports Gateway
begin

text \<open>
  Concurrent dispatch. Any number of tasks (API requests, delivery workers, retries) dispatch
  actions at the same time, and their await points interleave with each other and with every other
  operation of the kernel. A task runs the phases of \<open>gateway_dispatch\<close> one by one; the trace of
  provider calls is recorded beside the world.
\<close>

datatype 'p dispatch_pc =
    Idle
  | Prepared ActionRecord "'p ActionConnector"
  | Claimed ActionRecord "'p ActionConnector"
  | Called ActionRecord ConnectorOutcome

record 'p dispatch_state =
  world :: "'p gworld"
  task :: "nat \<Rightarrow> 'p dispatch_pc"
  calls :: "string list"

inductive dispatch_step :: "'p ActionGateway \<Rightarrow> 'p dispatch_state \<Rightarrow> 'p dispatch_state \<Rightarrow> bool"
  for g where
  prepare: "task s i = Idle \<Longrightarrow> ar_status a = AUTHORIZED \<Longrightarrow>
    dispatch_prepare g (ar_command a) (world s) = (Inr c, w) \<Longrightarrow>
    dispatch_step g s (s\<lparr>world := w, task := (task s)(i := Prepared a c)\<rparr>)"
| win: "task s i = Prepared a c \<Longrightarrow> claim_action (ar_action_id a) (world s) = (Inr (b, True), w) \<Longrightarrow>
    dispatch_step g s (s\<lparr>world := w, task := (task s)(i := Claimed a c)\<rparr>)"
| lose: "task s i = Prepared a c \<Longrightarrow> claim_action (ar_action_id a) (world s) = (r, w) \<Longrightarrow>
    \<forall>b. r \<noteq> Inr (b, True) \<Longrightarrow>
    dispatch_step g s (s\<lparr>world := w, task := (task s)(i := Idle)\<rparr>)"
| call: "task s i = Claimed a c \<Longrightarrow> call_connector c (ar_command a) (world s) = (Inr out, w) \<Longrightarrow>
    dispatch_step g s (s\<lparr>world := w, task := (task s)(i := Called a out),
                         calls := calls s @ [ar_action_id a]\<rparr>)"
| outcome: "task s i = Called a out \<Longrightarrow>
    record_outcome (ar_action_id a) (co_status out) (Some (co_details out)) (world s) = (r, w) \<Longrightarrow>
    dispatch_step g s (s\<lparr>world := w, task := (task s)(i := Idle)\<rparr>)"
| kernel: "core_step (world s) w \<Longrightarrow> dispatch_step g s (s\<lparr>world := w\<rparr>)"

section \<open>The invariant\<close>

definition holders :: "'p dispatch_state \<Rightarrow> string \<Rightarrow> nat set" where
  "holders s aid = {i. \<exists>a c. task s i = Claimed a c \<and> ar_action_id a = aid}"

text \<open>Calls made and calls owed never exceed the claims on record.\<close>

definition dispatch_inv :: "'p dispatch_state \<Rightarrow> bool" where
  "dispatch_inv s \<longleftrightarrow> action_inv (db (world s)) \<and>
     (\<forall>aid. finite (holders s aid) \<and>
        count_list (calls s) aid + card (holders s aid) \<le>
        count_list (log_of (db (world s)) aid) DISPATCHED)"

definition dispatch_init :: "'p dispatch_state \<Rightarrow> bool" where
  "dispatch_init s \<longleftrightarrow> fresh_install (world s) \<and> (\<forall>i. task s i = Idle) \<and> calls s = []"

lemma log_grows:
  assumes "core_step\<^sup>*\<^sup>* s t" and "action_inv (db s)"
  shows "count_list (log_of (db s) aid) x \<le> count_list (log_of (db t) aid) x"
  using assms(1)
proof (induction rule: rtranclp_induct)
  case (step t u)
  have "action_inv (db t)" using core_ts.inv_steps [OF step(1)] assms(2) by simp
  then obtain new where "log_of (db u) aid = log_of (db t) aid @ new"
    using action_grows_step [OF step(2)] unfolding action_grows_def by blast
  then show ?case using step.IH by simp
qed simp

lemma claim_logs:
  assumes "action_inv (db s)" and "claim_action aid s = (Inr (b, True), t)"
  shows "log_of (db t) k = log_of (db s) k @ (if k = aid then [DISPATCHED] else [])"
proof -
  have "action_keys (db s)" using assms(1) by (simp add: action_inv_def)
  from claim_action_cases [OF assms(2) this] obtain now where
    w: "with_event (moved (db s) aid AUTHORIZED (\<lambda>x. x\<lparr>ar_status := DISPATCHED, ar_updated_at := now\<rparr>))
       aid DISPATCHED None (db t)" by auto
  show ?thesis using log_of_with_event [OF w, of k] by (simp add: log_of_def moved_def)
qed

lemma holders_task:
  "holders (s\<lparr>world := w, task := (task s)(i := pc)\<rparr>) aid =
     (case pc of Claimed a c \<Rightarrow> if ar_action_id a = aid then insert i (holders s aid) else holders s aid - {i}
      | _ \<Rightarrow> holders s aid - {i})"
  by (auto simp: holders_def split: dispatch_pc.split)

text \<open>A step of the kernel by this or another task preserves the invariant if it adds no holder.\<close>

lemma dispatch_inv_run:
  assumes "dispatch_inv s" and "core_step\<^sup>*\<^sup>* (world s) w"
    and "\<And>aid. holders t aid \<subseteq> holders s aid" and "world t = w" and "calls t = calls s"
  shows "dispatch_inv t"
proof -
  have inv: "action_inv (db (world s))" using assms(1) by (simp add: dispatch_inv_def)
  have w: "action_inv (db w)" using core_ts.inv_steps [OF assms(2)] inv by simp
  have "finite (holders t aid) \<and> count_list (calls t) aid + card (holders t aid) \<le>
      count_list (log_of (db w) aid) DISPATCHED" for aid
  proof -
    have old: "finite (holders s aid)" "count_list (calls s) aid + card (holders s aid) \<le>
        count_list (log_of (db (world s)) aid) DISPATCHED"
      using assms(1) by (simp_all add: dispatch_inv_def)
    have "finite (holders t aid)" by (rule finite_subset [OF assms(3) old(1)])
    moreover have "card (holders t aid) \<le> card (holders s aid)" by (rule card_mono [OF old(1) assms(3)])
    ultimately show ?thesis using old(2) assms(5) log_grows [OF assms(2) inv, of aid DISPATCHED] by simp
  qed
  then show ?thesis using assms(4) w by (simp add: dispatch_inv_def)
qed

lemma dispatch_inv_step:
  assumes "dispatch_inv s" and "dispatch_step g s t"
  shows "dispatch_inv t"
  using assms(2)
proof cases
  case (prepare i a c w)
  have "core_step\<^sup>*\<^sup>* (world s) w" using core_run.keepsD [OF dispatch_prepare_keeps prepare(4)] .
  then show ?thesis unfolding prepare(1) by (rule dispatch_inv_run [OF assms(1)]) (auto simp: holders_task)
next
  case (win i a c b w)
  have inv: "action_inv (db (world s))" using assms(1) by (simp add: dispatch_inv_def)
  have run: "core_step (world s) w" using core_step.claim_action [OF win(3)] .
  have "action_inv (db w)" using action_inv_step [OF run inv] .
  moreover have "finite (holders t aid) \<and> count_list (calls t) aid + card (holders t aid) \<le>
      count_list (log_of (db w) aid) DISPATCHED" for aid
  proof (cases "aid = ar_action_id a")
    case True
    have "card (insert i (holders s aid)) \<le> Suc (card (holders s aid))"
      by (metis card_insert_le_m1 card.infinite finite_insert le_SucI card_insert_if le_refl)
    moreover have "count_list (calls s) aid + card (holders s aid) \<le>
        count_list (log_of (db (world s)) aid) DISPATCHED" "finite (holders s aid)"
      using assms(1) by (simp_all add: dispatch_inv_def)
    ultimately show ?thesis using win(1) True claim_logs [OF inv win(3), of aid]
      by (simp add: holders_task)
  next
    case False
    have "card (holders s aid - {i}) \<le> card (holders s aid)" by (rule card_Diff1_le)
    moreover have "count_list (calls s) aid + card (holders s aid) \<le>
        count_list (log_of (db (world s)) aid) DISPATCHED" "finite (holders s aid)"
      using assms(1) by (simp_all add: dispatch_inv_def)
    ultimately show ?thesis using win(1) False claim_logs [OF inv win(3), of aid]
      by (simp add: holders_task)
  qed
  ultimately show ?thesis using win(1) by (simp add: dispatch_inv_def)
next
  case (lose i a c r w)
  have "core_step\<^sup>*\<^sup>* (world s) w" using core_step.claim_action [OF lose(3)] by blast
  then show ?thesis unfolding lose(1) by (rule dispatch_inv_run [OF assms(1)]) (auto simp: holders_task)
next
  case (call i a c out w)
  have inv: "action_inv (db (world s))" using assms(1) by (simp add: dispatch_inv_def)
  have run: "core_step\<^sup>*\<^sup>* (world s) w" using core_run.keepsD [OF call_connector_keeps call(3)] .
  have "action_inv (db w)" using core_ts.inv_steps [OF run] inv by simp
  moreover have "finite (holders t aid) \<and> count_list (calls t) aid + card (holders t aid) \<le>
      count_list (log_of (db w) aid) DISPATCHED" for aid
  proof -
    have h: "holders t aid = holders s aid - {i}"
      using call(1) by (auto simp: holders_def)
    have old: "count_list (calls s) aid + card (holders s aid) \<le>
        count_list (log_of (db (world s)) aid) DISPATCHED" "finite (holders s aid)"
      using assms(1) by (simp_all add: dispatch_inv_def)
    have grow: "count_list (log_of (db (world s)) aid) DISPATCHED \<le>
        count_list (log_of (db w) aid) DISPATCHED" using log_grows [OF run inv] .
    show ?thesis
    proof (cases "aid = ar_action_id a")
      case True
      then have "i \<in> holders s aid" using call(2) by (auto simp: holders_def)
      then have "Suc (card (holders s aid - {i})) = card (holders s aid)"
        by (rule card_Suc_Diff1 [OF old(2)])
      then show ?thesis using old grow h call(1) True by simp
    next
      case False
      have "card (holders s aid - {i}) \<le> card (holders s aid)" by (rule card_Diff1_le)
      then show ?thesis using old grow h call(1) False by simp
    qed
  qed
  ultimately show ?thesis using call(1) by (simp add: dispatch_inv_def)
next
  case (outcome i a out r w)
  have "core_step\<^sup>*\<^sup>* (world s) w" using core_run.keepsD [OF record_outcome_keeps outcome(3)] .
  then show ?thesis unfolding outcome(1) by (rule dispatch_inv_run [OF assms(1)]) (auto simp: holders_task)
next
  case (kernel w)
  then have "core_step\<^sup>*\<^sup>* (world s) w" by blast
  then show ?thesis unfolding kernel(1) by (rule dispatch_inv_run [OF assms(1)]) (auto simp: holders_def)
qed

lemma dispatch_inv_init: "dispatch_init s \<Longrightarrow> dispatch_inv s"
  by (simp add: dispatch_init_def dispatch_inv_def fresh_install_def action_inv_empty holders_def)

interpretation dispatch_ts: transition_system dispatch_init "dispatch_step g" dispatch_inv for g
  by unfold_locales (auto intro: dispatch_inv_init dispatch_inv_step)

section \<open>At most one provider call\<close>

text \<open>C1: Whatever the interleaving of concurrent dispatches, retries, workers and other kernel
  operations, the provider is called at most once for every action.\<close>

theorem provider_called_at_most_once:
  assumes "dispatch_init s" and "(dispatch_step g)\<^sup>*\<^sup>* s t"
  shows "count_list (calls t) aid \<le> 1"
proof -
  have inv: "dispatch_inv t" using dispatch_ts.inv_reachable [OF assms] .
  then have "count_list (calls t) aid \<le> count_list (log_of (db (world t)) aid) DISPATCHED"
    unfolding dispatch_inv_def by (metis add_leE)
  then show ?thesis using dispatched_at_most_once [of "db (world t)" aid] inv
    by (simp add: dispatch_inv_def)
qed

section \<open>The phases are those of the gateway\<close>

lemma call_connector_Inr: "\<exists>out w. call_connector c cmd s = (Inr out, w)"
  by (auto simp: call_connector_def catchE_def returnE_def split: prod.split sum.split)

lemma dispatch_run:
  assumes "task s i = Idle" and "gateway_dispatch g a (world s) = (r, w)"
  shows "\<exists>t. (dispatch_step g)\<^sup>*\<^sup>* s t \<and> world t = w \<and> task t i = Idle"
proof (cases "ar_status a = AUTHORIZED")
  case False
  then show ?thesis using assms by (auto simp: gateway_dispatch_def returnE_def)
next
  case True
  obtain p w1 where p: "dispatch_prepare g (ar_command a) (world s) = (p, w1)" by fastforce
  show ?thesis
  proof (cases p)
    case (Inl e)
    then have "w = w1" using assms(2) p True by (simp add: gateway_dispatch_def bindE_def)
    moreover have "core_step\<^sup>*\<^sup>* (world s) w1" using core_run.keepsD [OF dispatch_prepare_keeps p] .
    then have "(dispatch_step g)\<^sup>*\<^sup>* s (s\<lparr>world := w1\<rparr>)"
    proof (induction rule: rtranclp_induct)
      case (step y z)
      then show ?case using dispatch_step.kernel [of "s\<lparr>world := y\<rparr>" z g]
        by (auto intro: rtranclp.rtrancl_into_rtrancl)
    qed simp
    ultimately show ?thesis using assms(1) by (intro exI [of _ "s\<lparr>world := w1\<rparr>"]) simp
  next
    case (Inr c)
    let ?s1 = "s\<lparr>world := w1, task := (task s)(i := Prepared a c)\<rparr>"
    have 1: "dispatch_step g s ?s1" using dispatch_step.prepare [OF assms(1) True p [unfolded Inr]] .
    obtain q w2 where q: "claim_action (ar_action_id a) w1 = (q, w2)" by fastforce
    show ?thesis
    proof (cases "\<exists>b. q = Inr (b, True)")
      case False
      let ?s2 = "?s1\<lparr>world := w2, task := (task ?s1)(i := Idle)\<rparr>"
      have "dispatch_step g ?s1 ?s2" using dispatch_step.lose [of ?s1 i a c q w2 g] q False by simp
      moreover have "w = w2" using assms(2) p Inr True q False
        by (auto simp: gateway_dispatch_def bindE_def returnE_def split: sum.splits prod.splits if_splits)
      ultimately show ?thesis using 1 by (intro exI [of _ ?s2]) auto
    next
      case True
      then obtain b where b: "q = Inr (b, True)" by blast
      let ?s2 = "?s1\<lparr>world := w2, task := (task ?s1)(i := Claimed a c)\<rparr>"
      have 2: "dispatch_step g ?s1 ?s2" using dispatch_step.win [of ?s1 i a c b w2 g] q b by simp
      obtain out w3 where out: "call_connector c (ar_command a) w2 = (Inr out, w3)"
        using call_connector_Inr by blast
      let ?s3 = "?s2\<lparr>world := w3, task := (task ?s2)(i := Called a out), calls := calls ?s2 @ [ar_action_id a]\<rparr>"
      have 3: "dispatch_step g ?s2 ?s3" using dispatch_step.call [of ?s2 i a c out w3 g] out by simp
      obtain x w4 where x: "record_outcome (ar_action_id a) (co_status out) (Some (co_details out)) w3 = (x, w4)"
        by fastforce
      let ?s4 = "?s3\<lparr>world := w4, task := (task ?s3)(i := Idle)\<rparr>"
      have 4: "dispatch_step g ?s3 ?s4" using dispatch_step.outcome [of ?s3 i a out x w4 g] x by simp
      have "w = w4" using assms(2) p Inr \<open>ar_status a = AUTHORIZED\<close> q b out x
        by (simp add: gateway_dispatch_def bindE_def)
      then show ?thesis using 1 2 3 4 by (intro exI [of _ ?s4]) (auto intro: converse_rtranclp_into_rtranclp)
    qed
  qed
qed


section \<open>A concrete gateway\<close>

definition demo_connector :: "nat ActionConnector" where
  "demo_connector = \<lparr>conn_dispatch = (\<lambda>cmd n. (Inr (outcome_succeeded []), Suc n)),
     conn_reconcile = (\<lambda>cmd prior n. (Inr (outcome_unknown []), n))\<rparr>"

definition demo_gateway :: "nat ActionGateway" where
  "demo_gateway = \<lparr>gw_connectors = Connectors [(''add_case_note'', demo_connector)],
     gw_policy_registry = False, gw_policy_resolver = False, gw_mac = demo_mac,
     gw_signer = demo_signer\<rparr>"

definition demo_gworld :: "nat gworld" where
  "demo_gworld = policy_world.extend demo_policy_start (gworld.fields 0)"

definition demo_dispatch_start :: "nat dispatch_state" where
  "demo_dispatch_start = \<lparr>world = demo_gworld, task = (\<lambda>_. Idle), calls = []\<rparr>"

lemma demo_dispatch_init: "dispatch_init demo_dispatch_start"
  by (simp add: dispatch_init_def demo_dispatch_start_def demo_gworld_def fresh_install_def
      demo_policy_start_def demo_start_def policy_world.defs gworld.defs kworld.defs)

definition demo_gworld_authorized :: "nat gworld" where
  "demo_gworld_authorized = snd (gateway_authorize demo_gateway demo_command 0
     (snd (kernel_create_case ''C1'' ''U1'' ''refund'' ''1'' demo_gworld)))"

definition demo_action :: ActionRecord where
  "demo_action = \<lparr>ar_action_id = ''ACT-'', ar_command = demo_command, ar_status = AUTHORIZED,
     ar_outcome = None, ar_created_at = 0, ar_updated_at = 0\<rparr>"

lemma demo_gateway_dispatch:
  "provider (snd (gateway_dispatch demo_gateway demo_action demo_gworld_authorized)) = 1"
  "provider (snd (gateway_dispatch demo_gateway demo_action
     (snd (gateway_dispatch demo_gateway demo_action demo_gworld_authorized)))) = 1"
  by code_simp+

lemma demo_dispatch_run:
  "(dispatch_step demo_gateway)\<^sup>*\<^sup>* demo_dispatch_start (demo_dispatch_start\<lparr>world := demo_gworld_authorized\<rparr>)"
proof -
  have run: "(dispatch_step g)\<^sup>*\<^sup>* s (s\<lparr>world := w\<rparr>)" if "core_step\<^sup>*\<^sup>* (world s) w" for g s and w :: "nat gworld"
    using that
  proof (induction rule: rtranclp_induct)
    case (step y z)
    then show ?case using dispatch_step.kernel [of "s\<lparr>world := y\<rparr>" z g]
      by (auto intro: rtranclp.rtrancl_into_rtrancl)
  qed simp
  have "core_step\<^sup>*\<^sup>* demo_gworld (snd (kernel_create_case ''C1'' ''U1'' ''refund'' ''1'' demo_gworld))"
    by (rule keeps_run) (rule kernel_create_case_keeps)
  moreover have "core_step\<^sup>*\<^sup>* (snd (kernel_create_case ''C1'' ''U1'' ''refund'' ''1'' demo_gworld)) demo_gworld_authorized"
    unfolding demo_gworld_authorized_def by (rule keeps_run) (rule gateway_authorize_keeps)
  ultimately have "core_step\<^sup>*\<^sup>* (world demo_dispatch_start) demo_gworld_authorized"
    by (simp add: demo_dispatch_start_def)
  then show ?thesis by (rule run)
qed


theorem provider_called_at_most_once_witness:
  "\<exists>t. (dispatch_step demo_gateway)\<^sup>*\<^sup>* demo_dispatch_start t \<and> provider (world t) = 1 \<and>
     count_list (calls t) ''ACT-'' \<le> 1"
proof -
  let ?s = "demo_dispatch_start\<lparr>world := demo_gworld_authorized\<rparr>"
  have "task ?s 0 = Idle" by (simp add: demo_dispatch_start_def)
  from dispatch_run [OF this surjective_pairing, of demo_gateway demo_action] obtain t where
    t: "(dispatch_step demo_gateway)\<^sup>*\<^sup>* ?s t" "provider (world t) = 1"
    using demo_gateway_dispatch(1) by auto
  then have "(dispatch_step demo_gateway)\<^sup>*\<^sup>* demo_dispatch_start t" using demo_dispatch_run by simp
  then show ?thesis using t(2) provider_called_at_most_once [OF demo_dispatch_init] by blast
qed

end
