(* ===== verification/Gateway_Laws.thy ===== *)
theory Gateway_Laws
  imports Dispatch_Concurrency
begin

text \<open>
  What the gateway enforces: the policy an action is authorised under, the outcome a dispatch
  records, and the statuses reconciliation can end in.
\<close>

section \<open>Authorisation under policy\<close>

lemma service_require_active_Inr:
  assumes "service_require_active mac sg k s = (Inr p, t)"
  shows "db t = db s \<and> pp_lifecycle p = ACTIVE \<and> verify mac sg p \<and>
    (\<exists>x \<in> set (policy_packages s). row_package_id x = k \<and> row_package x = p)"
  using assms
  by (auto simp: service_require_active_def bindE_def policy_require_eq raise_if_def raiseE_def
      returnE_def on_registry_def split: option.splits if_splits sum.splits dest!: select_one_Some)

definition stamped ::
  "ActionCommand \<Rightarrow> 'p ResolvedActionConnector \<Rightarrow> PolicyPackage \<Rightarrow> ActionCommand" where
  "stamped cmd res p = cmd\<lparr>cmd_connector_binding_id := Some (rc_binding_id res),
     cmd_connector_binding_version := Some (rc_binding_version res),
     cmd_contract_version := Some (rc_contract_version res),
     cmd_policy_activation_signature := pp_activation_signature p\<rparr>"

lemma authorize_action_command:
  assumes "authorize_action cmd v s = (Inr a, t)" and "wf_command cmd" and "case_keys (db s)"
  shows "cmd_eq (ar_command a) cmd"
proof (cases "select_one (\<lambda>x. cmd_idempotency_key (ar_command x) = cmd_idempotency_key cmd)
     (action_attempts (db s))")
  case None
  then obtain sp where "authorize_new_action cmd sp v s = (Inr a, t)"
    using assms(1) by (auto simp: authorize_action_new split: option.splits)
  from authorize_new_action_ok [OF this] have "ar_command a = cmd"
    using insert_action_cases assms(3) by fastforce
  then show ?thesis using cmd_eq_refl [OF assms(2)] by simp
next
  case (Some d)
  then show ?thesis using assms(1) by (auto simp: authorize_action_duplicate split: if_splits)
qed

text \<open>C3: With the policy service in place, an action is authorised only under a package that is
  active and validly signed, written for the procedure of the action's case and permitting the
  action; the authorised command is stamped with the activation of that package and with the
  binding the server resolves, whatever binding the inbound command named.\<close>

theorem gateway_authorize_governed:
  assumes "gw_policy_resolver g" and "gateway_authorize g cmd v s = (Inr a, t)"
    and "wf_command cmd" and "case_keys (db s)"
  shows "\<exists>x c res. x \<in> set (policy_packages s) \<and> row_package_id x = cmd_policy_package_id cmd \<and>
    pp_lifecycle (row_package x) = ACTIVE \<and> verify (gw_mac g) (gw_signer g) (row_package x) \<and>
    c \<in> set (workflow_cases (db s)) \<and> cr_case_id c = cmd_case_id cmd \<and>
    cr_procedure_id c = pp_procedure_id (row_package x) \<and>
    check_allowed (row_package x) (cmd_action cmd) = Inr () \<and>
    resolve_connector g cmd False = Inr res \<and>
    cmd_eq (ar_command a) (stamped cmd res (row_package x))"
proof -
  from assms(1,2) obtain res p u c where
    res: "resolve_connector g cmd False = Inr res"
    and p: "service_require_active (gw_mac g) (gw_signer g) (cmd_policy_package_id cmd) s = (Inr p, u)"
    and c: "select_one (\<lambda>x. cr_case_id x = cmd_case_id cmd) (workflow_cases (db u)) = Some c"
      "pp_procedure_id p = cr_procedure_id c"
    and ok: "check_allowed p (cmd_action cmd) = Inr ()"
    and auth: "authorize_action (stamped cmd res p) v u = (Inr a, t)"
    unfolding gateway_authorize_def
    by (auto simp: bindE_Inr liftE_def Let_def gateway_require_active_def get_case_def read_db_def
        raise_if_def raiseE_def returnE_def stamped_def CaseRecord.defs split: option.splits if_splits)
  have wf: "wf_command (stamped cmd res p)" using assms(3) by (simp add: wf_command_def stamped_def)
  note pu = service_require_active_Inr [OF p]
  have "case_keys (db u)" using pu assms(4) by simp
  note eq = authorize_action_command [OF auth wf this]
  from pu obtain x where x: "x \<in> set (policy_packages s)" "row_package_id x = cmd_policy_package_id cmd"
      "row_package x = p" by blast
  have "c \<in> set (workflow_cases (db s))" "cr_case_id c = cmd_case_id cmd"
    using select_one_Some [OF c(1)] pu by simp_all
  then show ?thesis using x pu res ok c(2) eq by (intro exI [of _ x] exI [of _ c] exI [of _ res]) simp
qed

section \<open>Outcomes\<close>

lemma record_outcome_Inr:
  assumes "record_outcome aid st out s = (Inr b, t)" and "action_keys (db s)"
  shows "ar_action_id b = aid \<and> ar_status b = st \<and> ar_outcome b = out \<and>
    (\<exists>e. status_of (db s) aid = Some e \<and> st \<in> set (allowed_outcomes e))"
proof -
  from assms(1) obtain a :: ActionRecord where
    a: "transition_action aid (ar_status a) st out s = (Inr b, t)"
      "st \<in> set (allowed_outcomes (ar_status a))"
    by (auto simp: record_outcome_def bindE_def get_action_eq raise_if_def raiseE_def
        returnE_def split: if_splits option.splits)
  from transition_action_cases [OF a(1) assms(2)] a(2) show ?thesis by auto
qed

lemma claim_action_won:
  assumes "claim_action aid s = (Inr (a, True), t)" and "action_inv (db s)"
  shows "action_inv (db t)" "status_of (db t) aid = Some DISPATCHED"
proof -
  show "action_inv (db t)" using core_step.claim_action [OF assms(1)] action_inv_step assms(2) by blast
  have "action_keys (db s)" using assms(2) by (simp add: action_inv_def)
  from claim_action_cases [OF assms(1) this] obtain now where
    "with_event (moved (db s) aid AUTHORIZED (\<lambda>x. x\<lparr>ar_status := DISPATCHED, ar_updated_at := now\<rparr>))
       aid DISPATCHED None (db t)" "status_of (db s) aid = Some AUTHORIZED" by auto
  from status_of_moved [OF this] show "status_of (db t) aid = Some DISPATCHED" by simp
qed

text \<open>C10: A dispatch that wins its claim and returns has recorded exactly what the connector
  reported, which is then a success, a failure or an unknown outcome; a connector that raises is
  recorded as unknown with the name of the exception, never as a failure or a success.\<close>

theorem dispatch_records_outcome:
  assumes "action_inv (db s)" and "ar_status a = AUTHORIZED"
    and "dispatch_prepare g (ar_command a) s = (Inr c, u)"
    and "claim_action (ar_action_id a) u = (Inr (a', True), v)"
    and "gateway_dispatch g a s = (Inr b, t)"
  shows "case conn_dispatch c (ar_command a) (provider v) of
      (Inr out, p) \<Rightarrow> ar_status b = co_status out \<and> ar_outcome b = Some (co_details out) \<and>
        co_status out \<in> {SUCCEEDED, FAILED, UNKNOWN}
    | (Inl e, p) \<Rightarrow> ar_status b = UNKNOWN \<and>
        ar_outcome b = Some [(''reason'', JStr ''connector_exception''), (''error_type'', JStr (exn_name e))]"
proof -
  have su: "core_step\<^sup>*\<^sup>* s u" using core_run.keepsD [OF dispatch_prepare_keeps assms(3)] .
  have inv_u: "action_inv (db u)" using core_ts.inv_steps [OF su] assms(1) by simp
  note won = claim_action_won [OF assms(4) inv_u]
  obtain out w where out: "call_connector c (ar_command a) v = (Inr out, w)"
    using call_connector_Inr by blast
  have dbw: "db w = db v" using out
    by (auto simp: call_connector_def catchE_def on_provider_def returnE_def split: prod.splits sum.splits)
  have rec: "record_outcome (ar_action_id a) (co_status out) (Some (co_details out)) w = (Inr b, t)"
    using assms(2-5) out by (simp add: gateway_dispatch_def bindE_def)
  have "action_keys (db w)" using won(1) dbw by (simp add: action_inv_def)
  from record_outcome_Inr [OF rec this] have
    "ar_status b = co_status out \<and> ar_outcome b = Some (co_details out) \<and>
     co_status out \<in> {SUCCEEDED, FAILED, UNKNOWN}"
    using won(2) dbw by auto
  then show ?thesis using out
    by (auto simp: call_connector_def catchE_def on_provider_def returnE_def outcome_unknown_def
        split: prod.splits sum.splits)
qed

text \<open>The checks before the claim touch neither the core tables nor the provider.\<close>

interpretation quiet: op_rel "\<lambda>s t. provider t = provider s \<and> db t = db s"
  by unfold_locales auto

lemma on_registry_quiet: "quiet.keeps (on_registry f :: (unit, 'p, 'z) gop)"
  by (auto simp: quiet.keeps_def on_registry_def split: sum.split)

lemma dispatch_prepare_quiet: "quiet.keeps (dispatch_prepare g c :: ('p ActionConnector, 'p, 'z) gop)"
  unfolding dispatch_prepare_def dispatch_policy_def gateway_require_active_def
    gateway_require_snapshot_def service_require_active_def service_require_snapshot_def
    policy_require_def repo_get_def
  by (auto intro!: quiet.keeps_intros on_registry_quiet split: option.split)

text \<open>An action that is no longer authorised in the store reaches no provider: dispatching a
  stale copy of it leaves the provider untouched.\<close>

theorem stale_dispatch_calls_nobody:
  fixes s :: "('p, 'z) gworld_scheme"
  assumes "action_inv (db s)" and "status_of (db s) (ar_action_id a) \<noteq> Some AUTHORIZED"
  shows "provider (snd (gateway_dispatch g a s)) = provider s"
proof (cases "ar_status a = AUTHORIZED")
  case False
  then show ?thesis by (simp add: gateway_dispatch_def returnE_def)
next
  case True
  obtain p u where p: "dispatch_prepare g (ar_command a) s = (p, u)" by fastforce
  have u: "provider u = provider s \<and> db u = db s"
    using quiet.keepsD [OF dispatch_prepare_quiet p] .
  show ?thesis
  proof (cases p)
    case (Inl e)
    then show ?thesis using p u True by (simp add: gateway_dispatch_def bindE_def)
  next
    case (Inr c)
    obtain q w where q: "claim_action (ar_action_id a) u = (q, w)" by fastforce
    have "action_keys (db u)" using assms(1) u by (simp add: action_inv_def)
    from claim_action_cases [OF q this] have "\<forall>x. q \<noteq> Inr (x, True)" using assms(2) u by auto
    moreover have "provider w = provider u" using q
      by (auto simp: claim_action_def op_defs get_action_def append_event_def split: prod.splits sum.splits if_splits option.splits)
    ultimately show ?thesis using p Inr q u True
      by (auto simp: gateway_dispatch_def bindE_def returnE_def split: sum.splits prod.splits if_splits)
  qed
qed

lemma on_provider_db: "on_provider m s = (r, t) \<Longrightarrow> db t = db s"
  by (auto simp: on_provider_def split: prod.splits)

text \<open>Reconciliation that returns leaves the action unknown, failed or reconciled, never
  succeeded, and does nothing to an action that is neither dispatched nor unknown.\<close>

theorem reconcile_statuses:
  assumes "action_inv (db s)" and "gateway_reconcile g a s = (Inr b, t)"
  shows "if ar_status a \<in> {DISPATCHED, UNKNOWN}
    then ar_status b \<in> {UNKNOWN, FAILED, RECONCILED} \<and> ar_action_id b = ar_action_id a
    else b = a \<and> t = s"
proof (cases "ar_status a \<in> {DISPATCHED, UNKNOWN}")
  case False
  then show ?thesis using assms(2) by (auto simp: gateway_reconcile_def returnE_def)
next
  case True
  obtain u and a1 :: ActionRecord where
    first: "action_inv (db u)" "ar_action_id a1 = ar_action_id a" "ar_status a1 = UNKNOWN"
    and rest: "bindE (liftE (resolve_connector g (ar_command a1) True)) (\<lambda>resolved.
       bindE (on_provider (conn_reconcile (rc_connector resolved) (ar_command a1) (ar_outcome a1))) (\<lambda>outcome.
       if co_status outcome = SUCCEEDED
       then record_outcome (ar_action_id a1) RECONCILED (Some (co_details outcome))
       else record_outcome (ar_action_id a1) (co_status outcome) (Some (co_details outcome)))) u = (Inr b, t)"
  proof (cases "ar_status a = DISPATCHED")
    case True
    then obtain a1 u where r: "record_outcome (ar_action_id a) UNKNOWN
          (Some [(''reason'', JStr ''dispatch_lease_expired_before_outcome_recorded''),
                 (''prior'', case ar_outcome a of None \<Rightarrow> JNull | Some d \<Rightarrow> JObj d)]) s = (Inr a1, u)"
      using assms(2) unfolding gateway_reconcile_def by (auto simp: bindE_Inr)
    have "action_keys (db s)" using assms(1) by (simp add: action_inv_def)
    note o = record_outcome_Inr [OF r this]
    have "action_inv (db u)"
      using core_ts.inv_steps [OF core_run.keepsD [OF record_outcome_keeps r]] assms(1) by simp
    then show ?thesis using that [of u a1] o r True assms(2)
      by (auto simp: gateway_reconcile_def bindE_Inr)
  next
    case False
    then show ?thesis using that [of s a] True assms by (simp add: gateway_reconcile_def)
  qed
  from rest obtain w st and out :: ConnectorOutcome where "db w = db u" "st = RECONCILED \<or> st = co_status out \<and> st \<noteq> SUCCEEDED"
    and r: "record_outcome (ar_action_id a1) st (Some (co_details out)) w = (Inr b, t)"
  proof -
    from rest obtain res out u1 w where
      "liftE (resolve_connector g (ar_command a1) True) u = (Inr res, u1)"
      "on_provider (conn_reconcile (rc_connector res) (ar_command a1) (ar_outcome a1)) u1 = (Inr out, w)"
      and r: "(if co_status out = SUCCEEDED
        then record_outcome (ar_action_id a1) RECONCILED (Some (co_details out))
        else record_outcome (ar_action_id a1) (co_status out) (Some (co_details out))) w = (Inr b, t)"
      unfolding bindE_Inr by blast
    then have "db w = db u" by (auto simp: liftE_def on_provider_db)
    then show ?thesis using that [of w "if co_status out = SUCCEEDED then RECONCILED else co_status out" out] r
      by (auto split: if_splits)
  qed
  moreover have "action_keys (db w)" using first(1) \<open>db w = db u\<close> by (simp add: action_inv_def)
  ultimately have "ar_status b = st" "st \<noteq> SUCCEEDED" "ar_action_id b = ar_action_id a"
      "\<exists>e. st \<in> set (allowed_outcomes e)"
    using record_outcome_Inr [OF r] first(2) by auto
  moreover have "st \<in> set (allowed_outcomes e) \<Longrightarrow> st \<in> {SUCCEEDED, UNKNOWN, FAILED, RECONCILED}" for e
    by (cases e) auto
  ultimately show ?thesis using True by auto
qed

section \<open>Concrete dispatches\<close>

lemma demo_authorized_inv: "action_inv (db demo_gworld_authorized)"
proof -
  have "dispatch_inv (demo_dispatch_start\<lparr>world := demo_gworld_authorized\<rparr>)"
    using dispatch_ts.inv_reachable [OF demo_dispatch_init demo_dispatch_run] .
  then show ?thesis by (simp add: dispatch_inv_def)
qed

definition demo_gworld_done :: "nat gworld" where
  "demo_gworld_done = snd (gateway_dispatch demo_gateway demo_action demo_gworld_authorized)"

lemma demo_done_inv: "action_inv (db demo_gworld_done)"
  unfolding demo_gworld_done_def
  by (rule core_ts.inv_steps [OF keeps_run [OF gateway_dispatch_keeps] demo_authorized_inv])

theorem stale_dispatch_calls_nobody_witness:
  "provider (snd (gateway_dispatch demo_gateway demo_action demo_gworld_done)) = 1"
proof -
  have "provider demo_gworld_done = 1" "status_of (db demo_gworld_done) (ar_action_id demo_action) \<noteq> Some AUTHORIZED"
    by code_simp+
  then show ?thesis using stale_dispatch_calls_nobody [OF demo_done_inv, of demo_action demo_gateway] by simp
qed

theorem dispatch_records_outcome_witness:
  "\<exists>b t. gateway_dispatch demo_gateway demo_action demo_gworld_authorized = (Inr b, t) \<and> ar_status b = SUCCEEDED"
proof -
  let ?s = demo_gworld_authorized
  have p: "dispatch_prepare demo_gateway (ar_command demo_action) ?s = (Inr demo_connector, ?s)"
    by (simp add: dispatch_prepare_def dispatch_policy_def demo_gateway_def resolve_connector_def
        demo_action_def demo_command_def dict_get_def bindE_def liftE_def returnE_def)
  have "map_sum (\<lambda>e. e) snd (fst (claim_action (ar_action_id demo_action) ?s)) = Inr True"
    "map_sum (\<lambda>e. e) (\<lambda>b. ()) (fst (gateway_dispatch demo_gateway demo_action ?s)) = Inr ()"
    by code_simp+
  then obtain a' v b t where c: "claim_action (ar_action_id demo_action) ?s = (Inr (a', True), v)"
    and d: "gateway_dispatch demo_gateway demo_action ?s = (Inr b, t)"
    by (cases "claim_action (ar_action_id demo_action) ?s"; cases "gateway_dispatch demo_gateway demo_action ?s")
      (auto simp: map_sum_def split: sum.splits)
  have "ar_status demo_action = AUTHORIZED" by (simp add: demo_action_def)
  from dispatch_records_outcome [OF demo_authorized_inv this p c d] d show ?thesis
    by (auto simp: demo_connector_def outcome_succeeded_def)
qed

text \<open>A provider whose answer to the dispatch is lost and which reports success when asked again.\<close>

definition demo_lossy_gateway :: "nat ActionGateway" where
  "demo_lossy_gateway = demo_gateway\<lparr>gw_connectors := Connectors [(''add_case_note'',
     \<lparr>conn_dispatch = (\<lambda>cmd n. (Inl (OtherError ''TimeoutError''), Suc n)),
      conn_reconcile = (\<lambda>cmd prior n. (Inr (outcome_succeeded []), n))\<rparr>)]\<rparr>"

definition demo_gworld_unknown :: "nat gworld" where
  "demo_gworld_unknown = snd (gateway_dispatch demo_lossy_gateway demo_action demo_gworld_authorized)"

lemma demo_unknown_inv: "action_inv (db demo_gworld_unknown)"
  unfolding demo_gworld_unknown_def
  by (rule core_ts.inv_steps [OF keeps_run [OF gateway_dispatch_keeps] demo_authorized_inv])

theorem reconcile_statuses_witness:
  "\<exists>b t. gateway_reconcile demo_lossy_gateway (demo_action\<lparr>ar_status := UNKNOWN\<rparr>) demo_gworld_unknown =
     (Inr b, t) \<and> ar_status b \<in> {UNKNOWN, FAILED, RECONCILED}"
proof -
  let ?a = "demo_action\<lparr>ar_status := UNKNOWN\<rparr>"
  have "map_sum (\<lambda>e. e) (\<lambda>b. ()) (fst (gateway_reconcile demo_lossy_gateway ?a demo_gworld_unknown)) = Inr ()"
    by code_simp
  then obtain b t where r: "gateway_reconcile demo_lossy_gateway ?a demo_gworld_unknown = (Inr b, t)"
    by (cases "gateway_reconcile demo_lossy_gateway ?a demo_gworld_unknown")
      (auto simp: map_sum_def split: sum.splits)
  from reconcile_statuses [OF demo_unknown_inv r] r show ?thesis by simp
qed

definition demo_governed_gateway :: "nat ActionGateway" where
  "demo_governed_gateway = demo_gateway\<lparr>gw_policy_resolver := True\<rparr>"

definition demo_governed_world :: "nat gworld" where
  "demo_governed_world = snd (kernel_create_case ''C1'' ''U1'' ''cs_refund'' ''1''
     (policy_world.extend demo_active (gworld.fields 0)))"

theorem gateway_authorize_governed_witness:
  "\<exists>x \<in> set (policy_packages demo_governed_world). row_package_id x = ''P1'' \<and>
     pp_lifecycle (row_package x) = ACTIVE"
proof -
  let ?cmd = "demo_command\<lparr>cmd_policy_package_id := ''P1''\<rparr>"
  have "map_sum (\<lambda>e. e) (\<lambda>b. ()) (fst (gateway_authorize demo_governed_gateway ?cmd 0 demo_governed_world)) = Inr ()"
    "map cr_case_id (workflow_cases (db demo_governed_world)) = [''C1'']"
    by code_simp+
  then obtain a t where a: "gateway_authorize demo_governed_gateway ?cmd 0 demo_governed_world = (Inr a, t)"
    and k: "case_keys (db demo_governed_world)"
    by (cases "gateway_authorize demo_governed_gateway ?cmd 0 demo_governed_world")
      (auto simp: map_sum_def case_keys_def split: sum.splits)
  have "gw_policy_resolver demo_governed_gateway" by (simp add: demo_governed_gateway_def)
  moreover have "wf_command ?cmd" by code_simp
  ultimately show ?thesis using gateway_authorize_governed [OF _ a _ k] by auto
qed

end
