(* ===== verification/Access.thy ===== *)
theory Access
  imports Action_Specs
begin

text \<open>
  Who may do what: roles and permissions (\<open>auth/models.py\<close>, \<open>auth/rbac.py\<close>), the separation of
  actor and customer (\<open>auth/context.py\<close>), the inventory of tools a model may call
  (\<open>tools/catalog.py\<close>), the check every tool call goes through (\<open>tools/access.py\<close>) and the
  proposal-only wrappers of the consequential tools (\<open>tools/action_proposals.py\<close>).
\<close>

section \<open>Roles and permissions\<close>

datatype Role =
    ADMIN | SUPERVISOR | CUSTOMER_SERVICE_REP | FRAUD_ANALYST | READONLY | CUSTOMER | INTEGRATION

fun role_value :: "Role \<Rightarrow> string" where
  "role_value ADMIN = ''admin''"
| "role_value SUPERVISOR = ''supervisor''"
| "role_value CUSTOMER_SERVICE_REP = ''customer_service_rep''"
| "role_value FRAUD_ANALYST = ''fraud_analyst''"
| "role_value READONLY = ''readonly''"
| "role_value CUSTOMER = ''customer''"
| "role_value INTEGRATION = ''integration''"

definition all_roles :: "Role list" where
  "all_roles = [ADMIN, SUPERVISOR, CUSTOMER_SERVICE_REP, FRAUD_ANALYST, READONLY, CUSTOMER, INTEGRATION]"

definition role_of_value :: "string \<Rightarrow> exn + Role" where
  "role_of_value v = (case List.find (\<lambda>r. role_value r = v) all_roles of
     None \<Rightarrow> Inl (ValueError (v @ '' is not a valid Role'')) | Some r \<Rightarrow> Inr r)"

datatype Permission =
    ORDER_READ | ORDER_WRITE | REFUND_READ | REFUND_WRITE | CUSTOMER_READ | CUSTOMER_WRITE
  | CASE_READ | CASE_WRITE | ESCALATION_CREATE
  | FRAUD_ALERT_READ | FRAUD_ALERT_WRITE | ACCOUNT_FLAG | SAR_SUBMIT | TRANSACTION_READ | DEVICE_READ
  | ADMIN_READ | ADMIN_WRITE | TABLE_BROWSE | SESSION_READ | PROCEDURE_READ
  | CHANNEL_INGEST | CHANNEL_DELIVERY | PROVIDER_CALLBACK

fun permission_value :: "Permission \<Rightarrow> string" where
  "permission_value ORDER_READ = ''order:read''"
| "permission_value ORDER_WRITE = ''order:write''"
| "permission_value REFUND_READ = ''refund:read''"
| "permission_value REFUND_WRITE = ''refund:write''"
| "permission_value CUSTOMER_READ = ''customer:read''"
| "permission_value CUSTOMER_WRITE = ''customer:write''"
| "permission_value CASE_READ = ''case:read''"
| "permission_value CASE_WRITE = ''case:write''"
| "permission_value ESCALATION_CREATE = ''escalation:create''"
| "permission_value FRAUD_ALERT_READ = ''fraud_alert:read''"
| "permission_value FRAUD_ALERT_WRITE = ''fraud_alert:write''"
| "permission_value ACCOUNT_FLAG = ''account:flag''"
| "permission_value SAR_SUBMIT = ''sar:submit''"
| "permission_value TRANSACTION_READ = ''transaction:read''"
| "permission_value DEVICE_READ = ''device:read''"
| "permission_value ADMIN_READ = ''admin:read''"
| "permission_value ADMIN_WRITE = ''admin:write''"
| "permission_value TABLE_BROWSE = ''table:browse''"
| "permission_value SESSION_READ = ''session:read''"
| "permission_value PROCEDURE_READ = ''procedure:read''"
| "permission_value CHANNEL_INGEST = ''channel:ingest''"
| "permission_value CHANNEL_DELIVERY = ''channel:delivery''"
| "permission_value PROVIDER_CALLBACK = ''provider:callback''"

definition all_permissions :: "Permission list" where
  "all_permissions = [ORDER_READ, ORDER_WRITE, REFUND_READ, REFUND_WRITE, CUSTOMER_READ,
     CUSTOMER_WRITE, CASE_READ, CASE_WRITE, ESCALATION_CREATE, FRAUD_ALERT_READ, FRAUD_ALERT_WRITE,
     ACCOUNT_FLAG, SAR_SUBMIT, TRANSACTION_READ, DEVICE_READ, ADMIN_READ, ADMIN_WRITE, TABLE_BROWSE,
     SESSION_READ, PROCEDURE_READ, CHANNEL_INGEST, CHANNEL_DELIVERY, PROVIDER_CALLBACK]"

fun ROLE_PERMISSIONS :: "Role \<Rightarrow> Permission list" where
  "ROLE_PERMISSIONS ADMIN = all_permissions"
| "ROLE_PERMISSIONS SUPERVISOR =
     [ORDER_READ, ORDER_WRITE, REFUND_READ, REFUND_WRITE, CUSTOMER_READ, CUSTOMER_WRITE, CASE_READ,
      CASE_WRITE, ESCALATION_CREATE, FRAUD_ALERT_READ, FRAUD_ALERT_WRITE, ACCOUNT_FLAG, SAR_SUBMIT,
      TRANSACTION_READ, DEVICE_READ, ADMIN_READ, TABLE_BROWSE, SESSION_READ, PROCEDURE_READ]"
| "ROLE_PERMISSIONS CUSTOMER_SERVICE_REP =
     [ORDER_READ, REFUND_READ, REFUND_WRITE, CUSTOMER_READ, CASE_READ, CASE_WRITE,
      ESCALATION_CREATE, SESSION_READ, PROCEDURE_READ]"
| "ROLE_PERMISSIONS FRAUD_ANALYST =
     [FRAUD_ALERT_READ, FRAUD_ALERT_WRITE, ACCOUNT_FLAG, SAR_SUBMIT, TRANSACTION_READ, DEVICE_READ,
      CASE_READ, CASE_WRITE, ESCALATION_CREATE, SESSION_READ, PROCEDURE_READ]"
| "ROLE_PERMISSIONS READONLY =
     [ORDER_READ, CUSTOMER_READ, CASE_READ, REFUND_READ, FRAUD_ALERT_READ, TRANSACTION_READ,
      SESSION_READ, PROCEDURE_READ]"
| "ROLE_PERMISSIONS CUSTOMER = []"
| "ROLE_PERMISSIONS INTEGRATION =
     [CUSTOMER_READ, CASE_READ, CHANNEL_INGEST, CHANNEL_DELIVERY, PROVIDER_CALLBACK]"

record UserContext =
  uc_user_id :: string
  uc_role :: Role
  uc_permissions :: "string list"
  uc_token_issued_at :: "time option"

definition has_permission :: "UserContext \<Rightarrow> Permission \<Rightarrow> bool" where
  "has_permission u p \<longleftrightarrow> permission_value p \<in> set (uc_permissions u)"

definition has_any_permission :: "UserContext \<Rightarrow> Permission list \<Rightarrow> bool" where
  "has_any_permission u ps \<longleftrightarrow> list_ex (has_permission u) ps"

definition get_permissions_for_role :: "Role \<Rightarrow> string list" where
  "get_permissions_for_role r = map permission_value (ROLE_PERMISSIONS r)"

definition build_user_context :: "string \<Rightarrow> Role \<Rightarrow> string list option \<Rightarrow> UserContext" where
  "build_user_context user_id role extra_permissions =
     \<lparr>uc_user_id = user_id, uc_role = role,
      uc_permissions = get_permissions_for_role role @
        (case extra_permissions of None \<Rightarrow> [] | Some xs \<Rightarrow> xs),
      uc_token_issued_at = None\<rparr>"

text \<open>The two decorators: what they check before the wrapped function runs.\<close>

definition require_permission ::
  "Permission \<Rightarrow> (UserContext option \<Rightarrow> ('a, 's) op) \<Rightarrow> UserContext option \<Rightarrow> ('a, 's) op" where
  "require_permission p f user =
     (case user of
        None \<Rightarrow> raiseE (AuthorizationError ''No user context available'' None)
      | Some u \<Rightarrow>
          if \<not> has_permission u p
          then raiseE (AuthorizationError (''Permission '' @ [CHR 39] @ permission_value p @ [CHR 39] @ '' required'')
                 (Some (permission_value p)))
          else f user)"

definition require_role ::
  "Role list \<Rightarrow> (UserContext option \<Rightarrow> ('a, 's) op) \<Rightarrow> UserContext option \<Rightarrow> ('a, 's) op" where
  "require_role roles f user =
     (case user of
        None \<Rightarrow> raiseE (AuthorizationError ''No user context available'' None)
      | Some u \<Rightarrow>
          if uc_role u \<notin> set roles
          then raiseE (AuthorizationError
                 (''One of roles ['' @ join '', '' (map role_value roles) @ ''] required'') None)
          else f user)"

section \<open>Actors and customers\<close>

record CustomerContext =
  cc_actor_id :: string
  cc_customer_id :: string
  cc_delegated :: bool

definition resolve_customer_context :: "UserContext \<Rightarrow> string \<Rightarrow> exn + CustomerContext" where
  "resolve_customer_context actor customer_id =
     (if uc_role actor = CUSTOMER
      then if uc_user_id actor \<noteq> customer_id
           then Inl (AuthorizationError ''Customer identity does not match authenticated subject'' None)
           else Inr \<lparr>cc_actor_id = uc_user_id actor, cc_customer_id = customer_id, cc_delegated = False\<rparr>
      else if \<not> has_permission actor CUSTOMER_READ
      then Inl (AuthorizationError ''Customer delegation requires customer read permission''
             (Some (permission_value CUSTOMER_READ)))
      else Inr \<lparr>cc_actor_id = uc_user_id actor, cc_customer_id = customer_id, cc_delegated = True\<rparr>)"

definition session_owner_id :: "string \<Rightarrow> string \<Rightarrow> string" where
  "session_owner_id actor_id customer_id = ''actor:'' @ actor_id @ '':customer:'' @ customer_id"

section \<open>The tool catalog\<close>

datatype ToolOwner = CUSTOMER_SERVICE | FRAUD_OPERATIONS | SHARED_OPERATIONS | KNOWLEDGE

datatype RiskTier = TIER_LOW | TIER_MEDIUM | TIER_HIGH | TIER_REGULATED

datatype AuthorizationMode = READ_PERMISSION | ACTION_GATEWAY_REQUIRED | PUBLIC_KNOWLEDGE

datatype IdempotencyMode = NOT_APPLICABLE | NOT_IMPLEMENTED | ACTION_GATEWAY

record ToolControl =
  tl_name :: string
  tl_owner :: ToolOwner
  tl_risk_tier :: RiskTier
  tl_consequential :: bool
  tl_required_permission :: "Permission option"
  tl_authorization_mode :: AuthorizationMode
  tl_idempotency_mode :: IdempotencyMode
  tl_production_model_enabled :: bool
  tl_proposal_only :: bool
  tl_self_service_allowed :: bool

definition read_tool :: "string \<Rightarrow> ToolOwner \<Rightarrow> Permission option \<Rightarrow> RiskTier \<Rightarrow> ToolControl" where
  "read_tool name owner permission risk_tier =
     \<lparr>tl_name = name, tl_owner = owner, tl_risk_tier = risk_tier, tl_consequential = False,
      tl_required_permission = permission,
      tl_authorization_mode = (if permission \<noteq> None then READ_PERMISSION else PUBLIC_KNOWLEDGE),
      tl_idempotency_mode = NOT_APPLICABLE, tl_production_model_enabled = True,
      tl_proposal_only = False, tl_self_service_allowed = False\<rparr>"

definition action_tool :: "string \<Rightarrow> ToolOwner \<Rightarrow> Permission \<Rightarrow> RiskTier \<Rightarrow> bool \<Rightarrow> ToolControl" where
  "action_tool name owner permission risk_tier self_service =
     \<lparr>tl_name = name, tl_owner = owner, tl_risk_tier = risk_tier, tl_consequential = True,
      tl_required_permission = Some permission, tl_authorization_mode = ACTION_GATEWAY_REQUIRED,
      tl_idempotency_mode = ACTION_GATEWAY, tl_production_model_enabled = True,
      tl_proposal_only = True, tl_self_service_allowed = self_service\<rparr>"

definition catalog_entries :: "ToolControl list" where
  "catalog_entries =
    [read_tool ''lookup_order'' CUSTOMER_SERVICE (Some ORDER_READ) TIER_LOW,
     read_tool ''get_customer_profile'' CUSTOMER_SERVICE (Some CUSTOMER_READ) TIER_LOW,
     read_tool ''search_orders'' CUSTOMER_SERVICE (Some ORDER_READ) TIER_LOW,
     read_tool ''lookup_dispute'' CUSTOMER_SERVICE (Some CASE_READ) TIER_LOW,
     read_tool ''check_dispute_eligibility'' CUSTOMER_SERVICE (Some CASE_READ) TIER_MEDIUM,
     read_tool ''get_knowledge_article'' KNOWLEDGE None TIER_LOW,
     read_tool ''get_fraud_alert'' FRAUD_OPERATIONS (Some FRAUD_ALERT_READ) TIER_LOW,
     read_tool ''get_account_transactions'' FRAUD_OPERATIONS (Some TRANSACTION_READ) TIER_MEDIUM,
     read_tool ''check_device_fingerprint'' FRAUD_OPERATIONS (Some DEVICE_READ) TIER_MEDIUM,
     action_tool ''issue_refund'' CUSTOMER_SERVICE REFUND_WRITE TIER_HIGH True,
     action_tool ''issue_store_credit'' CUSTOMER_SERVICE REFUND_WRITE TIER_HIGH False,
     action_tool ''update_case_status'' CUSTOMER_SERVICE CASE_WRITE TIER_MEDIUM False,
     action_tool ''file_eft_dispute'' CUSTOMER_SERVICE CASE_WRITE TIER_REGULATED False,
     action_tool ''issue_provisional_credit'' CUSTOMER_SERVICE REFUND_WRITE TIER_REGULATED False,
     action_tool ''escalate_to_supervisor'' SHARED_OPERATIONS ESCALATION_CREATE TIER_MEDIUM False,
     action_tool ''add_case_note'' SHARED_OPERATIONS CASE_WRITE TIER_MEDIUM False,
     action_tool ''flag_account'' FRAUD_OPERATIONS ACCOUNT_FLAG TIER_HIGH False,
     action_tool ''submit_sar'' FRAUD_OPERATIONS SAR_SUBMIT TIER_REGULATED False,
     action_tool ''close_alert'' FRAUD_OPERATIONS FRAUD_ALERT_WRITE TIER_HIGH False]"

definition TOOL_CATALOG :: "(string \<times> ToolControl) list" where
  "TOOL_CATALOG = map (\<lambda>e. (tl_name e, e)) catalog_entries"

text \<open>A registered tool, as far as the selection looks at it: the module that defines it.\<close>

fun select_tools :: "bool \<Rightarrow> (string \<times> string) list \<Rightarrow> exn + string list" where
  "select_tools production [] = Inr []"
| "select_tools production ((name, modname) # rest) =
     (case dict_get TOOL_CATALOG name of
        None \<Rightarrow> Inl (KeyError name)
      | Some control \<Rightarrow>
          if tl_proposal_only control \<and> modname \<noteq> ''workflow_engine.tools.action_proposals''
          then Inl (ValueError (''Consequential model tool '' @ name @ '' is not a proposal-only wrapper''))
          else (case select_tools production rest of
              Inl e \<Rightarrow> Inl e
            | Inr sel \<Rightarrow> Inr ((if \<not> production \<or> tl_production_model_enabled control then [name] else []) @ sel)))"

definition select_model_tools :: "(string \<times> string) list \<Rightarrow> bool \<Rightarrow> exn + string list" where
  "select_model_tools tool_map production = select_tools production (sort_key fst tool_map)"

section \<open>Tool calls\<close>

text \<open>\<open>tool_context.state\<close> is a dict of JSON values; \<open>actor_permissions\<close> is a list of strings.\<close>

definition state_permissions :: "pdict \<Rightarrow> json list" where
  "state_permissions st = (case dict_get st ''actor_permissions'' of Some (JList xs) \<Rightarrow> xs | _ \<Rightarrow> [])"

definition authorize_tool :: "string \<Rightarrow> pdict \<Rightarrow> string option \<Rightarrow> exn + unit" where
  "authorize_tool tool_name st customer_id =
     (case dict_get TOOL_CATALOG tool_name of
        None \<Rightarrow> Inl (KeyError tool_name)
      | Some control \<Rightarrow>
          let self_service = tl_self_service_allowed control \<and>
                dict_get st ''actor_role'' = Some (JStr ''customer'') \<and> truthy_get st ''customer_id'' in
          if (case tl_required_permission control of None \<Rightarrow> False
              | Some required \<Rightarrow> JStr (permission_value required) \<notin> set (state_permissions st) \<and> \<not> self_service)
          then Inl (AuthorizationError (''Tool '' @ [CHR 39] @ tool_name @ [CHR 39] @ '' is not authorized for this actor'')
                 (map_option permission_value (tl_required_permission control)))
          else if customer_id \<noteq> None \<and> dict_get st ''customer_id'' \<noteq> map_option JStr customer_id
          then Inl (AuthorizationError ''Tool customer does not match the authenticated session customer'' None)
          else Inr ())"

section \<open>Proposal-only tools\<close>

definition pending_intents :: "pdict \<Rightarrow> json list" where
  "pending_intents st = (case dict_get st ''pending_action_intents'' of Some (JList xs) \<Rightarrow> xs | _ \<Rightarrow> [])"

definition intent_of :: "string \<Rightarrow> pdict \<Rightarrow> (string \<times> string) option \<Rightarrow> json" where
  "intent_of action arguments resource =
     JObj ([(''action'', JStr action), (''arguments'', JObj arguments)] @
       (case resource of
          None \<Rightarrow> []
        | Some (rt, ri) \<Rightarrow> if rt \<noteq> [] \<and> ri \<noteq> []
            then [(''resource'', JObj [(''resource_type'', JStr rt), (''resource_id'', JStr ri)])] else []))"

definition queue_intent ::
  "string \<Rightarrow> pdict \<Rightarrow> (string \<times> string) option \<Rightarrow> (pdict, pdict) op" where
  "queue_intent action arguments resource =
     bindE (getE (\<lambda>st. st)) (\<lambda>st.
     bindE (liftE (authorize_tool action st None)) (\<lambda>_.
     let intents = pending_intents st;
         intent = intent_of action arguments resource;
         intents' = (if list_ex (\<lambda>x. py_eq intent x) intents then intents else intents @ [intent]) in
     bindE (modifyE (\<lambda>s. dict_set s ''pending_action_intents'' (JList intents'))) (\<lambda>_.
     returnE [(''status'', JStr ''confirmation_required''), (''action'', JStr action),
       (''message'', JStr (''The action has been proposed but not executed. The application will '' @
          ''show the customer or operator an authoritative confirmation card.''))])))"

definition tool_issue_refund :: "string \<Rightarrow> string \<Rightarrow> (pdict, pdict) op" where
  "tool_issue_refund order_id reason = queue_intent ''issue_refund''
     [(''order_id'', JStr order_id), (''reason'', JStr reason)] (Some (''order'', order_id))"

definition tool_issue_store_credit :: "string \<Rightarrow> string \<Rightarrow> (pdict, pdict) op" where
  "tool_issue_store_credit order_id reason = queue_intent ''issue_store_credit''
     [(''order_id'', JStr order_id), (''reason'', JStr reason)] (Some (''order'', order_id))"

definition tool_update_case_status :: "string \<Rightarrow> string \<Rightarrow> string \<Rightarrow> (pdict, pdict) op" where
  "tool_update_case_status case_id status notes = queue_intent ''update_case_status''
     [(''case_id'', JStr case_id), (''target_status'', JStr status), (''reason'', JStr notes)] None"

definition tool_file_eft_dispute ::
  "string \<Rightarrow> string \<Rightarrow> string \<Rightarrow> rat \<Rightarrow> string \<Rightarrow> string \<Rightarrow> string \<Rightarrow> string option \<Rightarrow> string \<Rightarrow> (pdict, pdict) op" where
  "tool_file_eft_dispute customer_id transaction_id dispute_type amount merchant transaction_date
     reason account_id payment_method = queue_intent ''file_eft_dispute''
     [(''customer_id'', JStr customer_id), (''transaction_id'', JStr transaction_id),
      (''amount'', JFloat amount), (''dispute_type'', JStr dispute_type), (''merchant'', JStr merchant),
      (''transaction_date'', JStr transaction_date), (''reason'', JStr reason),
      (''account_id'', case account_id of None \<Rightarrow> JNull | Some a \<Rightarrow> JStr a),
      (''payment_method'', JStr payment_method)] (Some (''transaction'', transaction_id))"

definition tool_issue_provisional_credit :: "string \<Rightarrow> (pdict, pdict) op" where
  "tool_issue_provisional_credit dispute_id =
     bindE (getE (\<lambda>st. st)) (\<lambda>st.
     let dispute = (case dict_get st ''dispute_data'' of Some (JObj d) \<Rightarrow> d | _ \<Rightarrow> []) in
     queue_intent ''issue_provisional_credit''
       [(''customer_id'', case dict_get st ''customer_id'' of None \<Rightarrow> JNull | Some v \<Rightarrow> v),
        (''dispute_id'', JStr dispute_id),
        (''amount'', case dict_get dispute ''amount'' of None \<Rightarrow> JNull | Some v \<Rightarrow> v)]
       (Some (''dispute'', dispute_id)))"

definition tool_escalate_to_supervisor :: "string \<Rightarrow> string \<Rightarrow> string \<Rightarrow> (pdict, pdict) op" where
  "tool_escalate_to_supervisor case_id reason priority = queue_intent ''escalate_to_supervisor''
     [(''case_id'', JStr case_id), (''reason'', JStr reason), (''priority'', JStr priority)] None"

definition tool_add_case_note :: "string \<Rightarrow> string \<Rightarrow> (pdict, pdict) op" where
  "tool_add_case_note case_id note = queue_intent ''add_case_note''
     [(''case_id'', JStr case_id), (''note'', JStr note)] None"

definition tool_flag_account :: "string \<Rightarrow> string \<Rightarrow> string \<Rightarrow> (pdict, pdict) op" where
  "tool_flag_account account_id reason action = queue_intent ''flag_account''
     [(''account_id'', JStr account_id), (''reason'', JStr reason), (''restriction'', JStr action)]
     (Some (''account'', account_id))"

definition tool_submit_sar :: "string \<Rightarrow> string \<Rightarrow> string \<Rightarrow> (pdict, pdict) op" where
  "tool_submit_sar account_id alert_id findings = queue_intent ''submit_sar''
     [(''account_id'', JStr account_id), (''alert_id'', JStr alert_id),
      (''narrative_ref'', JStr (''conversation-state:'' @ alert_id @ '':findings''))]
     (Some (''fraud_alert'', alert_id))"

definition tool_close_alert :: "string \<Rightarrow> string \<Rightarrow> (pdict, pdict) op" where
  "tool_close_alert alert_id resolution = queue_intent ''close_alert''
     [(''alert_id'', JStr alert_id), (''resolution'', JStr resolution)] (Some (''fraud_alert'', alert_id))"

section \<open>What the inventory guarantees\<close>

text \<open>The tool catalog and the action inventory agree: every consequential tool is a command of
  the closed inventory and the other way round, every consequential tool is proposal-only, goes
  through the gateway and requires a permission, and no tool that only reads needs confirmation.\<close>

theorem catalog_matches_inventory:
  "set (map tl_name (filter tl_consequential catalog_entries)) = set (dict_keys ACTION_SPECIFICATIONS) \<and>
   distinct (dict_keys TOOL_CATALOG) \<and>
   list_all (\<lambda>c. if tl_consequential c
      then tl_proposal_only c \<and> tl_authorization_mode c = ACTION_GATEWAY_REQUIRED \<and>
        tl_idempotency_mode c = ACTION_GATEWAY \<and> tl_required_permission c \<noteq> None
      else \<not> tl_proposal_only c \<and> tl_authorization_mode c \<noteq> ACTION_GATEWAY_REQUIRED) catalog_entries"
  by (simp add: catalog_entries_def read_tool_def action_tool_def ACTION_SPECIFICATIONS_def
      specification_list_def mk_spec_def dict_keys_def TOOL_CATALOG_def insert_commute)

lemma queue_intent_cases:
  assumes "queue_intent a args res st = (r, st')"
  shows "(\<exists>e. authorize_tool a st None = Inl e \<and> r = Inl e \<and> st' = st) \<or>
    (authorize_tool a st None = Inr () \<and> (\<exists>d xs. r = Inr d \<and> dict_get d ''status'' = Some (JStr ''confirmation_required'') \<and>
       st' = dict_set st ''pending_action_intents'' (JList (pending_intents st @ xs)) \<and> length xs \<le> 1))"
proof (cases "authorize_tool a st None")
  case (Inl e)
  then show ?thesis using assms by (simp add: queue_intent_def bindE_def getE_def liftE_def)
next
  case (Inr u)
  let ?xs = "if list_ex (py_eq (intent_of a args res)) (pending_intents st) then [] else [intent_of a args res]"
  have st': "st' = dict_set st ''pending_action_intents'' (JList (pending_intents st @ ?xs))"
    and "\<exists>d. r = Inr d \<and> dict_get d ''status'' = Some (JStr ''confirmation_required'')"
    using assms Inr by (auto simp: queue_intent_def bindE_def getE_def liftE_def modifyE_def returnE_def Let_def dict_get_def)
  then obtain d where d: "r = Inr d" "dict_get d ''status'' = Some (JStr ''confirmation_required'')" by blast
  have "length ?xs \<le> 1" by simp
  then show ?thesis using Inr d st' by (intro disjI2 conjI exI [of _ d] exI [of _ ?xs]) auto
qed

lemma authorize_tool_Inr:
  "authorize_tool a st None = Inr () \<longleftrightarrow> (\<exists>c. dict_get TOOL_CATALOG a = Some c \<and>
     (case tl_required_permission c of None \<Rightarrow> True
      | Some p \<Rightarrow> JStr (permission_value p) \<in> set (state_permissions st) \<or>
          tl_self_service_allowed c \<and> dict_get st ''actor_role'' = Some (JStr ''customer'') \<and>
          truthy_get st ''customer_id''))"
  by (auto simp: authorize_tool_def Let_def split: option.splits if_splits)


text \<open>The owner key of a session separates actor and customer pairs whenever the actor's
  identifier contains no colon.\<close>

theorem session_owner_separates:
  assumes "CHR '':'' \<notin> set a" and "CHR '':'' \<notin> set a'"
  shows "session_owner_id a c = session_owner_id a' c' \<longleftrightarrow> a = a' \<and> c = c'"
proof
  assume "session_owner_id a c = session_owner_id a' c'"
  then have eq: "a @ CHR '':'' # (''customer:'' @ c) = a' @ CHR '':'' # (''customer:'' @ c')"
    by (simp add: session_owner_id_def)
  have tw: "takeWhile (\<lambda>x. x \<noteq> CHR '':'') (b @ CHR '':'' # r) = b" if "CHR '':'' \<notin> set b" for b r
    using that by (induction b) auto
  have "a = a'" using tw [OF assms(1)] tw [OF assms(2)] eq by metis
  then show "a = a' \<and> c = c'" using eq by simp
qed simp

text \<open>Without that condition the key does not separate them, although it is documented to:
  two different pairs share one owner key.\<close>

theorem session_owner_collision:
  "session_owner_id ''x:customer:y'' ''z'' = session_owner_id ''x'' ''y:customer:z''"
  by (simp add: session_owner_id_def)

theorem session_owner_separates_witness:
  "session_owner_id ''alice'' ''bob'' \<noteq> session_owner_id ''alice'' ''carol''"
  using session_owner_separates [of "''alice''" "''alice''" "''bob''" "''carol''"] by simp


end
