(* ===== verification/Kernel_Views.thy ===== *)
theory Kernel_Views
  imports Kernel_Properties
begin

text \<open>
  What an operation leaves alone: a view is any reading of the tables, usually one table, and the
  contract is that an operation keeps it (and never replaces the clock). The rules for the
  statements are proved once for every view; each interpretation then lists the operations that
  keep its table.
\<close>

locale table_view =
  fixes view :: "core_db \<Rightarrow> 'v"
begin

definition same_view :: "'z kworld_scheme \<Rightarrow> 'z kworld_scheme \<Rightarrow> bool" where
  "same_view s t \<longleftrightarrow> view (db t) = view (db s) \<and> clock_src t = clock_src s"

end

sublocale table_view \<subseteq> op_rel same_view
  by unfold_locales (auto simp: same_view_def)

context table_view
begin

lemma keeps_reads: "keeps now_op" "keeps uuid_op" "keeps (read_db f)"
  by (simp_all add: keeps_def same_view_def now_op_def uuid_op_def read_db_def)

lemma keeps_tx: "keeps m \<Longrightarrow> keeps (tx m)"
  unfolding keeps_def same_view_def tx_def
  by (auto split: prod.splits sum.splits) (metis snd_conv)+

lemma keeps_upd_db: "(\<And>d. view (f d) = view d) \<Longrightarrow> keeps (upd_db f)"
  by (simp add: keeps_def same_view_def upd_db_def)

lemma keeps_update_rows: "(\<And>xs d. view (upd xs d) = view d) \<Longrightarrow> keeps (update_rows tbl upd p f)"
  by (simp add: keeps_def same_view_def update_rows_eq)

lemma keeps_insert_row: "(\<And>xs d. view (upd xs d) = view d) \<Longrightarrow> keeps (insert_row tbl upd c n r)"
  by (simp add: keeps_def same_view_def insert_row_eq)

lemma view_kept: "keeps m \<Longrightarrow> m s = (r, t) \<Longrightarrow> view (db t) = view (db s)"
  using keepsD [of m s r t] by (simp add: same_view_def)

lemma clock_kept: "keeps m \<Longrightarrow> m s = (r, t) \<Longrightarrow> clock_src t = clock_src s"
  using keepsD [of m s r t] by (simp add: same_view_def)

lemmas view_intros = keeps_intros keeps_reads keeps_tx keeps_upd_db keeps_update_rows keeps_insert_row

end

section \<open>The inbox\<close>

interpretation inbox_view: table_view "\<lambda>d. (conversation_inbox_v3 d, conversation_sequences d)" .

lemmas store_defs = create_case_def append_fact_def insert_action_def insert_attempt_def
  insert_outbox_def append_event_def transition_action_def claim_action_def get_action_def
  get_case_def bump_case_version_def create_action_proposal_def transition_action_proposal_def
  get_action_proposal_def enqueue_outbox_def claim_outbox_def settle_outbox_def create_handoff_def
  update_handoff_def store_transition_handoff_def get_handoff_def initialize_def backfill_action_def
  backfill_event_def

lemma inbox_view_ops:
  "inbox_view.keeps (create_case c)" "inbox_view.keeps (append_fact cid p v)"
  "inbox_view.keeps (insert_action r v)" "inbox_view.keeps (claim_action aid)"
  "inbox_view.keeps (transition_action aid e st out)" "inbox_view.keeps (create_action_proposal q)"
  "inbox_view.keeps (transition_action_proposal pid pe ps ev act)"
  "inbox_view.keeps (enqueue_outbox tp ag pl)" "inbox_view.keeps (claim_outbox w ls n)"
  "inbox_view.keeps (settle_outbox oid os ra er)" "inbox_view.keeps (create_handoff h)"
  "inbox_view.keeps (update_handoff hid hs agent)"
  "inbox_view.keeps (store_transition_handoff hid he hs agent)" "inbox_view.keeps initialize"
  unfolding store_defs Let_def
  by (auto intro!: inbox_view.view_intros split: option.split)

section \<open>The outbox\<close>

interpretation outbox_view: table_view core_outbox .

lemma outbox_view_ops:
  "outbox_view.keeps (create_case c)" "outbox_view.keeps (append_fact cid p v)"
  "outbox_view.keeps (claim_action aid)" "outbox_view.keeps (get_action aid)"
  "outbox_view.keeps (transition_action aid e st out)" "outbox_view.keeps (create_action_proposal q)"
  "outbox_view.keeps (transition_action_proposal pid pe ps ev act)"
  "outbox_view.keeps (create_handoff h)"
  "outbox_view.keeps (store_transition_handoff hid he hs agent)"
  unfolding store_defs Let_def
  by (auto intro!: outbox_view.view_intros split: option.split)

section \<open>Proposals\<close>

interpretation proposal_view: table_view action_proposals .

lemma proposal_view_ops:
  "proposal_view.keeps (create_case c)" "proposal_view.keeps (append_fact cid p v)"
  "proposal_view.keeps (insert_action r v)" "proposal_view.keeps (claim_action aid)"
  "proposal_view.keeps (transition_action aid e st out)"
  "proposal_view.keeps (enqueue_outbox tp ag pl)" "proposal_view.keeps (claim_outbox w ls n)"
  "proposal_view.keeps (settle_outbox oid os ra er)" "proposal_view.keeps (create_handoff h)"
  "proposal_view.keeps (update_handoff hid hs agent)"
  "proposal_view.keeps (store_transition_handoff hid he hs agent)" "proposal_view.keeps initialize"
  "proposal_view.keeps (get_case cid)" "proposal_view.keeps (get_action aid)"
  "proposal_view.keeps (get_action_by_key key)" "proposal_view.keeps (get_fact cid nm)"
  unfolding store_defs get_action_by_key_def get_fact_def Let_def
  by (auto intro!: proposal_view.view_intros split: option.split)

end
