(* ===== verification/Inbox_Laws.thy ===== *)
theory Inbox_Laws
  imports Kernel_Properties
begin

text \<open>
  The ordered inbox: however a provider repeats, delays or reorders its deliveries, the messages
  of a conversation that are accepted are in sequence, without a gap and without a repetition.
\<close>

section \<open>Rows found by a compound key\<close>

lemma select_pair:
  "select_one (\<lambda>x. f x = a \<and> g x = b) xs = select_one (\<lambda>x. (f x, g x) = (a, b)) xs"
  by simp

lemma sequence_of_upsert:
  "sequence_of (d\<lparr>conversation_sequences := upsert_sequence r (conversation_sequences d)\<rparr>) p c =
     (if p = sq_provider_id r \<and> c = sq_conversation_id r then Some (sq_last_sequence r)
      else sequence_of d p c)"
proof -
  have "map_option sq_last_sequence (select_one (\<lambda>x. sq_provider_id x = p \<and> sq_conversation_id x = c)
      (upsert_sequence r xs)) =
    (if p = sq_provider_id r \<and> c = sq_conversation_id r then Some (sq_last_sequence r)
     else map_option sq_last_sequence
       (select_one (\<lambda>x. sq_provider_id x = p \<and> sq_conversation_id x = c) xs))" for xs
  proof (cases "list_ex (\<lambda>x. sq_provider_id x = sq_provider_id r \<and>
      sq_conversation_id x = sq_conversation_id r) xs")
    case True
    have upd: "map_option sq_last_sequence (select_one (\<lambda>x. sq_provider_id x = p \<and> sq_conversation_id x = c)
        (sql_update (\<lambda>x. sq_provider_id x = sq_provider_id r \<and> sq_conversation_id x = sq_conversation_id r)
          (\<lambda>x. x\<lparr>sq_last_sequence := sq_last_sequence r, sq_updated_at := sq_updated_at r\<rparr>) ys)) =
      (if p = sq_provider_id r \<and> c = sq_conversation_id r
       then (if list_ex (\<lambda>x. sq_provider_id x = p \<and> sq_conversation_id x = c) ys
             then Some (sq_last_sequence r) else None)
       else map_option sq_last_sequence
         (select_one (\<lambda>x. sq_provider_id x = p \<and> sq_conversation_id x = c) ys))" for ys p c
      by (induction ys) (auto simp: select_one_def sql_update_def)
    from True show ?thesis
      by (simp add: upsert_sequence_def Let_def upd del: map_option_eq_Some)
  next
    case False
    then have "p = sq_provider_id r \<and> c = sq_conversation_id r \<Longrightarrow>
        select_one (\<lambda>x. sq_provider_id x = p \<and> sq_conversation_id x = c) xs = None"
      by (auto simp: list_ex_iff select_one_None)
    with False show ?thesis
      by (auto simp: upsert_sequence_def Let_def select_one_append split: option.splits)
  qed
  then show ?thesis by (simp add: sequence_of_def)
qed

definition inbox_status :: "core_db \<Rightarrow> string \<Rightarrow> string \<Rightarrow> string option" where
  "inbox_status d p m = map_option ib_ordering_status
     (select_one (\<lambda>x. ib_provider_id x = p \<and> ib_message_id x = m) (conversation_inbox_v3 d))"

lemma store_inbox_message_eq:
  assumes "existing \<longleftrightarrow> inbox_status (db s) (ib_provider_id r) (ib_message_id r) \<noteq> None"
  shows "\<exists>rows. store_inbox_message r existing s =
      (Inr (), s\<lparr>db := (db s)\<lparr>conversation_inbox_v3 := rows\<rparr>\<rparr>) \<and>
    (\<forall>p m. inbox_status ((db s)\<lparr>conversation_inbox_v3 := rows\<rparr>) p m =
       (if p = ib_provider_id r \<and> m = ib_message_id r then Some (ib_ordering_status r)
        else inbox_status (db s) p m))"
proof (cases existing)
  case True
  let ?f = "\<lambda>x. x\<lparr>ib_envelope := ib_envelope r, ib_ordering_status := ib_ordering_status r,
                    ib_received_at := ib_received_at r\<rparr>"
  let ?rows = "sql_update (\<lambda>x. ib_provider_id x = ib_provider_id r \<and> ib_message_id x = ib_message_id r)
      ?f (conversation_inbox_v3 (db s))"
  have upd: "map_option ib_ordering_status (select_one (\<lambda>x. ib_provider_id x = p \<and> ib_message_id x = m)
      (sql_update (\<lambda>x. ib_provider_id x = ib_provider_id r \<and> ib_message_id x = ib_message_id r) ?f xs)) =
    (if p = ib_provider_id r \<and> m = ib_message_id r \<and>
        select_one (\<lambda>x. ib_provider_id x = p \<and> ib_message_id x = m) xs \<noteq> None
     then Some (ib_ordering_status r)
     else map_option ib_ordering_status
       (select_one (\<lambda>x. ib_provider_id x = p \<and> ib_message_id x = m) xs))" for xs p m
    by (induction xs) (auto simp: select_one_def sql_update_def)
  have "inbox_status ((db s)\<lparr>conversation_inbox_v3 := ?rows\<rparr>) p m =
       (if p = ib_provider_id r \<and> m = ib_message_id r then Some (ib_ordering_status r)
        else inbox_status (db s) p m)" for p m
    using upd [of p m "conversation_inbox_v3 (db s)"] assms True
    by (cases "p = ib_provider_id r \<and> m = ib_message_id r") (auto simp: inbox_status_def)
  then show ?thesis using True
    by (intro exI [of _ ?rows]) (simp add: store_inbox_message_def bindE_def update_rows_eq returnE_def)
next
  case False
  let ?rows = "conversation_inbox_v3 (db s) @ [r]"
  have none: "select_one (\<lambda>x. ib_provider_id x = ib_provider_id r \<and> ib_message_id x = ib_message_id r)
      (conversation_inbox_v3 (db s)) = None"
    using assms False by (simp add: inbox_status_def)
  then have "\<not> list_ex (\<lambda>x. ib_provider_id x = ib_provider_id r \<and> ib_message_id x = ib_message_id r)
      (conversation_inbox_v3 (db s))"
    by (auto simp: select_one_None list_ex_iff)
  then show ?thesis using False none
    by (intro exI [of _ ?rows])
      (auto simp: store_inbox_message_def insert_row_eq inbox_status_def select_one_append
        split: option.splits)
qed

section \<open>One delivery\<close>

definition provider_of :: "envelope_dict \<Rightarrow> string" where
  "provider_of m = (case env_provider_id m of None \<Rightarrow> ''local'' | Some p \<Rightarrow> p)"

definition conversation_of :: "envelope_dict \<Rightarrow> string" where
  "conversation_of m = (case env_conversation_id m of None \<Rightarrow> [] | Some c \<Rightarrow> c)"

lemma settle_message_eq:
  assumes "existing \<longleftrightarrow> inbox_status (db s) p mid \<noteq> None"
  shows "\<exists>t. settle_message m p mid c existing st reason s =
      (Inr \<lparr>acc_accepted = (st = ''accepted''), acc_status = st, acc_reason = reason\<rparr>, t) \<and>
    (\<forall>p' m'. inbox_status (db t) p' m' =
       (if p' = p \<and> m' = mid then Some st else inbox_status (db s) p' m')) \<and>
    (\<forall>p' c'. sequence_of (db t) p' c' =
       (if p' = p \<and> c' = c \<and> st = ''accepted'' \<and> env_sequence m \<noteq> None then env_sequence m
        else sequence_of (db s) p' c'))"
proof -
  let ?r = "\<lparr>ib_provider_id = p, ib_message_id = mid, ib_conversation_id = c,
      ib_sequence = env_sequence m, ib_envelope = env_json m, ib_ordering_status = st,
      ib_received_at = clock_src s (clock_idx s)\<rparr>"
  let ?s = "s\<lparr>clock_idx := Suc (clock_idx s)\<rparr>"
  obtain rows where rows: "store_inbox_message ?r existing ?s =
      (Inr (), ?s\<lparr>db := (db s)\<lparr>conversation_inbox_v3 := rows\<rparr>\<rparr>)"
    "\<And>p' m'. inbox_status ((db s)\<lparr>conversation_inbox_v3 := rows\<rparr>) p' m' =
       (if p' = p \<and> m' = mid then Some st else inbox_status (db s) p' m')"
    using store_inbox_message_eq [of existing ?s ?r] assms by auto
  have frame: "inbox_status (d\<lparr>conversation_sequences := v\<rparr>) = inbox_status d"
    "sequence_of (d\<lparr>conversation_inbox_v3 := rows\<rparr>) = sequence_of d" for d v
    by (simp_all add: inbox_status_def sequence_of_def fun_eq_iff)
  show ?thesis
  proof (cases "st = ''accepted'' \<and> env_sequence m \<noteq> None")
    case True
    then show ?thesis using rows
      by (auto simp: settle_message_def bindE_def now_op_def upd_db_def returnE_def frame
          sequence_of_upsert [where d = "(db s)\<lparr>conversation_inbox_v3 := rows\<rparr>", simplified])
  next
    case False
    then show ?thesis using rows
      by (auto simp: settle_message_def bindE_def now_op_def upd_db_def returnE_def frame
          split: option.splits)
  qed
qed

lemma accept_message_result_cases:
  assumes "accept_message_result m s = (Inr a, t)"
  shows "\<exists>mid. env_message_id m = Some mid \<and>
    (if acc_accepted a then
       inbox_status (db s) (provider_of m) mid \<in> {None, Some ''quarantined''} \<and>
       (\<forall>q l. env_sequence m = Some q \<longrightarrow>
          sequence_of (db s) (provider_of m) (conversation_of m) = Some l \<longrightarrow> q = l + 1) \<and>
       (\<forall>p' m'. inbox_status (db t) p' m' = (if p' = provider_of m \<and> m' = mid
          then Some ''accepted'' else inbox_status (db s) p' m')) \<and>
       (\<forall>p' c'. sequence_of (db t) p' c' = (if p' = provider_of m \<and> c' = conversation_of m \<and>
          env_sequence m \<noteq> None then env_sequence m else sequence_of (db s) p' c'))
     else
       (\<forall>p' c'. sequence_of (db t) p' c' = sequence_of (db s) p' c') \<and>
       (\<forall>p' m'. inbox_status (db s) p' m' = Some ''accepted'' \<longrightarrow>
          inbox_status (db t) p' m' = Some ''accepted''))"
proof -
  obtain mid where mid: "env_message_id m = Some mid"
    using assms by (cases "env_message_id m") (auto simp: accept_message_result_def raiseE_def)
  let ?p = "provider_of m" and ?c = "conversation_of m"
  let ?row = "select_one (\<lambda>x. ib_provider_id x = ?p \<and> ib_message_id x = mid) (conversation_inbox_v3 (db s))"
  have st: "inbox_status (db s) ?p mid = map_option ib_ordering_status ?row"
    by (simp add: inbox_status_def)
  note settle = settle_message_eq [of "?row \<noteq> None" s ?p mid m ?c]
  show ?thesis
  proof (cases "?row \<noteq> None \<and> ib_ordering_status (the ?row) \<noteq> ''quarantined''")
    case True
    then show ?thesis using assms mid
      by (auto simp: accept_message_result_def tx_def bindE_def read_db_def returnE_def Let_def
          provider_of_def [symmetric] conversation_of_def [symmetric])
  next
    case False
    define seq where "seq = sequence_of (db s) ?p ?c"
    have ok: "inbox_status (db s) ?p mid \<in> {None, Some ''quarantined''}"
      using False st by (cases ?row) auto
    have run: "accept_message_result m s = tx (\<lambda>s.
       (case (env_sequence m, seq) of
       (Some sequence, Some prev) \<Rightarrow>
         if sequence \<le> prev
         then returnE \<lparr>acc_accepted = False, acc_status = ''duplicate'',
                       acc_reason = Some ''sequence_already_processed''\<rparr>
         else if sequence > prev + 1
         then settle_message m ?p mid ?c (?row \<noteq> None) ''quarantined''
                (Some (''sequence_gap:expected='' @ str_int (prev + 1) @
                       '':received='' @ str_int sequence))
         else settle_message m ?p mid ?c (?row \<noteq> None) ''accepted'' None
     | _ \<Rightarrow> settle_message m ?p mid ?c (?row \<noteq> None) ''accepted'' None) s) s"
      using mid False
      by (auto simp: accept_message_result_def tx_def bindE_def read_db_def seq_def Let_def
          provider_of_def [symmetric] conversation_of_def [symmetric])
    have acc: "\<exists>t1. settle_message m ?p mid ?c (?row \<noteq> None) ''accepted'' None s =
        (Inr \<lparr>acc_accepted = True, acc_status = ''accepted'', acc_reason = None\<rparr>, t1) \<and>
        (\<forall>p' m'. inbox_status (db t1) p' m' =
           (if p' = ?p \<and> m' = mid then Some ''accepted'' else inbox_status (db s) p' m')) \<and>
        (\<forall>p' c'. sequence_of (db t1) p' c' =
           (if p' = ?p \<and> c' = ?c \<and> env_sequence m \<noteq> None then env_sequence m
            else sequence_of (db s) p' c'))"
      using settle [of "''accepted''" None] st by auto
    have qua: "\<exists>t2. settle_message m ?p mid ?c (?row \<noteq> None) ''quarantined'' reason s =
        (Inr \<lparr>acc_accepted = False, acc_status = ''quarantined'', acc_reason = reason\<rparr>, t2) \<and>
        (\<forall>p' m'. inbox_status (db t2) p' m' =
           (if p' = ?p \<and> m' = mid then Some ''quarantined'' else inbox_status (db s) p' m')) \<and>
        (\<forall>p' c'. sequence_of (db t2) p' c' = sequence_of (db s) p' c')" for reason
      using settle [of "''quarantined''" reason] st by auto
    show ?thesis
    proof (cases "acc_accepted a")
      case True
      have no: "settle_message m ?p mid ?c (?row \<noteq> None) ''quarantined'' reason s \<noteq> (Inr a, t)" for reason
        using qua [of reason] True by auto
      from True have t: "settle_message m ?p mid ?c (?row \<noteq> None) ''accepted'' None s = (Inr a, t)"
        and q: "\<forall>q l. env_sequence m = Some q \<longrightarrow> seq = Some l \<longrightarrow> q = l + 1"
        using assms no unfolding run
        by (auto simp: tx_def returnE_def split: option.splits if_splits prod.splits sum.splits)
      obtain t1 where t1: "settle_message m ?p mid ?c (?row \<noteq> None) ''accepted'' None s =
          (Inr \<lparr>acc_accepted = True, acc_status = ''accepted'', acc_reason = None\<rparr>, t1)"
        and eff1: "(\<forall>p' m'. inbox_status (db t1) p' m' =
           (if p' = ?p \<and> m' = mid then Some ''accepted'' else inbox_status (db s) p' m')) \<and>
        (\<forall>p' c'. sequence_of (db t1) p' c' =
           (if p' = ?p \<and> c' = ?c \<and> env_sequence m \<noteq> None then env_sequence m
            else sequence_of (db s) p' c'))"
        using acc by blast
      have "t1 = t" using t1 t by simp
      note eff = eff1 [unfolded this]
      show ?thesis unfolding if_P [OF True]
        using mid ok q [unfolded seq_def] eff by blast
    next
      case False
      then have "(t = s) \<or> (\<exists>reason. settle_message m ?p mid ?c (?row \<noteq> None) ''quarantined'' reason s = (Inr a, t))"
        using assms acc unfolding run
        by (auto simp: tx_def returnE_def split: option.splits if_splits prod.splits sum.splits)
      then have "(\<forall>p' c'. sequence_of (db t) p' c' = sequence_of (db s) p' c') \<and>
          (\<forall>p' m'. inbox_status (db s) p' m' = Some ''accepted'' \<longrightarrow>
             inbox_status (db t) p' m' = Some ''accepted'')"
      proof (elim disjE exE)
        fix reason
        assume "settle_message m ?p mid ?c (?row \<noteq> None) ''quarantined'' reason s = (Inr a, t)"
        with qua [of reason] ok show ?thesis by auto
      qed simp
      then show ?thesis unfolding if_not_P [OF False] using mid by blast
    qed
  qed
qed

section \<open>A run of deliveries\<close>

text \<open>The messages accepted by a list of deliveries, in order; a delivery that raises is dropped.\<close>

fun accepted_run :: "envelope_dict list \<Rightarrow> 'z kworld_scheme \<Rightarrow> envelope_dict list" where
  "accepted_run [] s = []"
| "accepted_run (m # ms) s = (case accept_message_result m s of
      (Inr a, t) \<Rightarrow> (if acc_accepted a then [m] else []) @ accepted_run ms t
    | (Inl e, t) \<Rightarrow> accepted_run ms t)"

definition sequences :: "string \<Rightarrow> string \<Rightarrow> envelope_dict list \<Rightarrow> int list" where
  "sequences p c ms = List.map_filter (\<lambda>m. if provider_of m = p \<and> conversation_of m = c
     then env_sequence m else None) ms"

definition message_keys :: "envelope_dict list \<Rightarrow> (string \<times> string option) list" where
  "message_keys ms = map (\<lambda>m. (provider_of m, env_message_id m)) ms"

lemma sequences_Cons:
  "sequences p c (m # ms) = (if provider_of m = p \<and> conversation_of m = c
     then (case env_sequence m of None \<Rightarrow> sequences p c ms | Some q \<Rightarrow> q # sequences p c ms)
     else sequences p c ms)"
  by (simp add: sequences_def map_filter_simps split: option.split)

lemma accept_message_result_Inl: "accept_message_result m s = (Inl e, t) \<Longrightarrow> db t = db s"
  by (auto simp: accept_message_result_def Let_def raiseE_def split: option.splits dest: tx_Inl_db)

lemma sequence_frame:
  "db t = db s \<Longrightarrow> sequence_of (db t) p c = sequence_of (db s) p c \<and> inbox_status (db t) p m = inbox_status (db s) p m"
  by simp

lemma accepted_consecutive:
  "successively (\<lambda>x y. y = x + 1) (sequences p c (accepted_run ms s)) \<and>
   (case sequence_of (db s) p c of None \<Rightarrow> True
    | Some l \<Rightarrow> sequences p c (accepted_run ms s) = [] \<or> hd (sequences p c (accepted_run ms s)) = l + 1)"
proof (induction ms arbitrary: s)
  case Nil
  then show ?case by (auto simp: sequences_def map_filter_simps split: option.split)
next
  case (Cons m ms)
  obtain r t where rt: "accept_message_result m s = (r, t)" by fastforce
  show ?case
  proof (cases r)
    case (Inl e)
    then have "db t = db s" using rt accept_message_result_Inl by blast
    then show ?thesis using Cons [of t] rt Inl by (auto split: option.splits)
  next
    case (Inr a)
    note c = accept_message_result_cases [OF rt [unfolded Inr]]
    show ?thesis
    proof (cases "acc_accepted a")
      case False
      then have "sequence_of (db t) p c = sequence_of (db s) p c" using c by auto
      then show ?thesis using Cons [of t] rt Inr False by (auto split: option.splits)
    next
      case True
      show ?thesis
      proof (cases "provider_of m = p \<and> conversation_of m = c \<and> env_sequence m \<noteq> None")
        case False
        then have "sequence_of (db t) p c = sequence_of (db s) p c" using c True by auto
        then show ?thesis using Cons [of t] False rt Inr True
          by (auto simp: sequences_Cons split: option.splits)
      next
        case hit: True
        then obtain q where q: "env_sequence m = Some q" by auto
        have t: "sequence_of (db t) p c = Some q" using c True hit q by auto
        have "sequence_of (db s) p c = Some l \<Longrightarrow> q = l + 1" for l
          using c True hit q by auto
        then show ?thesis using Cons [of t] hit q t rt Inr True
          by (auto simp: sequences_Cons successively_Cons split: option.splits)
      qed
    qed
  qed
qed

lemma accepted_fresh:
  "distinct (message_keys (accepted_run ms s)) \<and>
   (\<forall>m \<in> set (accepted_run ms s). \<exists>mid. env_message_id m = Some mid \<and>
      inbox_status (db s) (provider_of m) mid \<noteq> Some ''accepted'')"
proof (induction ms arbitrary: s)
  case (Cons m ms)
  obtain r t where rt: "accept_message_result m s = (r, t)" by fastforce
  show ?case
  proof (cases r)
    case (Inl e)
    then have "db t = db s" using rt accept_message_result_Inl by blast
    then show ?thesis using Cons [of t] rt Inl by simp
  next
    case (Inr a)
    note res = accept_message_result_cases [OF rt [unfolded Inr]]
    show ?thesis
    proof (cases "acc_accepted a")
      case False
      then have "inbox_status (db s) p' m' = Some ''accepted'' \<Longrightarrow>
          inbox_status (db t) p' m' = Some ''accepted''" for p' m'
        using res by auto
      then show ?thesis using Cons [of t] False rt Inr by (auto; metis)
    next
      case True
      then obtain mid where mid: "env_message_id m = Some mid"
        and old: "inbox_status (db s) (provider_of m) mid \<in> {None, Some ''quarantined''}"
        and c: "\<forall>p' m'. inbox_status (db t) p' m' = (if p' = provider_of m \<and> m' = mid
            then Some ''accepted'' else inbox_status (db s) p' m')"
        using res by (simp only: if_True) blast
      have "(provider_of m, Some mid) \<notin> set (message_keys (accepted_run ms t))"
        using Cons [of t] c by (fastforce simp: message_keys_def)
      moreover have "\<exists>mid'. env_message_id x = Some mid' \<and>
          inbox_status (db s) (provider_of x) mid' \<noteq> Some ''accepted''"
        if "x \<in> set (accepted_run ms t)" for x
        using Cons [of t] that c by (metis (no_types, lifting))
      ultimately show ?thesis using Cons [of t] old rt Inr True mid
        by (auto simp: message_keys_def)
    qed
  qed
qed (simp add: message_keys_def)

text \<open>C7: Whatever a provider delivers, repeated, out of order or across restarts, the messages of
  one conversation that the inbox accepts carry consecutive sequence numbers, continuing from the
  last one processed, and no message identifier is accepted twice.\<close>

theorem inbox_in_order:
  "successively (\<lambda>x y. y = x + 1) (sequences p c (accepted_run ms s)) \<and>
   (case sequence_of (db s) p c of None \<Rightarrow> True
    | Some l \<Rightarrow> sequences p c (accepted_run ms s) = [] \<or> hd (sequences p c (accepted_run ms s)) = l + 1) \<and>
   distinct (message_keys (accepted_run ms s))"
  using accepted_consecutive accepted_fresh by blast

end
