(* ===== verification/Conversation.thy ===== *)
theory Conversation
  imports Kernel_Views Inbox_Laws
begin

text \<open>
  Conversations (\<open>conversation/runtime.py\<close>, \<open>contracts.py\<close>, \<open>service.py\<close>): the typed message
  envelope, the lifecycle of a human handoff, the controls on what a response may claim and the
  pipeline every chat and IVR turn goes through. The turn processor (the agents behind the
  conversation) is a parameter; what it does to the database it does through the core store.
\<close>

section \<open>Envelopes\<close>

datatype ChannelKind = CHAT | IVR

fun channel_value :: "ChannelKind \<Rightarrow> string" where
  "channel_value CHAT = ''chat''"
| "channel_value IVR = ''ivr''"

record MessageEnvelope =
  me_provider_id :: string
  me_message_id :: string
  me_conversation_id :: string
  me_customer_id :: string
  me_channel :: ChannelKind
  me_text :: string
  me_locale :: string
  me_timezone :: string
  me_sequence :: "int option"
  me_correlation_id :: string
  me_causation_id :: "string option"
  me_consent_snapshot :: pdict
  me_capabilities :: pdict

definition opt_json :: "('a \<Rightarrow> json) \<Rightarrow> 'a option \<Rightarrow> json" where
  "opt_json f x = (case x of None \<Rightarrow> JNull | Some v \<Rightarrow> f v)"

text \<open>\<open>envelope.model_dump(mode="json")\<close>\<close>

definition envelope_dump :: "MessageEnvelope \<Rightarrow> envelope_dict" where
  "envelope_dump e = \<lparr>env_provider_id = Some (me_provider_id e), env_message_id = Some (me_message_id e),
     env_conversation_id = Some (me_conversation_id e), env_sequence = me_sequence e,
     env_json = [(''provider_id'', JStr (me_provider_id e)), (''message_id'', JStr (me_message_id e)),
       (''conversation_id'', JStr (me_conversation_id e)), (''customer_id'', JStr (me_customer_id e)),
       (''channel'', JStr (channel_value (me_channel e))), (''text'', JStr (me_text e)),
       (''locale'', JStr (me_locale e)), (''timezone'', JStr (me_timezone e)),
       (''sequence'', opt_json JInt (me_sequence e)), (''correlation_id'', JStr (me_correlation_id e)),
       (''causation_id'', opt_json JStr (me_causation_id e)),
       (''consent_snapshot'', JObj (me_consent_snapshot e)),
       (''capabilities'', JObj (me_capabilities e))]\<rparr>"

definition runtime_accept :: "MessageEnvelope \<Rightarrow> (bool, 'z) kop" where
  "runtime_accept e = accept_message (envelope_dump e)"

definition accept_result :: "MessageEnvelope \<Rightarrow> (acceptance, 'z) kop" where
  "accept_result e = accept_message_result (envelope_dump e)"

section \<open>Handoffs\<close>

datatype HandoffStatus =
    H_REQUESTED | H_QUEUED | H_ACCEPTED | H_REJECTED | H_TIMED_OUT | H_FAILED | H_REASSIGNED
  | H_CONNECTED | H_RESOLVED | H_BOT_REENTRY

fun handoff_value :: "HandoffStatus \<Rightarrow> string" where
  "handoff_value H_REQUESTED = ''requested''"
| "handoff_value H_QUEUED = ''queued''"
| "handoff_value H_ACCEPTED = ''accepted''"
| "handoff_value H_REJECTED = ''rejected''"
| "handoff_value H_TIMED_OUT = ''timed_out''"
| "handoff_value H_FAILED = ''failed''"
| "handoff_value H_REASSIGNED = ''reassigned''"
| "handoff_value H_CONNECTED = ''connected''"
| "handoff_value H_RESOLVED = ''resolved''"
| "handoff_value H_BOT_REENTRY = ''bot_reentry''"

definition all_handoff_statuses :: "HandoffStatus list" where
  "all_handoff_statuses = [H_REQUESTED, H_QUEUED, H_ACCEPTED, H_REJECTED, H_TIMED_OUT, H_FAILED,
     H_REASSIGNED, H_CONNECTED, H_RESOLVED, H_BOT_REENTRY]"

text \<open>\<open>HandoffStatus(value)\<close>\<close>

definition handoff_of_value :: "string \<Rightarrow> exn + HandoffStatus" where
  "handoff_of_value v = (case List.find (\<lambda>h. handoff_value h = v) all_handoff_statuses of
     None \<Rightarrow> Inl (ValueError (v @ '' is not a valid HandoffStatus'')) | Some h \<Rightarrow> Inr h)"

fun allowed_handoffs :: "HandoffStatus \<Rightarrow> HandoffStatus list" where
  "allowed_handoffs H_REQUESTED = [H_QUEUED, H_ACCEPTED, H_REJECTED, H_FAILED]"
| "allowed_handoffs H_QUEUED = [H_ACCEPTED, H_TIMED_OUT, H_REASSIGNED, H_FAILED]"
| "allowed_handoffs H_REASSIGNED = [H_ACCEPTED, H_TIMED_OUT, H_FAILED]"
| "allowed_handoffs H_ACCEPTED = [H_CONNECTED, H_REASSIGNED, H_FAILED]"
| "allowed_handoffs H_CONNECTED = [H_RESOLVED, H_BOT_REENTRY, H_FAILED]"
| "allowed_handoffs H_RESOLVED = [H_BOT_REENTRY]"
| "allowed_handoffs H_TIMED_OUT = [H_REASSIGNED, H_BOT_REENTRY]"
| "allowed_handoffs H_REJECTED = [H_BOT_REENTRY]"
| "allowed_handoffs H_FAILED = [H_REASSIGNED, H_BOT_REENTRY]"
| "allowed_handoffs H_BOT_REENTRY = []"

definition request_handoff :: "string \<Rightarrow> string \<Rightarrow> pdict \<Rightarrow> (handoff_row, 'z) kop" where
  "request_handoff conversation_id case_id context =
     bindE now_op (\<lambda>now.
     bindE uuid_op (\<lambda>u.
     let rcd = \<lparr>ho_handoff_id = ''HO-'' @ u, ho_conversation_id = conversation_id,
           ho_case_id = case_id, ho_context = context, ho_status = handoff_value H_REQUESTED,
           ho_assigned_agent_id = None, ho_created_at = now, ho_updated_at = now\<rparr> in
     bindE (create_handoff rcd) (\<lambda>_. returnE rcd)))"

definition accept_handoff :: "string \<Rightarrow> string \<Rightarrow> (handoff_row, 'z) kop" where
  "accept_handoff handoff_id agent_id =
     bindE (get_handoff handoff_id) (\<lambda>current.
     case current of
       None \<Rightarrow> raiseE (KeyError handoff_id)
     | Some c \<Rightarrow>
       bindE (raise_if (ho_status c \<noteq> handoff_value H_REQUESTED)
                (ValueError ''Only requested handoffs can be accepted'')) (\<lambda>_.
       store_transition_handoff handoff_id (handoff_value H_REQUESTED) (handoff_value H_ACCEPTED)
         (Some agent_id)))"

definition transition_handoff ::
  "string \<Rightarrow> HandoffStatus \<Rightarrow> string option \<Rightarrow> (handoff_row, 'z) kop" where
  "transition_handoff handoff_id status agent_id =
     bindE (get_handoff handoff_id) (\<lambda>current.
     case current of
       None \<Rightarrow> raiseE (KeyError handoff_id)
     | Some c \<Rightarrow>
       bindE (liftE (handoff_of_value (ho_status c))) (\<lambda>current_status.
       bindE (raise_if (status \<notin> set (allowed_handoffs current_status))
                (ValueError (''Invalid handoff transition: '' @ handoff_value current_status @
                             '' -> '' @ handoff_value status))) (\<lambda>_.
       store_transition_handoff handoff_id (handoff_value current_status) (handoff_value status)
         agent_id)))"

section \<open>Response controls\<close>

datatype RiskLevel = INFORMATIONAL | CONSEQUENTIAL | REGULATED

record ResponseDecision =
  rd_may_stream :: bool
  rd_may_claim_success :: bool
  rd_requires_approved_content :: bool
  rd_requires_readback :: bool

definition response_evaluate :: "ChannelKind \<Rightarrow> RiskLevel \<Rightarrow> string option \<Rightarrow> ResponseDecision" where
  "response_evaluate channel risk authoritative_status =
     (let consequential = risk \<in> {CONSEQUENTIAL, REGULATED};
          succeeded = authoritative_status \<in> {Some ''succeeded'', Some ''reconciled''} in
      \<lparr>rd_may_stream = (\<not> consequential), rd_may_claim_success = succeeded,
       rd_requires_approved_content = (risk = REGULATED),
       rd_requires_readback = (channel = IVR \<and> consequential)\<rparr>)"

section \<open>Turns\<close>

record TurnContext =
  tc_actor_id :: string
  tc_actor_role :: string
  tc_actor_permissions :: "string list"
  tc_customer_id :: string
  tc_owner_id :: string
  tc_conversation_id :: string
  tc_message_id :: string
  tc_channel :: ChannelKind
  tc_locale :: string
  tc_timezone :: string

record GeneratedTurn =
  gt_text :: string
  gt_risk :: RiskLevel
  gt_authoritative_status :: "string option"
  gt_action_proposals :: "pdict list"

record TurnResult =
  tr_accepted :: bool
  tr_duplicate :: bool
  tr_quarantined :: bool
  tr_acceptance_status :: string
  tr_conversation_id :: string
  tr_message_id :: string
  tr_response :: "string option"
  tr_risk :: RiskLevel
  tr_authoritative_status :: "string option"
  tr_may_stream :: bool
  tr_may_claim_success :: bool
  tr_requires_approved_content :: bool
  tr_requires_readback :: bool
  tr_action_proposals :: "pdict list"

definition rejected_turn :: "MessageEnvelope \<Rightarrow> acceptance \<Rightarrow> TurnResult" where
  "rejected_turn e a = \<lparr>tr_accepted = False, tr_duplicate = (acc_status a = ''duplicate''),
     tr_quarantined = (acc_status a = ''quarantined''), tr_acceptance_status = acc_status a,
     tr_conversation_id = me_conversation_id e, tr_message_id = me_message_id e, tr_response = None,
     tr_risk = INFORMATIONAL, tr_authoritative_status = None, tr_may_stream = False,
     tr_may_claim_success = False, tr_requires_approved_content = False,
     tr_requires_readback = False, tr_action_proposals = []\<rparr>"

definition turn_context ::
  "MessageEnvelope \<Rightarrow> string \<Rightarrow> string \<Rightarrow> string list \<Rightarrow> string \<Rightarrow> TurnContext" where
  "turn_context e actor_id actor_role actor_permissions owner_id =
     \<lparr>tc_actor_id = actor_id, tc_actor_role = actor_role,
      tc_actor_permissions = sort actor_permissions, tc_customer_id = me_customer_id e,
      tc_owner_id = owner_id, tc_conversation_id = me_conversation_id e,
      tc_message_id = me_message_id e, tc_channel = me_channel e, tc_locale = me_locale e,
      tc_timezone = me_timezone e\<rparr>"

definition answered_turn :: "MessageEnvelope \<Rightarrow> GeneratedTurn \<Rightarrow> TurnResult" where
  "answered_turn e generated =
     (let decision = response_evaluate (me_channel e) (gt_risk generated)
            (gt_authoritative_status generated);
          input_requires_readback = truthy_get (me_capabilities e) ''requires_readback'' in
      \<lparr>tr_accepted = True, tr_duplicate = False, tr_quarantined = False,
       tr_acceptance_status = ''accepted'', tr_conversation_id = me_conversation_id e,
       tr_message_id = me_message_id e, tr_response = Some (gt_text generated),
       tr_risk = gt_risk generated, tr_authoritative_status = gt_authoritative_status generated,
       tr_may_stream = rd_may_stream decision,
       tr_may_claim_success = rd_may_claim_success decision,
       tr_requires_approved_content = rd_requires_approved_content decision,
       tr_requires_readback = (rd_requires_readback decision \<or> input_requires_readback),
       tr_action_proposals = gt_action_proposals generated\<rparr>)"

definition process_turn ::
  "(TurnContext \<Rightarrow> string \<Rightarrow> (GeneratedTurn, 'z) kop) \<Rightarrow> MessageEnvelope \<Rightarrow>
   string \<Rightarrow> string \<Rightarrow> string list \<Rightarrow> string \<Rightarrow> (TurnResult, 'z) kop" where
  "process_turn processor envelope actor_id actor_role actor_permissions owner_id =
     bindE (accept_result envelope) (\<lambda>acceptance.
     if \<not> acc_accepted acceptance then returnE (rejected_turn envelope acceptance)
     else
     bindE (processor (turn_context envelope actor_id actor_role actor_permissions owner_id)
              (me_text envelope)) (\<lambda>generated.
     returnE (answered_turn envelope generated)))"

section \<open>A message is processed at most once\<close>

lemma inbox_status_view:
  "(conversation_inbox_v3 d, conversation_sequences d) = (conversation_inbox_v3 d', conversation_sequences d') \<Longrightarrow>
   inbox_status d p m = inbox_status d' p m"
  by (simp add: inbox_status_def)

lemma accepted_stays_step:
  assumes "core_step s t" and "inbox_status (db s) p m = Some ''accepted''"
  shows "inbox_status (db t) p m = Some ''accepted''"
  using assms(1)
proof cases
  case environment
  then show ?thesis using assms(2) by simp
next
  case (receive env acc)
  show ?thesis
  proof (cases acc)
    case (Inl e)
    then show ?thesis using accept_message_result_Inl receive assms(2) by metis
  next
    case (Inr a)
    then show ?thesis using accept_message_result_cases [of env s a t] receive assms(2)
      by (cases "acc_accepted a") auto
  qed
qed (use assms(2) inbox_view_ops [THEN inbox_view.view_kept] inbox_status_view in metis)+

lemma accepted_stays:
  "core_step\<^sup>*\<^sup>* s t \<Longrightarrow> inbox_status (db s) p m = Some ''accepted'' \<Longrightarrow>
   inbox_status (db t) p m = Some ''accepted''"
  by (induction rule: rtranclp_induct) (auto intro: accepted_stays_step)

lemma envelope_dump_keys [simp]:
  "provider_of (envelope_dump e) = me_provider_id e" "env_message_id (envelope_dump e) = Some (me_message_id e)"
  by (simp_all add: envelope_dump_def provider_of_def)

lemma accept_duplicate:
  assumes "inbox_status (db s) (me_provider_id e) (me_message_id e) = Some ''accepted''"
  shows "\<exists>t. accept_result e s = (Inr \<lparr>acc_accepted = False, acc_status = ''duplicate'',
    acc_reason = Some ''message_id''\<rparr>, t) \<and> db t = db s"
  using assms
  by (auto simp: accept_result_def accept_message_result_def envelope_dump_def inbox_status_def Let_def tx_def
      bindE_def read_db_def returnE_def)

text \<open>C38: A message that the inbox has accepted is never processed a second time. Whatever the
  core store does afterwards, a redelivery of the message, by any actor and with any processor,
  is answered as a duplicate with no response and no proposals, and changes nothing.\<close>

theorem turn_processed_once:
  assumes "accept_result e s = (Inr a, t)" and "acc_accepted a" and "core_step\<^sup>*\<^sup>* t t'"
  shows "\<exists>r u. process_turn processor e actor role perms owner t' = (Inr r, u) \<and> db u = db t' \<and>
    \<not> tr_accepted r \<and> tr_duplicate r \<and> tr_response r = None \<and> tr_action_proposals r = [] \<and>
    \<not> tr_may_claim_success r"
proof -
  have "inbox_status (db t) (me_provider_id e) (me_message_id e) = Some ''accepted''"
    using accept_message_result_cases [OF assms(1) [unfolded accept_result_def]] assms(2) by simp
  then obtain u where "accept_result e t' = (Inr \<lparr>acc_accepted = False, acc_status = ''duplicate'',
      acc_reason = Some ''message_id''\<rparr>, u)" "db u = db t'"
    using accept_duplicate accepted_stays [OF assms(3)] by blast
  then show ?thesis by (simp add: process_turn_def bindE_def returnE_def rejected_turn_def)
qed

section \<open>Handoffs\<close>

lemma handoff_value_inj [simp]: "handoff_value a = handoff_value b \<longleftrightarrow> a = b"
  by (cases a; cases b) simp_all

lemma handoff_of_value_iff: "handoff_of_value v = Inr h \<longleftrightarrow> v = handoff_value h"
proof
  show "handoff_of_value v = Inr h \<Longrightarrow> v = handoff_value h"
    by (auto simp: handoff_of_value_def find_Some_iff split: option.splits)
  show "v = handoff_value h \<Longrightarrow> handoff_of_value v = Inr h"
    by (cases h) (simp_all add: handoff_of_value_def all_handoff_statuses_def)
qed

lemma allowed_handoffs_irrefl: "h \<notin> set (allowed_handoffs h)"
  by (cases h) simp_all

lemma transition_handoff_Inr:
  assumes "transition_handoff hid st ag s = (Inr h, t)"
  shows "\<exists>c. handoff_status (db s) hid = Some (handoff_value c) \<and> st \<in> set (allowed_handoffs c) \<and>
    store_transition_handoff hid (handoff_value c) (handoff_value st) ag s = (Inr h, t)"
  using assms
  by (auto simp: transition_handoff_def bindE_Inr get_handoff_eq liftE_def raise_if_def raiseE_def
      returnE_def handoff_of_value_iff handoff_status_def split: option.splits if_splits)

text \<open>A handoff moves only along the edges of its lifecycle, and of two transitions that
  started from the same status only the first commits: the second raises and leaves the database
  as the first one made it.\<close>

theorem handoff_single_winner:
  assumes "handoff_keys (db s)" and "transition_handoff hid st ag s = (Inr h, t)"
  shows "\<exists>c. handoff_status (db s) hid = Some (handoff_value c) \<and> st \<in> set (allowed_handoffs c) \<and>
    handoff_status (db t) hid = Some (handoff_value st) \<and>
    (\<forall>k. k \<noteq> hid \<longrightarrow> handoff_status (db t) k = handoff_status (db s) k) \<and>
    (\<forall>st' ag'. \<exists>x u. store_transition_handoff hid (handoff_value c) st' ag' t = (Inl x, u) \<and> db u = db t)"
proof -
  from transition_handoff_Inr [OF assms(2)] obtain c where
    c: "handoff_status (db s) hid = Some (handoff_value c)" "st \<in> set (allowed_handoffs c)"
      "store_transition_handoff hid (handoff_value c) (handoff_value st) ag s = (Inr h, t)" by blast
  have ne: "handoff_value c \<noteq> handoff_value st" using c(2) allowed_handoffs_irrefl by auto
  show ?thesis
    using c(1,2) handoff_cas.cas_to [OF assms(1) c(3)] handoff_cas.cas_frame [OF assms(1) c(3)]
      handoff_cas.race [OF assms(1) ne c(3)]
    by (intro exI [of _ c]) auto
qed

section \<open>A concrete conversation\<close>

definition demo_envelope :: MessageEnvelope where
  "demo_envelope = \<lparr>me_provider_id = ''local'', me_message_id = ''M1'', me_conversation_id = ''V1'',
     me_customer_id = ''U1'', me_channel = CHAT, me_text = ''hello'', me_locale = ''en-US'',
     me_timezone = ''America/Chicago'', me_sequence = Some 1, me_correlation_id = ''X'',
     me_causation_id = None, me_consent_snapshot = [], me_capabilities = []\<rparr>"

definition demo_processor :: "TurnContext \<Rightarrow> string \<Rightarrow> (GeneratedTurn, 'z) kop" where
  "demo_processor c txt = returnE \<lparr>gt_text = txt, gt_risk = INFORMATIONAL,
     gt_authoritative_status = None, gt_action_proposals = []\<rparr>"

theorem turn_processed_once_witness:
  "\<exists>r u. process_turn demo_processor demo_envelope ''a'' ''agent'' [] ''o''
     (snd (accept_result demo_envelope demo_start)) = (Inr r, u) \<and> tr_duplicate r \<and> tr_response r = None"
proof -
  have "map_sum (\<lambda>e. e) acc_accepted (fst (accept_result demo_envelope demo_start)) = Inr True" by code_simp
  from fst_map_sum_Inr [OF this] obtain a where a: "accept_result demo_envelope demo_start =
      (Inr a, snd (accept_result demo_envelope demo_start))" "acc_accepted a" by auto
  show ?thesis using turn_processed_once [OF a rtranclp.rtrancl_refl, of demo_processor "''a''" "''agent''" "[]" "''o''"]
    by blast
qed

definition demo_handoff_world :: kworld where
  "demo_handoff_world = snd (request_handoff ''V1'' ''C1'' [] demo_case)"

theorem handoff_single_winner_witness:
  "\<exists>h t x u. transition_handoff ''HO-'' H_QUEUED None demo_handoff_world = (Inr h, t) \<and>
     store_transition_handoff ''HO-'' ''requested'' ''accepted'' (Some ''a'') t = (Inl x, u) \<and> db u = db t"
proof -
  have k: "map ho_handoff_id (handoffs (db demo_handoff_world)) = [''HO-'']"
    "handoff_status (db demo_handoff_world) ''HO-'' = Some (handoff_value H_REQUESTED)"
    "map_sum (\<lambda>e. e) ho_handoff_id (fst (transition_handoff ''HO-'' H_QUEUED None demo_handoff_world)) = Inr ''HO-''"
    by code_simp+
  obtain h t where t: "transition_handoff ''HO-'' H_QUEUED None demo_handoff_world = (Inr h, t)"
    using fst_map_sum_Inr [OF k(3)] by metis
  have "handoff_keys (db demo_handoff_world)" using k(1) by (simp add: handoff_keys_def)
  from handoff_single_winner [OF this t] obtain c where
    c: "handoff_status (db demo_handoff_world) ''HO-'' = Some (handoff_value c)"
      "\<forall>st' ag'. \<exists>x u. store_transition_handoff ''HO-'' (handoff_value c) st' ag' t = (Inl x, u) \<and> db u = db t"
    by metis
  have "handoff_value c = ''requested''" using c(1) k(2) by simp
  then have "\<exists>x u. store_transition_handoff ''HO-'' ''requested'' ''accepted'' (Some ''a'') t = (Inl x, u) \<and> db u = db t"
    using c(2) by metis
  then show ?thesis using t by blast
qed

end
