(* ===== verification/Decisions.thy ===== *)
theory Decisions
  imports Conversation Policy "HOL-Library.Product_Lexorder" "HOL-Library.Multiset"
begin

text \<open>
  The deterministic decisions kept outside prompts: refund eligibility and Reg E liability
  (\<open>core/domains.py\<close>), procedure routing (\<open>core/routing.py\<close>), channel consent
  (\<open>core/jurisdiction.py\<close>), replay and rollout gates (\<open>core/verification.py\<close>) and the validation
  of what a model extracted (\<open>core/adk2.py\<close>). Amounts are finite floats, hence rationals; text is
  ASCII.
\<close>

section \<open>Refunds\<close>

record RefundDecision =
  rf_eligible :: bool
  rf_reason :: string
  rf_amount :: rat
  rf_idempotency_key :: string

record OrderSnapshot =
  os_order_id :: string
  os_customer_id :: string
  os_status :: string
  os_days_since_delivery :: int
  os_amount :: rat
  os_payment_method :: string
  os_evidence_ref :: string

definition refund_evaluate ::
  "int \<Rightarrow> string \<Rightarrow> string \<Rightarrow> string \<Rightarrow> string \<Rightarrow> int \<Rightarrow> rat \<Rightarrow> RefundDecision" where
  "refund_evaluate refund_window_days order_id authenticated_customer_id order_customer_id
     order_status days_since_delivery amount =
     (let key = ''refund:'' @ order_id;
          decide = (\<lambda>ok reason. \<lparr>rf_eligible = ok, rf_reason = reason, rf_amount = amount,
                                 rf_idempotency_key = key\<rparr>) in
      if authenticated_customer_id \<noteq> order_customer_id then decide False ''ownership_mismatch''
      else if order_status \<notin> {''delivered'', ''completed''} then decide False ''order_not_complete''
      else if refund_window_days < days_since_delivery then decide False ''outside_refund_window''
      else if amount \<le> 0 then decide False ''invalid_amount''
      else decide True ''eligible'')"

section \<open>Reg E\<close>

record RegEDecision =
  re_eligible :: bool
  re_liability_tier :: string
  re_max_liability :: rat
  re_reason :: string

definition covered_methods :: "string list" where
  "covered_methods = [''debit'', ''debit_card'', ''ach'', ''p2p'', ''atm'', ''electronic_transfer'']"

definition reg_e_evaluate :: "string \<Rightarrow> int \<Rightarrow> rat \<Rightarrow> RegEDecision" where
  "reg_e_evaluate payment_method days_since_noticed amount =
     (if lower payment_method \<notin> set covered_methods
      then \<lparr>re_eligible = False, re_liability_tier = ''not_covered'', re_max_liability = amount,
            re_reason = ''not_eft''\<rparr>
      else if days_since_noticed \<le> 2
      then \<lparr>re_eligible = True, re_liability_tier = ''tier_1'', re_max_liability = 50,
            re_reason = ''eligible''\<rparr>
      else if days_since_noticed \<le> 60
      then \<lparr>re_eligible = True, re_liability_tier = ''tier_2'', re_max_liability = 500,
            re_reason = ''eligible''\<rparr>
      else \<lparr>re_eligible = False, re_liability_tier = ''tier_3'', re_max_liability = amount,
            re_reason = ''outside_60_day_window''\<rparr>)"

section \<open>Routing\<close>

record ProcedureRoute =
  rt_primary_procedure :: string
  rt_subprocedures :: "string list"
  rt_versions :: "(string \<times> string) list"

record route_definition =
  rd_keywords :: "string list"
  rd_version :: string

fun is_space :: "char \<Rightarrow> bool" where
  "is_space c = (let n = (of_char c :: nat) in n = 32 \<or> 9 \<le> n \<and> n \<le> 13 \<or> 28 \<le> n \<and> n \<le> 31)"

text \<open>\<open>s.split()\<close>\<close>

fun split_words :: "string \<Rightarrow> string \<Rightarrow> string list" where
  "split_words word [] = (if word = [] then [] else [rev word])"
| "split_words word (c # cs) =
     (if is_space c then (if word = [] then [] else [rev word]) @ split_words [] cs
      else split_words (c # word) cs)"

definition route_words :: "string \<Rightarrow> string list" where
  "route_words t = split_words [] (map (\<lambda>c. if c = CHR '','' then CHR '' '' else c) (lower t))"

definition route_matches :: "(string \<times> route_definition) list \<Rightarrow> string \<Rightarrow> string list" where
  "route_matches catalog t =
     map fst (filter (\<lambda>(_, d). \<exists>w \<in> set (route_words t). w \<in> set (rd_keywords d)) catalog)"

definition route_rank :: "string \<Rightarrow> bool \<times> string" where
  "route_rank v = (\<not> substring ''dispute'' v, v)"

definition route ::
  "(string \<times> route_definition) list \<Rightarrow> string \<Rightarrow> ProcedureRoute option \<Rightarrow> exn + ProcedureRoute" where
  "route catalog t current =
     (case current of
        Some r \<Rightarrow> Inr r
      | None \<Rightarrow>
          (case sort_key route_rank (route_matches catalog t) of
             [] \<Rightarrow> Inl (ValueError ''No deterministic procedure match'')
           | p # ps \<Rightarrow> Inr \<lparr>rt_primary_procedure = p, rt_subprocedures = ps,
               rt_versions = map (\<lambda>i. (i, rd_version (the (dict_get catalog i)))) (p # ps)\<rparr>))"

section \<open>Channel consent\<close>

record JurisdictionProfile =
  jp_profile_id :: string
  jp_regions :: "string list"
  jp_recording_consent_required :: bool
  jp_transcription_consent_required :: bool
  jp_transcript_retention_days :: int
  jp_quiet_hours_start :: int
  jp_quiet_hours_end :: int
  jp_max_outbound_contacts_7d :: int
  jp_secure_dtmf_required :: bool
  jp_disclaimer :: string

record JurisdictionDecision =
  jd_allowed :: bool
  jd_enforced :: bool
  jd_blocks :: "string list"
  jd_warnings :: "string list"
  jd_profile_id :: string

definition DEFAULT_NAM_PROFILE :: JurisdictionProfile where
  "DEFAULT_NAM_PROFILE = \<lparr>jp_profile_id = ''NAM'', jp_regions = [''US'', ''CA'', ''MX''],
     jp_recording_consent_required = True, jp_transcription_consent_required = True,
     jp_transcript_retention_days = 30, jp_quiet_hours_start = 21, jp_quiet_hours_end = 8,
     jp_max_outbound_contacts_7d = 3, jp_secure_dtmf_required = True,
     jp_disclaimer = ''Operational default only; obtain legal approval before production activation.''\<rparr>"

text \<open>
  \<open>config\<close> is the parsed configuration file, if one is named, and \<open>model_validate\<close> the pydantic
  validation of a profile.
\<close>

definition load_jurisdiction_profile ::
  "(pdict \<Rightarrow> exn + JurisdictionProfile) \<Rightarrow> string \<Rightarrow> pdict option \<Rightarrow> exn + JurisdictionProfile" where
  "load_jurisdiction_profile model_validate profile_id config =
     (case config of
        None \<Rightarrow> if profile_id \<noteq> ''NAM''
                then Inl (ValueError (''No built-in jurisdiction profile: '' @ profile_id))
                else Inr DEFAULT_NAM_PROFILE
      | Some raw \<Rightarrow>
          (case (case dict_get raw ''profiles'' of None \<Rightarrow> JObj raw | Some p \<Rightarrow> p) of
             JObj profiles \<Rightarrow>
               (case dict_get profiles profile_id of
                  None \<Rightarrow> Inl (ValueError (''Jurisdiction profile not found: '' @ profile_id))
                | Some (JObj d) \<Rightarrow>
                    model_validate (dict_merge [(''profile_id'', JStr profile_id)] d)
                | Some _ \<Rightarrow> Inl (TypeError ''argument after ** must be a mapping''))
           | _ \<Rightarrow> Inl (TypeError ''profiles is not a mapping'')))"

definition evaluate_inbound ::
  "JurisdictionProfile \<Rightarrow> bool \<Rightarrow> ChannelKind \<Rightarrow> pdict \<Rightarrow> bool \<Rightarrow> bool \<Rightarrow> JurisdictionDecision" where
  "evaluate_inbound profile enforce channel consent_snapshot contains_dtmf_secret secure_dtmf_capture =
     (let findings = (if channel = IVR then
            (if jp_recording_consent_required profile \<and> \<not> truthy_get consent_snapshot ''recording''
             then [''recording_consent_missing''] else []) @
            (if jp_transcription_consent_required profile \<and> \<not> truthy_get consent_snapshot ''transcription''
             then [''transcription_consent_missing''] else []) @
            (if contains_dtmf_secret \<and> jp_secure_dtmf_required profile \<and> \<not> secure_dtmf_capture
             then [''secure_dtmf_capture_required''] else [])
          else []) in
      \<lparr>jd_allowed = (findings = [] \<or> \<not> enforce), jd_enforced = enforce,
       jd_blocks = (if enforce then findings else []), jd_warnings = (if enforce then [] else findings),
       jd_profile_id = jp_profile_id profile\<rparr>)"

section \<open>Replay and rollout\<close>

record ReplayResult =
  rr_deterministic :: bool
  rr_expected_hash :: string
  rr_actual_hash :: string

text \<open>\<open>digest\<close> stands for SHA-256 of the canonical JSON text.\<close>

definition replay ::
  "(json \<Rightarrow> string) \<Rightarrow> (pdict \<Rightarrow> exn + json) \<Rightarrow> pdict \<Rightarrow> json \<Rightarrow> exn + ReplayResult" where
  "replay digest decision inputs expected =
     (case decision inputs of
        Inl e \<Rightarrow> Inl e
      | Inr actual \<Rightarrow>
          Inr \<lparr>rr_deterministic = (digest (sort_keys expected) = digest (sort_keys actual)),
               rr_expected_hash = digest (sort_keys expected), rr_actual_hash = digest (sort_keys actual)\<rparr>)"

record RolloutGate =
  rg_procedure_id :: string
  rg_channel :: string
  rg_risk_tier :: string
  rg_enabled_percent :: int
  rg_unauthorized_actions :: int
  rg_mandatory_evidence_rate :: rat

definition may_advance :: "RolloutGate \<Rightarrow> bool" where
  "may_advance g \<longleftrightarrow> rg_unauthorized_actions g = 0 \<and> rg_mandatory_evidence_rate g = 1"

section \<open>Extracted facts\<close>

record CandidateProposal =
  cp_intent :: string
  cp_extracted_facts :: pdict
  cp_evidence_spans :: "(string \<times> string) list"

record ValidatedProposal = CandidateProposal +
  vp_fact_authority :: FactAuthority

record ComposedResponse =
  cr_text :: string
  cr_authoritative_status :: "string option"

text \<open>\<open>str\<close> of a list of plain strings.\<close>

definition str_list :: "string list \<Rightarrow> string" where
  "str_list xs = ''['' @ join '', '' (map (\<lambda>x. [CHR 0x27] @ x @ [CHR 0x27]) xs) @ '']''"

definition validate_proposal :: "CandidateProposal \<Rightarrow> exn + ValidatedProposal" where
  "validate_proposal p =
     (let missing_evidence = filter (\<lambda>k. k \<notin> set (dict_keys (cp_evidence_spans p)))
            (dict_keys (cp_extracted_facts p)) in
      if missing_evidence \<noteq> []
      then Inl (ValueError (''Extracted facts lack evidence spans: '' @ str_list (sort missing_evidence)))
      else Inr (CandidateProposal.extend p (ValidatedProposal.fields ASSERTED)))"

definition compose_grounded_response :: "ValidatedProposal \<Rightarrow> ComposedResponse" where
  "compose_grounded_response p = \<lparr>cr_text = ''I understood this as '' @ cp_intent p @
     ''. I will verify the relevant details before any action.'', cr_authoritative_status = None\<rparr>"

text \<open>The bounded graph: \<open>START\<close>, validation, composition.\<close>

definition bounded_interaction :: "CandidateProposal \<Rightarrow> exn + ComposedResponse" where
  "bounded_interaction p =
     (case validate_proposal p of Inl e \<Rightarrow> Inl e | Inr v \<Rightarrow> Inr (compose_grounded_response v))"

section \<open>What the decisions guarantee\<close>

text \<open>Routing is deterministic and sticky. A conversation that has a route keeps it; otherwise
  every matching procedure is part of the route with the version of the catalog, a dispute
  procedure takes precedence whenever one matches, and text that matches nothing is an error.\<close>

theorem route_precedence:
  "case current of
     Some c \<Rightarrow> route catalog t current = Inr c
   | None \<Rightarrow>
       (if route_matches catalog t = [] then route catalog t current = Inl (ValueError ''No deterministic procedure match'')
        else \<exists>r. route catalog t current = Inr r \<and>
          mset (rt_primary_procedure r # rt_subprocedures r) = mset (route_matches catalog t) \<and>
          rt_versions r = map (\<lambda>i. (i, rd_version (the (dict_get catalog i)))) (rt_primary_procedure r # rt_subprocedures r) \<and>
          (substring ''dispute'' (rt_primary_procedure r) \<longleftrightarrow>
             (\<exists>m \<in> set (route_matches catalog t). substring ''dispute'' m)) \<and>
          (\<forall>m \<in> set (rt_subprocedures r). route_rank (rt_primary_procedure r) \<le> route_rank m))"
proof (cases current)
  case None
  let ?m = "route_matches catalog t"
  show ?thesis
  proof (cases "sort_key route_rank ?m")
    case Nil
    then have "?m = []" by (metis length_0_conv length_sort)
    then show ?thesis using None by (simp add: route_def)
  next
    case (Cons p ps)
    have ms: "mset (p # ps) = mset ?m" using Cons by (metis mset_sort)
    have least: "\<forall>m \<in> set ps. route_rank p \<le> route_rank m"
      using sorted_sort_key [of route_rank ?m] Cons by (auto simp: sorted_wrt_map)
    have members: "set ?m = insert p (set ps)" using mset_eq_setD [OF ms] by simp
    then have "substring ''dispute'' p \<longleftrightarrow> (\<exists>m \<in> set ?m. substring ''dispute'' m)"
      using least by (fastforce simp: route_rank_def less_eq_prod_simp)
    moreover have "?m \<noteq> []" using members by auto
    ultimately show ?thesis using None Cons ms least by (simp add: route_def)
  qed
qed (simp add: route_def)

theorem route_precedence_witness:
  "\<exists>r. route [(''cs_refund'', \<lparr>rd_keywords = [''refund''], rd_version = ''1''\<rparr>),
      (''dispute_eft'', \<lparr>rd_keywords = [''card'', ''dispute''], rd_version = ''2''\<rparr>)] ''refund my card'' None = Inr r \<and>
     substring ''dispute'' (rt_primary_procedure r)"
proof -
  let ?c = "[(''cs_refund'', \<lparr>rd_keywords = [''refund''], rd_version = ''1''\<rparr>),
      (''dispute_eft'', \<lparr>rd_keywords = [''card'', ''dispute''], rd_version = ''2''\<rparr>)]"
  have m: "route_matches ?c ''refund my card'' = [''cs_refund'', ''dispute_eft'']" by code_simp
  have "substring ''dispute'' ''dispute_eft''" by code_simp
  then show ?thesis using route_precedence [of ?c "''refund my card''" None] unfolding m by auto
qed

text \<open>A refund is eligible exactly for the owner of a completed order of positive amount inside
  the refund window, and its idempotency key depends on the order alone.\<close>

theorem refund_eligible_iff:
  "(rf_eligible (refund_evaluate w oid auth owner st days amount) \<longleftrightarrow>
     auth = owner \<and> (st = ''delivered'' \<or> st = ''completed'') \<and> days \<le> w \<and> 0 < amount) \<and>
   rf_idempotency_key (refund_evaluate w oid auth owner st days amount) = ''refund:'' @ oid \<and>
   rf_amount (refund_evaluate w oid auth owner st days amount) = amount"
  by (auto simp: refund_evaluate_def Let_def)

lemma validate_proposal_asserted:
  "validate_proposal p = Inr v \<Longrightarrow> vp_fact_authority v = ASSERTED \<and>
     set (dict_keys (cp_extracted_facts v)) \<subseteq> set (dict_keys (cp_evidence_spans v))"
  by (auto simp: validate_proposal_def Let_def CandidateProposal.defs ValidatedProposal.defs
      filter_empty_conv split: if_splits)

end
