(* ===== verification/Action_Service.thy ===== *)
theory Action_Service
  imports Gateway_Laws Access Decisions
begin

text \<open>
  The application service for consequential operations (\<open>core/action_service.py\<close>) and the refund
  facade (\<open>core/service.py\<close>): a typed request is bound to an authoritative resource, its
  parameters are committed as verified facts of the case, and the command is authorised and
  dispatched through the gateway. The resource provider is a parameter: a read of the world that
  may raise.
\<close>

section \<open>Requests\<close>

datatype ActionPayload =
    IssueRefundPayload (rp_order_id: string) (rp_customer_id: string) (rp_refund_amount: rat)
      (rp_currency: string) (rp_payment_method: string) (rp_reason: string)
  | StoreCreditPayload string string rat string string
  | CaseStatusPayload string string
  | EftDisputePayload string string rat string
  | ProvisionalCreditPayload string string rat
  | EscalationPayload string string
  | CaseNotePayload string
  | AccountRestrictionPayload string string string
  | SarPayload string string string
  | CloseAlertPayload string string

fun payload_name :: "ActionPayload \<Rightarrow> string" where
  "payload_name (IssueRefundPayload _ _ _ _ _ _) = ''issue_refund''"
| "payload_name (StoreCreditPayload _ _ _ _ _) = ''issue_store_credit''"
| "payload_name (CaseStatusPayload _ _) = ''update_case_status''"
| "payload_name (EftDisputePayload _ _ _ _) = ''file_eft_dispute''"
| "payload_name (ProvisionalCreditPayload _ _ _) = ''issue_provisional_credit''"
| "payload_name (EscalationPayload _ _) = ''escalate_to_supervisor''"
| "payload_name (CaseNotePayload _) = ''add_case_note''"
| "payload_name (AccountRestrictionPayload _ _ _) = ''flag_account''"
| "payload_name (SarPayload _ _ _) = ''submit_sar''"
| "payload_name (CloseAlertPayload _ _) = ''close_alert''"

text \<open>\<open>payload.model_dump(exclude={"action"}, mode="json")\<close>\<close>

fun payload_dump :: "ActionPayload \<Rightarrow> pdict" where
  "payload_dump (IssueRefundPayload oid cid amt cur pm rs) =
     [(''order_id'', JStr oid), (''customer_id'', JStr cid), (''refund_amount'', JFloat amt),
      (''currency'', JStr cur), (''payment_method'', JStr pm), (''reason'', JStr rs)]"
| "payload_dump (StoreCreditPayload oid cid amt cur rs) =
     [(''order_id'', JStr oid), (''customer_id'', JStr cid), (''amount'', JFloat amt),
      (''currency'', JStr cur), (''reason'', JStr rs)]"
| "payload_dump (CaseStatusPayload ts rs) = [(''target_status'', JStr ts), (''reason'', JStr rs)]"
| "payload_dump (EftDisputePayload cid tid amt dt) =
     [(''customer_id'', JStr cid), (''transaction_id'', JStr tid), (''amount'', JFloat amt),
      (''dispute_type'', JStr dt)]"
| "payload_dump (ProvisionalCreditPayload cid did amt) =
     [(''customer_id'', JStr cid), (''dispute_id'', JStr did), (''amount'', JFloat amt)]"
| "payload_dump (EscalationPayload rs pr) = [(''reason'', JStr rs), (''priority'', JStr pr)]"
| "payload_dump (CaseNotePayload n) = [(''note'', JStr n)]"
| "payload_dump (AccountRestrictionPayload aid rs rn) =
     [(''account_id'', JStr aid), (''reason'', JStr rs), (''restriction'', JStr rn)]"
| "payload_dump (SarPayload aid al nr) =
     [(''account_id'', JStr aid), (''alert_id'', JStr al), (''narrative_ref'', JStr nr)]"
| "payload_dump (CloseAlertPayload al rs) = [(''alert_id'', JStr al), (''resolution'', JStr rs)]"

text \<open>The \<open>Field\<close> and \<open>Literal\<close> constraints of the payload classes.\<close>

fun payload_valid :: "ActionPayload \<Rightarrow> bool" where
  "payload_valid (IssueRefundPayload oid cid amt cur pm rs) = (0 < amt)"
| "payload_valid (StoreCreditPayload oid cid amt cur rs) = (0 < amt)"
| "payload_valid (EftDisputePayload cid tid amt dt) =
     (0 < amt \<and> dt \<in> {''unauthorized'', ''error'', ''fraud''})"
| "payload_valid (ProvisionalCreditPayload cid did amt) = (0 < amt)"
| "payload_valid (EscalationPayload rs pr) = (pr \<in> {''low'', ''normal'', ''high'', ''urgent''})"
| "payload_valid (CaseNotePayload n) = (1 \<le> length n \<and> length n \<le> 10000)"
| "payload_valid (AccountRestrictionPayload aid rs rn) = (rn \<in> {''monitor'', ''restrict'', ''freeze''})"
| "payload_valid (CloseAlertPayload al rs) =
     (rs \<in> {''confirmed_fraud'', ''false_positive'', ''escalated''})"
| "payload_valid _ = True"

record ConsequentialActionRequest =
  rq_case_id :: string
  rq_customer_id :: string
  rq_procedure_id :: string
  rq_procedure_version :: string
  rq_policy_package_id :: string
  rq_idempotency_key :: string
  rq_resource :: "(string \<times> string) option"
  rq_payload :: ActionPayload
  rq_consent_evidence_ref :: "string option"
  rq_approval_evidence_ref :: "string option"
  rq_connector_binding_id :: "string option"
  rq_connector_binding_version :: "string option"
  rq_contract_version :: "string option"

definition new_request :: "ConsequentialActionRequest \<Rightarrow> exn + ConsequentialActionRequest" where
  "new_request r =
     (if 4 \<le> length (rq_idempotency_key r) \<and> length (rq_idempotency_key r) \<le> 300 \<and>
         payload_valid (rq_payload r)
      then Inr r else Inl (ValidationError ''ConsequentialActionRequest''))"

definition ACTION_PERMISSIONS :: "(string \<times> Permission) list" where
  "ACTION_PERMISSIONS =
    [(''issue_refund'', REFUND_WRITE), (''issue_store_credit'', REFUND_WRITE),
     (''update_case_status'', CASE_WRITE), (''file_eft_dispute'', CASE_WRITE),
     (''issue_provisional_credit'', REFUND_WRITE), (''escalate_to_supervisor'', ESCALATION_CREATE),
     (''add_case_note'', CASE_WRITE), (''flag_account'', ACCOUNT_FLAG),
     (''submit_sar'', SAR_SUBMIT), (''close_alert'', FRAUD_ALERT_WRITE)]"

section \<open>The service\<close>

text \<open>A resource as the service reads it: \<open>resource["payload"]\<close> and \<open>resource["version"]\<close>.\<close>

record authoritative_resource =
  res_payload :: pdict
  res_version :: int

type_synonym ('p, 'z) resource_provider =
  "string \<Rightarrow> string \<Rightarrow> (authoritative_resource option, 'p, 'z) gop"

definition normalize_resource_payload :: "string \<Rightarrow> pdict \<Rightarrow> pdict" where
  "normalize_resource_payload action payload =
     (let n1 = (if action = ''issue_refund'' \<and> dict_get payload ''refund_amount'' = None
                then (case dict_get payload ''amount'' of
                        None \<Rightarrow> payload | Some v \<Rightarrow> dict_set payload ''refund_amount'' v)
                else payload) in
      if action \<in> {''issue_refund'', ''issue_store_credit''} \<and> dict_get n1 ''currency'' = None
      then dict_set n1 ''currency'' (JStr ''USD'') else n1)"

text \<open>\<open>str(value)\<close>; the text of a float, list or dict is left to \<open>render\<close>.\<close>

fun py_str :: "(json \<Rightarrow> string) \<Rightarrow> json \<Rightarrow> string" where
  "py_str render (JStr s) = s"
| "py_str render (JInt i) = str_int i"
| "py_str render (JBool b) = (if b then ''True'' else ''False'')"
| "py_str render JNull = ''None''"
| "py_str render v = render v"

definition get_or_null :: "pdict \<Rightarrow> string \<Rightarrow> json" where
  "get_or_null d k = (case dict_get d k of None \<Rightarrow> JNull | Some v \<Rightarrow> v)"

text \<open>Whether a repeated request names the same effect as the attempt on record.\<close>

definition parameters_match :: "ActionPayload \<Rightarrow> pdict \<Rightarrow> bool" where
  "parameters_match payload duplicate_parameters =
     (let requested = payload_dump payload in
      if payload_name payload = ''issue_refund''
      then list_all (\<lambda>(name, value). py_eq (get_or_null requested name) value) duplicate_parameters
      else py_eq (JObj duplicate_parameters) (JObj requested))"

definition submit_duplicate ::
  "'p ActionGateway \<Rightarrow> ConsequentialActionRequest \<Rightarrow> ActionRecord \<Rightarrow> (ActionRecord, 'p, 'z) gop" where
  "submit_duplicate g request duplicate =
     bindE (raise_if
       (cmd_case_id (ar_command duplicate) \<noteq> rq_case_id request \<or>
        cmd_action (ar_command duplicate) \<noteq> payload_name (rq_payload request) \<or>
        cmd_policy_package_id (ar_command duplicate) \<noteq> rq_policy_package_id request \<or>
        \<not> parameters_match (rq_payload request) (cmd_parameters (ar_command duplicate)))
       (ValueError ''Idempotency key is already bound to a different action request'')) (\<lambda>_.
     bindE (get_case (cmd_case_id (ar_command duplicate))) (\<lambda>c.
     bindE (raise_if (case c of None \<Rightarrow> True | Some cr \<Rightarrow> cr_customer_id cr \<noteq> rq_customer_id request)
       (ValueError ''Idempotent action does not belong to this customer'')) (\<lambda>_.
     gateway_dispatch g duplicate)))"

text \<open>The checks against the authoritative resource; the result is its payload and the evidence.\<close>

definition check_resource_parameter :: "pdict \<Rightarrow> pdict \<Rightarrow> string \<Rightarrow> (unit, 's) op" where
  "check_resource_parameter upstream parameters parameter =
     (case dict_get upstream parameter of
        None \<Rightarrow> raiseE (ValueError (''Authoritative resource is missing '' @ parameter))
      | Some v \<Rightarrow> raise_if (\<not> py_eq v (get_or_null parameters parameter))
          (ValueError (''Parameter '' @ parameter @ '' does not match the authoritative resource'')))"

definition check_customer_binding ::
  "(json \<Rightarrow> string) \<Rightarrow> ActionSpecification \<Rightarrow> pdict \<Rightarrow> string \<Rightarrow> (unit, 's) op" where
  "check_customer_binding render sp upstream customer_id =
     (case customer_binding_parameter sp of
        None \<Rightarrow> returnE ()
      | Some binding \<Rightarrow>
          (case dict_get upstream binding of
             None \<Rightarrow> raiseE (ValueError (''Authoritative resource is missing customer binding '' @ binding))
           | Some v \<Rightarrow> raise_if (py_str render v \<noteq> customer_id)
               (ValueError ''Authoritative resource does not belong to the serviced customer'')))"

definition bind_resource ::
  "('p, 'z) resource_provider \<Rightarrow> (json \<Rightarrow> string) \<Rightarrow> ConsequentialActionRequest \<Rightarrow>
   ActionSpecification \<Rightarrow> (pdict \<times> string option, 'p, 'z) gop" where
  "bind_resource resources render request sp =
     (if authoritative_parameters sp = [] then returnE ([], None)
      else
      case rq_resource request of
        None \<Rightarrow> raiseE (ValueError ''This action requires an authoritative resource reference'')
      | Some (rtype, rid) \<Rightarrow>
          bindE (resources rtype rid) (\<lambda>resource.
          case resource of
            None \<Rightarrow> raiseE (ValueError ''Authoritative resource was not found'')
          | Some r \<Rightarrow>
            let upstream = normalize_resource_payload (payload_name (rq_payload request)) (res_payload r);
                parameters = payload_dump (rq_payload request);
                evidence_ref = ''sandbox:'' @ rtype @ '':'' @ rid @ '':v'' @ str_int (res_version r) in
            bindE (check_customer_binding render sp upstream (rq_customer_id request)) (\<lambda>_.
            bindE (foldE (\<lambda>parameter _. check_resource_parameter upstream parameters parameter)
                     (authoritative_parameters sp) ()) (\<lambda>_.
            returnE (upstream, Some evidence_ref)))))"

definition open_case :: "ConsequentialActionRequest \<Rightarrow> (CaseRecord, 'z) kop" where
  "open_case request =
     bindE (get_case (rq_case_id request)) (\<lambda>c.
     case c of
       None \<Rightarrow> kernel_create_case (rq_case_id request) (rq_customer_id request)
                (rq_procedure_id request) (rq_procedure_version request)
     | Some cr \<Rightarrow>
         bindE (raise_if (cr_customer_id cr \<noteq> rq_customer_id request)
           (ValueError ''Case customer does not match authenticated customer'')) (\<lambda>_.
         bindE (raise_if (cr_procedure_version cr \<noteq> rq_procedure_version request)
           (ValueError ''Active cases cannot silently switch procedure versions'')) (\<lambda>_.
         returnE cr)))"

definition resource_fact :: "string \<Rightarrow> pdict \<Rightarrow> string option \<Rightarrow> string \<Rightarrow> FactProposal" where
  "resource_fact action upstream evidence_ref parameter =
     \<lparr>fp_name = action @ ''.'' @ parameter, fp_value = get_or_null upstream parameter,
      fp_authority = VERIFIED, fp_source = ''authoritative_resource_adapter'',
      fp_evidence_ref = (case evidence_ref of None \<Rightarrow> [] | Some e \<Rightarrow> e), fp_expires_at = None\<rparr>"

definition commit_parameters ::
  "string \<Rightarrow> string \<Rightarrow> pdict \<Rightarrow> string option \<Rightarrow> string list \<Rightarrow> CaseRecord \<Rightarrow> (CaseRecord, 'z) kop" where
  "commit_parameters case_id action upstream evidence_ref =
     foldE (\<lambda>parameter c. commit_fact case_id (resource_fact action upstream evidence_ref parameter)
              (cr_version c))"

definition submitted_command ::
  "ConsequentialActionRequest \<Rightarrow> string \<Rightarrow> string list \<Rightarrow> ActionCommand" where
  "submitted_command request actor_id authoritative =
     (let action = payload_name (rq_payload request) in
      \<lparr>cmd_action = action, cmd_case_id = rq_case_id request,
       cmd_policy_package_id = rq_policy_package_id request, cmd_actor_id = actor_id,
       cmd_idempotency_key = rq_idempotency_key request,
       cmd_parameters = payload_dump (rq_payload request),
       cmd_parameter_fact_refs = map (\<lambda>p. (p, action @ ''.'' @ p)) authoritative,
       cmd_required_fact_authority = map (\<lambda>p. (p, VERIFIED)) authoritative,
       cmd_consent_evidence_ref = rq_consent_evidence_ref request,
       cmd_approval_evidence_ref = rq_approval_evidence_ref request,
       cmd_policy_activation_signature = None,
       cmd_connector_binding_id = rq_connector_binding_id request,
       cmd_connector_binding_version = rq_connector_binding_version request,
       cmd_contract_version = rq_contract_version request\<rparr>)"

definition submit_new ::
  "'p ActionGateway \<Rightarrow> ('p, 'z) resource_provider \<Rightarrow> (json \<Rightarrow> string) \<Rightarrow>
   ConsequentialActionRequest \<Rightarrow> string \<Rightarrow> (ActionRecord, 'p, 'z) gop" where
  "submit_new g resources render request actor_id =
     (let action = payload_name (rq_payload request) in
      case dict_get ACTION_SPECIFICATIONS action of
        None \<Rightarrow> raiseE (KeyError action)
      | Some sp \<Rightarrow>
          bindE (bind_resource resources render request sp) (\<lambda>bound.
          bindE (open_case request) (\<lambda>c.
          bindE (commit_parameters (rq_case_id request) action (fst bound) (snd bound)
                   (sort (authoritative_parameters sp)) c) (\<lambda>c'.
          bindE (gateway_authorize g
                   (submitted_command request actor_id (sort (authoritative_parameters sp)))
                   (cr_version c')) (\<lambda>authorized.
          gateway_dispatch g authorized)))))"

definition submit ::
  "'p ActionGateway \<Rightarrow> ('p, 'z) resource_provider \<Rightarrow> (json \<Rightarrow> string) \<Rightarrow>
   ConsequentialActionRequest \<Rightarrow> string \<Rightarrow> (ActionRecord, 'p, 'z) gop" where
  "submit g resources render request actor_id =
     bindE (get_action_by_key (rq_idempotency_key request)) (\<lambda>duplicate.
     case duplicate of
       Some d \<Rightarrow> submit_duplicate g request d
     | None \<Rightarrow> submit_new g resources render request actor_id)"

section \<open>The refund facade\<close>

definition single_order_resource :: "OrderSnapshot \<Rightarrow> ('p, 'z) resource_provider" where
  "single_order_resource order resource_type resource_id =
     returnE (if resource_type \<noteq> ''order'' \<or> resource_id \<noteq> os_order_id order then None
      else Some \<lparr>res_payload =
        [(''order_id'', JStr (os_order_id order)), (''customer_id'', JStr (os_customer_id order)),
         (''status'', JStr (os_status order)),
         (''days_since_delivery'', JInt (os_days_since_delivery order)),
         (''amount'', JFloat (os_amount order)), (''refund_amount'', JFloat (os_amount order)),
         (''currency'', JStr ''USD''), (''payment_method'', JStr (os_payment_method order))],
        res_version = 1\<rparr>)"

definition process_refund ::
  "'p ActionGateway \<Rightarrow> (json \<Rightarrow> string) \<Rightarrow> int \<Rightarrow> string \<Rightarrow> string \<Rightarrow> string \<Rightarrow> string \<Rightarrow> string \<Rightarrow>
   OrderSnapshot \<Rightarrow> string \<Rightarrow> string option \<Rightarrow> (ActionRecord, 'p, 'z) gop" where
  "process_refund g render refund_window_days case_id authenticated_customer_id actor_id
     policy_package_id procedure_version order reason consent_evidence_ref =
     (let decision = refund_evaluate refund_window_days (os_order_id order) authenticated_customer_id
            (os_customer_id order) (os_status order) (os_days_since_delivery order) (os_amount order) in
      bindE (raise_if (\<not> rf_eligible decision)
        (ValueError (''Refund is not eligible: '' @ rf_reason decision))) (\<lambda>_.
      bindE (liftE (new_request
        \<lparr>rq_case_id = case_id, rq_customer_id = authenticated_customer_id,
         rq_procedure_id = ''cs_refund'', rq_procedure_version = procedure_version,
         rq_policy_package_id = policy_package_id,
         rq_idempotency_key = rf_idempotency_key decision,
         rq_resource = Some (''order'', os_order_id order),
         rq_payload = IssueRefundPayload (os_order_id order) authenticated_customer_id
           (os_amount order) ''USD'' (os_payment_method order) reason,
         rq_consent_evidence_ref = consent_evidence_ref, rq_approval_evidence_ref = None,
         rq_connector_binding_id = None, rq_connector_binding_version = None,
         rq_contract_version = None\<rparr>)) (\<lambda>request.
      submit g (single_order_resource order) render request actor_id)))"

end
