(* ===== verification/Action_Service_Laws.thy ===== *)
theory Action_Service_Laws
  imports Action_Service Kernel_Views
begin

text \<open>
  What a submission guarantees: the effect is bound to the authoritative resource, the consent and
  approval evidence and the owner of the case, and a repeated key never creates a second attempt.
\<close>

section \<open>Views of the store\<close>

text \<open>Who owns which case.\<close>

definition case_owners :: "core_db \<Rightarrow> (string \<times> string) list" where
  "case_owners d = map (\<lambda>c. (cr_case_id c, cr_customer_id c)) (workflow_cases d)"

interpretation owner_view: table_view case_owners .

interpretation attempt_view: table_view action_attempts .

interpretation sig_view: table_view action_sig .

lemma case_owners_set [simp]:
  "case_owners (set_case_facts xs d) = case_owners d" "case_owners (set_action_attempts as d) = case_owners d"
  "case_owners (set_action_events es d) = case_owners d" "case_owners (set_core_outbox os d) = case_owners d"
  by (simp_all add: case_owners_def)

lemma bump_case_version_owner: "owner_view.keeps (bump_case_version cid v)"
  by (simp add: bump_case_version_def owner_view.keeps_def owner_view.same_view_def bindE_def
      update_rows_eq case_owners_def raise_if_def raiseE_def returnE_def)

lemma owner_view_ops:
  "owner_view.keeps (append_fact cid p v)" "owner_view.keeps (insert_action r v)"
  "owner_view.keeps (claim_action aid)" "owner_view.keeps (transition_action aid e st out)"
  "owner_view.keeps (get_action aid)" "owner_view.keeps (get_action_by_key key)"
  "owner_view.keeps (get_fact cid nm)" "owner_view.keeps (get_case cid)"
  unfolding append_fact_def insert_action_def insert_attempt_def insert_outbox_def append_event_def
    transition_action_def claim_action_def get_action_def get_action_by_key_def get_fact_def get_case_def Let_def
  by (auto intro!: owner_view.view_intros bump_case_version_owner split: option.split)

lemma attempt_view_ops:
  "attempt_view.keeps (append_fact cid p v)" "attempt_view.keeps (create_case c)"
  "attempt_view.keeps (get_case cid)"
  unfolding store_defs Let_def by (auto intro!: attempt_view.view_intros split: option.split)

lemma action_sig_set [simp]:
  "action_sig (set_action_events es d) = action_sig d"
  by (simp add: action_sig_def)

lemma sig_view_ops:
  "sig_view.keeps (claim_action aid)" "sig_view.keeps (transition_action aid e st out)"
  "sig_view.keeps (get_action aid)" "sig_view.keeps (get_case cid)"
proof -
  have rows: "sig_view.keeps (update_rows action_attempts set_action_attempts p
      (\<lambda>x. x\<lparr>ar_status := st, ar_updated_at := now\<rparr>))"
    "sig_view.keeps (update_rows action_attempts set_action_attempts p
      (\<lambda>x. x\<lparr>ar_status := st, ar_outcome := out, ar_updated_at := now\<rparr>))" for p st out now
    by (simp_all add: sig_view.keeps_def sig_view.same_view_def update_rows_eq action_sig_def)
  show "sig_view.keeps (claim_action aid)" "sig_view.keeps (transition_action aid e st out)"
    "sig_view.keeps (get_action aid)" "sig_view.keeps (get_case cid)"
    unfolding claim_action_def transition_action_def get_action_def append_event_def get_case_def
    by (auto intro!: sig_view.view_intros rows split: option.split)
qed

lemma world_views:
  "owner_view.keeps (on_provider m)" "owner_view.keeps (on_registry r)"
  "sig_view.keeps (on_provider m)" "sig_view.keeps (on_registry r)"
  by (auto simp: owner_view.keeps_def owner_view.same_view_def sig_view.keeps_def sig_view.same_view_def
      on_provider_def on_registry_def split: prod.split sum.split)

lemmas dispatch_defs = gateway_dispatch_def dispatch_prepare_def dispatch_policy_def
  gateway_require_active_def gateway_require_snapshot_def service_require_active_def
  service_require_snapshot_def policy_require_def repo_get_def call_connector_def record_outcome_def

lemma gateway_dispatch_views:
  "owner_view.keeps (gateway_dispatch g a)" "sig_view.keeps (gateway_dispatch g a)"
  unfolding dispatch_defs
  by (auto intro!: owner_view.view_intros sig_view.view_intros owner_view_ops sig_view_ops world_views
      split: option.split prod.split)

lemma authorize_action_owner: "owner_view.keeps (authorize_action cmd v)"
  unfolding authorize_action_def authorize_new_action_def check_parameter_fact_def Let_def
  by (auto intro!: owner_view.view_intros owner_view_ops split: option.split prod.split)

section \<open>Submissions\<close>

text \<open>What the code relies on for a resource provider: it reads another system.\<close>

definition reads_only :: "('p, 'z) resource_provider \<Rightarrow> bool" where
  "reads_only resources \<longleftrightarrow> (\<forall>rt rid s. db (snd (resources rt rid s)) = db s)"

definition resource_bound ::
  "(json \<Rightarrow> string) \<Rightarrow> ConsequentialActionRequest \<Rightarrow> ActionSpecification \<Rightarrow> authoritative_resource \<Rightarrow> bool" where
  "resource_bound render request sp r \<longleftrightarrow>
     (let upstream = normalize_resource_payload (payload_name (rq_payload request)) (res_payload r) in
      (\<forall>p \<in> set (authoritative_parameters sp). \<exists>v. dict_get upstream p = Some v \<and>
         py_eq v (get_or_null (payload_dump (rq_payload request)) p)) \<and>
      (\<forall>b. customer_binding_parameter sp = Some b \<longrightarrow>
         (\<exists>v. dict_get upstream b = Some v \<and> py_str render v = rq_customer_id request)))"

lemma check_resource_parameter_snd: "snd (check_resource_parameter u ps p s) = s"
  by (simp add: check_resource_parameter_def raise_if_def raiseE_def returnE_def split: option.split)

lemma check_resource_parameter_ok:
  "fst (check_resource_parameter u ps p s) = Inr () \<longleftrightarrow> (\<exists>v. dict_get u p = Some v \<and> py_eq v (get_or_null ps p))"
  by (auto simp: check_resource_parameter_def raise_if_def raiseE_def returnE_def split: option.split)

lemma bind_resource_ok:
  assumes "bind_resource resources render request sp s = (Inr b, t)" and "reads_only resources"
  shows "db t = db s \<and> (authoritative_parameters sp \<noteq> [] \<longrightarrow>
    (\<exists>rt rid r u. rq_resource request = Some (rt, rid) \<and> resources rt rid s = (Inr (Some r), u) \<and>
       resource_bound render request sp r))"
proof (cases "authoritative_parameters sp = []")
  case True
  then show ?thesis using assms(1) by (simp add: bind_resource_def returnE_def)
next
  case False
  then obtain rt rid r u where r: "rq_resource request = Some (rt, rid)"
      "resources rt rid s = (Inr (Some r), u)"
    using assms(1) by (auto simp: bind_resource_def bindE_Inr raiseE_def split: option.splits)
  let ?up = "normalize_resource_payload (payload_name (rq_payload request)) (res_payload r)"
  let ?ev = "''sandbox:'' @ rt @ '':'' @ rid @ '':v'' @ str_int (res_version r)"
  have "bindE (check_customer_binding render sp ?up (rq_customer_id request)) (\<lambda>_.
      bindE (foldE (\<lambda>p _. check_resource_parameter ?up (payload_dump (rq_payload request)) p)
               (authoritative_parameters sp) ()) (\<lambda>_. returnE (?up, Some ?ev))) u = (Inr b, t)"
    using assms(1) False r by (simp add: bind_resource_def bindE_def Let_def)
  then have c: "check_customer_binding render sp ?up (rq_customer_id request) u = (Inr (), u)" "t = u"
      and ps: "\<forall>p \<in> set (authoritative_parameters sp).
        fst (check_resource_parameter ?up (payload_dump (rq_payload request)) p u) = Inr ()"
    by (auto simp: bindE_Inr foldE_checks [OF check_resource_parameter_snd] returnE_def
        check_customer_binding_def raise_if_def raiseE_def split: option.splits if_splits)
  have "resource_bound render request sp r"
    unfolding resource_bound_def Let_def
    using c(1) ps by (auto simp: check_resource_parameter_ok check_customer_binding_def raise_if_def
        raiseE_def returnE_def split: option.splits if_splits)
  moreover have "db u = db s" using assms(2) r(2) by (metis reads_only_def snd_conv)
  ultimately show ?thesis using r c(2) by blast
qed

lemma open_case_ok:
  assumes "open_case request s = (Inr c, t)"
  shows "(rq_case_id request, rq_customer_id request) \<in> set (case_owners (db t)) \<and>
    action_attempts (db t) = action_attempts (db s)"
proof (cases "select_one (\<lambda>x. cr_case_id x = rq_case_id request) (workflow_cases (db s))")
  case None
  then have k: "kernel_create_case (rq_case_id request) (rq_customer_id request)
      (rq_procedure_id request) (rq_procedure_version request) s = (Inr c, t)"
    using assms by (simp add: open_case_def bindE_def get_case_def read_db_def)
  then show ?thesis
    by (auto simp: kernel_create_case_def Let_def create_case_def bindE_Inr tx_Inr insert_row_eq now_op_def
        returnE_def case_owners_def CaseRecord.defs case_row.defs split: if_splits)
next
  case (Some x)
  then have "cr_customer_id x = rq_customer_id request" "t = s"
    using assms by (auto simp: open_case_def bindE_def get_case_def read_db_def CaseRecord.defs raise_if_def
        raiseE_def returnE_def split: if_splits)
  then show ?thesis using select_one_Some [OF Some] by (force simp: case_owners_def)
qed

lemma commit_parameters_views:
  "owner_view.keeps (commit_parameters cid a u e ps c)" "attempt_view.keeps (commit_parameters cid a u e ps c)"
  unfolding commit_parameters_def commit_fact_def
  by (auto intro!: owner_view.view_intros attempt_view.view_intros owner_view_ops attempt_view_ops)

lemma gateway_require_active_quiet:
  "quiet.keeps (gateway_require_active g k :: (PolicyPackage, 'p, 'z) gop)"
  unfolding gateway_require_active_def service_require_active_def policy_require_def repo_get_def
  by (auto intro!: quiet.keeps_intros on_registry_quiet split: option.split)

lemma gateway_require_active_db: "gateway_require_active g k s = (r, t) \<Longrightarrow> db t = db s"
  using quiet.keepsD [OF gateway_require_active_quiet] by blast

text \<open>Whatever the policy setup, an authorisation ends in the kernel with the command it was given,
  up to the binding and the policy stamp.\<close>

lemma gateway_authorize_kernel:
  assumes "gateway_authorize g cmd v s = (Inr a, t)"
  shows "\<exists>u i bv cv sig. db u = db s \<and>
    authorize_action (cmd\<lparr>cmd_connector_binding_id := i, cmd_connector_binding_version := bv,
      cmd_contract_version := cv, cmd_policy_activation_signature := sig\<rparr>) v u = (Inr a, t)"
proof -
  obtain res where res: "resolve_connector g cmd False = Inr res"
    using assms by (auto simp: gateway_authorize_def bindE_Inr liftE_def)
  let ?c = "cmd\<lparr>cmd_connector_binding_id := Some (rc_binding_id res),
     cmd_connector_binding_version := Some (rc_binding_version res),
     cmd_contract_version := Some (rc_contract_version res)\<rparr>"
  show ?thesis
  proof (cases "gw_policy_registry g \<or> gw_policy_resolver g")
    case False
    have "?c\<lparr>cmd_policy_activation_signature := cmd_policy_activation_signature cmd\<rparr> = ?c" by simp
    moreover have "authorize_action ?c v s = (Inr a, t)"
      using assms res False by (simp add: gateway_authorize_def bindE_def liftE_def Let_def)
    ultimately show ?thesis
      by (intro exI [of _ s] exI [of _ "Some (rc_binding_id res)"] exI [of _ "Some (rc_binding_version res)"]
          exI [of _ "Some (rc_contract_version res)"] exI [of _ "cmd_policy_activation_signature cmd"] conjI) simp_all
  next
    case True
    obtain p u where p: "gateway_require_active g (cmd_policy_package_id cmd) s = (Inr p, u)"
      and rest: "authorize_action (?c\<lparr>cmd_policy_activation_signature := pp_activation_signature p\<rparr>) v u = (Inr a, t)"
      using assms res True
      by (auto simp: gateway_authorize_def bindE_Inr liftE_def Let_def get_case_def read_db_def raise_if_def
          raiseE_def returnE_def split: option.splits if_splits)
    have "db u = db s" using gateway_require_active_db [OF p] .
    then show ?thesis using rest
      by (intro exI [of _ u] exI [of _ "Some (rc_binding_id res)"] exI [of _ "Some (rc_binding_version res)"]
          exI [of _ "Some (rc_contract_version res)"] exI [of _ "pp_activation_signature p"] conjI) simp_all
  qed
qed

lemma gateway_authorize_owner: "owner_view.keeps (gateway_authorize g cmd v)"
  unfolding gateway_authorize_def gateway_require_active_def service_require_active_def policy_require_def
    repo_get_def Let_def
  by (auto intro!: owner_view.view_intros owner_view_ops world_views authorize_action_owner split: option.split)


text \<open>C15: A key names one effect. Submitting again under a key that is on record creates no second
  attempt; it returns only to the customer of the case, for the same case, action and policy
  package, and otherwise raises without changing the store.\<close>

theorem submit_key_names_one_effect:
  assumes "select_one (\<lambda>x. cmd_idempotency_key (ar_command x) = rq_idempotency_key request)
      (action_attempts (db s)) = Some d"
    and "submit g resources render request actor s = (r, t)"
  shows "action_sig (db t) = action_sig (db s) \<and>
    (if cmd_case_id (ar_command d) = rq_case_id request \<and>
        cmd_action (ar_command d) = payload_name (rq_payload request) \<and>
        cmd_policy_package_id (ar_command d) = rq_policy_package_id request \<and>
        parameters_match (rq_payload request) (cmd_parameters (ar_command d)) \<and>
        (\<exists>c. select_one (\<lambda>x. cr_case_id x = rq_case_id request) (workflow_cases (db s)) = Some c \<and>
           cr_customer_id c = rq_customer_id request)
     then gateway_dispatch g d s = (r, t)
     else (\<exists>msg. r = Inl (ValueError msg)) \<and> t = s)"
proof -
  have run: "submit_duplicate g request d s = (r, t)"
    using assms by (simp add: submit_def bindE_def get_action_by_key_def read_db_def)
  have "sig_view.keeps (submit_duplicate g request d)"
    unfolding submit_duplicate_def
    by (auto intro!: sig_view.view_intros sig_view_ops gateway_dispatch_views)
  then have "action_sig (db t) = action_sig (db s)" using sig_view.view_kept run by blast
  then show ?thesis using run
    by (auto simp: submit_duplicate_def bindE_def raise_if_def raiseE_def returnE_def get_case_def read_db_def
        CaseRecord.defs split: if_splits option.splits)
qed

section \<open>A concrete refund\<close>

definition demo_order :: OrderSnapshot where
  "demo_order = \<lparr>os_order_id = ''O1'', os_customer_id = ''U1'', os_status = ''delivered'',
     os_days_since_delivery = 3, os_amount = 50, os_payment_method = ''card'', os_evidence_ref = ''E''\<rparr>"

definition demo_refund_gateway :: "nat ActionGateway" where
  "demo_refund_gateway = demo_gateway\<lparr>gw_connectors := Connectors [(''issue_refund'', demo_connector)]\<rparr>"

definition demo_refund_request :: ConsequentialActionRequest where
  "demo_refund_request = \<lparr>rq_case_id = ''C1'', rq_customer_id = ''U1'', rq_procedure_id = ''cs_refund'',
     rq_procedure_version = ''1'', rq_policy_package_id = ''PP'', rq_idempotency_key = ''refund:O1'',
     rq_resource = Some (''order'', ''O1''),
     rq_payload = IssueRefundPayload ''O1'' ''U1'' 50 ''USD'' ''card'' ''broken'',
     rq_consent_evidence_ref = Some ''chat:1'', rq_approval_evidence_ref = None,
     rq_connector_binding_id = None, rq_connector_binding_version = None, rq_contract_version = None\<rparr>"

definition demo_submit :: "nat gworld \<Rightarrow> (exn + ActionRecord) \<times> nat gworld" where
  "demo_submit = submit demo_refund_gateway (single_order_resource demo_order) (\<lambda>_. []) demo_refund_request ''agent''"

lemma demo_order_reads: "reads_only (single_order_resource demo_order)"
  by (simp add: reads_only_def single_order_resource_def returnE_def)

lemma demo_submit_ok:
  "map_sum (\<lambda>e. e) ar_status (fst (demo_submit demo_gworld)) = Inr SUCCEEDED"
  "action_attempts (db demo_gworld) = []"
  "map_option ar_action_id (select_one (\<lambda>x. cmd_idempotency_key (ar_command x) = ''refund:O1'')
      (action_attempts (db (snd (demo_submit demo_gworld))))) = Some ''ACT-''"
  by code_simp+


theorem submit_key_names_one_effect_witness:
  "action_sig (db (snd (demo_submit (snd (demo_submit demo_gworld))))) = action_sig (db (snd (demo_submit demo_gworld)))"
proof -
  let ?s = "snd (demo_submit demo_gworld)"
  obtain d where "select_one (\<lambda>x. cmd_idempotency_key (ar_command x) = rq_idempotency_key demo_refund_request)
      (action_attempts (db ?s)) = Some d"
    using demo_submit_ok(3) by (auto simp: demo_refund_request_def)
  from submit_key_names_one_effect [OF this surjective_pairing] show ?thesis by (simp add: demo_submit_def)
qed

end
