(* ===== verification/Bridge.thy ===== *)
theory Bridge
  imports Action_Service_Laws
begin

text \<open>
  The trusted bridge between conversation flows and the action core (\<open>actions/bridge.py\<close>): a
  model's intent becomes a stored proposal, which a person confirms or cancels before anything is
  submitted. \<open>confirm\<close> is written as the three parts between which other tasks may run: the checks,
  the submission, and the transition of the proposal.
\<close>

section \<open>Validation of payloads\<close>

text \<open>
  What Python does with text and is left to the interpreter: \<open>str\<close> of floats, lists and dicts,
  the numbers a string denotes, and the digest in an idempotency key.
\<close>

record py_text =
  pt_render :: "json \<Rightarrow> string"
  pt_float :: "string \<Rightarrow> rat option"
  pt_int :: "string \<Rightarrow> int option"
  pt_digest :: "string \<times> string \<times> string \<times> pdict \<Rightarrow> string"

text \<open>A \<open>float\<close>, a \<open>str\<close> and a \<open>str\<close> with a default, as pydantic validates them.\<close>

definition field_float :: "py_text \<Rightarrow> pdict \<Rightarrow> string \<Rightarrow> exn + rat" where
  "field_float py d k = (case dict_get d k of
      Some (JFloat r) \<Rightarrow> Inr r
    | Some (JInt i) \<Rightarrow> Inr (of_int i)
    | Some (JBool b) \<Rightarrow> Inr (if b then 1 else 0)
    | Some (JStr s) \<Rightarrow> (case pt_float py s of None \<Rightarrow> Inl (ValidationError k) | Some r \<Rightarrow> Inr r)
    | _ \<Rightarrow> Inl (ValidationError k))"

definition field_str :: "pdict \<Rightarrow> string \<Rightarrow> exn + string" where
  "field_str d k = (case dict_get d k of Some (JStr s) \<Rightarrow> Inr s | _ \<Rightarrow> Inl (ValidationError k))"

definition field_str_default :: "pdict \<Rightarrow> string \<Rightarrow> string \<Rightarrow> exn + string" where
  "field_str_default d k v = (if dict_get d k = None then Inr v else field_str d k)"

definition payload_fields :: "py_text \<Rightarrow> string \<Rightarrow> pdict \<Rightarrow> exn + ActionPayload" where
  "payload_fields py action d =
     (if action = ''issue_refund'' then
        andThen (field_str d ''order_id'') (\<lambda>oid. andThen (field_str d ''customer_id'') (\<lambda>c.
        andThen (field_float py d ''refund_amount'') (\<lambda>a. andThen (field_str_default d ''currency'' ''USD'') (\<lambda>u.
        andThen (field_str d ''payment_method'') (\<lambda>m. andThen (field_str d ''reason'') (\<lambda>r.
        Inr (IssueRefundPayload oid c a u m r)))))))
      else if action = ''issue_store_credit'' then
        andThen (field_str d ''order_id'') (\<lambda>oid. andThen (field_str d ''customer_id'') (\<lambda>c.
        andThen (field_float py d ''amount'') (\<lambda>a. andThen (field_str_default d ''currency'' ''USD'') (\<lambda>u.
        andThen (field_str d ''reason'') (\<lambda>r. Inr (StoreCreditPayload oid c a u r))))))
      else if action = ''update_case_status'' then
        andThen (field_str d ''target_status'') (\<lambda>t. andThen (field_str d ''reason'') (\<lambda>r.
        Inr (CaseStatusPayload t r)))
      else if action = ''file_eft_dispute'' then
        andThen (field_str d ''customer_id'') (\<lambda>c. andThen (field_str d ''transaction_id'') (\<lambda>t.
        andThen (field_float py d ''amount'') (\<lambda>a. andThen (field_str d ''dispute_type'') (\<lambda>k.
        Inr (EftDisputePayload c t a k)))))
      else if action = ''issue_provisional_credit'' then
        andThen (field_str d ''customer_id'') (\<lambda>c. andThen (field_str d ''dispute_id'') (\<lambda>i.
        andThen (field_float py d ''amount'') (\<lambda>a. Inr (ProvisionalCreditPayload c i a))))
      else if action = ''escalate_to_supervisor'' then
        andThen (field_str d ''reason'') (\<lambda>r. andThen (field_str_default d ''priority'' ''normal'') (\<lambda>p.
        Inr (EscalationPayload r p)))
      else if action = ''add_case_note'' then
        andThen (field_str d ''note'') (\<lambda>n. Inr (CaseNotePayload n))
      else if action = ''flag_account'' then
        andThen (field_str d ''account_id'') (\<lambda>a. andThen (field_str d ''reason'') (\<lambda>r.
        andThen (field_str d ''restriction'') (\<lambda>k. Inr (AccountRestrictionPayload a r k))))
      else if action = ''submit_sar'' then
        andThen (field_str d ''account_id'') (\<lambda>a. andThen (field_str d ''alert_id'') (\<lambda>l.
        andThen (field_str d ''narrative_ref'') (\<lambda>n. Inr (SarPayload a l n))))
      else if action = ''close_alert'' then
        andThen (field_str d ''alert_id'') (\<lambda>l. andThen (field_str d ''resolution'') (\<lambda>r.
        Inr (CloseAlertPayload l r)))
      else Inl (ValidationError ''action''))"

text \<open>\<open>_ACTION_PAYLOAD_ADAPTER.validate_python\<close>: the discriminated union and its constraints.\<close>

definition validate_payload :: "py_text \<Rightarrow> pdict \<Rightarrow> exn + ActionPayload" where
  "validate_payload py d =
     andThen (field_str d ''action'') (\<lambda>action.
     andThen (payload_fields py action d) (\<lambda>p.
     if payload_valid p then Inr p else Inl (ValidationError action)))"

definition full_dump :: "ActionPayload \<Rightarrow> pdict" where
  "full_dump p = (''action'', JStr (payload_name p)) # payload_dump p"

section \<open>Contexts\<close>

record ActionIntent =
  in_action :: string
  in_arguments :: pdict
  in_resource_type :: "string option"
  in_resource_id :: "string option"

record TrustedActionContext =
  ctx_actor_id :: string
  ctx_customer_id :: string
  ctx_case_id :: string
  ctx_procedure_id :: string
  ctx_procedure_version :: string
  ctx_policy_package_id :: string
  ctx_conversation_id :: "string option"
  ctx_message_id :: "string option"
  ctx_connector_binding_id :: "string option"
  ctx_connector_binding_version :: "string option"
  ctx_contract_version :: "string option"

record ActionConfirmationContext =
  cf_actor_id :: string
  cf_customer_id :: string
  cf_consent_evidence_ref :: "string option"
  cf_approval_evidence_ref :: "string option"

record 'p ActionBridge =
  ab_gateway :: "'p ActionGateway"
  ab_resolver :: "(string \<Rightarrow> exn + 'p ResolvedActionConnector) option"
  ab_refund_window_days :: int
  ab_ttl_seconds :: int
  ab_text :: py_text

section \<open>Preparation\<close>

definition load_resource ::
  "('p, 'z) resource_provider \<Rightarrow> string option \<Rightarrow> string option \<Rightarrow> (authoritative_resource option, 'p, 'z) gop" where
  "load_resource resources resource_type resource_id =
     (if \<not> truthy_str resource_type \<and> \<not> truthy_str resource_id then returnE None
      else if \<not> truthy_str resource_type \<or> \<not> truthy_str resource_id
      then raiseE (ValueError ''Both resource_type and resource_id are required'')
      else bindE (resources (the resource_type) (the resource_id)) (\<lambda>resource.
           if resource = None then raiseE (ValueError ''Authoritative resource was not found'')
           else returnE resource))"

text \<open>\<open>float(v)\<close> and \<open>int(v)\<close>\<close>

definition py_float :: "py_text \<Rightarrow> json \<Rightarrow> exn + rat" where
  "py_float py v = (case v of
      JFloat r \<Rightarrow> Inr r
    | JInt i \<Rightarrow> Inr (of_int i)
    | JBool b \<Rightarrow> Inr (if b then 1 else 0)
    | JStr s \<Rightarrow> (case pt_float py s of None \<Rightarrow> Inl (ValueError ''could not convert string to float'') | Some r \<Rightarrow> Inr r)
    | _ \<Rightarrow> Inl (TypeError ''float() argument''))"

definition py_int :: "py_text \<Rightarrow> json \<Rightarrow> exn + int" where
  "py_int py v = (case v of
      JInt i \<Rightarrow> Inr i
    | JFloat r \<Rightarrow> Inr (if r < 0 then \<lceil>r\<rceil> else \<lfloor>r\<rfloor>)
    | JBool b \<Rightarrow> Inr (if b then 1 else 0)
    | JStr s \<Rightarrow> (case pt_int py s of None \<Rightarrow> Inl (ValueError ''invalid literal for int()'') | Some i \<Rightarrow> Inr i)
    | _ \<Rightarrow> Inl (TypeError ''int() argument''))"

definition dict_require :: "pdict \<Rightarrow> string \<Rightarrow> exn + json" where
  "dict_require d k = (case dict_get d k of None \<Rightarrow> Inl (KeyError k) | Some v \<Rightarrow> Inr v)"

definition get_default :: "pdict \<Rightarrow> string \<Rightarrow> json \<Rightarrow> json" where
  "get_default d k v = (case dict_get d k of None \<Rightarrow> v | Some x \<Rightarrow> x)"

text \<open>The refund payload and its preview, from the reloaded order.\<close>

definition refund_payload ::
  "'p ActionBridge \<Rightarrow> ActionIntent \<Rightarrow> TrustedActionContext \<Rightarrow> pdict \<Rightarrow> exn + (pdict \<times> pdict)" where
  "refund_payload b intent context payload =
     (let py = ab_text b; str = py_str (pt_render py) in
      andThen (dict_require payload ''order_id'') (\<lambda>oid.
      andThen (dict_require payload ''customer_id'') (\<lambda>cid.
      andThen (py_int py (get_default payload ''days_since_delivery'' (JInt 0))) (\<lambda>days.
      andThen (py_float py (get_default payload ''refund_amount'' (get_default payload ''amount'' (JInt 0)))) (\<lambda>amount.
      let decision = refund_evaluate (ab_refund_window_days b) (str oid) (ctx_customer_id context) (str cid)
            (str (get_default payload ''status'' (JStr ''delivered''))) days amount in
      if \<not> rf_eligible decision then Inl (ValueError (''Refund is not eligible: '' @ rf_reason decision))
      else andThen (dict_require payload ''payment_method'') (\<lambda>pm.
      let currency = str (get_default payload ''currency'' (JStr ''USD''));
          reason = (if truthy_get (in_arguments intent) ''reason''
                    then str (get_or_null (in_arguments intent) ''reason'') else ''customer_request'') in
      Inr ([(''action'', JStr ''issue_refund''), (''order_id'', JStr (str oid)),
            (''customer_id'', JStr (ctx_customer_id context)), (''refund_amount'', JFloat (rf_amount decision)),
            (''currency'', JStr currency), (''payment_method'', JStr (str pm)), (''reason'', JStr reason)],
           [(''action'', JStr ''issue_refund''), (''order_id'', JStr (str oid)),
            (''refund_amount'', JFloat (rf_amount decision)), (''currency'', JStr currency),
            (''payment_method'', JStr (str pm)), (''reason'', JStr reason)])))))))"

record prepared =
  pd_payload :: pdict
  pd_resource :: "authoritative_resource option"
  pd_preview :: pdict
  pd_resource_type :: "string option"
  pd_resource_id :: "string option"

definition prepare_refund ::
  "'p ActionBridge \<Rightarrow> ('p, 'z) resource_provider \<Rightarrow> ActionIntent \<Rightarrow> TrustedActionContext \<Rightarrow> (prepared, 'p, 'z) gop" where
  "prepare_refund b resources intent context =
     (let resource_type = (if truthy_str (in_resource_type intent) then the (in_resource_type intent) else ''order'');
          order_id = (if truthy_str (in_resource_id intent) then JStr (the (in_resource_id intent))
                      else get_or_null (in_arguments intent) ''order_id'');
          oid = py_str (pt_render (ab_text b)) order_id in
      bindE (raise_if (\<not> truthy order_id) (ValueError ''issue_refund requires an order_id'')) (\<lambda>_.
      bindE (load_resource resources (Some resource_type) (Some oid)) (\<lambda>resource.
      case resource of
        None \<Rightarrow> raiseE AssertionError
      | Some r \<Rightarrow>
          bindE (liftE (refund_payload b intent context (res_payload r))) (\<lambda>pp.
          returnE \<lparr>pd_payload = fst pp, pd_resource = Some r, pd_preview = snd pp,
            pd_resource_type = Some resource_type, pd_resource_id = Some oid\<rparr>))))"

definition copy_parameter :: "pdict \<Rightarrow> string \<Rightarrow> pdict \<Rightarrow> (pdict, 's) op" where
  "copy_parameter upstream parameter payload =
     (case dict_get upstream parameter of
        None \<Rightarrow> raiseE (ValueError (''Authoritative resource is missing '' @ parameter))
      | Some v \<Rightarrow> returnE (dict_set payload parameter v))"

definition overlay_authoritative ::
  "'p ActionBridge \<Rightarrow> TrustedActionContext \<Rightarrow> ActionSpecification \<Rightarrow> authoritative_resource option \<Rightarrow>
   pdict \<Rightarrow> (pdict, 's) op" where
  "overlay_authoritative b context sp resource payload =
     (if authoritative_parameters sp = [] then returnE payload
      else
      case resource of
        None \<Rightarrow> raiseE (ValueError ''This action requires an authoritative resource reference'')
      | Some r \<Rightarrow>
          bindE (check_customer_binding (pt_render (ab_text b)) sp (res_payload r) (ctx_customer_id context)) (\<lambda>_.
          foldE (copy_parameter (res_payload r)) (sort (authoritative_parameters sp)) payload))"

definition prepare_generic ::
  "'p ActionBridge \<Rightarrow> ('p, 'z) resource_provider \<Rightarrow> ActionIntent \<Rightarrow> TrustedActionContext \<Rightarrow> (prepared, 'p, 'z) gop" where
  "prepare_generic b resources intent context =
     (case dict_get ACTION_SPECIFICATIONS (in_action intent) of
        None \<Rightarrow> raiseE (KeyError (in_action intent))
      | Some sp \<Rightarrow>
          bindE (load_resource resources (in_resource_type intent) (in_resource_id intent)) (\<lambda>resource.
          bindE (overlay_authoritative b context sp resource
                   (dict_merge [(''action'', JStr (in_action intent))] (in_arguments intent))) (\<lambda>payload.
          bindE (liftE (validate_payload (ab_text b) payload)) (\<lambda>p.
          let validated = full_dump p in
          returnE \<lparr>pd_payload = validated, pd_resource = resource,
            pd_preview = [(''action'', JStr (in_action intent)), (''parameters'', JObj validated)],
            pd_resource_type = in_resource_type intent, pd_resource_id = in_resource_id intent\<rparr>))))"

definition bridge_key :: "py_text \<Rightarrow> string \<Rightarrow> pdict \<Rightarrow> TrustedActionContext \<Rightarrow> exn + string" where
  "bridge_key py action payload context =
     (if action = ''issue_refund''
      then andThen (dict_require payload ''order_id'') (\<lambda>oid. Inr (''refund:'' @ py_str (pt_render py) oid))
      else Inr (action @ '':'' @ pt_digest py (action, ctx_case_id context, ctx_customer_id context, payload)))"

section \<open>Proposing\<close>

definition resolve_context :: "'p ActionBridge \<Rightarrow> string \<Rightarrow> TrustedActionContext \<Rightarrow> exn + TrustedActionContext" where
  "resolve_context b action context =
     (case ab_resolver b of
        None \<Rightarrow> Inr context
      | Some resolve \<Rightarrow> andThen (resolve action) (\<lambda>r.
          Inr (context\<lparr>ctx_connector_binding_id := Some (rc_binding_id r),
             ctx_connector_binding_version := Some (rc_binding_version r),
             ctx_contract_version := Some (rc_contract_version r)\<rparr>)))"

definition propose ::
  "'p ActionBridge \<Rightarrow> ('p, 'z) resource_provider \<Rightarrow> ActionIntent \<Rightarrow> TrustedActionContext \<Rightarrow>
   (ActionProposal, 'p, 'z) gop" where
  "propose b resources intent context0 =
     bindE (raise_if (in_action intent \<notin> set (dict_keys ACTION_SPECIFICATIONS))
       (ValueError (''Unknown consequential action: '' @ in_action intent))) (\<lambda>_.
     bindE (liftE (resolve_context b (in_action intent) context0)) (\<lambda>context.
     bindE (if in_action intent = ''issue_refund'' then prepare_refund b resources intent context
            else prepare_generic b resources intent context) (\<lambda>p.
     bindE now_op (\<lambda>now.
     bindE uuid_op (\<lambda>u.
     bindE (liftE (bridge_key (ab_text b) (in_action intent) (pd_payload p) context)) (\<lambda>key.
     create_action_proposal
       \<lparr>pr_proposal_id = ''APR-'' @ u, pr_action = in_action intent, pr_payload = pd_payload p,
        pr_case_id = ctx_case_id context, pr_customer_id = ctx_customer_id context,
        pr_actor_id = ctx_actor_id context, pr_procedure_id = ctx_procedure_id context,
        pr_procedure_version = ctx_procedure_version context,
        pr_policy_package_id = ctx_policy_package_id context, pr_idempotency_key = key,
        pr_resource_type = pd_resource_type p, pr_resource_id = pd_resource_id p,
        pr_resource_version = map_option res_version (pd_resource p),
        pr_conversation_id = ctx_conversation_id context, pr_message_id = ctx_message_id context,
        pr_connector_binding_id = ctx_connector_binding_id context,
        pr_connector_binding_version = ctx_connector_binding_version context,
        pr_contract_version = ctx_contract_version context, pr_preview = pd_preview p,
        pr_status = P_PENDING, pr_confirmation_evidence_ref = None, pr_action_id = None,
        pr_created_at = now, pr_expires_at = now + seconds (ab_ttl_seconds b), pr_updated_at = now,
        pr_confirmed_at = None, pr_cancelled_at = None\<rparr>))))))"

section \<open>Confirming and cancelling\<close>

definition get_owned :: "string \<Rightarrow> string \<Rightarrow> string option \<Rightarrow> (ActionProposal, 'z) kop" where
  "get_owned proposal_id customer_id actor_id =
     bindE (get_action_proposal proposal_id) (\<lambda>proposal.
     case proposal of
       None \<Rightarrow> raiseE (KeyError proposal_id)
     | Some p \<Rightarrow>
         bindE (raise_if (pr_customer_id p \<noteq> customer_id)
           (ValueError ''Action proposal does not belong to this customer'')) (\<lambda>_.
         bindE (raise_if (case actor_id of None \<Rightarrow> False | Some a \<Rightarrow> pr_actor_id p \<noteq> a)
           (ValueError ''Action proposal does not belong to this actor'')) (\<lambda>_.
         returnE p)))"

text \<open>\<open>try: transition ... except ActionConflict\<close> with a re-read of the proposal.\<close>

definition transition_or_current ::
  "string \<Rightarrow> ActionProposalStatus \<Rightarrow> string option \<Rightarrow> (ActionProposal, 'z) kop" where
  "transition_or_current proposal_id status action_id =
     catchE (transition_action_proposal proposal_id P_PENDING status None action_id)
       (\<lambda>e. case e of
          ActionConflict _ \<Rightarrow>
            bindE (get_action_proposal proposal_id) (\<lambda>current.
            case current of None \<Rightarrow> raiseE AssertionError | Some p \<Rightarrow> returnE p)
        | _ \<Rightarrow> raiseE e)"

definition expire :: "ActionProposal \<Rightarrow> (ActionProposal, 'z) kop" where
  "expire proposal = transition_or_current (pr_proposal_id proposal) P_EXPIRED None"

definition recover_confirmed :: "ActionProposal \<Rightarrow> ActionRecord \<Rightarrow> (ActionProposal, 'z) kop" where
  "recover_confirmed proposal action =
     transition_or_current (pr_proposal_id proposal) P_CONFIRMED (Some (ar_action_id action))"

definition verify_resource_version ::
  "('p, 'z) resource_provider \<Rightarrow> ActionProposal \<Rightarrow> (unit, 'p, 'z) gop" where
  "verify_resource_version resources proposal =
     (if pr_resource_type proposal = None \<or> pr_resource_id proposal = None then returnE ()
      else bindE (load_resource resources (pr_resource_type proposal) (pr_resource_id proposal)) (\<lambda>resource.
           case resource of
             None \<Rightarrow> raiseE AssertionError
           | Some r \<Rightarrow> raise_if (Some (res_version r) \<noteq> pr_resource_version proposal)
               (ValueError ''Authoritative resource version changed after proposal'')))"

definition verify_connector_binding :: "'p ActionBridge \<Rightarrow> ActionProposal \<Rightarrow> exn + unit" where
  "verify_connector_binding b proposal =
     (case ab_resolver b of
        None \<Rightarrow> Inr ()
      | Some resolve \<Rightarrow> andThen (resolve (pr_action proposal)) (\<lambda>r.
          if (Some (rc_binding_id r), Some (rc_binding_version r), Some (rc_contract_version r)) \<noteq>
             (pr_connector_binding_id proposal, pr_connector_binding_version proposal, pr_contract_version proposal)
          then Inl (ValueError ''Action connector binding changed after proposal'') else Inr ()))"

definition confirmed_request ::
  "py_text \<Rightarrow> ActionProposal \<Rightarrow> ActionSpecification \<Rightarrow> ActionConfirmationContext \<Rightarrow> exn + ConsequentialActionRequest" where
  "confirmed_request py proposal sp context =
     andThen (validate_payload py (pr_payload proposal)) (\<lambda>payload.
     new_request
       \<lparr>rq_case_id = pr_case_id proposal, rq_customer_id = pr_customer_id proposal,
        rq_procedure_id = pr_procedure_id proposal, rq_procedure_version = pr_procedure_version proposal,
        rq_policy_package_id = pr_policy_package_id proposal,
        rq_idempotency_key = pr_idempotency_key proposal,
        rq_resource = (if truthy_str (pr_resource_type proposal) \<and> truthy_str (pr_resource_id proposal)
                       then Some (the (pr_resource_type proposal), the (pr_resource_id proposal)) else None),
        rq_payload = payload,
        rq_consent_evidence_ref = (if requires_consent sp then cf_consent_evidence_ref context else None),
        rq_approval_evidence_ref = (if requires_approval sp then cf_approval_evidence_ref context else None),
        rq_connector_binding_id = pr_connector_binding_id proposal,
        rq_connector_binding_version = pr_connector_binding_version proposal,
        rq_contract_version = pr_contract_version proposal\<rparr>)"

text \<open>The evidence the action demands, and the request it then becomes.\<close>

definition evidenced_request ::
  "py_text \<Rightarrow> ActionProposal \<Rightarrow> ActionConfirmationContext \<Rightarrow> exn + ConsequentialActionRequest" where
  "evidenced_request py proposal context =
     (case dict_get ACTION_SPECIFICATIONS (pr_action proposal) of
        None \<Rightarrow> Inl (KeyError (pr_action proposal))
      | Some sp \<Rightarrow>
          if requires_consent sp \<and> \<not> truthy_str (cf_consent_evidence_ref context)
          then Inl (ValueError (''Action '' @ pr_action proposal @ '' requires explicit consent evidence''))
          else if requires_approval sp \<and> \<not> truthy_str (cf_approval_evidence_ref context)
          then Inl (ValueError (''Action '' @ pr_action proposal @ '' requires approval evidence''))
          else confirmed_request py proposal sp context)"

text \<open>The first part: either the answer is known, or the request to submit.\<close>

definition confirm_check ::
  "'p ActionBridge \<Rightarrow> ('p, 'z) resource_provider \<Rightarrow> string \<Rightarrow> ActionConfirmationContext \<Rightarrow>
   (ActionProposal + ConsequentialActionRequest, 'p, 'z) gop" where
  "confirm_check b resources proposal_id context =
     bindE (get_owned proposal_id (cf_customer_id context) (Some (cf_actor_id context))) (\<lambda>proposal.
     if pr_status proposal = P_CONFIRMED then returnE (Inl proposal)
     else if pr_status proposal \<noteq> P_PENDING
     then raiseE (ValueError (''Action proposal is '' @ proposal_status_value (pr_status proposal)))
     else
     bindE now_op (\<lambda>now.
     if pr_expires_at proposal \<le> now then bindE (expire proposal) (\<lambda>p. returnE (Inl p))
     else
     bindE (verify_resource_version resources proposal) (\<lambda>_.
     bindE (liftE (verify_connector_binding b proposal)) (\<lambda>_.
     bindE (liftE (evidenced_request (ab_text b) proposal context)) (\<lambda>request.
     returnE (Inr request))))))"

text \<open>The last part: the proposal is confirmed with the submitted action, or another task did it.\<close>

definition confirm_settle ::
  "string \<Rightarrow> ActionConfirmationContext \<Rightarrow> ActionRecord \<Rightarrow> (ActionProposal, 'z) kop" where
  "confirm_settle proposal_id context action =
     catchE (transition_action_proposal proposal_id P_PENDING P_CONFIRMED
         (if truthy_str (cf_consent_evidence_ref context) then cf_consent_evidence_ref context
          else cf_approval_evidence_ref context)
         (Some (ar_action_id action)))
       (\<lambda>e. case e of
          ActionConflict _ \<Rightarrow>
            bindE (get_owned proposal_id (cf_customer_id context) None) (\<lambda>current.
            if pr_status current = P_CONFIRMED then returnE current else raiseE e)
        | _ \<Rightarrow> raiseE e)"

definition confirm_submit ::
  "'p ActionBridge \<Rightarrow> ('p, 'z) resource_provider \<Rightarrow> ActionConfirmationContext \<Rightarrow>
   ConsequentialActionRequest \<Rightarrow> (ActionRecord, 'p, 'z) gop" where
  "confirm_submit b resources context request =
     submit (ab_gateway b) resources (pt_render (ab_text b)) request (cf_actor_id context)"

definition confirm ::
  "'p ActionBridge \<Rightarrow> ('p, 'z) resource_provider \<Rightarrow> string \<Rightarrow> ActionConfirmationContext \<Rightarrow>
   (ActionProposal, 'p, 'z) gop" where
  "confirm b resources proposal_id context =
     bindE (confirm_check b resources proposal_id context) (\<lambda>r.
     case r of
       Inl proposal \<Rightarrow> returnE proposal
     | Inr request \<Rightarrow>
         bindE (confirm_submit b resources context request) (\<lambda>action.
         confirm_settle proposal_id context action))"

definition cancel :: "string \<Rightarrow> ActionConfirmationContext \<Rightarrow> (ActionProposal, 'z) kop" where
  "cancel proposal_id context =
     bindE (get_owned proposal_id (cf_customer_id context) (Some (cf_actor_id context))) (\<lambda>proposal.
     if pr_status proposal = P_CANCELLED then returnE proposal
     else if pr_status proposal \<noteq> P_PENDING
     then raiseE (ValueError (''Action proposal is '' @ proposal_status_value (pr_status proposal)))
     else
     bindE (get_action_by_key (pr_idempotency_key proposal)) (\<lambda>existing_action.
     case existing_action of
       Some a \<Rightarrow> recover_confirmed proposal a
     | None \<Rightarrow> transition_action_proposal proposal_id P_PENDING P_CANCELLED None None))"

definition bridge_status :: "string \<Rightarrow> string \<Rightarrow> string option \<Rightarrow> (ActionProposal, 'z) kop" where
  "bridge_status proposal_id customer_id actor_id =
     bindE (get_owned proposal_id customer_id actor_id) (\<lambda>proposal.
     if pr_status proposal = P_PENDING
     then bindE now_op (\<lambda>now. if pr_expires_at proposal \<le> now then expire proposal else returnE proposal)
     else returnE proposal)"

end
