(* ===== verification/Bridge_Laws.thy ===== *)
theory Bridge_Laws
  imports Bridge
begin

text \<open>
  What the bridge guarantees: validated payloads survive storage, nothing is submitted for a
  proposal that is not the caller's own, pending, unexpired and evidenced, and a settled proposal
  never changes.
\<close>

section \<open>Payloads survive storage\<close>

text \<open>What the bridge stores in a proposal is read back as the payload it validated: validating
  the dump of a valid payload returns that payload, for every kind of action.\<close>

theorem payload_roundtrip:
  assumes "payload_valid p"
  shows "validate_payload py (full_dump p) = Inr p"
  using assms
  by (cases p) (simp_all add: validate_payload_def full_dump_def payload_fields_def field_str_def field_float_def
      field_str_default_def andThen_def dict_get_def)

theorem payload_roundtrip_witness:
  "validate_payload \<lparr>pt_render = (\<lambda>_. []), pt_float = (\<lambda>_. None), pt_int = (\<lambda>_. None), pt_digest = (\<lambda>_. [])\<rparr>
     (full_dump (CaseNotePayload ''called'')) = Inr (CaseNotePayload ''called'')"
  using payload_roundtrip [of "CaseNotePayload ''called''"] by simp

section \<open>Nothing is submitted without a live confirmation\<close>

definition proposal_row :: "core_db \<Rightarrow> string \<Rightarrow> ActionProposal option" where
  "proposal_row d pid = select_one (\<lambda>x. pr_proposal_id x = pid) (action_proposals d)"

definition quiet_reads :: "('p, 'z) resource_provider \<Rightarrow> bool" where
  "quiet_reads resources \<longleftrightarrow> (\<forall>rt rid s. db (snd (resources rt rid s)) = db s \<and>
     provider (snd (resources rt rid s)) = provider s)"

interpretation no_effect: op_rel
  "\<lambda>s t. action_attempts (db t) = action_attempts (db s) \<and> provider t = provider s"
  by unfold_locales auto

lemma no_effect_parts:
  "no_effect.keeps (get_action_proposal pid :: (ActionProposal option, 'p, 'z) gop)"
  "no_effect.keeps (now_op :: (time, 'p, 'z) gop)"
  "no_effect.keeps (transition_action_proposal pid e st ev aid :: (ActionProposal, 'p, 'z) gop)"
  by (auto simp: no_effect.keeps_def get_action_proposal_def transition_action_proposal_def op_defs
      split: option.splits)

lemmas no_effect_intros = no_effect.keeps_intros no_effect_parts

lemma load_resource_no_effect:
  fixes resources :: "('p, 'z) resource_provider"
  assumes "quiet_reads resources"
  shows "no_effect.keeps (load_resource resources rt rid)"
proof -
  have "no_effect.keeps (resources a b)" for a b
    using assms by (simp add: quiet_reads_def no_effect.keeps_def)
  then show ?thesis unfolding load_resource_def by (auto intro!: no_effect_intros)
qed

lemma confirm_check_no_effect:
  fixes resources :: "('p, 'z) resource_provider"
  assumes "quiet_reads resources"
  shows "no_effect.keeps (confirm_check b resources pid ctx)"
  unfolding confirm_check_def get_owned_def expire_def transition_or_current_def verify_resource_version_def
  by (auto intro!: no_effect_intros load_resource_no_effect [OF assms] split: option.split exn.split)

text \<open>The conditions under which a confirmation may submit.\<close>

definition may_submit :: "ActionProposal \<Rightarrow> ActionConfirmationContext \<Rightarrow> time \<Rightarrow> bool" where
  "may_submit p ctx now \<longleftrightarrow> pr_customer_id p = cf_customer_id ctx \<and> pr_actor_id p = cf_actor_id ctx \<and>
     pr_status p = P_PENDING \<and> now < pr_expires_at p \<and>
     (\<exists>sp. dict_get ACTION_SPECIFICATIONS (pr_action p) = Some sp \<and>
        (requires_consent sp \<longrightarrow> truthy_str (cf_consent_evidence_ref ctx)) \<and>
        (requires_approval sp \<longrightarrow> truthy_str (cf_approval_evidence_ref ctx)))"

lemma get_owned_eq:
  "get_owned pid cu ac s = (case proposal_row (db s) pid of
     None \<Rightarrow> (Inl (KeyError pid), s)
   | Some p \<Rightarrow> if pr_customer_id p \<noteq> cu then (Inl (ValueError ''Action proposal does not belong to this customer''), s)
       else if (case ac of None \<Rightarrow> False | Some a \<Rightarrow> pr_actor_id p \<noteq> a)
       then (Inl (ValueError ''Action proposal does not belong to this actor''), s) else (Inr p, s))"
  by (simp add: get_owned_def bindE_def get_action_proposal_eq proposal_row_def raise_if_def raiseE_def
      returnE_def split: option.split)

lemma confirm_check_submits:
  assumes "confirm_check b resources pid ctx s = (Inr (Inr req), t)"
  shows "\<exists>p. proposal_row (db s) pid = Some p \<and> may_submit p ctx (clock_src s (clock_idx s)) \<and>
    rq_idempotency_key req = pr_idempotency_key p \<and> rq_customer_id req = pr_customer_id p \<and>
    rq_case_id req = pr_case_id p \<and> rq_policy_package_id req = pr_policy_package_id p \<and>
    validate_payload (ab_text b) (pr_payload p) = Inr (rq_payload req)"
proof -
  obtain p where p: "proposal_row (db s) pid = Some p" "pr_customer_id p = cf_customer_id ctx"
      "pr_actor_id p = cf_actor_id ctx"
    using assms by (auto simp: confirm_check_def bindE_def get_owned_eq split: option.splits if_splits)
  have "pr_status p = P_PENDING" "clock_src s (clock_idx s) < pr_expires_at p"
    using assms p by (auto simp: confirm_check_def bindE_def get_owned_eq now_op_def raiseE_def returnE_def
        split: if_splits prod.splits sum.splits)
  then have "evidenced_request (ab_text b) p ctx = Inr req"
    using assms p by (auto simp: confirm_check_def bindE_Inr get_owned_eq now_op_def liftE_def returnE_def)
  then show ?thesis using p \<open>pr_status p = P_PENDING\<close> \<open>clock_src s (clock_idx s) < pr_expires_at p\<close>
    by (auto simp: may_submit_def evidenced_request_def confirmed_request_def andThen_def new_request_def
        split: option.splits sum.splits if_splits)
qed

text \<open>C20: Nothing is submitted without a live confirmation. When the proposal belongs to another
  customer or actor, is not pending, has expired, or lacks the consent or approval evidence its
  action demands, confirming it creates no attempt and reaches no provider.\<close>

theorem confirm_needs_live_proposal:
  fixes resources :: "('p, 'z) resource_provider"
  assumes "quiet_reads resources"
    and "\<forall>p. proposal_row (db s) pid = Some p \<longrightarrow> \<not> may_submit p ctx (clock_src s (clock_idx s))"
    and "confirm b resources pid ctx s = (r, t)"
  shows "action_attempts (db t) = action_attempts (db s) \<and> provider t = provider s"
proof -
  obtain q u where q: "confirm_check b resources pid ctx s = (q, u)" by fastforce
  have "\<forall>req. q \<noteq> Inr (Inr req)" using confirm_check_submits q assms(2) by blast
  then have "t = u" using assms(3) q by (auto simp: confirm_def bindE_def returnE_def split: sum.splits)
  then show ?thesis using no_effect.keepsD [OF confirm_check_no_effect [OF assms(1)] q] by simp
qed

section \<open>Settled proposals are final\<close>

definition settled_kept :: "core_db \<Rightarrow> core_db \<Rightarrow> bool" where
  "settled_kept d d' \<longleftrightarrow> (proposal_keys d \<longrightarrow> proposal_keys d' \<and>
     (\<forall>pid p. proposal_row d pid = Some p \<longrightarrow> pr_status p \<noteq> P_PENDING \<longrightarrow> proposal_row d' pid = Some p))"

interpretation settled: op_rel "\<lambda>s t. settled_kept (db s) (db t)"
  by unfold_locales (auto simp: settled_kept_def)

lemma settled_same: "action_proposals d' = action_proposals d \<Longrightarrow> settled_kept d d'"
  by (simp add: settled_kept_def proposal_keys_def proposal_row_def)

lemma settled_view: "proposal_view.keeps m \<Longrightarrow> settled.keeps m"
  by (simp add: proposal_view.keeps_def proposal_view.same_view_def settled.keeps_def settled_same)

lemma transition_settled: "settled.keeps (transition_action_proposal pid P_PENDING st ev aid)"
  unfolding settled.keeps_def
proof (intro allI)
  fix s :: "'a kworld_scheme"
  show "settled_kept (db s) (db (snd (transition_action_proposal pid P_PENDING st ev aid s)))"
    unfolding settled_kept_def
    by (auto simp: transition_action_proposal_eq Let_def proposal_keys_def proposal_row_def
        select_one_update [where k = pr_proposal_id] split: option.splits)
qed

lemma create_settled: "settled.keeps (create_action_proposal q)"
  unfolding settled.keeps_def
proof (intro allI)
  fix s :: "'a kworld_scheme"
  show "settled_kept (db s) (db (snd (create_action_proposal q s)))"
    unfolding settled_kept_def create_action_proposal_def
    by (auto simp: tx_def bindE_def insert_row_eq returnE_def proposal_keys_def proposal_row_def list_ex_iff
        select_one_append)
qed

lemma settled_world: "settled.keeps (on_provider m)" "settled.keeps (on_registry r)"
  by (auto simp: settled.keeps_def on_provider_def on_registry_def settled_same split: prod.split sum.split)

lemma reads_settled: "reads_only resources \<Longrightarrow> settled.keeps (resources rt rid)"
  by (simp add: settled.keeps_def reads_only_def settled_same)

lemmas settled_ops = proposal_view_ops [THEN settled_view] proposal_view.keeps_reads [THEN settled_view]
lemmas settled_intros = settled.keeps_intros settled_ops transition_settled create_settled settled_world

lemma get_action_proposal_settled: "settled.keeps (get_action_proposal pid)"
  unfolding get_action_proposal_def by (rule settled_view) (rule proposal_view.keeps_reads)

lemma gateway_settled: "settled.keeps (gateway_dispatch g a)" "settled.keeps (gateway_authorize g c v)"
  unfolding dispatch_defs gateway_authorize_def authorize_action_def authorize_new_action_def
    check_parameter_fact_def Let_def
  by (auto intro!: settled_intros split: option.split prod.split)

lemma submit_settled:
  fixes resources :: "('p, 'z) resource_provider"
  assumes "reads_only resources"
  shows "settled.keeps (submit g resources render req actor)"
  unfolding submit_def submit_duplicate_def submit_new_def bind_resource_def check_customer_binding_def
    check_resource_parameter_def open_case_def kernel_create_case_def commit_parameters_def commit_fact_def Let_def
  by (auto intro!: settled_intros gateway_settled reads_settled [OF assms] split: option.split prod.split)

lemma load_resource_settled:
  fixes resources :: "('p, 'z) resource_provider"
  assumes "reads_only resources"
  shows "settled.keeps (load_resource resources rt rid)"
  unfolding load_resource_def by (auto intro!: settled_intros reads_settled [OF assms])

text \<open>
  The bridge as a transition system: the parts of proposing, confirming and cancelling, by any
  number of tasks in any order, and whatever else runs on the store without touching proposals.
\<close>

inductive bridge_step ::
  "'p ActionBridge \<Rightarrow> ('p, 'z) resource_provider \<Rightarrow> ('p, 'z) gworld_scheme \<Rightarrow> ('p, 'z) gworld_scheme \<Rightarrow> bool"
  for b resources where
  propose: "propose b resources intent context s = (q, t) \<Longrightarrow> bridge_step b resources s t"
| check: "confirm_check b resources pid ctx s = (c, t) \<Longrightarrow> bridge_step b resources s t"
| submit: "confirm_submit b resources ctx req s = (a, t) \<Longrightarrow> bridge_step b resources s t"
| settle: "confirm_settle pid ctx act s = (q, t) \<Longrightarrow> bridge_step b resources s t"
| cancel: "cancel pid ctx s = (q, t) \<Longrightarrow> bridge_step b resources s t"
| status: "bridge_status pid cu ac s = (q, t) \<Longrightarrow> bridge_step b resources s t"
| other: "action_proposals (db t) = action_proposals (db s) \<Longrightarrow> bridge_step b resources s t"

lemma transition_or_current_settled: "settled.keeps (transition_or_current pid st aid)"
  unfolding transition_or_current_def
  by (auto intro!: settled_intros get_action_proposal_settled split: option.split exn.split)

lemma bridge_settled:
  fixes resources :: "('p, 'z) resource_provider"
  assumes "reads_only resources"
  shows "settled.keeps (propose b resources intent context)" "settled.keeps (confirm_check b resources pid ctx)"
    "settled.keeps (confirm_submit b resources ctx req)"
    and confirm_settle_settled: "settled.keeps (confirm_settle pid ctx act)"
    and cancel_settled: "settled.keeps (cancel pid ctx)"
    and status_settled: "settled.keeps (bridge_status pid cu ac)"
  unfolding propose_def prepare_refund_def prepare_generic_def overlay_authoritative_def copy_parameter_def
    check_customer_binding_def confirm_check_def get_owned_def expire_def verify_resource_version_def
    confirm_submit_def confirm_settle_def cancel_def recover_confirmed_def bridge_status_def Let_def
  by (auto intro!: settled_intros get_action_proposal_settled load_resource_settled [OF assms]
      submit_settled [OF assms] transition_or_current_settled split: option.split exn.split)

inductive_cases bridge_stepE: "bridge_step b resources s t"

lemma bridge_step_settled:
  fixes resources :: "('p, 'z) resource_provider"
  assumes "reads_only resources" and "bridge_step b resources s t"
  shows "settled_kept (db s) (db t)"
  using assms(2)
proof cases
  case propose
  then show ?thesis by (rule settled.keepsD [OF bridge_settled(1) [OF assms(1)]])
next
  case check
  then show ?thesis by (rule settled.keepsD [OF bridge_settled(2) [OF assms(1)]])
next
  case submit
  then show ?thesis by (rule settled.keepsD [OF bridge_settled(3) [OF assms(1)]])
next
  case settle
  then show ?thesis by (rule settled.keepsD [OF confirm_settle_settled [OF assms(1)]])
next
  case cancel
  then show ?thesis by (rule settled.keepsD [OF cancel_settled [OF assms(1)]])
next
  case status
  then show ?thesis by (rule settled.keepsD [OF status_settled [OF assms(1)]])
next
  case other
  then show ?thesis by (rule settled_same)
qed

text \<open>C21: A settled proposal is final. However proposing, confirming, cancelling and expiring
  interleave, among any number of tasks and with any other work on the store, a proposal that is
  confirmed, cancelled or expired keeps its row unchanged.\<close>

theorem proposal_settled_for_good:
  fixes resources :: "('p, 'z) resource_provider"
  assumes "reads_only resources" and "(bridge_step b resources)\<^sup>*\<^sup>* s t" and "proposal_keys (db s)"
    and "proposal_row (db s) pid = Some p" and "pr_status p \<noteq> P_PENDING"
  shows "proposal_row (db t) pid = Some p"
proof -
  have "settled_kept (db s) (db t)" using assms(2)
  proof induction
    case (step u v)
    then show ?case using bridge_step_settled [OF assms(1) step(2)] by (auto simp: settled_kept_def)
  qed (simp add: settled_same)
  then show ?thesis using assms(3-5) by (simp add: settled_kept_def)
qed

section \<open>A concrete proposal\<close>

definition demo_bridge :: "nat ActionBridge" where
  "demo_bridge = \<lparr>ab_gateway = demo_refund_gateway, ab_resolver = None, ab_refund_window_days = 30, ab_ttl_seconds = 900,
     ab_text = \<lparr>pt_render = (\<lambda>_. []), pt_float = (\<lambda>_. None), pt_int = (\<lambda>_. None), pt_digest = (\<lambda>_. [])\<rparr>\<rparr>"

definition demo_intent :: ActionIntent where
  "demo_intent = \<lparr>in_action = ''issue_refund'', in_arguments = [(''order_id'', JStr ''O1'')],
     in_resource_type = None, in_resource_id = None\<rparr>"

definition demo_trusted :: TrustedActionContext where
  "demo_trusted = \<lparr>ctx_actor_id = ''agent'', ctx_customer_id = ''U1'', ctx_case_id = ''C1'',
     ctx_procedure_id = ''cs_refund'', ctx_procedure_version = ''1'', ctx_policy_package_id = ''PP'',
     ctx_conversation_id = None, ctx_message_id = None, ctx_connector_binding_id = None,
     ctx_connector_binding_version = None, ctx_contract_version = None\<rparr>"

definition demo_confirmation :: ActionConfirmationContext where
  "demo_confirmation = \<lparr>cf_actor_id = ''agent'', cf_customer_id = ''U1'',
     cf_consent_evidence_ref = Some ''chat:1'', cf_approval_evidence_ref = None\<rparr>"

definition demo_proposed :: "nat gworld" where
  "demo_proposed = snd (propose demo_bridge (single_order_resource demo_order) demo_intent demo_trusted demo_gworld)"

definition demo_cancelled :: "nat gworld" where
  "demo_cancelled = snd (cancel ''APR-'' demo_confirmation demo_proposed)"

lemma demo_proposed_facts:
  "map_option pr_status (proposal_row (db demo_proposed) ''APR-'') = Some P_PENDING"
  "map_option pr_status (proposal_row (db demo_cancelled) ''APR-'') = Some P_CANCELLED"
  "map pr_proposal_id (action_proposals (db demo_cancelled)) = [''APR-'']"
  by code_simp+

theorem proposal_settled_for_good_witness:
  "\<exists>p. proposal_row (db demo_cancelled) ''APR-'' = Some p \<and>
     proposal_row (db (snd (confirm_check demo_bridge (single_order_resource demo_order) ''APR-'' demo_confirmation
       demo_cancelled))) ''APR-'' = Some p"
proof -
  let ?r = "single_order_resource demo_order"
  obtain p where p: "proposal_row (db demo_cancelled) ''APR-'' = Some p" "pr_status p = P_CANCELLED"
    using demo_proposed_facts(2) by (cases "proposal_row (db demo_cancelled) ''APR-''") simp_all
  let ?t = "snd (confirm_check demo_bridge ?r ''APR-'' demo_confirmation demo_cancelled)"
  have "bridge_step demo_bridge ?r demo_cancelled ?t" by (rule bridge_step.check) (rule surjective_pairing)
  then have "(bridge_step demo_bridge ?r)\<^sup>*\<^sup>* demo_cancelled ?t" ..
  moreover have "proposal_keys (db demo_cancelled)" using demo_proposed_facts(3) by (simp add: proposal_keys_def)
  ultimately have "proposal_row (db ?t) ''APR-'' = Some p"
    using proposal_settled_for_good [OF demo_order_reads _ _ p(1)] p(2) by simp
  with p(1) show ?thesis by blast
qed

theorem confirm_needs_live_proposal_witness:
  "provider (snd (confirm demo_bridge (single_order_resource demo_order) ''APR-'' demo_confirmation demo_cancelled)) =
     provider demo_cancelled"
proof -
  have "quiet_reads (single_order_resource demo_order :: (nat, unit) resource_provider)"
    by (simp add: quiet_reads_def single_order_resource_def returnE_def)
  moreover have "\<forall>p. proposal_row (db demo_cancelled) ''APR-'' = Some p \<longrightarrow>
      \<not> may_submit p demo_confirmation (clock_src demo_cancelled (clock_idx demo_cancelled))"
    using demo_proposed_facts(2) by (auto simp: may_submit_def)
  ultimately show ?thesis using confirm_needs_live_proposal [OF _ _ surjective_pairing] by blast
qed

text \<open>A confirmation between whose check and submission the same person's cancellation is served.\<close>

definition confirm_overtaken ::
  "'p ActionBridge \<Rightarrow> ('p, 'z) resource_provider \<Rightarrow> string \<Rightarrow> ActionConfirmationContext \<Rightarrow>
   (ActionProposal \<times> ActionRecord, 'p, 'z) gop" where
  "confirm_overtaken b resources pid ctx =
     bindE (confirm_check b resources pid ctx) (\<lambda>r.
     bindE (cancel pid ctx) (\<lambda>cancelled.
     case r of
       Inl p \<Rightarrow> raiseE AssertionError
     | Inr request \<Rightarrow> bindE (confirm_submit b resources ctx request) (\<lambda>action. returnE (cancelled, action))))"


end
