(* ===== verification/Outbox_Laws.thy ===== *)
theory Outbox_Laws
  imports Inbox_Laws
begin

text \<open>
  The transactional outbox: what a claim leases, that a lease excludes other workers until it
  expires, and what settling a row does. The last section covers the backfill of event logs when
  a database of an earlier version is opened.
\<close>

section \<open>Claims\<close>

lemma lease_all:
  assumes "distinct ids"
  shows "fold (\<lambda>oid. sql_update (\<lambda>x. ob_outbox_id x = oid) (lease_row w u now)) ids rows =
    sql_update (\<lambda>x. ob_outbox_id x \<in> set ids) (lease_row w u now) rows"
  using assms
proof (induction ids arbitrary: rows)
  case Nil
  then show ?case by (simp add: sql_update_def)
next
  case (Cons i ids)
  have "sql_update (\<lambda>x. ob_outbox_id x \<in> set ids) (lease_row w u now)
      (sql_update (\<lambda>x. ob_outbox_id x = i) (lease_row w u now) rows) =
    sql_update (\<lambda>x. ob_outbox_id x \<in> set (i # ids)) (lease_row w u now) rows"
    using Cons.prems by (auto simp: sql_update_def)
  then show ?case using Cons by simp
qed

definition outbox_keys :: "core_db \<Rightarrow> bool" where
  "outbox_keys d \<longleftrightarrow> distinct (map ob_outbox_id (core_outbox d))"

text \<open>The rows a claim selects, oldest first.\<close>

definition due_rows :: "core_db \<Rightarrow> time \<Rightarrow> int \<Rightarrow> OutboxRecord list" where
  "due_rows d now limit = sql_limit limit (order_by ob_created_at (filter (outbox_due now) (core_outbox d)))"

lemma due_rows_distinct: "outbox_keys d \<Longrightarrow> distinct (map ob_outbox_id (due_rows d now n))"
proof -
  assume "outbox_keys d"
  then have "distinct (map ob_outbox_id (filter (outbox_due now) (core_outbox d)))"
    by (simp add: outbox_keys_def distinct_map_filter)
  then have "distinct (map ob_outbox_id (order_by ob_created_at (filter (outbox_due now) (core_outbox d))))"
    by (simp add: distinct_map order_by_def)
  then show ?thesis by (simp add: due_rows_def sql_limit_def take_map [symmetric])
qed

lemma due_rows_set: "x \<in> set (due_rows d now n) \<Longrightarrow> x \<in> set (core_outbox d) \<and> outbox_due now x"
  using set_sql_limit by (fastforce simp: due_rows_def)

lemma due_rows_oldest:
  assumes "x \<in> set (due_rows d now n)" and "y \<in> set (core_outbox d)" and "outbox_due now y"
    and "y \<notin> set (due_rows d now n)"
  shows "ob_created_at x \<le> ob_created_at y \<and> 0 \<le> n \<and> length (due_rows d now n) = nat n"
proof -
  let ?s = "order_by ob_created_at (filter (outbox_due now) (core_outbox d))"
  have n: "0 \<le> n" using assms by (auto simp: due_rows_def sql_limit_def split: if_splits)
  then have split: "?s = due_rows d now n @ drop (nat n) ?s" by (simp add: due_rows_def sql_limit_def)
  have "y \<in> set ?s" using assms by simp
  then have y: "y \<in> set (drop (nat n) ?s)" using split assms(4) by (metis Un_iff set_append)
  have "sorted (map ob_created_at ?s)" by (simp add: order_by_def)
  then have "sorted (map ob_created_at (due_rows d now n) @ map ob_created_at (drop (nat n) ?s))"
    using split by (metis map_append)
  then have "ob_created_at x \<le> ob_created_at y" using assms(1) y by (simp add: sorted_append)
  moreover have "nat n \<le> length ?s" using y by (cases "nat n \<le> length ?s") auto
  ultimately show ?thesis using n by (simp add: due_rows_def sql_limit_def)
qed

lemma claim_outbox_eq:
  assumes "outbox_keys (db s)"
  shows "claim_outbox w ls n s =
    (let now = clock_src s (clock_idx s);
         until = clock_src s (Suc (clock_idx s)) + seconds ls;
         ids = set (map ob_outbox_id (due_rows (db s) now n));
         rows = sql_update (\<lambda>x. ob_outbox_id x \<in> ids) (lease_row w until now) (core_outbox (db s)) in
     (Inr (filter (\<lambda>x. ob_outbox_id x \<in> ids) rows),
      s\<lparr>clock_idx := clock_idx s + 2, db := (db s)\<lparr>core_outbox := rows\<rparr>\<rparr>))"
  using lease_all [OF due_rows_distinct [OF assms]]
  by (simp add: claim_outbox_def Let_def bindE_def now_op_def tx_def read_db_def lease_fold returnE_def
      due_rows_def)

text \<open>Two rows of the table with the same identifier are the same row.\<close>

lemma outbox_same: "outbox_keys d \<Longrightarrow> x \<in> set (core_outbox d) \<Longrightarrow> y \<in> set (core_outbox d) \<Longrightarrow>
    ob_outbox_id x = ob_outbox_id y \<Longrightarrow> x = y"
  by (auto simp: outbox_keys_def distinct_map dest: inj_onD)

text \<open>A claim leases only rows that were due (pending or failed and available, or under a
  lease that has expired), at most \<open>limit\<close> of them and the oldest ones; each is returned with one
  more attempt, its new owner and the end of its lease, and every other row is left alone.\<close>

theorem claim_outbox_leases:
  assumes "outbox_keys (db s)" and "claim_outbox w ls n s = (r, t)"
  shows "\<exists>rows due. r = Inr rows \<and> due \<subseteq> set (core_outbox (db s)) \<and>
    (\<forall>x \<in> due. outbox_due (clock_src s (clock_idx s)) x) \<and>
    set rows = lease_row w (clock_src s (Suc (clock_idx s)) + seconds ls) (clock_src s (clock_idx s)) ` due \<and>
    (0 \<le> n \<longrightarrow> length rows \<le> nat n) \<and>
    (\<forall>x \<in> due. \<forall>y \<in> set (core_outbox (db s)) - due.
       outbox_due (clock_src s (clock_idx s)) y \<longrightarrow> ob_created_at x \<le> ob_created_at y) \<and>
    (\<forall>y \<in> set (core_outbox (db s)) - due. y \<in> set (core_outbox (db t)))"
proof -
  let ?now = "clock_src s (clock_idx s)"
  let ?until = "clock_src s (Suc (clock_idx s)) + seconds ls"
  let ?due = "due_rows (db s) ?now n"
  let ?ids = "set (map ob_outbox_id ?due)"
  let ?new = "sql_update (\<lambda>x. ob_outbox_id x \<in> ?ids) (lease_row w ?until ?now) (core_outbox (db s))"
  have r: "r = Inr (filter (\<lambda>x. ob_outbox_id x \<in> ?ids) ?new)" and t: "core_outbox (db t) = ?new"
    using assms(2) claim_outbox_eq [OF assms(1), of w ls n] by (auto simp: Let_def)
  have hit: "ob_outbox_id x \<in> ?ids \<longleftrightarrow> x \<in> set ?due" if "x \<in> set (core_outbox (db s))" for x
  proof
    assume "ob_outbox_id x \<in> ?ids"
    then obtain z where "z \<in> set ?due" "ob_outbox_id z = ob_outbox_id x" by auto
    then show "x \<in> set ?due" using due_rows_set outbox_same [OF assms(1) that] by metis
  qed simp
  have rows: "set (filter (\<lambda>x. ob_outbox_id x \<in> ?ids) ?new) = lease_row w ?until ?now ` set ?due"
    using hit due_rows_set by (fastforce simp: set_sql_update)
  have "length (filter (\<lambda>x. ob_outbox_id x \<in> ?ids) ?new) =
      length (filter (\<lambda>x. ob_outbox_id x \<in> ?ids) (core_outbox (db s)))"
    by (simp add: sql_update_def filter_map comp_def if_distrib cong: if_cong)
  also have "\<dots> = card (set (filter (\<lambda>x. ob_outbox_id x \<in> ?ids) (core_outbox (db s))))"
    using assms(1) by (simp add: outbox_keys_def distinct_card distinct_map del: set_filter)
  also have "\<dots> \<le> card (set ?due)" using hit by (intro card_mono) auto
  also have "\<dots> \<le> length ?due" by (rule card_length)
  finally have "length (filter (\<lambda>x. ob_outbox_id x \<in> ?ids) ?new) \<le> length ?due" .
  moreover have "0 \<le> n \<Longrightarrow> length ?due \<le> nat n" by (simp add: due_rows_def length_sql_limit)
  ultimately have len: "0 \<le> n \<Longrightarrow> length (filter (\<lambda>x. ob_outbox_id x \<in> ?ids) ?new) \<le> nat n"
    by linarith
  show ?thesis unfolding r
  proof (intro exI [of _ "set ?due"] exI conjI)
    show "\<forall>y \<in> set (core_outbox (db s)) - set ?due. y \<in> set (core_outbox (db t))"
      using hit t by (auto simp: set_sql_update)
  qed (use rows len due_rows_set due_rows_oldest in \<open>fastforce+\<close>)
qed

section \<open>Leases exclude\<close>

text \<open>The state after a list of claims by any workers.\<close>

fun claims :: "(string \<times> int \<times> int) list \<Rightarrow> 'z kworld_scheme \<Rightarrow> 'z kworld_scheme" where
  "claims [] s = s"
| "claims ((w, ls, n) # reqs) s = claims reqs (snd (claim_outbox w ls n s))"

lemma claim_outbox_state:
  assumes "outbox_keys (db s)" and "claim_outbox w ls n s = (r, t)"
  shows "outbox_keys (db t)" "clock_src t = clock_src s" "clock_idx t = clock_idx s + 2"
    "x \<in> set (core_outbox (db s)) \<Longrightarrow> \<not> outbox_due (clock_src s (clock_idx s)) x \<Longrightarrow>
      x \<in> set (core_outbox (db t)) \<and> (\<forall>rows. r = Inr rows \<longrightarrow> (\<forall>y \<in> set rows. ob_outbox_id y \<noteq> ob_outbox_id x))"
proof -
  note eq = assms(2) [unfolded claim_outbox_eq [OF assms(1)] Let_def]
  show "outbox_keys (db t)" using eq assms(1) by (auto simp: outbox_keys_def)
  show "clock_src t = clock_src s" "clock_idx t = clock_idx s + 2" using eq by auto
  assume x: "x \<in> set (core_outbox (db s))" "\<not> outbox_due (clock_src s (clock_idx s)) x"
  have "ob_outbox_id x \<notin> set (map ob_outbox_id (due_rows (db s) (clock_src s (clock_idx s)) n))"
  proof
    assume "ob_outbox_id x \<in> set (map ob_outbox_id (due_rows (db s) (clock_src s (clock_idx s)) n))"
    then obtain z where "z \<in> set (due_rows (db s) (clock_src s (clock_idx s)) n)"
      "ob_outbox_id z = ob_outbox_id x" by auto
    then show False using due_rows_set outbox_same [OF assms(1) x(1)] x(2) by metis
  qed
  then show "x \<in> set (core_outbox (db t)) \<and>
      (\<forall>rows. r = Inr rows \<longrightarrow> (\<forall>y \<in> set rows. ob_outbox_id y \<noteq> ob_outbox_id x))"
    using eq x(1) by (auto simp: set_sql_update)
qed

lemma leased_not_due: "ob_status x = O_LEASED \<Longrightarrow> ob_lease_until x = Some u \<Longrightarrow> now \<le> u \<Longrightarrow> \<not> outbox_due now x"
  by (auto simp: outbox_due_def)

lemma claims_keep_lease:
  assumes "outbox_keys (db s)" and "x \<in> set (core_outbox (db s))"
    and "ob_status x = O_LEASED" and "ob_lease_until x = Some u" and "\<forall>i. clock_src s i \<le> u"
  shows "outbox_keys (db (claims reqs s)) \<and> x \<in> set (core_outbox (db (claims reqs s))) \<and>
    clock_src (claims reqs s) = clock_src s"
  using assms
proof (induction reqs arbitrary: s)
  case (Cons q reqs)
  obtain w ls n where q: "q = (w, ls, n)" by (cases q) auto
  obtain r t where c: "claim_outbox w ls n s = (r, t)" by fastforce
  have "x \<in> set (core_outbox (db t))"
    using claim_outbox_state(4) [OF Cons.prems(1) c Cons.prems(2)] leased_not_due Cons.prems by blast
  then show ?case
    using Cons.IH [of t] Cons.prems claim_outbox_state(1,2) [OF Cons.prems(1) c] q c by simp
qed simp

text \<open>A row that one worker has leased is not handed to any worker before the lease ends,
  however many claims run in between: as long as the clock has not passed the end of the lease,
  no claim returns it.\<close>

theorem lease_excludes:
  assumes "outbox_keys (db s)" and "claim_outbox w ls n s = (Inr rows, t)" and "x \<in> set rows"
    and "\<forall>i. clock_src s i \<le> clock_src s (Suc (clock_idx s)) + seconds ls"
    and "claim_outbox w' ls' n' (claims reqs t) = (Inr rows', u)"
  shows "\<forall>y \<in> set rows'. ob_outbox_id y \<noteq> ob_outbox_id x"
proof -
  let ?u = "clock_src s (Suc (clock_idx s)) + seconds ls"
  obtain due where rows: "set rows = lease_row w ?u (clock_src s (clock_idx s)) ` due"
    using claim_outbox_leases [OF assms(1,2)] by auto
  then have x: "ob_status x = O_LEASED" "ob_lease_until x = Some ?u" using assms(3) by auto
  have xt: "x \<in> set (core_outbox (db t))"
    using assms(2,3) claim_outbox_eq [OF assms(1), of w ls n] by (auto simp: Let_def)
  have clk: "\<forall>i. clock_src t i \<le> ?u" using assms(4) claim_outbox_state(2) [OF assms(1,2)] by simp
  note keep = claims_keep_lease [OF claim_outbox_state(1) [OF assms(1,2)] xt x clk, of reqs]
  have "\<not> outbox_due (clock_src (claims reqs t) (clock_idx (claims reqs t))) x"
    using leased_not_due [OF x] keep clk by metis
  then show ?thesis using claim_outbox_state(4) [OF _ assms(5)] keep by blast
qed

section \<open>Settling\<close>

lemma select_one_update_all:
  "(\<And>x. k (f x) = k x) \<Longrightarrow> select_one (\<lambda>x. k x = a) (sql_update (\<lambda>x. k x = a) f xs) =
     map_option f (select_one (\<lambda>x. k x = a) xs)"
  using select_one_update [of k f a a "\<lambda>_. True" xs] by simp

lemma settle_outbox_eq:
  "settle_outbox oid st ra er s =
    (let now = clock_src s (clock_idx s);
         f = (\<lambda>x. x\<lparr>ob_status := st, ob_available_at := (case ra of None \<Rightarrow> now | Some t \<Rightarrow> t),
               ob_lease_owner := None, ob_lease_until := None, ob_last_error := er, ob_updated_at := now\<rparr>);
         t = s\<lparr>clock_idx := Suc (clock_idx s), db := (db s)\<lparr>core_outbox :=
               sql_update (\<lambda>x. ob_outbox_id x = oid) f (core_outbox (db s))\<rparr>\<rparr> in
     case select_one (\<lambda>x. ob_outbox_id x = oid) (core_outbox (db s)) of
       None \<Rightarrow> (Inl (KeyError oid), t) | Some x \<Rightarrow> (Inr (f x), t))"
  by (simp add: select_one_update_all [where k = ob_outbox_id] settle_outbox_def Let_def bindE_def now_op_def tx_def update_rows_eq read_db_def
      raiseE_def returnE_def split: option.split)

text \<open>A row that has been delivered or quarantined is never claimed again by any worker: it is
  not due at any time, so only an explicit failure report can bring it back.\<close>

theorem settled_never_claimed:
  assumes "outbox_keys (db s)" and "x \<in> set (core_outbox (db s))"
    and "ob_status x \<in> {O_DELIVERED, O_QUARANTINED}"
    and "claim_outbox w ls n (claims reqs s) = (Inr rows, t)"
  shows "(\<forall>y \<in> set rows. ob_outbox_id y \<noteq> ob_outbox_id x) \<and> x \<in> set (core_outbox (db t))"
proof -
  have nd: "\<not> outbox_due now x" for now using assms(3) by (auto simp: outbox_due_def)
  have keep: "outbox_keys (db (claims reqs s)) \<and> x \<in> set (core_outbox (db (claims reqs s)))"
    using assms(1,2)
  proof (induction reqs arbitrary: s)
    case (Cons q reqs)
    obtain w ls n where q: "q = (w, ls, n)" by (cases q) auto
    obtain r t where c: "claim_outbox w ls n s = (r, t)" by fastforce
    show ?case using Cons.IH [of t] claim_outbox_state [OF Cons.prems(1) c] Cons.prems(2) nd q c by simp
  qed simp
  then show ?thesis using claim_outbox_state(4) [OF _ assms(4)] nd by blast
qed

text \<open>Settling names the row only, not the lease: a worker whose lease has expired can still report
  a failure for a row that another worker has delivered, and the row becomes due again.\<close>

theorem stale_failure_reopens:
  assumes "x \<in> set (core_outbox (db s))" and "ob_status x = O_DELIVERED"
  shows "\<exists>r t. fail_outbox (ob_outbox_id x) err None False s = (Inr r, t) \<and> ob_status r = O_FAILED \<and>
    outbox_due (clock_src s (clock_idx s)) r"
proof -
  obtain y where "select_one (\<lambda>z. ob_outbox_id z = ob_outbox_id x) (core_outbox (db s)) = Some y"
    using assms(1) select_one_None [of "\<lambda>z. ob_outbox_id z = ob_outbox_id x" "core_outbox (db s)"]
    by (cases "select_one (\<lambda>z. ob_outbox_id z = ob_outbox_id x) (core_outbox (db s))") auto
  then show ?thesis by (auto simp: fail_outbox_def settle_outbox_eq Let_def outbox_due_def)
qed

section \<open>The backfill of event logs\<close>

lemma backfill_sequence_lifecycle: "lifecycle (backfill_sequence st) \<and> last (backfill_sequence st) = st"
  by (cases st) (simp_all add: backfill_sequence_def lifecycle_def Let_def)

lemma backfill_event_ok:
  assumes "backfill_event a st s = (Inr u, t)"
  shows "action_attempts (db t) = action_attempts (db s) \<and>
    log_of (db t) k = log_of (db s) k @ (if k = ar_action_id a then [st] else [])"
  using assms
  by (auto simp: backfill_event_def bindE_Inr uuid_op_def insert_row_eq log_of_def split: if_splits)

lemma backfill_events:
  assumes "foldE (\<lambda>st _. backfill_event a st) sts () s = (Inr (), t)"
  shows "action_attempts (db t) = action_attempts (db s) \<and>
    log_of (db t) k = log_of (db s) k @ (if k = ar_action_id a then sts else [])"
  using assms
proof (induction sts arbitrary: s)
  case Nil
  then show ?case by (simp add: returnE_def)
next
  case (Cons st sts)
  from Cons.prems obtain u where one: "backfill_event a st s = (Inr (), u)"
    and rest: "foldE (\<lambda>st _. backfill_event a st) sts () u = (Inr (), t)"
    by (auto simp: bindE_Inr)
  show ?case using Cons.IH [OF rest] backfill_event_ok [OF one, of k] by auto
qed

lemma backfill_actions:
  assumes "foldE (\<lambda>a _. backfill_action a) as () s = (Inr (), t)"
    and "distinct (map ar_action_id as)"
  shows "action_attempts (db t) = action_attempts (db s) \<and>
    log_of (db t) k = log_of (db s) k @ (case select_one (\<lambda>a. ar_action_id a = k) as of
      None \<Rightarrow> [] | Some a \<Rightarrow> backfill_sequence (ar_status a))"
  using assms
proof (induction as arbitrary: s)
  case Nil
  then show ?case by (simp add: returnE_def select_one_def)
next
  case (Cons a as)
  from Cons.prems(1) obtain u where b: "backfill_action a s = (Inr (), u)"
    and rest: "foldE (\<lambda>a _. backfill_action a) as () u = (Inr (), t)"
    by (auto simp: bindE_Inr)
  note eb = backfill_events [OF b [unfolded backfill_action_def], of k]
  have ih: "action_attempts (db t) = action_attempts (db u) \<and>
    log_of (db t) k = log_of (db u) k @ (case select_one (\<lambda>a. ar_action_id a = k) as of
      None \<Rightarrow> [] | Some a \<Rightarrow> backfill_sequence (ar_status a))"
    using Cons.IH [OF rest] Cons.prems(2) by simp
  have "select_one (\<lambda>x. ar_action_id x = k) as = None" if "k = ar_action_id a"
    using Cons.prems(2) that by (auto simp: select_one_None) (metis imageI)
  then show ?case using eb ih by (auto simp: select_one_def)
qed

text \<open>Opening a database of the previous version completes it: every action that had no event
  gets the shortest lifecycle that leads to its status, so afterwards every action has a log that is
  a lifecycle path ending in its status; the actions themselves are unchanged.\<close>

theorem initialize_backfills:
  assumes "initialize s = (Inr (), t)"
    and "''action_events_v3_backfill'' \<notin> set (map fst (core_migrations (db s)))"
    and "action_keys (db s)"
    and "\<forall>a \<in> set (action_attempts (db s)). log_of (db s) (ar_action_id a) = [] \<or>
      lifecycle (log_of (db s) (ar_action_id a)) \<and> last (log_of (db s) (ar_action_id a)) = ar_status a"
  shows "action_attempts (db t) = action_attempts (db s) \<and>
    (\<forall>a \<in> set (action_attempts (db t)). lifecycle (log_of (db t) (ar_action_id a)) \<and>
       last (log_of (db t) (ar_action_id a)) = ar_status a)"
proof -
  let ?legacy = "filter (\<lambda>a. \<not> list_ex (\<lambda>e. ev_action_id e = ar_action_id a)
                (action_events (db s))) (action_attempts (db s))"
  from assms(1,2) obtain u where f: "foldE (\<lambda>a _. backfill_action a) ?legacy () s = (Inr (), u)"
    and t: "action_attempts (db t) = action_attempts (db u)" "\<And>k. log_of (db t) k = log_of (db u) k"
    unfolding initialize_def tx_Inr
    by (auto simp: bindE_Inr read_db_def now_op_def upd_db_def log_of_def split: if_splits)
  have d: "distinct (map ar_action_id (action_attempts (db s)))"
    using assms(3) by (simp add: action_keys_def)
  note eff = backfill_actions [OF f distinct_map_filter [OF d]]
  have legacy: "a \<in> set ?legacy \<longleftrightarrow> log_of (db s) (ar_action_id a) = []" if "a \<in> set (action_attempts (db s))" for a
    using that by (auto simp: log_of_def list_ex_iff filter_empty_conv)
  have "lifecycle (log_of (db t) (ar_action_id a)) \<and> last (log_of (db t) (ar_action_id a)) = ar_status a"
    if a: "a \<in> set (action_attempts (db s))" for a
  proof (cases "log_of (db s) (ar_action_id a) = []")
    case True
    then have "select_one (\<lambda>x. ar_action_id x = ar_action_id a) ?legacy = Some a"
      using legacy [OF a] select_one_unique [OF distinct_map_filter [OF d]] by blast
    then show ?thesis using eff [of "ar_action_id a"] True t backfill_sequence_lifecycle by simp
  next
    case False
    then have "select_one (\<lambda>x. ar_action_id x = ar_action_id a) ?legacy = None"
      unfolding select_one_None using legacy by (metis filter_is_subset subsetD)
    then show ?thesis using eff [of "ar_action_id a"] False t assms(4) a by auto
  qed
  then show ?thesis using t eff [of undefined] by auto
qed

section \<open>Concrete rows\<close>

definition demo_row :: OutboxRecord where
  "demo_row = new_outbox ''O1'' ''action.dispatch'' ''A1'' [] 0"

definition demo_outbox :: "OutboxStatus \<Rightarrow> kworld" where
  "demo_outbox st = demo_start\<lparr>clock_src := (\<lambda>_. 0),
     db := empty_db\<lparr>core_outbox := [demo_row\<lparr>ob_status := st\<rparr>]\<rparr>\<rparr>"

lemma demo_outbox_keys: "outbox_keys (db (demo_outbox st))"
  by (simp add: demo_outbox_def outbox_keys_def demo_start_def)

lemma demo_claim:
  "map_sum (\<lambda>e. e) (map ob_outbox_id) (fst (claim_outbox ''w'' 30 10 (demo_outbox O_PENDING))) = Inr [''O1'']"
  "map_sum (\<lambda>e. e) (map ob_outbox_id) (fst (claim_outbox ''v'' 30 10
     (claims [] (snd (claim_outbox ''w'' 30 10 (demo_outbox O_PENDING)))))) = Inr []"
  "map_sum (\<lambda>e. e) (map ob_outbox_id) (fst (claim_outbox ''v'' 30 10 (claims [] (demo_outbox O_DELIVERED)))) =
     Inr []"
  by code_simp+

theorem claim_outbox_leases_witness:
  "\<exists>rows. fst (claim_outbox ''w'' 30 10 (demo_outbox O_PENDING)) = Inr rows \<and> length rows \<le> 10"
  using claim_outbox_leases [OF demo_outbox_keys [of O_PENDING], of "''w''" 30 10
      "fst (claim_outbox ''w'' 30 10 (demo_outbox O_PENDING))"
      "snd (claim_outbox ''w'' 30 10 (demo_outbox O_PENDING))"] by auto

theorem lease_excludes_witness:
  "\<exists>rows'.
     fst (claim_outbox ''v'' 30 10 (snd (claim_outbox ''w'' 30 10 (demo_outbox O_PENDING)))) = Inr rows' \<and>
     (\<forall>y \<in> set rows'. ob_outbox_id y \<noteq> ''O1'')"
proof -
  let ?t = "snd (claim_outbox ''w'' 30 10 (demo_outbox O_PENDING))"
  obtain rows where rows: "claim_outbox ''w'' 30 10 (demo_outbox O_PENDING) = (Inr rows, ?t)"
      "map ob_outbox_id rows = [''O1'']"
    using fst_map_sum_Inr [OF demo_claim(1)] by auto
  then obtain x where x: "x \<in> set rows" "ob_outbox_id x = ''O1''" by (auto simp: map_eq_Cons_conv)
  obtain rows' where rows': "claim_outbox ''v'' 30 10 (claims [] ?t) =
      (Inr rows', snd (claim_outbox ''v'' 30 10 (claims [] ?t)))"
    using fst_map_sum_Inr [OF demo_claim(2)] by auto
  have "\<forall>i. clock_src (demo_outbox O_PENDING) i \<le>
      clock_src (demo_outbox O_PENDING) (Suc (clock_idx (demo_outbox O_PENDING))) + seconds 30"
    by (simp add: demo_outbox_def seconds_def)
  from lease_excludes [OF demo_outbox_keys rows(1) x(1) this rows']
  have ex: "\<forall>y \<in> set rows'. ob_outbox_id y \<noteq> ob_outbox_id x" .
  have "fst (claim_outbox ''v'' 30 10 ?t) = Inr rows'" using rows' by (simp add: prod_eq_iff)
  with ex x(2) show ?thesis by auto
qed

theorem settled_never_claimed_witness:
  "\<exists>rows t. claim_outbox ''v'' 30 10 (demo_outbox O_DELIVERED) = (Inr rows, t) \<and>
     (\<forall>y \<in> set rows. ob_outbox_id y \<noteq> ''O1'')"
proof -
  obtain rows where rows: "claim_outbox ''v'' 30 10 (claims [] (demo_outbox O_DELIVERED)) =
      (Inr rows, snd (claim_outbox ''v'' 30 10 (claims [] (demo_outbox O_DELIVERED))))"
    using fst_map_sum_Inr [OF demo_claim(3)] by auto
  have "demo_row\<lparr>ob_status := O_DELIVERED\<rparr> \<in> set (core_outbox (db (demo_outbox O_DELIVERED)))"
    by (simp add: demo_outbox_def)
  from settled_never_claimed [OF demo_outbox_keys this _ rows] rows show ?thesis
    by (auto simp: demo_row_def new_outbox_def)
qed

theorem stale_failure_reopens_witness:
  "\<exists>r t. fail_outbox ''O1'' ''timeout'' None False (demo_outbox O_DELIVERED) = (Inr r, t) \<and>
     ob_status r = O_FAILED"
  using stale_failure_reopens [of "demo_row\<lparr>ob_status := O_DELIVERED\<rparr>" "demo_outbox O_DELIVERED" "''timeout''"]
  by (auto simp: demo_outbox_def demo_row_def new_outbox_def)

definition demo_legacy :: kworld where
  "demo_legacy = demo_start\<lparr>db := empty_db\<lparr>action_attempts :=
     [\<lparr>ar_action_id = ''A1'', ar_command = demo_command, ar_status = RECONCILED, ar_outcome = None,
       ar_created_at = 0, ar_updated_at = 1\<rparr>]\<rparr>\<rparr>"

theorem initialize_backfills_witness:
  "lifecycle (log_of (db (snd (initialize demo_legacy))) ''A1'') \<and>
   last (log_of (db (snd (initialize demo_legacy))) ''A1'') = RECONCILED"
proof -
  have "fst (initialize demo_legacy) = Inr ()" by code_simp
  then have i: "initialize demo_legacy = (Inr (), snd (initialize demo_legacy))"
    by (metis prod.collapse)
  have "''action_events_v3_backfill'' \<notin> set (map fst (core_migrations (db demo_legacy)))"
    "action_keys (db demo_legacy)"
    "\<forall>a \<in> set (action_attempts (db demo_legacy)). log_of (db demo_legacy) (ar_action_id a) = [] \<or>
      lifecycle (log_of (db demo_legacy) (ar_action_id a)) \<and>
      last (log_of (db demo_legacy) (ar_action_id a)) = ar_status a"
    by (simp_all add: demo_legacy_def demo_start_def empty_db_def action_keys_def log_of_def)
  note fin = initialize_backfills [OF i this]
  have "action_attempts (db demo_legacy) =
    [\<lparr>ar_action_id = ''A1'', ar_command = demo_command, ar_status = RECONCILED, ar_outcome = None,
       ar_created_at = 0, ar_updated_at = 1\<rparr>]"
    by (simp add: demo_legacy_def)
  with fin show ?thesis by auto
qed

end
