(* ===== verification/Workers.thy ===== *)
theory Workers
  imports Gateway_Laws Outbox_Laws Kernel_Views
begin

text \<open>
  The bounded workers of \<open>core/workers.py\<close>: one pass of the delivery worker over the outbox and
  one pass of the reconciliation worker over ambiguous actions. A pass is a sequence of kernel
  transactions, so it runs concurrently with anything else the kernel does.
\<close>

section \<open>The delivery worker\<close>

record WorkerRun =
  wr_claimed :: int
  wr_completed :: int
  wr_failed :: int

record ActionDeliveryWorker =
  dw_owner :: string
  dw_lease_seconds :: int
  dw_max_attempts :: int

text \<open>\<open>min(300, 2 ** max(0, attempts - 1))\<close>\<close>

definition backoff_seconds :: "int \<Rightarrow> int" where
  "backoff_seconds attempts = min 300 (2 ^ nat (max 0 (attempts - 1)))"

text \<open>
  \<open>store.get_action(record.payload["action_id"])\<close>: the value is bound as an SQL parameter, so a
  number is compared as text and a list or dict cannot be bound. Identifiers are never floats.
\<close>

definition payload_action :: "pdict \<Rightarrow> (ActionRecord option, 'z) kop" where
  "payload_action payload =
     (case dict_get payload ''action_id'' of
        None \<Rightarrow> raiseE (KeyError ''action_id'')
      | Some (JStr aid) \<Rightarrow> get_action aid
      | Some (JInt i) \<Rightarrow> get_action (str_int i)
      | Some (JBool b) \<Rightarrow> get_action (if b then ''1'' else ''0'')
      | Some (JList _) \<Rightarrow> raiseE (OtherError ''ProgrammingError'')
      | Some (JObj _) \<Rightarrow> raiseE (OtherError ''ProgrammingError'')
      | Some _ \<Rightarrow> returnE None)"

text \<open>The handler of a delivery that raised: retry later, or quarantine.\<close>

definition delivery_failed :: "ActionDeliveryWorker \<Rightarrow> OutboxRecord \<Rightarrow> exn \<Rightarrow> (bool, 'z) kop" where
  "delivery_failed w rcd exc =
     (let quarantine = (dw_max_attempts w \<le> ob_attempts rcd) in
      bindE (if quarantine then returnE None
             else bindE now_op (\<lambda>now. returnE (Some (now + seconds (backoff_seconds (ob_attempts rcd)))))) (\<lambda>retry_at.
      bindE (fail_outbox (ob_outbox_id rcd) (exn_name exc) retry_at quarantine) (\<lambda>_.
      returnE False)))"

text \<open>The body of the loop: \<open>True\<close> counts as completed, \<open>False\<close> as failed.\<close>

definition deliver_record ::
  "'p ActionGateway \<Rightarrow> ActionDeliveryWorker \<Rightarrow> OutboxRecord \<Rightarrow> (bool, 'p, 'z) gop" where
  "deliver_record g w rcd =
     (if ob_topic rcd \<noteq> ''action.dispatch''
      then bindE (fail_outbox (ob_outbox_id rcd) (''unsupported_topic:'' @ ob_topic rcd) None True)
             (\<lambda>_. returnE False)
      else
      bindE (payload_action (ob_payload rcd)) (\<lambda>action.
      case action of
        None \<Rightarrow> bindE (fail_outbox (ob_outbox_id rcd) ''action_not_found'' None True) (\<lambda>_. returnE False)
      | Some a \<Rightarrow>
          catchE (bindE (gateway_dispatch g a) (\<lambda>_.
                  bindE (complete_outbox (ob_outbox_id rcd)) (\<lambda>_. returnE True)))
            (delivery_failed w rcd)))"

definition deliver_all ::
  "'p ActionGateway \<Rightarrow> ActionDeliveryWorker \<Rightarrow> OutboxRecord list \<Rightarrow> int \<times> int \<Rightarrow> (int \<times> int, 'p, 'z) gop" where
  "deliver_all g w = foldE (\<lambda>rcd (completed, failed).
     bindE (deliver_record g w rcd) (\<lambda>ok.
     returnE (if ok then (completed + 1, failed) else (completed, failed + 1))))"

definition delivery_run_once ::
  "'p ActionGateway \<Rightarrow> ActionDeliveryWorker \<Rightarrow> int \<Rightarrow> (WorkerRun, 'p, 'z) gop" where
  "delivery_run_once g w limit =
     bindE (claim_outbox (dw_owner w) (dw_lease_seconds w) limit) (\<lambda>records.
     bindE (deliver_all g w records (0, 0)) (\<lambda>r. case r of (completed, failed) \<Rightarrow>
     returnE \<lparr>wr_claimed = int (length records), wr_completed = completed, wr_failed = failed\<rparr>))"

section \<open>The reconciliation worker\<close>

definition reconcile_one :: "'p ActionGateway \<Rightarrow> ActionRecord \<Rightarrow> (bool, 'p, 'z) gop" where
  "reconcile_one g a =
     catchE (bindE (gateway_reconcile g a) (\<lambda>r. returnE (ar_status r \<in> {RECONCILED, FAILED})))
       (\<lambda>_. returnE False)"

definition due_actions :: "time \<Rightarrow> int \<Rightarrow> ActionRecord list \<Rightarrow> ActionRecord list \<Rightarrow> ActionRecord list" where
  "due_actions stale_before limit unknown dispatched =
     py_take limit (filter (\<lambda>a. ar_updated_at a \<le> stale_before) unknown @
                    filter (\<lambda>a. ar_updated_at a \<le> stale_before) dispatched)"

definition reconcile_all ::
  "'p ActionGateway \<Rightarrow> ActionRecord list \<Rightarrow> int \<times> int \<Rightarrow> (int \<times> int, 'p, 'z) gop" where
  "reconcile_all g = foldE (\<lambda>a (completed, failed).
     bindE (reconcile_one g a) (\<lambda>ok.
     returnE (if ok then (completed + 1, failed) else (completed, failed + 1))))"

definition reconciliation_run_once ::
  "'p ActionGateway \<Rightarrow> int \<Rightarrow> int \<Rightarrow> (WorkerRun, 'p, 'z) gop" where
  "reconciliation_run_once g dispatch_stale_seconds limit =
     bindE (list_actions (Some UNKNOWN) limit) (\<lambda>unknown.
     bindE (list_actions (Some DISPATCHED) limit) (\<lambda>dispatched.
     bindE now_op (\<lambda>now.
     let actions = due_actions (now - seconds dispatch_stale_seconds) limit unknown dispatched in
     bindE (reconcile_all g actions (0, 0)) (\<lambda>r. case r of (completed, failed) \<Rightarrow>
     returnE \<lparr>wr_claimed = int (length actions), wr_completed = completed, wr_failed = failed\<rparr>))))"

section \<open>Passes are runs of the kernel\<close>

lemma payload_action_keeps: "core_run.keeps (payload_action p)"
  unfolding payload_action_def by (auto intro!: core_keeps split: option.split json.split)

lemma deliver_record_keeps: "core_run.keeps (deliver_record g w r)"
  unfolding deliver_record_def delivery_failed_def complete_outbox_def fail_outbox_def Let_def
  by (auto intro!: gateway_keeps payload_action_keeps split: option.split)

lemma delivery_run_once_keeps: "core_run.keeps (delivery_run_once g w n)"
  unfolding delivery_run_once_def deliver_all_def
  by (auto intro!: core_keeps deliver_record_keeps split: prod.split)

lemma reconcile_one_keeps: "core_run.keeps (reconcile_one g a)"
  unfolding reconcile_one_def by (auto intro!: gateway_keeps)

lemma reconciliation_run_once_keeps: "core_run.keeps (reconciliation_run_once g d n)"
  unfolding reconciliation_run_once_def reconcile_all_def Let_def
  by (auto intro!: core_keeps reconcile_one_keeps split: prod.split)

lemmas worker_keeps = delivery_run_once_keeps reconciliation_run_once_keeps

section \<open>Dispatching leaves the outbox alone\<close>

lemma outbox_view_world:
  "outbox_view.keeps (on_provider m)" "outbox_view.keeps (on_registry r)"
  by (auto simp: outbox_view.keeps_def outbox_view.same_view_def on_provider_def on_registry_def
      split: prod.split sum.split)

lemma gateway_dispatch_view:
  "outbox_view.keeps (gateway_dispatch g a)" "outbox_view.keeps (payload_action p)"
  unfolding gateway_dispatch_def dispatch_prepare_def dispatch_policy_def gateway_require_active_def
    gateway_require_snapshot_def service_require_active_def service_require_snapshot_def
    policy_require_def repo_get_def call_connector_def record_outcome_def payload_action_def
  by (auto intro!: outbox_view.view_intros outbox_view_ops outbox_view_world
      split: option.split prod.split json.split)

lemmas dispatch_outbox = outbox_view.keepsD [OF gateway_dispatch_view(1), unfolded outbox_view.same_view_def]
lemmas payload_outbox = outbox_view.keepsD [OF gateway_dispatch_view(2), unfolded outbox_view.same_view_def]

section \<open>Every claimed row is settled\<close>

definition outbox_row :: "core_db \<Rightarrow> string \<Rightarrow> OutboxRecord option" where
  "outbox_row d oid = select_one (\<lambda>x. ob_outbox_id x = oid) (core_outbox d)"

text \<open>How a pass leaves the row it took as \<open>r\<close>, \<open>clock\<close> being the clock it reads.\<close>

definition settled_as :: "(nat \<Rightarrow> time) \<Rightarrow> int \<Rightarrow> OutboxRecord \<Rightarrow> OutboxRecord \<Rightarrow> bool" where
  "settled_as clock m r x \<longleftrightarrow> ob_lease_owner x = None \<and> ob_lease_until x = None \<and>
     (ob_status x = O_DELIVERED \<or> ob_status x = O_QUARANTINED \<or>
      ob_status x = O_FAILED \<and> ob_attempts r < m \<and>
        (\<exists>i. ob_available_at x = clock i + seconds (backoff_seconds (ob_attempts r))))"

lemma backoff_bounds: "1 \<le> backoff_seconds n" "backoff_seconds n \<le> 300"
  by (auto simp: backoff_seconds_def)

lemma sql_update_none: "select_one p xs = None \<Longrightarrow> sql_update p f xs = xs"
  by (auto simp: select_one_None sql_update_def intro: map_idI)

lemma settle_outbox_row:
  assumes "settle_outbox oid st ra er s = (Inr r, t)"
  shows "outbox_row (db t) = (outbox_row (db s))(oid \<mapsto> r)" "clock_src t = clock_src s"
    "ob_status r = st" "ob_lease_owner r = None" "ob_lease_until r = None"
    "\<And>v. ra = Some v \<Longrightarrow> ob_available_at r = v"
proof -
  note eq = assms [unfolded settle_outbox_eq Let_def]
  show "clock_src t = clock_src s" "ob_status r = st" "ob_lease_owner r = None" "ob_lease_until r = None"
    "\<And>v. ra = Some v \<Longrightarrow> ob_available_at r = v"
    using eq by (auto split: option.splits)
  show "outbox_row (db t) = (outbox_row (db s))(oid \<mapsto> r)"
    using eq select_one_update [of ob_outbox_id _ _ oid "\<lambda>_. True" "core_outbox (db s)"]
    by (auto simp: outbox_row_def fun_eq_iff option.map_ident split: option.splits)
qed

lemma settle_final:
  assumes "settle_outbox (ob_outbox_id r) st ra er u = (Inr x, t)" and "st \<in> {O_DELIVERED, O_QUARANTINED}"
    and "core_outbox (db u) = core_outbox (db s) \<and> clock_src u = clock_src s"
  shows "outbox_row (db t) = (outbox_row (db s))(ob_outbox_id r \<mapsto> x) \<and> clock_src t = clock_src s \<and>
    settled_as (clock_src s) m r x \<and> ob_status x = st"
  using settle_outbox_row [OF assms(1)] assms(2,3) by (auto simp: settled_as_def outbox_row_def)

lemma delivery_failed_row:
  assumes "delivery_failed w r e u = (Inr ok, t)"
    and "core_outbox (db u) = core_outbox (db s) \<and> clock_src u = clock_src s"
  shows "\<exists>x. outbox_row (db t) = (outbox_row (db s))(ob_outbox_id r \<mapsto> x) \<and> clock_src t = clock_src s \<and>
    settled_as (clock_src s) (dw_max_attempts w) r x \<and> (ok \<longleftrightarrow> ob_status x = O_DELIVERED)"
proof (cases "dw_max_attempts w \<le> ob_attempts r")
  case True
  then obtain x where "\<not> ok" "settle_outbox (ob_outbox_id r) O_QUARANTINED None (Some (exn_name e)) u = (Inr x, t)"
    using assms by (auto simp: delivery_failed_def fail_outbox_def bindE_Inr returnE_def)
  then show ?thesis using settle_final [OF _ _ assms(2)] by (intro exI [of _ x]) auto
next
  case False
  let ?ra = "Some (clock_src u (clock_idx u) + seconds (backoff_seconds (ob_attempts r)))"
  obtain x where "\<not> ok" and x: "settle_outbox (ob_outbox_id r) O_FAILED ?ra (Some (exn_name e))
      (u\<lparr>clock_idx := Suc (clock_idx u)\<rparr>) = (Inr x, t)"
    using assms False by (auto simp: delivery_failed_def fail_outbox_def bindE_Inr returnE_def now_op_def)
  note row = settle_outbox_row [OF x]
  show ?thesis using row(1-5) row(6) [OF refl] \<open>\<not> ok\<close> False assms(2)
    by (intro exI [of _ x]) (auto simp: settled_as_def outbox_row_def)
qed

lemma deliver_record_row:
  assumes "deliver_record g w r s = (Inr ok, t)"
  shows "\<exists>x. outbox_row (db t) = (outbox_row (db s))(ob_outbox_id r \<mapsto> x) \<and> clock_src t = clock_src s \<and>
    settled_as (clock_src s) (dw_max_attempts w) r x \<and> (ok \<longleftrightarrow> ob_status x = O_DELIVERED)"
proof -
  have quarantined: ?thesis if same: "core_outbox (db u) = core_outbox (db s) \<and> clock_src u = clock_src s"
    and f: "bindE (fail_outbox (ob_outbox_id r) er None True) (\<lambda>_. returnE False) u = (Inr ok, t)" for u er
  proof -
    obtain x where "\<not> ok" "settle_outbox (ob_outbox_id r) O_QUARANTINED None (Some er) u = (Inr x, t)"
      using f by (auto simp: fail_outbox_def bindE_Inr returnE_def)
    then show ?thesis using settle_final [OF _ _ same] by (intro exI [of _ x]) auto
  qed
  show ?thesis
  proof (cases "ob_topic r = ''action.dispatch''")
    case False
    then show ?thesis using assms quarantined [of s] by (simp add: deliver_record_def)
  next
    case True
    then obtain a u where a: "payload_action (ob_payload r) s = (Inr a, u)"
      and rest: "(case a of
        None \<Rightarrow> bindE (fail_outbox (ob_outbox_id r) ''action_not_found'' None True) (\<lambda>_. returnE False)
      | Some a \<Rightarrow> catchE (bindE (gateway_dispatch g a) (\<lambda>_.
                  bindE (complete_outbox (ob_outbox_id r)) (\<lambda>_. returnE True)))
            (delivery_failed w r)) u = (Inr ok, t)"
      using assms by (auto simp: deliver_record_def bindE_Inr)
    note u = payload_outbox [OF a]
    show ?thesis
    proof (cases a)
      case None
      then show ?thesis using quarantined [OF u] rest by simp
    next
      case (Some b)
      then have attempt: "catchE (bindE (gateway_dispatch g b) (\<lambda>_.
          bindE (complete_outbox (ob_outbox_id r)) (\<lambda>_. returnE True))) (delivery_failed w r) u = (Inr ok, t)"
        using rest by simp
      obtain q v where d: "gateway_dispatch g b u = (q, v)" by fastforce
      have v: "core_outbox (db v) = core_outbox (db s) \<and> clock_src v = clock_src s"
        using dispatch_outbox [OF d] u by simp
      show ?thesis
      proof (cases q)
        case (Inl e)
        then show ?thesis using attempt d delivery_failed_row [OF _ v] by (simp add: catchE_def bindE_def)
      next
        case (Inr a')
        obtain c z where c: "complete_outbox (ob_outbox_id r) v = (c, z)" by fastforce
        show ?thesis
        proof (cases c)
          case (Inl e)
          have z: "core_outbox (db z) = core_outbox (db s) \<and> clock_src z = clock_src s"
            using c [unfolded Inl complete_outbox_def settle_outbox_eq Let_def] v
            by (auto simp: sql_update_none split: option.splits)
          show ?thesis using attempt d \<open>q = Inr a'\<close> c Inl delivery_failed_row [OF _ z]
            by (simp add: catchE_def bindE_def)
        next
          case (Inr x)
          then have "ok" "z = t" using attempt d \<open>q = Inr a'\<close> c by (simp_all add: catchE_def bindE_def returnE_def)
          then show ?thesis using settle_final [OF c [unfolded Inr complete_outbox_def] _ v] by auto
        qed
      qed
    qed
  qed
qed

definition delivered_in :: "core_db \<Rightarrow> OutboxRecord \<Rightarrow> bool" where
  "delivered_in d r \<longleftrightarrow> (case outbox_row d (ob_outbox_id r) of None \<Rightarrow> False | Some x \<Rightarrow> ob_status x = O_DELIVERED)"

lemma deliver_all_rows:
  assumes "deliver_all g w recs (c, f) s = (Inr (c', f'), t)" and "distinct (map ob_outbox_id recs)"
  shows "(\<forall>oid. oid \<notin> ob_outbox_id ` set recs \<longrightarrow> outbox_row (db t) oid = outbox_row (db s) oid) \<and>
    (\<forall>r \<in> set recs. \<exists>x. outbox_row (db t) (ob_outbox_id r) = Some x \<and>
       settled_as (clock_src s) (dw_max_attempts w) r x) \<and>
    c' = c + int (length (filter (delivered_in (db t)) recs)) \<and> c' + f' = c + f + int (length recs)"
  using assms
proof (induction recs arbitrary: c f s)
  case Nil
  then show ?case by (simp add: deliver_all_def returnE_def)
next
  case (Cons r recs)
  obtain ok u where ok: "deliver_record g w r s = (Inr ok, u)"
    and rest: "deliver_all g w recs (if ok then (c + 1, f) else (c, f + 1)) u = (Inr (c', f'), t)"
    using Cons.prems(1) by (auto simp: deliver_all_def bindE_Inr returnE_def)
  obtain x where x: "outbox_row (db u) = (outbox_row (db s))(ob_outbox_id r \<mapsto> x)"
      "clock_src u = clock_src s" "settled_as (clock_src s) (dw_max_attempts w) r x"
      "ok \<longleftrightarrow> ob_status x = O_DELIVERED"
    using deliver_record_row [OF ok] by blast
  let ?c = "if ok then c + 1 else c" let ?f = "if ok then f else f + 1"
  have "deliver_all g w recs (?c, ?f) u = (Inr (c', f'), t)" using rest by (cases ok) auto
  note ih = Cons.IH [OF this]
  have nr: "ob_outbox_id r \<notin> ob_outbox_id ` set recs" "distinct (map ob_outbox_id recs)"
    using Cons.prems(2) by auto
  have row: "outbox_row (db t) (ob_outbox_id r) = Some x" using ih [OF nr(2)] nr(1) x(1) by simp
  then have "delivered_in (db t) r \<longleftrightarrow> ok" using x(4) by (simp add: delivered_in_def)
  then show ?case using ih [OF nr(2)] row x by auto
qed

lemma claimed_distinct:
  assumes "outbox_keys (db s)" and "claim_outbox w ls n s = (Inr recs, u)"
  shows "distinct (map ob_outbox_id recs)"
  using assms(2) claim_outbox_state(1) [OF assms] unfolding claim_outbox_eq [OF assms(1)]
  by (auto simp: Let_def outbox_keys_def intro!: distinct_map_filter)

text \<open>A pass of the delivery worker that returns leaves nothing half done: every row it
  claimed has given up its lease and is delivered, quarantined, or waiting for a retry that is
  granted only below the attempt limit and at the backoff delay; the counters it reports are
  exact.\<close>

theorem delivery_settles_claimed:
  assumes "outbox_keys (db s)"
    and "claim_outbox (dw_owner w) (dw_lease_seconds w) limit s = (Inr recs, u)"
    and "delivery_run_once g w limit s = (Inr run, t)"
  shows "(\<forall>r \<in> set recs. \<exists>x. outbox_row (db t) (ob_outbox_id r) = Some x \<and>
      settled_as (clock_src s) (dw_max_attempts w) r x) \<and>
    wr_claimed run = int (length recs) \<and> wr_claimed run = wr_completed run + wr_failed run \<and>
    wr_completed run = int (length (filter (delivered_in (db t)) recs))"
proof -
  obtain c f where d: "deliver_all g w recs (0, 0) u = (Inr (c, f), t)"
    and run: "run = \<lparr>wr_claimed = int (length recs), wr_completed = c, wr_failed = f\<rparr>"
    using assms(2,3) by (auto simp: delivery_run_once_def bindE_def returnE_def split: prod.splits sum.splits)
  have "clock_src u = clock_src s" using claim_outbox_state(2) [OF assms(1,2)] .
  then show ?thesis using deliver_all_rows [OF d claimed_distinct [OF assms(1,2)]] run by auto
qed

text \<open>A delivery that raised is retried after a delay that starts at one second, doubles with
  every attempt and never exceeds five minutes; until then the row is not due, and at the attempt
  limit it is quarantined instead.\<close>

theorem failed_delivery_backs_off:
  assumes "outbox_row (db s) (ob_outbox_id r) \<noteq> None" and "1 \<le> ob_attempts r"
  shows "\<exists>x t. delivery_failed w r e s = (Inr False, t) \<and> outbox_row (db t) (ob_outbox_id r) = Some x \<and>
    (if ob_attempts r < dw_max_attempts w
     then let d = (if ob_attempts r \<le> 9 then 2 ^ nat (ob_attempts r - 1) else 300) in
       1 \<le> d \<and> d \<le> 300 \<and> (\<forall>now. outbox_due now x \<longleftrightarrow> clock_src s (clock_idx s) + seconds d \<le> now)
     else ob_status x = O_QUARANTINED)"
proof -
  let ?d = "if ob_attempts r \<le> 9 then 2 ^ nat (ob_attempts r - 1) else (300 :: int)"
  have small: "(2 :: int) ^ nat (ob_attempts r - 1) \<le> 2 ^ 8" if "ob_attempts r \<le> 9"
    using that by (intro power_increasing) auto
  have large: "(2 :: int) ^ 9 \<le> 2 ^ nat (ob_attempts r - 1)" if "\<not> ob_attempts r \<le> 9"
    using that by (intro power_increasing) auto
  have d: "backoff_seconds (ob_attempts r) = ?d"
    using assms(2) by (cases "ob_attempts r \<le> 9") (use small large in \<open>auto simp: backoff_seconds_def max_def min_def\<close>)
  obtain y where "outbox_row (db s) (ob_outbox_id r) = Some y" using assms(1) by blast
  then show ?thesis using d [symmetric] backoff_bounds [of "ob_attempts r"]
    by (auto simp: delivery_failed_def fail_outbox_def settle_outbox_eq Let_def bindE_def returnE_def
        now_op_def outbox_row_def outbox_due_def select_one_update_all [where k = ob_outbox_id])
qed

text \<open>A reconciliation pass never raises, whatever connectors and policies do: it returns
  with counters that add up, having looked at no more actions than its limit.\<close>

theorem reconciliation_never_raises:
  "\<exists>run t. reconciliation_run_once g stale limit s = (Inr run, t) \<and> core_step\<^sup>*\<^sup>* s t \<and>
     wr_claimed run = wr_completed run + wr_failed run \<and> (0 \<le> limit \<longrightarrow> wr_claimed run \<le> limit)"
proof -
  have one: "\<exists>ok t. reconcile_one g a u = (Inr ok, t)" for a u
    by (auto simp: reconcile_one_def catchE_def returnE_def split: prod.split sum.split)
  have all: "\<exists>c' f' t. reconcile_all g as (c, f) u = (Inr (c', f'), t) \<and> c' + f' = c + f + int (length as)"
    for as c f u
  proof (induction as arbitrary: c f u)
    case (Cons a as)
    obtain ok v where "reconcile_one g a u = (Inr ok, v)" using one by blast
    then show ?case using Cons.IH [of "c + 1" f v] Cons.IH [of c "f + 1" v]
      by (cases ok) (auto simp: reconcile_all_def bindE_def returnE_def algebra_simps)
  qed (simp add: reconcile_all_def returnE_def)
  let ?as = "due_actions (clock_src s (clock_idx s) - seconds stale) limit
    (projr (fst (list_actions (Some UNKNOWN) limit s))) (projr (fst (list_actions (Some DISPATCHED) limit s)))"
  obtain c f t where all': "reconcile_all g ?as (0, 0) (s\<lparr>clock_idx := Suc (clock_idx s)\<rparr>) = (Inr (c, f), t)"
      "c + f = int (length ?as)"
    using all [of ?as 0 0] by fastforce
  then have run: "reconciliation_run_once g stale limit s =
      (Inr \<lparr>wr_claimed = int (length ?as), wr_completed = c, wr_failed = f\<rparr>, t)"
    by (simp add: reconciliation_run_once_def list_actions_def read_db_def bindE_def now_op_def Let_def
        returnE_def)
  have "0 \<le> limit \<Longrightarrow> int (length ?as) \<le> limit" by (simp add: due_actions_def py_take_def)
  then show ?thesis using core_run.keepsD [OF reconciliation_run_once_keeps run] run all'(2) by simp
qed

section \<open>A concrete pass\<close>

definition demo_worker :: ActionDeliveryWorker where
  "demo_worker = \<lparr>dw_owner = ''w1'', dw_lease_seconds = 30, dw_max_attempts = 5\<rparr>"

lemma demo_pass:
  "map_sum (\<lambda>e. e) (map ob_outbox_id) (fst (claim_outbox ''w1'' 30 10 demo_gworld_authorized)) = Inr [''OUT-xxx'']"
  "map_sum (\<lambda>e. e) wr_completed (fst (delivery_run_once demo_gateway demo_worker 10 demo_gworld_authorized)) = Inr 1"
  "map ob_outbox_id (core_outbox (db demo_gworld_authorized)) = [''OUT-xxx'']"
  by code_simp+

theorem delivery_settles_claimed_witness:
  "\<exists>run t x. delivery_run_once demo_gateway demo_worker 10 demo_gworld_authorized = (Inr run, t) \<and>
     wr_claimed run = 1 \<and> outbox_row (db t) ''OUT-xxx'' = Some x \<and> ob_lease_owner x = None"
proof -
  obtain recs u where c: "claim_outbox ''w1'' 30 10 demo_gworld_authorized = (Inr recs, u)"
    and recs: "map ob_outbox_id recs = [''OUT-xxx'']"
    using fst_map_sum_Inr [OF demo_pass(1)] by metis
  obtain run t where d: "delivery_run_once demo_gateway demo_worker 10 demo_gworld_authorized = (Inr run, t)"
    using fst_map_sum_Inr [OF demo_pass(2)] by metis
  have "outbox_keys (db demo_gworld_authorized)" using demo_pass(3) by (simp add: outbox_keys_def)
  from delivery_settles_claimed [of _ demo_worker, OF this _ d] c recs d show ?thesis
    by (fastforce simp: demo_worker_def settled_as_def map_eq_Cons_conv)
qed

theorem failed_delivery_backs_off_witness:
  "\<exists>x t. delivery_failed demo_worker (demo_row\<lparr>ob_attempts := 3\<rparr>) (KeyError ''k'') (demo_outbox O_LEASED) = (Inr False, t) \<and>
     outbox_row (db t) (ob_outbox_id demo_row) = Some x \<and>
     \<not> outbox_due (clock_src (demo_outbox O_LEASED) (clock_idx (demo_outbox O_LEASED)) + seconds 3) x"
proof -
  have row: "outbox_row (db (demo_outbox O_LEASED)) (ob_outbox_id (demo_row\<lparr>ob_attempts := 3\<rparr>)) \<noteq> None"
    by code_simp
  have "1 \<le> ob_attempts (demo_row\<lparr>ob_attempts := 3\<rparr>)" by simp
  from failed_delivery_backs_off [OF row this, of demo_worker "KeyError ''k''"] show ?thesis
    by (auto simp: demo_worker_def Let_def seconds_def)
qed

theorem reconciliation_never_raises_witness:
  "\<exists>run t. reconciliation_run_once demo_lossy_gateway 60 10 demo_gworld_unknown = (Inr run, t) \<and>
     wr_claimed run = wr_completed run + wr_failed run \<and> wr_claimed run \<le> 10"
  using reconciliation_never_raises [of demo_lossy_gateway 60 10 demo_gworld_unknown] by auto

end
