(* ===== verification/Database.thy ===== *)
theory Database
  imports Action_Service
begin

text \<open>
  The business database: its schema (\<open>database/db.py\<close>), the statements the code issues, and the
  repositories (\<open>database/repository.py\<close>). A row is the dict the queries return; a table is the
  list of its rows in rowid order. Columns hold the values they are given (every caller binds
  values of the declared type); connections are opened per statement and never enable foreign
  keys. The audit repository is in its own theory.
\<close>

section \<open>Schema\<close>

type_synonym row = pdict

record column =
  col_name :: string
  col_not_null :: bool
  col_default :: json

record table =
  tab_columns :: "column list"
  tab_unique :: "string list"

definition required :: "string \<Rightarrow> column" where
  "required c = \<lparr>col_name = c, col_not_null = True, col_default = JNull\<rparr>"

definition nullable :: "string \<Rightarrow> column" where
  "nullable c = \<lparr>col_name = c, col_not_null = False, col_default = JNull\<rparr>"

definition defaulted :: "string \<Rightarrow> json \<Rightarrow> column" where
  "defaulted c v = \<lparr>col_name = c, col_not_null = False, col_default = v\<rparr>"

definition table_of :: "string \<Rightarrow> column list \<Rightarrow> table" where
  "table_of key cs = \<lparr>tab_columns = nullable key # cs, tab_unique = [key]\<rparr>"

definition reference_schema :: "(string \<times> table) list" where
  "reference_schema =
    [(''customers'', table_of ''customer_id'' [required ''name'', required ''email'', nullable ''phone'',
        defaulted ''account_status'' (JStr ''active''), defaulted ''loyalty_tier'' (JStr ''bronze''),
        defaulted ''total_orders'' (JInt 0), required ''member_since'']),
     (''orders'', table_of ''order_id'' [required ''customer_id'', required ''merchant_name'', required ''total'',
        required ''status'', required ''order_date'', nullable ''delivery_date'',
        defaulted ''days_since_delivery'' (JInt 0), nullable ''payment_method'', nullable ''shipping_address'']),
     (''order_items'', table_of ''id'' [required ''order_id'', required ''name'', required ''sku'', required ''qty'',
        required ''price'']),
     (''accounts'', table_of ''account_id'' [required ''customer_name'', nullable ''email'',
        defaulted ''status'' (JStr ''active'')]),
     (''transactions'', table_of ''txn_id'' [required ''account_id'', required ''amount'', required ''merchant'',
        required ''date'', nullable ''location'', defaulted ''is_flagged'' (JInt 0),
        defaulted ''type'' (JStr ''purchase'')]),
     (''fraud_alerts'', table_of ''alert_id'' [required ''type'', required ''severity'', required ''risk_score'',
        required ''account_id'', required ''customer_name'', required ''triggered_at'', nullable ''description'',
        nullable ''amount_involved'', nullable ''transactions_flagged'', defaulted ''status'' (JStr ''open'')]),
     (''devices'', table_of ''device_id'' [required ''account_id'', required ''type'', nullable ''os'',
        nullable ''first_seen'', defaulted ''trusted'' (JInt 0)]),
     (''login_history'', table_of ''id'' [required ''account_id'', required ''device'', nullable ''device_id'',
        nullable ''location'', required ''timestamp'', defaulted ''is_new'' (JInt 0), nullable ''ip'']),
     (''risk_indicators'', table_of ''id'' [required ''account_id'', required ''indicator''])]"

text \<open>With what \<open>init_db\<close> adds: the unique index of \<open>refunds\<close> and the hash columns of \<open>audit_trail\<close>.\<close>

definition operations_schema :: "(string \<times> table) list" where
  "operations_schema =
    [(''cases'', table_of ''case_id'' [nullable ''customer_id'', defaulted ''status'' (JStr ''open''),
        required ''created_at'', nullable ''updated_at'', nullable ''notes'']),
     (''case_notes'', table_of ''note_id'' [required ''case_id'', required ''note'', required ''created_at'',
        defaulted ''created_by'' (JStr ''system'')]),
     (''escalations'', table_of ''escalation_id'' [required ''case_id'', required ''reason'', required ''priority'',
        nullable ''assigned_to'', nullable ''estimated_response'', required ''escalated_at'',
        defaulted ''status'' (JStr ''escalated'')]),
     (''refunds'', (table_of ''refund_id'' [required ''order_id'', required ''amount'', defaulted ''currency'' (JStr ''USD''),
        defaulted ''status'' (JStr ''processed''), nullable ''reason'', nullable ''refund_method'',
        nullable ''estimated_days'', required ''processed_at''])\<lparr>tab_unique := [''refund_id'', ''order_id'']\<rparr>),
     (''disputes'', table_of ''dispute_id'' [required ''customer_id'', required ''transaction_id'', nullable ''account_id'',
        required ''dispute_type'', required ''amount'', required ''merchant'', required ''transaction_date'',
        required ''reported_date'', nullable ''statement_date'', nullable ''days_since_transaction'',
        nullable ''days_since_statement'', nullable ''liability_tier'', nullable ''max_liability'',
        defaulted ''status'' (JStr ''open''), defaulted ''provisional_credit_issued'' (JInt 0),
        nullable ''provisional_credit_date'', nullable ''provisional_credit_amount'', nullable ''resolution'',
        nullable ''resolution_date'', nullable ''resolution_reason'', nullable ''investigation_deadline'',
        nullable ''payment_method'', nullable ''metadata'']),
     (''knowledge_articles'', table_of ''article_id'' [required ''title'', required ''summary'', nullable ''content'',
        defaulted ''relevance_score'' (JFloat 0)]),
     (''audit_trail'', table_of ''entry_id'' [required ''timestamp'', required ''action'', required ''actor'',
        required ''resource_type'', required ''resource_id'', nullable ''correlation_id'', nullable ''session_id'',
        nullable ''procedure_id'', nullable ''step_id'', nullable ''before_state'', nullable ''after_state'',
        nullable ''metadata'', nullable ''previous_hash'', nullable ''entry_hash''])]"

definition business_schema :: "(string \<times> table) list" where
  "business_schema = reference_schema @ operations_schema"

section \<open>Statements\<close>

record bworld = env +
  biz :: "string \<Rightarrow> row list"

type_synonym ('a, 'z) bop = "('a, 'z bworld_scheme) op"

definition cell :: "row \<Rightarrow> string \<Rightarrow> json" where
  "cell r c = get_or_null r c"

definition columns_of :: "string \<Rightarrow> string list" where
  "columns_of t = (case dict_get business_schema t of None \<Rightarrow> [] | Some tab \<Rightarrow> map col_name (tab_columns tab))"

definition operational_error :: exn where
  "operational_error = OtherError ''OperationalError''"

text \<open>\<open>SELECT * FROM t WHERE c = ?\<close>, with a text parameter.\<close>

definition select_where :: "string \<Rightarrow> string \<Rightarrow> string \<Rightarrow> (row list, 'z) bop" where
  "select_where t c v s =
     (if c \<in> set (columns_of t) then Inr (filter (\<lambda>r. cell r c = JStr v) (biz s t)) else Inl operational_error, s)"

definition query_one :: "string \<Rightarrow> string \<Rightarrow> string \<Rightarrow> (row option, 'z) bop" where
  "query_one t c v = bindE (select_where t c v) (\<lambda>rows. returnE (case rows of [] \<Rightarrow> None | r # _ \<Rightarrow> Some r))"

text \<open>\<open>INSERT INTO t (...) VALUES (...)\<close>: missing columns take their default, then the constraints.\<close>

definition full_row :: "table \<Rightarrow> row \<Rightarrow> row" where
  "full_row tab vals =
     map (\<lambda>c. (col_name c, case dict_get vals (col_name c) of None \<Rightarrow> col_default c | Some v \<Rightarrow> v)) (tab_columns tab)"

definition null_violation :: "table \<Rightarrow> row \<Rightarrow> bool" where
  "null_violation tab r \<longleftrightarrow> list_ex (\<lambda>c. col_not_null c \<and> cell r (col_name c) = JNull) (tab_columns tab)"

definition unique_violation :: "table \<Rightarrow> row list \<Rightarrow> row \<Rightarrow> bool" where
  "unique_violation tab rows r \<longleftrightarrow>
     list_ex (\<lambda>c. cell r c \<noteq> JNull \<and> list_ex (\<lambda>r'. cell r' c = cell r c) rows) (tab_unique tab)"

definition insert_into :: "string \<Rightarrow> row \<Rightarrow> (unit, 'z) bop" where
  "insert_into t vals s =
     (case dict_get business_schema t of
        None \<Rightarrow> (Inl operational_error, s)
      | Some tab \<Rightarrow>
          let r = full_row tab vals in
          if null_violation tab r \<or> unique_violation tab (biz s t) r then (Inl (IntegrityError t), s)
          else (Inr (), s\<lparr>biz := (biz s)(t := biz s t @ [r])\<rparr>))"

text \<open>\<open>UPDATE t SET ... WHERE c = ?\<close>\<close>

definition update_where :: "string \<Rightarrow> row \<Rightarrow> string \<Rightarrow> string \<Rightarrow> (unit, 'z) bop" where
  "update_where t sets c v s =
     (if list_all (\<lambda>k. k \<in> set (columns_of t)) (c # dict_keys sets)
      then (Inr (), s\<lparr>biz := (biz s)(t := sql_update (\<lambda>r. cell r c = JStr v) (\<lambda>r. dict_merge r sets) (biz s t))\<rparr>)
      else (Inl operational_error, s))"

text \<open>\<open>ORDER BY c DESC\<close>: NULL lowest, then numbers, then text.\<close>

fun sort_value :: "json \<Rightarrow> nat \<times> rat \<times> string" where
  "sort_value (JStr s) = (2, 0, s)"
| "sort_value j = (case json_num j of None \<Rightarrow> (0, 0, []) | Some r \<Rightarrow> (1, r, []))"

definition order_desc :: "string \<Rightarrow> row list \<Rightarrow> row list" where
  "order_desc c rows = rev (sort_key (\<lambda>r. sort_value (cell r c)) (rev rows))"

text \<open>\<open>SELECT c1, c2, ... \<close> of rows\<close>

definition project :: "string list \<Rightarrow> row list \<Rightarrow> row list" where
  "project cs rows = map (\<lambda>r. map (\<lambda>c. (c, cell r c)) cs) rows"

section \<open>Repositories\<close>

subsection \<open>Orders, customers and refunds\<close>

definition order_get_by_id :: "string \<Rightarrow> (row option, 'z) bop" where
  "order_get_by_id order_id =
     bindE (query_one ''orders'' ''order_id'' order_id) (\<lambda>found.
     case found of
       None \<Rightarrow> returnE None
     | Some r \<Rightarrow> bindE (getE (\<lambda>s. filter (\<lambda>c. cell c ''customer_id'' = cell r ''customer_id'') (biz s ''customers''))) (\<lambda>cs.
         returnE (case cs of [] \<Rightarrow> None
           | c # _ \<Rightarrow> Some (r @ [(''customer_name'', cell c ''name''), (''email'', cell c ''email'')]))))"

definition order_get_items :: "string \<Rightarrow> (row list, 'z) bop" where
  "order_get_items order_id =
     bindE (select_where ''order_items'' ''order_id'' order_id) (\<lambda>rows.
     returnE (project [''name'', ''sku'', ''qty'', ''price''] rows))"

definition customer_get_by_id :: "string \<Rightarrow> (row option, 'z) bop" where
  "customer_get_by_id customer_id = query_one ''customers'' ''customer_id'' customer_id"

definition customer_list_all :: "(row list, 'z) bop" where
  "customer_list_all = getE (\<lambda>s. project [''customer_id'', ''name''] (biz s ''customers''))"

definition refund_create :: "string \<Rightarrow> string \<Rightarrow> json \<Rightarrow> json \<Rightarrow> string \<Rightarrow> time \<Rightarrow> (unit, 'z) bop" where
  "refund_create refund_id order_id amount reason refund_method processed_at =
     insert_into ''refunds'' [(''refund_id'', JStr refund_id), (''order_id'', JStr order_id), (''amount'', amount),
       (''currency'', JStr ''USD''), (''status'', JStr ''processed''), (''reason'', reason),
       (''refund_method'', JStr refund_method), (''estimated_days'', JStr ''5-7 business days''),
       (''processed_at'', JInt processed_at)]"

definition refund_get_by_order :: "string \<Rightarrow> (row option, 'z) bop" where
  "refund_get_by_order order_id = query_one ''refunds'' ''order_id'' order_id"

subsection \<open>Cases and escalations\<close>

definition case_get_by_id :: "string \<Rightarrow> (row option, 'z) bop" where
  "case_get_by_id case_id = query_one ''cases'' ''case_id'' case_id"

definition opt_str :: "string option \<Rightarrow> json" where
  "opt_str x = (case x of None \<Rightarrow> JNull | Some s \<Rightarrow> JStr s)"

definition case_upsert :: "string \<Rightarrow> string \<Rightarrow> string \<Rightarrow> string option \<Rightarrow> (unit, 'z) bop" where
  "case_upsert case_id status notes customer_id =
     bindE now_op (\<lambda>now.
     bindE (query_one ''cases'' ''case_id'' case_id) (\<lambda>existing.
     if existing \<noteq> None
     then update_where ''cases'' [(''status'', JStr status), (''notes'', JStr notes), (''updated_at'', JInt now)]
            ''case_id'' case_id
     else insert_into ''cases'' [(''case_id'', JStr case_id), (''customer_id'', opt_str customer_id),
            (''status'', JStr status), (''notes'', JStr notes), (''created_at'', JInt now), (''updated_at'', JInt now)]))"

definition case_add_note :: "string \<Rightarrow> string \<Rightarrow> string \<Rightarrow> string \<Rightarrow> (unit, 'z) bop" where
  "case_add_note note_id case_id note created_by =
     bindE now_op (\<lambda>now.
     insert_into ''case_notes'' [(''note_id'', JStr note_id), (''case_id'', JStr case_id), (''note'', JStr note),
       (''created_at'', JInt now), (''created_by'', JStr created_by)])"

definition escalation_create :: "string \<Rightarrow> string \<Rightarrow> string \<Rightarrow> string \<Rightarrow> string \<Rightarrow> string \<Rightarrow> (unit, 'z) bop" where
  "escalation_create escalation_id case_id reason priority assigned_to estimated_response =
     bindE now_op (\<lambda>now.
     insert_into ''escalations'' [(''escalation_id'', JStr escalation_id), (''case_id'', JStr case_id),
       (''reason'', JStr reason), (''priority'', JStr priority), (''assigned_to'', JStr assigned_to),
       (''estimated_response'', JStr estimated_response), (''escalated_at'', JInt now), (''status'', JStr ''escalated'')])"

subsection \<open>Fraud operations\<close>

definition alert_get_by_id :: "string \<Rightarrow> (row option, 'z) bop" where
  "alert_get_by_id alert_id = query_one ''fraud_alerts'' ''alert_id'' alert_id"

definition alert_close :: "string \<Rightarrow> (unit, 'z) bop" where
  "alert_close alert_id = update_where ''fraud_alerts'' [(''status'', JStr ''closed'')] ''alert_id'' alert_id"

definition account_get_by_id :: "string \<Rightarrow> (row option, 'z) bop" where
  "account_get_by_id account_id = query_one ''accounts'' ''account_id'' account_id"

definition account_update_status :: "string \<Rightarrow> string \<Rightarrow> (unit, 'z) bop" where
  "account_update_status account_id status =
     update_where ''accounts'' [(''status'', JStr status)] ''account_id'' account_id"

definition transactions_by_account :: "string \<Rightarrow> (row list, 'z) bop" where
  "transactions_by_account account_id =
     bindE (select_where ''transactions'' ''account_id'' account_id) (\<lambda>rows. returnE (order_desc ''date'' rows))"

definition get_devices :: "string \<Rightarrow> (row list, 'z) bop" where
  "get_devices account_id = select_where ''devices'' ''account_id'' account_id"

definition get_login_history :: "string \<Rightarrow> (row list, 'z) bop" where
  "get_login_history account_id =
     bindE (select_where ''login_history'' ''account_id'' account_id) (\<lambda>rows. returnE (order_desc ''timestamp'' rows))"

definition get_risk_indicators :: "string \<Rightarrow> (json list, 'z) bop" where
  "get_risk_indicators account_id =
     bindE (select_where ''risk_indicators'' ''account_id'' account_id) (\<lambda>rows.
     returnE (map (\<lambda>r. cell r ''indicator'') rows))"

subsection \<open>Knowledge\<close>

fun text_of :: "json \<Rightarrow> string" where
  "text_of (JStr s) = s"
| "text_of _ = []"

definition knowledge_search :: "string \<Rightarrow> (row list, 'z) bop" where
  "knowledge_search query =
     bindE (getE (\<lambda>s. project [''article_id'', ''title'', ''summary'', ''relevance_score'']
       (order_desc ''relevance_score'' (biz s ''knowledge_articles'')))) (\<lambda>all_articles.
     let words = split_words [] (lower query);
         matched = filter (\<lambda>a. list_ex (\<lambda>w. substring w (lower (text_of (cell a ''title''))) \<or>
           substring w (lower (text_of (cell a ''summary'')))) words) all_articles in
     returnE (if matched \<noteq> [] then matched else take 2 all_articles))"

subsection \<open>Disputes\<close>

definition dispute_get_by_id :: "string \<Rightarrow> (row option, 'z) bop" where
  "dispute_get_by_id dispute_id = query_one ''disputes'' ''dispute_id'' dispute_id"

definition dispute_get_by_customer :: "string \<Rightarrow> (row list, 'z) bop" where
  "dispute_get_by_customer customer_id =
     bindE (select_where ''disputes'' ''customer_id'' customer_id) (\<lambda>rows. returnE (order_desc ''reported_date'' rows))"

definition dispute_get_by_transaction :: "string \<Rightarrow> (row option, 'z) bop" where
  "dispute_get_by_transaction transaction_id = query_one ''disputes'' ''transaction_id'' transaction_id"

text \<open>The seventeen columns of a new dispute, by name.\<close>

definition dispute_columns :: "string list" where
  "dispute_columns = [''dispute_id'', ''customer_id'', ''transaction_id'', ''account_id'', ''dispute_type'',
     ''amount'', ''merchant'', ''transaction_date'', ''reported_date'', ''statement_date'',
     ''days_since_transaction'', ''days_since_statement'', ''liability_tier'', ''max_liability'',
     ''investigation_deadline'', ''payment_method'', ''metadata'']"

definition dispute_create :: "row \<Rightarrow> (unit, 'z) bop" where
  "dispute_create args = insert_into ''disputes'' (map (\<lambda>c. (c, cell args c)) dispute_columns)"

definition dispute_update_status :: "string \<Rightarrow> string \<Rightarrow> row \<Rightarrow> (unit, 'z) bop" where
  "dispute_update_status dispute_id status kwargs =
     update_where ''disputes'' ((''status'', JStr status) # filter (\<lambda>(_, v). v \<noteq> JNull) kwargs) ''dispute_id'' dispute_id"

definition dispute_provisional_credit :: "string \<Rightarrow> json \<Rightarrow> json \<Rightarrow> (unit, 'z) bop" where
  "dispute_provisional_credit dispute_id amount credit_date =
     update_where ''disputes'' [(''provisional_credit_issued'', JInt 1), (''provisional_credit_amount'', amount),
       (''provisional_credit_date'', credit_date), (''status'', JStr ''provisional_credit'')] ''dispute_id'' dispute_id"

section \<open>Start-up\<close>

text \<open>\<open>DELETE FROM refunds WHERE rowid NOT IN (SELECT MIN(rowid) FROM refunds GROUP BY order_id)\<close>\<close>

fun keep_first :: "('a \<Rightarrow> 'k) \<Rightarrow> 'a list \<Rightarrow> 'a list" where
  "keep_first k [] = []"
| "keep_first k (x # xs) = x # filter (\<lambda>y. k y \<noteq> k x) (keep_first k xs)"

definition dedupe_refunds :: "(unit, 'z) bop" where
  "dedupe_refunds s = (Inr (), s\<lparr>biz := (biz s)(''refunds'' := keep_first (\<lambda>r. cell r ''order_id'') (biz s ''refunds''))\<rparr>)"

lemma keep_first_spec:
  "distinct (map k (keep_first k xs)) \<and> (\<forall>a. select_one (\<lambda>x. k x = a) (keep_first k xs) = select_one (\<lambda>x. k x = a) xs)"
proof (induction xs)
  case (Cons x xs)
  have "select_one (\<lambda>y. k y = a) (filter (\<lambda>y. k y \<noteq> k x) ys) = (if a = k x then None else select_one (\<lambda>y. k y = a) ys)"
    for a ys by (induction ys) (auto simp: select_one_def)
  with Cons show ?case by (auto simp: select_one_def distinct_map inj_on_def)
qed (simp add: select_one_def)

end
