(* ===== verification/Refunds.thy ===== *)
theory Refunds
  imports Database Bridge
begin

text \<open>
  The adapters over the business database: the refund connector behind the gateway
  (\<open>core/connectors.py\<close>) and the authoritative resource providers (\<open>integrations/resources.py\<close>).
  The business database is the state of the provider, so the gateway reaches it only through the
  connector. Dispatch is split where another task may run: the checks, and the insertion.
\<close>

section \<open>The refund connector\<close>

text \<open>\<open>IssueRefundPayload\<close> declares the identifiers of the command as text.\<close>

definition text_param :: "pdict \<Rightarrow> string \<Rightarrow> exn + string" where
  "text_param params k = (case dict_get params k of
      None \<Rightarrow> Inl (KeyError k) | Some (JStr s) \<Rightarrow> Inr s | Some _ \<Rightarrow> Inl (TypeError k))"

text \<open>\<open>days_since_delivery\<close> is an INTEGER column, \<open>total\<close> a REAL one.\<close>

definition order_days :: "row \<Rightarrow> exn + int" where
  "order_days order = (case cell order ''days_since_delivery'' of
      JInt i \<Rightarrow> Inr i | v \<Rightarrow> if truthy v then Inl (TypeError ''days_since_delivery'') else Inr 0)"

definition order_total :: "row \<Rightarrow> exn + rat" where
  "order_total order = (case json_num (cell order ''total'') of None \<Rightarrow> Inl (TypeError ''total'') | Some r \<Rightarrow> Inr r)"

definition order_decision :: "string \<Rightarrow> string \<Rightarrow> row \<Rightarrow> exn + RefundDecision" where
  "order_decision order_id customer_id order =
     andThen (order_days order) (\<lambda>days.
     andThen (order_total order) (\<lambda>total.
     Inr (refund_evaluate 30 order_id customer_id (text_of (cell order ''customer_id''))
       (text_of (cell order ''status'')) days total)))"

text \<open>
  The checks: an outcome is known, or the refund of this order is still to be recorded.
\<close>

definition refund_check :: "py_text \<Rightarrow> ActionCommand \<Rightarrow> (ConnectorOutcome + row, 'z) bop" where
  "refund_check py command =
     (let params = cmd_parameters command in
     bindE (liftE (text_param params ''order_id'')) (\<lambda>order_id.
     bindE (order_get_by_id order_id) (\<lambda>found.
     case found of
       None \<Rightarrow> returnE (Inl (outcome_failed [(''reason'', JStr ''order_not_found'')]))
     | Some order \<Rightarrow>
         bindE (liftE (text_param params ''customer_id'')) (\<lambda>customer_id.
         bindE (liftE (order_decision order_id customer_id order)) (\<lambda>decision.
         if \<not> rf_eligible decision
         then returnE (Inl (outcome_failed [(''reason'', JStr (rf_reason decision))]))
         else
         bindE (liftE (andThen (dict_require params ''refund_amount'') (py_float py))) (\<lambda>amount.
         if amount \<noteq> rf_amount decision
         then returnE (Inl (outcome_failed [(''reason'', JStr ''amount_changed'')]))
         else
         bindE (refund_get_by_order order_id) (\<lambda>existing.
         returnE (case existing of Some r \<Rightarrow> Inl (outcome_succeeded r) | None \<Rightarrow> Inr order))))))))"

text \<open>\<open>refund_digest\<close> stands for the first sixteen hex digits of the SHA-256 of the key.\<close>

definition refund_id_of :: "(string \<Rightarrow> string) \<Rightarrow> ActionCommand \<Rightarrow> string" where
  "refund_id_of refund_digest command = ''REF-'' @ refund_digest (cmd_idempotency_key command)"

definition refund_method_of :: "row \<Rightarrow> string" where
  "refund_method_of order = (if truthy (cell order ''payment_method'') then text_of (cell order ''payment_method'')
     else ''original_payment_method'')"

definition refund_record ::
  "(string \<Rightarrow> string) \<Rightarrow> ActionCommand \<Rightarrow> row \<Rightarrow> (ConnectorOutcome, 'z) bop" where
  "refund_record refund_digest command order =
     (let refund_id = refund_id_of refund_digest command;
          order_id = text_of (cell order ''order_id'') in
     bindE now_op (\<lambda>processed_at.
     bindE (liftE (dict_require (cmd_parameters command) ''reason'')) (\<lambda>reason.
     bindE (refund_create refund_id order_id (cell order ''total'') reason
       (refund_method_of order) processed_at) (\<lambda>_.
     returnE (outcome_succeeded [(''refund_id'', JStr refund_id), (''order_id'', JStr order_id),
       (''amount'', cell order ''total''), (''currency'', JStr ''USD''), (''status'', JStr ''processed''),
       (''processed_at'', JInt processed_at)])))))"

definition refund_dispatch :: "py_text \<Rightarrow> (string \<Rightarrow> string) \<Rightarrow> ActionCommand \<Rightarrow> (ConnectorOutcome, 'z) bop" where
  "refund_dispatch py refund_digest command =
     bindE (refund_check py command) (\<lambda>r.
     case r of Inl outcome \<Rightarrow> returnE outcome | Inr order \<Rightarrow> refund_record refund_digest command order)"

definition refund_reconcile :: "ActionCommand \<Rightarrow> pdict option \<Rightarrow> (ConnectorOutcome, 'z) bop" where
  "refund_reconcile command prior =
     bindE (liftE (text_param (cmd_parameters command) ''order_id'')) (\<lambda>order_id.
     bindE (refund_get_by_order order_id) (\<lambda>refund.
     returnE (case refund of
        Some r \<Rightarrow> outcome_succeeded r
      | None \<Rightarrow> outcome_unknown (case prior of
            None \<Rightarrow> [(''reason'', JStr ''provider_outcome_unresolved'')]
          | Some [] \<Rightarrow> [(''reason'', JStr ''provider_outcome_unresolved'')]
          | Some d \<Rightarrow> d))))"

definition DatabaseRefundConnector :: "py_text \<Rightarrow> (string \<Rightarrow> string) \<Rightarrow> 'z bworld_scheme ActionConnector" where
  "DatabaseRefundConnector py refund_digest =
     \<lparr>conn_dispatch = refund_dispatch py refund_digest, conn_reconcile = refund_reconcile\<rparr>"

section \<open>Authoritative resources\<close>

definition REFERENCE_QUERIES :: "(string \<times> (string \<times> string)) list" where
  "REFERENCE_QUERIES =
    [(''order'', (''orders'', ''order_id'')), (''transaction'', (''transactions'', ''transaction_id'')),
     (''dispute'', (''disputes'', ''dispute_id'')), (''account'', (''accounts'', ''account_id'')),
     (''fraud_alert'', (''fraud_alerts'', ''alert_id''))]"

definition or_text :: "json \<Rightarrow> string \<Rightarrow> json" where
  "or_text v d = (if truthy v then v else JStr d)"

definition order_payload :: "row \<Rightarrow> pdict" where
  "order_payload r = dict_merge r
     [(''amount'', cell r ''total''), (''refund_amount'', cell r ''total''),
      (''currency'', or_text (cell r ''currency'') ''USD''),
      (''payment_method'', or_text (cell r ''payment_method'') ''original_payment_method'')]"

definition transaction_payload :: "string \<Rightarrow> row \<Rightarrow> (pdict, 'z) bop" where
  "transaction_payload resource_id r =
     (let p = dict_set r ''transaction_id'' (get_default r ''txn_id'' (JStr resource_id)) in
     bindE (select_where ''disputes'' ''transaction_id'' resource_id) (\<lambda>rows.
     returnE (case order_desc ''reported_date'' rows of [] \<Rightarrow> p
       | d # _ \<Rightarrow> dict_set p ''customer_id'' (cell d ''customer_id''))))"

text \<open>\<open>version\<close> stands for the first twelve hex digits of the SHA-256 of the canonical payload.\<close>

definition reference_get_resource ::
  "(json \<Rightarrow> int) \<Rightarrow> string \<Rightarrow> string \<Rightarrow> (authoritative_resource option, 'z) bop" where
  "reference_get_resource version resource_type resource_id =
     (case dict_get REFERENCE_QUERIES resource_type of
        None \<Rightarrow> returnE None
      | Some (table, key) \<Rightarrow>
          bindE (query_one table key resource_id) (\<lambda>found.
          case found of
            None \<Rightarrow> returnE None
          | Some r \<Rightarrow>
              bindE (if resource_type = ''order'' then returnE (order_payload r)
                     else if resource_type = ''transaction'' then transaction_payload resource_id r
                     else returnE r) (\<lambda>payload.
              returnE (Some \<lparr>res_payload = payload, res_version = version (sort_keys (JObj payload))\<rparr>))))"

fun chained_get_resource ::
  "(string \<Rightarrow> string \<Rightarrow> (authoritative_resource option, 's) op) list \<Rightarrow> string \<Rightarrow> string \<Rightarrow>
   (authoritative_resource option, 's) op" where
  "chained_get_resource [] resource_type resource_id = returnE None"
| "chained_get_resource (p # ps) resource_type resource_id =
     bindE (p resource_type resource_id) (\<lambda>resource.
     if resource \<noteq> None then returnE resource else chained_get_resource ps resource_type resource_id)"

section \<open>One refund per order\<close>

definition unique_refunds :: "'z bworld_scheme \<Rightarrow> bool" where
  "unique_refunds s \<longleftrightarrow> distinct (map (\<lambda>r. cell r ''order_id'') (biz s ''refunds''))"

definition refunds_grow :: "'z bworld_scheme \<Rightarrow> 'z bworld_scheme \<Rightarrow> bool" where
  "refunds_grow s t \<longleftrightarrow> (\<exists>new. biz t ''refunds'' = biz s ''refunds'' @ new) \<and> (unique_refunds s \<longrightarrow> unique_refunds t)"

interpretation refunds_rel: op_rel refunds_grow
  by unfold_locales (auto simp: refunds_grow_def)

definition refunds_table :: table where
  "refunds_table = the (dict_get business_schema ''refunds'')"

lemma refunds_schema:
  "dict_get business_schema ''refunds'' = Some refunds_table"
  "tab_unique refunds_table = [''refund_id'', ''order_id'']"
  "null_violation refunds_table r \<longleftrightarrow> cell r ''order_id'' = JNull \<or> cell r ''amount'' = JNull \<or> cell r ''processed_at'' = JNull"
  "full_row refunds_table vals = map (\<lambda>(c, d). (c, case dict_get vals c of None \<Rightarrow> d | Some v \<Rightarrow> v))
     [(''refund_id'', JNull), (''order_id'', JNull), (''amount'', JNull), (''currency'', JStr ''USD''),
      (''status'', JStr ''processed''), (''reason'', JNull), (''refund_method'', JNull), (''estimated_days'', JNull),
      (''processed_at'', JNull)]"
  by (simp_all add: refunds_table_def business_schema_def reference_schema_def operations_schema_def dict_get_def
      table_of_def null_violation_def full_row_def required_def nullable_def defaulted_def
      split: option.split)

lemma insert_refunds_grow: "refunds_rel.keeps (insert_into ''refunds'' vals)"
  unfolding refunds_rel.keeps_def
proof (intro allI)
  fix s :: "'a bworld_scheme"
  let ?r = "full_row refunds_table vals"
  show "refunds_grow s (snd (insert_into ''refunds'' vals s))"
  proof (cases "null_violation refunds_table ?r \<or> unique_violation refunds_table (biz s ''refunds'') ?r")
    case True
    then show ?thesis by (simp add: insert_into_def refunds_schema(1) Let_def refunds_rel.R_refl)
  next
    case False
    then have "cell ?r ''order_id'' \<notin> (\<lambda>r. cell r ''order_id'') ` set (biz s ''refunds'')"
      by (auto simp: refunds_schema(2,3) unique_violation_def list_ex_iff simp del: set_map)
    then show ?thesis using False
      by (simp add: insert_into_def refunds_schema(1) Let_def refunds_grow_def unique_refunds_def)
  qed
qed

lemma refund_reads_grow: "refunds_rel.keeps (select_where tb c v)" "refunds_rel.keeps now_op"
  by (auto simp: refunds_rel.keeps_def select_where_def now_op_def refunds_grow_def unique_refunds_def)

lemmas refunds_intros = refunds_rel.keeps_intros refund_reads_grow insert_refunds_grow

lemma refund_ops_grow:
  "refunds_rel.keeps (refund_check py c)" "refunds_rel.keeps (refund_record h c order)"
  "refunds_rel.keeps (refund_dispatch py h c)" "refunds_rel.keeps (refund_reconcile c prior)"
  unfolding refund_dispatch_def refund_check_def refund_record_def refund_reconcile_def order_get_by_id_def
    refund_get_by_order_def refund_create_def query_one_def Let_def
  by (auto intro!: refunds_intros split: option.split sum.split)

lemma query_one_eq:
  "query_one tb c v s =
     (if c \<in> set (columns_of tb) then Inr (select_one (\<lambda>r. cell r c = JStr v) (biz s tb)) else Inl operational_error, s)"
proof -
  have "(case filter p xs of [] \<Rightarrow> None | r # _ \<Rightarrow> Some r) = select_one p xs" for p :: "row \<Rightarrow> bool" and xs
    by (induction xs) (auto simp: select_one_def)
  then show ?thesis by (simp add: query_one_def select_where_def bindE_def returnE_def)
qed

lemma known_columns: "''order_id'' \<in> set (columns_of ''refunds'')" "''order_id'' \<in> set (columns_of ''orders'')"
  by (simp_all add: columns_of_def business_schema_def reference_schema_def operations_schema_def dict_get_def
      table_of_def required_def nullable_def defaulted_def)

lemma refund_get_by_order_eq:
  "refund_get_by_order oid s = (Inr (select_one (\<lambda>r. cell r ''order_id'' = JStr oid) (biz s ''refunds'')), s)"
  by (simp add: refund_get_by_order_def query_one_eq known_columns)

lemma order_get_by_id_found:
  assumes "order_get_by_id oid s = (r, t)"
  shows "t = s \<and> (\<forall>order. r = Inr (Some order) \<longrightarrow> cell order ''order_id'' = JStr oid)"
proof -
  have "cell (x @ ys) ''order_id'' = JStr oid" if "cell x ''order_id'' = JStr oid" for x ys
    using that by (auto simp: cell_def get_or_null_def dict_get_def map_add_def split: option.splits)
  then show ?thesis using assms
    by (auto simp: order_get_by_id_def bindE_def query_one_eq known_columns getE_def returnE_def
        dest!: select_one_Some split: option.splits list.splits)
qed

text \<open>When the connector may pay: the caller's own completed order, in time, for exactly its total.\<close>

definition payable :: "py_text \<Rightarrow> ActionCommand \<Rightarrow> 'z bworld_scheme \<Rightarrow> string \<Rightarrow> row \<Rightarrow> bool" where
  "payable py c s oid order \<longleftrightarrow>
     text_param (cmd_parameters c) ''order_id'' = Inr oid \<and> fst (order_get_by_id oid s) = Inr (Some order) \<and>
     text_param (cmd_parameters c) ''customer_id'' = Inr (text_of (cell order ''customer_id'')) \<and>
     text_of (cell order ''status'') \<in> {''delivered'', ''completed''} \<and>
     (\<exists>days. order_days order = Inr days \<and> days \<le> 30) \<and>
     (\<exists>total. order_total order = Inr total \<and> 0 < total \<and>
        andThen (dict_require (cmd_parameters c) ''refund_amount'') (py_float py) = Inr total) \<and>
     (\<forall>x \<in> set (biz s ''refunds''). cell x ''order_id'' \<noteq> JStr oid)"

lemma refund_check_read: "snd (refund_check py c s) = s"
  using order_get_by_id_found [of _ s]
  by (auto simp: refund_check_def Let_def bindE_def liftE_def returnE_def refund_get_by_order_eq
      split: prod.split sum.split option.split)

lemma refund_check_pays:
  assumes "refund_check py c s = (Inr (Inr order), t)"
  shows "t = s \<and> (\<exists>oid. payable py c s oid order \<and> cell order ''order_id'' = JStr oid)"
proof -
  obtain oid where oid: "text_param (cmd_parameters c) ''order_id'' = Inr oid"
    using assms by (auto simp: refund_check_def bindE_Inr liftE_def Let_def)
  obtain g where g: "order_get_by_id oid s = (Inr g, s)"
    using assms oid order_get_by_id_found [of oid s]
    by (auto simp: refund_check_def bindE_Inr liftE_def Let_def)
  then have "g = Some order" and
    rest: "\<exists>cid d amount. text_param (cmd_parameters c) ''customer_id'' = Inr cid \<and>
      order_decision oid cid order = Inr d \<and> rf_eligible d \<and>
      andThen (dict_require (cmd_parameters c) ''refund_amount'') (py_float py) = Inr amount \<and> amount = rf_amount d \<and>
      select_one (\<lambda>r. cell r ''order_id'' = JStr oid) (biz s ''refunds'') = None"
    using assms oid by (auto simp: refund_check_def bindE_Inr liftE_def Let_def returnE_def refund_get_by_order_eq
        split: option.splits if_splits)
  then obtain cid d where d: "text_param (cmd_parameters c) ''customer_id'' = Inr cid"
      "order_decision oid cid order = Inr d" "rf_eligible d"
      "andThen (dict_require (cmd_parameters c) ''refund_amount'') (py_float py) = Inr (rf_amount d)"
      "\<forall>x \<in> set (biz s ''refunds''). cell x ''order_id'' \<noteq> JStr oid"
    by (auto simp: select_one_None)
  then have "payable py c s oid order"
    using oid g \<open>g = Some order\<close>
    by (auto simp: payable_def order_decision_def refund_evaluate_def Let_def andThen_def
        split: sum.splits if_splits)
  then show ?thesis using g \<open>g = Some order\<close> order_get_by_id_found [OF g] assms refund_check_read [of py c s] by auto
qed

text \<open>The row the connector inserts.\<close>

definition refund_row :: "(string \<Rightarrow> string) \<Rightarrow> ActionCommand \<Rightarrow> row \<Rightarrow> json \<Rightarrow> time \<Rightarrow> row" where
  "refund_row h c order reason now =
     [(''refund_id'', JStr (refund_id_of h c)), (''order_id'', JStr (text_of (cell order ''order_id''))),
      (''amount'', cell order ''total''), (''currency'', JStr ''USD''), (''status'', JStr ''processed''), (''reason'', reason),
      (''refund_method'', JStr (refund_method_of order)),
      (''estimated_days'', JStr ''5-7 business days''), (''processed_at'', JInt now)]"

lemma refund_row_cells:
  "cell (refund_row h c order reason now) ''order_id'' = JStr (text_of (cell order ''order_id''))"
  "cell (refund_row h c order reason now) ''refund_id'' = JStr (refund_id_of h c)"
  "cell (refund_row h c order reason now) ''amount'' = cell order ''total''"
  by (simp_all add: refund_row_def cell_def get_or_null_def dict_get_def)

lemma insert_refund_eq:
  "insert_into ''refunds'' vals s = (let r = full_row refunds_table vals in
     if cell r ''order_id'' = JNull \<or> cell r ''amount'' = JNull \<or> cell r ''processed_at'' = JNull \<or>
        (\<exists>c \<in> {''refund_id'', ''order_id''}. cell r c \<noteq> JNull \<and> (\<exists>x \<in> set (biz s ''refunds''). cell x c = cell r c))
     then (Inl (IntegrityError ''refunds''), s)
     else (Inr (), s\<lparr>biz := (biz s)(''refunds'' := biz s ''refunds'' @ [r])\<rparr>))"
  by (simp add: insert_into_def refunds_schema(1-3) Let_def unique_violation_def list_ex_iff)

lemma refund_create_eq:
  assumes "r = [(''refund_id'', JStr rid), (''order_id'', JStr oid), (''amount'', amount), (''currency'', JStr ''USD''),
      (''status'', JStr ''processed''), (''reason'', reason), (''refund_method'', JStr m),
      (''estimated_days'', JStr ''5-7 business days''), (''processed_at'', JInt now)]"
  shows "refund_create rid oid amount reason m now s =
     (if amount = JNull \<or> (\<exists>x \<in> set (biz s ''refunds''). cell x ''refund_id'' = JStr rid \<or> cell x ''order_id'' = JStr oid)
      then (Inl (IntegrityError ''refunds''), s)
      else (Inr (), s\<lparr>biz := (biz s)(''refunds'' := biz s ''refunds'' @ [r])\<rparr>))"
proof -
  have row: "full_row refunds_table [(''refund_id'', JStr rid), (''order_id'', JStr oid), (''amount'', amount),
      (''currency'', JStr ''USD''), (''status'', JStr ''processed''), (''reason'', reason), (''refund_method'', JStr m),
      (''estimated_days'', JStr ''5-7 business days''), (''processed_at'', JInt now)] = r"
    unfolding refunds_schema(4) assms by (simp add: dict_get_def)
  have "cell r ''refund_id'' = JStr rid" "cell r ''order_id'' = JStr oid" "cell r ''amount'' = amount"
      "cell r ''processed_at'' = JInt now"
    by (simp_all add: assms cell_def get_or_null_def dict_get_def)
  then show ?thesis unfolding refund_create_def insert_refund_eq row by (auto simp: Let_def)
qed

lemma refund_record_eq:
  "refund_record h c order s =
     (let now = clock_src s (clock_idx s); u = s\<lparr>clock_idx := Suc (clock_idx s)\<rparr> in
      case dict_get (cmd_parameters c) ''reason'' of
        None \<Rightarrow> (Inl (KeyError ''reason''), u)
      | Some reason \<Rightarrow>
          let r = refund_row h c order reason now in
          if cell order ''total'' = JNull \<or>
             (\<exists>x \<in> set (biz s ''refunds''). cell x ''refund_id'' = cell r ''refund_id'' \<or> cell x ''order_id'' = cell r ''order_id'')
          then (Inl (IntegrityError ''refunds''), u)
          else (Inr (outcome_succeeded [(''refund_id'', cell r ''refund_id''), (''order_id'', cell r ''order_id''),
                  (''amount'', cell order ''total''), (''currency'', JStr ''USD''), (''status'', JStr ''processed''),
                  (''processed_at'', JInt now)]),
                u\<lparr>biz := (biz s)(''refunds'' := biz s ''refunds'' @ [r])\<rparr>))"
proof (cases "dict_get (cmd_parameters c) ''reason''")
  case None
  then show ?thesis
    by (simp add: refund_record_def Let_def bindE_def now_op_def liftE_def dict_require_def)
next
  case (Some reason)
  then show ?thesis unfolding refund_record_def Let_def
    by (simp add: bindE_def now_op_def liftE_def dict_require_def refund_row_cells returnE_def
        refund_create_eq [OF refund_row_def [of h c order reason]])
qed

text \<open>What dispatching a refund does to the refunds of the business database: nothing, or exactly
  one new row, reported as a success, for an order that is payable: on record, owned by the customer
  the command names, completed, within thirty days, not yet refunded, and for exactly its total.\<close>

theorem refund_dispatch_effect:
  assumes "refund_dispatch py h c s = (r, t)"
  shows "biz t ''refunds'' = biz s ''refunds'' \<or>
    (\<exists>oid order row outcome. payable py c s oid order \<and> biz t ''refunds'' = biz s ''refunds'' @ [row] \<and>
       cell row ''order_id'' = JStr oid \<and> cell row ''amount'' = cell order ''total'' \<and>
       r = Inr outcome \<and> co_status outcome = SUCCEEDED)"
proof -
  obtain q u where q: "refund_check py c s = (q, u)" by fastforce
  with refund_check_read [of py c s] have "u = s" by simp
  show ?thesis
  proof (cases "\<exists>order. q = Inr (Inr order)")
    case True
    then obtain order where order: "q = Inr (Inr order)" ..
    with refund_check_pays q obtain oid where "payable py c s oid order" "cell order ''order_id'' = JStr oid" by blast
    moreover have "refund_record h c order s = (r, t)"
      using assms q order \<open>u = s\<close> by (simp add: refund_dispatch_def bindE_def)
    ultimately show ?thesis
      by (auto simp: refund_record_eq Let_def refund_row_cells outcome_succeeded_def split: option.splits if_splits)
  next
    case False
    then have "t = s" using assms q \<open>u = s\<close>
      by (auto simp: refund_dispatch_def bindE_def returnE_def split: sum.splits)
    then show ?thesis by simp
  qed
qed

text \<open>
  Any number of tasks between whose checks and insertions others run, and whatever else the
  database sees that leaves the refunds alone.
\<close>

inductive refund_step :: "py_text \<Rightarrow> (string \<Rightarrow> string) \<Rightarrow> 'z bworld_scheme \<Rightarrow> 'z bworld_scheme \<Rightarrow> bool" for py h where
  check: "refund_check py c s = (q, t) \<Longrightarrow> refund_step py h s t"
| insertion: "refund_record h c order s = (out, t) \<Longrightarrow> refund_step py h s t"
| reconcile: "refund_reconcile c prior s = (out, t) \<Longrightarrow> refund_step py h s t"
| other: "biz t ''refunds'' = biz s ''refunds'' \<Longrightarrow> refund_step py h s t"

lemma refund_steps_grow: "(refund_step py h)\<^sup>*\<^sup>* s t \<Longrightarrow> refunds_grow s t"
proof (induction rule: rtranclp_induct)
  case (step u v)
  have "refunds_grow u v" using step(2)
  proof cases
    case other
    then show ?thesis by (simp add: refunds_grow_def unique_refunds_def)
  qed (erule refunds_rel.keepsD [OF refund_ops_grow(1)] refunds_rel.keepsD [OF refund_ops_grow(2)]
      refunds_rel.keepsD [OF refund_ops_grow(4)])+
  with step show ?case using refunds_rel.R_trans by blast
qed (rule refunds_rel.R_refl)

text \<open>C30: A refund is paid once. However dispatches interleave, the refunds on record stay, in
  place, and no order ever has two; and when a task loses the race to insert (the database
  rejects its row), reconciling it finds, in every later state, the refund that was paid.\<close>

theorem refund_paid_once:
  assumes "unique_refunds s" and "(refund_step py h)\<^sup>*\<^sup>* s u"
    and "refund_record h c order u = (Inl (IntegrityError e), v)" and "(refund_step py h)\<^sup>*\<^sup>* v t"
    and "text_param (cmd_parameters c) ''order_id'' = Inr oid" and "cell order ''order_id'' = JStr oid"
    and "cell order ''total'' \<noteq> JNull"
    and "\<forall>x \<in> set (biz u ''refunds''). cell x ''refund_id'' = JStr (refund_id_of h c) \<longrightarrow>
      cell x ''order_id'' = JStr oid"
  shows "unique_refunds t \<and> (\<exists>new. biz t ''refunds'' = biz s ''refunds'' @ new) \<and>
    (\<exists>r \<in> set (biz t ''refunds''). cell r ''order_id'' = JStr oid \<and>
       refund_reconcile c prior t = (Inr (outcome_succeeded r), t))"
proof -
  have v: "biz v = biz u" and ex: "\<exists>x \<in> set (biz u ''refunds''). cell x ''order_id'' = JStr oid"
    using assms(3,6-8) by (auto simp: refund_record_eq Let_def refund_row_cells split: option.splits if_splits)
  have su: "refunds_grow s u" and vt: "refunds_grow v t" using assms(2,4) by (simp_all add: refund_steps_grow)
  then have "unique_refunds t" "\<exists>new. biz t ''refunds'' = biz s ''refunds'' @ new"
    using assms(1) v by (auto simp: refunds_grow_def unique_refunds_def)
  moreover obtain r where "select_one (\<lambda>r. cell r ''order_id'' = JStr oid) (biz t ''refunds'') = Some r"
    using ex v vt by (cases "select_one (\<lambda>r. cell r ''order_id'' = JStr oid) (biz t ''refunds'')")
      (auto simp: select_one_None refunds_grow_def)
  ultimately show ?thesis using assms(5) select_one_Some
    by (fastforce simp: refund_reconcile_def bindE_def liftE_def refund_get_by_order_eq returnE_def)
qed

text \<open>Looking up an authoritative transaction always fails: the reference adapter selects on a
  column \<open>transaction_id\<close> that the table \<open>transactions\<close> does not have, so for every identifier and
  every content of the database the query raises and no resource is ever found.\<close>

theorem transaction_lookup_raises:
  "reference_get_resource version ''transaction'' resource_id s = (Inl operational_error, s)"
  by (simp add: reference_get_resource_def REFERENCE_QUERIES_def dict_get_def bindE_def query_one_eq columns_of_def
      business_schema_def reference_schema_def table_of_def required_def nullable_def defaulted_def)

section \<open>A concrete database\<close>

definition demo_biz_order :: row where
  "demo_biz_order = [(''order_id'', JStr ''O1''), (''customer_id'', JStr ''U1''), (''total'', JFloat 50),
     (''status'', JStr ''delivered''), (''days_since_delivery'', JInt 3), (''payment_method'', JStr ''card'')]"

definition demo_bworld :: bworld where
  "demo_bworld = \<lparr>clock_src = (\<lambda>n. int n), clock_idx = 0, uuid_src = (\<lambda>n. replicate n CHR ''x''), uuid_idx = 0,
     biz = (\<lambda>_. [])(''orders'' := [demo_biz_order],
       ''customers'' := [[(''customer_id'', JStr ''U1''), (''name'', JStr ''Ann''), (''email'', JStr ''a'')]])\<rparr>"

definition demo_refund_command :: ActionCommand where
  "demo_refund_command = demo_command\<lparr>cmd_action := ''issue_refund'', cmd_idempotency_key := ''refund:O1'',
     cmd_parameters := [(''order_id'', JStr ''O1''), (''customer_id'', JStr ''U1''), (''refund_amount'', JFloat 50),
       (''reason'', JStr ''broken'')]\<rparr>"

definition demo_py :: py_text where
  "demo_py = \<lparr>pt_render = (\<lambda>_. []), pt_float = (\<lambda>_. None), pt_int = (\<lambda>_. None), pt_digest = (\<lambda>_. [])\<rparr>"

definition demo_paid :: "(exn + ConnectorOutcome) \<times> bworld" where
  "demo_paid = refund_dispatch demo_py (\<lambda>k. k) demo_refund_command demo_bworld"

lemma demo_paid_facts:
  "map (\<lambda>r. cell r ''order_id'') (biz (snd demo_paid) ''refunds'') = [JStr ''O1'']"
  "map (\<lambda>r. cell r ''refund_id'') (biz (snd demo_paid) ''refunds'') = [JStr ''REF-refund:O1'']"
  "map_sum (\<lambda>e. e) (\<lambda>_. ()) (fst (refund_record (\<lambda>k. k) demo_refund_command demo_biz_order (snd demo_paid))) =
     Inl (IntegrityError ''refunds'')"
  by code_simp+

theorem refund_dispatch_effect_witness:
  "\<exists>oid order. payable demo_py demo_refund_command demo_bworld oid order"
proof -
  have "refund_dispatch demo_py (\<lambda>k. k) demo_refund_command demo_bworld = (fst demo_paid, snd demo_paid)"
    by (simp add: demo_paid_def)
  from refund_dispatch_effect [OF this] demo_paid_facts(1) show ?thesis by (auto simp: demo_bworld_def)
qed

theorem refund_paid_once_witness:
  "\<exists>r. refund_reconcile demo_refund_command None (snd demo_paid) = (Inr (outcome_succeeded r), snd demo_paid)"
proof -
  let ?r = "refund_record (\<lambda>k. k) demo_refund_command demo_biz_order (snd demo_paid)"
  obtain e where e: "?r = (Inl (IntegrityError e), snd ?r)"
    using demo_paid_facts(3) by (cases ?r; cases "fst ?r") auto
  have "refund_step demo_py (\<lambda>k. k) (snd ?r) (snd demo_paid)"
    using e by (intro refund_step.other) (auto simp: refund_record_eq Let_def split: option.splits if_splits)
  then have steps: "(refund_step demo_py (\<lambda>k. k))\<^sup>*\<^sup>* (snd ?r) (snd demo_paid)" ..
  have uniq: "unique_refunds (snd demo_paid)" using demo_paid_facts(1) by (simp add: unique_refunds_def)
  have cells: "cell demo_biz_order ''order_id'' = JStr ''O1''" "cell demo_biz_order ''total'' \<noteq> JNull"
      "text_param (cmd_parameters demo_refund_command) ''order_id'' = Inr ''O1''"
      "\<forall>x \<in> set (biz (snd demo_paid) ''refunds''). cell x ''order_id'' = JStr ''O1''"
    using demo_paid_facts(1)
    by (auto simp: demo_biz_order_def demo_refund_command_def cell_def get_or_null_def dict_get_def text_param_def
        map_eq_Cons_conv)
  from refund_paid_once [OF uniq rtranclp.rtrancl_refl e steps cells(3,1,2)] cells(4) show ?thesis by blast
qed

end
