(* ===== verification/Audit_Trail.thy ===== *)
theory Audit_Trail
  imports Database
begin

text \<open>
  The audit trail: entries (\<open>audit/logger.py\<close>), their hash chain in the business database
  (\<open>AuditRepository\<close> of \<open>database/repository.py\<close>) and the backfill at start-up (\<open>init_db\<close> of
  \<open>database/db.py\<close>). A JSON column holds its value. The digest of \<open>previous_hash:canonical\<close> is a
  parameter \<open>h\<close> of the previous hash and the entry with its keys in order.
\<close>

section \<open>Entries\<close>

datatype AuditAction =
    ORDER_LOOKUP | ORDER_SEARCH | REFUND_ISSUED | STORE_CREDIT_ISSUED | CASE_UPDATED | CASE_NOTE_ADDED
  | FRAUD_ALERT_VIEWED | TRANSACTIONS_VIEWED | DEVICE_CHECK | ACCOUNT_FLAGGED | SAR_SUBMITTED | ALERT_CLOSED
  | ESCALATION_CREATED | LOGIN | LOGIN_FAILED | TOKEN_REFRESHED | PROCEDURE_STARTED | PROCEDURE_COMPLETED
  | PROCEDURE_ESCALATED | STEP_TRANSITION | SESSION_CREATED | REASONING_VERIFIED | REASONING_VIOLATION
  | REASONING_REWRITE | COMPLIANCE_CHECK

fun audit_action_value :: "AuditAction \<Rightarrow> string" where
  "audit_action_value ORDER_LOOKUP = ''order.lookup''"
| "audit_action_value ORDER_SEARCH = ''order.search''"
| "audit_action_value REFUND_ISSUED = ''refund.issued''"
| "audit_action_value STORE_CREDIT_ISSUED = ''store_credit.issued''"
| "audit_action_value CASE_UPDATED = ''case.updated''"
| "audit_action_value CASE_NOTE_ADDED = ''case.note_added''"
| "audit_action_value FRAUD_ALERT_VIEWED = ''fraud_alert.viewed''"
| "audit_action_value TRANSACTIONS_VIEWED = ''transactions.viewed''"
| "audit_action_value DEVICE_CHECK = ''device.check''"
| "audit_action_value ACCOUNT_FLAGGED = ''account.flagged''"
| "audit_action_value SAR_SUBMITTED = ''sar.submitted''"
| "audit_action_value ALERT_CLOSED = ''alert.closed''"
| "audit_action_value ESCALATION_CREATED = ''escalation.created''"
| "audit_action_value LOGIN = ''auth.login''"
| "audit_action_value LOGIN_FAILED = ''auth.login_failed''"
| "audit_action_value TOKEN_REFRESHED = ''auth.token_refreshed''"
| "audit_action_value PROCEDURE_STARTED = ''procedure.started''"
| "audit_action_value PROCEDURE_COMPLETED = ''procedure.completed''"
| "audit_action_value PROCEDURE_ESCALATED = ''procedure.escalated''"
| "audit_action_value STEP_TRANSITION = ''procedure.step_transition''"
| "audit_action_value SESSION_CREATED = ''session.created''"
| "audit_action_value REASONING_VERIFIED = ''reasoning.verified''"
| "audit_action_value REASONING_VIOLATION = ''reasoning.violation''"
| "audit_action_value REASONING_REWRITE = ''reasoning.rewrite''"
| "audit_action_value COMPLIANCE_CHECK = ''compliance.check''"

record AuditEntry =
  ae_entry_id :: string
  ae_timestamp :: time
  ae_correlation_id :: "string option"
  ae_action :: AuditAction
  ae_actor :: string
  ae_resource_type :: string
  ae_resource_id :: string
  ae_session_id :: "string option"
  ae_procedure_id :: "string option"
  ae_step_id :: "string option"
  ae_before_state :: "pdict option"
  ae_after_state :: "pdict option"
  ae_metadata :: pdict

text \<open>\<open>if self.x: entry[k] = self.x\<close>\<close>

definition text_item :: "string \<Rightarrow> string option \<Rightarrow> pdict" where
  "text_item k x = (if truthy_str x then [(k, JStr (the x))] else [])"

definition dict_item :: "string \<Rightarrow> pdict option \<Rightarrow> pdict" where
  "dict_item k x = (case x of None \<Rightarrow> [] | Some d \<Rightarrow> if d = [] then [] else [(k, JObj d)])"

definition to_dict :: "AuditEntry \<Rightarrow> pdict" where
  "to_dict e =
     [(''entry_id'', JStr (ae_entry_id e)), (''timestamp'', JInt (ae_timestamp e)),
      (''action'', JStr (audit_action_value (ae_action e))), (''actor'', JStr (ae_actor e)),
      (''resource_type'', JStr (ae_resource_type e)), (''resource_id'', JStr (ae_resource_id e))] @
     text_item ''correlation_id'' (ae_correlation_id e) @ text_item ''session_id'' (ae_session_id e) @
     text_item ''procedure_id'' (ae_procedure_id e) @ text_item ''step_id'' (ae_step_id e) @
     dict_item ''before_state'' (ae_before_state e) @ dict_item ''after_state'' (ae_after_state e) @
     dict_item ''metadata'' (Some (ae_metadata e))"

section \<open>The chain\<close>

definition scalar_keys :: "string list" where
  "scalar_keys = [''entry_id'', ''timestamp'', ''action'', ''actor'', ''resource_type'', ''resource_id'',
     ''correlation_id'', ''session_id'', ''procedure_id'', ''step_id'']"

definition state_keys :: "string list" where
  "state_keys = [''before_state'', ''after_state'', ''metadata'']"

type_synonym digest_fun = "string \<Rightarrow> json \<Rightarrow> string"

definition entry_digest :: "digest_fun \<Rightarrow> string \<Rightarrow> pdict \<Rightarrow> string" where
  "entry_digest h previous entry = h previous (sort_keys (JObj entry))"

definition last_hash :: "row list \<Rightarrow> string" where
  "last_hash rows = (if rows \<noteq> [] \<and> truthy (cell (last rows) ''entry_hash'')
     then text_of (cell (last rows) ''entry_hash'') else ''GENESIS'')"

text \<open>\<open>AuditRepository.write\<close>: one transaction (\<open>BEGIN IMMEDIATE\<close>), one row.\<close>

definition stored_columns :: "pdict \<Rightarrow> string \<Rightarrow> string \<Rightarrow> row" where
  "stored_columns entry previous_hash entry_hash =
     map (\<lambda>k. (k, cell entry k)) scalar_keys @
     map (\<lambda>k. (k, if truthy_get entry k then cell entry k else JNull)) state_keys @
     [(''previous_hash'', JStr previous_hash), (''entry_hash'', JStr entry_hash)]"

definition audit_write :: "digest_fun \<Rightarrow> pdict \<Rightarrow> (unit, 'z) bop" where
  "audit_write h entry =
     bindE (getE (\<lambda>s. biz s ''audit_trail'')) (\<lambda>rows.
     let previous_hash = last_hash rows in
     insert_into ''audit_trail'' (stored_columns entry previous_hash (entry_digest h previous_hash entry)))"

text \<open>The entry a stored row stands for.\<close>

definition row_entry :: "row \<Rightarrow> pdict" where
  "row_entry r = filter (\<lambda>(_, v). v \<noteq> JNull) (map (\<lambda>k. (k, cell r k)) (scalar_keys @ state_keys))"

datatype ChainReport =
    ChainValid nat string
  | ChainBroken nat json

fun verify_rows :: "digest_fun \<Rightarrow> string \<Rightarrow> nat \<Rightarrow> row list \<Rightarrow> ChainReport" where
  "verify_rows h previous_hash index [] = ChainValid index previous_hash"
| "verify_rows h previous_hash index (r # rows) =
     (let expected = entry_digest h previous_hash (row_entry r) in
      if cell r ''previous_hash'' \<noteq> JStr previous_hash \<or> cell r ''entry_hash'' \<noteq> JStr expected
      then ChainBroken index (cell r ''entry_id'')
      else verify_rows h expected (Suc index) rows)"

definition verify_chain :: "digest_fun \<Rightarrow> (ChainReport, 'z) bop" where
  "verify_chain h = getE (\<lambda>s. verify_rows h ''GENESIS'' 0 (biz s ''audit_trail''))"

section \<open>The logger\<close>

text \<open>
  \<open>AuditLogger.log\<close> with the writer it was given; the caller supplies everything but identifier
  and time, and a failed write is only reported to the process log.
\<close>

definition audit_log :: "(pdict \<Rightarrow> (unit, 'z env_scheme) op) option \<Rightarrow> AuditEntry \<Rightarrow> (string, 'z env_scheme) op" where
  "audit_log db_write args =
     bindE uuid_op (\<lambda>u.
     bindE now_op (\<lambda>now.
     let entry = args\<lparr>ae_entry_id := u, ae_timestamp := now\<rparr> in
     bindE (case db_write of
         None \<Rightarrow> returnE ()
       | Some write \<Rightarrow> catchE (write (to_dict entry)) (\<lambda>_. returnE ())) (\<lambda>_.
     returnE (ae_entry_id entry))))"

section \<open>Start-up\<close>

fun backfill_rows :: "digest_fun \<Rightarrow> string \<Rightarrow> row list \<Rightarrow> row list" where
  "backfill_rows h previous_hash [] = []"
| "backfill_rows h previous_hash (r # rows) =
     (if truthy (cell r ''entry_hash'') then r # backfill_rows h (text_of (cell r ''entry_hash'')) rows
      else
      let entry_hash = entry_digest h previous_hash (row_entry r) in
      dict_merge r [(''previous_hash'', JStr previous_hash), (''entry_hash'', JStr entry_hash)] #
        backfill_rows h entry_hash rows)"

definition init_db :: "digest_fun \<Rightarrow> (unit, 'z) bop" where
  "init_db h =
     bindE dedupe_refunds (\<lambda>_.
     modifyE (\<lambda>s. s\<lparr>biz := (biz s)(''audit_trail'' := backfill_rows h ''GENESIS'' (biz s ''audit_trail''))\<rparr>))"

end
