(* ===== verification/Audit_Laws.thy ===== *)
theory Audit_Laws
  imports Audit_Trail
begin

text \<open>
  What the audit trail guarantees: every sequence of logged entries verifies, and a changed entry
  is found, at its place, unless the digest collides there.
\<close>

section \<open>Storing an entry and reading it back\<close>

definition audit_table :: table where
  "audit_table = the (dict_get business_schema ''audit_trail'')"

definition entry_cells :: "AuditEntry \<Rightarrow> pdict" where
  "entry_cells e =
     [(''entry_id'', JStr (ae_entry_id e)), (''timestamp'', JInt (ae_timestamp e)),
      (''action'', JStr (audit_action_value (ae_action e))), (''actor'', JStr (ae_actor e)),
      (''resource_type'', JStr (ae_resource_type e)), (''resource_id'', JStr (ae_resource_id e))] @
     map (\<lambda>(k, x). (k, if truthy_str x then JStr (the x) else JNull))
       [(''correlation_id'', ae_correlation_id e), (''session_id'', ae_session_id e),
        (''procedure_id'', ae_procedure_id e), (''step_id'', ae_step_id e)] @
     map (\<lambda>(k, x). (k, case x of None \<Rightarrow> JNull | Some d \<Rightarrow> if d = [] then JNull else JObj d))
       [(''before_state'', ae_before_state e), (''after_state'', ae_after_state e), (''metadata'', Some (ae_metadata e))]"

lemma item_cells:
  "text_item k x = filter (\<lambda>(_, v). v \<noteq> JNull) [(k, if truthy_str x then JStr (the x) else JNull)]"
  "dict_item k y = filter (\<lambda>(_, v). v \<noteq> JNull) [(k, case y of None \<Rightarrow> JNull | Some d \<Rightarrow> if d = [] then JNull else JObj d)]"
  by (simp_all add: text_item_def dict_item_def split: option.split)

lemma to_dict_cells: "to_dict e = filter (\<lambda>(_, v). v \<noteq> JNull) (entry_cells e)"
  unfolding to_dict_def entry_cells_def item_cells filter_append list.map prod.case by simp

lemma entry_cells_keys: "map fst (entry_cells e) = scalar_keys @ state_keys" "distinct (map fst (entry_cells e))"
  by (simp_all add: entry_cells_def scalar_keys_def state_keys_def)

lemma cell_filter: "distinct (map fst d) \<Longrightarrow> cell (filter (\<lambda>(_, v). v \<noteq> JNull) d) k = cell d k"
proof (induction d)
  case (Cons p d)
  have "fst p \<notin> set (map fst d) \<Longrightarrow> cell d (fst p) = JNull"
    by (simp add: cell_def get_or_null_def dict_get_def map_of_eq_None_iff [THEN iffD2])
  with Cons show ?case by (cases p) (auto simp: cell_def get_or_null_def dict_get_def)
qed simp

lemma map_cells: "distinct (map fst d) \<Longrightarrow> map (\<lambda>k. (k, cell d k)) (map fst d) = d"
proof (induction d)
  case (Cons p d)
  have "map (\<lambda>k. (k, cell (p # d) k)) (map fst d) = map (\<lambda>k. (k, cell d k)) (map fst d)"
    using Cons.prems by (cases p) (auto simp: cell_def get_or_null_def dict_get_def image_iff)
  with Cons show ?case by (cases p) (simp add: cell_def get_or_null_def dict_get_def)
qed simp

lemma cell_full_row:
  assumes "\<forall>c \<in> set (tab_columns tab). col_default c = JNull"
  shows "cell (full_row tab vals) k = (if k \<in> set (map col_name (tab_columns tab)) then cell vals k else JNull)"
proof -
  have "cell (map (\<lambda>c. (col_name c, case dict_get vals (col_name c) of None \<Rightarrow> col_default c | Some v \<Rightarrow> v)) cs) k =
      (if k \<in> set (map col_name cs) then cell vals k else JNull)" if "\<forall>c \<in> set cs. col_default c = JNull" for cs
    using that by (induction cs) (auto simp: cell_def get_or_null_def dict_get_def split: option.split)
  from this [OF assms] show ?thesis unfolding full_row_def .
qed

lemma audit_schema:
  "dict_get business_schema ''audit_trail'' = Some audit_table"
  "\<forall>c \<in> set (tab_columns audit_table). col_default c = JNull"
  "map col_name (tab_columns audit_table) = scalar_keys @ state_keys @ [''previous_hash'', ''entry_hash'']"
  "tab_unique audit_table = [''entry_id'']"
  "null_violation audit_table r \<longleftrightarrow>
     (\<exists>k \<in> {''timestamp'', ''action'', ''actor'', ''resource_type'', ''resource_id''}. cell r k = JNull)"
  by (simp_all add: audit_table_def business_schema_def reference_schema_def operations_schema_def dict_get_def
      table_of_def required_def nullable_def defaulted_def scalar_keys_def state_keys_def null_violation_def)

definition stored_row :: "pdict \<Rightarrow> string \<Rightarrow> string \<Rightarrow> row" where
  "stored_row entry p x = full_row audit_table (stored_columns entry p x)"

lemma cell_map_keys: "cell (map (\<lambda>k. (k, f k)) ks @ d) k = (if k \<in> set ks then f k else cell d k)"
  by (induction ks) (auto simp: cell_def get_or_null_def dict_get_def)

lemma stored_row_cells:
  "cell (stored_row entry p x) ''previous_hash'' = JStr p"
  "cell (stored_row entry p x) ''entry_hash'' = JStr x"
  "k \<in> set scalar_keys \<Longrightarrow> cell (stored_row entry p x) k = cell entry k"
  "k \<in> set state_keys \<Longrightarrow> cell (stored_row entry p x) k = (if truthy_get entry k then cell entry k else JNull)"
  unfolding stored_row_def cell_full_row [OF audit_schema(2)] audit_schema(3) stored_columns_def cell_map_keys
  by (auto simp: scalar_keys_def state_keys_def cell_def get_or_null_def dict_get_def)

lemma entry_state_truthy:
  assumes "k \<in> set state_keys"
  shows "truthy_get (to_dict e) k \<or> cell (to_dict e) k = JNull"
proof -
  have "cell (to_dict e) k = cell (entry_cells e) k" by (simp add: to_dict_cells cell_filter entry_cells_keys(2))
  moreover have "cell (entry_cells e) k = JNull \<or> (\<exists>d. d \<noteq> [] \<and> cell (entry_cells e) k = JObj d)"
    using assms by (auto simp: state_keys_def entry_cells_def cell_def get_or_null_def dict_get_def split: option.splits)
  ultimately show ?thesis
    by (auto simp: truthy_get_def cell_def get_or_null_def split: option.splits)
qed

lemma row_entry_stored: "row_entry (stored_row (to_dict e) p x) = to_dict e"
proof -
  have "cell (stored_row (to_dict e) p x) k = cell (entry_cells e) k" if "k \<in> set (scalar_keys @ state_keys)" for k
    using that entry_state_truthy [of k e] cell_filter [OF entry_cells_keys(2), of e k]
    by (auto simp: stored_row_cells to_dict_cells)
  then have eq: "map (\<lambda>k. (k, cell (stored_row (to_dict e) p x) k)) (scalar_keys @ state_keys) =
      map (\<lambda>k. (k, cell (entry_cells e) k)) (map fst (entry_cells e))"
    unfolding entry_cells_keys(1) by (intro map_cong) auto
  show ?thesis unfolding row_entry_def eq map_cells [OF entry_cells_keys(2)] by (rule to_dict_cells [symmetric])
qed

section \<open>Appending keeps the chain\<close>

lemma verify_rows_append:
  "verify_rows h p i (xs @ ys) =
     (case verify_rows h p i xs of ChainValid j q \<Rightarrow> verify_rows h q j ys | ChainBroken j e \<Rightarrow> ChainBroken j e)"
  by (induction xs arbitrary: p i) (simp_all add: Let_def)

lemma verify_rows_count: "verify_rows h p i rows = ChainValid n q \<Longrightarrow> n = i + length rows"
  by (induction rows arbitrary: p i) (fastforce simp: Let_def split: if_splits)+

text \<open>A digest as SHA-256 in hexadecimal: never the empty text.\<close>

definition digest_text :: "digest_fun \<Rightarrow> bool" where
  "digest_text h \<longleftrightarrow> (\<forall>p j. h p j \<noteq> [])"

lemma last_hash_valid:
  assumes "digest_text h" and "verify_rows h ''GENESIS'' 0 rows = ChainValid n q"
  shows "last_hash rows = q"
proof (cases rows rule: rev_cases)
  case (snoc ys r)
  then obtain m p where "verify_rows h p m [r] = ChainValid n q"
    using assms(2) by (auto simp: verify_rows_append split: ChainReport.splits)
  then have "cell r ''entry_hash'' = JStr q" "q \<noteq> []"
    using assms(1) by (auto simp: Let_def digest_text_def entry_digest_def split: if_splits)
  then show ?thesis using snoc by (simp add: last_hash_def)
qed (use assms(2) in \<open>simp add: last_hash_def\<close>)

lemma audit_write_eq:
  "audit_write h (to_dict e) s =
     (let rows = biz s ''audit_trail''; p = last_hash rows;
          r = stored_row (to_dict e) p (entry_digest h p (to_dict e)) in
      if list_ex (\<lambda>x. cell x ''entry_id'' = JStr (ae_entry_id e)) rows then (Inl (IntegrityError ''audit_trail''), s)
      else (Inr (), s\<lparr>biz := (biz s)(''audit_trail'' := rows @ [r])\<rparr>))"
proof -
  let ?p = "last_hash (biz s ''audit_trail'')"
  let ?r = "stored_row (to_dict e) ?p (entry_digest h ?p (to_dict e))"
  have scalars: "cell ?r k = cell (entry_cells e) k" if "k \<in> set scalar_keys" for k
    using that by (simp add: stored_row_cells(3) to_dict_cells cell_filter entry_cells_keys(2))
  have "\<not> null_violation audit_table ?r"
    unfolding audit_schema(5) using scalars by (auto simp: scalar_keys_def entry_cells_def cell_def get_or_null_def dict_get_def)
  moreover have "cell ?r ''entry_id'' = JStr (ae_entry_id e)"
    using scalars [of "''entry_id''"] by (simp add: scalar_keys_def entry_cells_def cell_def get_or_null_def dict_get_def)
  ultimately show ?thesis
    unfolding audit_write_def insert_into_def stored_row_def [symmetric]
    by (simp add: bindE_def getE_def Let_def insert_into_def audit_schema(1,4) unique_violation_def
        stored_row_def [symmetric])
qed

lemma write_keeps_chain:
  assumes "digest_text h" and "verify_rows h ''GENESIS'' 0 (biz s ''audit_trail'') = ChainValid n q"
    and "audit_write h (to_dict e) s = (r, t)"
  shows "\<exists>m q'. verify_rows h ''GENESIS'' 0 (biz t ''audit_trail'') = ChainValid m q' \<and>
    (\<exists>new. biz t ''audit_trail'' = biz s ''audit_trail'' @ new \<and> length new \<le> 1)"
proof (cases "t = s")
  case False
  then have "biz t ''audit_trail'' =
      biz s ''audit_trail'' @ [stored_row (to_dict e) q (entry_digest h q (to_dict e))]"
    using assms(3) last_hash_valid [OF assms(1,2)] by (auto simp: audit_write_eq Let_def split: if_splits)
  then show ?thesis using assms(2)
    by (simp add: verify_rows_append stored_row_cells(1,2) row_entry_stored Let_def)
qed (use assms(2) in simp)

text \<open>Any number of tasks logging, and any other work on the database.\<close>

inductive audit_step :: "digest_fun \<Rightarrow> 'z bworld_scheme \<Rightarrow> 'z bworld_scheme \<Rightarrow> bool" for h where
  log: "audit_log (Some (audit_write h)) args s = (r, t) \<Longrightarrow> audit_step h s t"
| other: "biz t ''audit_trail'' = biz s ''audit_trail'' \<Longrightarrow> audit_step h s t"

lemma audit_log_writes:
  fixes s t :: "'z bworld_scheme"
  assumes "audit_log (Some (audit_write h)) args s = (r, t)"
  shows "\<exists>e (u :: 'z bworld_scheme) q (v :: 'z bworld_scheme). biz u = biz s \<and> audit_write h (to_dict e) u = (q, v) \<and> biz t = biz v \<and> r = Inr (ae_entry_id e)"
proof -
  let ?e = "args\<lparr>ae_entry_id := uuid_src s (uuid_idx s), ae_timestamp := clock_src s (clock_idx s)\<rparr>"
  let ?u = "s\<lparr>uuid_idx := Suc (uuid_idx s), clock_idx := Suc (clock_idx s)\<rparr>"
  obtain q v where q: "audit_write h (to_dict ?e) ?u = (q, v)" by fastforce
  then have "t = v" "r = Inr (ae_entry_id ?e)"
    using assms by (auto simp: audit_log_def bindE_def uuid_op_def now_op_def Let_def catchE_def returnE_def
        split: sum.splits)
  moreover have "biz ?u = biz s" by simp
  ultimately show ?thesis using q by blast
qed

lemma audit_step_chain:
  fixes s t :: "'z bworld_scheme"
  assumes "digest_text h" and "audit_step h s t"
    and "verify_rows h ''GENESIS'' 0 (biz s ''audit_trail'') = ChainValid n q"
  shows "\<exists>m q'. verify_rows h ''GENESIS'' 0 (biz t ''audit_trail'') = ChainValid m q' \<and>
    (\<exists>new. biz t ''audit_trail'' = biz s ''audit_trail'' @ new)"
  using assms(2)
proof cases
  case (log args r)
  from audit_log_writes [OF this] obtain e q' and u v :: "'z bworld_scheme" where
    "biz u = biz s" "audit_write h (to_dict e) u = (q', v)" "biz t = biz v" by blast
  then show ?thesis using write_keeps_chain [OF assms(1), of u n q e] assms(3) by fastforce
qed (use assms(3) in simp)

text \<open>C31: What is logged verifies. However many tasks log, in whatever order, beside any other work
  on the database, the trail is only appended to and its verification reports a valid chain over
  exactly the rows on record.\<close>

theorem audit_log_verifies:
  assumes "digest_text h" and "(audit_step h)\<^sup>*\<^sup>* s t"
    and "verify_rows h ''GENESIS'' 0 (biz s ''audit_trail'') = ChainValid n q"
  shows "\<exists>q' new. verify_chain h t = (Inr (ChainValid (n + length new) q'), t) \<and>
    biz t ''audit_trail'' = biz s ''audit_trail'' @ new"
proof -
  have "\<exists>m q' new. verify_rows h ''GENESIS'' 0 (biz t ''audit_trail'') = ChainValid m q' \<and>
      biz t ''audit_trail'' = biz s ''audit_trail'' @ new" using assms(2)
  proof induction
    case (step u v)
    then obtain m q' where "verify_rows h ''GENESIS'' 0 (biz u ''audit_trail'') = ChainValid m q'" by blast
    from audit_step_chain [OF assms(1) step(2) this] step.IH show ?case by auto
  qed (use assms(3) in simp)
  then show ?thesis using verify_rows_count [OF assms(3)] verify_rows_count
    by (fastforce simp: verify_chain_def getE_def)
qed

section \<open>Tampering is found\<close>

text \<open>The bytes a row is hashed for: the hash before it and its canonical entry.\<close>

definition hashed :: "row \<Rightarrow> string \<times> json" where
  "hashed r = (text_of (cell r ''previous_hash''), sort_keys (JObj (row_entry r)))"

definition no_collision :: "digest_fun \<Rightarrow> row set \<Rightarrow> bool" where
  "no_collision h rows \<longleftrightarrow> inj_on (\<lambda>(p, j). h p j) (hashed ` rows) \<and> (\<forall>(p, j) \<in> hashed ` rows. h p j \<noteq> ''GENESIS'')"

lemma no_collision_eq:
  assumes "no_collision h A" and "r \<in> A" and "r' \<in> A"
    and "h (fst (hashed r)) (snd (hashed r)) = h (fst (hashed r')) (snd (hashed r'))"
  shows "hashed r = hashed r'"
proof -
  have "inj_on (\<lambda>(p, j). h p j) (hashed ` A)" using assms(1) by (simp add: no_collision_def)
  then show ?thesis by (rule inj_onD) (use assms(2-4) in \<open>simp_all add: split_beta\<close>)
qed

lemma no_collision_subset: "no_collision h A \<Longrightarrow> B \<subseteq> A \<Longrightarrow> no_collision h B"
  unfolding no_collision_def by (meson image_mono inj_on_subset subsetD)

lemma no_collision_genesis: "no_collision h A \<Longrightarrow> r \<in> A \<Longrightarrow> h (fst (hashed r)) (snd (hashed r)) \<noteq> ''GENESIS''"
  by (auto simp: no_collision_def split_beta)

lemma verify_snoc:
  assumes "verify_rows h ''GENESIS'' 0 (xs @ [r]) = ChainValid n q"
  shows "\<exists>m p. verify_rows h ''GENESIS'' 0 xs = ChainValid m p \<and> fst (hashed r) = p \<and>
    q = h p (snd (hashed r)) \<and> cell r ''entry_hash'' = JStr q"
  using assms by (auto simp: verify_rows_append Let_def hashed_def entry_digest_def split: ChainReport.splits if_splits)

text \<open>C32: The head commits to the whole trail. Two valid trails with the same head hash hold the same
  entries in the same order, unless the digest collides on what they hash: no entry can be changed,
  added, dropped or moved, even by someone who recomputes every hash, without changing the head.\<close>

theorem head_commits_to_entries:
  assumes "verify_chain h s = (Inr (ChainValid n q), s)" and "verify_chain h t = (Inr (ChainValid m q), t)"
    and "no_collision h (set (biz s ''audit_trail'') \<union> set (biz t ''audit_trail''))"
  shows "map (\<lambda>r. sort_keys (JObj (row_entry r))) (biz s ''audit_trail'') =
    map (\<lambda>r. sort_keys (JObj (row_entry r))) (biz t ''audit_trail'')"
proof -
  have "map (snd \<circ> hashed) xs = map (snd \<circ> hashed) ys"
    if "verify_rows h ''GENESIS'' 0 xs = ChainValid n q" "verify_rows h ''GENESIS'' 0 ys = ChainValid m q"
      "no_collision h (set xs \<union> set ys)" for xs ys n m q
    using that
  proof (induction xs arbitrary: ys n m q rule: rev_induct)
    case Nil
    then show ?case
    proof (cases ys rule: rev_cases)
      case (snoc zs r)
      with Nil(1,2) verify_snoc [of h zs r m q] have "h (fst (hashed r)) (snd (hashed r)) = ''GENESIS''" by auto
      then show ?thesis using no_collision_genesis [OF Nil(3), of r] snoc by simp
    qed simp
  next
    case (snoc r xs)
    from verify_snoc [OF snoc.prems(1)] obtain j p where
      p: "verify_rows h ''GENESIS'' 0 xs = ChainValid j p" "fst (hashed r) = p" "q = h p (snd (hashed r))" by blast
    show ?case
    proof (cases ys rule: rev_cases)
      case Nil
      then have "h (fst (hashed r)) (snd (hashed r)) = ''GENESIS''" using snoc.prems(2) p by simp
      then show ?thesis using no_collision_genesis [OF snoc.prems(3), of r] by simp
    next
      case ys: (snoc zs r')
      from verify_snoc [OF snoc.prems(2) [unfolded ys]] obtain k p' where
        p': "verify_rows h ''GENESIS'' 0 zs = ChainValid k p'" "fst (hashed r') = p'" "q = h p' (snd (hashed r'))" by blast
      have "hashed r = hashed r'" using no_collision_eq [OF snoc.prems(3), of r r'] p p' ys by simp
      moreover have "no_collision h (set xs \<union> set zs)"
        by (rule no_collision_subset [OF snoc.prems(3)]) (auto simp: ys)
      ultimately show ?thesis using snoc.IH [OF p(1)] p p' ys by simp
    qed
  qed
  from this [of "biz s ''audit_trail''" n q "biz t ''audit_trail''" m] assms show ?thesis
    by (simp add: verify_chain_def getE_def hashed_def comp_def)
qed

text \<open>A changed entry is found where it is. When the content of a row of a valid trail is replaced
  and its two stored hashes left, verification stops at exactly that row and names it, unless the
  digest of the new content collides with that of the old.\<close>

theorem tampered_entry_found:
  assumes "verify_chain h s = (Inr (ChainValid n q), s)" and "biz s ''audit_trail'' = xs @ r # ys"
    and "cell r' ''entry_hash'' = cell r ''entry_hash''" and "cell r' ''previous_hash'' = cell r ''previous_hash''"
    and "snd (hashed r') \<noteq> snd (hashed r)" and "no_collision h {r, r'}"
    and "biz t ''audit_trail'' = xs @ r' # ys"
  shows "verify_chain h t = (Inr (ChainBroken (length xs) (cell r' ''entry_id'')), t)"
proof -
  obtain j p where p: "verify_rows h ''GENESIS'' 0 xs = ChainValid j p" "verify_rows h p j (r # ys) = ChainValid n q"
    using assms(1,2) by (auto simp: verify_chain_def getE_def verify_rows_append split: ChainReport.splits)
  then have "cell r ''entry_hash'' = JStr (h p (snd (hashed r)))" "fst (hashed r) = p"
    by (auto simp: Let_def hashed_def entry_digest_def split: if_splits)
  moreover have "fst (hashed r') = fst (hashed r)" using assms(4) by (simp add: hashed_def)
  moreover have "h (fst (hashed r')) (snd (hashed r')) \<noteq> h (fst (hashed r)) (snd (hashed r))"
    using assms(5) no_collision_eq [OF assms(6), of r' r] by auto
  ultimately have "cell r' ''entry_hash'' \<noteq> JStr (entry_digest h p (row_entry r'))"
    using assms(3) by (simp add: entry_digest_def hashed_def)
  then show ?thesis using p(1) verify_rows_count [OF p(1)]
    by (simp add: verify_chain_def getE_def assms(7) verify_rows_append)
qed

section \<open>Start-up\<close>

lemma row_entry_merge:
  "row_entry (dict_merge r [(''previous_hash'', a), (''entry_hash'', b)]) = row_entry r"
  by (simp add: row_entry_def dict_merge_def cell_def get_or_null_def scalar_keys_def state_keys_def)

lemma merge_cells:
  "cell (dict_merge r [(''previous_hash'', a), (''entry_hash'', b)]) ''previous_hash'' = a"
  "cell (dict_merge r [(''previous_hash'', a), (''entry_hash'', b)]) ''entry_hash'' = b"
  by (simp_all add: dict_merge_def cell_def get_or_null_def)

lemma backfill_rows_spec:
  "(if list_all (\<lambda>r. \<not> truthy (cell r ''entry_hash'')) rows
    then (\<exists>q. verify_rows h p i (backfill_rows h p rows) = ChainValid (i + length rows) q) else True) \<and>
   (if list_all (\<lambda>r. truthy (cell r ''entry_hash'')) rows then backfill_rows h p rows = rows else True) \<and>
   map row_entry (backfill_rows h p rows) = map row_entry rows"
proof (induction rows arbitrary: p i)
  case (Cons r rows)
  have "\<exists>q. verify_rows h (entry_digest h p (row_entry r)) (Suc i)
      (backfill_rows h (entry_digest h p (row_entry r)) rows) = ChainValid (Suc i + length rows) q"
    if "list_all (\<lambda>r. \<not> truthy (cell r ''entry_hash'')) rows"
    using Cons.IH [of "entry_digest h p (row_entry r)" "Suc i"] that by simp
  then show ?case
    using Cons.IH [of "text_of (cell r ''entry_hash'')" i] Cons.IH [of "entry_digest h p (row_entry r)" i]
    by (auto simp: Let_def row_entry_merge merge_cells split: if_splits)
qed simp

text \<open>Start-up repairs and nothing more. It leaves one refund per order, the earliest; on a trail
  whose rows have no hashes it builds a chain that verifies over all of them; rows that have a hash
  are never touched, so later tampering is not papered over; and no entry changes its content.\<close>

theorem init_db_repairs:
  "\<exists>t. init_db h s = (Inr (), t) \<and> distinct (map (\<lambda>r. cell r ''order_id'') (biz t ''refunds'')) \<and>
     (\<forall>v. select_one (\<lambda>r. cell r ''order_id'' = v) (biz t ''refunds'') =
          select_one (\<lambda>r. cell r ''order_id'' = v) (biz s ''refunds'')) \<and>
     map row_entry (biz t ''audit_trail'') = map row_entry (biz s ''audit_trail'') \<and>
     (if list_all (\<lambda>r. \<not> truthy (cell r ''entry_hash'')) (biz s ''audit_trail'')
      then \<exists>q. verify_chain h t = (Inr (ChainValid (length (biz s ''audit_trail'')) q), t) else True) \<and>
     (if list_all (\<lambda>r. truthy (cell r ''entry_hash'')) (biz s ''audit_trail'')
      then biz t ''audit_trail'' = biz s ''audit_trail'' else True)"
  using backfill_rows_spec [of "biz s ''audit_trail''" h "''GENESIS''" 0]
    keep_first_spec [of "\<lambda>r. cell r ''order_id''" "biz s ''refunds''"]
  by (auto simp: init_db_def dedupe_refunds_def bindE_def modifyE_def verify_chain_def getE_def)

section \<open>A concrete trail\<close>

definition demo_entry :: AuditEntry where
  "demo_entry = \<lparr>ae_entry_id = [], ae_timestamp = 0, ae_correlation_id = None, ae_action = REFUND_ISSUED,
     ae_actor = ''agent'', ae_resource_type = ''order'', ae_resource_id = ''O1'', ae_session_id = Some ''S'',
     ae_procedure_id = None, ae_step_id = None, ae_before_state = None, ae_after_state = Some [(''amount'', JInt 5)],
     ae_metadata = []\<rparr>"

text \<open>An injective digest on the demonstration data: the resource the entry names.\<close>

definition demo_digest :: digest_fun where
  "demo_digest p j = ''#'' @ p @ (case j of JObj d \<Rightarrow> text_of (cell d ''resource_id'') | _ \<Rightarrow> [])"

definition demo_blank :: bworld where
  "demo_blank = \<lparr>clock_src = (\<lambda>n. int n), clock_idx = 0, uuid_src = (\<lambda>n. replicate n CHR ''x''), uuid_idx = 0,
     biz = (\<lambda>_. [])\<rparr>"

definition demo_trail :: bworld where
  "demo_trail = snd (audit_log (Some (audit_write demo_digest)) (demo_entry\<lparr>ae_resource_id := ''O2''\<rparr>)
     (snd (audit_log (Some (audit_write demo_digest)) demo_entry demo_blank)))"

definition demo_tampered :: row where
  "demo_tampered = dict_set (hd (biz demo_trail ''audit_trail'')) ''resource_id'' (JStr ''O9'')"

lemma demo_trail_facts:
  "verify_rows demo_digest ''GENESIS'' 0 (biz demo_trail ''audit_trail'') = ChainValid 2 ''##GENESISO1O2''"
  "map (\<lambda>r. demo_digest (fst (hashed r)) (snd (hashed r))) (biz demo_trail ''audit_trail'') = [''#GENESISO1'', ''##GENESISO1O2'']"
  "demo_digest (fst (hashed demo_tampered)) (snd (hashed demo_tampered)) = ''#GENESISO9''"
  "cell demo_tampered ''entry_hash'' = cell (hd (biz demo_trail ''audit_trail'')) ''entry_hash''"
  "cell demo_tampered ''previous_hash'' = cell (hd (biz demo_trail ''audit_trail'')) ''previous_hash''"
  by code_simp+

lemma no_collision_distinct:
  assumes "distinct (map (\<lambda>r. h (fst (hashed r)) (snd (hashed r))) rows)"
    and "''GENESIS'' \<notin> set (map (\<lambda>r. h (fst (hashed r)) (snd (hashed r))) rows)"
  shows "no_collision h (set rows)"
proof -
  have "inj_on ((\<lambda>(p, j). h p j) \<circ> hashed) (set rows)" using assms(1) by (simp add: distinct_map comp_def split_beta)
  then have "inj_on (\<lambda>(p, j). h p j) (hashed ` set rows)" by (rule inj_on_imageI)
  moreover have "\<forall>r \<in> set rows. h (fst (hashed r)) (snd (hashed r)) \<noteq> ''GENESIS''"
    using assms(2) by (metis (no_types, lifting) image_eqI set_map)
  ultimately show ?thesis by (auto simp: no_collision_def split_beta)
qed

theorem audit_log_verifies_witness:
  "\<exists>n q. verify_chain demo_digest (snd (audit_log (Some (audit_write demo_digest)) demo_entry demo_trail)) =
     (Inr (ChainValid n q), snd (audit_log (Some (audit_write demo_digest)) demo_entry demo_trail))"
proof -
  let ?t = "snd (audit_log (Some (audit_write demo_digest)) demo_entry demo_trail)"
  have "audit_step demo_digest demo_trail ?t" by (rule audit_step.log) (rule surjective_pairing)
  then have "(audit_step demo_digest)\<^sup>*\<^sup>* demo_trail ?t" ..
  moreover have "digest_text demo_digest" by (simp add: digest_text_def demo_digest_def)
  ultimately show ?thesis using audit_log_verifies demo_trail_facts(1) by blast
qed

theorem head_commits_to_entries_witness:
  "map (\<lambda>r. sort_keys (JObj (row_entry r))) (biz demo_trail ''audit_trail'') =
   map (\<lambda>r. sort_keys (JObj (row_entry r))) (biz (demo_trail\<lparr>clock_idx := 9\<rparr>) ''audit_trail'')"
  by (rule head_commits_to_entries [of demo_digest _ 2 "''##GENESISO1O2''" _ 2])
    (use demo_trail_facts(1,2) no_collision_distinct [of demo_digest "biz demo_trail ''audit_trail''"] in
      \<open>simp_all add: verify_chain_def getE_def\<close>)

theorem tampered_entry_found_witness:
  "\<exists>e. verify_chain demo_digest (demo_trail\<lparr>biz := (biz demo_trail)(''audit_trail'' :=
       demo_tampered # tl (biz demo_trail ''audit_trail''))\<rparr>) =
     (Inr (ChainBroken 0 e), demo_trail\<lparr>biz := (biz demo_trail)(''audit_trail'' :=
       demo_tampered # tl (biz demo_trail ''audit_trail''))\<rparr>)"
proof -
  let ?r = "hd (biz demo_trail ''audit_trail'')"
  have rows: "biz demo_trail ''audit_trail'' = [] @ ?r # tl (biz demo_trail ''audit_trail'')"
    using demo_trail_facts(2) by (cases "biz demo_trail ''audit_trail''") simp_all
  then have d: "demo_digest (fst (hashed ?r)) (snd (hashed ?r)) = ''#GENESISO1''"
    using demo_trail_facts(2) by (cases "biz demo_trail ''audit_trail''") simp_all
  have f: "fst (hashed demo_tampered) = fst (hashed ?r)" using demo_trail_facts(5) by (simp add: hashed_def)
  have "snd (hashed demo_tampered) \<noteq> snd (hashed ?r)" using d demo_trail_facts(3) f by auto
  moreover have "no_collision demo_digest {?r, demo_tampered}"
    using no_collision_distinct [of demo_digest "[?r, demo_tampered]"] d demo_trail_facts(3) by simp
  moreover have "verify_chain demo_digest demo_trail = (Inr (ChainValid 2 ''##GENESISO1O2''), demo_trail)"
    using demo_trail_facts(1) by (simp add: verify_chain_def getE_def)
  moreover have "biz (demo_trail\<lparr>biz := (biz demo_trail)(''audit_trail'' :=
      demo_tampered # tl (biz demo_trail ''audit_trail''))\<rparr>) ''audit_trail'' =
      [] @ demo_tampered # tl (biz demo_trail ''audit_trail'')" by simp
  ultimately have "verify_chain demo_digest (demo_trail\<lparr>biz := (biz demo_trail)(''audit_trail'' :=
       demo_tampered # tl (biz demo_trail ''audit_trail''))\<rparr>) = (Inr (ChainBroken (length ([] :: row list))
       (cell demo_tampered ''entry_id'')), demo_trail\<lparr>biz := (biz demo_trail)(''audit_trail'' :=
       demo_tampered # tl (biz demo_trail ''audit_trail''))\<rparr>)"
    by (intro tampered_entry_found [OF _ rows demo_trail_facts(4,5)])
  then show ?thesis by auto
qed

end
