(* ===== verification/Procedures.thy ===== *)
theory Procedures
  imports Audit_Trail
begin

text \<open>
  Procedures: validation of a procedure file and the index over all of them
  (\<open>procedures/loader.py\<close>, \<open>procedures/registry.py\<close>), the runtime state machine
  (\<open>procedures/executor.py\<close>) and the session bookkeeping helpers (\<open>state/workflow_state.py\<close>). A
  procedure is the dict the YAML parser returns, its steps mappings with text identifiers, as the
  annotations of the executor declare. Error messages leave out the quotation marks and the names
  they interpolate.
\<close>

section \<open>Loading and validation\<close>

definition has_key :: "pdict \<Rightarrow> string \<Rightarrow> bool" where
  "has_key d k \<longleftrightarrow> dict_get d k \<noteq> None"

text \<open>The elements of a list of mappings; another shape cannot be iterated as one.\<close>

fun mappings :: "json list \<Rightarrow> exn + pdict list" where
  "mappings [] = Inr []"
| "mappings (JObj d # js) = (case mappings js of Inl e \<Rightarrow> Inl e | Inr ds \<Rightarrow> Inr (d # ds))"
| "mappings (_ # js) = Inl (TypeError ''mapping'')"

definition mapping_list :: "json \<Rightarrow> exn + pdict list" where
  "mapping_list j = (case j of JList xs \<Rightarrow> mappings xs | _ \<Rightarrow> Inl (TypeError ''list''))"

text \<open>\<open>if k in step and step[k]: for x in step[k]\<close>\<close>

definition sub_entries :: "pdict \<Rightarrow> string \<Rightarrow> exn + pdict list" where
  "sub_entries step k = (if truthy_get step k then mapping_list (cell step k) else Inr [])"

definition step_id :: "pdict \<Rightarrow> exn + string" where
  "step_id step = (case dict_get step ''id'' of
      None \<Rightarrow> Inl (KeyError ''id'') | Some (JStr i) \<Rightarrow> Inr i | Some _ \<Rightarrow> Inl (TypeError ''id''))"

fun collect :: "('a \<Rightarrow> exn + 'b) \<Rightarrow> 'a list \<Rightarrow> exn + 'b list" where
  "collect f [] = Inr []"
| "collect f (x # xs) = (case f x of Inl e \<Rightarrow> Inl e | Inr y \<Rightarrow> (case collect f xs of Inl e \<Rightarrow> Inl e | Inr ys \<Rightarrow> Inr (y # ys)))"

text \<open>The first check that fails.\<close>

fun first_error :: "(exn option) list \<Rightarrow> exn option" where
  "first_error [] = None"
| "first_error (None # es) = first_error es"
| "first_error (Some e # es) = Some e"

definition ref_fields :: "string list" where
  "ref_fields = [''next_step'', ''on_success'', ''on_failure'']"

definition bad_reference :: "string list \<Rightarrow> pdict \<Rightarrow> string \<Rightarrow> string \<Rightarrow> exn option" where
  "bad_reference step_ids d field what =
     (if has_key d field \<and> cell d field \<notin> JStr ` set (''end'' # step_ids)
      then Some (ValueError (what @ '' is not a valid step ID or end'')) else None)"

definition entry_errors :: "string list \<Rightarrow> exn + pdict list \<Rightarrow> exn option" where
  "entry_errors step_ids r = (case r of
      Inl e \<Rightarrow> Some e
    | Inr ds \<Rightarrow> first_error (map (\<lambda>d. bad_reference step_ids d ''next_step'' ''next_step'') ds))"

definition step_error :: "string list \<Rightarrow> pdict \<Rightarrow> exn option" where
  "step_error step_ids step = first_error
     [if has_key step ''id'' then None else Some (ValueError ''Step missing id field''),
      if has_key step ''instruction'' then None else Some (ValueError ''Step missing instruction field''),
      if has_key step ''action'' then None else Some (ValueError ''Step missing action field''),
      if cell step ''action'' = JStr ''tool_call'' \<and> \<not> has_key step ''tool''
        then Some (ValueError ''Step has action tool_call but no tool field'') else None,
      first_error (map (\<lambda>f. bad_reference step_ids step f f) ref_fields),
      entry_errors step_ids (sub_entries step ''conditions''),
      entry_errors step_ids (sub_entries step ''options'')]"

text \<open>The set of identifiers is built before any step is checked.\<close>

definition validate_procedure :: "pdict list \<Rightarrow> exn + unit" where
  "validate_procedure steps = (case collect step_id steps of
      Inl e \<Rightarrow> Inl e
    | Inr step_ids \<Rightarrow> (case first_error (map (step_error step_ids) steps) of Some e \<Rightarrow> Inl e | None \<Rightarrow> Inr ()))"

text \<open>\<open>load_procedure\<close> on the parsed content of the file.\<close>

definition load_procedure :: "json \<Rightarrow> exn + pdict" where
  "load_procedure data = (case data of
      JObj d \<Rightarrow>
        if \<not> has_key d ''procedure'' then Inl (ValueError ''Invalid procedure file: missing procedure key'')
        else (case cell d ''procedure'' of
            JObj p \<Rightarrow>
              (case filter (\<lambda>k. \<not> has_key p k) [''id'', ''name'', ''description'', ''steps''] of
                 k # _ \<Rightarrow> Inl (ValueError (''Procedure missing required field '' @ k))
               | [] \<Rightarrow>
                   if \<not> truthy (cell p ''steps'') then Inl (ValueError ''Procedure has no steps'')
                   else (case mapping_list (cell p ''steps'') of
                       Inl e \<Rightarrow> Inl e
                     | Inr steps \<Rightarrow> (case validate_procedure steps of Inl e \<Rightarrow> Inl e | Inr _ \<Rightarrow> Inr p)))
          | _ \<Rightarrow> Inl (TypeError ''procedure''))
    | _ \<Rightarrow> if truthy data then Inl (TypeError ''data'')
           else Inl (ValueError ''Invalid procedure file: missing procedure key''))"

definition step_tools :: "pdict \<Rightarrow> string list" where
  "step_tools step =
     (if has_key step ''tool'' then [text_of (cell step ''tool'')] else []) @
     (case cell step ''tools'' of JList xs \<Rightarrow> map text_of xs | _ \<Rightarrow> [])"

definition get_procedure_tools :: "pdict list \<Rightarrow> string list" where
  "get_procedure_tools steps = sort (remdups (concat (map step_tools steps)))"

section \<open>The registry\<close>

record ProcedureRegistry =
  rg_procedures :: "(string \<times> pdict) list"
  rg_intents :: "(string \<times> string) list"

text \<open>One file; a file that cannot be loaded is skipped.\<close>

definition register_file :: "exn + pdict \<Rightarrow> ProcedureRegistry \<Rightarrow> ProcedureRegistry" where
  "register_file loaded reg = (case loaded of
      Inl _ \<Rightarrow> reg
    | Inr p \<Rightarrow>
        let pid = text_of (cell p ''id'');
            intents = (case cell p ''trigger_intents'' of JList xs \<Rightarrow> map text_of xs | _ \<Rightarrow> []) in
        \<lparr>rg_procedures = dict_set (rg_procedures reg) pid p,
         rg_intents = fold (\<lambda>i m. dict_set m (lower i) pid) intents (rg_intents reg)\<rparr>)"

definition load_all :: "json list \<Rightarrow> ProcedureRegistry" where
  "load_all files = fold (\<lambda>f reg. register_file (load_procedure f) reg) files \<lparr>rg_procedures = [], rg_intents = []\<rparr>"

definition get_procedure :: "ProcedureRegistry \<Rightarrow> string \<Rightarrow> pdict option" where
  "get_procedure reg pid = dict_get (rg_procedures reg) pid"

definition get_procedures_for_domain :: "ProcedureRegistry \<Rightarrow> string \<Rightarrow> pdict list" where
  "get_procedures_for_domain reg domain = map snd (filter (\<lambda>(pid, _). starts_with domain pid) (rg_procedures reg))"

definition get_procedure_tool_names :: "ProcedureRegistry \<Rightarrow> string \<Rightarrow> string list" where
  "get_procedure_tool_names reg pid = (case get_procedure reg pid of
      None \<Rightarrow> []
    | Some p \<Rightarrow> (case mapping_list (cell p ''steps'') of Inl _ \<Rightarrow> [] | Inr steps \<Rightarrow> get_procedure_tools steps))"

end
