(* ===== verification/Executor.thy ===== *)
theory Executor
  imports Procedures
begin

text \<open>
  The procedure state machine (\<open>procedures/executor.py\<close>), the registry of executors per session,
  and the session helpers of \<open>state/workflow_state.py\<close>. The executor and the session dict are part
  of the world; hooks are code of the callers, so they are parameters, run in order with their
  exceptions swallowed. Every change is audited through the logger the process was given.
\<close>

section \<open>State\<close>

datatype StepStatus = STEP_PENDING | STEP_ACTIVE | STEP_COMPLETED | STEP_SKIPPED | STEP_FAILED

fun step_status_value :: "StepStatus \<Rightarrow> string" where
  "step_status_value STEP_PENDING = ''pending''"
| "step_status_value STEP_ACTIVE = ''active''"
| "step_status_value STEP_COMPLETED = ''completed''"
| "step_status_value STEP_SKIPPED = ''skipped''"
| "step_status_value STEP_FAILED = ''failed''"

datatype ProcedureStatus = NOT_STARTED | IN_PROGRESS | COMPLETED | ESCALATED | PROC_FAILED | TIMED_OUT

fun procedure_status_value :: "ProcedureStatus \<Rightarrow> string" where
  "procedure_status_value NOT_STARTED = ''not_started''"
| "procedure_status_value IN_PROGRESS = ''in_progress''"
| "procedure_status_value COMPLETED = ''completed''"
| "procedure_status_value ESCALATED = ''escalated''"
| "procedure_status_value PROC_FAILED = ''failed''"
| "procedure_status_value TIMED_OUT = ''timed_out''"

record StepExecution =
  se_step_id :: string
  se_definition :: pdict
  se_status :: StepStatus
  se_entered_at :: "time option"
  se_completed_at :: "time option"
  se_transition_reason :: "string option"

definition new_execution :: "string \<Rightarrow> pdict \<Rightarrow> StepExecution" where
  "new_execution sid step = \<lparr>se_step_id = sid, se_definition = step, se_status = STEP_PENDING,
     se_entered_at = None, se_completed_at = None, se_transition_reason = None\<rparr>"

definition execution_enter :: "time \<Rightarrow> StepExecution \<Rightarrow> StepExecution" where
  "execution_enter now ex = ex\<lparr>se_status := STEP_ACTIVE, se_entered_at := Some now\<rparr>"

definition execution_complete :: "time \<Rightarrow> string \<Rightarrow> StepExecution \<Rightarrow> StepExecution" where
  "execution_complete now reason ex =
     ex\<lparr>se_status := STEP_COMPLETED, se_completed_at := Some now, se_transition_reason := Some reason\<rparr>"

definition execution_fail :: "time \<Rightarrow> string \<Rightarrow> StepExecution \<Rightarrow> StepExecution" where
  "execution_fail now reason ex =
     ex\<lparr>se_status := STEP_FAILED, se_completed_at := Some now, se_transition_reason := Some reason\<rparr>"

definition opt_time :: "time option \<Rightarrow> json" where
  "opt_time x = (case x of None \<Rightarrow> JNull | Some t \<Rightarrow> JInt t)"

definition execution_to_dict :: "StepExecution \<Rightarrow> pdict" where
  "execution_to_dict ex = [(''step_id'', JStr (se_step_id ex)), (''status'', JStr (step_status_value (se_status ex))),
     (''entered_at'', opt_time (se_entered_at ex)), (''completed_at'', opt_time (se_completed_at ex)),
     (''transition_reason'', opt_str (se_transition_reason ex))]"

record ProcedureExecutor =
  ex_procedure_id :: string
  ex_procedure_name :: string
  ex_steps :: "(string \<times> pdict) list"
  ex_step_order :: "string list"
  ex_valid_transitions :: "(string \<times> string list) list"
  ex_status :: ProcedureStatus
  ex_current_step_id :: "string option"
  ex_step_executions :: "(string \<times> StepExecution) list"
  ex_started_at :: "time option"
  ex_completed_at :: "time option"

section \<open>Construction\<close>

text \<open>A target that is not text equals no step identifier, so the sets keep only the text ones.\<close>

definition text_targets :: "json list \<Rightarrow> string list" where
  "text_targets js = concat (map (\<lambda>j. case j of JStr s \<Rightarrow> if s = ''end'' then [] else [s] | _ \<Rightarrow> []) js)"

definition step_targets :: "pdict \<Rightarrow> exn + string list" where
  "step_targets step = (case sub_entries step ''conditions'' of
      Inl e \<Rightarrow> Inl e
    | Inr conds \<Rightarrow> (case sub_entries step ''options'' of
          Inl e \<Rightarrow> Inl e
        | Inr opts \<Rightarrow> Inr (text_targets (map (cell step) (filter (has_key step) ref_fields)) @
            filter (\<lambda>x. x \<noteq> []) (text_targets (map (\<lambda>d. cell d ''next_step'') (conds @ opts))) @ [''end''])))"

text \<open>\<open>ProcedureExecutor(procedure)\<close>; a later step with the same identifier replaces the earlier.\<close>

definition new_executor :: "pdict \<Rightarrow> exn + ProcedureExecutor" where
  "new_executor procedure = (case mapping_list (cell procedure ''steps'') of
      Inl e \<Rightarrow> Inl e
    | Inr steps \<Rightarrow> (case collect step_id steps of
          Inl e \<Rightarrow> Inl e
        | Inr ids \<Rightarrow> (case collect step_targets steps of
              Inl e \<Rightarrow> Inl e
            | Inr targets \<Rightarrow> Inr
                \<lparr>ex_procedure_id = text_of (cell procedure ''id''), ex_procedure_name = text_of (cell procedure ''name''),
                 ex_steps = dict_merge [] (zip ids steps), ex_step_order = ids,
                 ex_valid_transitions = dict_merge [] (zip ids targets), ex_status = NOT_STARTED,
                 ex_current_step_id = None, ex_step_executions = [], ex_started_at = None, ex_completed_at = None\<rparr>)))"

section \<open>The world of an execution\<close>

record pworld = bworld +
  executor :: ProcedureExecutor
  session_state :: pdict

type_synonym ('a, 'z) xop = "('a, 'z pworld_scheme) op"

record 'z executor_env =
  xe_on_enter :: "(string \<Rightarrow> pdict \<Rightarrow> (unit, 'z) xop) list"
  xe_on_exit :: "(string \<Rightarrow> pdict \<Rightarrow> (unit, 'z) xop) list"
  xe_audit :: "AuditEntry \<Rightarrow> (string, 'z) xop"

definition on_executor :: "(ProcedureExecutor \<Rightarrow> ProcedureExecutor) \<Rightarrow> (unit, 'z) xop" where
  "on_executor f = modifyE (\<lambda>s. s\<lparr>executor := f (executor s)\<rparr>)"

definition on_session :: "(pdict \<Rightarrow> pdict) \<Rightarrow> (unit, 'z) xop" where
  "on_session f = modifyE (\<lambda>s. s\<lparr>session_state := f (session_state s)\<rparr>)"

definition run_hooks :: "(string \<Rightarrow> pdict \<Rightarrow> (unit, 'z) xop) list \<Rightarrow> string \<Rightarrow> pdict \<Rightarrow> (unit, 'z) xop" where
  "run_hooks hooks sid step = foldE (\<lambda>hook _. catchE (hook sid step) (\<lambda>_. returnE ())) hooks ()"

definition completed_steps :: "ProcedureExecutor \<Rightarrow> string list" where
  "completed_steps ex = map fst (filter (\<lambda>(_, e). se_status e = STEP_COMPLETED) (ex_step_executions ex))"

definition update_session_state :: "string \<Rightarrow> (unit, 'z) xop" where
  "update_session_state sid =
     bindE (getE executor) (\<lambda>ex.
     on_session (\<lambda>d. dict_merge d
       [(''current_procedure'', JStr (ex_procedure_id ex)), (''current_procedure_name'', JStr (ex_procedure_name ex)),
        (''current_step'', JStr sid), (''steps_completed'', JList (map JStr (completed_steps ex))),
        (''workflow_status'', JStr (procedure_status_value (ex_status ex))),
        (''workflow_started_at'', opt_time (ex_started_at ex))]))"

text \<open>
  The audited fields every entry of the executor shares; \<open>xe_audit\<close> is the \<open>log\<close> of the process's
  logger, which sets identifier, time and correlation.
\<close>

definition executor_entry ::
  "AuditAction \<Rightarrow> string \<Rightarrow> string \<Rightarrow> string option \<Rightarrow> pdict \<Rightarrow> 'z pworld_scheme \<Rightarrow> AuditEntry" where
  "executor_entry action resource_type resource_id sid metadata s =
     \<lparr>ae_entry_id = [], ae_timestamp = 0, ae_correlation_id = None, ae_action = action,
      ae_actor = text_of (case dict_get (session_state s) ''customer_id'' of None \<Rightarrow> JStr ''system'' | Some v \<Rightarrow> v),
      ae_resource_type = resource_type, ae_resource_id = resource_id,
      ae_session_id = (case cell (session_state s) ''_session_id'' of JStr x \<Rightarrow> Some x | _ \<Rightarrow> None),
      ae_procedure_id = Some (ex_procedure_id (executor s)), ae_step_id = sid,
      ae_before_state = None, ae_after_state = None, ae_metadata = metadata\<rparr>"

definition audit_executor ::
  "'z executor_env \<Rightarrow> ('z pworld_scheme \<Rightarrow> AuditEntry) \<Rightarrow> (unit, 'z) xop" where
  "audit_executor env entry = bindE (getE entry) (\<lambda>e. bindE (xe_audit env e) (\<lambda>_. returnE ()))"

section \<open>Operations\<close>

definition enter_step :: "'z executor_env \<Rightarrow> string \<Rightarrow> (string, 'z) xop" where
  "enter_step env sid =
     bindE (getE executor) (\<lambda>ex.
     case dict_get (ex_steps ex) sid of
       None \<Rightarrow> raiseE (ProcedureError ''Step does not exist in procedure'' ''INVALID_STEP_TRANSITION'')
     | Some step \<Rightarrow>
         bindE now_op (\<lambda>now.
         bindE (on_executor (\<lambda>ex. ex\<lparr>ex_step_executions :=
             dict_set (ex_step_executions ex) sid (execution_enter now (new_execution sid step)),
           ex_current_step_id := Some sid\<rparr>)) (\<lambda>_.
         bindE (update_session_state sid) (\<lambda>_.
         bindE (run_hooks (xe_on_enter env) sid step) (\<lambda>_.
         returnE sid)))))"

definition start :: "'z executor_env \<Rightarrow> (string, 'z) xop" where
  "start env =
     bindE (getE executor) (\<lambda>ex.
     bindE (raise_if (ex_status ex = IN_PROGRESS)
       (ProcedureError ''Procedure is already in progress'' ''PROCEDURE_ALREADY_ACTIVE'')) (\<lambda>_.
     bindE now_op (\<lambda>now.
     bindE (on_executor (\<lambda>ex. ex\<lparr>ex_status := IN_PROGRESS, ex_started_at := Some now\<rparr>)) (\<lambda>_.
     case ex_step_order ex of
       [] \<Rightarrow> raiseE IndexError
     | first_step_id # _ \<Rightarrow>
         bindE (update_session_state first_step_id) (\<lambda>_.
         bindE (audit_executor env (executor_entry PROCEDURE_STARTED ''procedure'' (ex_procedure_id ex) None
           [(''first_step'', JStr first_step_id)])) (\<lambda>_.
         enter_step env first_step_id))))))"

definition complete :: "'z executor_env \<Rightarrow> string \<Rightarrow> (string, 'z) xop" where
  "complete env resolution =
     bindE now_op (\<lambda>now.
     bindE (on_executor (\<lambda>ex. ex\<lparr>ex_status := COMPLETED, ex_completed_at := Some now, ex_current_step_id := None\<rparr>)) (\<lambda>_.
     bindE (on_session (\<lambda>d. dict_merge d
       [(''workflow_status'', JStr ''completed''), (''workflow_resolution'', JStr resolution),
        (''workflow_completed_at'', JInt now), (''current_step'', JNull)])) (\<lambda>_.
     bindE (getE executor) (\<lambda>ex.
     bindE (audit_executor env (executor_entry PROCEDURE_COMPLETED ''procedure'' (ex_procedure_id ex) None
       [(''resolution'', JStr resolution), (''steps_executed'', JInt (int (length (ex_step_executions ex))))])) (\<lambda>_.
     returnE ''end'')))))"

definition complete_current :: "'z executor_env \<Rightarrow> string \<Rightarrow> string \<Rightarrow> (unit, 'z) xop" where
  "complete_current env current reason =
     bindE (getE executor) (\<lambda>ex.
     case dict_get (ex_step_executions ex) current of
       None \<Rightarrow> returnE ()
     | Some e \<Rightarrow>
         bindE now_op (\<lambda>now.
         bindE (on_executor (\<lambda>ex. ex\<lparr>ex_step_executions :=
           dict_set (ex_step_executions ex) current (execution_complete now reason e)\<rparr>)) (\<lambda>_.
         run_hooks (xe_on_exit env) current (case dict_get (ex_steps ex) current of None \<Rightarrow> [] | Some d \<Rightarrow> d))))"

definition transition :: "'z executor_env \<Rightarrow> string \<Rightarrow> string \<Rightarrow> (string, 'z) xop" where
  "transition env target reason =
     bindE (getE executor) (\<lambda>ex.
     case ex_current_step_id ex of
       None \<Rightarrow> raiseE (ProcedureError ''No active step to transition from'' ''INVALID_PROCEDURE'')
     | Some current \<Rightarrow>
         if target \<notin> set (case dict_get (ex_valid_transitions ex) current of None \<Rightarrow> [] | Some ts \<Rightarrow> ts)
         then raiseE (ProcedureError ''Invalid transition'' ''INVALID_STEP_TRANSITION'')
         else
         bindE (complete_current env current reason) (\<lambda>_.
         bindE (audit_executor env (executor_entry STEP_TRANSITION ''procedure_step''
           (ex_procedure_id ex @ '':'' @ target) (Some target)
           [(''from_step'', JStr current), (''reason'', JStr reason)])) (\<lambda>_.
         if target = ''end'' then complete env reason else enter_step env target)))"

definition escalate :: "'z executor_env \<Rightarrow> string \<Rightarrow> (string, 'z) xop" where
  "escalate env reason =
     bindE now_op (\<lambda>now.
     bindE (on_executor (\<lambda>ex. ex\<lparr>ex_status := ESCALATED, ex_completed_at := Some now\<rparr>)) (\<lambda>_.
     bindE (on_session (\<lambda>d. dict_merge d
       [(''workflow_status'', JStr ''escalated''), (''escalation_reason'', JStr reason), (''escalated_at'', JInt now)])) (\<lambda>_.
     bindE (getE executor) (\<lambda>ex.
     bindE (audit_executor env (executor_entry PROCEDURE_ESCALATED ''procedure'' (ex_procedure_id ex) None
       [(''reason'', JStr reason), (''step'', opt_str (ex_current_step_id ex))])) (\<lambda>_.
     returnE ''escalated'')))))"

section \<open>Queries\<close>

definition exec_current_step :: "ProcedureExecutor \<Rightarrow> pdict option" where
  "exec_current_step ex = (case ex_current_step_id ex of
      None \<Rightarrow> None | Some i \<Rightarrow> if i = [] then None else dict_get (ex_steps ex) i)"

definition get_allowed_tools :: "ProcedureExecutor \<Rightarrow> string list" where
  "get_allowed_tools ex = (case exec_current_step ex of None \<Rightarrow> [] | Some step \<Rightarrow> if step = [] then [] else step_tools step)"

definition get_valid_transitions :: "ProcedureExecutor \<Rightarrow> string list" where
  "get_valid_transitions ex = (case ex_current_step_id ex of
      None \<Rightarrow> []
    | Some i \<Rightarrow> if i = [] then [] else (case dict_get (ex_valid_transitions ex) i of None \<Rightarrow> [] | Some ts \<Rightarrow> ts))"

definition get_progress :: "ProcedureExecutor \<Rightarrow> pdict" where
  "get_progress ex = [(''procedure_id'', JStr (ex_procedure_id ex)), (''procedure_name'', JStr (ex_procedure_name ex)),
     (''status'', JStr (procedure_status_value (ex_status ex))), (''current_step'', opt_str (ex_current_step_id ex)),
     (''steps_completed'', JList (map JStr (completed_steps ex))), (''total_steps'', JInt (int (length (ex_steps ex)))),
     (''started_at'', opt_time (ex_started_at ex)), (''completed_at'', opt_time (ex_completed_at ex))]"

definition get_step_history :: "ProcedureExecutor \<Rightarrow> pdict list" where
  "get_step_history ex = map (execution_to_dict \<circ> snd) (ex_step_executions ex)"

section \<open>Executors per session\<close>

type_synonym executor_registry = "(string \<times> ProcedureExecutor) list"

definition registry_create :: "string \<Rightarrow> pdict \<Rightarrow> executor_registry \<Rightarrow> exn + (ProcedureExecutor \<times> executor_registry)" where
  "registry_create session_id procedure reg = (case new_executor procedure of
      Inl e \<Rightarrow> Inl e | Inr ex \<Rightarrow> Inr (ex, dict_set reg session_id ex))"

definition registry_remove :: "string \<Rightarrow> executor_registry \<Rightarrow> executor_registry" where
  "registry_remove session_id reg = dict_pop reg session_id"

definition list_active :: "executor_registry \<Rightarrow> (string \<times> pdict) list" where
  "list_active reg = map (\<lambda>(sid, ex). (sid, get_progress ex)) (filter (\<lambda>(_, ex). ex_status ex = IN_PROGRESS) reg)"

section \<open>Session bookkeeping\<close>

definition initialize_workflow :: "string \<Rightarrow> string \<Rightarrow> time \<Rightarrow> pdict \<Rightarrow> pdict" where
  "initialize_workflow procedure_id procedure_name now state = dict_merge state
     [(''current_procedure'', JStr procedure_id), (''current_procedure_name'', JStr procedure_name),
      (''current_step'', JNull), (''steps_completed'', JList []), (''workflow_status'', JStr ''in_progress''),
      (''workflow_started_at'', JInt now), (''workflow_resolution'', JNull), (''workflow_completed_at'', JNull)]"

text \<open>\<open>state.get("steps_completed", [])\<close>\<close>

definition steps_completed :: "pdict \<Rightarrow> json list" where
  "steps_completed state = (case dict_get state ''steps_completed'' of Some (JList xs) \<Rightarrow> xs | _ \<Rightarrow> [])"

definition mark_current_completed :: "pdict \<Rightarrow> pdict" where
  "mark_current_completed state =
     (let previous = cell state ''current_step'' in
      if truthy previous \<and> \<not> list_ex (py_eq previous) (steps_completed state)
      then dict_set state ''steps_completed'' (JList (steps_completed state @ [previous])) else state)"

definition set_current_step :: "string \<Rightarrow> pdict \<Rightarrow> pdict" where
  "set_current_step sid state = dict_set (mark_current_completed state) ''current_step'' (JStr sid)"

definition state_current_step :: "pdict \<Rightarrow> json" where
  "state_current_step state = cell state ''current_step''"

definition get_workflow_progress :: "pdict \<Rightarrow> pdict" where
  "get_workflow_progress state =
     [(''current_procedure'', cell state ''current_procedure''),
      (''current_procedure_name'', cell state ''current_procedure_name''),
      (''current_step'', cell state ''current_step''),
      (''steps_completed'', case dict_get state ''steps_completed'' of None \<Rightarrow> JList [] | Some v \<Rightarrow> v),
      (''workflow_status'', cell state ''workflow_status''), (''started_at'', cell state ''workflow_started_at''),
      (''resolution'', cell state ''workflow_resolution''), (''completed_at'', cell state ''workflow_completed_at'')]"

definition record_tool_result :: "string \<Rightarrow> json \<Rightarrow> pdict \<Rightarrow> pdict" where
  "record_tool_result tool_name result state = dict_set state (''tool_result:'' @ tool_name) result"

definition complete_workflow :: "string \<Rightarrow> time \<Rightarrow> pdict \<Rightarrow> pdict" where
  "complete_workflow resolution now state = dict_merge (mark_current_completed state)
     [(''workflow_status'', JStr ''completed''), (''workflow_resolution'', JStr resolution),
      (''workflow_completed_at'', JInt now), (''current_step'', JNull)]"

definition escalate_workflow :: "string \<Rightarrow> time \<Rightarrow> pdict \<Rightarrow> pdict" where
  "escalate_workflow reason now state = dict_merge state
     [(''workflow_status'', JStr ''escalated''), (''escalation_reason'', JStr reason), (''escalated_at'', JInt now)]"

end
