(* ===== verification/Executor_Laws.thy ===== *)
theory Executor_Laws
  imports Executor
begin

text \<open>
  What the executor guarantees for a procedure the loader accepted: it moves along the edges of the
  procedure and nowhere else, an allowed move never fails, its current step is always a step of
  the procedure that is active, the session shows what the executor knows, and the end can be
  reached from every step.
\<close>

section \<open>Hooks and audit do not interfere\<close>

definition quiet_op :: "('a, 'z) xop \<Rightarrow> bool" where
  "quiet_op m \<longleftrightarrow> (\<forall>s. executor (snd (m s)) = executor s \<and> session_state (snd (m s)) = session_state s)"

text \<open>Callers' hooks and the audit writer leave executor and session alone; logging never raises.\<close>

definition quiet_env :: "'z executor_env \<Rightarrow> bool" where
  "quiet_env env \<longleftrightarrow> (\<forall>hook \<in> set (xe_on_enter env @ xe_on_exit env). \<forall>i d. quiet_op (hook i d)) \<and>
     (\<forall>e. quiet_op (xe_audit env e) \<and> (\<forall>s. \<exists>x. fst (xe_audit env e s) = Inr x))"

lemma run_hooks_quiet:
  assumes "\<forall>hook \<in> set hooks. \<forall>i d. quiet_op (hook i d)"
  shows "\<exists>t. run_hooks hooks i d s = (Inr (), t) \<and> executor t = executor s \<and> session_state t = session_state s"
  using assms
proof (induction hooks arbitrary: s)
  case (Cons hook hooks)
  obtain r u where r: "hook i d s = (r, u)" by fastforce
  then have u: "executor u = executor s" "session_state u = session_state s"
    using Cons.prems by (auto simp: quiet_op_def) (metis snd_conv)+
  from Cons.IH [of u] Cons.prems obtain t where
    "run_hooks hooks i d u = (Inr (), t)" "executor t = executor u" "session_state t = session_state u" by auto
  then show ?case using r u
    by (cases r) (auto simp: run_hooks_def bindE_def catchE_def returnE_def)
qed (simp add: run_hooks_def returnE_def)

lemma audit_executor_quiet:
  assumes "quiet_env env"
  shows "\<exists>t. audit_executor env f s = (Inr (), t) \<and> executor t = executor s \<and> session_state t = session_state s"
proof -
  obtain x t where "xe_audit env (f s) s = (Inr x, t)"
    using assms by (metis quiet_env_def prod.collapse)
  then show ?thesis using assms
    by (auto simp: audit_executor_def quiet_env_def quiet_op_def bindE_def getE_def returnE_def) (metis snd_conv)+
qed

section \<open>Each operation\<close>

definition entered :: "string \<Rightarrow> pdict \<Rightarrow> time \<Rightarrow> ProcedureExecutor \<Rightarrow> ProcedureExecutor" where
  "entered sid step now ex = ex\<lparr>ex_step_executions :=
     dict_set (ex_step_executions ex) sid (execution_enter now (new_execution sid step)), ex_current_step_id := Some sid\<rparr>"

definition shown :: "ProcedureExecutor \<Rightarrow> pdict \<Rightarrow> bool" where
  "shown ex d \<longleftrightarrow> cell d ''current_step'' = opt_str (ex_current_step_id ex) \<and>
     cell d ''workflow_status'' = JStr (procedure_status_value (ex_status ex))"

lemma enter_step_ok:
  assumes "quiet_env env" and "dict_get (ex_steps (executor s)) sid = Some step"
  shows "\<exists>t now. enter_step env sid s = (Inr sid, t) \<and> executor t = entered sid step now (executor s) \<and>
    shown (executor t) (session_state t)"
proof -
  let ?now = "clock_src s (clock_idx s)"
  let ?u = "snd (update_session_state sid (s\<lparr>clock_idx := Suc (clock_idx s), executor := entered sid step ?now (executor s)\<rparr>))"
  have hooks: "\<forall>hook \<in> set (xe_on_enter env). \<forall>i d. quiet_op (hook i d)"
    using assms(1) by (simp add: quiet_env_def)
  from run_hooks_quiet [OF this, of sid step ?u] obtain t where
    t: "run_hooks (xe_on_enter env) sid step ?u = (Inr (), t)" "executor t = executor ?u" "session_state t = session_state ?u"
    by blast
  have u: "executor ?u = entered sid step ?now (executor s)" "shown (entered sid step ?now (executor s)) (session_state ?u)"
    by (simp_all add: update_session_state_def on_session_def bindE_def getE_def modifyE_def shown_def entered_def
        dict_merge_def cell_def get_or_null_def opt_str_def)
  have "enter_step env sid s = (Inr sid, t)"
    using t(1) assms(2)
    by (simp add: enter_step_def bindE_def getE_def now_op_def on_executor_def modifyE_def entered_def
        update_session_state_def on_session_def returnE_def)
  with t(2,3) u show ?thesis by auto
qed

lemma enter_step_unknown:
  "dict_get (ex_steps (executor s)) sid = None \<Longrightarrow> \<exists>e. enter_step env sid s = (Inl e, s)"
  by (simp add: enter_step_def bindE_def getE_def raiseE_def)

lemma complete_ok:
  assumes "quiet_env env"
  shows "\<exists>t now. complete env reason s = (Inr ''end'', t) \<and>
    executor t = (executor s)\<lparr>ex_status := COMPLETED, ex_completed_at := Some now, ex_current_step_id := None\<rparr> \<and>
    shown (executor t) (session_state t)"
proof -
  let ?now = "clock_src s (clock_idx s)"
  let ?u = "s\<lparr>clock_idx := Suc (clock_idx s),
    executor := (executor s)\<lparr>ex_status := COMPLETED, ex_completed_at := Some ?now, ex_current_step_id := None\<rparr>,
    session_state := dict_merge (session_state s)
       [(''workflow_status'', JStr ''completed''), (''workflow_resolution'', JStr reason),
        (''workflow_completed_at'', JInt ?now), (''current_step'', JNull)]\<rparr>"
  from audit_executor_quiet [OF assms, of _ ?u] obtain t where
    t: "audit_executor env (executor_entry PROCEDURE_COMPLETED ''procedure'' (ex_procedure_id (executor ?u)) None
       [(''resolution'', JStr reason), (''steps_executed'', JInt (int (length (ex_step_executions (executor ?u)))))]) ?u =
      (Inr (), t)" "executor t = executor ?u" "session_state t = session_state ?u" by blast
  have "complete env reason s = (Inr ''end'', t)"
    using t(1) by (simp add: complete_def bindE_def now_op_def on_executor_def on_session_def modifyE_def getE_def returnE_def)
  then show ?thesis using t(2,3)
    by (auto simp: shown_def dict_merge_def cell_def get_or_null_def opt_str_def)
qed

lemma complete_current_ok:
  assumes "quiet_env env"
  shows "\<exists>t now. complete_current env c reason s = (Inr (), t) \<and> session_state t = session_state s \<and>
    executor t = (executor s)\<lparr>ex_step_executions := (case dict_get (ex_step_executions (executor s)) c of
        None \<Rightarrow> ex_step_executions (executor s)
      | Some e \<Rightarrow> dict_set (ex_step_executions (executor s)) c (execution_complete now reason e))\<rparr>"
proof (cases "dict_get (ex_step_executions (executor s)) c")
  case None
  then show ?thesis by (auto simp: complete_current_def bindE_def getE_def returnE_def)
next
  case (Some e)
  let ?now = "clock_src s (clock_idx s)"
  let ?u = "s\<lparr>clock_idx := Suc (clock_idx s), executor := (executor s)\<lparr>ex_step_executions :=
    dict_set (ex_step_executions (executor s)) c (execution_complete ?now reason e)\<rparr>\<rparr>"
  have hooks: "\<forall>hook \<in> set (xe_on_exit env). \<forall>i d. quiet_op (hook i d)"
    using assms by (simp add: quiet_env_def)
  from run_hooks_quiet [OF this, of c _ ?u] obtain t where
    "run_hooks (xe_on_exit env) c (case dict_get (ex_steps (executor s)) c of None \<Rightarrow> [] | Some d \<Rightarrow> d) ?u = (Inr (), t)"
    "executor t = executor ?u" "session_state t = session_state ?u" by blast
  then show ?thesis using Some
    by (auto simp: complete_current_def bindE_def getE_def now_op_def on_executor_def modifyE_def)
qed

definition targets :: "ProcedureExecutor \<Rightarrow> string \<Rightarrow> string list" where
  "targets ex c = (case dict_get (ex_valid_transitions ex) c of None \<Rightarrow> [] | Some ts \<Rightarrow> ts)"

text \<open>An allowed transition: the current step is completed, then the target is entered or the procedure ends.\<close>

lemma transition_allowed:
  assumes "quiet_env env" and "ex_current_step_id (executor s) = Some c" and "target \<in> set (targets (executor s) c)"
  shows "\<exists>u now. transition env target reason s =
      (if target = ''end'' then complete env reason u else enter_step env target u) \<and>
    session_state u = session_state s \<and>
    executor u = (executor s)\<lparr>ex_step_executions := (case dict_get (ex_step_executions (executor s)) c of
        None \<Rightarrow> ex_step_executions (executor s)
      | Some e \<Rightarrow> dict_set (ex_step_executions (executor s)) c (execution_complete now reason e))\<rparr>"
proof -
  from complete_current_ok [OF assms(1), of c reason s] obtain v and now where
    v: "complete_current env c reason s = (Inr (), v)" "session_state v = session_state s"
      "executor v = (executor s)\<lparr>ex_step_executions := (case dict_get (ex_step_executions (executor s)) c of
        None \<Rightarrow> ex_step_executions (executor s)
      | Some e \<Rightarrow> dict_set (ex_step_executions (executor s)) c (execution_complete now reason e))\<rparr>" by blast
  from audit_executor_quiet [OF assms(1), of _ v] obtain u where
    u: "audit_executor env (executor_entry STEP_TRANSITION ''procedure_step''
           (ex_procedure_id (executor s) @ '':'' @ target) (Some target)
           [(''from_step'', JStr c), (''reason'', JStr reason)]) v = (Inr (), u)"
      "executor u = executor v" "session_state u = session_state v" by blast
  have "transition env target reason s = (if target = ''end'' then complete env reason u else enter_step env target u)"
    using assms(2,3) v(1) u(1) by (simp add: transition_def bindE_def getE_def targets_def)
  then show ?thesis using u(2,3) v(2,3) by auto
qed

lemma transition_refused:
  assumes "ex_current_step_id (executor s) = Some c" and "target \<notin> set (targets (executor s) c)"
  shows "transition env target reason s = (Inl (ProcedureError ''Invalid transition'' ''INVALID_STEP_TRANSITION''), s)"
  using assms by (simp add: transition_def bindE_def getE_def targets_def raiseE_def)

section \<open>Accepted procedures\<close>

lemma first_error_None: "first_error es = None \<longleftrightarrow> (\<forall>e \<in> set es. e = None)"
  by (induction es rule: first_error.induct) auto

lemma collect_Inr: "collect f xs = Inr ys \<Longrightarrow> length ys = length xs \<and> (\<forall>i < length xs. f (xs ! i) = Inr (ys ! i))"
proof (induction xs arbitrary: ys)
  case (Cons x xs)
  then show ?case by (auto simp: nth_Cons split: sum.splits nat.splits)
qed simp

text \<open>Everything a step may refer to is a step or the end.\<close>

lemma step_targets_known:
  assumes "step_error ids step = None" and "step_targets step = Inr ts"
  shows "set ts \<subseteq> insert ''end'' (set ids) \<and> ''end'' \<in> set ts"
proof -
  obtain conds opts where sub: "sub_entries step ''conditions'' = Inr conds" "sub_entries step ''options'' = Inr opts"
    using assms(2) by (auto simp: step_targets_def split: sum.splits)
  have ref: "cell d f \<in> JStr ` insert ''end'' (set ids)" if "bad_reference ids d f w = None" "has_key d f" for d f w
    using that by (auto simp: bad_reference_def split: if_splits)
  have checks: "\<forall>f \<in> set ref_fields. bad_reference ids step f f = None"
      "entry_errors ids (Inr conds) = None" "entry_errors ids (Inr opts) = None"
    using assms(1) by (simp_all add: step_error_def first_error_None sub)
  have fields: "\<forall>f \<in> set ref_fields. has_key step f \<longrightarrow> cell step f \<in> JStr ` insert ''end'' (set ids)"
    using checks(1) ref by blast
  have entries: "\<forall>d \<in> set (conds @ opts). has_key d ''next_step'' \<longrightarrow> cell d ''next_step'' \<in> JStr ` insert ''end'' (set ids)"
    using checks(2,3) ref by (simp add: entry_errors_def first_error_None) blast
  have none: "cell d f = JNull" if "\<not> has_key d f" for d f
    using that by (simp add: has_key_def cell_def get_or_null_def)
  have tgt: "x \<in> set (text_targets js) \<Longrightarrow> JStr x \<in> set js" for x js
    by (auto simp: text_targets_def split: json.splits if_splits)
  have "set (text_targets (map (cell step) (filter (has_key step) ref_fields))) \<subseteq> insert ''end'' (set ids)"
  proof
    fix x
    assume "x \<in> set (text_targets (map (cell step) (filter (has_key step) ref_fields)))"
    from tgt [OF this] obtain f where f: "f \<in> set ref_fields" "has_key step f" "JStr x = cell step f" by auto
    then have "cell step f \<in> JStr ` insert ''end'' (set ids)" using fields by blast
    then show "x \<in> insert ''end'' (set ids)" using f(3) by auto
  qed
  moreover have "set (text_targets (map (\<lambda>d. cell d ''next_step'') (conds @ opts))) \<subseteq> insert ''end'' (set ids)"
  proof
    fix x
    assume "x \<in> set (text_targets (map (\<lambda>d. cell d ''next_step'') (conds @ opts)))"
    from tgt [OF this] obtain d where d: "d \<in> set (conds @ opts)" "JStr x = cell d ''next_step''" by auto
    then have "has_key d ''next_step''" using none [of d "''next_step''"] by (cases "has_key d ''next_step''") simp_all
    then have "cell d ''next_step'' \<in> JStr ` insert ''end'' (set ids)" using d(1) entries by blast
    then show "x \<in> insert ''end'' (set ids)" using d(2) by auto
  qed
  ultimately show ?thesis using assms(2) by (auto simp: step_targets_def sub simp del: map_append)
qed

text \<open>The executor of an accepted procedure.\<close>

definition graph_ok :: "ProcedureExecutor \<Rightarrow> bool" where
  "graph_ok ex \<longleftrightarrow> ex_step_order ex \<noteq> [] \<and> set (ex_step_order ex) = set (dict_keys (ex_steps ex)) \<and>
     (\<forall>c. dict_get (ex_steps ex) c \<noteq> None \<longrightarrow> ''end'' \<in> set (targets ex c)) \<and>
     (\<forall>c. set (targets ex c) \<subseteq> insert ''end'' (set (dict_keys (ex_steps ex))))"

lemma dict_get_merge_zip:
  assumes "length ks = length vs" and "dict_get (dict_merge d (zip ks vs)) k = Some v"
  shows "dict_get d k = Some v \<or> (\<exists>i < length ks. ks ! i = k \<and> vs ! i = v)"
  using assms
proof (induction ks vs arbitrary: d rule: list_induct2)
  case (Cons x xs y ys)
  then have "dict_get (dict_merge (dict_set d x y) (zip xs ys)) k = Some v" by (simp add: dict_merge_def)
  from Cons.IH [OF this] show ?case by (auto split: if_splits)
qed (simp add: dict_merge_def)

lemma keys_merge_zip: "length ks = length vs \<Longrightarrow> set (dict_keys (dict_merge d (zip ks vs))) = set (dict_keys d) \<union> set ks"
  by (induction ks vs arbitrary: d rule: list_induct2) (auto simp: dict_merge_def)

lemma accepted_graph_ok:
  assumes "mapping_list (cell p ''steps'') = Inr steps" and "steps \<noteq> []" and "validate_procedure steps = Inr ()"
    and "new_executor p = Inr ex"
  shows "graph_ok ex \<and> ex_status ex = NOT_STARTED \<and> ex_current_step_id ex = None \<and> ex_step_executions ex = []"
proof -
  obtain ids ts where ids: "collect step_id steps = Inr ids" and ts: "collect step_targets steps = Inr ts"
    and ex: "ex_steps ex = dict_merge [] (zip ids steps)" "ex_step_order ex = ids"
      "ex_valid_transitions ex = dict_merge [] (zip ids ts)"
      "ex_status ex = NOT_STARTED" "ex_current_step_id ex = None" "ex_step_executions ex = []"
    using assms(1,4) by (auto simp: new_executor_def split: sum.splits)
  have len: "length ids = length steps" "length ts = length steps" using collect_Inr [OF ids] collect_Inr [OF ts] by auto
  have keys: "set (dict_keys (ex_steps ex)) = set ids" "set (dict_keys (ex_valid_transitions ex)) = set ids"
    using len by (simp_all add: ex keys_merge_zip) (simp_all add: dict_keys_def)
  have errors: "\<forall>step \<in> set steps. step_error ids step = None"
    using assms(3) ids by (auto simp: validate_procedure_def first_error_None split: option.splits)
  have known: "set v \<subseteq> insert ''end'' (set ids) \<and> ''end'' \<in> set v" if "dict_get (ex_valid_transitions ex) c = Some v" for c v
  proof -
    from dict_get_merge_zip [of ids ts "[]" c v] that len ex(3) obtain i where "i < length ids" "ts ! i = v"
      by (auto simp: dict_get_def)
    then show ?thesis using step_targets_known [of ids "steps ! i" v] errors len collect_Inr [OF ts] by auto
  qed
  have dom: "dict_get (ex_valid_transitions ex) c \<noteq> None" if "dict_get (ex_steps ex) c \<noteq> None" for c
    using that keys by (simp add: dict_get_None)
  have "''end'' \<in> set (targets ex c)" if "dict_get (ex_steps ex) c \<noteq> None" for c
  proof -
    from dom [OF that] obtain v where "dict_get (ex_valid_transitions ex) c = Some v" by blast
    then show ?thesis using known by (simp add: targets_def)
  qed
  moreover have "set (targets ex c) \<subseteq> insert ''end'' (set ids)" for c
    using known [of c] by (cases "dict_get (ex_valid_transitions ex) c") (simp_all add: targets_def)
  ultimately have "graph_ok ex" using keys ex(2) len assms(2) unfolding graph_ok_def by auto
  then show ?thesis using ex by simp
qed

section \<open>Runs of the executor\<close>

inductive executor_step :: "'z executor_env \<Rightarrow> 'z pworld_scheme \<Rightarrow> 'z pworld_scheme \<Rightarrow> bool" for env where
  start: "start env s = (r, t) \<Longrightarrow> executor_step env s t"
| enter: "enter_step env sid s = (r, t) \<Longrightarrow> executor_step env s t"
| transition: "transition env target reason s = (r, t) \<Longrightarrow> executor_step env s t"
| complete: "complete env reason s = (r, t) \<Longrightarrow> executor_step env s t"
| escalate: "escalate env reason s = (r, t) \<Longrightarrow> executor_step env s t"
| other: "executor t = executor s \<Longrightarrow> session_state t = session_state s \<Longrightarrow> executor_step env s t"

text \<open>
  The current step is a step of the procedure and active, only steps of the procedure were executed,
  and once the procedure has begun the session shows the executor's step and status.
\<close>

definition executor_inv :: "'z pworld_scheme \<Rightarrow> bool" where
  "executor_inv s \<longleftrightarrow> (let ex = executor s in graph_ok ex \<and>
     set (dict_keys (ex_step_executions ex)) \<subseteq> set (dict_keys (ex_steps ex)) \<and>
     (\<forall>c. ex_current_step_id ex = Some c \<longrightarrow>
        (\<exists>e. dict_get (ex_step_executions ex) c = Some e \<and> se_status e = STEP_ACTIVE)) \<and>
     (ex_status ex \<noteq> NOT_STARTED \<or> ex_current_step_id ex \<noteq> None \<longrightarrow>
        cell (session_state s) ''workflow_status'' = JStr (procedure_status_value (ex_status ex))) \<and>
     (ex_status ex = COMPLETED \<or> ex_current_step_id ex \<noteq> None \<longrightarrow>
        cell (session_state s) ''current_step'' = opt_str (ex_current_step_id ex)))"

lemma current_known:
  assumes "executor_inv s" and "ex_current_step_id (executor s) = Some c"
  shows "dict_get (ex_steps (executor s)) c \<noteq> None"
proof -
  have "dict_get (ex_step_executions (executor s)) c \<noteq> None" using assms by (auto simp: executor_inv_def Let_def)
  then show ?thesis using assms(1) by (auto simp: executor_inv_def Let_def dict_get_None)
qed

lemma graph_ok_cong:
  "ex_step_order ex' = ex_step_order ex \<Longrightarrow> ex_steps ex' = ex_steps ex \<Longrightarrow>
   ex_valid_transitions ex' = ex_valid_transitions ex \<Longrightarrow> graph_ok ex' = graph_ok ex"
  by (simp add: graph_ok_def targets_def)

lemma enter_step_inv:
  assumes "quiet_env env" and "graph_ok (executor s)"
    and "set (dict_keys (ex_step_executions (executor s))) \<subseteq> set (dict_keys (ex_steps (executor s)))"
    and "dict_get (ex_steps (executor s)) sid \<noteq> None" and "enter_step env sid s = (r, t)"
  shows "executor_inv t \<and> r = Inr sid \<and> ex_current_step_id (executor t) = Some sid \<and> ex_status (executor t) = ex_status (executor s)"
proof -
  obtain step where step: "dict_get (ex_steps (executor s)) sid = Some step" using assms(4) by auto
  from enter_step_ok [OF assms(1) step] assms(5) obtain now where
    t: "executor t = entered sid step now (executor s)" "shown (executor t) (session_state t)" "r = Inr sid" by auto
  have "sid \<in> set (dict_keys (ex_steps (executor s)))" using step by (metis dict_get_None option.distinct(1))
  then show ?thesis using t assms(2,3) graph_ok_cong [of "executor t" "executor s"]
    by (simp add: executor_inv_def Let_def entered_def execution_enter_def shown_def)
qed

lemma start_inv:
  assumes "quiet_env env" and "executor_inv s" and "start env s = (r, t)"
  shows "executor_inv t"
proof (cases "ex_status (executor s) = IN_PROGRESS")
  case True
  then show ?thesis using assms(2,3) by (simp add: start_def bindE_def getE_def raiseE_def)
next
  case False
  obtain first rest where order: "ex_step_order (executor s) = first # rest"
    using assms(2) by (cases "ex_step_order (executor s)") (auto simp: executor_inv_def Let_def graph_ok_def)
  let ?u = "snd (update_session_state first (s\<lparr>clock_idx := Suc (clock_idx s),
    executor := (executor s)\<lparr>ex_status := IN_PROGRESS, ex_started_at := Some (clock_src s (clock_idx s))\<rparr>\<rparr>))"
  from audit_executor_quiet [OF assms(1), of _ ?u] obtain v where
    v: "audit_executor env (executor_entry PROCEDURE_STARTED ''procedure'' (ex_procedure_id (executor s)) None
           [(''first_step'', JStr first)]) ?u = (Inr (), v)" "executor v = executor ?u" by blast
  have run: "enter_step env first v = (r, t)"
    using assms(3) False order v(1)
    by (simp add: start_def bindE_def getE_def returnE_def now_op_def on_executor_def modifyE_def
        update_session_state_def on_session_def)
  have ex: "executor v = (executor s)\<lparr>ex_status := IN_PROGRESS, ex_started_at := Some (clock_src s (clock_idx s))\<rparr>"
    using v(2) by (simp add: update_session_state_def on_session_def bindE_def getE_def modifyE_def)
  have "graph_ok (executor v)" using assms(2) graph_ok_cong [of "executor v" "executor s"] ex
    by (simp add: executor_inv_def Let_def)
  moreover have "first \<in> set (dict_keys (ex_steps (executor s)))" using assms(2) order
    by (auto simp: executor_inv_def Let_def graph_ok_def)
  then have "dict_get (ex_steps (executor v)) first \<noteq> None" by (simp add: ex dict_get_None)
  moreover have "set (dict_keys (ex_step_executions (executor v))) \<subseteq> set (dict_keys (ex_steps (executor v)))"
    using assms(2) ex by (simp add: executor_inv_def Let_def)
  ultimately show ?thesis using enter_step_inv [OF assms(1) _ _ _ run] by blast
qed

lemma complete_inv:
  assumes "quiet_env env" and "graph_ok (executor s)"
    and "set (dict_keys (ex_step_executions (executor s))) \<subseteq> set (dict_keys (ex_steps (executor s)))"
    and "complete env reason s = (r, t)"
  shows "executor_inv t \<and> r = Inr ''end'' \<and> ex_status (executor t) = COMPLETED \<and> ex_current_step_id (executor t) = None"
proof -
  from complete_ok [OF assms(1), of reason s] assms(4) obtain now where
    "executor t = (executor s)\<lparr>ex_status := COMPLETED, ex_completed_at := Some now, ex_current_step_id := None\<rparr>"
    "shown (executor t) (session_state t)" "r = Inr ''end''" by auto
  then show ?thesis using assms(2,3) graph_ok_cong [of "executor t" "executor s"]
    by (simp add: executor_inv_def Let_def shown_def)
qed

lemma transition_inv:
  assumes "quiet_env env" and "executor_inv s" and "ex_current_step_id (executor s) = Some c"
    and "target \<in> set (targets (executor s) c)" and "transition env target reason s = (r, t)"
  shows "executor_inv t \<and> r = Inr target \<and>
    (if target = ''end'' then ex_status (executor t) = COMPLETED \<and> ex_current_step_id (executor t) = None
     else ex_current_step_id (executor t) = Some target \<and> ex_status (executor t) = ex_status (executor s))"
proof -
  from transition_allowed [OF assms(1,3,4), of reason] obtain u now where
    run: "transition env target reason s = (if target = ''end'' then complete env reason u else enter_step env target u)"
    and u: "executor u = (executor s)\<lparr>ex_step_executions := (case dict_get (ex_step_executions (executor s)) c of
        None \<Rightarrow> ex_step_executions (executor s)
      | Some e \<Rightarrow> dict_set (ex_step_executions (executor s)) c (execution_complete now reason e))\<rparr>" by blast
  have g: "graph_ok (executor u)" using assms(2) graph_ok_cong [of "executor u" "executor s"] u
    by (simp add: executor_inv_def Let_def)
  have "c \<in> set (dict_keys (ex_steps (executor s)))" using current_known [OF assms(2,3)] by (simp add: dict_get_None)
  then have k: "set (dict_keys (ex_step_executions (executor u))) \<subseteq> set (dict_keys (ex_steps (executor u)))"
    using assms(2) u by (auto simp: executor_inv_def Let_def split: option.splits)
  show ?thesis
  proof (cases "target = ''end''")
    case True
    then show ?thesis using complete_inv [OF assms(1) g k, of reason r t] run assms(5) by simp
  next
    case False
    then have "target \<in> set (dict_keys (ex_steps (executor u)))"
      using assms(2,4) u by (auto simp: executor_inv_def Let_def graph_ok_def)
    then have "dict_get (ex_steps (executor u)) target \<noteq> None" by (simp add: dict_get_None)
    then show ?thesis using enter_step_inv [OF assms(1) g k, of target r t] run assms(5) False u by simp
  qed
qed

lemma transition_keeps_inv:
  assumes "quiet_env env" and "executor_inv s" and "transition env target reason s = (r, t)"
  shows "executor_inv t"
proof (cases "ex_current_step_id (executor s)")
  case None
  then show ?thesis using assms(2,3) by (simp add: transition_def bindE_def getE_def raiseE_def)
next
  case (Some c)
  then show ?thesis
    using transition_inv [OF assms(1,2) Some _ assms(3)] transition_refused [OF Some, of target env reason] assms(2,3)
    by (cases "target \<in> set (targets (executor s) c)") auto
qed

lemma escalate_inv:
  assumes "quiet_env env" and "executor_inv s" and "escalate env reason s = (r, t)"
  shows "executor_inv t"
proof -
  let ?now = "clock_src s (clock_idx s)"
  let ?u = "s\<lparr>clock_idx := Suc (clock_idx s), executor := (executor s)\<lparr>ex_status := ESCALATED, ex_completed_at := Some ?now\<rparr>,
    session_state := dict_merge (session_state s) [(''workflow_status'', JStr ''escalated''),
      (''escalation_reason'', JStr reason), (''escalated_at'', JInt ?now)]\<rparr>"
  from audit_executor_quiet [OF assms(1), of _ ?u] obtain v where
    v: "audit_executor env (executor_entry PROCEDURE_ESCALATED ''procedure'' (ex_procedure_id (executor ?u)) None
       [(''reason'', JStr reason), (''step'', opt_str (ex_current_step_id (executor ?u)))]) ?u = (Inr (), v)"
      "executor v = executor ?u" "session_state v = session_state ?u" by blast
  have "t = v" using assms(3) v(1)
    by (simp add: escalate_def bindE_def now_op_def on_executor_def on_session_def modifyE_def getE_def returnE_def)
  then show ?thesis using assms(2) v(2,3) graph_ok_cong [of "executor v" "executor s"]
    by (auto simp: executor_inv_def Let_def shown_def dict_merge_def cell_def get_or_null_def)
qed

lemma executor_step_inv:
  assumes "quiet_env env" and "executor_inv s" and "executor_step env s t"
  shows "executor_inv t"
  using assms(3)
proof cases
  case (enter sid r)
  then show ?thesis
    using enter_step_inv [OF assms(1) _ _ _ enter] enter_step_unknown [of s sid env] assms(2)
    by (cases "dict_get (ex_steps (executor s)) sid") (auto simp: executor_inv_def [of s] Let_def)
next
  case (complete reason r)
  then show ?thesis using complete_inv [OF assms(1) _ _ complete] assms(2) by (simp add: executor_inv_def [of s] Let_def)
next
  case other
  then show ?thesis using assms(2) by (simp add: executor_inv_def)
qed (use start_inv [OF assms(1,2)] transition_keeps_inv [OF assms(1,2)] escalate_inv [OF assms(1,2)] in auto)

text \<open>A session at which the executor of an accepted procedure has just been created.\<close>

definition executor_init :: "pdict \<Rightarrow> 'z pworld_scheme \<Rightarrow> bool" where
  "executor_init p s \<longleftrightarrow> (case mapping_list (cell p ''steps'') of
      Inl _ \<Rightarrow> False | Inr steps \<Rightarrow> steps \<noteq> [] \<and> validate_procedure steps = Inr ()) \<and> new_executor p = Inr (executor s)"

lemma executor_init_inv: "executor_init p s \<Longrightarrow> executor_inv s"
  using accepted_graph_ok [of p _ "executor s"]
  by (auto simp: executor_init_def executor_inv_def Let_def dict_keys_def split: sum.splits)

text \<open>The executor as a transition system; hooks and audit that interfere are outside it.\<close>

interpretation executor_ts: transition_system "executor_init p" "\<lambda>s t. quiet_env env \<and> executor_step env s t" executor_inv
  for p :: pdict and env :: "'z executor_env"
  by unfold_locales (auto intro: executor_init_inv executor_step_inv)

lemma executor_reachable:
  assumes "executor_init p s" and "quiet_env env" and "(executor_step env)\<^sup>*\<^sup>* s t"
  shows "executor_inv t"
proof -
  have "(\<lambda>s t. quiet_env env \<and> executor_step env s t)\<^sup>*\<^sup>* s t" using assms(2,3) by simp
  then show ?thesis by (rule executor_ts.inv_reachable [OF assms(1)])
qed

text \<open>C33: An execution stays inside its procedure. Starting from a procedure the loader accepts, after
  any sequence of starting, entering, transitions, completion and escalation, the current step is a
  step of the procedure whose execution is active, and the session shows the same step and status
  as the executor.\<close>

theorem execution_inside_procedure:
  assumes "executor_init p s" and "quiet_env env" and "(executor_step env)\<^sup>*\<^sup>* s t"
    and "ex_current_step_id (executor t) = Some c"
  shows "c \<in> set (ex_step_order (executor t)) \<and>
    (\<exists>e. dict_get (ex_step_executions (executor t)) c = Some e \<and> se_status e = STEP_ACTIVE) \<and>
    cell (session_state t) ''current_step'' = JStr c \<and>
    cell (session_state t) ''workflow_status'' = JStr (procedure_status_value (ex_status (executor t)))"
proof -
  have inv: "executor_inv t" by (rule executor_reachable [OF assms(1-3)])
  have "c \<in> set (dict_keys (ex_steps (executor t)))" using current_known [OF inv assms(4)] by (simp add: dict_get_None)
  then show ?thesis using inv assms(4) by (auto simp: executor_inv_def Let_def graph_ok_def opt_str_def)
qed

text \<open>A transition succeeds exactly along an edge. In every reachable state with a current step, a
  transition to one of its targets enters that step or, for the end, completes the procedure,
  without ever failing; any other target is refused with executor and session unchanged.\<close>

theorem transition_follows_graph:
  assumes "executor_init p s" and "quiet_env env" and "(executor_step env)\<^sup>*\<^sup>* s t"
    and "ex_current_step_id (executor t) = Some c"
  shows "if target \<in> set (targets (executor t) c)
    then \<exists>u. transition env target reason t = (Inr target, u) \<and>
      (if target = ''end'' then ex_status (executor u) = COMPLETED \<and> ex_current_step_id (executor u) = None
       else ex_current_step_id (executor u) = Some target)
    else transition env target reason t = (Inl (ProcedureError ''Invalid transition'' ''INVALID_STEP_TRANSITION''), t)"
proof -
  have inv: "executor_inv t" by (rule executor_reachable [OF assms(1-3)])
  obtain r u where "transition env target reason t = (r, u)" by fastforce
  then show ?thesis
    using transition_inv [OF assms(2) inv assms(4)] transition_refused [OF assms(4)] by (auto split: if_splits)
qed

text \<open>C34: No execution is stuck. From every reachable state with a current step the procedure can be
  ended in one transition, which returns and leaves it completed, shown as such in the session.\<close>

theorem procedure_can_end:
  assumes "executor_init p s" and "quiet_env env" and "(executor_step env)\<^sup>*\<^sup>* s t"
    and "ex_current_step_id (executor t) = Some c"
  shows "\<exists>u. transition env ''end'' reason t = (Inr ''end'', u) \<and> ex_status (executor u) = COMPLETED \<and>
    cell (session_state u) ''workflow_status'' = JStr ''completed'' \<and> cell (session_state u) ''current_step'' = JNull"
proof -
  have inv: "executor_inv t" by (rule executor_reachable [OF assms(1-3)])
  have edge: "''end'' \<in> set (targets (executor t) c)"
    using inv current_known [OF inv assms(4)] by (auto simp: executor_inv_def Let_def graph_ok_def)
  obtain r u where u: "transition env ''end'' reason t = (r, u)" by fastforce
  from transition_inv [OF assms(2) inv assms(4) edge u] u show ?thesis
    by (auto simp: executor_inv_def Let_def opt_str_def)
qed

text \<open>A step without an identifier is never reported as such: the set of identifiers is built first,
  so validation raises a \<open>KeyError\<close> where its documentation promises a \<open>ValueError\<close>.\<close>

theorem missing_id_is_key_error:
  assumes "list_all (\<lambda>step. \<exists>i. step_id step = Inr i) xs" and "\<not> has_key step ''id''"
  shows "validate_procedure (xs @ step # ys) = Inl (KeyError ''id'')"
proof -
  have "step_id step = Inl (KeyError ''id'')" using assms(2) by (simp add: step_id_def has_key_def)
  then have "collect step_id (xs @ step # ys) = Inl (KeyError ''id'')" using assms(1) by (induction xs) auto
  then show ?thesis by (simp add: validate_procedure_def)
qed

section \<open>A concrete procedure\<close>

text \<open>The logger that writes to the audit trail, and the one without a database, satisfy the assumption.\<close>

lemma audit_log_quiet:
  fixes s :: "'a pworld_scheme"
  shows "quiet_op (audit_log (Some (audit_write h)) e :: (string, 'a) xop) \<and>
    (\<exists>x. fst (audit_log (Some (audit_write h)) e s) = Inr x)"
proof -
  have ins: "executor (snd (insert_into t vals u)) = executor u \<and> session_state (snd (insert_into t vals u)) = session_state u"
    for t vals and u :: "'a pworld_scheme"
    by (simp add: insert_into_def Let_def split: option.split)
  then have w: "executor (snd (audit_write h d u)) = executor u \<and> session_state (snd (audit_write h d u)) = session_state u"
    for d and u :: "'a pworld_scheme"
    by (simp add: audit_write_def bindE_def getE_def Let_def)
  have "executor (snd (audit_log (Some (audit_write h)) e u)) = executor u \<and>
      session_state (snd (audit_log (Some (audit_write h)) e u)) = session_state u \<and>
      (\<exists>x. fst (audit_log (Some (audit_write h)) e u) = Inr x)" for u :: "'a pworld_scheme"
  proof -
    let ?u = "u\<lparr>uuid_idx := Suc (uuid_idx u), clock_idx := Suc (clock_idx u)\<rparr>"
    let ?d = "to_dict (e\<lparr>ae_entry_id := uuid_src u (uuid_idx u), ae_timestamp := clock_src u (clock_idx u)\<rparr>)"
    obtain r v where v: "audit_write h ?d ?u = (r, v)" by fastforce
    from w [of ?d ?u] v have "executor v = executor u" "session_state v = session_state u" by simp_all
    then show ?thesis using v
      by (cases r) (simp_all add: audit_log_def bindE_def uuid_op_def now_op_def catchE_def returnE_def Let_def)
  qed
  then show ?thesis by (simp add: quiet_op_def)
qed

lemma writing_env_quiet: "quiet_env \<lparr>xe_on_enter = [], xe_on_exit = [], xe_audit = audit_log (Some (audit_write h))\<rparr>"
  by (simp add: quiet_env_def audit_log_quiet [THEN conjunct1] audit_log_quiet [THEN conjunct2])

definition demo_env :: "unit executor_env" where
  "demo_env = \<lparr>xe_on_enter = [], xe_on_exit = [], xe_audit = audit_log None\<rparr>"

lemma demo_env_quiet: "quiet_env demo_env"
  by (simp add: quiet_env_def demo_env_def quiet_op_def audit_log_def bindE_def uuid_op_def now_op_def returnE_def Let_def)

definition demo_step :: "string \<Rightarrow> string \<Rightarrow> json" where
  "demo_step i n = JObj [(''id'', JStr i), (''instruction'', JStr ''do''), (''action'', JStr ''respond''), (''next_step'', JStr n)]"

definition demo_procedure :: pdict where
  "demo_procedure = [(''id'', JStr ''cs_refund''), (''name'', JStr ''Refund''),
     (''steps'', JList [demo_step ''ask'' ''check'', demo_step ''check'' ''end''])]"

definition demo_session :: pworld where
  "demo_session = \<lparr>clock_src = (\<lambda>n. int n), clock_idx = 0, uuid_src = (\<lambda>n. replicate n CHR ''x''), uuid_idx = 0,
     biz = (\<lambda>_. []), executor = projr (new_executor demo_procedure), session_state = []\<rparr>"

definition demo_started :: pworld where
  "demo_started = snd (start demo_env demo_session)"

lemma demo_init: "executor_init demo_procedure demo_session"
proof -
  have "\<not> isl (new_executor demo_procedure)"
    "(case mapping_list (cell demo_procedure ''steps'') of
      Inl _ \<Rightarrow> False | Inr steps \<Rightarrow> steps \<noteq> [] \<and> validate_procedure steps = Inr ())" by code_simp+
  then show ?thesis by (auto simp: executor_init_def demo_session_def)
qed

lemma demo_started_facts:
  "ex_current_step_id (executor demo_started) = Some ''ask''"
  "targets (executor demo_started) ''ask'' = [''check'', ''end'']"
  by code_simp+

lemma demo_steps: "(executor_step demo_env)\<^sup>*\<^sup>* demo_session demo_started"
  unfolding demo_started_def by (intro r_into_rtranclp executor_step.start [OF surjective_pairing])

theorem execution_inside_procedure_witness:
  "cell (session_state demo_started) ''current_step'' = JStr ''ask''"
  using execution_inside_procedure [OF demo_init demo_env_quiet demo_steps demo_started_facts(1)] by simp

theorem transition_follows_graph_witness:
  "\<exists>u. transition demo_env ''check'' ''done'' demo_started = (Inr ''check'', u) \<and>
     ex_current_step_id (executor u) = Some ''check''"
  using transition_follows_graph [OF demo_init demo_env_quiet demo_steps demo_started_facts(1), of "''check''" "''done''"]
    demo_started_facts(2) by simp

theorem procedure_can_end_witness:
  "\<exists>u. transition demo_env ''end'' ''done'' demo_started = (Inr ''end'', u) \<and> ex_status (executor u) = COMPLETED"
  using procedure_can_end [OF demo_init demo_env_quiet demo_steps demo_started_facts(1), of "''done''"] by auto

theorem missing_id_is_key_error_witness:
  "validate_procedure [[(''instruction'', JStr ''do''), (''action'', JStr ''respond'')]] = Inl (KeyError ''id'')"
  using missing_id_is_key_error [of "[]" "[(''instruction'', JStr ''do''), (''action'', JStr ''respond'')]" "[]"]
  by (simp add: has_key_def dict_get_def)

end
