(* ===== verification/Web_Edge.thy ===== *)
theory Web_Edge
  imports Access Database
begin

text \<open>
  The edge of the service: the error hierarchy (\<open>errors.py\<close>, \<open>middleware/error_handler.py\<close>), settings
  and their safety checks (\<open>settings.py\<close>), tokens (\<open>auth/jwt_handler.py\<close>), the middlewares in the
  order \<open>main.py\<close> stacks them (\<open>middleware/\<close>), and the channel adapters (\<open>channels/\<close>). The JWT library
  and the application behind the middlewares are parameters.
\<close>

section \<open>Errors\<close>

record WorkflowEngineError =
  we_message :: string
  we_code :: string
  we_status_code :: int
  we_details :: pdict

definition error_to_dict :: "WorkflowEngineError \<Rightarrow> pdict" where
  "error_to_dict e = [(''error'', JObj ([(''code'', JStr (we_code e)), (''message'', JStr (we_message e))] @
     (if we_details e = [] then [] else [(''details'', JObj (we_details e))])))]"

definition not_found_error :: "string \<Rightarrow> string \<Rightarrow> string \<Rightarrow> WorkflowEngineError" where
  "not_found_error resource identifier code =
     \<lparr>we_message = resource @ '' '' @ [CHR 39] @ identifier @ [CHR 39] @ '' not found'', we_code = code, we_status_code = 404,
      we_details = [(''resource'', JStr resource), (''identifier'', JStr identifier)]\<rparr>"

definition validation_error :: "string \<Rightarrow> string option \<Rightarrow> pdict \<Rightarrow> WorkflowEngineError" where
  "validation_error message field details =
     \<lparr>we_message = message, we_code = ''VALIDATION_ERROR'', we_status_code = 422,
      we_details = (if truthy_str field then dict_set details ''field'' (JStr (the field)) else details)\<rparr>"

definition authentication_error :: "string \<Rightarrow> string \<Rightarrow> WorkflowEngineError" where
  "authentication_error message code = \<lparr>we_message = message, we_code = code, we_status_code = 401, we_details = []\<rparr>"

definition authorization_error :: "string \<Rightarrow> string option \<Rightarrow> WorkflowEngineError" where
  "authorization_error message required_permission =
     \<lparr>we_message = message, we_code = ''AUTHORIZATION_DENIED'', we_status_code = 403,
      we_details = (if truthy_str required_permission then [(''required_permission'', JStr (the required_permission))] else [])\<rparr>"

definition rate_limit_error :: "int \<Rightarrow> WorkflowEngineError" where
  "rate_limit_error retry_after =
     \<lparr>we_message = ''Rate limit exceeded'', we_code = ''RATE_LIMITED'', we_status_code = 429,
      we_details = [(''retry_after_seconds'', JInt retry_after)]\<rparr>"

definition tool_execution_error :: "string \<Rightarrow> string \<Rightarrow> pdict \<Rightarrow> WorkflowEngineError" where
  "tool_execution_error tool_name message details =
     \<lparr>we_message = ''Tool '' @ [CHR 39] @ tool_name @ [CHR 39] @ '' failed: '' @ message, we_code = ''TOOL_EXECUTION_ERROR'',
      we_status_code = 500, we_details = dict_merge [(''tool'', JStr tool_name)] details\<rparr>"

definition external_service_error :: "string \<Rightarrow> string \<Rightarrow> WorkflowEngineError" where
  "external_service_error service message =
     \<lparr>we_message = ''External service '' @ [CHR 39] @ service @ [CHR 39] @ '' error: '' @ message,
      we_code = ''EXTERNAL_SERVICE_ERROR'', we_status_code = 502, we_details = [(''service'', JStr service)]\<rparr>"

definition procedure_error :: "string \<Rightarrow> string \<Rightarrow> pdict \<Rightarrow> WorkflowEngineError" where
  "procedure_error message code details =
     \<lparr>we_message = message, we_code = code, we_status_code = 400, we_details = details\<rparr>"

record response =
  rs_status :: int
  rs_body :: pdict
  rs_headers :: "(string \<times> string) list"

definition workflow_error_handler :: "WorkflowEngineError \<Rightarrow> response" where
  "workflow_error_handler e = \<lparr>rs_status = we_status_code e, rs_body = error_to_dict e, rs_headers = []\<rparr>"

definition generic_error_handler :: response where
  "generic_error_handler = \<lparr>rs_status = 500, rs_body = error_to_dict
     \<lparr>we_message = ''An internal error occurred'', we_code = ''INTERNAL_ERROR'', we_status_code = 500, we_details = []\<rparr>,
     rs_headers = []\<rparr>"

section \<open>Settings\<close>

datatype Environment = DEV | STAGING | PRODUCTION

datatype UpstreamMode = DISABLED | SANDBOX | PROVIDER

text \<open>The fields the checks and the edge read.\<close>

record Settings =
  environment :: Environment
  cors_origins :: "string list"
  database_url :: string
  reference_data_database_url :: string
  seed_reference_data :: "bool option"
  policy_database_url :: "string option"
  auth_enabled :: bool
  auth_secret_key :: string
  auth_algorithm :: string
  auth_token_expire_minutes :: int
  auth_issuer :: string
  jurisdiction_enforce :: "bool option"
  policy_signing_key :: string
  policy_author :: string
  policy_approver :: string
  upstream_mode :: "UpstreamMode option"
  sandbox_database_url :: string
  provider_bundle_factory :: "string option"
  rate_limit_enabled :: bool
  rate_limit_requests :: int
  rate_limit_window_seconds :: int
  log_level :: string

definition is_production :: "Settings \<Rightarrow> bool" where
  "is_production st \<longleftrightarrow> environment st = PRODUCTION"

definition is_dev :: "Settings \<Rightarrow> bool" where
  "is_dev st \<longleftrightarrow> environment st = DEV"

definition effective_seed_reference_data :: "Settings \<Rightarrow> bool" where
  "effective_seed_reference_data st = (case seed_reference_data st of Some b \<Rightarrow> b | None \<Rightarrow> is_dev st)"

definition effective_policy_database_url :: "Settings \<Rightarrow> string" where
  "effective_policy_database_url st =
     (if truthy_str (policy_database_url st) then the (policy_database_url st) else database_url st)"

definition effective_upstream_mode :: "Settings \<Rightarrow> UpstreamMode" where
  "effective_upstream_mode st = (case upstream_mode st of
      Some m \<Rightarrow> m | None \<Rightarrow> if is_dev st then SANDBOX else DISABLED)"

definition effective_jurisdiction_enforcement :: "Settings \<Rightarrow> bool" where
  "effective_jurisdiction_enforcement st = (case jurisdiction_enforce st of Some b \<Rightarrow> b | None \<Rightarrow> \<not> is_dev st)"

text \<open>\<open>url.split("///", 1)[-1]\<close>: what follows the first occurrence, or everything.\<close>

fun after_slashes :: "string \<Rightarrow> string option" where
  "after_slashes [] = None"
| "after_slashes (c # cs) = (if take 3 (c # cs) = ''///'' then Some (drop 3 (c # cs)) else after_slashes cs)"

definition sqlite_file :: "string \<Rightarrow> exn + string" where
  "sqlite_file url = (if \<not> starts_with ''sqlite'' url then Inl (ValueError ''requires SQLite'')
     else Inr (case after_slashes url of None \<Rightarrow> url | Some p \<Rightarrow> p))"

lemma after_slashes_shorter: "after_slashes u = Some p \<Longrightarrow> length p < length u"
  by (induction u) (auto split: if_splits)

text \<open>\<open>url.split("///")[-1]\<close>\<close>

function last_part :: "string \<Rightarrow> string" where
  "last_part url = (case after_slashes url of None \<Rightarrow> url | Some p \<Rightarrow> last_part p)"
  by pat_completeness auto
termination by (relation "measure length") (auto dest: after_slashes_shorter)

declare last_part.simps [simp del]

definition sqlite_path :: "Settings \<Rightarrow> string option" where
  "sqlite_path st = (if substring ''sqlite'' (database_url st) then Some (last_part (database_url st)) else None)"

definition reference_data_sqlite_path :: "Settings \<Rightarrow> exn + string" where
  "reference_data_sqlite_path st = sqlite_file (reference_data_database_url st)"

definition sandbox_sqlite_path :: "Settings \<Rightarrow> exn + string" where
  "sandbox_sqlite_path st = sqlite_file (sandbox_database_url st)"

definition upper_char :: "char \<Rightarrow> char" where
  "upper_char c = (let n = (of_char c :: nat) in if 97 \<le> n \<and> n \<le> 122 then char_of (n - 32) else c)"

definition validate_log_level :: "string \<Rightarrow> exn + string" where
  "validate_log_level v = (let u = map upper_char v in
     if u \<in> {''DEBUG'', ''INFO'', ''WARNING'', ''ERROR'', ''CRITICAL''} then Inr u
     else Inl (ValueError ''log_level must be one of the levels''))"

definition validate_production_secrets :: "Settings \<Rightarrow> exn + Settings" where
  "validate_production_secrets st =
     (if is_production st \<and> policy_signing_key st = ''dev-policy-signing-key''
      then Inl (ValueError ''POLICY_SIGNING_KEY must be changed in production'')
      else if is_production st \<and> auth_enabled st \<and> auth_secret_key st = ''dev-secret-key-change-in-production''
      then Inl (ValueError ''AUTH_SECRET_KEY must be changed when production auth is enabled'')
      else if policy_author st = policy_approver st
      then Inl (ValueError ''Policy author and approver must be different'')
      else if is_production st \<and> upstream_mode st = Some SANDBOX
      then Inl (ValueError ''UPSTREAM_MODE=sandbox is forbidden in production'')
      else if upstream_mode st = Some PROVIDER \<and> \<not> truthy_str (provider_bundle_factory st)
      then Inl (ValueError ''PROVIDER_BUNDLE_FACTORY is required for UPSTREAM_MODE=provider'')
      else if is_production st \<and> ''*'' \<in> set (cors_origins st)
      then Inl (ValueError ''Wildcard CORS origins are forbidden in production'')
      else if auth_algorithm st \<notin> {''HS256'', ''HS384'', ''HS512''}
      then Inl (ValueError ''AUTH_ALGORITHM must be an approved HMAC JWT algorithm'')
      else if is_production st \<and> \<not> auth_enabled st
      then Inl (ValueError ''AUTH_ENABLED must be true in production'')
      else if is_production st \<and> effective_seed_reference_data st
      then Inl (ValueError ''SEED_REFERENCE_DATA must be false in production'')
      else Inr st)"

text \<open>\<open>Settings()\<close>: the field validator, then the model validator.\<close>

definition load_settings :: "Settings \<Rightarrow> exn + Settings" where
  "load_settings st = (case validate_log_level (log_level st) of
      Inl e \<Rightarrow> Inl e
    | Inr lvl \<Rightarrow> validate_production_secrets (st\<lparr>log_level := lvl\<rparr>))"

section \<open>Tokens\<close>

text \<open>
  The JWT library: \<open>encode payload key algorithm\<close> and \<open>decode now token key algorithms issuer\<close>,
  which answers with the payload or says why not.
\<close>

datatype jwt_answer = JwtPayload pdict | JwtExpired | JwtInvalid string

record jwt_library =
  jwt_encode :: "pdict \<Rightarrow> string \<Rightarrow> string \<Rightarrow> string"
  jwt_decode :: "time \<Rightarrow> string \<Rightarrow> string \<Rightarrow> string list \<Rightarrow> string \<Rightarrow> jwt_answer"

text \<open>\<open>iat\<close> and \<open>exp\<close> are whole seconds in a token.\<close>

definition whole_seconds :: "time \<Rightarrow> int" where
  "whole_seconds t = t div 1000000"

definition create_access_token ::
  "jwt_library \<Rightarrow> Settings \<Rightarrow> string \<Rightarrow> Role \<Rightarrow> string list option \<Rightarrow> time option \<Rightarrow> (string, 'z env_scheme) op" where
  "create_access_token jwt st user_id role extra_permissions expires_delta =
     bindE now_op (\<lambda>now.
     let delta = (case expires_delta of
           Some d \<Rightarrow> if d \<noteq> 0 then d else seconds (60 * auth_token_expire_minutes st)
         | None \<Rightarrow> seconds (60 * auth_token_expire_minutes st)) in
     returnE (jwt_encode jwt
       ([(''sub'', JStr user_id), (''role'', JStr (role_value role)), (''iat'', JInt (whole_seconds now)),
         (''exp'', JInt (whole_seconds (now + delta))), (''iss'', JStr (auth_issuer st))] @
        (case extra_permissions of None \<Rightarrow> [] | Some [] \<Rightarrow> [] | Some ps \<Rightarrow> [(''permissions'', JList (map JStr ps))]))
       (auth_secret_key st) (auth_algorithm st)))"

definition token_user :: "pdict \<Rightarrow> exn + UserContext" where
  "token_user payload = (case dict_get payload ''role'' of
      None \<Rightarrow> Inl (KeyError ''role'')
    | Some v \<Rightarrow> (case role_of_value (text_of v) of
          Inl e \<Rightarrow> Inl e
        | Inr role \<Rightarrow> (case (dict_get payload ''sub'', dict_get payload ''iat'') of
              (Some sub, Some (JInt iat)) \<Rightarrow> Inr
                \<lparr>uc_user_id = text_of sub, uc_role = role,
                 uc_permissions = get_permissions_for_role role @
                   (case dict_get payload ''permissions'' of Some (JList ps) \<Rightarrow> map text_of ps | _ \<Rightarrow> []),
                 uc_token_issued_at = Some (seconds iat)\<rparr>
            | (None, _) \<Rightarrow> Inl (KeyError ''sub'')
            | _ \<Rightarrow> Inl (KeyError ''iat''))))"

definition decode_access_token :: "jwt_library \<Rightarrow> Settings \<Rightarrow> string \<Rightarrow> (UserContext, 'z env_scheme) op" where
  "decode_access_token jwt st token =
     bindE now_op (\<lambda>now.
     case jwt_decode jwt now token (auth_secret_key st) [auth_algorithm st] (auth_issuer st) of
       JwtExpired \<Rightarrow> raiseE (AuthenticationError ''Token has expired'' ''TOKEN_EXPIRED'')
     | JwtInvalid e \<Rightarrow> raiseE (AuthenticationError (''Invalid token: '' @ e) ''INVALID_TOKEN'')
     | JwtPayload payload \<Rightarrow> liftE (token_user payload))"

section \<open>Middleware\<close>

record request =
  rq_path :: string
  rq_authorization :: "string option"
  rq_correlation_id :: "string option"
  rq_client_host :: "string option"
  rq_user :: "UserContext option"

definition PUBLIC_PATHS :: "string list" where
  "PUBLIC_PATHS = [''/health'', ''/docs'', ''/openapi.json'', ''/redoc'']"

text \<open>
  The process state of the edge: the timestamps the limiter keeps per key. A middleware answers
  itself, raises, or hands the request on.
\<close>

record edge = env +
  limiter :: "(string \<times> time list) list"

type_synonym 'z handler = "request \<Rightarrow> (response, 'z edge_scheme) op"

definition auth_dispatch :: "jwt_library \<Rightarrow> Settings \<Rightarrow> 'z handler \<Rightarrow> 'z handler" where
  "auth_dispatch jwt st call_next req =
     (if rq_path req \<in> set PUBLIC_PATHS then call_next req
      else if \<not> auth_enabled st
      then call_next (req\<lparr>rq_user := Some (build_user_context ''dev-user'' ADMIN None)\<rparr>)
      else
      case rq_authorization req of
        None \<Rightarrow> raiseE (AuthenticationError ''Missing or invalid Authorization header'' ''AUTHENTICATION_REQUIRED'')
      | Some h \<Rightarrow>
          if \<not> starts_with ''Bearer '' h
          then raiseE (AuthenticationError ''Missing or invalid Authorization header'' ''AUTHENTICATION_REQUIRED'')
          else bindE (decode_access_token jwt st (drop 7 h)) (\<lambda>user. call_next (req\<lparr>rq_user := Some user\<rparr>)))"

definition get_current_user :: "request \<Rightarrow> exn + UserContext" where
  "get_current_user req = (case rq_user req of
      None \<Rightarrow> Inl (AuthenticationError ''No authenticated user'' ''AUTHENTICATION_REQUIRED'') | Some u \<Rightarrow> Inr u)"

definition get_key :: "request \<Rightarrow> string" where
  "get_key req = (case rq_user req of
      Some u \<Rightarrow> ''user:'' @ uc_user_id u
    | None \<Rightarrow> ''ip:'' @ (case rq_client_host req of None \<Rightarrow> ''unknown'' | Some h \<Rightarrow> h))"

text \<open>The sliding window of one key: what is kept at \<open>now\<close>, and whether one more is admitted.\<close>

definition live :: "Settings \<Rightarrow> time \<Rightarrow> time list \<Rightarrow> time list" where
  "live st now stamps = filter (\<lambda>ts. now - ts < seconds (rate_limit_window_seconds st)) stamps"

definition stamps_of :: "(string \<times> time list) list \<Rightarrow> string \<Rightarrow> time list" where
  "stamps_of m key = (case dict_get m key of None \<Rightarrow> [] | Some ts \<Rightarrow> ts)"

definition admit :: "Settings \<Rightarrow> string \<Rightarrow> (bool, 'z edge_scheme) op" where
  "admit st key =
     bindE now_op (\<lambda>now.
     bindE (getE (\<lambda>s. live st now (stamps_of (limiter s) key))) (\<lambda>kept.
     if rate_limit_requests st \<le> int (length kept)
     then bindE (modifyE (\<lambda>s. s\<lparr>limiter := dict_set (limiter s) key kept\<rparr>)) (\<lambda>_. returnE False)
     else bindE (modifyE (\<lambda>s. s\<lparr>limiter := dict_set (limiter s) key (kept @ [now])\<rparr>)) (\<lambda>_. returnE True)))"

definition rate_limit_dispatch :: "Settings \<Rightarrow> 'z handler \<Rightarrow> 'z handler" where
  "rate_limit_dispatch st call_next req =
     (if \<not> rate_limit_enabled st then call_next req
      else if rq_path req = ''/health'' then call_next req
      else
      bindE (admit st (get_key req)) (\<lambda>ok.
      if ok then call_next req
      else let err = rate_limit_error (rate_limit_window_seconds st) in
           returnE \<lparr>rs_status = we_status_code err, rs_body = error_to_dict err,
             rs_headers = [(''Retry-After'', str_int (rate_limit_window_seconds st))]\<rparr>))"

definition correlation_dispatch :: "'z handler \<Rightarrow> 'z handler" where
  "correlation_dispatch call_next req =
     bindE (if truthy_str (rq_correlation_id req) then returnE (the (rq_correlation_id req)) else uuid_op) (\<lambda>cid.
     bindE (call_next (req\<lparr>rq_correlation_id := Some cid\<rparr>)) (\<lambda>resp.
     returnE (resp\<lparr>rs_headers := dict_set (rs_headers resp) ''X-Correlation-ID'' cid\<rparr>)))"

text \<open>\<open>main.py\<close> adds correlation, limiter and authentication in this order; the last one added runs first.\<close>

definition serve :: "jwt_library \<Rightarrow> Settings \<Rightarrow> 'z handler \<Rightarrow> 'z handler" where
  "serve jwt st app = auth_dispatch jwt st (rate_limit_dispatch st (correlation_dispatch app))"

section \<open>Channels\<close>

record IvrTurn =
  ivr_provider_message_id :: string
  ivr_conversation_id :: string
  ivr_customer_id :: string
  ivr_transcript :: string
  ivr_asr_confidence :: rat
  ivr_interrupted :: bool
  ivr_proposed_authority :: FactAuthority
  ivr_requires_readback :: bool

definition ivr_normalize ::
  "rat \<Rightarrow> string \<Rightarrow> string \<Rightarrow> string \<Rightarrow> string \<Rightarrow> rat \<Rightarrow> bool \<Rightarrow> exn + IvrTurn" where
  "ivr_normalize min_verification_confidence provider_message_id conversation_id customer_id transcript
     asr_confidence interrupted =
     (if asr_confidence < 0 \<or> 1 < asr_confidence then Inl (ValidationError ''asr_confidence'')
      else Inr \<lparr>ivr_provider_message_id = provider_message_id, ivr_conversation_id = conversation_id,
        ivr_customer_id = customer_id, ivr_transcript = transcript, ivr_asr_confidence = asr_confidence,
        ivr_interrupted = interrupted, ivr_proposed_authority = ASSERTED,
        ivr_requires_readback = (interrupted \<or> asr_confidence < min_verification_confidence)\<rparr>)"

datatype ChannelType =
  HTTP_REST | WEBSOCKET | EMAIL | SMS | WHATSAPP | VOICE_IVR | MOBILE_APP | SLACK | TEAMS

record InboundMessage =
  ib_channel :: ChannelType
  ib_channel_message_id :: json
  ib_user_id :: json
  ib_session_id :: json
  ib_text :: json
  ib_metadata :: json
  ib_timestamp :: time

record OutboundMessage =
  om_channel :: ChannelType
  om_user_id :: string
  om_session_id :: string
  om_text :: string
  om_timestamp :: time
  om_quick_replies :: "string list"
  om_cards :: "pdict list"
  om_metadata :: pdict

text \<open>\<open>HttpChannel.receive\<close> and \<open>WebSocketChannel.receive\<close>, which differ in the channel they name.\<close>

definition channel_receive :: "ChannelType \<Rightarrow> pdict \<Rightarrow> (InboundMessage, 'z env_scheme) op" where
  "channel_receive channel raw =
     (case dict_get raw ''user_id'' of
        None \<Rightarrow> raiseE (KeyError ''user_id'')
      | Some user \<Rightarrow> (case dict_get raw ''message'' of
            None \<Rightarrow> raiseE (KeyError ''message'')
          | Some message \<Rightarrow>
              if list_all json_is_str [user, message] \<and>
                 list_all (\<lambda>k. json_is_str (cell raw k) \<or> cell raw k = JNull) [''message_id'', ''session_id''] \<and>
                 (case dict_get raw ''metadata'' of None \<Rightarrow> True | Some (JObj _) \<Rightarrow> True | Some _ \<Rightarrow> False)
              then bindE now_op (\<lambda>now. returnE
                \<lparr>ib_channel = channel, ib_channel_message_id = cell raw ''message_id'', ib_user_id = user,
                 ib_session_id = cell raw ''session_id'', ib_text = message,
                 ib_metadata = (case dict_get raw ''metadata'' of None \<Rightarrow> JObj [] | Some m \<Rightarrow> m), ib_timestamp = now\<rparr>)
              else raiseE (ValidationError ''InboundMessage'')))"

definition http_format_response :: "OutboundMessage \<Rightarrow> pdict" where
  "http_format_response m = [(''response'', JStr (om_text m)), (''session_id'', JStr (om_session_id m))] @
     (if om_quick_replies m = [] then [] else [(''quick_replies'', JList (map JStr (om_quick_replies m)))]) @
     (if om_cards m = [] then [] else [(''cards'', JList (map JObj (om_cards m)))]) @
     (if om_metadata m = [] then [] else [(''metadata'', JObj (om_metadata m))])"

definition websocket_format_response :: "OutboundMessage \<Rightarrow> pdict" where
  "websocket_format_response m = [(''type'', JStr ''agent_response''), (''text'', JStr (om_text m)),
     (''session_id'', JStr (om_session_id m)), (''timestamp'', JInt (om_timestamp m)),
     (''quick_replies'', JList (map JStr (om_quick_replies m))), (''cards'', JList (map JObj (om_cards m))),
     (''metadata'', JObj (om_metadata m))]"

end
