(* ===== verification/Web_Edge_Laws.thy ===== *)
theory Web_Edge_Laws
  imports Web_Edge "HOL-Library.Countable"
begin

text \<open>
  What the edge guarantees: the limiter admits no more requests of a key in any window than
  configured, tokens name the user they were issued to until they expire, and in production nothing
  reaches the application without such a token.
\<close>

section \<open>The sliding window\<close>

text \<open>
  A history of the process: each element is a request under a key, or \<open>None\<close> for anything else that
  reads the clock. The result lists the admitted requests with their times.
\<close>

fun serve_all :: "Settings \<Rightarrow> string option list \<Rightarrow> 'z edge_scheme \<Rightarrow> (string \<times> time) list" where
  "serve_all st [] s = []"
| "serve_all st (None # ks) s = serve_all st ks (s\<lparr>clock_idx := Suc (clock_idx s)\<rparr>)"
| "serve_all st (Some k # ks) s =
     (case admit st k s of (r, t) \<Rightarrow>
        (if r = Inr True then [(k, clock_src s (clock_idx s))] else []) @ serve_all st ks t)"

definition times :: "string \<Rightarrow> (string \<times> time) list \<Rightarrow> time list" where
  "times k hist = map snd (filter (\<lambda>p. fst p = k) hist)"

text \<open>The requests of one key in the window that ends at \<open>T\<close>.\<close>

definition in_window :: "Settings \<Rightarrow> time \<Rightarrow> time list \<Rightarrow> time list" where
  "in_window st T ts = filter (\<lambda>t. T - seconds (rate_limit_window_seconds st) < t \<and> t \<le> T) ts"

definition within_limit :: "Settings \<Rightarrow> (string \<times> time) list \<Rightarrow> bool" where
  "within_limit st hist \<longleftrightarrow>
     (\<forall>k T. int (length (in_window st T (times k hist))) \<le> max 0 (rate_limit_requests st))"

text \<open>What the limiter still knows is all that any later decision needs.\<close>

definition limiter_knows :: "Settings \<Rightarrow> (string \<times> time) list \<Rightarrow> 'z edge_scheme \<Rightarrow> bool" where
  "limiter_knows st hist s \<longleftrightarrow>
     (\<forall>k now. clock_src s (clock_idx s) \<le> now \<longrightarrow> live st now (stamps_of (limiter s) k) = live st now (times k hist))"

lemma admit_eq:
  "admit st k s = (let now = clock_src s (clock_idx s); kept = live st now (stamps_of (limiter s) k);
      ok = (int (length kept) < rate_limit_requests st) in
    (Inr ok, s\<lparr>clock_idx := Suc (clock_idx s), limiter := dict_set (limiter s) k (if ok then kept @ [now] else kept)\<rparr>))"
  by (auto simp: admit_def bindE_def now_op_def getE_def modifyE_def returnE_def Let_def)

lemma live_live: "now \<le> now' \<Longrightarrow> live st now' (live st now ts) = live st now' ts"
  by (auto simp: live_def intro!: filter_cong)

lemma live_append: "live st now (xs @ ys) = live st now xs @ live st now ys" "live st now [] = []"
  by (simp_all add: live_def)

lemma times_append: "times k (hist @ hist') = times k hist @ times k hist'"
  by (simp add: times_def)

lemma stamps_of_set: "stamps_of (dict_set m k v) k' = (if k' = k then v else stamps_of m k')"
  by (simp add: stamps_of_def)

lemma in_window_live: "now \<le> T \<Longrightarrow> length (in_window st T ts) \<le> length (live st now ts)"
proof (induction ts)
  case (Cons t ts)
  then show ?case by (auto simp: in_window_def live_def)
qed (simp add: in_window_def live_def)

lemma admit_within:
  assumes "within_limit st hist" and "int (length (live st now (times k hist))) < rate_limit_requests st"
  shows "within_limit st (hist @ [(k, now)])"
  unfolding within_limit_def
proof (intro allI)
  fix k' T
  have IH: "int (length (in_window st T (times k' hist))) \<le> max 0 (rate_limit_requests st)"
    using assms(1) by (simp add: within_limit_def)
  show "int (length (in_window st T (times k' (hist @ [(k, now)])))) \<le> max 0 (rate_limit_requests st)"
  proof (cases "k' = k \<and> now \<le> T")
    case True
    then have "length (in_window st T (times k hist)) \<le> length (live st now (times k hist))" by (simp add: in_window_live)
    then show ?thesis using assms(2) True by (simp add: times_def in_window_def)
  next
    case False
    then show ?thesis using IH by (auto simp: times_def in_window_def)
  qed
qed

lemma admit_knows:
  assumes "limiter_knows st hist s" and "mono (clock_src s)" and "admit st k s = (r, t)"
  shows "limiter_knows st (hist @ (if r = Inr True then [(k, clock_src s (clock_idx s))] else [])) t"
proof -
  let ?n = "clock_src s (clock_idx s)"
  let ?ok = "int (length (live st ?n (stamps_of (limiter s) k))) < rate_limit_requests st"
  have next_le: "?n \<le> clock_src s (Suc (clock_idx s))" using assms(2) by (simp add: mono_def)
  have t: "r = Inr ?ok" "clock_src t (clock_idx t) = clock_src s (Suc (clock_idx s))"
      "limiter t = dict_set (limiter s) k (live st ?n (stamps_of (limiter s) k) @ (if ?ok then [?n] else []))"
    using assms(3) by (auto simp: admit_eq Let_def)
  show ?thesis unfolding limiter_knows_def t(2)
  proof (intro allI impI)
    fix k' now
    assume "clock_src s (Suc (clock_idx s)) \<le> now"
    then have now: "?n \<le> now" using next_le by simp
    have "live st now (stamps_of (limiter s) k') = live st now (times k' hist)"
      using assms(1) now by (simp add: limiter_knows_def)
    then show "live st now (stamps_of (limiter t) k') = live st now (times k' (hist @ (if r = Inr True then [(k, ?n)] else [])))"
      using live_live [OF now, of st "stamps_of (limiter s) k"]
      by (auto simp: t(1,3) stamps_of_set times_append live_append times_def)
  qed
qed

text \<open>C39: The rate limit holds in every window. With a clock that does not run backwards, however the
  requests of different users and addresses interleave, no key is admitted more often than
  configured in any window of the configured length, wherever the window starts.\<close>

theorem rate_limit_holds:
  assumes "mono (clock_src s)" and "limiter s = []"
  shows "int (length (in_window st T (times k (serve_all st requests s)))) \<le> max 0 (rate_limit_requests st)"
proof -
  have "within_limit st (hist @ serve_all st requests s)"
    if "within_limit st hist" "limiter_knows st hist s" "mono (clock_src s)" for hist and s :: "'a edge_scheme"
    using that
  proof (induction requests arbitrary: hist s)
    case (Cons x xs)
    have next_le: "clock_src s (clock_idx s) \<le> clock_src s (Suc (clock_idx s))" using Cons.prems(3) by (simp add: mono_def)
    show ?case
    proof (cases x)
      case None
      have "limiter_knows st hist (s\<lparr>clock_idx := Suc (clock_idx s)\<rparr>)"
        using Cons.prems(2) next_le by (simp add: limiter_knows_def)
      then show ?thesis using Cons.IH [of hist "s\<lparr>clock_idx := Suc (clock_idx s)\<rparr>"] Cons.prems None by simp
    next
      case (Some k)
      obtain r t where t: "admit st k s = (r, t)" by fastforce
      let ?new = "if r = Inr True then [(k, clock_src s (clock_idx s))] else []"
      have "mono (clock_src t)" using t Cons.prems(3) by (auto simp: admit_eq Let_def)
      moreover have "r = Inr True \<Longrightarrow> int (length (live st (clock_src s (clock_idx s)) (times k hist))) < rate_limit_requests st"
        using t Cons.prems(2) by (simp add: admit_eq Let_def limiter_knows_def)
      then have "within_limit st (hist @ ?new)" using Cons.prems(1) admit_within by simp
      ultimately show ?thesis
        using Cons.IH [of "hist @ ?new" t] admit_knows [OF Cons.prems(2,3) t] t Some by simp
    qed
  qed simp
  moreover have "within_limit st []" by (simp add: within_limit_def times_def in_window_def)
  moreover have "limiter_knows st [] s" using assms(2) by (simp add: limiter_knows_def times_def stamps_of_def dict_get_def)
  ultimately have "within_limit st (serve_all st requests s)" using assms(1) by (metis append_Nil)
  then show ?thesis by (simp add: within_limit_def)
qed

section \<open>Tokens\<close>

text \<open>
  What the code relies on of the JWT library: a token decodes, under the key, algorithm and issuer it
  was made with, to its payload, from the second it was issued until it expires.
\<close>

definition jwt_law :: "jwt_library \<Rightarrow> bool" where
  "jwt_law jwt \<longleftrightarrow> (\<forall>payload key alg iss now iat ex. dict_get payload ''iss'' = Some (JStr iss) \<longrightarrow>
     dict_get payload ''iat'' = Some (JInt iat) \<longrightarrow> dict_get payload ''exp'' = Some (JInt ex) \<longrightarrow>
     seconds iat \<le> now \<longrightarrow> now < seconds ex \<longrightarrow>
     jwt_decode jwt now (jwt_encode jwt payload key alg) key [alg] iss = JwtPayload payload)"

lemma role_of_role_value [simp]: "role_of_value (role_value r) = Inr r"
  by (cases r) (simp_all add: role_of_value_def all_roles_def)

text \<open>A token speaks for the user it was issued to. Decoding a fresh token, at any later time before
  its expiry, yields that user and role, with the permissions of the role and the extra ones, and
  no others.\<close>

theorem token_roundtrip:
  assumes "jwt_law jwt" and "create_access_token jwt st user_id role extra None s = (Inr token, s')"
    and "clock_src s (clock_idx s) \<le> clock_src t (clock_idx t)"
    and "clock_src t (clock_idx t) < seconds (whole_seconds (clock_src s (clock_idx s) + seconds (60 * auth_token_expire_minutes st)))"
  shows "\<exists>u t'. decode_access_token jwt st token t = (Inr u, t') \<and> uc_user_id u = user_id \<and> uc_role u = role \<and>
    set (uc_permissions u) = set (get_permissions_for_role role) \<union> set (case extra of None \<Rightarrow> [] | Some ps \<Rightarrow> ps)"
proof -
  let ?now = "clock_src s (clock_idx s)"
  let ?p = "[(''sub'', JStr user_id), (''role'', JStr (role_value role)), (''iat'', JInt (whole_seconds ?now)),
         (''exp'', JInt (whole_seconds (?now + seconds (60 * auth_token_expire_minutes st)))), (''iss'', JStr (auth_issuer st))] @
        (case extra of None \<Rightarrow> [] | Some [] \<Rightarrow> [] | Some ps \<Rightarrow> [(''permissions'', JList (map JStr ps))])"
  have "token = jwt_encode jwt ?p (auth_secret_key st) (auth_algorithm st)"
    using assms(2) by (simp add: create_access_token_def bindE_def now_op_def returnE_def Let_def)
  moreover have "seconds (whole_seconds ?now) \<le> clock_src t (clock_idx t)"
    using assms(3) by (simp add: seconds_def whole_seconds_def)
  moreover have "dict_get ?p ''iss'' = Some (JStr (auth_issuer st))" "dict_get ?p ''iat'' = Some (JInt (whole_seconds ?now))"
      "dict_get ?p ''exp'' = Some (JInt (whole_seconds (?now + seconds (60 * auth_token_expire_minutes st))))"
    by (simp_all add: dict_get_def)
  ultimately have "jwt_decode jwt (clock_src t (clock_idx t)) token (auth_secret_key st) [auth_algorithm st] (auth_issuer st) =
      JwtPayload ?p" using assms(1,4) unfolding jwt_law_def by blast
  then have "decode_access_token jwt st token t = (token_user ?p, t\<lparr>clock_idx := Suc (clock_idx t)\<rparr>)"
    by (simp add: decode_access_token_def bindE_def now_op_def liftE_def)
  moreover have "token_user ?p = Inr \<lparr>uc_user_id = user_id, uc_role = role,
      uc_permissions = get_permissions_for_role role @ (case extra of None \<Rightarrow> [] | Some ps \<Rightarrow> ps),
      uc_token_issued_at = Some (seconds (whole_seconds ?now))\<rparr>"
    by (auto simp: token_user_def dict_get_def comp_def split: option.splits list.splits)
  ultimately show ?thesis by auto
qed

section \<open>Production\<close>

lemma if_Inl_eq: "(if b then Inl e else r) = Inr v \<longleftrightarrow> \<not> b \<and> r = Inr v"
  by simp

lemma validated_production:
  assumes "validate_production_secrets c = Inr st" and "is_production st"
  shows "auth_enabled st" "auth_secret_key st \<noteq> ''dev-secret-key-change-in-production''"
    "auth_algorithm st \<in> {''HS256'', ''HS384'', ''HS512''}"
proof -
  note ok = assms(1) [unfolded validate_production_secrets_def if_Inl_eq sum.inject]
  then have "c = st" by blast
  with ok assms(2) show "auth_enabled st" "auth_secret_key st \<noteq> ''dev-secret-key-change-in-production''"
    "auth_algorithm st \<in> {''HS256'', ''HS384'', ''HS512''}" by blast+
qed

text \<open>C40: In production nothing gets past the edge without a token. Under settings the service starts
  with in production, a request to a path that is not public reaches the application only with a
  bearer token that decodes under a changed secret and an HMAC algorithm, and as the user the token
  names; otherwise it raises whatever the application is.\<close>

theorem production_requires_token:
  assumes "load_settings cfg = Inr st" and "is_production st" and "rq_path req \<notin> set PUBLIC_PATHS"
  shows "auth_secret_key st \<noteq> ''dev-secret-key-change-in-production'' \<and> auth_algorithm st \<in> {''HS256'', ''HS384'', ''HS512''} \<and>
    ((\<exists>token user u. rq_authorization req = Some (''Bearer '' @ token) \<and>
        decode_access_token jwt st token s = (Inr user, u) \<and>
        serve jwt st app req s = rate_limit_dispatch st (correlation_dispatch app) (req\<lparr>rq_user := Some user\<rparr>) u) \<or>
     (\<exists>e t. \<forall>app'. serve jwt st app' req s = (Inl e, t)))"
proof -
  obtain c where c: "validate_production_secrets c = Inr st"
    using assms(1) by (auto simp: load_settings_def split: sum.splits)
  have st: "auth_enabled st" "auth_secret_key st \<noteq> ''dev-secret-key-change-in-production''"
      "auth_algorithm st \<in> {''HS256'', ''HS384'', ''HS512''}"
    using validated_production [OF c assms(2)] by blast+
  have hdr: "h = ''Bearer '' @ drop 7 h" if "starts_with ''Bearer '' h" for h
  proof -
    have "take 7 h = ''Bearer ''" using that by (simp add: starts_with_def eval_nat_numeral)
    then show ?thesis using append_take_drop_id [of 7 h] by metis
  qed
  have "(\<exists>token user u. rq_authorization req = Some (''Bearer '' @ token) \<and>
        decode_access_token jwt st token s = (Inr user, u) \<and>
        serve jwt st app req s = rate_limit_dispatch st (correlation_dispatch app) (req\<lparr>rq_user := Some user\<rparr>) u) \<or>
     (\<exists>e t. \<forall>app'. serve jwt st app' req s = (Inl e, t))"
  proof (cases "\<exists>h. rq_authorization req = Some h \<and> starts_with ''Bearer '' h")
    case True
    then obtain token where tok: "rq_authorization req = Some (''Bearer '' @ token)" using hdr by metis
    obtain r u where "decode_access_token jwt st token s = (r, u)" by fastforce
    then show ?thesis using tok assms(3) st(1)
      by (cases r) (auto simp: serve_def auth_dispatch_def starts_with_def bindE_def)
  next
    case False
    then show ?thesis using assms(3) st(1)
      by (auto simp: serve_def auth_dispatch_def raiseE_def split: option.split)
  qed
  then show ?thesis using st by simp
qed

section \<open>A concrete edge\<close>

definition demo_settings :: Settings where
  "demo_settings = \<lparr>environment = PRODUCTION, cors_origins = [], database_url = ''sqlite:///d'',
     reference_data_database_url = ''sqlite:///d'', seed_reference_data = None, policy_database_url = None,
     auth_enabled = True, auth_secret_key = ''k'', auth_algorithm = ''HS256'', auth_token_expire_minutes = 480,
     auth_issuer = ''workflow-engine'', jurisdiction_enforce = None, policy_signing_key = ''s'',
     policy_author = ''a'', policy_approver = ''b'', upstream_mode = None, sandbox_database_url = ''sqlite:///s'',
     provider_bundle_factory = None, rate_limit_enabled = True, rate_limit_requests = 2,
     rate_limit_window_seconds = 60, log_level = ''INFO''\<rparr>"

definition demo_edge :: edge where
  "demo_edge = \<lparr>clock_src = (\<lambda>n. int n), clock_idx = 0, uuid_src = (\<lambda>_. []), uuid_idx = 0, limiter = []\<rparr>"

lemma demo_edge_mono: "mono (clock_src demo_edge)" "limiter demo_edge = []"
  by (auto simp: demo_edge_def mono_def)

theorem rate_limit_holds_witness:
  "int (length (in_window demo_settings 9 (times ''ip:a'' (serve_all demo_settings [Some ''ip:a'', None, Some ''ip:a'', Some ''ip:a''] demo_edge)))) \<le> 2"
  using rate_limit_holds [OF demo_edge_mono, of demo_settings 9 "''ip:a''" "[Some ''ip:a'', None, Some ''ip:a'', Some ''ip:a'']"]
  by (simp add: demo_settings_def)

text \<open>A library that satisfies the assumption: a token is an index of its content.\<close>

instance json :: countable
  by countable_datatype

definition demo_jwt :: jwt_library where
  "demo_jwt = \<lparr>jwt_encode = (\<lambda>payload key alg. replicate (to_nat (payload, key, alg)) CHR ''x''),
     jwt_decode = (\<lambda>now token key algs iss. case from_nat (length token) of (payload, k, a) \<Rightarrow>
       if k = key \<and> a \<in> set algs then JwtPayload payload else JwtInvalid ''signature'')\<rparr>"

lemma demo_jwt_law: "jwt_law demo_jwt"
  by (simp add: jwt_law_def demo_jwt_def)

theorem token_roundtrip_witness:
  "\<exists>u t. decode_access_token demo_jwt demo_settings
      (projr (fst (create_access_token demo_jwt demo_settings ''U1'' CUSTOMER None None demo_edge))) demo_edge = (Inr u, t) \<and>
    uc_user_id u = ''U1''"
proof -
  obtain token s where "create_access_token demo_jwt demo_settings ''U1'' CUSTOMER None None demo_edge = (Inr token, s)"
    by (simp add: create_access_token_def bindE_def now_op_def returnE_def Let_def)
  moreover from token_roundtrip [OF demo_jwt_law this, of demo_edge] obtain u t where
    "decode_access_token demo_jwt demo_settings token demo_edge = (Inr u, t)" "uc_user_id u = ''U1''"
    by (auto simp: demo_edge_def demo_settings_def whole_seconds_def seconds_def)
  ultimately show ?thesis by auto
qed

theorem production_requires_token_witness:
  "\<exists>e t. serve demo_jwt demo_settings (\<lambda>_. returnE generic_error_handler)
     \<lparr>rq_path = ''/api'', rq_authorization = None, rq_correlation_id = None, rq_client_host = None, rq_user = None\<rparr>
     demo_edge = (Inl e, t)"
proof -
  let ?r = "\<lparr>rq_path = ''/api'', rq_authorization = None, rq_correlation_id = None, rq_client_host = None, rq_user = None\<rparr>"
  have "load_settings demo_settings = Inr demo_settings" "is_production demo_settings" by code_simp+
  moreover have "rq_path ?r \<notin> set PUBLIC_PATHS" by (simp add: PUBLIC_PATHS_def)
  ultimately show ?thesis using production_requires_token [of demo_settings demo_settings ?r] by fastforce
qed

end
