(* ===== verification/Regex.thy ===== *)
theory Regex
  imports Prelude
begin

text \<open>
  The part of Python's \<open>re\<close> the rails, the claim extraction and the tool validation use, on ASCII
  text. A pattern is matched by backtracking: \<open>ends\<close> lists every way to match from a position, in
  the order the engine tries them, and the engine takes the first. A position is the text read so
  far (reversed), the text still to read and the groups captured. Every repetition in the source
  repeats one character class.
\<close>

declare andThen_simps [simp]

section \<open>Character classes\<close>

definition code :: "char \<Rightarrow> nat" where
  "code c = of_char c"

definition is_digit :: "char \<Rightarrow> bool" where
  "is_digit c \<longleftrightarrow> 48 \<le> code c \<and> code c \<le> 57"

definition is_word :: "char \<Rightarrow> bool" where
  "is_word c \<longleftrightarrow> is_digit c \<or> (65 \<le> code c \<and> code c \<le> 90) \<or> (97 \<le> code c \<and> code c \<le> 122) \<or> code c = 95"

definition is_space :: "char \<Rightarrow> bool" where
  "is_space c \<longleftrightarrow> (9 \<le> code c \<and> code c \<le> 13) \<or> (28 \<le> code c \<and> code c \<le> 32)"

definition newline :: char where
  "newline = char_of (10 :: nat)"

text \<open>\<open>.\<close> without \<open>DOTALL\<close>\<close>

definition is_dot :: "char \<Rightarrow> bool" where
  "is_dot c \<longleftrightarrow> c \<noteq> newline"

text \<open>A literal character under \<open>(?i)\<close>.\<close>

definition same_letter :: "char \<Rightarrow> char \<Rightarrow> bool" where
  "same_letter p c \<longleftrightarrow> lower_char p = lower_char c"

section \<open>Patterns\<close>

datatype regex =
    Eps
  | Chr "char \<Rightarrow> bool"
  | Seq regex regex
  | Alt regex regex
  | Rep bool nat "char \<Rightarrow> bool"
  | Bound
  | AtStart
  | AtEnd
  | Cap nat regex

text \<open>\<open>Rep g m P\<close> is \<open>P{m,}\<close>, greedy or (\<open>g = False\<close>) lazy. The usual abbreviations:\<close>

definition seqs :: "regex list \<Rightarrow> regex" where
  "seqs rs = foldr Seq rs Eps"

fun alts :: "regex list \<Rightarrow> regex" where
  "alts [] = Eps"
| "alts [r] = r"
| "alts (r # s # rs) = Alt r (alts (s # rs))"

definition opt :: "regex \<Rightarrow> regex" where
  "opt r = Alt r Eps"

definition lit :: "string \<Rightarrow> regex" where
  "lit w = seqs (map (\<lambda>p. Chr (\<lambda>c. c = p)) w)"

definition lit_i :: "string \<Rightarrow> regex" where
  "lit_i w = seqs (map (\<lambda>p. Chr (same_letter p)) w)"

definition one_of :: "string \<Rightarrow> regex" where
  "one_of cs = Chr (\<lambda>c. c \<in> set cs)"

definition spaces1 :: regex where
  "spaces1 = Rep True 1 is_space"

definition spaces0 :: regex where
  "spaces0 = Rep True 0 is_space"

section \<open>Matching\<close>

type_synonym groups = "(nat \<times> string) list"
type_synonym mstate = "string \<times> string \<times> groups"

fun hd_word :: "string \<Rightarrow> bool" where
  "hd_word [] = False"
| "hd_word (c # _) = is_word c"

text \<open>The lengths a repetition may take, in the order they are tried.\<close>

definition rep_lengths :: "bool \<Rightarrow> nat \<Rightarrow> nat \<Rightarrow> nat list" where
  "rep_lengths greedy m n = (if greedy then rev [m..<Suc n] else [m..<Suc n])"

fun ends :: "regex \<Rightarrow> mstate \<Rightarrow> mstate list" where
  "ends Eps p = [p]"
| "ends (Chr P) (pre, rest, g) = (case rest of [] \<Rightarrow> [] | c # cs \<Rightarrow> if P c then [(c # pre, cs, g)] else [])"
| "ends (Seq r1 r2) p = concat (map (ends r2) (ends r1 p))"
| "ends (Alt r1 r2) p = ends r1 p @ ends r2 p"
| "ends (Rep greedy m P) (pre, rest, g) =
     map (\<lambda>k. (rev (take k rest) @ pre, drop k rest, g)) (rep_lengths greedy m (length (takeWhile P rest)))"
| "ends Bound (pre, rest, g) = (if hd_word pre \<noteq> hd_word rest then [(pre, rest, g)] else [])"
| "ends AtStart (pre, rest, g) = (if pre = [] then [(pre, rest, g)] else [])"
| "ends AtEnd (pre, rest, g) = (if rest = [] \<or> rest = [newline] then [(pre, rest, g)] else [])"
| "ends (Cap n r) (pre, rest, g) =
     map (\<lambda>(pre', rest', g'). (pre', rest', dict_set g' n (rev (take (length pre' - length pre) pre')))) (ends r (pre, rest, g))"

text \<open>\<open>re.match\<close> and \<open>re.search\<close>: the leftmost position at which the pattern matches.\<close>

definition match_at :: "regex \<Rightarrow> string \<Rightarrow> string \<Rightarrow> mstate option" where
  "match_at r pre rest = (case ends r (pre, rest, []) of [] \<Rightarrow> None | m # _ \<Rightarrow> Some m)"

definition re_match :: "regex \<Rightarrow> string \<Rightarrow> bool" where
  "re_match r s \<longleftrightarrow> match_at r [] s \<noteq> None"

fun search_from :: "regex \<Rightarrow> string \<Rightarrow> string \<Rightarrow> bool" where
  "search_from r pre [] = (match_at r pre [] \<noteq> None)"
| "search_from r pre (c # cs) = (match_at r pre (c # cs) \<noteq> None \<or> search_from r (c # pre) cs)"

definition re_search :: "regex \<Rightarrow> string \<Rightarrow> bool" where
  "re_search r s = search_from r [] s"

text \<open>
  The scan of \<open>findall\<close> and \<open>sub\<close>: after a match it resumes at its end. No pattern they are used
  with matches the empty text; the scan steps over one character if it does, so that it ends.
\<close>

datatype piece = Kept char | Matched groups

function scan :: "regex \<Rightarrow> string \<Rightarrow> string \<Rightarrow> piece list" where
  "scan r pre rest =
     (case match_at r pre rest of
        Some (pre', rest', g) \<Rightarrow>
          if length rest' < length rest then Matched g # scan r pre' rest'
          else (case rest of [] \<Rightarrow> [] | c # cs \<Rightarrow> Kept c # scan r (c # pre) cs)
      | None \<Rightarrow> (case rest of [] \<Rightarrow> [] | c # cs \<Rightarrow> Kept c # scan r (c # pre) cs))"
  by pat_completeness auto
termination
  by (relation "measure (\<lambda>(r, pre, rest). length rest)") auto

declare scan.simps [simp del]

definition matches_of :: "regex \<Rightarrow> string \<Rightarrow> groups list" where
  "matches_of r s = concat (map (\<lambda>p. case p of Matched g \<Rightarrow> [g] | Kept _ \<Rightarrow> []) (scan r [] s))"

text \<open>One group of a match; a group that took no part is the empty string in \<open>findall\<close>.\<close>

definition group :: "groups \<Rightarrow> nat \<Rightarrow> string" where
  "group g n = (case dict_get g n of None \<Rightarrow> [] | Some w \<Rightarrow> w)"

definition re_findall :: "regex \<Rightarrow> string \<Rightarrow> string list" where
  "re_findall r s = map (\<lambda>g. group g 1) (matches_of r s)"

definition re_sub :: "regex \<Rightarrow> string \<Rightarrow> string \<Rightarrow> string" where
  "re_sub r by s = concat (map (\<lambda>p. case p of Matched _ \<Rightarrow> by | Kept c \<Rightarrow> [c]) (scan r [] s))"

section \<open>Numbers in text\<close>

definition digit_value :: "char \<Rightarrow> nat" where
  "digit_value c = code c - 48"

definition nat_of_digits :: "string \<Rightarrow> nat" where
  "nat_of_digits ds = foldl (\<lambda>n c. 10 * n + digit_value c) 0 ds"

text \<open>\<open>int(s)\<close> for a run of digits.\<close>

definition int_of_digits :: "string \<Rightarrow> exn + int" where
  "int_of_digits ds = (if ds \<noteq> [] \<and> list_all is_digit ds then Inr (int (nat_of_digits ds)) else Inl (ValueError ''int''))"

text \<open>\<open>digits[.digits]\<close> with at least one digit: the mantissa of a float literal.\<close>

definition mantissa :: "string \<Rightarrow> rat option" where
  "mantissa s =
     (let a = takeWhile is_digit s; t = dropWhile is_digit s;
          b = (case t of [] \<Rightarrow> [] | _ # u \<Rightarrow> u) in
      if (t = [] \<or> hd t = CHR 46) \<and> list_all is_digit b \<and> a @ b \<noteq> []
      then Some (of_nat (nat_of_digits (a @ b)) / 10 ^ length b) else None)"

definition strip_sign :: "string \<Rightarrow> bool \<times> string" where
  "strip_sign s = (case s of c # cs \<Rightarrow> if c = CHR 45 then (True, cs) else if c = CHR 43 then (False, cs) else (False, s)
     | [] \<Rightarrow> (False, s))"

definition strip_text :: "string \<Rightarrow> string" where
  "strip_text s = rev (dropWhile is_space (rev (dropWhile is_space s)))"

definition exponent_of :: "string \<Rightarrow> int option" where
  "exponent_of e = (let (n, ds) = strip_sign e in
     case int_of_digits ds of Inl _ \<Rightarrow> None | Inr k \<Rightarrow> Some (if n then - k else k))"

definition power_ten :: "int \<Rightarrow> rat" where
  "power_ten k = (if 0 \<le> k then 10 ^ nat k else 1 / 10 ^ nat (- k))"

text \<open>\<open>float(s)\<close>: sign, mantissa, exponent, surrounding blanks; the value without binary rounding.\<close>

definition float_text :: "string \<Rightarrow> exn + rat" where
  "float_text s =
     (let (neg, u) = strip_sign (strip_text s);
          m = takeWhile (\<lambda>c. c \<noteq> CHR ''e'' \<and> c \<noteq> CHR ''E'') u;
          x = drop (length m) u;
          p = (case x of [] \<Rightarrow> Some 0 | _ # e \<Rightarrow> exponent_of e) in
      case (mantissa m, p) of
        (Some a, Some k) \<Rightarrow> Inr ((if neg then - a else a) * power_ten k)
      | _ \<Rightarrow> Inl (ValueError ''float''))"

text \<open>\<open>float(v)\<close> of a value.\<close>

definition float_of :: "json \<Rightarrow> exn + rat" where
  "float_of v = (case v of JStr s \<Rightarrow> float_text s
     | _ \<Rightarrow> (case json_num v of Some r \<Rightarrow> Inr r | None \<Rightarrow> Inl (TypeError ''float'')))"

text \<open>\<open>f"{x:.2f}"\<close>: two decimals, a tie to the even digit.\<close>

definition round_even :: "rat \<Rightarrow> int" where
  "round_even x = (let f = \<lfloor>x\<rfloor>; d = x - of_int f in
     if d < 1 / 2 then f else if 1 / 2 < d then f + 1 else if even f then f else f + 1)"

definition two_digits :: "nat \<Rightarrow> string" where
  "two_digits n = (if n < 10 then ''0'' @ str_nat n else str_nat n)"

definition fmt2 :: "rat \<Rightarrow> string" where
  "fmt2 x = (let c = nat \<bar>round_even (100 * x)\<bar> in
     (if x < 0 then ''-'' else []) @ str_nat (c div 100) @ ''.'' @ two_digits (c mod 100))"

section \<open>Facts about matching\<close>

lemma rep_lengths_set [simp]: "set (rep_lengths greedy m n) = {m..n}"
  by (auto simp: rep_lengths_def)

text \<open>A match reads a prefix of what is left and leaves the rest.\<close>

lemma ends_split:
  "(pre', rest', g') \<in> set (ends r (pre, rest, g)) \<Longrightarrow> \<exists>w. rest = w @ rest' \<and> pre' = rev w @ pre"
proof (induction r arbitrary: pre rest g pre' rest' g')
  case (Seq r1 r2)
  then obtain p1 s1 g1 where 1: "(p1, s1, g1) \<in> set (ends r1 (pre, rest, g))"
    and 2: "(pre', rest', g') \<in> set (ends r2 (p1, s1, g1))" by auto
  from Seq.IH(1) [OF 1] Seq.IH(2) [OF 2] show ?case by fastforce
next
  case (Rep greedy m P)
  then obtain k where "pre' = rev (take k rest) @ pre" "rest' = drop k rest" by auto
  then show ?case by (metis append_take_drop_id)
next
  case (Chr P)
  then show ?case by (auto split: list.splits if_splits)
qed (fastforce split: if_splits)+

lemma match_at_split: "match_at r pre rest = Some (pre', rest', g) \<Longrightarrow> \<exists>w. rest = w @ rest' \<and> pre' = rev w @ pre"
  by (rule ends_split [of _ _ g r _ _ "[]"]) (auto simp: match_at_def split: list.splits)

text \<open>Patterns that always read at least one character.\<close>

fun consumes :: "regex \<Rightarrow> bool" where
  "consumes (Chr _) = True"
| "consumes (Seq r1 r2) = (consumes r1 \<or> consumes r2)"
| "consumes (Alt r1 r2) = (consumes r1 \<and> consumes r2)"
| "consumes (Rep _ m _) = (0 < m)"
| "consumes (Cap _ r) = consumes r"
| "consumes _ = False"

lemma ends_shorter:
  "(pre', rest', g') \<in> set (ends r (pre, rest, g)) \<Longrightarrow> length rest' \<le> length rest"
  using ends_split by fastforce

lemma consumes_shorter:
  "consumes r \<Longrightarrow> (pre', rest', g') \<in> set (ends r (pre, rest, g)) \<Longrightarrow> length rest' < length rest"
proof (induction r arbitrary: pre rest g pre' rest' g')
  case (Seq r1 r2)
  then obtain p1 s1 g1 where 1: "(p1, s1, g1) \<in> set (ends r1 (pre, rest, g))"
    and 2: "(pre', rest', g') \<in> set (ends r2 (p1, s1, g1))" by auto
  from Seq ends_shorter [OF 1] ends_shorter [OF 2] 1 2 show ?case by fastforce
next
  case (Rep greedy m P)
  then obtain k where "k \<le> length (takeWhile P rest)" "0 < k" "rest' = drop k rest" by auto
  moreover have "length (takeWhile P rest) \<le> length rest" by (rule length_takeWhile_le)
  ultimately show ?case by simp
next
  case (Chr P)
  then show ?case by (auto split: list.splits if_splits)
qed auto

lemma match_at_shorter: "consumes r \<Longrightarrow> match_at r pre rest = Some (pre', rest', g) \<Longrightarrow> length rest' < length rest"
  by (rule consumes_shorter [of r pre' rest' g pre rest "[]"]) (auto simp: match_at_def split: list.splits)

text \<open>The scan of a pattern that reads something, without the guard for empty matches.\<close>

lemma scan_consumes:
  "consumes r \<Longrightarrow> scan r pre rest =
     (case match_at r pre rest of
        Some (pre', rest', g) \<Rightarrow> Matched g # scan r pre' rest'
      | None \<Rightarrow> (case rest of [] \<Rightarrow> [] | c # cs \<Rightarrow> Kept c # scan r (c # pre) cs))"
  by (subst scan.simps) (auto dest: match_at_shorter split: option.splits)

text \<open>\<open>findall\<close> finds something exactly when \<open>search\<close> does.\<close>

lemma scan_search:
  "consumes r \<Longrightarrow> (\<exists>g. Matched g \<in> set (scan r pre rest)) \<longleftrightarrow> search_from r pre rest"
proof (induction rest arbitrary: pre)
  case Nil
  then show ?case by (subst scan_consumes) (auto dest: match_at_shorter split: option.splits)
next
  case (Cons c cs)
  then show ?case by (subst scan_consumes) (auto split: option.splits)
qed

lemma piece_matched:
  "(\<exists>p \<in> set ps. (case p of Kept _ \<Rightarrow> [] | Matched g \<Rightarrow> [g]) \<noteq> []) \<longleftrightarrow> (\<exists>g. Matched g \<in> set ps)"
  by (auto split: piece.splits) (metis piece.exhaust)

lemma re_findall_search: "consumes r \<Longrightarrow> re_findall r s \<noteq> [] \<longleftrightarrow> re_search r s"
proof -
  assume r: "consumes r"
  have "re_findall r s \<noteq> [] \<longleftrightarrow> (\<exists>g. Matched g \<in> set (scan r [] s))"
    unfolding re_findall_def matches_of_def by (simp add: piece_matched)
  with scan_search [OF r] show ?thesis by (simp add: re_search_def)
qed

text \<open>Text without a match is copied by \<open>sub\<close>.\<close>

lemma scan_no_match: "\<not> search_from r pre rest \<Longrightarrow> scan r pre rest = map Kept rest"
  by (induction rest arbitrary: pre) (subst scan.simps, auto split: option.splits)+

lemma re_sub_id: "\<not> re_search r s \<Longrightarrow> re_sub r by s = s"
  by (simp add: re_sub_def re_search_def scan_no_match comp_def)

text \<open>A literal matches in at most one way.\<close>

lemma ends_lit:
  "ends (lit w) (pre, rest, g) = (if starts_with w rest then [(rev w @ pre, drop (length w) rest, g)] else [])"
proof (induction w arbitrary: pre rest)
  case (Cons c w)
  then show ?case by (cases rest) (auto simp: lit_def seqs_def starts_with_def)
qed (simp add: lit_def seqs_def starts_with_def)

lemma ends_lit_i:
  "ends (lit_i w) (pre, rest, g) =
     (if lower (take (length w) rest) = lower w then [(rev (take (length w) rest) @ pre, drop (length w) rest, g)] else [])"
proof (induction w arbitrary: pre rest)
  case (Cons c w)
  then show ?case by (cases rest) (auto simp: lit_i_def seqs_def lower_def same_letter_def)
qed (simp add: lit_i_def seqs_def lower_def)

lemma seqs_simps [simp]: "seqs [] = Eps" "seqs (r # rs) = Seq r (seqs rs)"
  by (simp_all add: seqs_def)

lemma match_at_None: "match_at r pre rest = None \<longleftrightarrow> ends r (pre, rest, []) = []"
  by (simp add: match_at_def split: list.splits)

end
