(* ===== verification/Dates.thy ===== *)
theory Dates
  imports Regex
begin

text \<open>
  The part of Python's \<open>datetime\<close> the tools and the rails use: calendar dates as days, \<open>strptime\<close>
  for the three formats of the source (the patterns of the library, then the check of the
  calendar), \<open>strftime\<close> and whole days between two instants. An instant is the number of
  microseconds since 1970-01-01 UTC, the zone the process runs in.
\<close>

section \<open>The calendar\<close>

definition leap_year :: "int \<Rightarrow> bool" where
  "leap_year y \<longleftrightarrow> y mod 4 = 0 \<and> (y mod 100 \<noteq> 0 \<or> y mod 400 = 0)"

definition days_in_month :: "int \<Rightarrow> int \<Rightarrow> int" where
  "days_in_month y m = (if m = 2 then if leap_year y then 29 else 28 else if m \<in> {4, 6, 9, 11} then 30 else 31)"

definition valid_date :: "int \<Rightarrow> int \<Rightarrow> int \<Rightarrow> bool" where
  "valid_date y m d \<longleftrightarrow> 1 \<le> y \<and> y \<le> 9999 \<and> 1 \<le> m \<and> m \<le> 12 \<and> 1 \<le> d \<and> d \<le> days_in_month y m"

text \<open>Days since 1970-01-01; a year is counted from March, so that the leap day ends it.\<close>

definition days_of_date :: "int \<Rightarrow> int \<Rightarrow> int \<Rightarrow> int" where
  "days_of_date y m d =
     (let y' = (if m \<le> 2 then y - 1 else y);
          era = y' div 400; yoe = y' mod 400;
          doy = (153 * (if 2 < m then m - 3 else m + 9) + 2) div 5 + d - 1;
          doe = yoe * 365 + yoe div 4 - yoe div 100 + doy in
      era * 146097 + doe - 719468)"

definition date_of_days :: "int \<Rightarrow> int \<times> int \<times> int" where
  "date_of_days n =
     (let z = n + 719468; era = z div 146097; doe = z mod 146097;
          yoe = (doe - doe div 1460 + doe div 36524 - doe div 146096) div 365;
          doy = doe - (365 * yoe + yoe div 4 - yoe div 100);
          mp = (5 * doy + 2) div 153;
          d = doy - (153 * mp + 2) div 5 + 1;
          m = (if mp < 10 then mp + 3 else mp - 9) in
      (yoe + era * 400 + (if m \<le> 2 then 1 else 0), m, d))"

definition day_us :: int where
  "day_us = 86400000000"

definition instant :: "int \<Rightarrow> int \<Rightarrow> int \<Rightarrow> int \<Rightarrow> int \<Rightarrow> int \<Rightarrow> time" where
  "instant y mo d h mi s = days_of_date y mo d * day_us + seconds (3600 * h + 60 * mi + s)"

text \<open>\<open>(a - b).days\<close>\<close>

definition days_between :: "time \<Rightarrow> time \<Rightarrow> int" where
  "days_between a b = (a - b) div day_us"

section \<open>Parsing\<close>

text \<open>The patterns \<open>_strptime\<close> compiles for \<open>%Y %m %d %H %M %S\<close>.\<close>

definition rng :: "nat \<Rightarrow> nat \<Rightarrow> regex" where
  "rng a b = Chr (\<lambda>c. 48 + a \<le> code c \<and> code c \<le> 48 + b)"

definition re_Y :: regex where
  "re_Y = Cap 1 (seqs [Chr is_digit, Chr is_digit, Chr is_digit, Chr is_digit])"

definition re_m :: regex where
  "re_m = Cap 2 (alts [Seq (rng 1 1) (rng 0 2), Seq (rng 0 0) (rng 1 9), rng 1 9])"

definition re_d :: regex where
  "re_d = Cap 3 (alts [Seq (rng 3 3) (rng 0 1), Seq (rng 1 2) (Chr is_digit), Seq (rng 0 0) (rng 1 9), rng 1 9,
     Seq (lit '' '') (rng 1 9)])"

definition re_H :: regex where
  "re_H = Cap 4 (alts [Seq (rng 2 2) (rng 0 3), Seq (rng 0 1) (Chr is_digit), Chr is_digit])"

definition re_M :: regex where
  "re_M = Cap 5 (alts [Seq (rng 0 5) (Chr is_digit), Chr is_digit])"

definition re_S :: regex where
  "re_S = Cap 6 (alts [Seq (rng 6 6) (rng 0 1), Seq (rng 0 5) (Chr is_digit), Chr is_digit])"

definition fmt_date :: regex where
  "fmt_date = seqs [re_Y, lit ''-'', re_m, lit ''-'', re_d]"

definition fmt_date_T_time :: regex where
  "fmt_date_T_time = seqs [fmt_date, lit_i ''T'', re_H, lit '':'', re_M, lit '':'', re_S]"

definition fmt_date_time :: regex where
  "fmt_date_time = seqs [fmt_date, spaces1, re_H, lit '':'', re_M, lit '':'', re_S]"

definition num_group :: "groups \<Rightarrow> nat \<Rightarrow> int" where
  "num_group g n = int (nat_of_digits (filter is_digit (group g n)))"

text \<open>\<open>datetime.strptime(s, fmt)\<close>: \<open>None\<close> is the \<open>ValueError\<close> of a mismatch, of text left over or of a date that does not exist.\<close>

definition strptime :: "regex \<Rightarrow> string \<Rightarrow> time option" where
  "strptime fmt s = (case match_at fmt [] s of
      Some (_, [], g) \<Rightarrow>
        if valid_date (num_group g 1) (num_group g 2) (num_group g 3) \<and> num_group g 6 \<le> 59
        then Some (instant (num_group g 1) (num_group g 2) (num_group g 3) (num_group g 4) (num_group g 5) (num_group g 6))
        else None
    | _ \<Rightarrow> None)"

section \<open>Formatting\<close>

definition pad2 :: "int \<Rightarrow> string" where
  "pad2 n = two_digits (nat n)"

definition pad4 :: "int \<Rightarrow> string" where
  "pad4 n = (let t = str_nat (nat n) in replicate (4 - length t) (CHR 48) @ t)"

text \<open>\<open>%H%M%S\<close>, \<open>%Y%m%d\<close> and \<open>%Y-%m-%d\<close>\<close>

definition clock_digits :: "time \<Rightarrow> string" where
  "clock_digits t = (let s = (t mod day_us) div 1000000 in pad2 (s div 3600) @ pad2 (s div 60 mod 60) @ pad2 (s mod 60))"

definition date_digits :: "time \<Rightarrow> string" where
  "date_digits t = (let (y, m, d) = date_of_days (t div day_us) in pad4 y @ pad2 m @ pad2 d)"

definition stamp :: "time \<Rightarrow> string" where
  "stamp t = date_digits t @ clock_digits t"

definition iso_date :: "time \<Rightarrow> string" where
  "iso_date t = (let (y, m, d) = date_of_days (t div day_us) in pad4 y @ ''-'' @ pad2 m @ ''-'' @ pad2 d)"

section \<open>Facts\<close>

text \<open>Two instants of the same second have the same stamp.\<close>

lemma stamp_second: "a div 1000000 = b div 1000000 \<Longrightarrow> stamp a = stamp b"
proof -
  assume ab: "a div 1000000 = b div 1000000"
  have day: "x div day_us = (x div 1000000) div 86400" for x :: int
    using zdiv_zmult2_eq [of 86400 x 1000000] by (simp add: day_us_def)
  have "x mod day_us = 1000000 * (x div 1000000 mod 86400) + x mod 1000000" for x :: int
    using zmod_zmult2_eq [of 86400 x 1000000] by (simp add: day_us_def)
  then have "x mod day_us div 1000000 = (x div 1000000) mod 86400" for x :: int
    by simp
  with ab day show ?thesis
    by (simp add: stamp_def date_digits_def clock_digits_def)
qed

lemma date_of_days_example: "days_of_date 2026 7 12 = 20646 \<and> date_of_days 20646 = (2026, 7, 12)"
  by code_simp

end
