(* ===== verification/Reasoning.thy ===== *)
theory Reasoning
  imports Procedures Dates
begin

text \<open>
  The reasoning rails (\<open>agents/reasoning.py\<close>): claims extracted from a response, formal rules
  extracted from a procedure, and the verification of the former against the latter. Constraints
  are the terms the code builds; the SMT solver is the parameter \<open>solve\<close>, a function from the
  asserted constraints to its answer. Floats are rationals, so the symbolic comparison of two
  amounts is the comparison of the numbers.
\<close>

section \<open>Constraints\<close>

datatype zval = ZI int | ZR rat | ZS string | ZB bool

datatype zterm = ZVar string | ZVal zval

datatype zexpr =
    ZLe zterm zterm
  | ZGt zterm zterm
  | ZEq zterm zterm
  | ZIs zterm
  | ZAnd "zexpr list"
  | ZOr "zexpr list"
  | ZNot zexpr

datatype zsort = SInt | SReal | SString | SBool

datatype z3_answer = Z_sat | Z_unsat | Z_unknown

type_synonym solver = "zexpr list \<Rightarrow> z3_answer"

section \<open>Data models\<close>

record Finding =
  fi_rule_id :: string
  fi_description :: string
  fi_severity :: string
  fi_actual_value :: "string option"
  fi_expected_constraint :: "string option"

record ReasoningRule =
  rr_rule_id :: string
  rr_description :: string
  rr_constraint :: zexpr
  rr_source_step :: string

record ReasoningPolicy =
  rp_procedure_id :: string
  rp_variables :: "(string \<times> zsort) list"
  rp_rules :: "ReasoningRule list"
  rp_source_document :: string

record VerificationResult =
  vr_verdict :: string
  vr_findings :: "Finding list"
  vr_cited_rules :: "string list"
  vr_explanation :: string
  vr_rewrite_hint :: "string option"

definition is_valid :: "VerificationResult \<Rightarrow> bool" where
  "is_valid v \<longleftrightarrow> vr_verdict v = ''VALID''"

definition bare_result :: "string \<Rightarrow> string \<Rightarrow> VerificationResult" where
  "bare_result verdict explanation = \<lparr>vr_verdict = verdict, vr_findings = [], vr_cited_rules = [],
     vr_explanation = explanation, vr_rewrite_hint = None\<rparr>"

section \<open>Claims\<close>

definition amount_pattern :: regex where
  "amount_pattern = seqs [lit [CHR 36], opt (Chr is_space),
     Cap 1 (seqs [Rep True 1 (\<lambda>c. is_digit c \<or> c = CHR 44), opt (lit ''.''), Rep True 0 is_digit])]"

definition days_pattern :: regex where
  "days_pattern = seqs [Cap 1 (Rep True 1 is_digit), spaces0,
     opt (seqs [lit ''-'', spaces0, Cap 2 (Rep True 1 is_digit), spaces0]),
     opt (seqs [lit ''business'', spaces1]), lit ''day'', opt (lit ''s'')]"

definition refund_approved_pattern :: regex where
  "refund_approved_pattern = seqs [Bound, lit_i ''refund'', Bound, Rep False 0 is_dot, Bound,
     alts [lit_i ''approved'', lit_i ''processed'', lit_i ''issued'', lit_i ''credited''], Bound]"

definition refund_denied_pattern :: regex where
  "refund_denied_pattern = seqs [Bound,
     alts [seqs [lit_i ''not'', spaces1, lit_i ''eligible''], seqs [lit_i ''cannot'', spaces1, lit_i ''process''],
       seqs [lit_i ''outside'', Rep True 0 is_dot, lit_i ''window''], lit_i ''denied''], Bound]"

definition store_credit_pattern :: regex where
  "store_credit_pattern = seqs [Bound, lit_i ''store'', spaces1, lit_i ''credit'', Bound]"

definition escalation_pattern :: regex where
  "escalation_pattern = seqs [Bound,
     alts [lit_i ''escalat'', lit_i ''supervisor'', seqs [lit_i ''senior'', spaces1, lit_i ''representative'']], Bound]"

text \<open>\<open>float(a.replace(",", ""))\<close>\<close>

definition amount_value :: "string \<Rightarrow> exn + rat" where
  "amount_value a = float_text (filter (\<lambda>c. c \<noteq> CHR 44) a)"

definition amounts_of :: "string \<Rightarrow> exn + rat list" where
  "amounts_of response_text = collect amount_value (re_findall amount_pattern response_text)"

definition day_values :: "groups \<Rightarrow> exn + int list" where
  "day_values g = collect int_of_digits (group g 1 # (if group g 2 \<noteq> [] then [group g 2] else []))"

text \<open>The claims dict; a key is present exactly when its entry is true or not empty.\<close>

record Claims =
  mentioned_amounts :: "rat list"
  mentioned_days :: "int list"
  claims_refund_approved :: bool
  claims_refund_denied :: bool
  claims_store_credit :: bool
  claims_escalation :: bool

definition extract_claims :: "string \<Rightarrow> exn + Claims" where
  "extract_claims response_text =
     (case amounts_of response_text of
        Inl e \<Rightarrow> Inl e
      | Inr amounts \<Rightarrow>
          (case collect day_values (matches_of days_pattern response_text) of
             Inl e \<Rightarrow> Inl e
           | Inr days \<Rightarrow> Inr \<lparr>mentioned_amounts = amounts, mentioned_days = concat days,
               claims_refund_approved = re_search refund_approved_pattern response_text,
               claims_refund_denied = re_search refund_denied_pattern response_text,
               claims_store_credit = re_search store_credit_pattern response_text,
               claims_escalation = re_search escalation_pattern response_text\<rparr>))"

definition no_claims :: "Claims \<Rightarrow> bool" where
  "no_claims c \<longleftrightarrow> mentioned_amounts c = [] \<and> mentioned_days c = [] \<and> \<not> claims_refund_approved c \<and>
     \<not> claims_refund_denied c \<and> \<not> claims_store_credit c \<and> \<not> claims_escalation c"

section \<open>Rules of a procedure\<close>

definition policy_variables :: "(string \<times> zsort) list" where
  "policy_variables = [(''order_age_days'', SInt), (''order_total'', SReal), (''refund_amount'', SReal),
     (''order_status'', SString), (''is_refundable_category'', SBool)]"

definition status_is :: "string \<Rightarrow> zexpr" where
  "status_is v = ZEq (ZVar ''order_status'') (ZVal (ZS v))"

definition parse_condition_to_z3 :: "string \<Rightarrow> json \<Rightarrow> zexpr option" where
  "parse_condition_to_z3 condition_text next_step =
     (let cond_lower = lower condition_text in
      if substring ''within 30 days'' cond_lower \<and> next_step = JStr ''process_refund''
      then Some (ZAnd [ZLe (ZVar ''order_age_days'') (ZVal (ZI 30)),
        ZOr [status_is ''delivered'', status_is ''shipped''], ZIs (ZVar ''is_refundable_category'')])
      else if substring ''outside 30 days'' cond_lower then Some (ZGt (ZVar ''order_age_days'') (ZVal (ZI 30)))
      else if substring ''processing'' cond_lower then Some (status_is ''processing'')
      else None)"

definition add_universal_rules :: "string \<Rightarrow> ReasoningRule list" where
  "add_universal_rules procedure_id =
    [\<lparr>rr_rule_id = procedure_id @ '':universal:refund_lte_total'',
      rr_description = ''Refund amount must not exceed order total'',
      rr_constraint = ZLe (ZVar ''refund_amount'') (ZVar ''order_total''), rr_source_step = ''*''\<rparr>,
     \<lparr>rr_rule_id = procedure_id @ '':universal:refund_positive'', rr_description = ''Refund amount must be positive'',
      rr_constraint = ZGt (ZVar ''refund_amount'') (ZVal (ZR 0)), rr_source_step = ''*''\<rparr>,
     \<lparr>rr_rule_id = procedure_id @ '':universal:order_total_positive'', rr_description = ''Order total must be positive'',
      rr_constraint = ZGt (ZVar ''order_total'') (ZVal (ZR 0)), rr_source_step = ''*''\<rparr>]"

text \<open>\<open>d.get(k, default)\<close> for a default text.\<close>

definition get_or :: "pdict \<Rightarrow> string \<Rightarrow> string \<Rightarrow> json" where
  "get_or d k v = (case dict_get d k of None \<Rightarrow> JStr v | Some x \<Rightarrow> x)"

text \<open>A condition that is not text has no \<open>lower\<close>.\<close>

definition condition_rule :: "(json \<Rightarrow> string) \<Rightarrow> string \<Rightarrow> string \<Rightarrow> nat \<times> pdict \<Rightarrow> exn + ReasoningRule list" where
  "condition_rule render proc_id sid icond = (case icond of (i, cond) \<Rightarrow>
     (case get_or cond ''if'' [] of
        JStr cond_text \<Rightarrow>
          let next_step = get_or cond ''next_step'' [] in
          (case parse_condition_to_z3 cond_text next_step of
             None \<Rightarrow> Inr []
           | Some c \<Rightarrow> Inr [\<lparr>rr_rule_id = proc_id @ '':'' @ sid @ '':cond_'' @ str_nat i,
               rr_description = ''Condition: '' @ cond_text @ '' -> '' @ py_str render next_step,
               rr_constraint = c, rr_source_step = sid\<rparr>])
      | _ \<Rightarrow> Inl (OtherError ''AttributeError'')))"

definition step_rules :: "(json \<Rightarrow> string) \<Rightarrow> string \<Rightarrow> pdict \<Rightarrow> exn + ReasoningRule list" where
  "step_rules render proc_id step =
     andThen (sub_entries step ''conditions'') (\<lambda>conds.
     andThen (collect (condition_rule render proc_id (py_str render (get_or step ''id'' []))) (enumerate 0 conds)) (\<lambda>rules.
     Inr (concat rules)))"

definition procedure_steps :: "pdict \<Rightarrow> exn + pdict list" where
  "procedure_steps procedure = (case dict_get procedure ''steps'' of None \<Rightarrow> Inr [] | Some j \<Rightarrow> mapping_list j)"

definition build_policy_from_procedure :: "(json \<Rightarrow> string) \<Rightarrow> pdict \<Rightarrow> exn + ReasoningPolicy" where
  "build_policy_from_procedure render procedure =
     (let proc_id = py_str render (get_or procedure ''id'' ''unknown'') in
      andThen (procedure_steps procedure) (\<lambda>steps.
      andThen (collect (step_rules render proc_id) steps) (\<lambda>rules.
      Inr \<lparr>rp_procedure_id = proc_id, rp_variables = policy_variables,
           rp_rules = concat rules @ add_universal_rules proc_id,
           rp_source_document = ''procedures/'' @ proc_id @ ''.yaml''\<rparr>)))"

section \<open>Verification\<close>

text \<open>\<open>_get_order_age_days\<close>: the clock is read once the date is understood.\<close>

definition order_age_days :: "pdict \<Rightarrow> (int option, 'z env_scheme) op" where
  "order_age_days session_state = (case get_or session_state ''order_date'' [] of
      JStr s \<Rightarrow>
        (case List.find (\<lambda>p. p \<noteq> None) (map (\<lambda>f. strptime f s) [fmt_date, fmt_date_T_time, fmt_date_time]) of
           Some (Some order_date) \<Rightarrow> bindE now_op (\<lambda>now. returnE (Some (days_between now order_date)))
         | _ \<Rightarrow> returnE None)
    | _ \<Rightarrow> returnE None)"

definition eligibility_facts :: "int \<Rightarrow> string \<Rightarrow> zexpr \<Rightarrow> zexpr list" where
  "eligibility_facts order_age order_status category =
     [ZEq (ZVar ''order_age_days'') (ZVal (ZI order_age)), status_is order_status, category]"

text \<open>
  \<open>is_refundable_category == value\<close>: an equation for a Boolean; comparing with \<open>None\<close> is Python's
  \<open>False\<close>; the solver's library refuses every other value.
\<close>

definition category_fact :: "json \<Rightarrow> exn + zexpr" where
  "category_fact v = (case v of
      JBool b \<Rightarrow> Inr (ZEq (ZVar ''is_refundable_category'') (ZVal (ZB b)))
    | JNull \<Rightarrow> Inr (ZOr [])
    | _ \<Rightarrow> Inl (OtherError ''Z3Exception''))"

definition eligible_rules :: "ReasoningPolicy \<Rightarrow> ReasoningRule list" where
  "eligible_rules policy = filter
     (\<lambda>r. rr_source_step r = ''check_eligibility'' \<and> substring ''process_refund'' (rr_description r)) (rp_rules policy)"

definition eligibility_finding :: "string \<Rightarrow> string \<Rightarrow> int \<Rightarrow> string \<Rightarrow> Finding" where
  "eligibility_finding rule_id what order_age order_status =
     \<lparr>fi_rule_id = rule_id,
      fi_description = what @ '': order_age='' @ str_int order_age @ '' days, status='' @ order_status,
      fi_severity = ''error'',
      fi_actual_value = Some (''age='' @ str_int order_age @ '', status='' @ order_status),
      fi_expected_constraint = Some ''age <= 30 AND status in [delivered, shipped]''\<rparr>"

definition rule_findings :: "Claims \<Rightarrow> int \<Rightarrow> string \<Rightarrow> ReasoningRule \<Rightarrow> bool \<Rightarrow> Finding list" where
  "rule_findings claims order_age order_status rule is_eligible =
     (if claims_refund_approved claims \<and> \<not> is_eligible
      then [eligibility_finding (rr_rule_id rule) ''Response claims refund approved but order is NOT eligible''
              order_age order_status] else []) @
     (if claims_refund_denied claims \<and> is_eligible
      then [eligibility_finding (rr_rule_id rule) ''Response claims refund denied but order IS eligible''
              order_age order_status] else [])"

text \<open>Findings and cited rules. A status that is not text is no argument for \<open>StringVal\<close>.\<close>

definition verify_eligibility_claims ::
    "solver \<Rightarrow> Claims \<Rightarrow> ReasoningPolicy \<Rightarrow> pdict \<Rightarrow> (Finding list \<times> string list, 'z env_scheme) op" where
  "verify_eligibility_claims solve claims policy session_state =
     (if \<not> claims_refund_approved claims \<and> \<not> claims_refund_denied claims then returnE ([], [])
      else bindE (order_age_days session_state) (\<lambda>age.
        let status = get_or session_state ''order_status'' [] in
        case age of
          None \<Rightarrow> returnE ([], [])
        | Some order_age \<Rightarrow>
            if \<not> truthy status then returnE ([], [])
            else case status of
              JStr order_status \<Rightarrow>
                bindE (liftE (category_fact (case dict_get session_state ''is_refundable_category'' of
                    None \<Rightarrow> JBool True | Some v \<Rightarrow> v))) (\<lambda>category.
                returnE (concat (map (\<lambda>r. rule_findings claims order_age order_status r
                      (solve (eligibility_facts order_age order_status category @ [rr_constraint r]) = Z_sat))
                    (eligible_rules policy)),
                  map rr_rule_id (eligible_rules policy)))
            | _ \<Rightarrow> raiseE (TypeError ''StringVal'')))"

definition exceeds_finding :: "string \<Rightarrow> rat \<Rightarrow> rat \<Rightarrow> Finding" where
  "exceeds_finding rule_id amount order_total =
     \<lparr>fi_rule_id = rule_id,
      fi_description = ''Mentioned amount $'' @ fmt2 amount @ '' exceeds order total $'' @ fmt2 order_total,
      fi_severity = ''error'', fi_actual_value = Some (''$'' @ fmt2 amount),
      fi_expected_constraint = Some (''<= $'' @ fmt2 order_total)\<rparr>"

definition amount_facts :: "rat \<Rightarrow> rat \<Rightarrow> zexpr list" where
  "amount_facts order_total amount =
     [ZEq (ZVar ''order_total'') (ZVal (ZR order_total)), ZEq (ZVar ''refund_amount'') (ZVal (ZR amount))]"

text \<open>The rules the solver finds violated are cited unless they are cited already.\<close>

definition cite_violated :: "solver \<Rightarrow> ReasoningPolicy \<Rightarrow> rat \<Rightarrow> rat \<Rightarrow> string list \<Rightarrow> string list" where
  "cite_violated solve policy order_total amount cited = fold
     (\<lambda>r cs. if solve (amount_facts order_total amount @ [ZNot (rr_constraint r)]) = Z_sat \<and> rr_rule_id r \<notin> set cs
             then cs @ [rr_rule_id r] else cs)
     (filter (\<lambda>r. substring ''refund_lte_total'' (rr_rule_id r)) (rp_rules policy)) cited"

definition check_amount :: "solver \<Rightarrow> ReasoningPolicy \<Rightarrow> rat \<Rightarrow> rat \<Rightarrow> Finding list \<times> string list \<Rightarrow> Finding list \<times> string list" where
  "check_amount solve policy order_total amount acc = (case acc of (findings, cited) \<Rightarrow>
     let rule_id = rp_procedure_id policy @ '':universal:refund_lte_total'';
         (findings', cited') =
           (if order_total < amount then (findings @ [exceeds_finding rule_id amount order_total], cited @ [rule_id])
            else (findings, cited)) in
     (findings', cite_violated solve policy order_total amount cited'))"

definition verify_amount_claims ::
    "solver \<Rightarrow> Claims \<Rightarrow> ReasoningPolicy \<Rightarrow> pdict \<Rightarrow> string list \<Rightarrow> Finding list \<times> string list" where
  "verify_amount_claims solve claims policy session_state cited =
     (if mentioned_amounts claims = [] then ([], cited)
      else case get_or_null session_state ''order_total'' of
        JNull \<Rightarrow> ([], cited)
      | v \<Rightarrow> (case float_of v of
            Inl _ \<Rightarrow> ([], cited)
          | Inr order_total \<Rightarrow> fold (check_amount solve policy order_total) (mentioned_amounts claims) ([], cited)))"

definition quoted :: "string \<Rightarrow> string" where
  "quoted s = [CHR 39] @ s @ [CHR 39]"

definition wrong_step_finding :: "string \<Rightarrow> string \<Rightarrow> string \<Rightarrow> string \<Rightarrow> Finding" where
  "wrong_step_finding rule_id description current_step expected =
     \<lparr>fi_rule_id = rule_id, fi_description = description, fi_severity = ''warning'',
      fi_actual_value = Some current_step, fi_expected_constraint = Some expected\<rparr>"

definition verify_step_claims :: "Claims \<Rightarrow> string option \<Rightarrow> Finding list" where
  "verify_step_claims claims step = (case step of
      None \<Rightarrow> []
    | Some current_step \<Rightarrow>
        if current_step = [] then []
        else (if claims_refund_approved claims \<and> current_step \<notin> {''process_refund'', ''cancel_order''}
           then [wrong_step_finding ''step_compliance:refund_at_wrong_step''
             (''Response claims refund approved at step '' @ quoted current_step @
              '', but refunds should only be issued at '' @ quoted ''process_refund'' @ '' or '' @
              quoted ''cancel_order'' @ '' step'') current_step ''process_refund or cancel_order''] else []) @
          (if claims_store_credit claims \<and> current_step \<notin> {''deny_refund_window'', ''offer_store_credit''}
           then [wrong_step_finding ''step_compliance:store_credit_at_wrong_step''
             (''Response mentions store credit at step '' @ quoted current_step @
              '', but store credit should only be offered at '' @ quoted ''deny_refund_window'' @ '' or '' @
              quoted ''offer_store_credit'' @ '' step'') current_step ''deny_refund_window or offer_store_credit'']
           else []))"

definition hint_line :: "Finding \<Rightarrow> string" where
  "hint_line err = (case fi_expected_constraint err of
      Some (c # cs) \<Rightarrow> ''- '' @ fi_description err @ ''. Expected: '' @ c # cs
    | _ \<Rightarrow> ''- '' @ fi_description err)"

definition build_rewrite_hint :: "Finding list \<Rightarrow> string" where
  "build_rewrite_hint errors =
     ''The response contains factual errors that violate verified business rules. '' @
     ''Please correct the following:'' @ [newline] @ join [newline] (map hint_line errors)"

definition with_severity :: "string \<Rightarrow> Finding list \<Rightarrow> Finding list" where
  "with_severity sev fs = filter (\<lambda>f. fi_severity f = sev) fs"

text \<open>The verdict on a list of findings; the two callers differ in the hint and the last explanation.\<close>

definition verdict_on :: "(Finding list \<Rightarrow> string) \<Rightarrow> string \<Rightarrow> Finding list \<Rightarrow> string list \<Rightarrow> VerificationResult" where
  "verdict_on hint valid_text findings cited =
     (let errors = with_severity ''error'' findings; warnings = with_severity ''warning'' findings in
      if errors \<noteq> []
      then \<lparr>vr_verdict = ''INVALID'', vr_findings = findings, vr_cited_rules = cited,
            vr_explanation = ''Found '' @ str_nat (length errors) @ '' error(s): '' @ join ''; '' (map fi_description errors),
            vr_rewrite_hint = Some (hint errors)\<rparr>
      else if warnings \<noteq> []
      then \<lparr>vr_verdict = ''SATISFIABLE'', vr_findings = findings, vr_cited_rules = cited,
            vr_explanation = ''Response is plausible but has '' @ str_nat (length warnings) @ '' warning(s).'',
            vr_rewrite_hint = None\<rparr>
      else \<lparr>vr_verdict = ''VALID'', vr_findings = findings, vr_cited_rules = cited, vr_explanation = valid_text,
            vr_rewrite_hint = None\<rparr>)"

definition verify ::
    "solver \<Rightarrow> string \<Rightarrow> ReasoningPolicy \<Rightarrow> pdict \<Rightarrow> string option \<Rightarrow> (VerificationResult, 'z env_scheme) op" where
  "verify solve response_text policy session_state current_step =
     (if rp_rules policy = []
      then returnE (bare_result ''NOT_APPLICABLE'' ''No reasoning rules available for this procedure.'')
      else bindE (liftE (extract_claims response_text)) (\<lambda>claims.
        if no_claims claims
        then returnE (bare_result ''NOT_APPLICABLE'' ''No verifiable claims found in the response.'')
        else bindE (verify_eligibility_claims solve claims policy session_state) (\<lambda>(eligibility, cited).
          let (amounts, cited') = verify_amount_claims solve claims policy session_state cited in
          returnE (verdict_on build_rewrite_hint ''All claims verified against formal rules.''
            (eligibility @ amounts @ verify_step_claims claims current_step) cited'))))"

end
