(* ===== verification/Compliance.thy ===== *)
theory Compliance
  imports Reasoning
begin

text \<open>
  The compliance rails (\<open>agents/compliance.py\<close>): amounts against the order total, the Regulation E
  checks, the disclosures each step requires and the content no response may have.
\<close>

section \<open>Patterns\<close>

record ComplianceViolation =
  cv_rule_id :: string
  cv_description :: string
  cv_severity :: string
  cv_actual_value :: "string option"
  cv_expected :: "string option"

text \<open>Words separated by \<open>\s+\<close>.\<close>

fun phrase :: "string list \<Rightarrow> regex" where
  "phrase [] = Eps"
| "phrase [w] = lit_i w"
| "phrase (w # v # ws) = Seq (lit_i w) (Seq spaces1 (phrase (v # ws)))"

definition any_word :: "string list \<Rightarrow> regex" where
  "any_word ws = alts (map lit_i ws)"

definition bounded :: "regex \<Rightarrow> regex" where
  "bounded r = seqs [Bound, r, Bound]"

definition plural :: "string list \<Rightarrow> regex" where
  "plural ws = Seq (phrase ws) (opt (lit_i ''s''))"

definition dollar_amount :: regex where
  "dollar_amount = seqs [lit [CHR 36], opt (Chr is_space), Rep True 1 (\<lambda>c. is_digit c \<or> c = CHR 44),
     opt (lit ''.''), Rep True 0 is_digit]"

definition refund_disclosures :: "(string \<times> regex) list" where
  "refund_disclosures =
    [(''timeline_disclosure'', seqs [Bound, Rep True 1 is_digit, Rep True 1 (\<lambda>c. is_space c \<or> c = CHR 45),
        Rep True 0 is_digit, spaces0, opt (seqs [lit_i ''business'', spaces1]), lit_i ''day'', opt (lit_i ''s''), Bound]),
     (''reference_number_disclosure'', seqs [Bound, any_word [''reference'', ''ref'', ''confirmation''], spaces0,
        opt (any_word [''number'', ''#'', ''no'']), Bound])]"

definition dispute_disclosures :: "(string \<times> regex) list" where
  "dispute_disclosures =
    [(''dispute_reference_number'', seqs [Bound, any_word [''dispute'', ''reference'', ''ref'', ''confirmation''], spaces0,
        opt (any_word [''number'', ''#'', ''no'', ''id'']), spaces0, opt (one_of '':.''), spaces0,
        alts [seqs [lit_i ''DISP'', opt (Chr (\<lambda>c. c = CHR 45 \<or> is_space c)), Rep True 1 is_word],
              seqs [Rep True 1 is_word, lit ''-'', Rep True 1 is_word]]]),
     (''investigation_timeline'', bounded (alts [plural [''10'', ''business'', ''day''], phrase [''investigate'', ''within'']])),
     (''provisional_credit_notice'', bounded (seqs [any_word [''provisional'', ''temporary''], spaces1, lit_i ''credit''])),
     (''written_acknowledgment'', bounded (alts
        [seqs [lit_i ''written'', spaces1, any_word [''acknowledgment'', ''confirmation'']], phrase [''1'', ''business'', ''day'']]))]"

definition required_disclosures :: "(string \<times> (string \<times> regex) list) list" where
  "required_disclosures =
    [(''process_refund'', refund_disclosures),
     (''offer_store_credit'', [(''credit_amount_disclosure'', dollar_amount)]),
     (''escalate_case'', [(''case_reference_disclosure'',
        seqs [Bound, any_word [''case'', ''reference'', ''ticket''], spaces0, opt (any_word [''number'', ''#'', ''no'', ''id'']), Bound])]),
     (''file_dispute'', dispute_disclosures),
     (''assess_provisional_credit'', [(''credit_amount_disclosure'', dollar_amount),
        (''credit_condition_disclosure'', bounded (any_word [''unless'', ''until'', ''remain'', ''investigation'']))]),
     (''close_dispute'', [(''dispute_summary'', bounded (any_word [''dispute'', ''filed'', ''reference''])),
        (''next_steps_disclosure'', bounded (alts [plural [''next'', ''step''], lit_i ''investigation'', plural [''result''], lit_i ''monitor'']))]),
     (''deny_late_dispute'',
        [(''timeframe_explanation'', bounded (alts [plural [''60'', ''day''], lit_i ''timeframe'', lit_i ''window'', lit_i ''regulation''])),
         (''alternative_options'', bounded (any_word [''alternative'', ''option'', ''courtesy'', ''escalat'', ''supervisor'']))])]"

definition investment_pattern :: regex where
  "investment_pattern = seqs [Bound, alts [phrase [''you'', ''should''], phrase [''i'', ''recommend'']], spaces1,
     alts [lit_i ''invest'', phrase [''buy'', ''stock''], phrase [''sell'', ''stock'']]]"

definition prohibited_patterns :: "(string \<times> regex \<times> string) list" where
  "prohibited_patterns =
    [(''no_investment_advice'', investment_pattern, ''Response contains investment advice''),
     (''no_legal_advice'', seqs [Bound, lit_i ''you'', spaces1, any_word [''should'', ''could''], spaces1,
        alts [lit_i ''sue'', phrase [''file'', ''a'', ''lawsuit''], phrase [''take'', ''legal'', ''action'']], Bound],
      ''Response contains legal advice''),
     (''no_competitor_referral'', seqs [Bound, alts [lit_i ''try'', lit_i ''use'', phrase [''switch'', ''to'']], spaces1,
        opt (seqs [lit_i ''our'', spaces1]), lit_i ''competitor''], ''Response refers customer to competitor'')]"

definition tier_exposure_pattern :: regex where
  "tier_exposure_pattern = bounded (alts [seqs [lit_i ''tier'', spaces0, one_of ''123''], phrase [''liability'', ''tier''],
     seqs [lit_i ''tier_'', one_of ''123'']])"

definition wrong_timeline_pattern :: regex where
  "wrong_timeline_pattern = bounded (seqs [any_word [''30'', ''60'', ''90''], spaces1, plural [''business'', ''day'']])"

section \<open>Financial checks\<close>

definition money :: "rat \<Rightarrow> string" where
  "money x = [CHR 36] @ fmt2 x"

definition violation :: "string \<Rightarrow> string \<Rightarrow> string \<Rightarrow> string option \<Rightarrow> string option \<Rightarrow> ComplianceViolation" where
  "violation rule_id description severity actual expected = \<lparr>cv_rule_id = rule_id, cv_description = description,
     cv_severity = severity, cv_actual_value = actual, cv_expected = expected\<rparr>"

definition amount_violations :: "rat \<Rightarrow> rat \<Rightarrow> ComplianceViolation list" where
  "amount_violations order_total amount =
     (if order_total < amount
      then [violation ''financial:amount_exceeds_total''
        (''Mentioned amount '' @ money amount @ '' exceeds order total '' @ money order_total) ''error''
        (Some (money amount)) (Some (''<= '' @ money order_total))] else []) @
     (if amount \<le> 0
      then [violation ''financial:non_positive_amount'' (''Mentioned amount '' @ money amount @ '' is not positive'') ''error''
        (Some (money amount)) (Some (''> '' @ money 0))] else [])"

text \<open>An amount that is no number raises out of the check; only the order total is guarded.\<close>

definition check_financial_compliance :: "string \<Rightarrow> pdict \<Rightarrow> exn + ComplianceViolation list" where
  "check_financial_compliance response session_state =
     (if re_findall amount_pattern response = [] then Inr []
      else case get_or_null session_state ''order_total'' of
        JNull \<Rightarrow> Inr []
      | v \<Rightarrow> (case float_of v of
            Inl _ \<Rightarrow> Inr []
          | Inr order_total \<Rightarrow> (case amounts_of response of
                Inl e \<Rightarrow> Inl e
              | Inr amounts \<Rightarrow> Inr (concat (map (amount_violations order_total) amounts)))))"

section \<open>Regulation E checks\<close>

text \<open>\<open>session_state.get(k, {})\<close> used as a dict.\<close>

definition state_dict :: "pdict \<Rightarrow> string \<Rightarrow> json" where
  "state_dict session_state k = (case dict_get session_state k of None \<Rightarrow> JObj [] | Some v \<Rightarrow> v)"

definition as_dict :: "json \<Rightarrow> exn + pdict" where
  "as_dict v = (case v of JObj d \<Rightarrow> Inr d | _ \<Rightarrow> Inl (OtherError ''AttributeError''))"

text \<open>\<open>a or b\<close>\<close>

definition or_else :: "json \<Rightarrow> json \<Rightarrow> json" where
  "or_else a b = (if truthy a then a else b)"

definition credit_exceeds :: "string option \<Rightarrow> rat \<Rightarrow> rat \<Rightarrow> ComplianceViolation list" where
  "credit_exceeds current_step disputed amt =
     (if current_step = Some ''assess_provisional_credit'' \<and> disputed < amt
      then [violation ''reg_e:provisional_credit_exceeds_dispute''
        (''Provisional credit '' @ money amt @ '' exceeds disputed amount '' @ money disputed) ''error''
        (Some (money amt)) (Some (''<= '' @ money disputed))] else [])"

text \<open>The credit on record against the disputed amount less the liability; the tool only records numbers.\<close>

definition credit_check :: "json \<Rightarrow> rat \<Rightarrow> rat \<Rightarrow> exn + ComplianceViolation list" where
  "credit_check prov_credit disputed liability =
     (if \<not> truthy prov_credit then Inr []
      else case as_dict prov_credit of
        Inl e \<Rightarrow> Inl e
      | Inr d \<Rightarrow>
          if \<not> truthy_get d ''provisional_credit_issued'' then Inr []
          else let expected = max 0 (disputed - liability) in
            andThen (case (case dict_get d ''provisional_credit_amount'' of None \<Rightarrow> JInt 0 | Some v \<Rightarrow> v) of
               JInt i \<Rightarrow> Inr (of_int i)
             | JFloat r \<Rightarrow> Inr r
             | _ \<Rightarrow> Inl (TypeError ''Rational'')) (\<lambda>actual.
            Inr (if actual = expected then []
              else [violation ''reg_e:provisional_credit_miscalculated''
                (''Provisional credit '' @ money actual @ '' != disputed '' @ money disputed @ '' - liability '' @
                 money liability @ '' = '' @ money expected) ''error'' (Some (money actual)) (Some (money expected))])))"

definition liability_violations :: "string \<Rightarrow> pdict \<Rightarrow> string option \<Rightarrow> json \<Rightarrow> json \<Rightarrow> exn + ComplianceViolation list" where
  "liability_violations response session_state current_step max_liability disputed_amount =
     (if max_liability = JNull \<or> disputed_amount = JNull then Inr []
      else case (float_of max_liability, float_of disputed_amount) of
        (Inr liability, Inr disputed) \<Rightarrow>
          andThen (amounts_of response) (\<lambda>amounts.
          andThen (credit_check (state_dict session_state ''provisional_credit'') disputed liability) (\<lambda>credit.
          Inr (concat (map (credit_exceeds current_step disputed) amounts) @ credit)))
      | _ \<Rightarrow> Inr [])"

definition exposure_violations :: "string \<Rightarrow> string option \<Rightarrow> ComplianceViolation list" where
  "exposure_violations response current_step =
     (if re_search tier_exposure_pattern response
      then [violation ''reg_e:internal_tier_exposed'' ''Response exposes internal liability tier system to customer''
        ''error'' None None] else []) @
     (if current_step \<in> {Some ''file_dispute'', Some ''close_dispute''} \<and> re_search wrong_timeline_pattern response
      then [violation ''reg_e:incorrect_timeline_units''
        (''Investigation timeline uses wrong units. '' @
         ''10 business days for initial; 45/90 calendar days for final.'') ''warning'' None None] else [])"

definition check_reg_e_compliance :: "string \<Rightarrow> pdict \<Rightarrow> string option \<Rightarrow> exn + ComplianceViolation list" where
  "check_reg_e_compliance response session_state current_step =
     (let dispute_data = state_dict session_state ''dispute_data''; eligibility = state_dict session_state ''dispute_eligibility'' in
      if \<not> truthy dispute_data \<and> \<not> truthy eligibility then Inr []
      else andThen (as_dict eligibility) (\<lambda>el. andThen (as_dict dispute_data) (\<lambda>dd.
        andThen (liability_violations response session_state current_step
            (or_else (get_or_null el ''max_liability'') (get_or_null dd ''max_liability'')) (get_or_null dd ''amount''))
          (\<lambda>liability. Inr (liability @ exposure_violations response current_step)))))"

section \<open>Procedure checks\<close>

definition missing_disclosures :: "string \<Rightarrow> string \<Rightarrow> ComplianceViolation list" where
  "missing_disclosures response current_step = (case dict_get required_disclosures current_step of
      None \<Rightarrow> []
    | Some ds \<Rightarrow> map (\<lambda>(d, _). violation (''disclosure:'' @ d)
        (''Required disclosure '' @ quoted d @ '' missing at step '' @ quoted current_step) ''warning'' None
        (Some (''Disclosure pattern: '' @ d))) (filter (\<lambda>(_, pattern). \<not> re_search pattern response) ds))"

definition check_procedure_compliance :: "string \<Rightarrow> string option \<Rightarrow> ComplianceViolation list" where
  "check_procedure_compliance response current_step =
     (case current_step of None \<Rightarrow> [] | Some step \<Rightarrow> if step = [] then [] else missing_disclosures response step) @
     map (\<lambda>(rule_id, _, desc). violation (''prohibited:'' @ rule_id) desc ''error'' None None)
       (filter (\<lambda>(_, pattern, _). re_search pattern response) prohibited_patterns)"

definition check_all :: "string \<Rightarrow> pdict \<Rightarrow> string option \<Rightarrow> string option \<Rightarrow> exn + ComplianceViolation list" where
  "check_all response session_state current_step procedure_id =
     andThen (check_financial_compliance response session_state) (\<lambda>financial.
     andThen (if procedure_id = Some ''cs_eft_dispute'' \<or> truthy_get session_state ''dispute_data'' \<or>
               truthy_get session_state ''dispute_eligibility''
            then check_reg_e_compliance response session_state current_step else Inr []) (\<lambda>reg_e.
     Inr (financial @ check_procedure_compliance response current_step @ reg_e)))"

end
