(* ===== verification/Guardrails.thy ===== *)
theory Guardrails
  imports Compliance Executor
begin

text \<open>
  The guardrail pipeline (\<open>agents/guardrails.py\<close>): pattern rails with redaction, validation of tool
  arguments, and the steering loop that verifies a response, asks for a rewrite and falls back to a
  safe answer. The callback that regenerates a response and the audit logger are arguments.
\<close>

section \<open>Pattern rails\<close>

record GuardrailViolation =
  gv_rule :: string
  gv_description :: string
  gv_severity :: string

type_synonym rail = "regex \<times> string \<times> string"

definition id_label :: "string \<Rightarrow> regex" where
  "id_label w = seqs [Bound, lit_i w, opt (one_of ''_ ''), lit_i ''id'', Bound, Rep False 0 is_dot, lit '':'']"

definition internal_data_patterns :: "rail list" where
  "internal_data_patterns =
    [(id_label ''step'', ''internal_step_id'', ''Agent is exposing internal step IDs''),
     (id_label ''procedure'', ''internal_procedure_id'', ''Agent is exposing internal procedure IDs''),
     (bounded (any_word [''sql'', ''query'', ''database'', ''db_path'', ''sqlite'']), ''internal_db_reference'',
      ''Agent is referencing internal database details''),
     (bounded (lit_i ''tool_context''), ''internal_tool_context'', ''Agent is referencing internal tool context''),
     (seqs [Bound, lit_i ''session'', opt (one_of ''_ ''), lit_i ''state'', Bound], ''internal_session_state'',
      ''Agent is referencing session state internals''),
     (bounded (any_word [''api_key'', ''secret_key'', ''password'', ''credential'']), ''sensitive_credential'',
      ''Agent is mentioning credentials'')]"

definition unauthorized_promise_patterns :: "rail list" where
  "unauthorized_promise_patterns =
    [(seqs [Bound, lit_i ''i'', spaces1, any_word [''guarantee'', ''promise'', ''assure''], spaces1, any_word [''you'', ''that'']],
      ''unauthorized_promise'', ''Agent is making unauthorized guarantees''),
     (seqs [Bound, lit ''100%'', spaces1, any_word [''guaranteed'', ''certain'', ''sure''], Bound],
      ''false_certainty'', ''Agent is expressing false certainty'')]"

definition compliance_patterns :: "rail list" where
  "compliance_patterns =
    [(bounded (seqs [any_word [''legal'', ''financial''], spaces1, lit_i ''advice'']), ''unauthorized_advice'',
      ''Agent may be providing unauthorized financial/legal advice''),
     (investment_pattern, ''investment_advice'', ''Agent is providing investment advice'')]"

definition rail_violations :: "rail list \<Rightarrow> string \<Rightarrow> string \<Rightarrow> GuardrailViolation list" where
  "rail_violations rails severity response =
     map (\<lambda>(_, rule, desc). \<lparr>gv_rule = rule, gv_description = desc, gv_severity = severity\<rparr>)
       (filter (\<lambda>(pattern, _, _). re_search pattern response) rails)"

definition check_response :: "string \<Rightarrow> GuardrailViolation list" where
  "check_response response =
     rail_violations internal_data_patterns ''redact'' response @
     rail_violations unauthorized_promise_patterns ''warning'' response @
     rail_violations compliance_patterns ''warning'' response"

definition redacted :: string where
  "redacted = ''[REDACTED]''"

text \<open>The rails whose rule a violation names, applied in order.\<close>

definition redact :: "GuardrailViolation \<Rightarrow> string \<Rightarrow> string" where
  "redact v filtered = (if gv_severity v = ''redact''
     then fold (\<lambda>(pattern, rule, _) t. if rule = gv_rule v then re_sub pattern redacted t else t)
       internal_data_patterns filtered
     else filtered)"

definition filter_response :: "string \<Rightarrow> string \<times> GuardrailViolation list" where
  "filter_response response = (let violations = check_response response in (fold redact violations response, violations))"

section \<open>Tool arguments\<close>

definition blocked :: "string \<Rightarrow> string \<Rightarrow> GuardrailViolation" where
  "blocked rule description = \<lparr>gv_rule = rule, gv_description = description, gv_severity = ''block''\<rparr>"

definition negative_amount :: "(json \<Rightarrow> string) \<Rightarrow> string \<Rightarrow> pdict \<Rightarrow> string \<Rightarrow> GuardrailViolation list" where
  "negative_amount render tool_name args field = (case get_or_null args field of
      JNull \<Rightarrow> []
    | v \<Rightarrow> (case float_of v of
          Inr val \<Rightarrow> if val < 0 then [blocked ''negative_amount''
            (''Tool '' @ quoted tool_name @ '' received negative '' @ field @ '': '' @ py_str render (JFloat val))] else []
        | Inl _ \<Rightarrow> []))"

definition id_pattern :: "string \<Rightarrow> regex" where
  "id_pattern p = seqs [AtStart, lit p, Rep True 1 is_digit, AtEnd]"

definition id_patterns :: "(string \<times> regex) list" where
  "id_patterns = [(''order_id'', id_pattern ''ORD-''), (''customer_id'', id_pattern ''CUST-''),
     (''alert_id'', id_pattern ''FA-''), (''account_id'', id_pattern ''ACCT-'')]"

text \<open>\<open>re.match\<close> of a value that is not text raises.\<close>

definition malformed_id :: "string \<Rightarrow> pdict \<Rightarrow> string \<times> regex \<Rightarrow> exn + GuardrailViolation list" where
  "malformed_id tool_name args fp = (case fp of (field, pattern) \<Rightarrow>
     if \<not> truthy_get args field then Inr []
     else case get_or_null args field of
       JStr v \<Rightarrow> Inr (if re_match pattern v then []
         else [\<lparr>gv_rule = ''invalid_'' @ field @ ''_format'',
                gv_description = ''Tool '' @ quoted tool_name @ '' received malformed '' @ field @ '': '' @ v,
                gv_severity = ''warning''\<rparr>])
     | _ \<Rightarrow> Inl (TypeError ''expected string''))"

definition max_lengths :: "(string \<times> nat) list" where
  "max_lengths = [(''reason'', 1000), (''notes'', 2000), (''note'', 2000), (''findings'', 5000), (''query'', 500)]"

definition too_long :: "string \<Rightarrow> pdict \<Rightarrow> string \<times> nat \<Rightarrow> GuardrailViolation list" where
  "too_long tool_name args fm = (case fm of (field, max_len) \<Rightarrow> (case get_or_null args field of
      JStr v \<Rightarrow> if max_len < length v then [blocked ''input_too_long''
          (''Tool '' @ quoted tool_name @ '' field '' @ quoted field @ '' exceeds max length ('' @
           str_nat (length v) @ '' > '' @ str_nat max_len @ '')'')] else []
    | _ \<Rightarrow> []))"

definition validate_tool_args :: "(json \<Rightarrow> string) \<Rightarrow> string \<Rightarrow> pdict \<Rightarrow> exn + GuardrailViolation list" where
  "validate_tool_args render tool_name args =
     andThen (collect (malformed_id tool_name args) id_patterns) (\<lambda>ids.
     Inr (concat (map (negative_amount render tool_name args) [''amount'', ''total'']) @ concat ids @
          concat (map (too_long tool_name args) max_lengths)))"

text \<open>\<open>ProcedureExecutor.validate_step_tools\<close>: an empty list of allowed tools permits every tool.\<close>

definition validate_step_tools ::
    "(json \<Rightarrow> string) \<Rightarrow> ProcedureExecutor \<Rightarrow> string \<Rightarrow> string \<Rightarrow> pdict \<Rightarrow> exn + GuardrailViolation list" where
  "validate_step_tools render ex sid tool_name args =
     andThen (validate_tool_args render tool_name args) (\<lambda>violations.
     let allowed = get_allowed_tools ex in
     Inr (violations @ (if allowed \<noteq> [] \<and> tool_name \<notin> set allowed
       then [blocked ''tool_not_allowed_for_step''
         (''Tool '' @ quoted tool_name @ '' is not permitted at step '' @ quoted sid @ ''. Allowed tools: '' @
          py_str render (JList (map JStr allowed)))] else [])))"

section \<open>Verification of a response\<close>

record rails_settings =
  reasoning_enabled :: bool
  reasoning_max_iterations :: int
  compliance_enabled :: bool

definition finding_of :: "ComplianceViolation \<Rightarrow> Finding" where
  "finding_of cv = \<lparr>fi_rule_id = cv_rule_id cv, fi_description = cv_description cv, fi_severity = cv_severity cv,
     fi_actual_value = cv_actual_value cv, fi_expected_constraint = cv_expected cv\<rparr>"

definition build_combined_rewrite_hint :: "Finding list \<Rightarrow> string" where
  "build_combined_rewrite_hint errors = join [newline] (map hint_line errors)"

definition run_verification ::
    "solver \<Rightarrow> rails_settings \<Rightarrow> string \<Rightarrow> pdict \<Rightarrow> string option \<Rightarrow> string option \<Rightarrow> ReasoningPolicy option \<Rightarrow>
       (VerificationResult, 'z env_scheme) op" where
  "run_verification solve cfg response session procedure_id current_step policy =
     bindE (case policy of
         None \<Rightarrow> returnE ([], [])
       | Some p \<Rightarrow> bindE (verify solve response p session current_step) (\<lambda>r.
           returnE (vr_findings r, vr_cited_rules r))) (\<lambda>(reasoning, cited).
     bindE (if compliance_enabled cfg then liftE (check_all response session current_step procedure_id)
            else returnE []) (\<lambda>cvs.
     let findings = reasoning @ map finding_of cvs; cited' = cited @ map cv_rule_id cvs in
     returnE (if findings = [] then bare_result ''NOT_APPLICABLE'' ''No verifiable claims or applicable rules.''
       else verdict_on build_combined_rewrite_hint ''All claims verified.'' findings cited')))"

section \<open>Steering\<close>

definition safe_fallback :: string where
  "safe_fallback =
     ''I apologize, but I'' @ [CHR 39] @ ''m unable to provide accurate information about your '' @
     ''request at this time. Let me connect you with a specialist who can help. '' @
     ''Please hold while I transfer your case.''"

definition fact_keys :: "string list" where
  "fact_keys = [''order_id'', ''order_total'', ''order_date'', ''order_status'', ''customer_id'', ''customer_name'',
     ''refund_amount'', ''current_step'', ''current_procedure'']"

definition extract_session_facts :: "(json \<Rightarrow> string) \<Rightarrow> pdict \<Rightarrow> string" where
  "extract_session_facts render session =
     (let facts = map (\<lambda>k. k @ ''='' @ py_str render (get_or_null session k))
        (filter (\<lambda>k. get_or_null session k \<noteq> JNull) fact_keys) in
      if facts \<noteq> [] then join '', '' facts else ''no session facts available'')"

definition or_unknown :: "string option \<Rightarrow> string" where
  "or_unknown x = (case x of Some (c # cs) \<Rightarrow> c # cs | _ \<Rightarrow> ''unknown'')"

definition rewrite_prompt ::
    "(json \<Rightarrow> string) \<Rightarrow> pdict \<Rightarrow> string option \<Rightarrow> string option \<Rightarrow> VerificationResult \<Rightarrow> string \<Rightarrow> string" where
  "rewrite_prompt render session procedure_id current_step v hint = join [newline]
    [''The previous response was found to contain errors by our automated verification system.'', [],
     ''Verification verdict: '' @ vr_verdict v, ''Explanation: '' @ vr_explanation v, [],
     ''Specific issues:'', hint, [],
     ''Original customer question context: The customer is in a '' @ or_unknown procedure_id @
       '' workflow at step '' @ quoted (or_unknown current_step) @ ''.'',
     ''Session facts: '' @ extract_session_facts render session, [],
     ''Please generate a corrected response that:'',
     ''1. Addresses the customer'' @ [CHR 39] @ ''s needs accurately'',
     ''2. Does NOT violate the rules cited above'',
     ''3. Uses the actual order/session data provided'', []]"

text \<open>What the loop reads: the request, the callbacks, the settings, the policy.\<close>

record 'z steering =
  sg_session :: pdict
  sg_procedure_id :: "string option"
  sg_step :: "string option"
  sg_policy :: "ReasoningPolicy option"
  sg_generate :: "(string \<Rightarrow> (string, 'z env_scheme) op) option"
  sg_audit :: "AuditEntry \<Rightarrow> (string, 'z env_scheme) op"
  sg_cfg :: rails_settings
  sg_solve :: solver
  sg_render :: "json \<Rightarrow> string"
  sg_max_iterations :: int

definition text_opt :: "json \<Rightarrow> string option" where
  "text_opt j = (case j of JStr s \<Rightarrow> Some s | _ \<Rightarrow> None)"

definition rails_entry :: "'z steering \<Rightarrow> AuditAction \<Rightarrow> pdict \<Rightarrow> AuditEntry" where
  "rails_entry sg action metadata =
     \<lparr>ae_entry_id = [], ae_timestamp = 0, ae_correlation_id = None, ae_action = action, ae_actor = ''guardrails'',
      ae_resource_type = ''response'', ae_resource_id = or_unknown (sg_procedure_id sg),
      ae_session_id = text_opt (get_or_null (sg_session sg) ''_session_id''), ae_procedure_id = sg_procedure_id sg,
      ae_step_id = sg_step sg, ae_before_state = None, ae_after_state = None, ae_metadata = metadata\<rparr>"

definition rails_audit :: "'z steering \<Rightarrow> AuditAction \<Rightarrow> pdict \<Rightarrow> (unit, 'z env_scheme) op" where
  "rails_audit sg action metadata = bindE (sg_audit sg (rails_entry sg action metadata)) (\<lambda>_. returnE ())"

definition cited_json :: "VerificationResult \<Rightarrow> json" where
  "cited_json v = JList (map JStr (vr_cited_rules v))"

definition verified_metadata :: "VerificationResult \<Rightarrow> int \<Rightarrow> pdict" where
  "verified_metadata v i = [(''verdict'', JStr (vr_verdict v)), (''cited_rules'', cited_json v), (''iteration'', JInt i)]"

definition violation_metadata :: "VerificationResult \<Rightarrow> int \<Rightarrow> pdict" where
  "violation_metadata v i = [(''verdict'', JStr (vr_verdict v)), (''explanation'', JStr (vr_explanation v)),
     (''findings_count'', JInt (int (length (vr_findings v)))), (''cited_rules'', cited_json v), (''iteration'', JInt i)]"

definition has_errors :: "VerificationResult \<Rightarrow> bool" where
  "has_errors v \<longleftrightarrow> vr_verdict v = ''INVALID'' \<and> list_ex (\<lambda>f. fi_severity f = ''error'') (vr_findings v)"

type_synonym steer_result = "string \<times> GuardrailViolation list \<times> VerificationResult option"

text \<open>
  One rewrite: the callback raised, or the text was replaced and the logger raised (both end the
  loop), or the text was replaced and the attempt logged.
\<close>

datatype rewrite_outcome =
    RewriteFailed
  | RewriteUnlogged string "GuardrailViolation list"
  | Rewritten string "GuardrailViolation list"

definition try_rewrite ::
    "'z steering \<Rightarrow> (string \<Rightarrow> (string, 'z env_scheme) op) \<Rightarrow> VerificationResult \<Rightarrow> string \<Rightarrow> int \<Rightarrow>
       GuardrailViolation list \<Rightarrow> (rewrite_outcome, 'z env_scheme) op" where
  "try_rewrite sg generate v hint i violations =
     catchE (bindE (generate (rewrite_prompt (sg_render sg) (sg_session sg) (sg_procedure_id sg) (sg_step sg) v hint)) (\<lambda>raw.
       let (new_text, new_violations) = filter_response raw in
       catchE (bindE (rails_audit sg REASONING_REWRITE [(''iteration'', JInt (i + 1))]) (\<lambda>_.
           returnE (Rewritten new_text (violations @ new_violations))))
         (\<lambda>_. returnE (RewriteUnlogged new_text (violations @ new_violations)))))
       (\<lambda>_. returnE RewriteFailed)"

text \<open>\<open>for iteration in range(max_iterations + 1)\<close>, from iteration \<open>i\<close> on.\<close>

function steer_loop ::
    "'z steering \<Rightarrow> int \<Rightarrow> string \<Rightarrow> GuardrailViolation list \<Rightarrow> VerificationResult option \<Rightarrow> (steer_result, 'z env_scheme) op" where
  "steer_loop sg i response violations last_v =
     (if sg_max_iterations sg < i then returnE (response, violations, last_v)
      else bindE (run_verification (sg_solve sg) (sg_cfg sg) response (sg_session sg) (sg_procedure_id sg) (sg_step sg) (sg_policy sg)) (\<lambda>v.
        if is_valid v then bindE (rails_audit sg REASONING_VERIFIED (verified_metadata v i)) (\<lambda>_. returnE (response, violations, Some v))
        else if vr_verdict v = ''NOT_APPLICABLE'' then returnE (response, violations, Some v)
        else bindE (rails_audit sg REASONING_VIOLATION (violation_metadata v i)) (\<lambda>_.
          case (sg_generate sg, vr_rewrite_hint v) of
            (Some generate, Some (c # cs)) \<Rightarrow>
              if i < sg_max_iterations sg
              then bindE (try_rewrite sg generate v (c # cs) i violations) (\<lambda>r.
                case r of
                  RewriteFailed \<Rightarrow> returnE (response, violations, Some v)
                | RewriteUnlogged response' violations' \<Rightarrow> returnE (response', violations', Some v)
                | Rewritten response' violations' \<Rightarrow> steer_loop sg (i + 1) response' violations' (Some v))
              else returnE (response, violations, Some v)
          | _ \<Rightarrow> returnE (response, violations, Some v))))"
  by pat_completeness auto
termination
  by (relation "measure (\<lambda>(sg, i, response, violations, last_v). nat (sg_max_iterations sg + 1 - i))") auto

declare steer_loop.simps [simp del]

definition steer_finish :: "steer_result \<Rightarrow> steer_result" where
  "steer_finish r = (case r of (response, violations, last_v) \<Rightarrow>
     (case last_v of
        Some v \<Rightarrow> if has_errors v then (safe_fallback, violations, last_v) else r
      | None \<Rightarrow> r))"

text \<open>\<open>if procedure_def: policy = build_policy_from_procedure(procedure_def)\<close>\<close>

definition steering_policy :: "(json \<Rightarrow> string) \<Rightarrow> pdict option \<Rightarrow> exn + ReasoningPolicy option" where
  "steering_policy render procedure_def = (case procedure_def of
      Some (kv # kvs) \<Rightarrow> map_sum id Some (build_policy_from_procedure render (kv # kvs))
    | _ \<Rightarrow> Inr None)"

definition iteration_limit :: "rails_settings \<Rightarrow> int option \<Rightarrow> int" where
  "iteration_limit cfg max_iterations = (case max_iterations of None \<Rightarrow> reasoning_max_iterations cfg | Some m \<Rightarrow> m)"

definition steer_response ::
    "rails_settings \<Rightarrow> solver \<Rightarrow> (json \<Rightarrow> string) \<Rightarrow> (AuditEntry \<Rightarrow> (string, 'z env_scheme) op) \<Rightarrow> string \<Rightarrow> pdict \<Rightarrow>
       string option \<Rightarrow> string option \<Rightarrow> pdict option \<Rightarrow> (string \<Rightarrow> (string, 'z env_scheme) op) option \<Rightarrow> int option \<Rightarrow>
       (steer_result, 'z env_scheme) op" where
  "steer_response cfg solve render audit response session procedure_id current_step procedure_def generate_fn max_iterations =
     (let (filtered, violations) = filter_response response in
      if \<not> reasoning_enabled cfg then returnE (filtered, violations, None)
      else bindE (liftE (steering_policy render procedure_def)) (\<lambda>policy.
        bindE (steer_loop \<lparr>sg_session = session, sg_procedure_id = procedure_id, sg_step = current_step,
            sg_policy = policy, sg_generate = generate_fn, sg_audit = audit, sg_cfg = cfg, sg_solve = solve,
            sg_render = render,
            sg_max_iterations = iteration_limit cfg max_iterations\<rparr>
            0 filtered violations None) (\<lambda>r. returnE (steer_finish r))))"

end
