(* ===== verification/Reasoning_Laws.thy ===== *)
theory Reasoning_Laws
  imports Reasoning Decisions
begin

text \<open>
  The meaning of the constraints the reasoning rails build, and what the eligibility check computes
  with a sound solver: the evaluation of each rule on the facts of the session. A solver that
  evaluates grounded constraints shows that the assumptions on the solver can be met.
\<close>

section \<open>Meaning of constraints\<close>

type_synonym assignment = "string \<Rightarrow> zval"

fun zval_num :: "zval \<Rightarrow> rat option" where
  "zval_num (ZI i) = Some (of_int i)"
| "zval_num (ZR r) = Some r"
| "zval_num _ = None"

fun term_val :: "assignment \<Rightarrow> zterm \<Rightarrow> zval" where
  "term_val \<sigma> (ZVar x) = \<sigma> x"
| "term_val \<sigma> (ZVal v) = v"

definition num_rel :: "(rat \<Rightarrow> rat \<Rightarrow> bool) \<Rightarrow> zval \<Rightarrow> zval \<Rightarrow> bool" where
  "num_rel R v w = (case (zval_num v, zval_num w) of (Some x, Some y) \<Rightarrow> R x y | _ \<Rightarrow> False)"

fun holds :: "assignment \<Rightarrow> zexpr \<Rightarrow> bool" where
  "holds \<sigma> (ZLe a b) = num_rel (\<le>) (term_val \<sigma> a) (term_val \<sigma> b)"
| "holds \<sigma> (ZGt a b) = num_rel (>) (term_val \<sigma> a) (term_val \<sigma> b)"
| "holds \<sigma> (ZEq a b) = (term_val \<sigma> a = term_val \<sigma> b)"
| "holds \<sigma> (ZIs a) = (term_val \<sigma> a = ZB True)"
| "holds \<sigma> (ZAnd es) = list_all (holds \<sigma>) es"
| "holds \<sigma> (ZOr es) = list_ex (holds \<sigma>) es"
| "holds \<sigma> (ZNot e) = (\<not> holds \<sigma> e)"

fun term_vars :: "zterm \<Rightarrow> string list" where
  "term_vars (ZVar x) = [x]"
| "term_vars (ZVal v) = []"

fun zvars :: "zexpr \<Rightarrow> string list" where
  "zvars (ZLe a b) = term_vars a @ term_vars b"
| "zvars (ZGt a b) = term_vars a @ term_vars b"
| "zvars (ZEq a b) = term_vars a @ term_vars b"
| "zvars (ZIs a) = term_vars a"
| "zvars (ZAnd es) = concat (map zvars es)"
| "zvars (ZOr es) = concat (map zvars es)"
| "zvars (ZNot e) = zvars e"

text \<open>A constraint depends on its variables only.\<close>

lemma term_val_agree: "(\<And>x. x \<in> set (term_vars a) \<Longrightarrow> \<sigma> x = \<tau> x) \<Longrightarrow> term_val \<sigma> a = term_val \<tau> a"
  by (cases a) auto

lemma holds_agree: "(\<And>x. x \<in> set (zvars e) \<Longrightarrow> \<sigma> x = \<tau> x) \<Longrightarrow> holds \<sigma> e \<longleftrightarrow> holds \<tau> e"
proof (induction e)
  case (ZLe a b)
  then show ?case using term_val_agree [of a \<sigma> \<tau>] term_val_agree [of b \<sigma> \<tau>] by simp
next
  case (ZGt a b)
  then show ?case using term_val_agree [of a \<sigma> \<tau>] term_val_agree [of b \<sigma> \<tau>] by simp
next
  case (ZEq a b)
  then show ?case using term_val_agree [of a \<sigma> \<tau>] term_val_agree [of b \<sigma> \<tau>] by simp
next
  case (ZIs a)
  then show ?case using term_val_agree [of a \<sigma> \<tau>] by simp
next
  case (ZAnd es)
  have "holds \<sigma> e \<longleftrightarrow> holds \<tau> e" if "e \<in> set es" for e
    by (rule ZAnd.IH [OF that]) (use ZAnd.prems that in auto)
  then show ?case by (simp add: list_all_iff)
next
  case (ZOr es)
  have "holds \<sigma> e \<longleftrightarrow> holds \<tau> e" if "e \<in> set es" for e
    by (rule ZOr.IH [OF that]) (use ZOr.prems that in auto)
  then show ?case by (simp add: list_ex_iff)
qed simp

section \<open>Solvers\<close>

fun of_sort :: "zsort \<Rightarrow> zval \<Rightarrow> bool" where
  "of_sort SInt (ZI _) = True"
| "of_sort SReal (ZR _) = True"
| "of_sort SString (ZS _) = True"
| "of_sort SBool (ZB _) = True"
| "of_sort _ _ = False"

definition well_sorted :: "assignment \<Rightarrow> bool" where
  "well_sorted \<sigma> \<longleftrightarrow> list_all (\<lambda>(x, s). of_sort s (\<sigma> x)) policy_variables"

definition satisfiable :: "zexpr list \<Rightarrow> bool" where
  "satisfiable es \<longleftrightarrow> (\<exists>\<sigma>. well_sorted \<sigma> \<and> list_all (holds \<sigma>) es)"

text \<open>What an SMT solver documents: its answers are right; it may give up.\<close>

definition sound_solver :: "solver \<Rightarrow> bool" where
  "sound_solver solve \<longleftrightarrow> (\<forall>es. (solve es = Z_sat \<longrightarrow> satisfiable es) \<and> (solve es = Z_unsat \<longrightarrow> \<not> satisfiable es))"

text \<open>The reference solver: read the equations for variables, evaluate the rest.\<close>

definition equations :: "zexpr list \<Rightarrow> (string \<times> zval) list" where
  "equations es = concat (map (\<lambda>e. case e of ZEq (ZVar x) (ZVal v) \<Rightarrow> [(x, v)] | _ \<Rightarrow> []) es)"

definition sort_default :: "zsort \<Rightarrow> zval" where
  "sort_default s = (case s of SInt \<Rightarrow> ZI 0 | SReal \<Rightarrow> ZR 0 | SString \<Rightarrow> ZS [] | SBool \<Rightarrow> ZB False)"

definition ground_assignment :: "zexpr list \<Rightarrow> assignment" where
  "ground_assignment es x = (case map_of (equations es) x of
      Some v \<Rightarrow> v
    | None \<Rightarrow> (case map_of policy_variables x of Some s \<Rightarrow> sort_default s | None \<Rightarrow> ZB False))"

definition ground_solve :: solver where
  "ground_solve es = (let \<sigma> = ground_assignment es in
     if list_all (\<lambda>(x, s). of_sort s (\<sigma> x)) policy_variables \<and> list_all (holds \<sigma>) es then Z_sat
     else if list_all (\<lambda>x. x \<in> set (map fst (equations es))) (concat (map zvars es)) then Z_unsat
     else Z_unknown)"

lemma equations_hold:
  assumes "list_all (holds \<tau>) es" and "(x, v) \<in> set (equations es)"
  shows "\<tau> x = v"
  using assms by (auto simp: equations_def list_all_iff split: zexpr.splits zterm.splits)

lemma ground_solve_sound: "sound_solver ground_solve"
proof -
  have "satisfiable es" if "ground_solve es = Z_sat" for es
    using that by (auto simp: ground_solve_def Let_def satisfiable_def well_sorted_def split: if_splits)
  moreover have False if g: "ground_solve es = Z_unsat" and s: "satisfiable es" for es
  proof -
    let ?\<sigma> = "ground_assignment es"
    from g have grounded: "\<And>x e. e \<in> set es \<Longrightarrow> x \<in> set (zvars e) \<Longrightarrow> x \<in> fst ` set (equations es)"
      by (auto simp: ground_solve_def Let_def list_all_iff split: if_splits)
    from s obtain \<tau> where \<tau>: "well_sorted \<tau>" "list_all (holds \<tau>) es" by (auto simp: satisfiable_def)
    have agree: "?\<sigma> x = \<tau> x" if "x \<in> fst ` set (equations es)" for x
    proof -
      from that obtain v where v: "map_of (equations es) x = Some v"
        using map_of_eq_None_iff [of "equations es" x] by (cases "map_of (equations es) x") auto
      then show ?thesis using equations_hold [OF \<tau>(2) map_of_SomeD [OF v]] by (simp add: ground_assignment_def)
    qed
    have "list_all (holds ?\<sigma>) es"
      using \<tau>(2) holds_agree [of _ ?\<sigma> \<tau>] agree grounded by (fastforce simp: list_all_iff)
    moreover
    have "of_sort s (?\<sigma> x)" if "(x, s) \<in> set policy_variables" for x s
    proof (cases "x \<in> fst ` set (equations es)")
      case True
      with agree that \<tau>(1) show ?thesis by (auto simp: well_sorted_def list_all_iff)
    next
      case False
      then have "map_of (equations es) x = None" by (simp add: map_of_eq_None_iff)
      moreover have "map_of policy_variables x = Some s" using that by (rule map_of_is_SomeI [rotated]) code_simp
      moreover have "of_sort s (sort_default s)" by (cases s) (simp_all add: sort_default_def)
      ultimately show ?thesis by (simp add: ground_assignment_def)
    qed
    then have "list_all (\<lambda>(x, s). of_sort s (?\<sigma> x)) policy_variables" by (auto simp: list_all_iff)
    ultimately have "ground_solve es = Z_sat" unfolding ground_solve_def Let_def by simp
    with g show False by simp
  qed
  ultimately show ?thesis unfolding sound_solver_def by blast
qed

section \<open>The eligibility check\<close>

definition session_assignment :: "int \<Rightarrow> string \<Rightarrow> bool \<Rightarrow> assignment" where
  "session_assignment age status refundable x =
     (if x = ''order_age_days'' then ZI age else if x = ''order_status'' then ZS status
      else if x = ''is_refundable_category'' then ZB refundable else ZR 0)"

abbreviation eligibility_names :: "string set" where
  "eligibility_names \<equiv> {''order_age_days'', ''order_status'', ''is_refundable_category''}"

lemma parse_condition_vars: "parse_condition_to_z3 t n = Some c \<Longrightarrow> set (zvars c) \<subseteq> eligibility_names"
  by (auto simp: parse_condition_to_z3_def Let_def status_is_def split: if_splits)

lemma collect_source: "collect f xs = Inr ys \<Longrightarrow> y \<in> set ys \<Longrightarrow> \<exists>x \<in> set xs. f x = Inr y"
  by (induction xs arbitrary: ys) (auto split: sum.splits)

lemma condition_rule_parsed:
  assumes "condition_rule render pid sid (i, cond) = Inr rs" and "r \<in> set rs"
  shows "\<exists>t n. parse_condition_to_z3 t n = Some (rr_constraint r)"
proof (cases "get_or cond ''if'' []")
  case (JStr t)
  with assms have "parse_condition_to_z3 t (get_or cond ''next_step'' []) = Some (rr_constraint r)"
    by (cases "parse_condition_to_z3 t (get_or cond ''next_step'' [])") (auto simp: condition_rule_def Let_def)
  then show ?thesis by blast
qed (use assms in \<open>simp_all add: condition_rule_def\<close>)

lemma eligible_rule_vars:
  assumes "build_policy_from_procedure render procedure = Inr policy" and "r \<in> set (eligible_rules policy)"
  shows "set (zvars (rr_constraint r)) \<subseteq> eligibility_names"
proof -
  let ?pid = "py_str render (get_or procedure ''id'' ''unknown'')"
  from assms(1) obtain steps rules where rules: "collect (step_rules render ?pid) steps = Inr rules"
    and p: "rp_rules policy = concat rules @ add_universal_rules ?pid"
    by (auto simp: build_policy_from_procedure_def Let_def andThen_Inr)
  from assms(2) p have "r \<in> set (concat rules)"
    by (auto simp: eligible_rules_def add_universal_rules_def)
  then obtain rs where "rs \<in> set rules" "r \<in> set rs" by auto
  with collect_source [OF rules] obtain step where "step_rules render ?pid step = Inr rs" "r \<in> set rs" by blast
  then obtain conds rss where c: "collect (condition_rule render ?pid (py_str render (get_or step ''id'' []))) conds = Inr rss"
    and "r \<in> set (concat rss)"
    by (auto simp: step_rules_def andThen_Inr)
  then obtain rs' where m: "rs' \<in> set rss" "r \<in> set rs'" by auto
  from collect_source [OF c m(1)] obtain ic where
    "condition_rule render ?pid (py_str render (get_or step ''id'' [])) ic = Inr rs'" by blast
  then have "condition_rule render ?pid (py_str render (get_or step ''id'' [])) (fst ic, snd ic) = Inr rs'" by simp
  from condition_rule_parsed [OF this m(2)] show ?thesis by (blast dest: parse_condition_vars)
qed

lemma eligibility_satisfiable:
  assumes "set (zvars c) \<subseteq> eligibility_names"
  shows "satisfiable (eligibility_facts age status (ZEq (ZVar ''is_refundable_category'') (ZVal (ZB b))) @ [c]) \<longleftrightarrow>
    holds (session_assignment age status b) c"
    (is "satisfiable ?es \<longleftrightarrow> holds ?\<sigma> c")
proof
  assume "satisfiable ?es"
  then obtain \<tau> where \<tau>: "list_all (holds \<tau>) ?es" by (auto simp: satisfiable_def)
  then have "\<tau> x = ?\<sigma> x" if "x \<in> eligibility_names" for x
    using that by (auto simp: eligibility_facts_def status_is_def session_assignment_def)
  with assms \<tau> holds_agree [of c \<tau> ?\<sigma>] show "holds ?\<sigma> c" by (auto simp: eligibility_facts_def)
next
  assume "holds ?\<sigma> c"
  moreover have "well_sorted ?\<sigma>" by (simp add: well_sorted_def policy_variables_def session_assignment_def)
  ultimately show "satisfiable ?es"
    by (auto simp: satisfiable_def eligibility_facts_def status_is_def session_assignment_def intro!: exI [of _ ?\<sigma>])
qed

text \<open>The facts of a session as the check reads them.\<close>

definition refundable_category :: "pdict \<Rightarrow> bool option" where
  "refundable_category ses = (case dict_get ses ''is_refundable_category'' of
      None \<Rightarrow> Some True | Some (JBool b) \<Rightarrow> Some b | Some _ \<Rightarrow> None)"

lemma category_fact_bool:
  "refundable_category ses = Some b \<Longrightarrow>
     category_fact (case dict_get ses ''is_refundable_category'' of None \<Rightarrow> JBool True | Some v \<Rightarrow> v) =
       Inr (ZEq (ZVar ''is_refundable_category'') (ZVal (ZB b)))"
  by (auto simp: refundable_category_def category_fact_def split: option.splits json.splits)

text \<open>Each rule's answer without a solver: the rule evaluated on the facts.\<close>

definition evaluated_findings :: "Claims \<Rightarrow> ReasoningPolicy \<Rightarrow> int \<Rightarrow> string \<Rightarrow> bool \<Rightarrow> Finding list" where
  "evaluated_findings claims policy age status b = concat (map (\<lambda>r.
     rule_findings claims age status r (holds (session_assignment age status b) (rr_constraint r))) (eligible_rules policy))"

definition solver_decides :: "solver \<Rightarrow> ReasoningPolicy \<Rightarrow> int \<Rightarrow> string \<Rightarrow> bool \<Rightarrow> bool" where
  "solver_decides solve policy age status b \<longleftrightarrow> (\<forall>r \<in> set (eligible_rules policy).
     solve (eligibility_facts age status (ZEq (ZVar ''is_refundable_category'') (ZVal (ZB b))) @ [rr_constraint r]) \<noteq> Z_unknown)"

lemma solver_evaluates:
  assumes "sound_solver solve" and "build_policy_from_procedure render procedure = Inr policy"
    and "solver_decides solve policy age status b" and "r \<in> set (eligible_rules policy)"
  shows "solve (eligibility_facts age status (ZEq (ZVar ''is_refundable_category'') (ZVal (ZB b))) @ [rr_constraint r]) = Z_sat
    \<longleftrightarrow> holds (session_assignment age status b) (rr_constraint r)"
    (is "solve ?es = Z_sat \<longleftrightarrow> ?h")
proof -
  have "satisfiable ?es \<longleftrightarrow> ?h" by (rule eligibility_satisfiable [OF eligible_rule_vars [OF assms(2,4)]])
  moreover have "solve ?es \<noteq> Z_unknown" using assms(3,4) by (simp add: solver_decides_def)
  moreover have "(solve ?es = Z_sat \<longrightarrow> satisfiable ?es) \<and> (solve ?es = Z_unsat \<longrightarrow> \<not> satisfiable ?es)"
    using assms(1) by (simp add: sound_solver_def)
  ultimately show ?thesis by (cases "solve ?es") simp_all
qed

lemma eligibility_evaluated:
  assumes "sound_solver solve" and "build_policy_from_procedure render procedure = Inr policy"
    and "claims_refund_approved claims \<or> claims_refund_denied claims"
    and "order_age_days ses s = (Inr (Some age), t)" and "dict_get ses ''order_status'' = Some (JStr status)"
    and "status \<noteq> []" and "refundable_category ses = Some b" and "solver_decides solve policy age status b"
  shows "verify_eligibility_claims solve claims policy ses s =
    (Inr (evaluated_findings claims policy age status b, map rr_rule_id (eligible_rules policy)), t)"
proof -
  let ?cat = "ZEq (ZVar ''is_refundable_category'') (ZVal (ZB b))"
  have st: "get_or ses ''order_status'' [] = JStr status" using assms(5) by (simp add: get_or_def)
  have eq: "concat (map (\<lambda>r. rule_findings claims age status r
        (solve (eligibility_facts age status ?cat @ [rr_constraint r]) = Z_sat)) (eligible_rules policy)) =
      evaluated_findings claims policy age status b"
    unfolding evaluated_findings_def
    using solver_evaluates [OF assms(1,2,8)] by (intro arg_cong [of _ _ concat] map_cong) simp_all
  show ?thesis
    using assms(3,4,6) unfolding verify_eligibility_claims_def
    by (auto simp: bindE_def st category_fact_bool [OF assms(7)] liftE_def returnE_def eq Let_def)
qed

text \<open>C35: 
  The eligibility check with a sound solver that decides is the evaluation of each rule on the
  session's order age, status and category: no solver is needed to predict its findings, and every
  eligibility rule is cited.
\<close>

theorem eligibility_by_evaluation:
  assumes "sound_solver solve" and "build_policy_from_procedure render procedure = Inr policy"
    and "claims_refund_approved claims \<or> claims_refund_denied claims"
    and "order_age_days ses s = (Inr (Some age), t)" and "dict_get ses ''order_status'' = Some (JStr status)"
    and "status \<noteq> []" and "refundable_category ses = Some b" and "solver_decides solve policy age status b"
  shows "verify_eligibility_claims solve claims policy ses s =
    (Inr (evaluated_findings claims policy age status b, map rr_rule_id (eligible_rules policy)), t)"
  using assms by (rule eligibility_evaluated)

section \<open>The shipped refund procedure\<close>

text \<open>The conditions of \<open>procedures/customer_service_refund.yaml\<close>, the only part the policy is built from.\<close>

definition within_text :: string where
  "within_text = ''order_date within 30 days AND order_status in [delivered, shipped] AND category not in non_refundable_list''"

definition outside_text :: string where
  "outside_text = ''order_date outside 30 days''"

definition processing_text :: string where
  "processing_text = ''order_status == processing''"

definition refund_procedure :: pdict where
  "refund_procedure = [(''id'', JStr ''cs_refund''),
     (''steps'', JList [JObj [(''id'', JStr ''check_eligibility''), (''conditions'', JList
       [JObj [(''if'', JStr within_text), (''next_step'', JStr ''process_refund'')],
        JObj [(''if'', JStr outside_text), (''next_step'', JStr ''deny_refund_window'')],
        JObj [(''if'', JStr processing_text), (''next_step'', JStr ''cancel_order'')]])]])]"

definition within_30_days :: zexpr where
  "within_30_days = ZAnd [ZLe (ZVar ''order_age_days'') (ZVal (ZI 30)),
     ZOr [status_is ''delivered'', status_is ''shipped''], ZIs (ZVar ''is_refundable_category'')]"

definition refund_rule :: "nat \<Rightarrow> string \<Rightarrow> string \<Rightarrow> zexpr \<Rightarrow> ReasoningRule" where
  "refund_rule i cond next_step c = \<lparr>rr_rule_id = ''cs_refund:check_eligibility:cond_'' @ str_nat i,
     rr_description = ''Condition: '' @ cond @ '' -> '' @ next_step, rr_constraint = c, rr_source_step = ''check_eligibility''\<rparr>"

definition refund_policy :: ReasoningPolicy where
  "refund_policy = \<lparr>rp_procedure_id = ''cs_refund'', rp_variables = policy_variables,
     rp_rules = [refund_rule 0 within_text ''process_refund'' within_30_days,
       refund_rule 1 outside_text ''deny_refund_window'' (ZGt (ZVar ''order_age_days'') (ZVal (ZI 30))),
       refund_rule 2 processing_text ''cancel_order'' (status_is ''processing'')] @ add_universal_rules ''cs_refund'',
     rp_source_document = ''procedures/cs_refund.yaml''\<rparr>"

lemma refund_conditions_parsed:
  "parse_condition_to_z3 within_text (JStr ''process_refund'') = Some within_30_days"
  "parse_condition_to_z3 outside_text (JStr ''deny_refund_window'') = Some (ZGt (ZVar ''order_age_days'') (ZVal (ZI 30)))"
  "parse_condition_to_z3 processing_text (JStr ''cancel_order'') = Some (status_is ''processing'')"
  by code_simp+

lemma refund_policy_built: "build_policy_from_procedure render refund_procedure = Inr refund_policy"
  unfolding build_policy_from_procedure_def procedure_steps_def refund_procedure_def
  by (simp add: dict_get_def get_or_def mapping_list_def step_rules_def sub_entries_def truthy_get_def cell_def
      get_or_null_def condition_rule_def refund_conditions_parsed refund_policy_def refund_rule_def Let_def numeral_2_eq_2)

lemma refund_policy_eligible: "eligible_rules refund_policy = [refund_rule 0 within_text ''process_refund'' within_30_days]"
proof -
  have "substring ''process_refund'' (rr_description (refund_rule 0 within_text ''process_refund'' within_30_days))"
    "\<not> substring ''process_refund'' (rr_description (refund_rule 1 outside_text ''deny_refund_window'' c))"
    "\<not> substring ''process_refund'' (rr_description (refund_rule 2 processing_text ''cancel_order'' c))" for c
    unfolding refund_rule_def within_text_def outside_text_def processing_text_def by simp_all
  then show ?thesis
    unfolding eligible_rules_def refund_policy_def
    by (simp add: add_universal_rules_def) (simp add: refund_rule_def)
qed

lemma within_30_days_holds:
  "holds (session_assignment age status b) within_30_days \<longleftrightarrow> age \<le> 30 \<and> status \<in> {''delivered'', ''shipped''} \<and> b"
  by (simp add: within_30_days_def session_assignment_def num_rel_def status_is_def)

text \<open>
  The rails and the refund decision disagree on shipped orders: the decision service refuses the
  refund, while the rails of the shipped procedure report a truthful denial as an error.
\<close>

theorem shipped_order_contradiction:
  assumes "sound_solver solve" and "claims_refund_denied claims" and "\<not> claims_refund_approved claims"
    and "order_age_days ses s = (Inr (Some age), t)" and "age \<le> 30"
    and "dict_get ses ''order_status'' = Some (JStr ''shipped'')" and "refundable_category ses = Some True"
    and "solver_decides solve refund_policy age ''shipped'' True"
  shows "\<not> rf_eligible (refund_evaluate w oid auth owner ''shipped'' days amount) \<and>
    (\<exists>f cited. verify_eligibility_claims solve claims refund_policy ses s = (Inr ([f], cited), t) \<and>
       fi_severity f = ''error'')"
proof -
  have "verify_eligibility_claims solve claims refund_policy ses s =
    (Inr (evaluated_findings claims refund_policy age ''shipped'' True, map rr_rule_id (eligible_rules refund_policy)), t)"
    using eligibility_evaluated [OF assms(1) refund_policy_built _ assms(4,6) _ assms(7,8)] assms(2) by simp
  moreover have "evaluated_findings claims refund_policy age ''shipped'' True =
    [eligibility_finding (rr_rule_id (refund_rule 0 within_text ''process_refund'' within_30_days)) ''Response claims refund denied but order IS eligible'' age ''shipped'']"
    using assms(2,3,5)
    by (simp add: evaluated_findings_def refund_policy_eligible rule_findings_def within_30_days_holds)
      (simp add: refund_rule_def within_30_days_holds)
  ultimately show ?thesis by (simp add: refund_evaluate_def Let_def eligibility_finding_def)
qed

section \<open>A concrete session\<close>

definition noon :: env where
  "noon = \<lparr>clock_src = (\<lambda>_. instant 2026 7 12 12 0 0), clock_idx = 0, uuid_src = (\<lambda>_. []), uuid_idx = 0\<rparr>"

definition shipped_session :: pdict where
  "shipped_session = [(''order_date'', JStr ''2026-07-01''), (''order_status'', JStr ''shipped'')]"

definition denial :: Claims where
  "denial = \<lparr>mentioned_amounts = [], mentioned_days = [], claims_refund_approved = False, claims_refund_denied = True,
     claims_store_credit = False, claims_escalation = False\<rparr>"

lemma shipped_session_facts:
  "order_age_days shipped_session noon = (Inr (Some 11), noon\<lparr>clock_idx := 1\<rparr>)"
  "dict_get shipped_session ''order_status'' = Some (JStr ''shipped'')"
  "refundable_category shipped_session = Some True"
proof -
  have "strptime fmt_date ''2026-07-01'' = Some (instant 2026 7 1 0 0 0)" by code_simp
  moreover have "days_between (instant 2026 7 12 12 0 0) (instant 2026 7 1 0 0 0) = 11" by code_simp
  ultimately show "order_age_days shipped_session noon = (Inr (Some 11), noon\<lparr>clock_idx := 1\<rparr>)"
    by (simp add: order_age_days_def shipped_session_def get_or_def dict_get_def bindE_def now_op_def noon_def returnE_def)
qed (simp_all add: shipped_session_def dict_get_def refundable_category_def)

lemma ground_solve_decides: "solver_decides ground_solve refund_policy age status b"
  by (simp add: solver_decides_def refund_policy_eligible refund_rule_def ground_solve_def Let_def
      eligibility_facts_def within_30_days_def status_is_def equations_def)

theorem eligibility_by_evaluation_witness:
  "verify_eligibility_claims ground_solve denial refund_policy shipped_session noon =
    (Inr (evaluated_findings denial refund_policy 11 ''shipped'' True, map rr_rule_id (eligible_rules refund_policy)),
     noon\<lparr>clock_idx := 1\<rparr>)"
  using eligibility_by_evaluation [OF ground_solve_sound refund_policy_built, of denial shipped_session noon 11 "noon\<lparr>clock_idx := 1\<rparr>" "''shipped''" True]
  by (simp add: shipped_session_facts ground_solve_decides) (simp add: denial_def)

theorem shipped_order_contradiction_witness:
  "\<exists>f cited. verify_eligibility_claims ground_solve denial refund_policy shipped_session noon =
     (Inr ([f], cited), noon\<lparr>clock_idx := 1\<rparr>) \<and> fi_severity f = ''error''"
  using shipped_order_contradiction [OF ground_solve_sound, of denial shipped_session noon 11 "noon\<lparr>clock_idx := 1\<rparr>"]
  by (simp add: shipped_session_facts ground_solve_decides) (simp add: denial_def)

end
