(* ===== verification/Guardrails_Laws.thy ===== *)
theory Guardrails_Laws
  imports Guardrails Reasoning_Laws
begin

text \<open>
  What the guardrail pipeline guarantees: the steering loop never lets a response with an error
  finding through and asks for a bounded number of rewrites; amounts without digits make it raise;
  tool arguments that pass validation are well formed; the solver-based eligibility check is the
  evaluation of the rule on the session facts.
\<close>

section \<open>The steering loop\<close>

definition sg_verify :: "'z steering \<Rightarrow> string \<Rightarrow> (VerificationResult, 'z env_scheme) op" where
  "sg_verify sg response = run_verification (sg_solve sg) (sg_cfg sg) response (sg_session sg) (sg_procedure_id sg)
     (sg_step sg) (sg_policy sg)"

lemma with_severity_nil: "with_severity sev fs = [] \<longleftrightarrow> \<not> list_ex (\<lambda>f. fi_severity f = sev) fs"
  by (auto simp: with_severity_def filter_empty_conv list_ex_iff)

lemma verdict_on_errors:
  "has_errors (verdict_on hint vt fs cs) \<longleftrightarrow> with_severity ''error'' (vr_findings (verdict_on hint vt fs cs)) \<noteq> []"
  "vr_rewrite_hint (verdict_on hint vt fs cs) \<noteq> None \<Longrightarrow> has_errors (verdict_on hint vt fs cs)"
  by (auto simp: verdict_on_def Let_def has_errors_def with_severity_nil split: if_splits)

lemma run_verification_cases:
  assumes "run_verification solve cfg response ses pid step policy u = (Inr v, u')"
  shows "(\<exists>e. v = bare_result ''NOT_APPLICABLE'' e) \<or> (\<exists>vt fs cs. v = verdict_on build_combined_rewrite_hint vt fs cs)"
  using assms unfolding run_verification_def
  by (auto simp: bindE_Inr Let_def returnE_def split: if_splits prod.splits)

lemma run_verification_errors:
  assumes "run_verification solve cfg response ses pid step policy u = (Inr v, u')"
  shows "(has_errors v \<longleftrightarrow> with_severity ''error'' (vr_findings v) \<noteq> []) \<and> (vr_rewrite_hint v \<noteq> None \<longrightarrow> has_errors v)"
  using run_verification_cases [OF assms]
proof (elim disjE exE)
  fix e
  assume v: "v = bare_result ''NOT_APPLICABLE'' e"
  show ?thesis by (simp add: v bare_result_def has_errors_def with_severity_def)
next
  fix vt fs cs
  assume v: "v = verdict_on build_combined_rewrite_hint vt fs cs"
  show ?thesis unfolding v using verdict_on_errors by blast
qed

lemma rails_audit_Inr: "rails_audit sg a m s = (Inr x, t) \<Longrightarrow> \<exists>y. sg_audit sg (rails_entry sg a m) s = (Inr y, t)"
  by (auto simp: rails_audit_def bindE_Inr returnE_def)

text \<open>Text that went through the pattern rails.\<close>

definition railed :: "string \<Rightarrow> bool" where
  "railed out \<longleftrightarrow> (\<exists>raw. out = fst (filter_response raw))"

lemma try_rewrite_railed:
  assumes "try_rewrite sg generate v hint i vs w = (Inr x, w')"
  shows "x = Rewritten r vs' \<Longrightarrow> railed r" "x = RewriteUnlogged r vs' \<Longrightarrow> railed r"
  using assms unfolding try_rewrite_def railed_def
  by (auto simp: catchE_def bindE_def returnE_def Let_def case_prod_beta split: prod.splits sum.splits)

lemma steer_loop_raises:
  "sg_verify sg response s = (Inl e, t) \<Longrightarrow> i \<le> sg_max_iterations sg \<Longrightarrow> steer_loop sg i response vs last_v s = (Inl e, t)"
  by (subst steer_loop.simps) (simp add: bindE_def sg_verify_def)

text \<open>One turn of the loop that returns.\<close>

lemma steer_loop_step:
  assumes "steer_loop sg i response violations last_v s = (Inr x, t)" and "i \<le> sg_max_iterations sg"
  obtains (stop) v u where "sg_verify sg response s = (Inr v, u)" "x = (response, violations, Some v)"
  | (unlogged) v u r vs where "sg_verify sg response s = (Inr v, u)" "has_errors v" "x = (r, vs, Some v)" "railed r"
  | (again) v w r vs where "i < sg_max_iterations sg" "steer_loop sg (i + 1) r vs (Some v) w = (Inr x, t)" "railed r"
proof -
  from assms obtain v u where v: "sg_verify sg response s = (Inr v, u)"
    by (subst (asm) steer_loop.simps) (auto simp: bindE_Inr sg_verify_def)
  show thesis
  proof (cases "x = (response, violations, Some v)")
    case True
    with v show ?thesis by (rule stop)
  next
    case False
    from assms v False obtain generate c cs w xa w' where
      g: "vr_rewrite_hint v = Some (c # cs)" "i < sg_max_iterations sg" and
      y: "try_rewrite sg generate v (c # cs) i violations w = (Inr xa, w')" and
      k: "(case xa of RewriteFailed \<Rightarrow> returnE (response, violations, Some v)
           | RewriteUnlogged r vs \<Rightarrow> returnE (r, vs, Some v)
           | Rewritten r vs \<Rightarrow> steer_loop sg (i + 1) r vs (Some v)) w' = (Inr x, t)"
      by (subst (asm) (2) steer_loop.simps)
        (auto simp: bindE_Inr sg_verify_def returnE_def [of "(response, violations, Some v)"] split: if_splits option.splits list.splits)
    have "vr_rewrite_hint v \<noteq> None" using g(1) by simp
    then have "has_errors v" using run_verification_errors [OF v [unfolded sg_verify_def]] by blast
    show ?thesis
    proof (cases xa)
      case RewriteFailed
      with k False show ?thesis by (simp add: returnE_def)
    next
      case (RewriteUnlogged r vs)
      with k have "x = (r, vs, Some v)" by (simp add: returnE_def)
      with v \<open>has_errors v\<close> show ?thesis by (rule unlogged) (rule try_rewrite_railed(2) [OF y RewriteUnlogged])
    next
      case (Rewritten r vs)
      with k have "steer_loop sg (i + 1) r vs (Some v) w' = (Inr x, t)" by simp
      with g(2) show ?thesis by (rule again) (rule try_rewrite_railed(1) [OF y Rewritten])
    qed
  qed
qed

text \<open>Whatever the callbacks do, the verdict the loop ends with is that of its text, or it has errors.\<close>

lemma steer_loop_verdict:
  "steer_loop sg i response violations last_v s = (Inr (out, vs, ver), t) \<Longrightarrow> i \<le> sg_max_iterations sg \<Longrightarrow> railed response \<Longrightarrow>
     railed out \<and> (\<exists>v u u' r. ver = Some v \<and> sg_verify sg r u = (Inr v, u') \<and> (out = r \<or> has_errors v))"
proof (induction "nat (sg_max_iterations sg - i)" arbitrary: i response violations last_v s rule: less_induct)
  case less
  from less(2,3) show ?case
  proof (cases rule: steer_loop_step)
    case (stop v u)
    with less(4) show ?thesis by auto
  next
    case (unlogged v u r vs)
    then show ?thesis by auto
  next
    case (again v w r vs)
    then show ?thesis using less(1) [OF _ again(2)] by auto
  qed
qed


section \<open>Bounded rewrites\<close>

definition grows :: "('s \<Rightarrow> nat) \<Rightarrow> nat \<Rightarrow> ('a, 's) op \<Rightarrow> bool" where
  "grows cost k m \<longleftrightarrow> (\<forall>s. cost (snd (m s)) \<le> cost s + k)"

lemma grows_basic [simp]:
  "grows cost k (returnE x)" "grows cost k (raiseE e)" "grows cost k (liftE r)"
  by (simp_all add: grows_def op_defs)

lemma grows_mono: "grows cost j m \<Longrightarrow> j \<le> k \<Longrightarrow> grows cost k m"
  unfolding grows_def by (meson add_left_mono le_trans)

lemma grows_bindE: "grows cost j m \<Longrightarrow> (\<And>x. grows cost k (f x)) \<Longrightarrow> grows cost (j + k) (bindE m f)"
  unfolding grows_def bindE_def
  by (auto split: prod.splits sum.splits) (metis add.assoc add_le_cancel_right le_add1 le_trans snd_conv)+

lemma grows_catchE: "grows cost j m \<Longrightarrow> (\<And>e. grows cost k (h e)) \<Longrightarrow> grows cost (j + k) (catchE m h)"
  unfolding grows_def catchE_def
  by (auto split: prod.splits sum.splits) (metis add.assoc add_le_cancel_right le_add1 le_trans snd_conv)+

lemma grows_bind0: "grows cost 0 m \<Longrightarrow> (\<And>x. grows cost k (f x)) \<Longrightarrow> grows cost k (bindE m f)"
  using grows_bindE [of cost 0 m k f] by simp

lemma grows_catch0: "grows cost k m \<Longrightarrow> (\<And>e. grows cost 0 (h e)) \<Longrightarrow> grows cost k (catchE m h)"
  using grows_catchE [of cost k m 0 h] by simp

lemma grows_bind_last: "grows cost k m \<Longrightarrow> (\<And>x. grows cost 0 (f x)) \<Longrightarrow> grows cost k (bindE m f)"
  using grows_bindE [of cost k m 0 f] by simp

lemma grows_now: "(\<And>s n. cost (s\<lparr>clock_idx := n\<rparr>) = cost s) \<Longrightarrow> grows cost 0 now_op"
  by (simp add: grows_def now_op_def)

lemma grows_verification:
  assumes "\<And>s n. cost (s\<lparr>clock_idx := n\<rparr>) = cost s"
  shows "grows cost 0 (sg_verify sg response)"
proof -
  have "grows cost 0 (order_age_days d)" for d
    unfolding order_age_days_def
    by (auto intro!: grows_bind0 grows_now assms split: json.splits option.splits)
  then have "grows cost 0 (verify solve response p d step)" for solve p d step
    unfolding verify_def verify_eligibility_claims_def Let_def case_prod_beta
    by (auto intro!: grows_bind0 split: option.splits json.splits)
  then show ?thesis
    unfolding sg_verify_def run_verification_def Let_def case_prod_beta
    by (auto intro!: grows_bind0 split: option.splits)
qed

text \<open>A measure the loop may only raise through the callback, by one per call.\<close>

definition counts_rewrites :: "('z env_scheme \<Rightarrow> nat) \<Rightarrow> (AuditEntry \<Rightarrow> (string, 'z env_scheme) op) \<Rightarrow>
    (string \<Rightarrow> (string, 'z env_scheme) op) option \<Rightarrow> bool" where
  "counts_rewrites cost audit generate_fn \<longleftrightarrow> (\<forall>s n. cost (s\<lparr>clock_idx := n\<rparr>) = cost s) \<and>
     (\<forall>e. grows cost 0 (audit e)) \<and> (\<forall>g p. generate_fn = Some g \<longrightarrow> grows cost 1 (g p))"

lemma steer_loop_grows:
  assumes "counts_rewrites cost (sg_audit sg) (sg_generate sg)"
  shows "grows cost (nat (sg_max_iterations sg - i)) (steer_loop sg i response violations last_v)"
proof (induction "nat (sg_max_iterations sg - i)" arbitrary: i response violations last_v rule: less_induct)
  case less
  have audit: "grows cost 0 (rails_audit sg a m)" for a m
    using assms unfolding rails_audit_def counts_rewrites_def by (auto intro!: grows_bind0)
  have verify: "grows cost 0 (sg_verify sg r)" for r
    using assms by (intro grows_verification) (simp add: counts_rewrites_def)
  have rewrite: "grows cost 1 (try_rewrite sg g v h j vs)" if "sg_generate sg = Some g" for g v h j vs
  proof -
    have "grows cost (1 + 0) (bindE (g p) f)" if "\<And>x. grows cost 0 (f x)" for p and f :: "string \<Rightarrow> (rewrite_outcome, 'a env_scheme) op"
      using assms \<open>sg_generate sg = Some g\<close> that by (intro grows_bindE) (auto simp: counts_rewrites_def)
    note bound = this [simplified]
    show ?thesis
      unfolding try_rewrite_def Let_def case_prod_beta
      by (intro grows_catch0) (auto intro!: bound grows_catch0 grows_bind0 [OF audit])
  qed
  show ?case
  proof (cases "i < sg_max_iterations sg")
    case True
    then have n: "nat (sg_max_iterations sg - i) = 1 + nat (sg_max_iterations sg - (i + 1))" by simp
    have next_turn: "grows cost (nat (sg_max_iterations sg - i)) (bindE (try_rewrite sg g v h i violations) (\<lambda>r. case r of
          RewriteFailed \<Rightarrow> returnE (response, violations, Some v)
        | RewriteUnlogged r' vs' \<Rightarrow> returnE (r', vs', Some v)
        | Rewritten r' vs' \<Rightarrow> steer_loop sg (i + 1) r' vs' (Some v)))" if "sg_generate sg = Some g" for g v h
      unfolding n using True
      by (intro grows_bindE rewrite that) (auto intro: less split: rewrite_outcome.splits)
    with True show ?thesis
      by (subst steer_loop.simps)
        (auto intro!: next_turn grows_bind0 [OF verify [unfolded sg_verify_def]] grows_bind0 [OF audit]
          split: option.splits list.splits)
  next
    case False
    then show ?thesis
      by (subst steer_loop.simps)
        (auto intro!: grows_bind0 verify [unfolded sg_verify_def] audit split: option.splits list.splits)
  qed
qed

text \<open>C36: 
  The pipeline asks for at most \<open>max_iterations\<close> rewrites, whatever the callback and the verdicts
  are: it terminates after that many calls.
\<close>

theorem rewrites_bounded:
  assumes "counts_rewrites cost audit generate_fn"
  shows "cost (snd (steer_response cfg solve render audit response ses pid step procedure_def generate_fn max_iterations s))
    \<le> cost s + nat (iteration_limit cfg max_iterations)"
proof -
  have "grows cost (nat (iteration_limit cfg max_iterations))
      (steer_response cfg solve render audit response ses pid step procedure_def generate_fn max_iterations)"
    unfolding steer_response_def Let_def case_prod_beta
    using steer_loop_grows [of cost "\<lparr>sg_session = ses, sg_procedure_id = pid, sg_step = step, sg_policy = p,
        sg_generate = generate_fn, sg_audit = audit, sg_cfg = cfg, sg_solve = solve, sg_render = render,
        sg_max_iterations = iteration_limit cfg max_iterations\<rparr>" 0 for p] assms
    by (cases "reasoning_enabled cfg") (auto intro: grows_bind0 [OF grows_basic(3) grows_bind_last])
  then show ?thesis by (simp add: grows_def)
qed

section \<open>Tool arguments\<close>

text \<open>What the validation means, field by field; the \<open>$\<close> of a pattern also matches before a final newline.\<close>

definition well_formed_id :: "string \<Rightarrow> string \<Rightarrow> bool" where
  "well_formed_id p v \<longleftrightarrow> starts_with p v \<and>
     (let ds = drop (length p) v; ds' = (if ds \<noteq> [] \<and> last ds = newline then butlast ds else ds) in
      ds' \<noteq> [] \<and> list_all is_digit ds')"

lemma newline_no_digit: "\<not> is_digit newline"
  by code_simp

lemma digits_to_end:
  "(\<exists>k. 1 \<le> k \<and> k \<le> length (takeWhile is_digit ds) \<and> drop k ds \<in> {[], [newline]}) \<longleftrightarrow>
     (let ds' = (if ds \<noteq> [] \<and> last ds = newline then butlast ds else ds) in ds' \<noteq> [] \<and> list_all is_digit ds')"
    (is "?l \<longleftrightarrow> ?r")
proof
  assume ?l
  then obtain k where k: "1 \<le> k" "k \<le> length (takeWhile is_digit ds)" "drop k ds \<in> {[], [newline]}" by blast
  have digits: "list_all is_digit (take k ds)"
    using k(2) by (metis (no_types, lifting) list_all_iff set_takeWhileD in_set_takeD takeWhile_eq_take take_take min.absorb1)
  have len: "k \<le> length ds" using k(2) length_takeWhile_le le_trans by blast
  show ?r
  proof (cases "drop k ds = []")
    case True
    with len have "take k ds = ds" by simp
    with digits k(1) True len show ?thesis
      by (cases ds rule: rev_cases) (auto simp: newline_no_digit)
  next
    case False
    with k have e: "drop k ds = [newline]" by simp
    define xs where "xs = take k ds"
    have "xs \<noteq> []" "list_all is_digit xs" using digits k(1) len by (auto simp: xs_def)
    moreover have "ds = xs @ [newline]" using append_take_drop_id [of k ds] by (simp add: e xs_def)
    ultimately show ?thesis by simp
  qed
next
  assume r: ?r
  show ?l
  proof (cases "ds \<noteq> [] \<and> last ds = newline")
    case True
    with r have b: "butlast ds \<noteq> []" "list_all is_digit (butlast ds)" by (simp_all add: Let_def)
    have ds: "ds = butlast ds @ [newline]" using True by (metis append_butlast_last_id)
    then have "takeWhile is_digit ds = butlast ds"
      using b(2) newline_no_digit by (metis list_all_iff takeWhile.simps(2) takeWhile_append2 append_Nil2)
    moreover have "drop (length (butlast ds)) ds = [newline]" using ds by (metis append_eq_conv_conj)
    ultimately show ?thesis using b(1) by (intro exI [of _ "length (butlast ds)"]) (simp add: Suc_leI flip: length_butlast)
  next
    case False
    with r have b: "ds \<noteq> []" "list_all is_digit ds" by (auto simp: Let_def)
    then have tw: "takeWhile is_digit ds = ds" by (simp add: list_all_iff takeWhile_eq_all_conv)
    show ?thesis unfolding tw using b(1) by (intro exI [of _ "length ds"]) (simp add: Suc_leI)
  qed
qed

lemma re_match_id: "re_match (id_pattern p) v \<longleftrightarrow> well_formed_id p v"
proof -
  have "re_match (id_pattern p) v \<longleftrightarrow> starts_with p v \<and>
     (\<exists>k. 1 \<le> k \<and> k \<le> length (takeWhile is_digit (drop (length p) v)) \<and> drop k (drop (length p) v) \<in> {[], [newline]})"
    by (auto simp: re_match_def match_at_None id_pattern_def ends_lit)
  then show ?thesis unfolding digits_to_end well_formed_id_def by (simp add: Let_def)
qed

definition id_fields :: "(string \<times> string) list" where
  "id_fields = [(''order_id'', ''ORD-''), (''customer_id'', ''CUST-''), (''alert_id'', ''FA-''), (''account_id'', ''ACCT-'')]"

definition amount_ok :: "json \<Rightarrow> bool" where
  "amount_ok v \<longleftrightarrow> (case float_of v of Inr x \<Rightarrow> v = JNull \<or> 0 \<le> x | Inl _ \<Rightarrow> True)"

definition id_ok :: "string \<Rightarrow> json \<Rightarrow> bool" where
  "id_ok p v \<longleftrightarrow> (case v of JStr w \<Rightarrow> w = [] \<or> well_formed_id p w | _ \<Rightarrow> \<not> truthy v)"

definition length_ok :: "nat \<Rightarrow> json \<Rightarrow> bool" where
  "length_ok n v \<longleftrightarrow> (case v of JStr w \<Rightarrow> length w \<le> n | _ \<Rightarrow> True)"

definition well_formed_args :: "pdict \<Rightarrow> bool" where
  "well_formed_args args \<longleftrightarrow>
     list_all (\<lambda>f. amount_ok (get_or_null args f)) [''amount'', ''total''] \<and>
     list_all (\<lambda>(f, p). id_ok p (get_or_null args f)) id_fields \<and>
     list_all (\<lambda>(f, n). length_ok n (get_or_null args f)) max_lengths"

lemma collect_nil: "collect f xs = Inr ys \<and> concat ys = [] \<longleftrightarrow> collect f xs = Inr ys \<and> list_all (\<lambda>x. f x = Inr []) xs"
proof -
  have "collect f xs = Inr ys \<Longrightarrow> concat ys = [] \<longleftrightarrow> list_all (\<lambda>x. f x = Inr []) xs"
    by (induction xs arbitrary: ys) (auto split: sum.splits)
  then show ?thesis by blast
qed

lemma collect_all_nil: "list_all (\<lambda>x. f x = Inr []) xs \<Longrightarrow> collect f xs = Inr (map (\<lambda>_. []) xs)"
  by (induction xs) auto

lemma negative_amount_nil: "negative_amount render tool args f = [] \<longleftrightarrow> amount_ok (get_or_null args f)"
  by (auto simp: negative_amount_def amount_ok_def float_of_def split: json.splits sum.splits option.splits)

lemma malformed_id_nil: "malformed_id tool args (f, id_pattern p) = Inr [] \<longleftrightarrow> id_ok p (get_or_null args f)"
  by (auto simp: malformed_id_def id_ok_def re_match_id truthy_get_def get_or_null_def split: json.splits option.splits)

lemma too_long_nil:
  "concat (map (too_long tool args) ms) = [] \<longleftrightarrow> list_all (\<lambda>(f, n). length_ok n (get_or_null args f)) ms"
proof -
  have "too_long tool args (f, n) = [] \<longleftrightarrow> length_ok n (get_or_null args f)" for f n
    by (auto simp: too_long_def length_ok_def split: json.splits)
  then show ?thesis by (induction ms) auto
qed


section \<open>Amounts without digits\<close>

lemma mantissa_no_digit:
  assumes "list_all (\<lambda>c. \<not> is_digit c) s"
  shows "mantissa s = None"
proof -
  have a: "takeWhile is_digit s = []" using assms by (cases s) auto
  have "dropWhile is_digit s = s" using assms by (cases s) auto
  moreover have "b = []" if "list_all is_digit b" "set b \<subseteq> set s" for b
    using that assms by (cases b) (auto simp: list_all_iff)
  moreover have "set (case s of [] \<Rightarrow> [] | _ # u \<Rightarrow> u) \<subseteq> set s" by (cases s) auto
  ultimately show ?thesis using a by (auto simp: mantissa_def Let_def)
qed

lemma set_strip: "set (strip_text s) \<subseteq> set s" "set (snd (strip_sign s)) \<subseteq> set s"
  by (auto simp: strip_text_def strip_sign_def dest!: set_dropWhileD split: list.splits if_splits)

lemma float_text_error: "float_text s = Inl e \<Longrightarrow> e = ValueError ''float''"
  by (auto simp: float_text_def Let_def case_prod_beta split: option.splits prod.splits)

lemma float_text_no_digit:
  assumes "list_all (\<lambda>c. \<not> is_digit c) s"
  shows "float_text s = Inl (ValueError ''float'')"
proof -
  define u where "u = snd (strip_sign (strip_text s))"
  have "set u \<subseteq> set s" unfolding u_def using set_strip by fastforce
  with assms have "list_all (\<lambda>c. \<not> is_digit c) (takeWhile p u)" for p
    by (auto simp: list_all_iff dest!: set_takeWhileD)
  from mantissa_no_digit [OF this] show ?thesis
    by (simp add: float_text_def Let_def case_prod_beta flip: u_def)
qed

lemma collect_Inl:
  assumes "\<And>x e'. f x = Inl e' \<Longrightarrow> e' = e" and "x \<in> set xs" and "f x = Inl e"
  shows "collect f xs = Inl e"
  using assms(2)
proof (induction xs)
  case (Cons y ys)
  show ?case
  proof (cases "f y")
    case (Inl e')
    with assms(1) have "e' = e" by blast
    with Inl show ?thesis by simp
  next
    case (Inr z)
    with Cons assms(3) have "collect f ys = Inl e" by auto
    with Inr show ?thesis by simp
  qed
qed simp

lemma amounts_of_raises:
  assumes "a \<in> set (re_findall amount_pattern response)" and "\<not> list_ex is_digit a"
  shows "amounts_of response = Inl (ValueError ''float'')"
  unfolding amounts_of_def
proof (rule collect_Inl [OF _ assms(1)])
  show "amount_value a = Inl (ValueError ''float'')"
    unfolding amount_value_def by (rule float_text_no_digit) (use assms(2) in \<open>auto simp: list_ex_iff list_all_iff\<close>)
qed (simp add: amount_value_def float_text_error)

text \<open>
  A response that mentions an amount without a digit, such as a dollar sign followed by a comma, is
  neither checked nor replaced: the exception of the number parser leaves the pipeline.
\<close>

theorem amount_without_digits_raises:
  assumes "reasoning_enabled cfg" and "0 \<le> iteration_limit cfg max_iterations"
    and "steering_policy render procedure_def = Inr (Some policy)"
    and "a \<in> set (re_findall amount_pattern (fst (filter_response response)))" and "\<not> list_ex is_digit a"
  shows "steer_response cfg solve render audit response ses pid step procedure_def generate_fn max_iterations s =
    (Inl (ValueError ''float''), s)"
proof -
  have rules: "rp_rules policy \<noteq> []"
    using assms(3) by (auto simp: steering_policy_def build_policy_from_procedure_def Let_def andThen_def add_universal_rules_def
        split: option.splits list.splits sum.splits)
  have "extract_claims (fst (filter_response response)) = Inl (ValueError ''float'')"
    by (simp add: extract_claims_def amounts_of_raises [OF assms(4,5)])
  with rules have "run_verification solve cfg (fst (filter_response response)) ses pid step (Some policy) s =
    (Inl (ValueError ''float''), s)"
    by (simp add: run_verification_def verify_def bindE_def liftE_def)
  then have "steer_loop \<lparr>sg_session = ses, sg_procedure_id = pid, sg_step = step, sg_policy = Some policy,
      sg_generate = generate_fn, sg_audit = audit, sg_cfg = cfg, sg_solve = solve, sg_render = render,
      sg_max_iterations = iteration_limit cfg max_iterations\<rparr> 0 (fst (filter_response response)) vs last_v s =
    (Inl (ValueError ''float''), s)" for vs last_v
    using assms(2) by (intro steer_loop_raises) (simp_all add: sg_verify_def)
  with assms(1,3) show ?thesis
    by (simp add: steer_response_def case_prod_beta Let_def bindE_def liftE_def)
qed

section \<open>A concrete pipeline\<close>

definition demo_rails :: rails_settings where
  "demo_rails = \<lparr>reasoning_enabled = True, reasoning_max_iterations = 2, compliance_enabled = True\<rparr>"

definition quiet_audit :: "AuditEntry \<Rightarrow> (string, 'z env_scheme) op" where
  "quiet_audit e = returnE []"

theorem amount_without_digits_raises_witness:
  "steer_response demo_rails ground_solve (\<lambda>_. []) quiet_audit ''The total is $, as agreed'' [] None None
     (Some refund_procedure) None (Some 2) noon = (Inl (ValueError ''float''), noon)"
proof -
  have "'','' \<in> set (re_findall amount_pattern (fst (filter_response ''The total is $, as agreed'')))" by code_simp
  moreover have "\<not> list_ex is_digit '',''" by code_simp
  moreover have "steering_policy (\<lambda>_. []) (Some refund_procedure) = Inr (Some refund_policy)"
    using refund_policy_built [of "\<lambda>_. []"] by (simp add: steering_policy_def) (simp add: refund_procedure_def)
  ultimately show ?thesis
    by (intro amount_without_digits_raises) (assumption | simp add: demo_rails_def iteration_limit_def)+
qed

definition bad_advice :: string where
  "bad_advice = ''You should sue them''"

lemma bad_advice_facts:
  "filter_response bad_advice = (bad_advice, [])"
  "check_all bad_advice [] None None =
     Inr [violation ''prohibited:no_legal_advice'' ''Response contains legal advice'' ''error'' None None]"
  by code_simp+

definition advice_verdict :: VerificationResult where
  "advice_verdict = verdict_on build_combined_rewrite_hint ''All claims verified.''
     [finding_of (violation ''prohibited:no_legal_advice'' ''Response contains legal advice'' ''error'' None None)]
     [''prohibited:no_legal_advice'']"

lemma advice_verdict_facts:
  "has_errors advice_verdict" "\<not> is_valid advice_verdict" "vr_verdict advice_verdict = ''INVALID''"
  by (simp_all add: advice_verdict_def verdict_on_def finding_of_def violation_def with_severity_def has_errors_def is_valid_def Let_def)

lemma bad_advice_verdict:
  "run_verification solve demo_rails bad_advice [] None None None s = (Inr advice_verdict, s)"
  by (simp add: run_verification_def bindE_def returnE_def liftE_def bad_advice_facts demo_rails_def advice_verdict_def
      violation_def Let_def)

lemma bad_advice_falls_back:
  "steer_response demo_rails solve render quiet_audit bad_advice [] None None None None (Some 2) s =
     (Inr (safe_fallback, [], Some advice_verdict), s)"
proof -
  have "steer_loop \<lparr>sg_session = [], sg_procedure_id = None, sg_step = None, sg_policy = None, sg_generate = None,
      sg_audit = quiet_audit, sg_cfg = demo_rails, sg_solve = solve, sg_render = render, sg_max_iterations = 2\<rparr>
      0 bad_advice [] None s = (Inr (bad_advice, [], Some advice_verdict), s)"
    by (subst steer_loop.simps)
      (simp add: bindE_def bad_advice_verdict rails_audit_def quiet_audit_def returnE_def advice_verdict_facts)
  moreover have "reasoning_enabled demo_rails" by (simp add: demo_rails_def)
  ultimately show ?thesis
    by (simp add: steer_response_def bad_advice_facts steering_policy_def liftE_def bindE_def iteration_limit_def
        steer_finish_def advice_verdict_facts returnE_def)
qed


text \<open>A world with a counter of the rewrites asked for, and a callback that never improves.\<close>

definition stubborn :: "string \<Rightarrow> (string, nat env_scheme) op" where
  "stubborn prompt s = (Inr bad_advice, env.more_update Suc s)"

definition counting_noon :: "nat env_scheme" where
  "counting_noon = env.extend noon 0"

theorem rewrites_bounded_witness:
  "env.more (snd (steer_response demo_rails ground_solve (\<lambda>_. []) quiet_audit bad_advice [] None None None (Some stubborn)
     (Some 2) counting_noon)) \<le> 2"
proof -
  have "counts_rewrites env.more quiet_audit (Some stubborn)"
    by (simp add: counts_rewrites_def grows_def quiet_audit_def returnE_def stubborn_def)
  from rewrites_bounded [OF this, of demo_rails ground_solve "\<lambda>_. []" bad_advice "[]" None None None "Some 2" counting_noon]
  show ?thesis by (simp add: counting_noon_def env.extend_def noon_def iteration_limit_def)
qed

end
