(* ===== verification/Redaction.thy ===== *)
theory Redaction
  imports Guardrails_Laws
begin

text \<open>
  The redaction of internal data is complete: in what \<open>filter_response\<close> returns no internal-data
  pattern matches any more. Each of the six patterns looks for one of finitely many words between
  word boundaries, two of them for a colon later in the line; replacing matches by \<open>[REDACTED]\<close>
  neither leaves nor creates such an occurrence.
\<close>

section \<open>Occurrences\<close>

definition colon_line :: "string \<Rightarrow> bool" where
  "colon_line s \<longleftrightarrow> CHR 58 \<in> set (takeWhile is_dot s)"

text \<open>One of the words \<open>ws\<close> (in lower case) at the front, then a boundary, then the colon if asked for.\<close>

definition occurs :: "string list \<Rightarrow> bool \<Rightarrow> string \<Rightarrow> bool" where
  "occurs ws col s \<longleftrightarrow> (\<exists>w r. s = w @ r \<and> lower w \<in> set ws \<and> \<not> hd_word r \<and> (col \<longrightarrow> colon_line r))"

definition plain_word :: "string \<Rightarrow> bool" where
  "plain_word w \<longleftrightarrow> w \<noteq> [] \<and> is_word (hd w) \<and> is_word (last w) \<and> CHR 91 \<notin> set w \<and> CHR 93 \<notin> set w \<and> newline \<notin> set w"

text \<open>What the rails are: a pattern that matches exactly such occurrences, within a line.\<close>

definition word_rail :: "regex \<Rightarrow> string list \<Rightarrow> bool \<Rightarrow> bool" where
  "word_rail r ws col \<longleftrightarrow> list_all plain_word ws \<and> ''redacted'' \<notin> set ws \<and>
     (\<forall>pre rest. match_at r pre rest \<noteq> None \<longleftrightarrow> \<not> hd_word pre \<and> occurs ws col rest) \<and>
     (\<forall>pre rest pre' rest' g. match_at r pre rest = Some (pre', rest', g) \<longrightarrow>
        (\<exists>m. m \<noteq> [] \<and> rest = m @ rest' \<and> pre' = rev m @ pre \<and> newline \<notin> set m) \<and> (hd_word pre' \<longrightarrow> \<not> hd_word rest'))"

section \<open>Lower case\<close>

declare lower_char.simps [simp del]

lemma code_lower: "code (lower_char c) = (if 65 \<le> code c \<and> code c \<le> 90 then code c + 32 else code c)"
  by (auto simp: code_def Let_def lower_char.simps)

lemma char_by_code: "c = d \<longleftrightarrow> code c = code d"
  by (simp add: code_def)

lemma code_values: "code (CHR 91) = 91" "code (CHR 93) = 93" "code newline = 10" "code (CHR 58) = 58"
  by code_simp+

lemma lower_char_word: "is_word (lower_char c) = is_word c"
  unfolding is_word_def is_digit_def code_lower by presburger

lemma lower_char_same: "\<not> (65 \<le> code d \<and> code d \<le> 90) \<Longrightarrow> \<not> (97 \<le> code d \<and> code d \<le> 122) \<Longrightarrow> (lower_char c = d) = (c = d)"
  unfolding char_by_code [of "lower_char c"] char_by_code [of c] code_lower by presburger

lemma lower_char_facts:
  "is_word (lower_char c) = is_word c" "(lower_char c = CHR 91) = (c = CHR 91)" "(lower_char c = newline) = (c = newline)"
  "(lower_char c = CHR 93) = (c = CHR 93)"
proof -
  note same = lower_char_same [of "CHR 91" c] lower_char_same [of newline c] lower_char_same [of "CHR 93" c]
  show "(lower_char c = CHR 91) = (c = CHR 91)" by (rule same(1)) (simp_all only: code_values, simp_all)
  show "(lower_char c = newline) = (c = newline)" by (rule same(2)) (simp_all only: code_values, simp_all)
  show "(lower_char c = CHR 93) = (c = CHR 93)" by (rule same(3)) (simp_all only: code_values, simp_all)
qed (rule lower_char_word)

lemma plain_lower:
  assumes "lower w \<in> set ws" and "list_all plain_word ws"
  shows "plain_word w"
proof -
  have p: "plain_word (lower w)" using assms by (auto simp: list_all_iff)
  then have w: "w \<noteq> []" by (auto simp: plain_word_def lower_def)
  have mem: "d \<in> set (lower w) \<longleftrightarrow> d \<in> set w" if "\<And>c. (lower_char c = d) = (c = d)" for d
    using that by (auto simp: lower_def image_iff eq_commute [of d])
  have "CHR 91 \<notin> set w" "CHR 93 \<notin> set w" "newline \<notin> set w"
    using p mem [OF lower_char_facts(2)] mem [OF lower_char_facts(3)] mem [OF lower_char_facts(4)]
    unfolding plain_word_def by blast+
  moreover have "hd (lower w) = lower_char (hd w)" "last (lower w) = lower_char (last w)"
    using w by (simp_all add: lower_def hd_map last_map)
  ultimately show ?thesis using p w unfolding plain_word_def by (simp add: lower_char_word)
qed

section \<open>Substitution\<close>

text \<open>The output of the scan of a rail, from a position on.\<close>

definition sub_from :: "regex \<Rightarrow> string \<Rightarrow> string \<Rightarrow> string" where
  "sub_from r pre rest = concat (map (\<lambda>p. case p of Matched _ \<Rightarrow> redacted | Kept c \<Rightarrow> [c]) (scan r pre rest))"

lemma rail_shorter: "word_rail r ws col \<Longrightarrow> match_at r pre rest = Some (pre', rest', g) \<Longrightarrow> length rest' < length rest"
  unfolding word_rail_def by (metis length_append length_greater_0_conv less_add_same_cancel2)

lemma sub_from_match:
  "word_rail r ws col \<Longrightarrow> match_at r pre rest = Some (pre', rest', g) \<Longrightarrow> sub_from r pre rest = redacted @ sub_from r pre' rest'"
  unfolding sub_from_def by (subst scan.simps) (simp add: rail_shorter)

lemma sub_from_keep: "match_at r pre (c # cs) = None \<Longrightarrow> sub_from r pre (c # cs) = c # sub_from r (c # pre) cs"
  unfolding sub_from_def by (subst scan.simps) simp

lemma sub_from_nil: "match_at r pre [] = None \<Longrightarrow> sub_from r pre [] = []"
  unfolding sub_from_def by (subst scan.simps) simp

lemma rail_nil: "word_rail r ws col \<Longrightarrow> match_at r pre [] = None"
  using rail_shorter [of r ws col pre "[]"] by (cases "match_at r pre []") auto

lemma redacted_facts: "redacted = CHR 91 # tl redacted" "takeWhile is_dot (redacted @ s) = redacted @ takeWhile is_dot s"
  "CHR 58 \<notin> set redacted"
proof -
  have "list_all is_dot redacted" by code_simp
  then show "takeWhile is_dot (redacted @ s) = redacted @ takeWhile is_dot s" by (simp add: list_all_iff)
qed (simp_all add: redacted_def)

text \<open>A word without the bracket at the front of the output is kept text.\<close>

lemma kept_prefix:
  assumes "word_rail r ws col"
  shows "sub_from r pre rest = w @ out \<Longrightarrow> CHR 91 \<notin> set w \<Longrightarrow> \<exists>rest'. rest = w @ rest' \<and> out = sub_from r (rev w @ pre) rest'"
proof (induction w arbitrary: pre rest)
  case (Cons c w)
  show ?case
  proof (cases "match_at r pre rest")
    case None
    then obtain cs where "rest = c # cs" "sub_from r (c # pre) cs = w @ out"
      using Cons.prems(1) sub_from_keep [of r pre] sub_from_nil [of r pre] by (cases rest) auto
    with Cons.IH [of "c # pre" cs] Cons.prems(2) show ?thesis by auto
  next
    case (Some m)
    then have "sub_from r pre rest = redacted @ sub_from r (fst m) (fst (snd m))"
      using sub_from_match [OF assms] by (cases m) auto
    with Cons.prems redacted_facts(1) show ?thesis by (metis append_Cons list.inject list.set_intros(1))
  qed
qed auto

text \<open>The output has a colon in the line only if the input has.\<close>

lemma colon_line_sub:
  assumes "word_rail r ws col"
  shows "colon_line (sub_from r pre rest) \<Longrightarrow> colon_line rest"
proof (induction "length rest" arbitrary: pre rest rule: less_induct)
  case less
  show ?case
  proof (cases "match_at r pre rest")
    case None
    show ?thesis
    proof (cases rest)
      case Nil
      with None less.prems show ?thesis by (simp add: sub_from_nil)
    next
      case (Cons c cs)
      with None less.prems less.hyps [of cs "c # pre"] show ?thesis
        by (auto simp: sub_from_keep colon_line_def split: if_splits)
    qed
  next
    case (Some m)
    obtain pre' rest' g where m: "match_at r pre rest = Some (pre', rest', g)" using Some by (cases m) auto
    have "colon_line (sub_from r pre' rest')"
      using less.prems redacted_facts(2,3) by (simp add: sub_from_match [OF assms m] colon_line_def)
    then have "colon_line rest'" using less.hyps rail_shorter [OF assms m] by blast
    moreover obtain w where "rest = w @ rest'" "newline \<notin> set w" using assms m unfolding word_rail_def by blast
    ultimately show ?thesis by (auto simp: colon_line_def takeWhile_append is_dot_def)
  qed
qed

text \<open>
  The heart of the argument: an occurrence in the output is an occurrence in the input, at a
  position the scan kept.
\<close>

lemma hd_word_append: "w \<noteq> [] \<Longrightarrow> hd_word (w @ s) = is_word (hd w)"
  by (cases w) auto

lemma hd_word_rev: "w \<noteq> [] \<Longrightarrow> hd_word (rev w @ s) = is_word (last w)"
  by (cases w rule: rev_cases) auto

lemma occurs_sub:
  assumes r: "word_rail r ws col" and q: "list_all plain_word vs" and occ: "occurs vs c (sub_from r pre rest)"
  shows "occurs vs c rest" and "match_at r pre rest = None"
proof -
  from occ obtain w out where w: "sub_from r pre rest = w @ out" "lower w \<in> set vs" "\<not> hd_word out" "c \<longrightarrow> colon_line out"
    unfolding occurs_def by blast
  have "plain_word w" by (rule plain_lower [OF w(2) q])
  then have ne: "w \<noteq> []" "is_word (last w)" "CHR 91 \<notin> set w" by (simp_all add: plain_word_def)
  from kept_prefix [OF r w(1) ne(3)] obtain rest' where k: "rest = w @ rest'" "out = sub_from r (rev w @ pre) rest'" by blast
  have inner: "match_at r (rev w @ pre) rest' = None"
    using r hd_word_rev [OF ne(1), of pre] ne(2) unfolding word_rail_def by blast
  have "\<not> hd_word rest'"
    using w(3) k(2) inner by (cases rest') (auto simp: sub_from_keep)
  moreover have "c \<longrightarrow> colon_line rest'" using w(4) k(2) colon_line_sub [OF r] by blast
  ultimately show "occurs vs c rest" using k(1) w(2) unfolding occurs_def by blast
  show "match_at r pre rest = None"
  proof (rule ccontr)
    assume "match_at r pre rest \<noteq> None"
    then obtain m where "sub_from r pre rest = redacted @ m" using sub_from_match [OF r] by fast
    then have "hd (w @ out) = CHR 91" unfolding w(1) [symmetric] by (simp add: redacted_def)
    with ne(1,3) show False by (cases w) auto
  qed
qed

text \<open>Searching for rail \<open>q\<close> in the output of rail \<open>r\<close>, with the output read so far in front.\<close>

lemma split_Cons: "(\<exists>a b. x # s = a @ b \<and> P a b) \<longleftrightarrow> P [] (x # s) \<or> (\<exists>a b. s = a @ b \<and> P (x # a) b)"
proof
  assume "\<exists>a b. x # s = a @ b \<and> P a b"
  then obtain a b where "x # s = a @ b" "P a b" by blast
  then show "P [] (x # s) \<or> (\<exists>a b. s = a @ b \<and> P (x # a) b)" by (cases a) auto
next
  assume "P [] (x # s) \<or> (\<exists>a b. s = a @ b \<and> P (x # a) b)"
  then show "\<exists>a b. x # s = a @ b \<and> P a b" by (metis append_Cons append_Nil)
qed

lemma search_rail:
  assumes "word_rail q vs c"
  shows "search_from q pre s \<longleftrightarrow> (\<exists>a b. s = a @ b \<and> \<not> hd_word (rev a @ pre) \<and> occurs vs c b)"
proof (induction s arbitrary: pre)
  case Nil
  then show ?case using assms unfolding word_rail_def by simp
next
  case (Cons x s)
  have m: "match_at q pre (x # s) \<noteq> None \<longleftrightarrow> \<not> hd_word pre \<and> occurs vs c (x # s)"
    using assms unfolding word_rail_def by blast
  then show ?case using Cons.IH [of "x # pre"] split_Cons [of x s "\<lambda>a b. \<not> hd_word (rev a @ pre) \<and> occurs vs c b"] by simp
qed

lemma occurs_word: "occurs vs c s \<Longrightarrow> list_all plain_word vs \<Longrightarrow> hd_word s"
  unfolding occurs_def by (metis hd_word_append plain_lower plain_word_def)

text \<open>No occurrence starts in the replacement text.\<close>

lemma redacted_no_occurrence:
  assumes "list_all plain_word vs" and "''redacted'' \<notin> set vs"
  shows "\<not> occurs vs c (''REDACTED]'' @ s)"
proof
  assume "occurs vs c (''REDACTED]'' @ s)"
  then obtain w r where w: "''REDACTED]'' @ s = w @ r" "lower w \<in> set vs" "\<not> hd_word r" unfolding occurs_def by blast
  have p: "w \<noteq> []" "CHR 93 \<notin> set w" using plain_lower [OF w(2) assms(1)] by (simp_all add: plain_word_def)
  have words: "list_all is_word ''REDACTED''" by code_simp
  have "w = ''REDACTED''"
    using w(1,3) p words by (auto simp: Cons_eq_append_conv)
  moreover have "lower ''REDACTED'' = ''redacted''" by code_simp
  ultimately show False using w(2) assms(2) by simp
qed

lemma search_redacted:
  assumes "word_rail q vs c" and "search_from q pre (redacted @ s)"
  shows "search_from q (rev redacted @ pre) s"
proof -
  have plain: "list_all plain_word vs" "''redacted'' \<notin> set vs" using assms(1) by (simp_all add: word_rail_def)
  have no: "match_at q p t = None" if "hd_word p \<or> \<not> occurs vs c t" for p t
    using assms(1) that unfolding word_rail_def by blast
  have "\<not> hd_word (CHR 91 # t)" "\<not> hd_word (CHR 93 # t)" for t
    by (simp_all add: is_word_def is_digit_def code_values)
  then have first: "match_at q p (CHR 91 # t) = None" "match_at q p (CHR 93 # t) = None" for p t
    using occurs_word [OF _ plain(1)] no by blast+
  have second: "match_at q p (''REDACTED]'' @ t) = None" for p t
    using redacted_no_occurrence [OF plain] by (intro no) blast
  have letters: "match_at q (d # p) t = None" if "d \<in> set ''REDACTED''" for d p t
    using that by (intro no) (auto simp: is_word_def is_digit_def code_def)
  show ?thesis
    using assms(2) second by (simp add: redacted_def first letters)
qed

text \<open>An occurrence anywhere in the output comes from an occurrence in the input the scan did not replace.\<close>

lemma search_sub:
  assumes r: "word_rail r ws col" and q: "word_rail q vs c"
  shows "search_from q opre (sub_from r pre rest) \<Longrightarrow> (hd_word pre \<longrightarrow> hd_word opre \<or> \<not> hd_word rest) \<Longrightarrow>
    \<exists>a b. rest = a @ b \<and> \<not> hd_word (rev a @ pre) \<and> occurs vs c b \<and> match_at r (rev a @ pre) b = None"
proof (induction "length rest" arbitrary: opre pre rest rule: less_induct)
  case less
  have plain: "list_all plain_word vs" using q by (simp add: word_rail_def)
  have qm: "match_at q p s \<noteq> None \<longleftrightarrow> \<not> hd_word p \<and> occurs vs c s" for p s
    using q unfolding word_rail_def by blast
  show ?case
  proof (cases "match_at r pre rest")
    case None
    show ?thesis
    proof (cases rest)
      case Nil
      with less.prems(1) rail_nil [OF q] show ?thesis by (simp add: sub_from_nil rail_nil [OF r])
    next
      case (Cons x xs)
      with None less.prems(1) consider
        (here) "match_at q opre (sub_from r pre rest) \<noteq> None" | (later) "search_from q (x # opre) (sub_from r (x # pre) xs)"
        by (auto simp: sub_from_keep)
      then show ?thesis
      proof cases
        case here
        then have "\<not> hd_word opre" "occurs vs c rest" using qm occurs_sub [OF r plain] by blast+
        moreover have "hd_word rest" using \<open>occurs vs c rest\<close> plain by (rule occurs_word)
        ultimately show ?thesis using None less.prems(2) by (intro exI [of _ "[]"] exI [of _ rest]) auto
      next
        case later
        have "length xs < length rest" using Cons by simp
        from less.hyps [OF this later] obtain a b where
          "xs = a @ b" "\<not> hd_word (rev a @ x # pre)" "occurs vs c b" "match_at r (rev a @ x # pre) b = None" by auto
        then show ?thesis using Cons by (intro exI [of _ "x # a"] exI [of _ b]) auto
      qed
    qed
  next
    case (Some m)
    obtain pre' rest' g where m: "match_at r pre rest = Some (pre', rest', g)" using Some by (cases m) auto
    obtain w where w: "rest = w @ rest'" "pre' = rev w @ pre" and b: "hd_word pre' \<longrightarrow> \<not> hd_word rest'"
      using r m unfolding word_rail_def by blast
    have "search_from q (rev redacted @ opre) (sub_from r pre' rest')"
      using less.prems(1) sub_from_match [OF r m] search_redacted [OF q] by simp
    from less.hyps [OF rail_shorter [OF r m] this] b obtain a d where
      "rest' = a @ d" "\<not> hd_word (rev a @ pre')" "occurs vs c d" "match_at r (rev a @ pre') d = None" by auto
    then show ?thesis using w by (intro exI [of _ "w @ a"] exI [of _ d]) auto
  qed
qed

section \<open>The patterns are rails\<close>

text \<open>A pattern without boundaries that matches exactly the words of a list.\<close>

definition word_set :: "regex \<Rightarrow> string list \<Rightarrow> bool" where
  "word_set r ws \<longleftrightarrow> (\<forall>pre rest g x. x \<in> set (ends r (pre, rest, g)) \<longleftrightarrow>
     (\<exists>w s. rest = w @ s \<and> lower w \<in> set ws \<and> x = (rev w @ pre, s, g)))"

lemma lower_append: "lower (a @ b) = lower a @ lower b"
  by (simp add: lower_def)

lemma word_set_Eps: "word_set Eps [[]]"
  by (auto simp: word_set_def lower_def)

lemma lower_prefix: "lower (take (length v) rest) = lower v \<longleftrightarrow> (\<exists>w s. rest = w @ s \<and> lower w = lower v)"
proof
  assume l: "lower (take (length v) rest) = lower v"
  then show "\<exists>w s. rest = w @ s \<and> lower w = lower v" by (metis append_take_drop_id)
next
  assume "\<exists>w s. rest = w @ s \<and> lower w = lower v"
  then obtain w s where w: "rest = w @ s" "lower w = lower v" by blast
  then have "length w = length v" unfolding lower_def by (metis length_map)
  with w show "lower (take (length v) rest) = lower v" by simp
qed

lemma word_set_lit_i: "word_set (lit_i v) [lower v]"
proof -
  have "w = take (length v) (w @ s) \<and> s = drop (length v) (w @ s)" if "lower w = lower v" for w s
    using that unfolding lower_def by (metis append_eq_conv_conj length_map)
  then show ?thesis
    unfolding word_set_def ends_lit_i by (auto simp: lower_prefix)
qed

lemma word_set_Seq:
  assumes "word_set r1 ws1" and "word_set r2 ws2"
  shows "word_set (Seq r1 r2) (map (\<lambda>(a, b). a @ b) (List.product ws1 ws2))"
  unfolding word_set_def
proof (intro allI)
  fix pre rest g x
  have "x \<in> set (ends (Seq r1 r2) (pre, rest, g)) \<longleftrightarrow>
      (\<exists>w s. rest = w @ s \<and> lower w \<in> set ws1 \<and> x \<in> set (ends r2 (rev w @ pre, s, g)))"
    using assms(1) unfolding word_set_def by auto metis
  also have "\<dots> \<longleftrightarrow> (\<exists>w v t. rest = w @ v @ t \<and> lower w \<in> set ws1 \<and> lower v \<in> set ws2 \<and> x = (rev (w @ v) @ pre, t, g))"
  proof -
    have m2: "x \<in> set (ends r2 (p, s, g)) \<longleftrightarrow> (\<exists>v t. s = v @ t \<and> lower v \<in> set ws2 \<and> x = (rev v @ p, t, g))" for p s
      using assms(2) unfolding word_set_def by blast
    show ?thesis unfolding m2 rev_append append.assoc by blast
  qed
  also have "\<dots> \<longleftrightarrow> (\<exists>u t. rest = u @ t \<and> (\<exists>a b. lower u = a @ b \<and> a \<in> set ws1 \<and> b \<in> set ws2) \<and> x = (rev u @ pre, t, g))"
  proof -
    have eq: "(\<exists>a b. lower u = a @ b \<and> a \<in> set ws1 \<and> b \<in> set ws2) \<longleftrightarrow>
        (\<exists>w v. u = w @ v \<and> lower w \<in> set ws1 \<and> lower v \<in> set ws2)" for u
      unfolding lower_def map_eq_append_conv by blast
    show ?thesis unfolding eq append.assoc [symmetric] by blast
  qed
  finally show "x \<in> set (ends (Seq r1 r2) (pre, rest, g)) \<longleftrightarrow>
      (\<exists>w s. rest = w @ s \<and> lower w \<in> set (map (\<lambda>(a, b). a @ b) (List.product ws1 ws2)) \<and> x = (rev w @ pre, s, g))"
    by force
qed

lemma word_set_Alt: "word_set r1 ws1 \<Longrightarrow> word_set r2 ws2 \<Longrightarrow> word_set (Alt r1 r2) (ws1 @ ws2)"
  unfolding word_set_def by auto

lemma word_set_any_word: "ws \<noteq> [] \<Longrightarrow> word_set (any_word ws) (map lower ws)"
proof (induction ws rule: induct_list012)
  case (2 w)
  then show ?case by (simp add: any_word_def word_set_lit_i)
next
  case (3 v w ws)
  then show ?case using word_set_Alt [OF word_set_lit_i [of v] 3(2)] by (simp add: any_word_def)
qed simp

lemma word_set_separator: "word_set (opt (one_of ''_ '')) [''_'', '' '', []]"
proof -
  have codes: "code (CHR 95) = 95" "code (CHR 32) = 32" by code_simp+
  have "(lower_char c = CHR 95) = (c = CHR 95)" "(lower_char c = CHR 32) = (c = CHR 32)" for c
    by (rule lower_char_same; simp only: codes; simp)+
  then have words: "lower w \<in> set [''_'', '' '', []] \<longleftrightarrow> w \<in> {''_'', '' '', []}" for w
    unfolding lower_def by (cases w) auto
  show ?thesis
    unfolding word_set_def words
  proof (intro allI)
    fix pre rest g x
    show "x \<in> set (ends (opt (one_of ''_ '')) (pre, rest, g)) \<longleftrightarrow>
      (\<exists>w s. rest = w @ s \<and> w \<in> {''_'', '' '', []} \<and> x = (rev w @ pre, s, g))"
      by (cases rest) (auto simp: opt_def one_of_def)
  qed
qed

text \<open>
  A word between boundaries, then a tail that reads nothing or something of the line that does not
  end in a word character.
\<close>

definition rail_tail :: "regex \<Rightarrow> bool \<Rightarrow> bool" where
  "rail_tail r col \<longleftrightarrow> (\<forall>pre rest g. (ends r (pre, rest, g) \<noteq> [] \<longleftrightarrow> (col \<longrightarrow> colon_line rest)) \<and>
     (\<forall>pre' rest' g'. (pre', rest', g') \<in> set (ends r (pre, rest, g)) \<longrightarrow>
        (\<exists>m. rest = m @ rest' \<and> pre' = rev m @ pre \<and> newline \<notin> set m \<and> (m = [] \<or> \<not> hd_word pre'))))"

lemma word_rail_intro:
  assumes b: "word_set body ws" and t: "rail_tail tail col" and p: "list_all plain_word ws" "''redacted'' \<notin> set ws"
    and r: "\<And>x. set (ends r x) = set (ends (Seq Bound (Seq body (Seq Bound tail))) x)"
  shows "word_rail r ws col"
proof -
  have mem: "x \<in> set (ends r (pre, rest, g)) \<longleftrightarrow> (\<exists>w s. rest = w @ s \<and> lower w \<in> set ws \<and>
      \<not> hd_word pre \<and> \<not> hd_word s \<and> x \<in> set (ends tail (rev w @ pre, s, g)))" for x pre rest g
  proof -
    have "x \<in> set (ends r (pre, rest, g)) \<longleftrightarrow> hd_word pre \<noteq> hd_word rest \<and>
        (\<exists>y \<in> set (ends body (pre, rest, g)). x \<in> set (ends (Seq Bound tail) y))" unfolding r by auto
    also have "\<dots> \<longleftrightarrow> hd_word pre \<noteq> hd_word rest \<and> (\<exists>w s. rest = w @ s \<and> lower w \<in> set ws \<and>
        hd_word (rev w @ pre) \<noteq> hd_word s \<and> x \<in> set (ends tail (rev w @ pre, s, g)))"
    proof -
      have in_body: "y \<in> set (ends body (pre, rest, g)) \<longleftrightarrow> (\<exists>w s. rest = w @ s \<and> lower w \<in> set ws \<and> y = (rev w @ pre, s, g))" for y
        using b unfolding word_set_def by (elim allE)
      have "(\<exists>y \<in> set (ends body (pre, rest, g)). P y) \<longleftrightarrow> (\<exists>w s. rest = w @ s \<and> lower w \<in> set ws \<and> P (rev w @ pre, s, g))" for P
        unfolding Bex_def in_body by blast
      from this [of "\<lambda>y. x \<in> set (ends (Seq Bound tail) y)"] show ?thesis by simp
    qed
    also have "\<dots> \<longleftrightarrow> (\<exists>w s. rest = w @ s \<and> lower w \<in> set ws \<and> \<not> hd_word pre \<and> \<not> hd_word s \<and>
        x \<in> set (ends tail (rev w @ pre, s, g)))"
      using plain_lower [OF _ p(1)] hd_word_append hd_word_rev unfolding plain_word_def by blast
    finally show ?thesis .
  qed
  have "match_at r pre rest \<noteq> None \<longleftrightarrow> \<not> hd_word pre \<and> occurs ws col rest" for pre rest
  proof -
    have "match_at r pre rest \<noteq> None \<longleftrightarrow> (\<exists>x. x \<in> set (ends r (pre, rest, [])))"
      unfolding match_at_None by (metis equals0I length_greater_0_conv list.set(1) nth_mem empty_iff)
    also have "\<dots> \<longleftrightarrow> (\<exists>w s. rest = w @ s \<and> lower w \<in> set ws \<and> \<not> hd_word pre \<and> \<not> hd_word s \<and>
        ends tail (rev w @ pre, s, []) \<noteq> [])"
      unfolding mem by (metis list.set_intros(1) neq_Nil_conv list.set(1) empty_iff)
    finally show ?thesis using t unfolding rail_tail_def occurs_def by blast
  qed
  moreover have "(\<exists>m. m \<noteq> [] \<and> rest = m @ rest' \<and> pre' = rev m @ pre \<and> newline \<notin> set m) \<and> (hd_word pre' \<longrightarrow> \<not> hd_word rest')"
    if "match_at r pre rest = Some (pre', rest', g)" for pre rest pre' rest' g
  proof -
    have "(pre', rest', g) \<in> set (ends r (pre, rest, []))" using that by (auto simp: match_at_def split: list.splits)
    then obtain w s where w: "rest = w @ s" "lower w \<in> set ws" "\<not> hd_word s" "(pre', rest', g) \<in> set (ends tail (rev w @ pre, s, []))"
      unfolding mem by blast
    from t w(4) obtain m where m: "s = m @ rest'" "pre' = rev m @ rev w @ pre" "newline \<notin> set m" "m = [] \<or> \<not> hd_word pre'"
      unfolding rail_tail_def by blast
    have "w \<noteq> []" "newline \<notin> set w" using plain_lower [OF w(2) p(1)] by (simp_all add: plain_word_def)
    then show ?thesis using w(1,3) m by (intro conjI exI [of _ "w @ m"]) auto
  qed
  ultimately show ?thesis using p unfolding word_rail_def by blast
qed

lemma rail_tail_Eps: "rail_tail Eps False"
  by (simp add: rail_tail_def)

lemma colon_no_word: "\<not> is_word (CHR 58)" "is_dot (CHR 58)" "CHR 58 \<noteq> newline"
  by code_simp+

lemma starts_with_colon: "starts_with '':'' s \<longleftrightarrow> s = CHR 58 # List.tl s"
  by (cases s) (auto simp: starts_with_def)

lemma rail_tail_colon: "rail_tail (Seq (Rep False 0 is_dot) (Seq (lit '':'') Eps)) True"
  unfolding rail_tail_def
proof (intro allI conjI impI)
  fix pre rest g
  let ?n = "length (takeWhile is_dot rest)"
  have "ends (Seq (Rep False 0 is_dot) (Seq (lit '':'') Eps)) (pre, rest, g) \<noteq> [] \<longleftrightarrow>
      (\<exists>k \<le> ?n. starts_with '':'' (drop k rest))"
    by (auto simp: ends_lit)
  also have "\<dots> \<longleftrightarrow> colon_line rest"
  proof
    assume "\<exists>k \<le> ?n. starts_with '':'' (drop k rest)"
    then obtain k where d: "k \<le> ?n" "drop k rest = CHR 58 # List.tl (drop k rest)" unfolding starts_with_colon by blast
    have "k < length rest" using d(2) by (metis drop_all list.distinct(1) not_less)
    moreover have "rest ! k = CHR 58" using d(2) hd_drop_conv_nth [OF \<open>k < length rest\<close>] by (metis list.sel(1))
    ultimately have k: "k \<le> ?n" "k < length rest" "rest ! k = CHR 58" using d(1) by simp_all
    then have "k < ?n" using colon_no_word(2) nth_length_takeWhile [of is_dot rest] by (metis le_neq_implies_less)
    then show "colon_line rest" unfolding colon_line_def using k(3) by (metis nth_mem takeWhile_nth)
  next
    assume "colon_line rest"
    then obtain k where k: "k < ?n" "takeWhile is_dot rest ! k = CHR 58" unfolding colon_line_def by (meson in_set_conv_nth)
    then have "k < length rest" "rest ! k = CHR 58" using length_takeWhile_le [of is_dot rest] by (auto simp: takeWhile_nth)
    then have "starts_with '':'' (drop k rest)" by (simp add: starts_with_def flip: Cons_nth_drop_Suc)
    with k(1) show "\<exists>k \<le> ?n. starts_with '':'' (drop k rest)" by (meson less_imp_le)
  qed
  finally show "ends (Seq (Rep False 0 is_dot) (Seq (lit '':'') Eps)) (pre, rest, g) \<noteq> [] \<longleftrightarrow> (True \<longrightarrow> colon_line rest)" by simp
  fix pre' rest' g'
  assume "(pre', rest', g') \<in> set (ends (Seq (Rep False 0 is_dot) (Seq (lit '':'') Eps)) (pre, rest, g))"
  then obtain k where k: "k \<le> ?n" "starts_with '':'' (drop k rest)" "pre' = CHR 58 # rev (take k rest) @ pre"
    "rest' = drop (Suc k) rest" by (auto simp: ends_lit)
  have "take k rest = take k (takeWhile is_dot rest)" using k(1) by (metis takeWhile_eq_take take_take min.absorb1)
  then have "newline \<notin> set (take k rest)" by (metis in_set_takeD is_dot_def set_takeWhileD)
  moreover have "drop k rest = CHR 58 # rest'" using k(2,4) by (metis drop_Suc starts_with_colon tl_drop)
  then have "rest = (take k rest @ '':'') @ rest'" by (metis append_Cons append_Nil append_assoc append_take_drop_id)
  ultimately show "\<exists>m. rest = m @ rest' \<and> pre' = rev m @ pre \<and> newline \<notin> set m \<and> (m = [] \<or> \<not> hd_word pre')"
    using k(3) colon_no_word by (intro exI [of _ "take k rest @ '':''"]) auto
qed

lemma bounded_rail:
  assumes "word_set body ws" and "list_all plain_word ws" and "''redacted'' \<notin> set ws"
  shows "word_rail (bounded body) ws False"
  by (rule word_rail_intro [OF assms(1) rail_tail_Eps assms(2,3)]) (simp add: bounded_def)

text \<open>\<open>label[_ ]?word\<close>\<close>

definition joined :: "string \<Rightarrow> string \<Rightarrow> string list" where
  "joined a b = [a @ ''_'' @ b, a @ '' '' @ b, a @ b]"

lemma word_set_joined: "word_set (Seq (lit_i a) (Seq (opt (one_of ''_ '')) (lit_i b))) (joined (lower a) (lower b))"
  using word_set_Seq [OF word_set_lit_i [of a] word_set_Seq [OF word_set_separator word_set_lit_i [of b]]]
  by (simp add: joined_def)

lemma id_label_rail:
  assumes "list_all plain_word (joined (lower w) ''id'')" and "''redacted'' \<notin> set (joined (lower w) ''id'')"
  shows "word_rail (id_label w) (joined (lower w) ''id'') True"
proof (rule word_rail_intro)
  have "lower ''id'' = ''id''" by code_simp
  then show "word_set (Seq (lit_i w) (Seq (opt (one_of ''_ '')) (lit_i ''id''))) (joined (lower w) ''id'')"
    using word_set_joined [of w "''id''"] by simp
  show "set (ends (id_label w) x) = set (ends (Seq Bound (Seq (Seq (lit_i w) (Seq (opt (one_of ''_ '')) (lit_i ''id'')))
      (Seq Bound (Seq (Rep False 0 is_dot) (Seq (lit '':'') Eps))))) x)" for x
    by (simp add: id_label_def)
qed (use assms rail_tail_colon in auto)

lemma session_state_rail:
  "word_rail (seqs [Bound, lit_i ''session'', opt (one_of ''_ ''), lit_i ''state'', Bound]) (joined ''session'' ''state'') False"
proof (rule word_rail_intro)
  have "lower ''session'' = ''session''" "lower ''state'' = ''state''" by code_simp+
  then show "word_set (Seq (lit_i ''session'') (Seq (opt (one_of ''_ '')) (lit_i ''state''))) (joined ''session'' ''state'')"
    using word_set_joined [of "''session''" "''state''"] by simp
  show "list_all plain_word (joined ''session'' ''state'')" "''redacted'' \<notin> set (joined ''session'' ''state'')" by code_simp+
  show "rail_tail Eps False" by (rule rail_tail_Eps)
qed simp

lemma any_word_rail:
  assumes "map lower ws = ws" and "ws \<noteq> []" and "list_all plain_word ws" and "''redacted'' \<notin> set ws"
  shows "word_rail (bounded (any_word ws)) ws False"
  using bounded_rail [OF word_set_any_word [OF assms(2)]] assms by simp

definition is_rail :: "regex \<Rightarrow> bool" where
  "is_rail r \<longleftrightarrow> (\<exists>ws col. word_rail r ws col)"

lemma internal_rails: "list_all (\<lambda>(r, _, _). is_rail r) internal_data_patterns"
proof -
  have id_rail: "is_rail (id_label w)"
    if "list_all plain_word (joined (lower w) ''id'')" "''redacted'' \<notin> set (joined (lower w) ''id'')" for w
    using id_label_rail [OF that] unfolding is_rail_def by blast
  have "list_all plain_word (joined (lower ''step'') ''id'')" "''redacted'' \<notin> set (joined (lower ''step'') ''id'')"
    "list_all plain_word (joined (lower ''procedure'') ''id'')" "''redacted'' \<notin> set (joined (lower ''procedure'') ''id'')"
    by code_simp+
  then have "is_rail (id_label ''step'')" "is_rail (id_label ''procedure'')" using id_rail by blast+
  moreover have words: "is_rail (bounded (any_word ws))"
    if "map lower ws = ws" "ws \<noteq> []" "list_all plain_word ws" "''redacted'' \<notin> set ws" for ws
    using any_word_rail [OF that] unfolding is_rail_def by blast
  have "is_rail (bounded (any_word [''sql'', ''query'', ''database'', ''db_path'', ''sqlite'']))"
    "is_rail (bounded (any_word [''api_key'', ''secret_key'', ''password'', ''credential'']))"
    "is_rail (bounded (any_word [''tool_context'']))"
    by (rule words; code_simp)+
  moreover have "is_rail (seqs [Bound, lit_i ''session'', opt (one_of ''_ ''), lit_i ''state'', Bound])"
    using session_state_rail unfolding is_rail_def by blast
  ultimately show ?thesis
    unfolding internal_data_patterns_def by (simp del: seqs_simps add: any_word_def)
qed

section \<open>Redaction leaves nothing\<close>

lemma re_sub_from: "re_sub r redacted t = sub_from r [] t"
  unfolding re_sub_def sub_from_def ..

text \<open>Replacing the matches of a rail removes them all, and creates none of another.\<close>

lemma sub_creates_none:
  assumes "is_rail r" and "is_rail q" and "re_search q (re_sub r redacted t)"
  shows "re_search q t"
proof -
  obtain ws col vs c where r: "word_rail r ws col" and q: "word_rail q vs c" using assms(1,2) unfolding is_rail_def by blast
  from search_sub [OF r q, of "[]" "[]" t] assms(3) show ?thesis
    unfolding re_search_def re_sub_from search_rail [OF q] by auto
qed

lemma sub_removes_all:
  assumes "is_rail r"
  shows "\<not> re_search r (re_sub r redacted t)"
proof
  assume s: "re_search r (re_sub r redacted t)"
  obtain ws col where r: "word_rail r ws col" using assms unfolding is_rail_def by blast
  from search_sub [OF r r, of "[]" "[]" t] s obtain a b where
    "\<not> hd_word (rev a)" "occurs ws col b" "match_at r (rev a) b = None"
    unfolding re_search_def re_sub_from by auto
  then show False using r unfolding word_rail_def by blast
qed

lemma fold_redaction:
  assumes "list_all is_rail rs" and "\<And>q. is_rail q \<Longrightarrow> re_search q t \<Longrightarrow> re_search q t0"
  shows "(\<forall>q. is_rail q \<longrightarrow> re_search q (fold (\<lambda>r u. if re_search r t0 then re_sub r redacted u else u) rs t) \<longrightarrow> re_search q t) \<and>
    list_all (\<lambda>r. \<not> re_search r (fold (\<lambda>r u. if re_search r t0 then re_sub r redacted u else u) rs t)) rs"
  using assms
proof (induction rs arbitrary: t)
  case (Cons r rs)
  let ?u = "if re_search r t0 then re_sub r redacted t else t"
  have r: "is_rail r" "list_all is_rail rs" using Cons.prems(1) by simp_all
  have mono: "re_search q t" if "is_rail q" "re_search q ?u" for q
    using that sub_creates_none [OF r(1)] by (auto split: if_splits)
  have gone: "\<not> re_search r ?u" using sub_removes_all [OF r(1)] Cons.prems(2) [OF r(1)] by auto
  from Cons.IH [OF r(2), of ?u] mono Cons.prems(2) have
    "(\<forall>q. is_rail q \<longrightarrow> re_search q (fold (\<lambda>r u. if re_search r t0 then re_sub r redacted u else u) rs ?u) \<longrightarrow> re_search q ?u) \<and>
      list_all (\<lambda>r. \<not> re_search r (fold (\<lambda>r u. if re_search r t0 then re_sub r redacted u else u) rs ?u)) rs" by blast
  then show ?case using mono gone r(1) by auto
qed simp

lemma fold_one_rule:
  "distinct (map (fst \<circ> snd) ps) \<Longrightarrow> (p, k, d) \<in> set ps \<Longrightarrow>
     fold (\<lambda>(pattern, rule, _) t. if rule = k then f pattern t else t) ps t = f p t"
proof (induction ps arbitrary: t)
  case (Cons x ps)
  have skip: "fold (\<lambda>(pattern, rule, _) t. if rule = k then f pattern t else t) qs u = u"
    if "k \<notin> fst ` snd ` set qs" for qs u
    using that by (induction qs arbitrary: u) (auto split: prod.splits)
  obtain q j e where x: "x = (q, j, e)" by (cases x)
  show ?case
  proof (cases "j = k")
    case True
    with Cons.prems x have "k \<notin> fst ` snd ` set ps" "p = q" by (force simp: image_iff)+
    with x True show ?thesis by (simp add: skip)
  next
    case False
    with Cons x show ?thesis by simp
  qed
qed simp

lemma internal_rules_distinct: "distinct (map (fst \<circ> snd) internal_data_patterns)"
  by (simp add: internal_data_patterns_def)

lemma fold_redact_violations:
  "set ps \<subseteq> set internal_data_patterns \<Longrightarrow>
     fold redact (rail_violations ps ''redact'' t0) t =
     fold (\<lambda>r u. if re_search r t0 then re_sub r redacted u else u) (map fst ps) t"
proof (induction ps arbitrary: t)
  case (Cons p ps)
  obtain r k d where p: "p = (r, k, d)" by (cases p)
  have "redact \<lparr>gv_rule = k, gv_description = d, gv_severity = ''redact''\<rparr> u = re_sub r redacted u" for u
    using fold_one_rule [OF internal_rules_distinct, of r k d "\<lambda>r. re_sub r redacted"] Cons.prems p
    by (simp add: redact_def)
  with Cons p show ?case by (simp add: rail_violations_def)
qed (simp add: rail_violations_def)

lemma fold_redact_warnings: "fold redact (rail_violations ps ''warning'' t0) t = t"
  by (induction ps arbitrary: t) (auto simp: rail_violations_def redact_def split: prod.splits)

text \<open>C6: 
  Redaction is complete: whatever the response, the filtered text matches none of the internal-data
  patterns, so a second check would find nothing to redact.
\<close>

theorem redaction_complete: "rail_violations internal_data_patterns ''redact'' (fst (filter_response response)) = []"
proof -
  have "fst (filter_response response) =
      fold (\<lambda>r u. if re_search r response then re_sub r redacted u else u) (map fst internal_data_patterns) response"
    unfolding filter_response_def check_response_def Let_def fst_conv fold_append comp_apply
    by (simp add: fold_redact_violations fold_redact_warnings)
  moreover have "list_all is_rail (map fst internal_data_patterns)"
    using internal_rails by (simp add: list_all_iff case_prod_beta)
  ultimately have "list_all (\<lambda>r. \<not> re_search r (fst (filter_response response))) (map fst internal_data_patterns)"
    using fold_redaction [of "map fst internal_data_patterns" response response] by simp
  then show ?thesis by (auto simp: rail_violations_def filter_empty_conv list_all_iff)
qed

end
