(* ===== verification/Tools.thy ===== *)
theory Tools
  imports Access Refunds Compliance
begin

text \<open>
  The tools over the business database: orders and customers (\<open>tools/crm_tools.py\<close>), Regulation E
  disputes (\<open>tools/dispute_tools.py\<close>), fraud operations (\<open>tools/fraud_tools.py\<close>) and the shared
  ones (\<open>tools/common_tools.py\<close>), with the order search of \<open>database/repository.py\<close>. The state of
  the session is part of the world. The audit logger, the session identifier the framework's
  context carries and \<open>datetime.fromisoformat\<close> (\<open>None\<close> where it raises or the result has a zone)
  are parameters; texts \<open>isoformat\<close> returns are the instants they denote.
\<close>

section \<open>The world of a tool\<close>

record tworld = bworld +
  tool_state :: pdict

type_synonym ('a, 'z) top = "('a, 'z tworld_scheme) op"

record 'z tool_env =
  te_audit :: "AuditEntry \<Rightarrow> (string, 'z) top"
  te_session_id :: string
  te_fromiso :: "string \<Rightarrow> time option"
  te_render :: "json \<Rightarrow> string"

definition set_state :: "string \<Rightarrow> json \<Rightarrow> (unit, 'z) top" where
  "set_state k v = modifyE (\<lambda>s. s\<lparr>tool_state := dict_set (tool_state s) k v\<rparr>)"

definition set_states :: "pdict \<Rightarrow> (unit, 'z) top" where
  "set_states d = modifyE (\<lambda>s. s\<lparr>tool_state := dict_merge (tool_state s) d\<rparr>)"

definition authorize :: "string \<Rightarrow> string option \<Rightarrow> (unit, 'z) top" where
  "authorize tool customer_id = bindE (getE tool_state) (\<lambda>st. liftE (authorize_tool tool st customer_id))"

text \<open>\<open>tool_context.state.get("customer_id", default)\<close> as the actor of an entry.\<close>

definition state_actor :: "string \<Rightarrow> pdict \<Rightarrow> string" where
  "state_actor d st = text_of (get_or st ''customer_id'' d)"

definition tool_entry ::
  "'z tool_env \<Rightarrow> AuditAction \<Rightarrow> string \<Rightarrow> string \<Rightarrow> string \<Rightarrow> pdict option \<Rightarrow> pdict option \<Rightarrow> pdict \<Rightarrow> AuditEntry" where
  "tool_entry env action actor resource_type resource_id before_state after_state metadata =
     \<lparr>ae_entry_id = [], ae_timestamp = 0, ae_correlation_id = None, ae_action = action, ae_actor = actor,
      ae_resource_type = resource_type, ae_resource_id = resource_id, ae_session_id = Some (te_session_id env),
      ae_procedure_id = None, ae_step_id = None, ae_before_state = before_state, ae_after_state = after_state,
      ae_metadata = metadata\<rparr>"

definition audit_tool :: "'z tool_env \<Rightarrow> AuditEntry \<Rightarrow> (unit, 'z) top" where
  "audit_tool env entry = bindE (te_audit env entry) (\<lambda>_. returnE ())"

text \<open>The usual entry: the actor is the session's customer.\<close>

definition audit_session :: "'z tool_env \<Rightarrow> AuditAction \<Rightarrow> string \<Rightarrow> string \<Rightarrow> string \<Rightarrow> pdict \<Rightarrow> (unit, 'z) top" where
  "audit_session env action actor resource_type resource_id metadata =
     bindE (getE tool_state) (\<lambda>st.
     audit_tool env (tool_entry env action (state_actor actor st) resource_type resource_id None None metadata))"

definition rows_json :: "row list \<Rightarrow> json" where
  "rows_json rows = JList (map JObj rows)"

definition not_found :: "string \<Rightarrow> string \<Rightarrow> pdict" where
  "not_found what ident = [(''error'', JStr (what @ '' '' @ ident @ '' not found'')), (''found'', JBool False)]"

section \<open>Orders\<close>

subsection \<open>Search\<close>

text \<open>\<open>LIKE\<close>: \<open>%\<close> any text, \<open>_\<close> one character, letters without case.\<close>

fun sql_like :: "string \<Rightarrow> string \<Rightarrow> bool" where
  "sql_like [] t = (t = [])"
| "sql_like (p # ps) [] = (p = CHR 37 \<and> sql_like ps [])"
| "sql_like (p # ps) (c # cs) =
     (if p = CHR 37 then sql_like ps (c # cs) \<or> sql_like (p # ps) cs
      else (p = CHR 95 \<or> lower_char p = lower_char c) \<and> sql_like ps cs)"

definition like_cell :: "row \<Rightarrow> string \<Rightarrow> string \<Rightarrow> bool" where
  "like_cell r c pattern = (case cell r c of JStr v \<Rightarrow> sql_like pattern v | _ \<Rightarrow> False)"

definition between_num :: "row \<Rightarrow> string \<Rightarrow> rat \<Rightarrow> rat \<Rightarrow> bool" where
  "between_num r c lo hi = (case cell r c of JStr _ \<Rightarrow> False
     | v \<Rightarrow> (case json_num v of Some x \<Rightarrow> lo \<le> x \<and> x \<le> hi | None \<Rightarrow> False))"

definition between_text :: "row \<Rightarrow> string \<Rightarrow> string \<Rightarrow> string \<Rightarrow> bool" where
  "between_text r c lo hi = (case cell r c of JStr v \<Rightarrow> lo \<le> v \<and> v \<le> hi | _ \<Rightarrow> False)"

definition merchant_matches :: "string option \<Rightarrow> row \<Rightarrow> bool" where
  "merchant_matches merchant_name r = (case merchant_name of
      Some (c # cs) \<Rightarrow> like_cell r ''merchant_name'' (''%'' @ (c # cs) @ ''%'') | _ \<Rightarrow> True)"

definition amount_matches :: "rat option \<Rightarrow> row \<Rightarrow> bool" where
  "amount_matches amount r = (case amount of
      Some a \<Rightarrow> 0 < a \<longrightarrow> between_num r ''total'' (a * (9 / 10)) (a * (11 / 10)) | None \<Rightarrow> True)"

definition date_matches :: "(string \<Rightarrow> time option) \<Rightarrow> string option \<Rightarrow> row \<Rightarrow> bool" where
  "date_matches fromiso date r = (case date of
      Some (c # cs) \<Rightarrow> (case fromiso (c # cs) of
          Some target \<Rightarrow> between_text r ''order_date'' (iso_date (target - 3 * day_us)) (iso_date (target + 3 * day_us))
        | None \<Rightarrow> cell r ''order_date'' = JStr (c # cs))
    | _ \<Rightarrow> True)"

definition search_columns :: "string list" where
  "search_columns = [''order_id'', ''merchant_name'', ''total'', ''status'', ''order_date'', ''delivery_date'',
     ''days_since_delivery'', ''payment_method'', ''shipping_address'', ''customer_id'']"

definition order_search ::
  "(string \<Rightarrow> time option) \<Rightarrow> string \<Rightarrow> string option \<Rightarrow> rat option \<Rightarrow> string option \<Rightarrow> (row list, 'z) bop" where
  "order_search fromiso customer_id merchant_name amount date =
     bindE (select_where ''orders'' ''customer_id'' customer_id) (\<lambda>rows.
     returnE (project search_columns (order_desc ''order_date'' (filter (\<lambda>r.
       merchant_matches merchant_name r \<and> amount_matches amount r \<and> date_matches fromiso date r) rows))))"

subsection \<open>Lookup\<close>

text \<open>Days since delivery: computed from the date when it can be parsed, else the stored column.\<close>

definition delivery_days :: "'z tool_env \<Rightarrow> row \<Rightarrow> (json, 'z) top" where
  "delivery_days env order =
     (let stored = or_else (cell order ''days_since_delivery'') (JInt 0) in
      case cell order ''delivery_date'' of
        JStr (c # cs) \<Rightarrow> (case te_fromiso env (c # cs) of
            None \<Rightarrow> returnE stored
          | Some delivery_dt \<Rightarrow> bindE now_op (\<lambda>now. returnE (JInt (days_between now delivery_dt))))
      | _ \<Rightarrow> returnE stored)"

definition order_view :: "row \<Rightarrow> row list \<Rightarrow> json \<Rightarrow> pdict" where
  "order_view order items days =
    [(''order_id'', cell order ''order_id''), (''customer_name'', cell order ''customer_name''),
     (''customer_id'', cell order ''customer_id''), (''email'', cell order ''email''),
     (''merchant_name'', cell order ''merchant_name''), (''items'', rows_json items), (''total'', cell order ''total''),
     (''status'', cell order ''status''), (''order_date'', cell order ''order_date''),
     (''delivery_date'', cell order ''delivery_date''), (''days_since_delivery'', days),
     (''payment_method'', cell order ''payment_method''), (''shipping_address'', cell order ''shipping_address''),
     (''found'', JBool True)]"

definition lookup_order :: "'z tool_env \<Rightarrow> string \<Rightarrow> (pdict, 'z) top" where
  "lookup_order env order_id =
     bindE (authorize ''lookup_order'' None) (\<lambda>_.
     bindE (order_get_by_id order_id) (\<lambda>found.
     bindE (getE tool_state) (\<lambda>st.
     case found of
       None \<Rightarrow> returnE (not_found ''Order'' order_id)
     | Some order \<Rightarrow>
         if truthy_get st ''customer_id'' \<and> cell order ''customer_id'' \<noteq> get_or_null st ''customer_id''
         then returnE (not_found ''Order'' order_id)
         else
         bindE (order_get_items order_id) (\<lambda>items.
         bindE (delivery_days env order) (\<lambda>days.
         let result = order_view order items days in
         bindE (set_states [(''order_data'', JObj result), (''customer_id'', cell order ''customer_id'')]) (\<lambda>_.
         bindE (audit_session env ORDER_LOOKUP ''system'' ''order'' order_id
           [(''status'', cell order ''status''), (''total'', cell order ''total'')]) (\<lambda>_.
         returnE result)))))))"

definition get_customer_profile :: "string \<Rightarrow> (pdict, 'z) top" where
  "get_customer_profile customer_id =
     bindE (authorize ''get_customer_profile'' (Some customer_id)) (\<lambda>_.
     bindE (customer_get_by_id customer_id) (\<lambda>found.
     case found of
       None \<Rightarrow> returnE (not_found ''Customer'' customer_id)
     | Some profile \<Rightarrow>
         bindE (set_state ''customer_data'' (JObj profile)) (\<lambda>_.
         returnE (dict_merge profile [(''found'', JBool True)]))))"

definition item_summary :: "(json \<Rightarrow> string) \<Rightarrow> row \<Rightarrow> string" where
  "item_summary render it = py_str render (cell it ''name'') @ '' (x'' @ py_str render (cell it ''qty'') @ '')''"

definition match_view :: "'z tool_env \<Rightarrow> row \<Rightarrow> (pdict, 'z) top" where
  "match_view env row =
     bindE (order_get_items (text_of (cell row ''order_id''))) (\<lambda>items.
     bindE (delivery_days env row) (\<lambda>days.
     returnE [(''order_id'', cell row ''order_id''), (''merchant_name'', cell row ''merchant_name''),
       (''total'', cell row ''total''), (''status'', cell row ''status''), (''order_date'', cell row ''order_date''),
       (''delivery_date'', cell row ''delivery_date''), (''days_since_delivery'', days),
       (''items_summary'', JStr (if items \<noteq> [] then join '', '' (map (item_summary (te_render env)) items) else ''no items''))]))"

definition no_match :: "string \<Rightarrow> pdict" where
  "no_match message = [(''matches'', JList []), (''count'', JInt 0), (''message'', JStr message)]"

definition nothing_matched :: string where
  "nothing_matched = ''No orders found matching that description.''"

text \<open>A single match also fills the state, as \<open>lookup_order\<close> does.\<close>

definition select_match :: "string \<Rightarrow> pdict \<Rightarrow> (pdict, 'z) top" where
  "select_match customer_id m =
     (let order_id = text_of (cell m ''order_id'') in
      bindE (order_get_by_id order_id) (\<lambda>found.
      case found of
        None \<Rightarrow> returnE (no_match ''The selected order no longer exists.'')
      | Some order \<Rightarrow>
          if cell order ''customer_id'' \<noteq> JStr customer_id then returnE (no_match nothing_matched)
          else
          bindE (order_get_items order_id) (\<lambda>items.
          bindE (set_states [(''order_data'', JObj (order_view order items (cell m ''days_since_delivery''))),
            (''customer_id'', cell order ''customer_id'')]) (\<lambda>_.
          returnE [(''matches'', JList [JObj m]), (''count'', JInt 1),
            (''message'', JStr (''Found order '' @ order_id @ '' from '' @ text_of (cell m ''merchant_name'') @ ''.''))]))))"

definition opt_num :: "rat option \<Rightarrow> json" where
  "opt_num x = (case x of None \<Rightarrow> JNull | Some r \<Rightarrow> JFloat r)"

definition search_orders ::
  "'z tool_env \<Rightarrow> string \<Rightarrow> string option \<Rightarrow> rat option \<Rightarrow> string option \<Rightarrow> (pdict, 'z) top" where
  "search_orders env customer_id merchant_name amount date =
     bindE (authorize ''search_orders'' (Some customer_id)) (\<lambda>_.
     bindE (order_search (te_fromiso env) customer_id merchant_name amount date) (\<lambda>rows1.
     bindE (if rows1 = [] \<and> truthy_str date \<and> (truthy_str merchant_name \<or> (amount \<noteq> None \<and> amount \<noteq> Some 0))
            then order_search (te_fromiso env) customer_id merchant_name amount None else returnE rows1) (\<lambda>rows.
     bindE (audit_tool env (tool_entry env ORDER_SEARCH customer_id ''order'' (''search:'' @ customer_id) None None
       [(''merchant_name'', opt_str merchant_name), (''amount'', opt_num amount), (''date'', opt_str date),
        (''results_count'', JInt (int (length rows)))])) (\<lambda>_.
     if rows = [] then returnE (no_match nothing_matched)
     else
     bindE (foldE (\<lambda>row acc. bindE (match_view env row) (\<lambda>m. returnE (acc @ [m]))) rows []) (\<lambda>matches.
     case matches of
       [m] \<Rightarrow> select_match customer_id m
     | _ \<Rightarrow> returnE [(''matches'', rows_json matches), (''count'', JInt (int (length matches))),
         (''message'', JStr (''Found '' @ str_nat (length matches) @
            '' orders. Please ask the customer to confirm which one.''))])))))"

subsection \<open>Store credit and cases\<close>

fun split_at_dash :: "string \<Rightarrow> string list" where
  "split_at_dash [] = [[]]"
| "split_at_dash (c # cs) = (if c = CHR 45 then [] # split_at_dash cs
     else (case split_at_dash cs of [] \<Rightarrow> [[c]] | w # ws \<Rightarrow> (c # w) # ws))"

definition second_part :: "string \<Rightarrow> exn + string" where
  "second_part s = (case split_at_dash s of _ # w # _ \<Rightarrow> Inr w | _ \<Rightarrow> Inl IndexError)"

definition issue_store_credit :: "'z tool_env \<Rightarrow> string \<Rightarrow> string \<Rightarrow> (pdict, 'z) top" where
  "issue_store_credit env order_id reason =
     bindE (getE tool_state) (\<lambda>st.
     bindE (liftE (as_dict (state_dict st ''order_data''))) (\<lambda>order_data.
     let amount = (case dict_get order_data ''total'' of None \<Rightarrow> JInt 0 | Some v \<Rightarrow> v);
         customer_id = state_actor ''unknown'' st in
     bindE (liftE (second_part order_id)) (\<lambda>part.
     bindE now_op (\<lambda>now.
     let credit_id = ''SC-'' @ part @ ''-'' @ clock_digits now in
     bindE now_op (\<lambda>processed_at.
     bindE (refund_create credit_id order_id amount (JStr reason) ''store_credit'' processed_at) (\<lambda>_.
     let result = [(''credit_id'', JStr credit_id), (''order_id'', JStr order_id), (''amount'', amount),
       (''currency'', JStr ''USD''), (''status'', JStr ''applied''), (''reason'', JStr reason),
       (''credit_method'', JStr ''store_credit''), (''expires'', JStr ''12 months''), (''processed_at'', JInt processed_at)] in
     bindE (set_states [(''store_credit_data'', JObj result), (''workflow_status'', JStr ''store_credit_issued'')]) (\<lambda>_.
     bindE (audit_tool env (tool_entry env STORE_CREDIT_ISSUED customer_id ''store_credit'' credit_id None None
       [(''order_id'', JStr order_id), (''amount'', amount), (''currency'', JStr ''USD''), (''reason'', JStr reason)])) (\<lambda>_.
     returnE result))))))))"

definition update_case_status :: "'z tool_env \<Rightarrow> string \<Rightarrow> string \<Rightarrow> string \<Rightarrow> (pdict, 'z) top" where
  "update_case_status env case_id status notes =
     bindE (getE tool_state) (\<lambda>st.
     bindE (case_upsert case_id status notes
       (case get_or_null st ''customer_id'' of JStr c \<Rightarrow> Some c | _ \<Rightarrow> None)) (\<lambda>_.
     bindE now_op (\<lambda>now.
     bindE (set_states [(''case_status'', JStr status), (''workflow_status'', JStr status)]) (\<lambda>_.
     bindE (audit_tool env (tool_entry env CASE_UPDATED (state_actor ''system'' st) ''case'' case_id None
       (Some [(''status'', JStr status)]) [(''notes'', JStr notes)])) (\<lambda>_.
     returnE [(''case_id'', JStr case_id), (''status'', JStr status), (''notes'', JStr notes), (''updated_at'', JInt now),
       (''updated_by'', JStr ''system'')])))))"

section \<open>Disputes\<close>

definition LIABILITY_TIERS :: "(string \<times> string) list" where
  "LIABILITY_TIERS = [(''tier_1'', ''within 2 business days''), (''tier_2'', ''within 60 calendar days''),
     (''tier_3'', ''beyond 60 calendar days'')]"

definition REG_E_PAYMENT_METHODS :: "string list" where
  "REG_E_PAYMENT_METHODS = [''debit_card'', ''debit'', ''ach'', ''ach_withdrawal'', ''wire'', ''p2p'', ''atm'',
     ''electronic_transfer'', ''debit_card_ending_5678'', ''debit_card_ending_4242'', ''debit_card_ending_1234'']"

definition calculate_liability_tier :: "int \<Rightarrow> string \<times> rat" where
  "calculate_liability_tier days_since_discovery =
     (if days_since_discovery \<le> 2 then (''tier_1'', 50)
      else if days_since_discovery \<le> 60 then (''tier_2'', 500) else (''tier_3'', - 1))"

definition is_eft_covered :: "string \<Rightarrow> bool" where
  "is_eft_covered payment_method \<longleftrightarrow> lower payment_method \<in> set REG_E_PAYMENT_METHODS"

text \<open>The dict stored in the state is the one that is completed and returned.\<close>

definition lookup_dispute :: "'z tool_env \<Rightarrow> string \<Rightarrow> (pdict, 'z) top" where
  "lookup_dispute env dispute_id =
     bindE (authorize ''lookup_dispute'' None) (\<lambda>_.
     bindE (dispute_get_by_id dispute_id) (\<lambda>found.
     bindE (getE tool_state) (\<lambda>st.
     case found of
       None \<Rightarrow> returnE (not_found ''Dispute'' dispute_id)
     | Some dispute \<Rightarrow>
         if cell dispute ''customer_id'' \<noteq> get_or_null st ''customer_id'' then returnE (not_found ''Dispute'' dispute_id)
         else
         let label = (case dict_get LIABILITY_TIERS (text_of (cell dispute ''liability_tier'')) of
               None \<Rightarrow> ''unknown'' | Some l \<Rightarrow> l);
             result = dict_merge dispute [(''found'', JBool True), (''liability_description'', JStr label),
               (''reg_e_covered'', JBool True)] in
         bindE (set_states [(''dispute_data'', JObj result), (''customer_id'', cell dispute ''customer_id'')]) (\<lambda>_.
         bindE (audit_session env COMPLIANCE_CHECK ''system'' ''dispute'' dispute_id
           [(''action'', JStr ''lookup''), (''status'', cell dispute ''status'')]) (\<lambda>_.
         returnE result)))))"

definition not_eft_result :: "string \<Rightarrow> pdict" where
  "not_eft_result payment_method =
    [(''eligible'', JBool False), (''reason'', JStr ''not_eft''),
     (''message'', JStr (''The payment method '' @ quoted payment_method @ '' is not an electronic fund transfer '' @
        ''covered by Regulation E. Credit card disputes are covered under Regulation Z.'')),
     (''recommendation'', JStr ''redirect_non_eft'')]"

definition late_result :: "int \<Rightarrow> pdict" where
  "late_result days =
    [(''eligible'', JBool False), (''reason'', JStr ''outside_60_day_window''), (''liability_tier'', JStr ''tier_3''),
     (''days_since_noticed'', JInt days),
     (''message'', JStr (''The dispute was reported more than 60 days after the statement date. '' @
        ''Under Regulation E, the consumer bears full liability for unauthorized '' @
        ''transfers reported after the 60-day window.'')),
     (''recommendation'', JStr ''deny_late_dispute''), (''max_liability'', JStr ''unlimited'')]"

definition eligible_result :: "string \<Rightarrow> rat \<Rightarrow> int \<Rightarrow> pdict" where
  "eligible_result tier max_liability days =
    [(''eligible'', JBool True), (''liability_tier'', JStr tier), (''max_liability'', JFloat max_liability),
     (''days_since_noticed'', JInt days), (''investigation_deadline_days'', JInt 10), (''final_deadline_days'', JInt 45),
     (''provisional_credit_required_after_days'', JInt 10),
     (''message'', JStr (''Dispute is eligible under Regulation E. Liability tier: '' @ tier @
        '' (max '' @ money max_liability @ ''). Investigation must begin within 10 business days.'')),
     (''recommendation'', JStr ''file_dispute'')]"

definition check_dispute_eligibility :: "'z tool_env \<Rightarrow> string \<Rightarrow> string \<Rightarrow> int \<Rightarrow> string \<Rightarrow> (pdict, 'z) top" where
  "check_dispute_eligibility env transaction_id dispute_type days_since_noticed payment_method =
     bindE (authorize ''check_dispute_eligibility'' None) (\<lambda>_.
     if \<not> is_eft_covered payment_method
     then bindE (set_state ''dispute_eligibility'' (JObj (not_eft_result payment_method))) (\<lambda>_.
       returnE (not_eft_result payment_method))
     else
     let (tier, max_liability) = calculate_liability_tier days_since_noticed;
         result = (if tier = ''tier_3'' then late_result days_since_noticed
           else eligible_result tier max_liability days_since_noticed) in
     bindE (set_state ''dispute_eligibility'' (JObj result)) (\<lambda>_.
     bindE (audit_session env COMPLIANCE_CHECK ''system'' ''dispute_eligibility'' transaction_id
       [(''dispute_type'', JStr dispute_type), (''payment_method'', JStr payment_method),
        (''days_since_noticed'', JInt days_since_noticed), (''liability_tier'', JStr tier),
        (''eligible'', cell result ''eligible'')]) (\<lambda>_.
     returnE result)))"

text \<open>\<open>eligibility.get("max_liability", 500.0)\<close>, then the whole amount for unlimited liability.\<close>

definition filed_liability :: "pdict \<Rightarrow> rat \<Rightarrow> json \<times> json" where
  "filed_liability eligibility amount =
     (let tier = get_or eligibility ''liability_tier'' ''tier_2'';
          max_liability = (case dict_get eligibility ''max_liability'' of None \<Rightarrow> JFloat 500 | Some v \<Rightarrow> v) in
      (tier, if json_num max_liability = Some (- 1) \<or> tier = JStr ''tier_3'' then JFloat amount else max_liability))"

text \<open>\<open>f"${x:.2f}"\<close> of a value: only numbers can be formatted.\<close>

definition format_money :: "json \<Rightarrow> exn + string" where
  "format_money v = (case v of JStr _ \<Rightarrow> Inl (ValueError ''format'')
     | _ \<Rightarrow> (case json_num v of Some x \<Rightarrow> Inr (money x) | None \<Rightarrow> Inl (TypeError ''format'')))"

definition reg_e_disclosures :: "string \<Rightarrow> pdict" where
  "reg_e_disclosures max_consumer_liability =
    [(''written_acknowledgment'', JStr ''within 1 business day''), (''investigation_timeline'', JStr ''10 business days initial''),
     (''provisional_credit'', JStr ''if investigation extends beyond 10 business days''),
     (''final_resolution'', JStr ''45 calendar days (90 for POS/foreign/new accounts)''),
     (''max_consumer_liability'', JStr max_consumer_liability)]"

definition file_eft_dispute ::
  "'z tool_env \<Rightarrow> string \<Rightarrow> string \<Rightarrow> string \<Rightarrow> rat \<Rightarrow> string \<Rightarrow> string \<Rightarrow> string \<Rightarrow> string option \<Rightarrow> string \<Rightarrow> (pdict, 'z) top" where
  "file_eft_dispute env customer_id transaction_id dispute_type amount merchant transaction_date reason account_id payment_method =
     bindE (authorize ''file_eft_dispute'' (Some customer_id)) (\<lambda>_.
     bindE now_op (\<lambda>now.
     bindE (getE tool_state) (\<lambda>st.
     bindE (liftE (as_dict (state_dict st ''dispute_eligibility''))) (\<lambda>eligibility.
     let dispute_id = ''DISP-'' @ stamp now;
         (tier, max_liability) = filed_liability eligibility amount;
         days = (case strptime fmt_date transaction_date of None \<Rightarrow> 0 | Some d \<Rightarrow> days_between now d);
         deadline = JStr (iso_date (now + 10 * day_us)) in
     bindE (dispute_create [(''dispute_id'', JStr dispute_id), (''customer_id'', JStr customer_id),
       (''transaction_id'', JStr transaction_id), (''account_id'', JStr (case account_id of None \<Rightarrow> [] | Some a \<Rightarrow> a)),
       (''dispute_type'', JStr dispute_type), (''amount'', JFloat amount), (''merchant'', JStr merchant),
       (''transaction_date'', JStr transaction_date), (''reported_date'', JStr (iso_date now)),
       (''statement_date'', JStr (iso_date now)), (''days_since_transaction'', JInt days), (''days_since_statement'', JInt 0),
       (''liability_tier'', tier), (''max_liability'', max_liability), (''investigation_deadline'', deadline),
       (''payment_method'', JStr payment_method), (''metadata'', JObj [(''reason'', JStr reason)])]) (\<lambda>_.
     bindE (liftE (format_money max_liability)) (\<lambda>shown.
     let result = [(''dispute_id'', JStr dispute_id), (''customer_id'', JStr customer_id),
       (''transaction_id'', JStr transaction_id), (''amount'', JFloat amount), (''status'', JStr ''open''),
       (''liability_tier'', tier), (''max_liability'', max_liability), (''investigation_deadline'', deadline),
       (''filed_at'', JInt now), (''reg_e_disclosures'', JObj (reg_e_disclosures shown))] in
     bindE (set_states [(''dispute_data'', JObj result), (''dispute_id'', JStr dispute_id)]) (\<lambda>_.
     bindE (audit_tool env (tool_entry env COMPLIANCE_CHECK customer_id ''dispute'' dispute_id None None
       [(''action'', JStr ''file_dispute''), (''amount'', JFloat amount), (''dispute_type'', JStr dispute_type),
        (''liability_tier'', tier), (''max_liability'', max_liability), (''investigation_deadline'', deadline),
        (''reg_e_compliant'', JBool True)])) (\<lambda>_.
     returnE result))))))))"

text \<open>\<open>max(0, amount - max_liability)\<close> of values from the state.\<close>

definition provisional_amount :: "json \<Rightarrow> json \<Rightarrow> exn + rat" where
  "provisional_amount amount max_liability = (case (amount, max_liability) of
      (JStr _, _) \<Rightarrow> Inl (TypeError ''amount'')
    | (_, JStr _) \<Rightarrow> Inl (TypeError ''amount'')
    | _ \<Rightarrow> (case (json_num amount, json_num max_liability) of
          (Some a, Some l) \<Rightarrow> Inr (max 0 (a - l)) | _ \<Rightarrow> Inl (TypeError ''amount'')))"

definition default_to :: "pdict \<Rightarrow> string \<Rightarrow> json \<Rightarrow> json" where
  "default_to d k v = (case dict_get d k of None \<Rightarrow> v | Some x \<Rightarrow> x)"

definition issue_provisional_credit :: "'z tool_env \<Rightarrow> string \<Rightarrow> (pdict, 'z) top" where
  "issue_provisional_credit env dispute_id =
     bindE (authorize ''issue_provisional_credit'' None) (\<lambda>_.
     bindE (getE tool_state) (\<lambda>st.
     bindE (liftE (as_dict (state_dict st ''dispute_data''))) (\<lambda>dispute_data.
     let amount = default_to dispute_data ''amount'' (JInt 0);
         max_liability = default_to dispute_data ''max_liability'' (JFloat 50) in
     bindE (liftE (provisional_amount amount max_liability)) (\<lambda>credit.
     if credit \<le> 0
     then returnE [(''dispute_id'', JStr dispute_id), (''provisional_credit_issued'', JBool False),
       (''reason'', JStr ''Disputed amount does not exceed consumer liability limit''), (''amount'', amount),
       (''max_liability'', max_liability)]
     else
     bindE now_op (\<lambda>now.
     let credit_date = JStr (iso_date now) in
     bindE (dispute_provisional_credit dispute_id (JFloat credit) credit_date) (\<lambda>_.
     let result = [(''dispute_id'', JStr dispute_id), (''provisional_credit_issued'', JBool True),
       (''provisional_credit_amount'', JFloat credit), (''credit_date'', credit_date), (''disputed_amount'', amount),
       (''consumer_liability'', max_liability),
       (''message'', JStr (''Provisional credit of '' @ money credit @ '' has been applied to the account. '' @
          ''This credit will remain unless the investigation determines the transaction was authorized.''))] in
     bindE (set_state ''provisional_credit'' (JObj result)) (\<lambda>_.
     bindE (audit_session env COMPLIANCE_CHECK ''system'' ''provisional_credit'' dispute_id
       [(''action'', JStr ''issue_provisional_credit''), (''provisional_amount'', JFloat credit),
        (''disputed_amount'', amount), (''consumer_liability'', max_liability), (''reg_e_compliant'', JBool True)]) (\<lambda>_.
     returnE result))))))))"

section \<open>Fraud operations\<close>

definition get_fraud_alert :: "'z tool_env \<Rightarrow> string \<Rightarrow> (pdict, 'z) top" where
  "get_fraud_alert env alert_id =
     bindE (alert_get_by_id alert_id) (\<lambda>found.
     case found of
       None \<Rightarrow> returnE (not_found ''Alert'' alert_id)
     | Some alert \<Rightarrow>
         bindE (set_states [(''alert_data'', JObj alert), (''account_id'', cell alert ''account_id'')]) (\<lambda>_.
         bindE (audit_session env FRAUD_ALERT_VIEWED ''analyst'' ''fraud_alert'' alert_id
           [(''severity'', cell alert ''severity''), (''risk_score'', cell alert ''risk_score'')]) (\<lambda>_.
         returnE (dict_merge alert [(''found'', JBool True)]))))"

text \<open>\<open>sum(t["amount"] for t in rows)\<close>; the column is a REAL.\<close>

definition sum_amounts :: "row list \<Rightarrow> exn + rat" where
  "sum_amounts rows = andThen (collect (\<lambda>r. case json_num (cell r ''amount'') of
      Some x \<Rightarrow> Inr x | None \<Rightarrow> Inl (TypeError ''amount'')) rows) (\<lambda>xs. Inr (sum_list xs))"

definition get_account_transactions :: "'z tool_env \<Rightarrow> string \<Rightarrow> int \<Rightarrow> (pdict, 'z) top" where
  "get_account_transactions env account_id days =
     bindE (transactions_by_account account_id) (\<lambda>transactions.
     let flagged = filter (\<lambda>t. truthy (cell t ''is_flagged'')) transactions in
     bindE (liftE (sum_amounts transactions)) (\<lambda>total_amount.
     bindE (liftE (sum_amounts flagged)) (\<lambda>flagged_amount.
     let data = [(''account_id'', JStr account_id), (''transactions'', rows_json transactions),
       (''summary'', JObj [(''total_transactions'', JInt (int (length transactions))),
          (''flagged_count'', JInt (int (length flagged))), (''total_amount'', JFloat total_amount),
          (''flagged_amount'', JFloat flagged_amount)])] in
     bindE (set_state ''transaction_data'' (JObj data)) (\<lambda>_.
     bindE (audit_session env TRANSACTIONS_VIEWED ''analyst'' ''transactions'' account_id
       [(''days'', JInt days), (''count'', JInt (int (length transactions))), (''flagged'', JInt (int (length flagged)))]) (\<lambda>_.
     returnE data)))))"

definition bool_column :: "string \<Rightarrow> row \<Rightarrow> row" where
  "bool_column c r = dict_set r c (JBool (truthy (cell r c)))"

definition check_device_fingerprint :: "'z tool_env \<Rightarrow> string \<Rightarrow> (pdict, 'z) top" where
  "check_device_fingerprint env account_id =
     bindE (get_devices account_id) (\<lambda>devices.
     bindE (get_login_history account_id) (\<lambda>logins.
     bindE (get_risk_indicators account_id) (\<lambda>indicators.
     let shown = (if devices = [] \<and> logins = [] then [JStr ''unknown_account''] else indicators);
         data = [(''account_id'', JStr account_id), (''known_devices'', rows_json (map (bool_column ''trusted'') devices)),
           (''recent_logins'', rows_json (map (bool_column ''is_new'') logins)), (''risk_indicators'', JList shown)] in
     bindE (set_state ''device_data'' (JObj data)) (\<lambda>_.
     bindE (audit_session env DEVICE_CHECK ''analyst'' ''device_fingerprint'' account_id
       [(''devices_count'', JInt (int (length devices))), (''logins_count'', JInt (int (length logins))),
        (''risk_indicators'', JList indicators)]) (\<lambda>_.
     returnE data)))))"

definition flag_account :: "'z tool_env \<Rightarrow> string \<Rightarrow> string \<Rightarrow> string \<Rightarrow> (pdict, 'z) top" where
  "flag_account env account_id reason action =
     bindE now_op (\<lambda>now.
     let case_number = ''FRAUD-'' @ stamp now in
     bindE (account_get_by_id account_id) (\<lambda>before_account.
     let before_status = (case before_account of None \<Rightarrow> JStr ''unknown'' | Some a \<Rightarrow> cell a ''status'') in
     bindE (account_update_status account_id action) (\<lambda>_.
     bindE (case_upsert case_number ''account_flagged'' reason (Some account_id)) (\<lambda>_.
     bindE (set_states [(''account_flagged'', JBool True), (''fraud_case_number'', JStr case_number)]) (\<lambda>_.
     bindE (getE tool_state) (\<lambda>st.
     bindE (audit_tool env (tool_entry env ACCOUNT_FLAGGED (state_actor ''analyst'' st) ''account'' account_id
       (Some [(''status'', before_status)]) (Some [(''status'', JStr action)])
       [(''reason'', JStr reason), (''action_taken'', JStr action), (''case_number'', JStr case_number)])) (\<lambda>_.
     returnE [(''account_id'', JStr account_id), (''action_taken'', JStr action), (''reason'', JStr reason),
       (''flagged_at'', JInt now), (''case_number'', JStr case_number), (''status'', JStr ''account_flagged''),
       (''next_steps'', JStr ''Account has been flagged. Customer will be notified via secure channel.'')])))))))"

definition submit_sar :: "'z tool_env \<Rightarrow> string \<Rightarrow> string \<Rightarrow> string \<Rightarrow> (pdict, 'z) top" where
  "submit_sar env account_id alert_id findings =
     bindE now_op (\<lambda>now.
     let sar_id = ''SAR-'' @ stamp now; review_deadline = JStr (iso_date (now + 30 * day_us)) in
     bindE (set_states [(''sar_submitted'', JBool True), (''sar_id'', JStr sar_id)]) (\<lambda>_.
     bindE (audit_session env SAR_SUBMITTED ''analyst'' ''sar'' sar_id
       [(''account_id'', JStr account_id), (''alert_id'', JStr alert_id), (''review_deadline'', review_deadline),
        (''findings_length'', JInt (int (length findings)))]) (\<lambda>_.
     returnE [(''sar_id'', JStr sar_id), (''account_id'', JStr account_id), (''alert_id'', JStr alert_id),
       (''findings'', JStr findings), (''status'', JStr ''submitted''), (''submitted_at'', JInt now),
       (''review_deadline'', review_deadline)])))"

definition close_alert :: "'z tool_env \<Rightarrow> string \<Rightarrow> string \<Rightarrow> (pdict, 'z) top" where
  "close_alert env alert_id resolution =
     bindE now_op (\<lambda>now.
     bindE (alert_close alert_id) (\<lambda>_.
     bindE (set_states [(''alert_status'', JStr ''closed''), (''alert_resolution'', JStr resolution)]) (\<lambda>_.
     bindE (getE tool_state) (\<lambda>st.
     bindE (audit_tool env (tool_entry env ALERT_CLOSED (state_actor ''analyst'' st) ''fraud_alert'' alert_id None
       (Some [(''status'', JStr ''closed''), (''resolution'', JStr resolution)]) [])) (\<lambda>_.
     returnE [(''alert_id'', JStr alert_id), (''resolution'', JStr resolution), (''closed_at'', JInt now),
       (''closed_by'', JStr ''fraud_analyst''), (''status'', JStr ''closed'')])))))"

section \<open>Shared operations\<close>

definition supervisor :: string where
  "supervisor = ''Supervisor Martinez''"

definition escalate_to_supervisor :: "'z tool_env \<Rightarrow> string \<Rightarrow> string \<Rightarrow> string \<Rightarrow> (pdict, 'z) top" where
  "escalate_to_supervisor env case_id reason priority =
     bindE now_op (\<lambda>now.
     bindE now_op (\<lambda>now2.
     let escalation_id = ''ESC-'' @ stamp now2;
         estimated_response = (if priority \<in> {''high'', ''urgent''} then ''within 2 hours'' else ''within 24 hours'') in
     bindE (escalation_create escalation_id case_id reason priority supervisor estimated_response) (\<lambda>_.
     let result = [(''escalation_id'', JStr escalation_id), (''case_id'', JStr case_id), (''reason'', JStr reason),
       (''priority'', JStr priority), (''assigned_to'', JStr supervisor), (''estimated_response'', JStr estimated_response),
       (''escalated_at'', JInt now), (''status'', JStr ''escalated'')] in
     bindE (set_states [(''escalation_data'', JObj result), (''workflow_status'', JStr ''escalated'')]) (\<lambda>_.
     bindE (audit_session env ESCALATION_CREATED ''system'' ''escalation'' escalation_id
       [(''case_id'', JStr case_id), (''priority'', JStr priority), (''reason'', JStr reason), (''assigned_to'', JStr supervisor)]) (\<lambda>_.
     returnE result)))))"

definition add_case_note :: "'z tool_env \<Rightarrow> string \<Rightarrow> string \<Rightarrow> (pdict, 'z) top" where
  "add_case_note env case_id note =
     bindE now_op (\<lambda>now.
     bindE now_op (\<lambda>now2.
     bindE uuid_op (\<lambda>u.
     let note_id = ''NOTE-'' @ stamp now2 @ ''-'' @ take 6 u in
     bindE (case_add_note note_id case_id note ''system'') (\<lambda>_.
     let result = [(''note_id'', JStr note_id), (''case_id'', JStr case_id), (''note'', JStr note), (''created_at'', JInt now),
       (''created_by'', JStr ''system'')] in
     bindE (getE tool_state) (\<lambda>st.
     bindE (case (case dict_get st ''case_notes'' of None \<Rightarrow> JList [] | Some v \<Rightarrow> v) of
         JList notes \<Rightarrow> set_state ''case_notes'' (JList (notes @ [JObj result]))
       | _ \<Rightarrow> raiseE (OtherError ''AttributeError'')) (\<lambda>_.
     bindE (audit_session env CASE_NOTE_ADDED ''system'' ''case_note'' note_id
       [(''case_id'', JStr case_id), (''note_length'', JInt (int (length note)))]) (\<lambda>_.
     returnE result)))))))"

definition get_knowledge_article :: "string \<Rightarrow> (pdict, 'z) top" where
  "get_knowledge_article query =
     bindE (knowledge_search query) (\<lambda>matched.
     returnE [(''query'', JStr query), (''articles'', rows_json matched), (''total_results'', JInt (int (length matched)))])"

section \<open>The refund tool\<close>

text \<open>
  The refund runs through the kernel and the gateway, so its world is the kernel's, with the
  business database behind the connector. The facade is built per call, without a policy registry.
\<close>

definition refund_engine :: "py_text \<Rightarrow> (string \<Rightarrow> string) \<Rightarrow> mac_fun \<Rightarrow> PolicySigner \<Rightarrow> 'z tworld_scheme ActionGateway" where
  "refund_engine py refund_digest mac signer =
     \<lparr>gw_connectors = Connectors [(''issue_refund'', DatabaseRefundConnector py refund_digest)],
      gw_policy_registry = False, gw_policy_resolver = False, gw_mac = mac, gw_signer = signer\<rparr>"

definition state_text :: "pdict \<Rightarrow> string \<Rightarrow> string \<Rightarrow> exn + string" where
  "state_text st k d = (case get_or st k d of JStr s \<Rightarrow> Inr s | _ \<Rightarrow> Inl (TypeError k))"

definition order_snapshot :: "(json \<Rightarrow> string) \<Rightarrow> string \<Rightarrow> row \<Rightarrow> exn + OrderSnapshot" where
  "order_snapshot render order_id order =
     andThen (order_days order) (\<lambda>days.
     andThen (order_total order) (\<lambda>amount.
     Inr \<lparr>os_order_id = order_id, os_customer_id = text_of (cell order ''customer_id''),
       os_status = text_of (cell order ''status''), os_days_since_delivery = days, os_amount = amount,
       os_payment_method = refund_method_of order,
       os_evidence_ref = ''orders-db:'' @ order_id @ '':'' @ py_str render (cell order ''order_date'')\<rparr>))"

definition refund_case_id :: "(string \<Rightarrow> string) \<Rightarrow> string \<Rightarrow> string \<Rightarrow> string" where
  "refund_case_id case_digest customer_id order_id =
     ''CASE-REFUND-'' @ case_digest (customer_id @ '':'' @ order_id)"

definition refund_result :: "ActionRecord \<Rightarrow> pdict" where
  "refund_result action = (case ar_outcome action of
      Some (x # xs) \<Rightarrow> x # xs
    | _ \<Rightarrow> [(''status'', JStr (action_status_value (ar_status action)))])"

definition refund_not_authorized :: "string \<Rightarrow> pdict" where
  "refund_not_authorized message = [(''error'', JStr message), (''status'', JStr ''not_authorized'')]"

text \<open>
  \<open>case_digest\<close> stands for the first sixteen upper-case hex digits of the SHA-256 of its argument.
\<close>

definition issue_refund ::
  "'z tool_env \<Rightarrow> 'z tworld_scheme ActionGateway \<Rightarrow> (string \<Rightarrow> string) \<Rightarrow> string \<Rightarrow> string \<Rightarrow>
   (pdict, 'z tworld_scheme, 'y) gop" where
  "issue_refund env g case_digest order_id reason =
     bindE (on_provider (authorize ''issue_refund'' None)) (\<lambda>_.
     bindE (on_provider (getE tool_state)) (\<lambda>st.
     if \<not> truthy_get st ''customer_id'' \<or> \<not> truthy_get st ''refund_consent_evidence''
     then returnE (refund_not_authorized ''Verified customer context and explicit refund consent are required'')
     else
     bindE (on_provider (order_get_by_id order_id)) (\<lambda>found.
     case found of
       None \<Rightarrow> returnE (refund_not_authorized (''Order '' @ order_id @ '' not found''))
     | Some order \<Rightarrow>
         if cell order ''customer_id'' \<noteq> get_or_null st ''customer_id''
         then returnE (refund_not_authorized (''Order '' @ order_id @ '' not found''))
         else
         bindE initialize (\<lambda>_.
         bindE (liftE (state_text st ''customer_id'' [])) (\<lambda>customer_id.
         bindE (liftE (state_text st ''actor_id'' customer_id)) (\<lambda>actor_id.
         bindE (liftE (state_text st ''policy_package_id'' ''refund@1.0.0:NAM'')) (\<lambda>policy_package_id.
         bindE (liftE (state_text st ''procedure_version'' ''1.0.0'')) (\<lambda>procedure_version.
         bindE (liftE (order_snapshot (te_render env) order_id order)) (\<lambda>snapshot.
         bindE (liftE (state_text st ''refund_consent_evidence'' [])) (\<lambda>consent_ref.
         bindE (process_refund g (te_render env) 30 (refund_case_id case_digest customer_id order_id)
           customer_id actor_id policy_package_id procedure_version snapshot reason (Some consent_ref)) (\<lambda>action.
         let result = refund_result action in
         bindE (on_provider (set_states [(''refund_data'', JObj result), (''workflow_status'', JStr ''refund_processed'')])) (\<lambda>_.
         bindE (on_provider (audit_session env REFUND_ISSUED ''system'' ''refund''
           (text_of (get_or result ''refund_id'' (ar_action_id action)))
           [(''order_id'', JStr order_id), (''amount'', cell order ''total''), (''currency'', JStr ''USD''),
            (''reason'', JStr reason), (''refund_method'', cell order ''payment_method'')])) (\<lambda>_.
         returnE result)))))))))))))"

end
