(* ===== verification/Tools_Laws.thy ===== *)
theory Tools_Laws
  imports Tools
begin

text \<open>
  What the tools promise: the read tools show a session nothing of another customer, the refund
  tool acts only with permission, consent and ownership, the dispute tools agree with the
  Regulation E decision service, and the fraud read tools do not ask for a permission.
\<close>

section \<open>Authorization\<close>

lemma authorize_Inr: "authorize tool cid s = (Inr u, t) \<longleftrightarrow> authorize_tool tool (tool_state s) cid = Inr () \<and> t = s"
  by (auto simp: authorize_def bindE_def getE_def liftE_def split: sum.splits)

lemma authorize_Inl: "authorize tool cid s = (Inl e, t) \<longleftrightarrow> authorize_tool tool (tool_state s) cid = Inl e \<and> t = s"
  by (auto simp: authorize_def bindE_def getE_def liftE_def split: sum.splits)

lemma authorized_customer:
  "authorize_tool tool st (Some c) = Inr () \<Longrightarrow> dict_get st ''customer_id'' = Some (JStr c)"
  by (auto simp: authorize_tool_def Let_def split: option.splits if_splits)

lemma authorize_tool_agree:
  assumes "dict_get st ''actor_permissions'' = dict_get st' ''actor_permissions''"
    "dict_get st ''actor_role'' = dict_get st' ''actor_role''" "dict_get st ''customer_id'' = dict_get st' ''customer_id''"
  shows "authorize_tool tool st cid = authorize_tool tool st' cid"
proof -
  have "state_permissions st = state_permissions st'" "truthy_get st ''customer_id'' = truthy_get st' ''customer_id''"
    using assms by (simp_all add: state_permissions_def truthy_get_def)
  then show ?thesis using assms by (simp only: authorize_tool_def)
qed

lemma unauthorized_stops:
  "authorize_tool tool (tool_state s) cid = Inl e \<Longrightarrow> bindE (authorize tool cid) f s = (Inl e, s)"
  by (rule bindE_stop) (simp add: authorize_Inl)

section \<open>What a read shows\<close>

lemma select_where_reads: "select_where tab c v s = (r, t) \<Longrightarrow> t = s"
  by (auto simp: select_where_def)

lemma query_one_reads: "query_one tab c v s = (r, t) \<Longrightarrow> t = s"
  by (auto simp: query_one_def bindE_def returnE_def select_where_def split: if_splits)

lemma order_get_reads: "order_get_by_id oid s = (r, t) \<Longrightarrow> t = s"
  by (auto simp: order_get_by_id_def bindE_def returnE_def getE_def dest: query_one_reads
      split: prod.splits sum.splits option.splits)

lemma order_items_reads: "order_get_items oid s = (r, t) \<Longrightarrow> t = s"
  by (auto simp: order_get_items_def bindE_def returnE_def dest: select_where_reads split: prod.splits sum.splits)

lemma dispute_get_reads: "dispute_get_by_id d s = (r, t) \<Longrightarrow> t = s"
  by (auto simp: dispute_get_by_id_def dest: query_one_reads)

lemma getE_at [simp]: "getE f s = (Inr (f s), s)"
  by (simp add: getE_def)

lemma lookup_order_confined:
  assumes run: "lookup_order env oid s = (Inr r, t)" and c: "dict_get (tool_state s) ''customer_id'' = Some (JStr c)" "c \<noteq> []"
  shows "r = not_found ''Order'' oid \<and> t = s \<or> dict_get r ''customer_id'' = Some (JStr c)"
proof -
  have auth: "authorize ''lookup_order'' None s = (Inr (), s)"
    using run by (auto simp: lookup_order_def bindE_Inr authorize_Inr)
  have bound: "truthy_get (tool_state s) ''customer_id''" "get_or_null (tool_state s) ''customer_id'' = JStr c"
    using c by (auto simp: truthy_get_def get_or_null_def)
  obtain found where f: "order_get_by_id oid s = (Inr found, s)"
    using run by (auto simp: lookup_order_def bindE_step [of _ s] auth bindE_Inr dest: order_get_reads)
  show ?thesis using run bound
    by (cases found) (auto simp: lookup_order_def bindE_step [of _ s] auth f
        bindE_Inr Let_def returnE_def order_view_def dict_get_def split: if_splits)
qed

lemma lookup_dispute_confined:
  assumes run: "lookup_dispute env d s = (Inr r, t)" and c: "dict_get (tool_state s) ''customer_id'' = Some (JStr c)"
  shows "r = not_found ''Dispute'' d \<and> t = s \<or> dict_get r ''customer_id'' = Some (JStr c)"
proof -
  have auth: "authorize ''lookup_dispute'' None s = (Inr (), s)"
    using run by (auto simp: lookup_dispute_def bindE_Inr authorize_Inr)
  have bound: "get_or_null (tool_state s) ''customer_id'' = JStr c" using c by (simp add: get_or_null_def)
  have key: "cell dispute ''customer_id'' = JStr c \<Longrightarrow>
     dict_get (dict_merge dispute [(''found'', x), (''liability_description'', y), (''reg_e_covered'', z)]) ''customer_id'' = Some (JStr c)"
    for dispute x y z by (auto simp: cell_def get_or_null_def dict_merge_def split: option.splits)
  obtain found where f: "dispute_get_by_id d s = (Inr found, s)"
    using run by (auto simp: lookup_dispute_def bindE_step [of _ s] auth bindE_Inr dest: dispute_get_reads)
  show ?thesis using run bound
    by (cases found) (auto simp: lookup_dispute_def bindE_step [of _ s] auth f
        bindE_Inr Let_def returnE_def key split: if_splits)
qed

lemma get_customer_profile_confined:
  assumes run: "get_customer_profile cid s = (Inr r, t)" and c: "dict_get (tool_state s) ''customer_id'' = Some (JStr c)"
  shows "cid = c \<and> (r = not_found ''Customer'' cid \<and> t = s \<or> dict_get r ''customer_id'' = Some (JStr c))"
proof -
  have auth: "authorize ''get_customer_profile'' (Some cid) s = (Inr (), s)"
    using run by (auto simp: get_customer_profile_def bindE_Inr authorize_Inr)
  then have same: "cid = c" using c by (auto simp: authorize_Inr dest: authorized_customer)
  have key: "cell profile ''customer_id'' = JStr c \<Longrightarrow>
     dict_get (dict_merge profile [(''found'', x)]) ''customer_id'' = Some (JStr c)"
    for profile x by (auto simp: cell_def get_or_null_def dict_merge_def split: option.splits)
  obtain found where f: "customer_get_by_id cid s = (Inr found, s)"
    using run by (auto simp: get_customer_profile_def customer_get_by_id_def bindE_step [of _ s] auth bindE_Inr dest: query_one_reads)
  have "\<forall>profile. found = Some profile \<longrightarrow> cell profile ''customer_id'' = JStr c"
    using f same by (auto simp: customer_get_by_id_def query_one_def bindE_def returnE_def select_where_def filter_eq_Cons_iff
        split: if_splits list.splits)
  then show ?thesis using run same
    by (cases found) (auto simp: get_customer_profile_def bindE_step [of _ s] auth [unfolded same] f [unfolded same]
        bindE_Inr returnE_def key)
qed

subsection \<open>Order search\<close>

definition own_rows :: "row list \<Rightarrow> string \<Rightarrow> pdict list \<Rightarrow> bool" where
  "own_rows orders c ms \<longleftrightarrow>
     (\<forall>m\<in>set ms. \<exists>o'\<in>set orders. cell o' ''customer_id'' = JStr c \<and> cell o' ''order_id'' = cell m ''order_id'')"

lemma project_id: "cell (map (\<lambda>c. (c, cell r c)) search_columns) ''order_id'' = cell r ''order_id''"
  by (simp add: search_columns_def cell_def get_or_null_def dict_get_def)

lemma order_search_own:
  assumes "order_search fromiso c mn a d s = (Inr rows, t)"
  shows "t = s \<and> own_rows (biz s ''orders'') c rows"
proof -
  have "t = s" and rows: "\<exists>P. rows = project search_columns (order_desc ''order_date''
      (filter P (filter (\<lambda>r. cell r ''customer_id'' = JStr c) (biz s ''orders''))))"
    using assms by (auto simp: order_search_def bindE_def returnE_def select_where_def split: if_splits)
  then show ?thesis by (auto simp: own_rows_def project_def order_desc_def project_id) blast
qed

lemma delivery_days_biz: "delivery_days env r s = (Inr x, t) \<Longrightarrow> biz t = biz s"
  by (auto simp: delivery_days_def Let_def bindE_Inr returnE_def now_op_def split: json.splits list.splits option.splits)

lemma match_view_id: "match_view env row s = (Inr m, t) \<Longrightarrow> cell m ''order_id'' = cell row ''order_id''"
  by (auto simp: match_view_def bindE_Inr returnE_def cell_def get_or_null_def dict_get_def)

lemma matches_own:
  "foldE (\<lambda>row acc. bindE (match_view env row) (\<lambda>m. returnE (acc @ [m]))) rows acc s = (Inr ms, t) \<Longrightarrow>
   own_rows orders c rows \<Longrightarrow> own_rows orders c acc \<Longrightarrow> own_rows orders c ms"
proof (induction rows arbitrary: acc s)
  case (Cons row rows)
  obtain m u where m: "match_view env row s = (Inr m, u)"
    and rest: "foldE (\<lambda>row acc. bindE (match_view env row) (\<lambda>m. returnE (acc @ [m]))) rows (acc @ [m]) u = (Inr ms, t)"
    using Cons.prems(1) by (auto simp: bindE_Inr bindE_assoc)
  show ?case
    by (rule Cons.IH [OF rest]) (use Cons.prems match_view_id [OF m] in \<open>auto simp: own_rows_def\<close>)
qed (auto simp: returnE_def)

definition shown_matches :: "pdict \<Rightarrow> pdict list" where
  "shown_matches r = (case dict_get r ''matches'' of
      Some (JList js) \<Rightarrow> concat (map (\<lambda>j. case j of JObj m \<Rightarrow> [m] | _ \<Rightarrow> []) js) | _ \<Rightarrow> [])"

lemma shown_matches_simps [simp]:
  "shown_matches (no_match x) = []"
  "shown_matches [(''matches'', JList [JObj m]), y, z] = [m]"
  "shown_matches ((''matches'', rows_json ms) # ys) = ms"
  by (simp_all add: shown_matches_def no_match_def rows_json_def dict_get_def comp_def)

lemma own_rows_simps [simp]: "own_rows orders c []"
  by (simp add: own_rows_def)

lemma select_match_own:
  assumes "select_match c m s = (Inr r, t)" "own_rows orders c [m]"
  shows "own_rows orders c (shown_matches r)"
  using assms by (auto simp: select_match_def Let_def bindE_Inr returnE_def split: option.splits if_splits)

lemma search_orders_confined:
  assumes run: "search_orders env c' mn a d s = (Inr r, t)"
    and c: "dict_get (tool_state s) ''customer_id'' = Some (JStr c)"
  shows "c' = c \<and> own_rows (biz s ''orders'') c (shown_matches r)"
proof -
  have auth: "authorize ''search_orders'' (Some c') s = (Inr (), s)"
    using run by (auto simp: search_orders_def bindE_Inr authorize_Inr)
  then have same: "c' = c" using c by (auto simp: authorize_Inr dest: authorized_customer)
  obtain rows1 where f1: "order_search (te_fromiso env) c mn a d s = (Inr rows1, s)"
    using run same by (auto simp: search_orders_def bindE_step [of _ s] auth [unfolded same] bindE_Inr dest: order_search_own)
  let ?m2 = "if rows1 = [] \<and> truthy_str d \<and> (truthy_str mn \<or> (a \<noteq> None \<and> a \<noteq> Some 0))
     then order_search (te_fromiso env) c mn a None else returnE rows1"
  let ?audit = "\<lambda>rows. audit_tool env (tool_entry env ORDER_SEARCH c ''order'' (''search:'' @ c) None None
       [(''merchant_name'', opt_str mn), (''amount'', opt_num a), (''date'', opt_str d),
        (''results_count'', JInt (int (length rows)))])"
  let ?show = "\<lambda>rows. if rows = [] then returnE (no_match nothing_matched) else
     bindE (foldE (\<lambda>row acc. bindE (match_view env row) (\<lambda>m. returnE (acc @ [m]))) rows []) (\<lambda>matches.
     case matches of
       [m] \<Rightarrow> select_match c m
     | _ \<Rightarrow> returnE [(''matches'', rows_json matches), (''count'', JInt (int (length matches))),
         (''message'', JStr (''Found '' @ str_nat (length matches) @
            '' orders. Please ask the customer to confirm which one.''))])"
  have "bindE ?m2 (\<lambda>rows. bindE (?audit rows) (\<lambda>_. ?show rows)) s = (Inr r, t)"
    using run unfolding same search_orders_def bindE_step [where m = "authorize ''search_orders'' (Some c)", OF auth [unfolded same]]
      bindE_step [where m = "order_search (te_fromiso env) c mn a d", OF f1] .
  then obtain rows u1 where f2: "?m2 s = (Inr rows, u1)" and "bindE (?audit rows) (\<lambda>_. ?show rows) u1 = (Inr r, t)"
    unfolding bindE_Inr by blast
  then obtain u where rest: "?show rows u = (Inr r, t)" unfolding bindE_Inr by blast
  have own: "own_rows (biz s ''orders'') c rows"
    using f2 order_search_own [OF f1] by (auto simp: returnE_def dest: order_search_own split: if_splits)
  show ?thesis
  proof (cases "rows = []")
    case False
    then obtain ms v where ms: "foldE (\<lambda>row acc. bindE (match_view env row) (\<lambda>m. returnE (acc @ [m]))) rows [] u = (Inr ms, v)"
      and last: "(case ms of [m] \<Rightarrow> select_match c m
        | _ \<Rightarrow> returnE [(''matches'', rows_json ms), (''count'', JInt (int (length ms))),
         (''message'', JStr (''Found '' @ str_nat (length ms) @ '' orders. Please ask the customer to confirm which one.''))]) v = (Inr r, t)"
      using rest by (auto simp: bindE_Inr)
    have "own_rows (biz s ''orders'') c ms" by (rule matches_own [OF ms own]) simp
    then show ?thesis using last same by (auto simp: returnE_def dest: select_match_own split: list.splits)
  qed (use rest same in \<open>auto simp: returnE_def\<close>)
qed

text \<open>C26: A session bound to a customer is shown the orders, the profile and the disputes of that customer
  only: a lookup of anything else answers as if it did not exist and leaves the session as it was,
  and every match of a search is an order the database holds for that customer.\<close>

theorem reads_confined:
  assumes "dict_get (tool_state s) ''customer_id'' = Some (JStr c)" "c \<noteq> []"
  shows "(\<forall>oid r t. lookup_order env oid s = (Inr r, t) \<longrightarrow>
      r = not_found ''Order'' oid \<and> t = s \<or> dict_get r ''customer_id'' = Some (JStr c)) \<and>
    (\<forall>d r t. lookup_dispute env d s = (Inr r, t) \<longrightarrow>
      r = not_found ''Dispute'' d \<and> t = s \<or> dict_get r ''customer_id'' = Some (JStr c)) \<and>
    (\<forall>cid r t. get_customer_profile cid s = (Inr r, t) \<longrightarrow>
      cid = c \<and> (r = not_found ''Customer'' cid \<and> t = s \<or> dict_get r ''customer_id'' = Some (JStr c))) \<and>
    (\<forall>cid mn a d r t. search_orders env cid mn a d s = (Inr r, t) \<longrightarrow>
      cid = c \<and> own_rows (biz s ''orders'') c (shown_matches r))"
proof (intro conjI allI impI)
qed (use assms in \<open>blast dest: lookup_order_confined lookup_dispute_confined get_customer_profile_confined
      search_orders_confined\<close>)+

section \<open>Regulation E\<close>

definition keeps_session :: "'z tool_env \<Rightarrow> bool" where
  "keeps_session env \<longleftrightarrow> (\<forall>e s r t. te_audit env e s = (r, t) \<longrightarrow> tool_state t = tool_state s)"

lemma audit_tool_session: "keeps_session env \<Longrightarrow> audit_tool env e s = (r, t) \<Longrightarrow> tool_state t = tool_state s"
  by (auto simp: keeps_session_def audit_tool_def bindE_def returnE_def split: prod.splits sum.splits)

lemma audit_session_session:
  "keeps_session env \<Longrightarrow> audit_session env a b c d e s = (r, t) \<Longrightarrow> tool_state t = tool_state s"
  by (auto simp: audit_session_def bindE_step [of _ s] dest: audit_tool_session)

definition eligibility_answer :: "string \<Rightarrow> int \<Rightarrow> pdict" where
  "eligibility_answer pm days =
     (if \<not> is_eft_covered pm then not_eft_result pm
      else if 60 < days then late_result days
      else if days \<le> 2 then eligible_result ''tier_1'' 50 days else eligible_result ''tier_2'' 500 days)"

lemma check_dispute_result:
  assumes "keeps_session env" "check_dispute_eligibility env txn ty days pm s = (Inr e, t)"
  shows "e = eligibility_answer pm days \<and> tool_state t = dict_set (tool_state s) ''dispute_eligibility'' (JObj e)"
  using assms by (auto simp: check_dispute_eligibility_def bindE_Inr authorize_Inr set_state_def modifyE_def returnE_def
      eligibility_answer_def calculate_liability_tier_def Let_def dest!: audit_session_session [OF assms(1)] split: if_splits)

lemma insert_into_session: "insert_into tab vals s = (r, t) \<Longrightarrow> tool_state t = tool_state s"
  by (auto simp: insert_into_def Let_def split: option.splits if_splits)

lemma file_dispute_result:
  assumes q: "keeps_session env" and run: "file_eft_dispute env c txn ty amount m d reason acct pm s = (Inr f, t)"
    and e: "dict_get (tool_state s) ''dispute_eligibility'' = Some (JObj e)"
  shows "dict_get f ''amount'' = Some (JFloat amount) \<and>
    dict_get f ''liability_tier'' = Some (fst (filed_liability e amount)) \<and>
    dict_get f ''max_liability'' = Some (snd (filed_liability e amount)) \<and>
    dict_get (tool_state t) ''dispute_data'' = Some (JObj f)"
proof -
  have e': "as_dict (state_dict (tool_state (s\<lparr>clock_idx := i\<rparr>)) ''dispute_eligibility'') = Inr e" for i
    using e by (simp add: as_dict_def state_dict_def)
  have st: "dict_get (dict_merge x [(''dispute_data'', a), (''dispute_id'', b)]) ''dispute_data'' = Some a" for x a b
    by (simp add: dict_merge_def)
  show ?thesis using run e'
    by (auto simp: file_eft_dispute_def bindE_Inr authorize_Inr now_op_def liftE_def Let_def returnE_def set_states_def
        modifyE_def dispute_create_def dict_get_def st [unfolded dict_get_def] split: prod.splits
        dest!: insert_into_session audit_tool_session [OF q])
qed

lemma provisional_credit_result:
  assumes run: "issue_provisional_credit env did s = (Inr p, t)"
    and f: "dict_get (tool_state s) ''dispute_data'' = Some (JObj f)"
    and vals: "dict_get f ''amount'' = Some (JFloat amount)" "dict_get f ''max_liability'' = Some (JFloat limit)"
  shows "dict_get p ''provisional_credit_issued'' = Some (JBool (limit < amount)) \<and>
    (limit < amount \<longrightarrow> dict_get p ''provisional_credit_amount'' = Some (JFloat (amount - limit)))"
proof -
  have d: "as_dict (state_dict (tool_state s) ''dispute_data'') = Inr f" using f by (simp add: as_dict_def state_dict_def)
  have a: "provisional_amount (default_to f ''amount'' x) (default_to f ''max_liability'' y) = Inr (max 0 (amount - limit))" for x y
    using vals by (simp add: provisional_amount_def default_to_def)
  show ?thesis using run d a
    by (auto simp: issue_provisional_credit_def bindE_Inr authorize_Inr liftE_def Let_def returnE_def dict_get_def
        max_def split: if_splits)
qed

lemma filed_liability_reg_e:
  assumes "lower pm \<in> set covered_methods"
  shows "filed_liability (eligibility_answer pm days) amount =
    (JStr (re_liability_tier (reg_e_evaluate pm days amount)), JFloat (re_max_liability (reg_e_evaluate pm days amount)))"
proof -
  have "is_eft_covered pm" using assms by (auto simp: is_eft_covered_def REG_E_PAYMENT_METHODS_def covered_methods_def)
  then show ?thesis using assms
    by (auto simp: eligibility_answer_def filed_liability_def reg_e_evaluate_def late_result_def eligible_result_def
        get_or_def dict_get_def)
qed


section \<open>Fraud reads\<close>

definition fraud_reads :: "string list" where
  "fraud_reads = [''get_fraud_alert'', ''get_account_transactions'', ''check_device_fingerprint'']"

text \<open>The catalog requires a permission for each of the three fraud read tools, so a session
  without permissions is refused by the check the other tools make; but these tools never make it:
  with an audit logger that accepts every entry their answers are the same for every session.\<close>

theorem fraud_reads_unchecked:
  assumes "te_audit env = (\<lambda>_. returnE [])"
  shows "(\<forall>tool\<in>set fraud_reads. \<forall>st. state_permissions st = [] \<longrightarrow>
      (\<exists>m p. authorize_tool tool st None = Inl (AuthorizationError m (Some p)))) \<and>
    fst (get_fraud_alert env a s) = fst (get_fraud_alert env a (s\<lparr>tool_state := st\<rparr>)) \<and>
    fst (get_account_transactions env a days s) = fst (get_account_transactions env a days (s\<lparr>tool_state := st\<rparr>)) \<and>
    fst (check_device_fingerprint env a s) = fst (check_device_fingerprint env a (s\<lparr>tool_state := st\<rparr>))"
proof (intro conjI)
  show "\<forall>tool\<in>set fraud_reads. \<forall>st. state_permissions st = [] \<longrightarrow>
      (\<exists>m p. authorize_tool tool st None = Inl (AuthorizationError m (Some p)))"
    by (auto simp: fraud_reads_def authorize_tool_def TOOL_CATALOG_def catalog_entries_def read_tool_def action_tool_def
        dict_get_def)
  have audit: "audit_session env x y z w m u = (Inr (), u)" for x y z w m u
    by (simp add: audit_session_def audit_tool_def assms bindE_def returnE_def)
  note run = bindE_def returnE_def select_where_def query_one_def set_states_def set_state_def modifyE_def liftE_def Let_def audit
  show "fst (get_fraud_alert env a s) = fst (get_fraud_alert env a (s\<lparr>tool_state := st\<rparr>))"
    by (auto simp: get_fraud_alert_def alert_get_by_id_def run split: option.splits list.splits)
  show "fst (get_account_transactions env a days s) = fst (get_account_transactions env a days (s\<lparr>tool_state := st\<rparr>))"
    by (auto simp: get_account_transactions_def transactions_by_account_def run split: sum.splits)
  show "fst (check_device_fingerprint env a s) = fst (check_device_fingerprint env a (s\<lparr>tool_state := st\<rparr>))"
    by (auto simp: check_device_fingerprint_def get_devices_def get_login_history_def get_risk_indicators_def run)
qed

section \<open>The refund tool\<close>

text \<open>C27: The refund tool changes nothing, in the kernel or behind it, unless the actor is authorized,
  the session holds a customer and recorded consent, and the order is that customer's.\<close>

theorem issue_refund_guarded:
  assumes "issue_refund env g case_digest oid reason s = (r, t)" and "t \<noteq> s"
  shows "authorize_tool ''issue_refund'' (tool_state (provider s)) None = Inr () \<and>
    truthy_get (tool_state (provider s)) ''customer_id'' \<and>
    truthy_get (tool_state (provider s)) ''refund_consent_evidence'' \<and>
    (\<exists>order. order_get_by_id oid (provider s) = (Inr (Some order), provider s) \<and>
       cell order ''customer_id'' = get_or_null (tool_state (provider s)) ''customer_id'')"
proof -
  let ?st = "tool_state (provider s)"
  have same: "s\<lparr>provider := provider s\<rparr> = s" by simp
  show ?thesis
  proof (cases "authorize_tool ''issue_refund'' ?st None")
    case (Inl e)
    then show ?thesis using assms
      by (simp add: issue_refund_def bindE_def on_provider_def authorize_def getE_def liftE_def)
  next
    case (Inr u)
    have auth: "on_provider (authorize ''issue_refund'' None) s = (Inr (), s)"
      using Inr by (simp add: on_provider_def authorize_def bindE_def getE_def liftE_def)
    have got: "on_provider (getE tool_state) s = (Inr ?st, s)" by (simp add: on_provider_def)
    obtain found where f: "order_get_by_id oid (provider s) = (found, provider s)"
      by (metis order_get_reads prod.exhaust)
    then have f': "on_provider (order_get_by_id oid) s = (found, s)" by (simp add: on_provider_def)
    show ?thesis using assms Inr f
      by (cases found) (auto simp: issue_refund_def bindE_step [of _ s] bindE_stop [of _ s] auth got f' returnE_def
          split: if_splits option.splits)
  qed
qed

section \<open>Examples\<close>

definition demo_tool_env :: "unit tool_env" where
  "demo_tool_env = \<lparr>te_audit = (\<lambda>_. returnE []), te_session_id = ''S1'', te_fromiso = (\<lambda>_. None), te_render = (\<lambda>_. [])\<rparr>"

definition demo_other_order :: row where
  "demo_other_order = dict_set (dict_set demo_biz_order ''order_id'' (JStr ''O2'')) ''customer_id'' (JStr ''U2'')"

definition demo_session :: pdict where
  "demo_session = [(''customer_id'', JStr ''U1''), (''refund_consent_evidence'', JStr ''C1''), (''actor_permissions'',
     JList (map (\<lambda>p. JStr (permission_value p)) [ORDER_READ, CASE_READ, CASE_WRITE, REFUND_WRITE]))]"

definition demo_tworld :: tworld where
  "demo_tworld = bworld.extend (demo_bworld\<lparr>biz := (biz demo_bworld)(''orders'' := [demo_biz_order, demo_other_order],
     ''customers'' := biz demo_bworld ''customers'' @ [[(''customer_id'', JStr ''U2'')]])\<rparr>) (tworld.fields demo_session)"

lemma demo_tworld_facts:
  "tool_state demo_tworld = demo_session"
  "map_sum (\<lambda>e. e) (\<lambda>r. dict_get r ''customer_id'') (fst (lookup_order demo_tool_env ''O1'' demo_tworld)) = Inr (Some (JStr ''U1''))"
  "map_sum (\<lambda>e. e) (\<lambda>r. dict_get r ''customer_id'') (fst (lookup_order demo_tool_env ''O2'' demo_tworld)) = Inr None"
  by code_simp+

theorem reads_confined_witness:
  "\<exists>t. lookup_order demo_tool_env ''O2'' demo_tworld = (Inr (not_found ''Order'' ''O2''), t) \<and> t = demo_tworld"
proof -
  obtain r t where run: "lookup_order demo_tool_env ''O2'' demo_tworld = (Inr r, t)" "dict_get r ''customer_id'' = None"
    using demo_tworld_facts(3) by (cases "lookup_order demo_tool_env ''O2'' demo_tworld"; cases "fst (lookup_order demo_tool_env ''O2'' demo_tworld)") auto
  have "dict_get (tool_state demo_tworld) ''customer_id'' = Some (JStr ''U1'')" "''U1'' \<noteq> []"
    by (simp_all add: demo_tworld_facts(1) demo_session_def dict_get_def)
  from conjunct1 [OF reads_confined [OF this, of demo_tool_env], rule_format, OF run(1)] run show ?thesis by auto
qed

definition demo_check :: "(exn + pdict) \<times> tworld" where
  "demo_check = check_dispute_eligibility demo_tool_env ''T1'' ''unauthorized'' 1 ''Debit'' demo_tworld"

definition demo_filed :: "(exn + pdict) \<times> tworld" where
  "demo_filed = file_eft_dispute demo_tool_env ''U1'' ''T1'' ''unauthorized'' 500 ''M'' ''unknown'' ''r'' None ''Debit'' (snd demo_check)"

definition demo_credit :: "(exn + pdict) \<times> tworld" where
  "demo_credit = issue_provisional_credit demo_tool_env ''D1'' (snd demo_filed)"

lemma demo_check_runs: "\<not> isl (fst demo_check)"
  by code_simp

lemma demo_env_facts: "keeps_session demo_tool_env" "audit_session demo_tool_env x y z w m u = (Inr (), u)"
  "audit_tool demo_tool_env v u = (Inr (), u)"
  by (auto simp: keeps_session_def audit_session_def audit_tool_def demo_tool_env_def bindE_def returnE_def)

lemma dispute_inserts:
  assumes "biz s ''disputes'' = []" "\<And>c. c \<in> {''dispute_id'', ''customer_id'', ''transaction_id'', ''dispute_type'', ''amount'', ''merchant'',
     ''transaction_date'', ''reported_date''} \<Longrightarrow> cell args c \<noteq> JNull"
  shows "fst (dispute_create args s) = Inr ()"
  using assms
  by (simp add: dispute_create_def insert_into_def business_schema_def reference_schema_def operations_schema_def
      dispute_columns_def dict_get_def table_of_def required_def nullable_def defaulted_def Let_def full_row_def
      null_violation_def unique_violation_def cell_def get_or_null_def)

lemma bindE_returns:
  "\<exists>u. m s = (Inr (), u) \<Longrightarrow> (\<And>u. \<exists>f t. g () u = (Inr f, t)) \<Longrightarrow> \<exists>f t. bindE m g s = (Inr f, t)"
  by (auto simp: bindE_def)

lemma file_dispute_succeeds:
  assumes auth: "authorize_tool ''file_eft_dispute'' (tool_state s) (Some c) = Inr ()"
    and e: "dict_get (tool_state s) ''dispute_eligibility'' = Some (JObj e)"
    and "biz s ''disputes'' = []" and l: "filed_liability e amount = (tier, JFloat l)"
    and audit: "\<And>v u. audit_tool env v u = (Inr (), u)"
  shows "\<exists>f t. file_eft_dispute env c txn ty amount m d reason acct pm s = (Inr f, t)"
proof -
  have a: "authorize ''file_eft_dispute'' (Some c) s = (Inr (), s)" using auth by (simp add: authorize_Inr)
  have e': "as_dict (state_dict (tool_state s) ''dispute_eligibility'') = Inr e"
    using e by (simp add: as_dict_def state_dict_def)
  let ?s = "s\<lparr>clock_idx := Suc (clock_idx s)\<rparr>"
  have ins: "\<exists>u. dispute_create args ?s = (Inr (), u)" if "\<And>c. c \<in> {''dispute_id'', ''customer_id'', ''transaction_id'',
     ''dispute_type'', ''amount'', ''merchant'', ''transaction_date'', ''reported_date''} \<Longrightarrow> cell args c \<noteq> JNull" for args
    using dispute_inserts [of ?s args] that assms(3) by (cases "dispute_create args ?s") auto
  have fm: "format_money (JFloat l) = Inr (money l)" by (simp add: format_money_def)
  show ?thesis
    unfolding file_eft_dispute_def
    by (simp add: bindE_step [of _ s] a now_op_def bindE_step [of _ ?s] liftE_def e' l Let_def)
      (rule bindE_returns, rule ins, auto simp: cell_def get_or_null_def dict_get_def fm bindE_def set_states_def modifyE_def
        audit returnE_def liftE_def)
qed

lemma provisional_credit_returns:
  assumes "authorize_tool ''issue_provisional_credit'' (tool_state s) None = Inr ()"
    and f: "dict_get (tool_state s) ''dispute_data'' = Some (JObj f)"
    and vals: "dict_get f ''amount'' = Some (JFloat amount)" "dict_get f ''max_liability'' = Some (JFloat limit)"
    and audit: "\<And>x y z w m u. audit_session env x y z w m u = (Inr (), u)"
  shows "\<exists>p t. issue_provisional_credit env did s = (Inr p, t)"
proof -
  have a: "authorize ''issue_provisional_credit'' None s = (Inr (), s)" using assms(1) by (simp add: authorize_Inr)
  have d: "as_dict (state_dict (tool_state s) ''dispute_data'') = Inr f" using f by (simp add: as_dict_def state_dict_def)
  have am: "provisional_amount (default_to f ''amount'' x) (default_to f ''max_liability'' y) = Inr (max 0 (amount - limit))" for x y
    using vals by (simp add: provisional_amount_def default_to_def)
  have upd: "\<exists>v. dispute_provisional_credit did x y u = (Inr (), v)" for x y u
    by (simp add: dispute_provisional_credit_def update_where_def columns_of_def business_schema_def reference_schema_def
        operations_schema_def dict_get_def dict_keys_def table_of_def required_def nullable_def defaulted_def)
  show ?thesis
    by (simp add: issue_provisional_credit_def bindE_step [of _ s] a liftE_def d am Let_def returnE_def now_op_def)
      (intro impI, rule bindE_returns, rule upd, simp add: bindE_def set_state_def modifyE_def audit returnE_def)
qed

lemma file_keeps_actor:
  assumes q: "keeps_session env" and run: "file_eft_dispute env c txn ty amount m d reason acct pm s = (Inr f, t)"
    and e: "dict_get (tool_state s) ''dispute_eligibility'' = Some (JObj e)"
    and "k \<noteq> ''dispute_data''" "k \<noteq> ''dispute_id''"
  shows "dict_get (tool_state t) k = dict_get (tool_state s) k"
proof -
  have e': "as_dict (state_dict (tool_state s) ''dispute_eligibility'') = Inr e"
    using e by (simp add: as_dict_def state_dict_def)
  obtain tier l where l: "filed_liability e amount = (tier, l)" by fastforce
  show ?thesis using run assms(4,5) e'
    by (auto simp: file_eft_dispute_def bindE_Inr authorize_Inr now_op_def liftE_def Let_def returnE_def set_states_def
        modifyE_def dispute_create_def dict_merge_def l dest!: insert_into_session audit_tool_session [OF q])
qed


theorem fraud_reads_unchecked_witness:
  "fst (get_fraud_alert demo_tool_env ''A1'' demo_tworld) =
   fst (get_fraud_alert demo_tool_env ''A1'' (demo_tworld\<lparr>tool_state := []\<rparr>))"
  by (rule fraud_reads_unchecked [THEN conjunct2, THEN conjunct1]) (simp add: demo_tool_env_def)

definition demo_tool_world :: "tworld gworld" where
  "demo_tool_world = policy_world.extend demo_policy_start (gworld.fields demo_tworld)"

definition demo_tool_gateway :: "tworld ActionGateway" where
  "demo_tool_gateway = refund_engine demo_py (\<lambda>k. k) (\<lambda>_ _. []) \<lparr>sg_key = [], sg_key_id = [], sg_verification_keys = []\<rparr>"

definition demo_refund_run :: "(exn + pdict) \<times> tworld gworld" where
  "demo_refund_run = issue_refund demo_tool_env demo_tool_gateway (\<lambda>k. k) ''O1'' ''broken'' demo_tool_world"

lemma demo_refund_facts:
  "provider demo_tool_world = demo_tworld"
  "map (\<lambda>r. cell r ''order_id'') (biz demo_tworld ''refunds'') = []"
  "map (\<lambda>r. cell r ''order_id'') (biz (provider (snd demo_refund_run)) ''refunds'') = [JStr ''O1'']"
  by (simp add: demo_tool_world_def policy_world.defs gworld.defs, code_simp, code_simp)

theorem issue_refund_guarded_witness:
  "authorize_tool ''issue_refund'' (tool_state demo_tworld) None = Inr () \<and>
   truthy_get (tool_state demo_tworld) ''refund_consent_evidence''"
proof -
  have "issue_refund demo_tool_env demo_tool_gateway (\<lambda>k. k) ''O1'' ''broken'' demo_tool_world =
      (fst demo_refund_run, snd demo_refund_run)" by (simp add: demo_refund_run_def)
  moreover have "snd demo_refund_run \<noteq> demo_tool_world"
  proof
    assume "snd demo_refund_run = demo_tool_world"
    then show False using demo_refund_facts by simp
  qed
  ultimately show ?thesis using issue_refund_guarded by (simp only: demo_refund_facts(1) [symmetric]) blast
qed

end
