(* ===== verification/Providers.thy ===== *)
theory Providers
  imports Refunds
begin

text \<open>
  The ports of the upstream providers (\<open>integrations/contracts.py\<close>) and the development adapters
  behind them (\<open>integrations/sandbox.py\<close>): speech, telephony, the delivery receipts, chat, the
  action sandbox with its injected faults, and the handoff queue. The adapters keep their state in
  SQLite; each statement they run is one operation on the tables of \<open>sbx\<close>. SHA-256 digests and the
  text of a timestamp are parameters; the \<open>CREATE TABLE IF NOT EXISTS\<close> of every call does nothing to
  the tables.
\<close>

section \<open>Contracts\<close>

datatype DeliveryStatus = DELIVERY_ACCEPTED | DELIVERED | DELIVERY_READ | DELIVERY_FAILED | DELIVERY_UNKNOWN

fun delivery_value :: "DeliveryStatus \<Rightarrow> string" where
  "delivery_value DELIVERY_ACCEPTED = ''accepted''"
| "delivery_value DELIVERED = ''delivered''"
| "delivery_value DELIVERY_READ = ''read''"
| "delivery_value DELIVERY_FAILED = ''failed''"
| "delivery_value DELIVERY_UNKNOWN = ''unknown''"

record ProviderReceipt =
  dr_provider_id :: string
  dr_provider_message_id :: string
  dr_status :: DeliveryStatus
  dr_occurred_at :: string
  dr_details :: pdict

record SttRequest =
  sq_event_id :: string
  sq_call_id :: string
  sq_audio_ref :: "string option"
  sq_transcript_hint :: "string option"
  sq_locale :: string
  sq_is_final :: bool
  sq_contains_secret_dtmf :: bool

record SttResult =
  sr_provider_id :: string
  sr_event_id :: string
  sr_call_id :: string
  sr_transcript :: string
  sr_confidence :: rat
  sr_is_final :: bool
  sr_simulated :: bool
  sr_redacted :: bool

record TtsRequest =
  tq_request_id :: string
  tq_call_id :: string
  tq_text :: string
  tq_locale :: string
  tq_voice :: string
  tq_ssml :: bool

record TtsResult =
  tr_provider_id :: string
  tr_request_id :: string
  tr_call_id :: string
  tr_playback_id :: string
  tr_media_ref :: string
  tr_simulated :: bool

datatype TelephonyEventType = CALL_STARTED | DTMF | TRANSCRIPT | PLAYBACK_COMPLETED | BARGE_IN
  | TRANSFER_REQUESTED | DISCONNECTED

fun telephony_value :: "TelephonyEventType \<Rightarrow> string" where
  "telephony_value CALL_STARTED = ''call_started''"
| "telephony_value DTMF = ''dtmf''"
| "telephony_value TRANSCRIPT = ''transcript''"
| "telephony_value PLAYBACK_COMPLETED = ''playback_completed''"
| "telephony_value BARGE_IN = ''barge_in''"
| "telephony_value TRANSFER_REQUESTED = ''transfer_requested''"
| "telephony_value DISCONNECTED = ''disconnected''"

record TelephonyEvent =
  te_event_id :: string
  te_call_id :: string
  te_event_type :: TelephonyEventType
  te_sequence :: int
  te_occurred_at :: string
  te_payload :: pdict

record HandoffRequest =
  hr_handoff_id :: string
  hr_conversation_id :: string
  hr_case_id :: string
  hr_queue :: string
  hr_priority :: string
  hr_context :: pdict

record HandoffReceipt =
  hp_provider_id :: string
  hp_handoff_id :: string
  hp_provider_ticket_id :: string
  hp_status :: string
  hp_details :: pdict

section \<open>Sensitive fields\<close>

definition SENSITIVE_KEY_FRAGMENTS :: "string list" where
  "SENSITIVE_KEY_FRAGMENTS = [''password'', ''secret'', ''token'', ''pin'', ''cvv'', ''card_number'', ''ssn'',
     ''social_security'', ''private_key'']"

definition sensitive_key :: "string \<Rightarrow> bool" where
  "sensitive_key key \<longleftrightarrow> list_ex (\<lambda>fragment. substring fragment (lower key)) SENSITIVE_KEY_FRAGMENTS"

fun sensitive_paths :: "string \<Rightarrow> json \<Rightarrow> string list"
  and sensitive_items :: "string \<Rightarrow> (string \<times> json) list \<Rightarrow> string list"
  and sensitive_elements :: "string \<Rightarrow> nat \<Rightarrow> json list \<Rightarrow> string list" where
  "sensitive_paths prefix (JObj d) = sensitive_items prefix d"
| "sensitive_paths prefix (JList xs) = sensitive_elements prefix 0 xs"
| "sensitive_paths prefix _ = []"
| "sensitive_items prefix [] = []"
| "sensitive_items prefix ((key, nested) # d) =
     (let path = (if prefix \<noteq> [] then prefix @ ''.'' @ key else key) in
      (if sensitive_key key then [path] else []) @ sensitive_paths path nested @ sensitive_items prefix d)"
| "sensitive_elements prefix index [] = []"
| "sensitive_elements prefix index (nested # xs) =
     sensitive_paths (prefix @ ''['' @ str_nat index @ '']'') nested @ sensitive_elements prefix (Suc index) xs"

definition reject_sensitive :: "string \<Rightarrow> pdict \<Rightarrow> exn + unit" where
  "reject_sensitive message d = (let found = sensitive_paths [] (JObj d) in
     if found \<noteq> [] then Inl (ValueError (message @ join '', '' (sort (remdups found)))) else Inr ())"

section \<open>Speech and telephony\<close>

definition transcribe :: "rat \<Rightarrow> SttRequest \<Rightarrow> exn + SttResult" where
  "transcribe confidence request =
     (let redacted = sq_contains_secret_dtmf request;
          shown = (if redacted then 0 else confidence) in
      if shown < 0 \<or> 1 < shown then Inl (ValueError ''confidence'')
      else Inr \<lparr>sr_provider_id = ''sandbox-stt'', sr_event_id = sq_event_id request, sr_call_id = sq_call_id request,
        sr_transcript = (if redacted then ''[REDACTED DTMF]''
          else case sq_transcript_hint request of None \<Rightarrow> [] | Some hint \<Rightarrow> hint),
        sr_confidence = shown, sr_is_final = sq_is_final request, sr_simulated = True, sr_redacted = redacted\<rparr>)"

definition tts_request_valid :: "TtsRequest \<Rightarrow> bool" where
  "tts_request_valid request \<longleftrightarrow> 1 \<le> length (tq_text request) \<and> length (tq_text request) \<le> 10000"

text \<open>\<open>digest\<close> stands for the first 24 hex digits of the SHA-256.\<close>

definition synthesize :: "(string \<Rightarrow> string) \<Rightarrow> TtsRequest \<Rightarrow> TtsResult" where
  "synthesize digest request =
     (let d = digest (tq_locale request @ '':'' @ tq_voice request @ '':'' @
            (if tq_ssml request then ''True'' else ''False'') @ '':'' @ tq_text request) in
      \<lparr>tr_provider_id = ''sandbox-tts'', tr_request_id = tq_request_id request, tr_call_id = tq_call_id request,
       tr_playback_id = ''PB-'' @ d, tr_media_ref = ''sandbox://tts/'' @ d, tr_simulated = True\<rparr>)"

definition accept_event :: "(time \<Rightarrow> string) \<Rightarrow> TelephonyEvent \<Rightarrow> (ProviderReceipt, 'z env_scheme) op" where
  "accept_event iso_text event =
     bindE now_op (\<lambda>now.
     returnE \<lparr>dr_provider_id = ''sandbox-telephony'', dr_provider_message_id = te_event_id event,
       dr_status = DELIVERY_ACCEPTED, dr_occurred_at = iso_text now,
       dr_details = [(''call_id'', JStr (te_call_id event)),
         (''event_type'', JStr (telephony_value (te_event_type event))), (''simulated'', JBool True)]\<rparr>)"

section \<open>The sandbox tables\<close>

datatype SandboxScenario = SUCCESS | REJECTED | TIMEOUT_BEFORE_COMMIT | TIMEOUT_AFTER_COMMIT

fun scenario_value :: "SandboxScenario \<Rightarrow> string" where
  "scenario_value SUCCESS = ''success''"
| "scenario_value REJECTED = ''rejected''"
| "scenario_value TIMEOUT_BEFORE_COMMIT = ''timeout_before_commit''"
| "scenario_value TIMEOUT_AFTER_COMMIT = ''timeout_after_commit''"

record resource_row =
  rr_resource_type :: string
  rr_resource_id :: string
  rr_payload :: pdict
  rr_version :: int
  rr_updated_at :: time

record effect_row =
  ef_idempotency_key :: string
  ef_provider_action_id :: string
  ef_action :: string
  ef_command :: ActionCommand
  ef_committed_at :: time

record ticket_row =
  tk_provider_ticket_id :: string
  tk_handoff_id :: string
  tk_request :: HandoffRequest
  tk_status :: string
  tk_updated_at :: time

record sbx = env +
  delivery_receipts :: "ProviderReceipt list"
  authoritative_resources :: "resource_row list"
  action_scenarios :: "(string \<times> SandboxScenario) list"
  action_effects :: "effect_row list"
  handoff_tickets :: "ticket_row list"

type_synonym ('a, 'z) sop = "('a, 'z sbx_scheme) op"

section \<open>Delivery receipts and chat\<close>

definition receipt_key :: "ProviderReceipt \<Rightarrow> string \<times> string \<times> DeliveryStatus" where
  "receipt_key r = (dr_provider_id r, dr_provider_message_id r, dr_status r)"

text \<open>\<open>INSERT OR REPLACE\<close>: the row with the same key goes first.\<close>

definition record_receipt :: "ProviderReceipt \<Rightarrow> (ProviderReceipt, 'z) sop" where
  "record_receipt receipt =
     bindE (liftE (reject_sensitive ''Delivery receipt rejects sensitive fields: '' (dr_details receipt))) (\<lambda>_.
     bindE (modifyE (\<lambda>s. s\<lparr>delivery_receipts :=
       filter (\<lambda>r. receipt_key r \<noteq> receipt_key receipt) (delivery_receipts s) @ [receipt]\<rparr>)) (\<lambda>_.
     returnE receipt))"

definition list_receipts :: "int \<Rightarrow> (ProviderReceipt list, 'z) sop" where
  "list_receipts limit = getE (\<lambda>s. sql_limit limit (rev (sort_key dr_occurred_at (rev (delivery_receipts s)))))"

text \<open>\<open>digest\<close> stands for the first 20 upper-case hex digits of the SHA-256 of the sorted JSON text.\<close>

definition chat_send :: "(json \<Rightarrow> string) \<Rightarrow> (time \<Rightarrow> string) \<Rightarrow> pdict \<Rightarrow> (ProviderReceipt, 'z) sop" where
  "chat_send digest iso_text message =
     bindE now_op (\<lambda>now.
     bindE (liftE (if truthy_get message ''message_id''
       then (case dict_get message ''message_id'' of Some (JStr m) \<Rightarrow> Inr m | _ \<Rightarrow> Inl (ValueError ''provider_message_id''))
       else Inr (''MSG-'' @ digest (JObj message)))) (\<lambda>message_id.
     record_receipt \<lparr>dr_provider_id = ''local-chat'', dr_provider_message_id = message_id, dr_status = DELIVERED,
       dr_occurred_at = iso_text now, dr_details = [(''simulated'', JBool True),
         (''conversation_id'', get_or_null message ''conversation_id'')]\<rparr>))"

section \<open>The action sandbox\<close>

subsection \<open>Resources\<close>

definition find_resource :: "string \<Rightarrow> string \<Rightarrow> resource_row list \<Rightarrow> resource_row option" where
  "find_resource rt ri rows = (case filter (\<lambda>r. rr_resource_type r = rt \<and> rr_resource_id r = ri) rows of
      [] \<Rightarrow> None | r # _ \<Rightarrow> Some r)"

definition sandbox_get_resource :: "string \<Rightarrow> string \<Rightarrow> (resource_row option, 'z) sop" where
  "sandbox_get_resource resource_type resource_id =
     getE (\<lambda>s. find_resource resource_type resource_id (authoritative_resources s))"

definition upsert_resource :: "string \<Rightarrow> string \<Rightarrow> pdict \<Rightarrow> time \<Rightarrow> resource_row list \<Rightarrow> resource_row list" where
  "upsert_resource rt ri payload now rows =
     (case find_resource rt ri rows of
        None \<Rightarrow> rows @ [\<lparr>rr_resource_type = rt, rr_resource_id = ri, rr_payload = payload, rr_version = 1, rr_updated_at = now\<rparr>]
      | Some _ \<Rightarrow> map (\<lambda>r. if rr_resource_type r = rt \<and> rr_resource_id r = ri
          then r\<lparr>rr_payload := payload, rr_version := rr_version r + 1, rr_updated_at := now\<rparr> else r) rows)"

definition put_resource :: "string \<Rightarrow> string \<Rightarrow> pdict \<Rightarrow> (resource_row, 'z) sop" where
  "put_resource resource_type resource_id payload =
     bindE (liftE (reject_sensitive ''Sandbox resources reject sensitive fields: '' payload)) (\<lambda>_.
     bindE now_op (\<lambda>now.
     bindE (modifyE (\<lambda>s. s\<lparr>authoritative_resources :=
       upsert_resource resource_type resource_id payload now (authoritative_resources s)\<rparr>)) (\<lambda>_.
     bindE (sandbox_get_resource resource_type resource_id) (\<lambda>resource.
     case resource of None \<Rightarrow> raiseE AssertionError | Some r \<Rightarrow> returnE r))))"

subsection \<open>Effects\<close>

definition set_scenario :: "string \<Rightarrow> SandboxScenario \<Rightarrow> (unit, 'z) sop" where
  "set_scenario idempotency_key scenario =
     modifyE (\<lambda>s. s\<lparr>action_scenarios := dict_set (action_scenarios s) idempotency_key scenario\<rparr>)"

definition scenario_of :: "string \<Rightarrow> (SandboxScenario, 'z) sop" where
  "scenario_of key = getE (\<lambda>s. case dict_get (action_scenarios s) key of None \<Rightarrow> SUCCESS | Some x \<Rightarrow> x)"

definition find_effect :: "string \<Rightarrow> effect_row list \<Rightarrow> effect_row option" where
  "find_effect key rows = (case filter (\<lambda>e. ef_idempotency_key e = key) rows of [] \<Rightarrow> None | e # _ \<Rightarrow> Some e)"

definition sandbox_effect :: "string \<Rightarrow> (effect_row option, 'z) sop" where
  "sandbox_effect key = getE (\<lambda>s. find_effect key (action_effects s))"

text \<open>\<open>INSERT OR IGNORE\<close>: nothing happens when the key or the provider's identifier is taken.
  \<open>digest\<close> stands for the first 20 upper-case hex digits of the SHA-256.\<close>

definition insert_effect :: "effect_row \<Rightarrow> effect_row list \<Rightarrow> effect_row list" where
  "insert_effect e rows = (if list_ex (\<lambda>x. ef_idempotency_key x = ef_idempotency_key e \<or>
      ef_provider_action_id x = ef_provider_action_id e) rows then rows else rows @ [e])"

definition sandbox_commit :: "(string \<Rightarrow> string) \<Rightarrow> ActionCommand \<Rightarrow> (effect_row, 'z) sop" where
  "sandbox_commit digest command =
     bindE now_op (\<lambda>now.
     bindE (modifyE (\<lambda>s. s\<lparr>action_effects := insert_effect
       \<lparr>ef_idempotency_key = cmd_idempotency_key command,
        ef_provider_action_id = ''SBX-'' @ digest (cmd_idempotency_key command), ef_action = cmd_action command,
        ef_command = command, ef_committed_at = now\<rparr> (action_effects s)\<rparr>)) (\<lambda>_.
     bindE (sandbox_effect (cmd_idempotency_key command)) (\<lambda>effect.
     case effect of None \<Rightarrow> raiseE AssertionError | Some e \<Rightarrow> returnE e)))"

definition sandbox_provider :: "string \<times> json" where
  "sandbox_provider = (''provider_id'', JStr ''sqlite-action-sandbox'')"

definition effect_details :: "effect_row \<Rightarrow> pdict \<Rightarrow> pdict" where
  "effect_details e extra =
    [sandbox_provider, (''provider_action_id'', JStr (ef_provider_action_id e)), (''action'', JStr (ef_action e)),
     (''committed_at'', JInt (ef_committed_at e)), (''simulated'', JBool True)] @ extra"

definition sandbox_dispatch :: "(string \<Rightarrow> string) \<Rightarrow> ActionCommand \<Rightarrow> (ConnectorOutcome, 'z) sop" where
  "sandbox_dispatch digest command =
     bindE (sandbox_effect (cmd_idempotency_key command)) (\<lambda>existing.
     case existing of
       Some e \<Rightarrow> returnE (outcome_succeeded (effect_details e [(''idempotent_replay'', JBool True)]))
     | None \<Rightarrow>
         bindE (scenario_of (cmd_idempotency_key command)) (\<lambda>scenario.
         if scenario = REJECTED
         then returnE (outcome_failed [sandbox_provider, (''reason'', JStr ''sandbox_rejected''), (''simulated'', JBool True)])
         else if scenario = TIMEOUT_BEFORE_COMMIT
         then returnE (outcome_unknown [sandbox_provider, (''reason'', JStr (scenario_value scenario)), (''simulated'', JBool True)])
         else
         bindE (sandbox_commit digest command) (\<lambda>e.
         if scenario = TIMEOUT_AFTER_COMMIT
         then returnE (outcome_unknown [sandbox_provider, (''provider_action_id'', JStr (ef_provider_action_id e)),
           (''reason'', JStr (scenario_value scenario)), (''simulated'', JBool True)])
         else returnE (outcome_succeeded (effect_details e [])))))"

definition prior_or_empty :: "pdict option \<Rightarrow> json" where
  "prior_or_empty prior = JObj (case prior of None \<Rightarrow> [] | Some d \<Rightarrow> d)"

definition sandbox_reconcile :: "ActionCommand \<Rightarrow> pdict option \<Rightarrow> (ConnectorOutcome, 'z) sop" where
  "sandbox_reconcile command prior =
     bindE (sandbox_effect (cmd_idempotency_key command)) (\<lambda>effect.
     returnE (case effect of
       Some e \<Rightarrow> outcome_succeeded (effect_details e [(''reconciled'', JBool True)])
     | None \<Rightarrow> outcome_unknown [sandbox_provider, (''reason'', JStr ''no_authoritative_provider_record''),
         (''prior'', prior_or_empty prior), (''simulated'', JBool True)]))"

definition SQLiteSandboxActionConnector :: "(string \<Rightarrow> string) \<Rightarrow> 'z sbx_scheme ActionConnector" where
  "SQLiteSandboxActionConnector digest = \<lparr>conn_dispatch = sandbox_dispatch digest, conn_reconcile = sandbox_reconcile\<rparr>"

section \<open>The disabled connector\<close>

definition disabled_dispatch :: "ActionCommand \<Rightarrow> (ConnectorOutcome, 's) op" where
  "disabled_dispatch command = returnE (outcome_failed [(''provider_id'', JStr ''disabled''),
     (''reason'', JStr ''upstream_adapter_disabled'')])"

definition disabled_reconcile :: "ActionCommand \<Rightarrow> pdict option \<Rightarrow> (ConnectorOutcome, 's) op" where
  "disabled_reconcile command prior = returnE (outcome_unknown [(''provider_id'', JStr ''disabled''),
     (''reason'', JStr ''upstream_adapter_disabled''), (''prior'', prior_or_empty prior)])"

definition DisabledActionConnector :: "'s ActionConnector" where
  "DisabledActionConnector = \<lparr>conn_dispatch = disabled_dispatch, conn_reconcile = disabled_reconcile\<rparr>"

section \<open>The handoff queue\<close>

definition find_ticket :: "string \<Rightarrow> ticket_row list \<Rightarrow> ticket_row option" where
  "find_ticket tid rows = (case filter (\<lambda>t. tk_provider_ticket_id t = tid) rows of [] \<Rightarrow> None | t # _ \<Rightarrow> Some t)"

definition handoff_status_of :: "string \<Rightarrow> (HandoffReceipt, 'z) sop" where
  "handoff_status_of provider_ticket_id =
     bindE (getE (\<lambda>s. find_ticket provider_ticket_id (handoff_tickets s))) (\<lambda>row.
     case row of
       None \<Rightarrow> raiseE (KeyError provider_ticket_id)
     | Some t \<Rightarrow> returnE \<lparr>hp_provider_id = ''sqlite-handoff-sandbox'', hp_handoff_id = tk_handoff_id t,
         hp_provider_ticket_id = provider_ticket_id, hp_status = tk_status t, hp_details = [(''simulated'', JBool True)]\<rparr>)"

text \<open>\<open>digest\<close> stands for the first 16 upper-case hex digits of the SHA-256.\<close>

definition ticket_id_of :: "(string \<Rightarrow> string) \<Rightarrow> string \<Rightarrow> string" where
  "ticket_id_of digest handoff_id = ''TKT-'' @ digest handoff_id"

definition insert_ticket :: "ticket_row \<Rightarrow> ticket_row list \<Rightarrow> ticket_row list" where
  "insert_ticket t rows = (if list_ex (\<lambda>x. tk_provider_ticket_id x = tk_provider_ticket_id t \<or>
      tk_handoff_id x = tk_handoff_id t) rows then rows else rows @ [t])"

definition handoff_enqueue :: "(string \<Rightarrow> string) \<Rightarrow> HandoffRequest \<Rightarrow> (HandoffReceipt, 'z) sop" where
  "handoff_enqueue digest request =
     (let ticket_id = ticket_id_of digest (hr_handoff_id request) in
     bindE now_op (\<lambda>now.
     bindE (modifyE (\<lambda>s. s\<lparr>handoff_tickets := insert_ticket
       \<lparr>tk_provider_ticket_id = ticket_id, tk_handoff_id = hr_handoff_id request, tk_request = request,
        tk_status = ''queued'', tk_updated_at = now\<rparr> (handoff_tickets s)\<rparr>)) (\<lambda>_.
     handoff_status_of ticket_id)))"

definition handoff_set_status :: "string \<Rightarrow> string \<Rightarrow> (HandoffReceipt, 'z) sop" where
  "handoff_set_status provider_ticket_id status =
     bindE now_op (\<lambda>now.
     bindE (getE (\<lambda>s. length (filter (\<lambda>t. tk_provider_ticket_id t = provider_ticket_id) (handoff_tickets s)))) (\<lambda>rowcount.
     bindE (modifyE (\<lambda>s. s\<lparr>handoff_tickets := map (\<lambda>t. if tk_provider_ticket_id t = provider_ticket_id
       then t\<lparr>tk_status := status, tk_updated_at := now\<rparr> else t) (handoff_tickets s)\<rparr>)) (\<lambda>_.
     bindE (raise_if (rowcount \<noteq> 1) (KeyError provider_ticket_id)) (\<lambda>_.
     handoff_status_of provider_ticket_id))))"

end
