(* ===== verification/Provider_Laws.thy ===== *)
theory Provider_Laws
  imports Providers
begin

text \<open>
  What the gateway may rely on of a provider, as a locale, and the three connectors of the repository
  as its instances; then the invariant of the sandbox tables under any interleaving of the adapters.
\<close>

section \<open>The contract of an action provider\<close>

text \<open>The state after a list of dispatches, whatever they answer or raise.\<close>

definition attempts :: "(ActionCommand \<Rightarrow> (ConnectorOutcome, 's) op) \<Rightarrow> ActionCommand list \<Rightarrow> 's \<Rightarrow> 's" where
  "attempts dispatch cs s = fold (\<lambda>c s. snd (dispatch c s)) cs s"

text \<open>
  An effect stays once it is there; a reported success has one and a reported failure added none;
  reconciling only reads, and answers success exactly when there is an effect.
\<close>

locale action_provider =
  fixes dispatch :: "ActionCommand \<Rightarrow> (ConnectorOutcome, 's) op"
    and reconcile :: "ActionCommand \<Rightarrow> pdict option \<Rightarrow> (ConnectorOutcome, 's) op"
    and effect :: "'s \<Rightarrow> ActionCommand \<Rightarrow> 'e option"
  assumes effect_kept: "dispatch c s = (r, t) \<Longrightarrow> effect s d = Some e \<Longrightarrow> effect t d = Some e"
    and succeeded_effect: "dispatch c s = (Inr out, t) \<Longrightarrow> co_status out = SUCCEEDED \<Longrightarrow> effect t c \<noteq> None"
    and failed_no_effect: "dispatch c s = (Inr out, t) \<Longrightarrow> co_status out = FAILED \<Longrightarrow> effect t d = effect s d"
    and reconcile_reads: "reconcile c prior s = (r, t) \<Longrightarrow> t = s"
    and reconcile_truthful: "reconcile c prior s = (Inr out, t) \<Longrightarrow>
      co_status out = (if effect s c = None then UNKNOWN else SUCCEEDED)"
begin

lemma effect_survives: "effect s d = Some e \<Longrightarrow> effect (attempts dispatch cs s) d = Some e"
  unfolding attempts_def
  by (induction cs arbitrary: s) (auto intro: effect_kept [OF prod.collapse [symmetric]])

lemma resolved:
  assumes "dispatch c s = (r, t)" and "reconcile c prior (attempts dispatch cs t) = (Inr out, u)"
  shows "u = attempts dispatch cs t"
    and "co_status out = (if effect (attempts dispatch cs t) c = None then UNKNOWN else SUCCEEDED)"
    and "r = Inr answer \<Longrightarrow> co_status answer = SUCCEEDED \<Longrightarrow> co_status out = SUCCEEDED"
proof -
  show "u = attempts dispatch cs t" by (rule reconcile_reads [OF assms(2)])
  show st: "co_status out = (if effect (attempts dispatch cs t) c = None then UNKNOWN else SUCCEEDED)"
    by (rule reconcile_truthful [OF assms(2)])
  assume "r = Inr answer" "co_status answer = SUCCEEDED"
  then obtain e where "effect t c = Some e" using succeeded_effect assms(1) by blast
  then show "co_status out = SUCCEEDED" using st effect_survives by simp
qed

end

text \<open>A provider that recognises the idempotency key: a command with an effect is answered again
  without a second one.\<close>

locale replaying_provider = action_provider +
  assumes replay: "effect s c = Some e \<Longrightarrow> \<exists>out. dispatch c s = (Inr out, s) \<and> co_status out = SUCCEEDED"
begin

lemma repeated_dispatch:
  assumes "dispatch c s = (r, t)" and "effect t c \<noteq> None"
  shows "attempts dispatch (replicate n c) t = t"
proof (induction n)
  case (Suc n)
  obtain e where "effect t c = Some e" using assms by blast
  then have "snd (dispatch c t) = t" using replay [of t c e] by auto
  then show ?case using Suc by (simp add: attempts_def)
qed (simp add: attempts_def)

end

section \<open>The three connectors\<close>

lemma find_effect_append: "find_effect k (rows @ [e]) =
   (case find_effect k rows of Some x \<Rightarrow> Some x | None \<Rightarrow> if ef_idempotency_key e = k then Some e else None)"
  by (auto simp: find_effect_def split: list.splits)

lemma find_effect_insert: "find_effect k rows = Some x \<Longrightarrow> find_effect k (insert_effect e rows) = Some x"
  by (simp add: insert_effect_def find_effect_append)

definition key_effect :: "'z sbx_scheme \<Rightarrow> ActionCommand \<Rightarrow> effect_row option" where
  "key_effect s c = find_effect (cmd_idempotency_key c) (action_effects s)"

lemma commit_cases:
  assumes "sandbox_commit digest c s = (r, t)"
  shows "\<exists>e. action_effects t = insert_effect e (action_effects s) \<and>
    r = (case key_effect t c of None \<Rightarrow> Inl AssertionError | Some x \<Rightarrow> Inr x)"
  using assms by (auto simp: sandbox_commit_def sandbox_effect_def key_effect_def bindE_def now_op_def modifyE_def getE_def
      raiseE_def returnE_def split: option.splits)

definition scenario_at :: "'z sbx_scheme \<Rightarrow> ActionCommand \<Rightarrow> SandboxScenario" where
  "scenario_at s c = (case dict_get (action_scenarios s) (cmd_idempotency_key c) of None \<Rightarrow> SUCCESS | Some x \<Rightarrow> x)"

definition committed_outcome :: "SandboxScenario \<Rightarrow> effect_row \<Rightarrow> ConnectorOutcome" where
  "committed_outcome scenario e = (if scenario = TIMEOUT_AFTER_COMMIT
     then outcome_unknown [sandbox_provider, (''provider_action_id'', JStr (ef_provider_action_id e)),
       (''reason'', JStr (scenario_value scenario)), (''simulated'', JBool True)]
     else outcome_succeeded (effect_details e []))"

lemma sandbox_reads: "sandbox_effect k s = (Inr (find_effect k (action_effects s)), s)"
  "scenario_of (cmd_idempotency_key c) s = (Inr (scenario_at s c), s)"
  by (simp_all add: sandbox_effect_def scenario_of_def scenario_at_def getE_def)

lemma dispatch_known:
  "key_effect s c = Some e \<Longrightarrow> sandbox_dispatch digest c s =
     (Inr (outcome_succeeded (effect_details e [(''idempotent_replay'', JBool True)])), s)"
  by (simp add: sandbox_dispatch_def key_effect_def bindE_def sandbox_reads returnE_def)

lemma dispatch_refused:
  assumes "key_effect s c = None" "scenario_at s c = REJECTED \<or> scenario_at s c = TIMEOUT_BEFORE_COMMIT"
  shows "\<exists>out. sandbox_dispatch digest c s = (Inr out, s) \<and> co_status out \<in> {FAILED, UNKNOWN}"
  using assms(2)
  by (elim disjE) (simp_all add: assms(1) [unfolded key_effect_def] sandbox_dispatch_def bindE_def sandbox_reads returnE_def
      outcome_failed_def outcome_unknown_def)

lemma dispatch_commits:
  assumes "key_effect s c = None" "scenario_at s c \<noteq> REJECTED" "scenario_at s c \<noteq> TIMEOUT_BEFORE_COMMIT"
  shows "sandbox_dispatch digest c s = bindE (sandbox_commit digest c) (\<lambda>e. returnE (committed_outcome (scenario_at s c) e)) s"
  using assms by (cases "scenario_at s c") (simp_all add: key_effect_def sandbox_dispatch_def bindE_step [of _ s] sandbox_reads
      committed_outcome_def)

lemma dispatch_cases:
  assumes run: "sandbox_dispatch digest c s = (r, t)"
  obtains (replay) e where "key_effect s c = Some e" "t = s" "r = Inr (outcome_succeeded (effect_details e [(''idempotent_replay'', JBool True)]))"
  | (refused) out where "key_effect s c = None" "t = s" "r = Inr out" "co_status out \<in> {FAILED, UNKNOWN}"
  | (committed) r' where "key_effect s c = None" "sandbox_commit digest c s = (r', t)"
      "case r' of Inl e \<Rightarrow> r = Inl e | Inr e \<Rightarrow> \<exists>out. r = Inr out \<and> co_status out \<in> {SUCCEEDED, UNKNOWN}"
proof (cases "key_effect s c")
  case (Some e)
  from dispatch_known [OF this, of digest] run show ?thesis by (intro replay [OF Some]) simp_all
next
  case None
  show ?thesis
  proof (cases "scenario_at s c = REJECTED \<or> scenario_at s c = TIMEOUT_BEFORE_COMMIT")
    case True
    from dispatch_refused [OF None this, of digest] run
    obtain out where "t = s" "r = Inr out" "co_status out \<in> {FAILED, UNKNOWN}" by auto
    then show ?thesis by (rule refused [OF None])
  next
    case False
    obtain r' u where c': "sandbox_commit digest c s = (r', u)" by fastforce
    have "u = t \<and> (case r' of Inl e \<Rightarrow> r = Inl e | Inr e \<Rightarrow> \<exists>out. r = Inr out \<and> co_status out \<in> {SUCCEEDED, UNKNOWN})"
      using run dispatch_commits [OF None, of digest] False c'
      by (cases r') (auto simp: bindE_def returnE_def committed_outcome_def outcome_succeeded_def outcome_unknown_def)
    then show ?thesis by (intro committed [OF None, of r']) (simp_all add: c')
  qed
qed

lemma commit_keeps: "sandbox_commit digest c s = (r, t) \<Longrightarrow> key_effect s d = Some e \<Longrightarrow> key_effect t d = Some e"
  by (drule commit_cases) (auto simp: key_effect_def find_effect_insert)

interpretation sandbox: replaying_provider "sandbox_dispatch digest" sandbox_reconcile key_effect
proof
  fix c d s t e and r :: "exn + ConnectorOutcome"
  assume "sandbox_dispatch digest c s = (r, t)" "key_effect s d = Some e"
  then show "key_effect t d = Some e" by (cases rule: dispatch_cases) (auto dest: commit_keeps)
next
  fix c s out t
  assume "sandbox_dispatch digest c s = (Inr out, t)" "co_status out = SUCCEEDED"
  then show "key_effect t c \<noteq> None"
    by (cases rule: dispatch_cases) (auto dest!: commit_cases split: sum.splits option.splits)
next
  fix c s out t d
  assume "sandbox_dispatch digest c s = (Inr out, t)" "co_status out = FAILED"
  then show "key_effect t d = key_effect s d"
    by (cases rule: dispatch_cases) (auto split: sum.splits)
next
  fix c prior s t and r :: "exn + ConnectorOutcome"
  assume "sandbox_reconcile c prior s = (r, t)"
  then show "t = s" by (simp add: sandbox_reconcile_def sandbox_effect_def bindE_def getE_def returnE_def)
next
  fix c prior s out t
  assume "sandbox_reconcile c prior s = (Inr out, t)"
  then show "co_status out = (if key_effect s c = None then UNKNOWN else SUCCEEDED)"
    by (auto simp: sandbox_reconcile_def sandbox_effect_def bindE_def getE_def returnE_def key_effect_def
        outcome_succeeded_def outcome_unknown_def split: option.splits)
next
  fix s c e
  assume "key_effect s c = Some e"
  then show "\<exists>out. sandbox_dispatch digest c s = (Inr out, s) \<and> co_status out = SUCCEEDED"
    by (simp add: dispatch_known outcome_succeeded_def)
qed

definition order_refund :: "'z bworld_scheme \<Rightarrow> ActionCommand \<Rightarrow> row option" where
  "order_refund s c = (case text_param (cmd_parameters c) ''order_id'' of
      Inl _ \<Rightarrow> None
    | Inr oid \<Rightarrow> select_one (\<lambda>r. cell r ''order_id'' = JStr oid) (biz s ''refunds''))"

lemma select_one_extends: "select_one p xs = Some x \<Longrightarrow> select_one p (xs @ ys) = Some x"
  by (induction ys rule: rev_induct) (simp_all add: select_one_append flip: append_assoc)

lemma order_refund_grow: "refunds_grow s t \<Longrightarrow> order_refund s d = Some e \<Longrightarrow> order_refund t d = Some e"
  by (auto simp: order_refund_def refunds_grow_def select_one_extends split: sum.splits)

lemma refund_dispatch_parts:
  assumes "refund_dispatch py h c s = (r, t)"
  obtains (settled) out where "refund_check py c s = (Inr (Inl out), s)" "r = Inr out" "t = s"
  | (raised) e where "r = Inl e" "t = s"
  | (recorded) oid order where "text_param (cmd_parameters c) ''order_id'' = Inr oid" "cell order ''order_id'' = JStr oid"
      "refund_record h c order s = (r, t)"
proof -
  obtain q where q: "refund_check py c s = (q, s)" using refund_check_read [of py c s] by (cases "refund_check py c s") auto
  show ?thesis
  proof (cases q)
    case (Inl e)
    then show ?thesis using assms q by (intro raised [of e]) (auto simp: refund_dispatch_def bindE_def)
  next
    case (Inr x)
    show ?thesis
    proof (cases x)
      case (Inl out)
      then show ?thesis using assms q Inr by (intro settled [of out]) (auto simp: refund_dispatch_def bindE_def returnE_def)
    next
      case (Inr order)
      then have "refund_check py c s = (Inr (Inr order), s)" using q \<open>q = Inr x\<close> by simp
      moreover from refund_check_pays [OF this] obtain oid where "payable py c s oid order" "cell order ''order_id'' = JStr oid" by blast
      ultimately show ?thesis using assms by (intro recorded [of oid order]) (auto simp: refund_dispatch_def bindE_def payable_def)
    qed
  qed
qed

lemma refund_check_settles:
  assumes "refund_check py c s = (Inr (Inl out), t)"
  shows "co_status out = FAILED \<or> co_status out = SUCCEEDED \<and> order_refund s c \<noteq> None"
proof -
  obtain oid where "text_param (cmd_parameters c) ''order_id'' = Inr oid"
    using assms by (auto simp: refund_check_def bindE_Inr liftE_def Let_def)
  then show ?thesis using assms order_get_by_id_found [of oid s]
    by (auto simp: refund_check_def bindE_Inr liftE_def Let_def returnE_def refund_get_by_order_eq order_refund_def
        outcome_failed_def outcome_succeeded_def split: option.splits if_splits)
qed

lemma refund_record_effect:
  assumes "refund_record h c order s = (Inr out, t)" "text_param (cmd_parameters c) ''order_id'' = Inr oid"
    "cell order ''order_id'' = JStr oid"
  shows "co_status out = SUCCEEDED \<and> order_refund t c \<noteq> None"
  using assms by (auto simp: refund_record_eq Let_def refund_row_cells order_refund_def select_one_None outcome_succeeded_def
      split: option.splits if_splits)

interpretation refunds: action_provider "refund_dispatch py h" refund_reconcile order_refund
proof
  fix c d s t e and r :: "exn + ConnectorOutcome"
  assume "refund_dispatch py h c s = (r, t)" "order_refund s d = Some e"
  then show "order_refund t d = Some e"
    using order_refund_grow refunds_rel.keepsD [OF refund_ops_grow(3)] by blast
next
  fix c s out t
  assume "refund_dispatch py h c s = (Inr out, t)" "co_status out = SUCCEEDED"
  then show "order_refund t c \<noteq> None"
  proof (cases rule: refund_dispatch_parts)
    case (settled out')
    then show ?thesis using refund_check_settles \<open>co_status out = SUCCEEDED\<close> by fastforce
  next
    case (recorded oid order)
    then show ?thesis using refund_record_effect by blast
  qed simp
next
  fix c s out t d
  assume run: "refund_dispatch py h c s = (Inr out, t)" "co_status out = FAILED"
  from run(1) show "order_refund t d = order_refund s d"
  proof (cases rule: refund_dispatch_parts)
    case (recorded oid order)
    then show ?thesis using refund_record_effect run(2) by fastforce
  qed simp_all
next
  fix c prior s t and r :: "exn + ConnectorOutcome"
  assume "refund_reconcile c prior s = (r, t)"
  then show "t = s" by (auto simp: refund_reconcile_def bindE_def liftE_def returnE_def refund_get_by_order_eq split: sum.splits)
next
  fix c prior s out t
  assume "refund_reconcile c prior s = (Inr out, t)"
  then show "co_status out = (if order_refund s c = None then UNKNOWN else SUCCEEDED)"
    by (auto simp: refund_reconcile_def bindE_Inr liftE_def returnE_def refund_get_by_order_eq order_refund_def
        outcome_succeeded_def outcome_unknown_def split: option.splits)
qed

interpretation disabled: action_provider disabled_dispatch disabled_reconcile "\<lambda>_ _. None"
  by unfold_locales (auto simp: disabled_dispatch_def disabled_reconcile_def returnE_def outcome_failed_def outcome_unknown_def)

section \<open>The sandbox tables\<close>

text \<open>The keys of a value at every depth.\<close>

fun json_keys :: "json \<Rightarrow> string list"
  and item_keys :: "(string \<times> json) list \<Rightarrow> string list"
  and element_keys :: "json list \<Rightarrow> string list" where
  "json_keys (JObj d) = item_keys d"
| "json_keys (JList xs) = element_keys xs"
| "json_keys _ = []"
| "item_keys [] = []"
| "item_keys ((k, v) # d) = k # json_keys v @ item_keys d"
| "element_keys [] = []"
| "element_keys (x # xs) = json_keys x @ element_keys xs"

lemma sensitive_paths_nil:
  "sensitive_paths p j = [] \<longleftrightarrow> (\<forall>k\<in>set (json_keys j). \<not> sensitive_key k)"
  "sensitive_items p d = [] \<longleftrightarrow> (\<forall>k\<in>set (item_keys d). \<not> sensitive_key k)"
  "sensitive_elements p i xs = [] \<longleftrightarrow> (\<forall>k\<in>set (element_keys xs). \<not> sensitive_key k)"
  by (induction p j and p d and p i xs rule: sensitive_paths_sensitive_items_sensitive_elements.induct)
    (auto simp: Let_def)

definition harmless :: "pdict \<Rightarrow> bool" where
  "harmless d \<longleftrightarrow> (\<forall>k\<in>set (json_keys (JObj d)). \<not> sensitive_key k)"

lemma reject_sensitive_Inr: "reject_sensitive m d = Inr u \<longleftrightarrow> harmless d"
  by (simp add: reject_sensitive_def harmless_def Let_def sensitive_paths_nil)

text \<open>One statement of any adapter, or a reading of the clock.\<close>

inductive sandbox_step :: "(string \<Rightarrow> string) \<Rightarrow> 'z sbx_scheme \<Rightarrow> 'z sbx_scheme \<Rightarrow> bool" for digest where
  receipt: "record_receipt r s = (x, t) \<Longrightarrow> sandbox_step digest s t"
| chat: "chat_send h iso_text m s = (x, t) \<Longrightarrow> sandbox_step digest s t"
| resource: "put_resource rt ri d s = (x, t) \<Longrightarrow> sandbox_step digest s t"
| scenario: "set_scenario k sc s = (x, t) \<Longrightarrow> sandbox_step digest s t"
| commit: "sandbox_commit digest c s = (x, t) \<Longrightarrow> sandbox_step digest s t"
| enqueue: "handoff_enqueue h q s = (x, t) \<Longrightarrow> sandbox_step digest s t"
| ticket: "handoff_set_status tid st s = (x, t) \<Longrightarrow> sandbox_step digest s t"
| clock: "sandbox_step digest s (s\<lparr>clock_idx := n\<rparr>)"

definition sandbox_ok :: "'z sbx_scheme \<Rightarrow> bool" where
  "sandbox_ok s \<longleftrightarrow> distinct (map ef_idempotency_key (action_effects s)) \<and>
     distinct (map ef_provider_action_id (action_effects s)) \<and>
     distinct (map receipt_key (delivery_receipts s)) \<and>
     distinct (map (\<lambda>r. (rr_resource_type r, rr_resource_id r)) (authoritative_resources s)) \<and>
     distinct (map tk_handoff_id (handoff_tickets s)) \<and> distinct (map tk_provider_ticket_id (handoff_tickets s)) \<and>
     (\<forall>r\<in>set (authoritative_resources s). harmless (rr_payload r) \<and> 1 \<le> rr_version r) \<and>
     (\<forall>r\<in>set (delivery_receipts s). harmless (dr_details r))"

lemma record_receipt_ok: "record_receipt r s = (x, t) \<Longrightarrow> sandbox_ok s \<Longrightarrow> sandbox_ok t \<and> action_effects t = action_effects s"
  by (auto simp: record_receipt_def bindE_def liftE_def modifyE_def returnE_def reject_sensitive_Inr sandbox_ok_def
      distinct_map_filter split: sum.splits)

lemma upsert_resource_ok:
  assumes "harmless d"
    and "distinct (map (\<lambda>r. (rr_resource_type r, rr_resource_id r)) rows) \<and> (\<forall>r\<in>set rows. harmless (rr_payload r) \<and> 1 \<le> rr_version r)"
  shows "distinct (map (\<lambda>r. (rr_resource_type r, rr_resource_id r)) (upsert_resource rt ri d now rows)) \<and>
    (\<forall>r\<in>set (upsert_resource rt ri d now rows). harmless (rr_payload r) \<and> 1 \<le> rr_version r)"
proof (cases "find_resource rt ri rows")
  case None
  then have "\<forall>r\<in>set rows. \<not> (rr_resource_type r = rt \<and> rr_resource_id r = ri)"
    by (auto simp: find_resource_def filter_empty_conv split: list.splits)
  then show ?thesis using assms None by (auto simp: upsert_resource_def)
next
  case (Some x)
  have keys: "map (\<lambda>r. (rr_resource_type r, rr_resource_id r)) (upsert_resource rt ri d now rows) =
      map (\<lambda>r. (rr_resource_type r, rr_resource_id r)) rows"
    using Some by (auto simp: upsert_resource_def)
  have "\<forall>r\<in>set (upsert_resource rt ri d now rows). harmless (rr_payload r) \<and> 1 \<le> rr_version r"
    using assms Some by (auto simp: upsert_resource_def)
  then show ?thesis using assms unfolding keys by blast
qed

lemma put_resource_ok: "put_resource rt ri d s = (x, t) \<Longrightarrow> sandbox_ok s \<Longrightarrow> sandbox_ok t \<and> action_effects t = action_effects s"
  using upsert_resource_ok [of d "authoritative_resources s" rt ri]
  by (auto simp: put_resource_def sandbox_get_resource_def bindE_def liftE_def modifyE_def now_op_def getE_def raiseE_def returnE_def
      reject_sensitive_Inr sandbox_ok_def split: sum.splits option.splits)

lemma insert_effect_distinct:
  "distinct (map ef_idempotency_key rows) \<and> distinct (map ef_provider_action_id rows) \<Longrightarrow>
   distinct (map ef_idempotency_key (insert_effect e rows)) \<and> distinct (map ef_provider_action_id (insert_effect e rows))"
  by (auto simp: insert_effect_def list_ex_iff)

lemma insert_ticket_distinct:
  "distinct (map tk_handoff_id rows) \<and> distinct (map tk_provider_ticket_id rows) \<Longrightarrow>
   distinct (map tk_handoff_id (insert_ticket e rows)) \<and> distinct (map tk_provider_ticket_id (insert_ticket e rows))"
  by (auto simp: insert_ticket_def list_ex_iff)

lemma commit_ok:
  assumes "sandbox_commit digest c s = (x, t)" "sandbox_ok s"
  shows "sandbox_ok t \<and> (\<exists>new. action_effects t = action_effects s @ new)"
proof -
  obtain e where e: "action_effects t = insert_effect e (action_effects s)" using commit_cases [OF assms(1)] by blast
  have "delivery_receipts t = delivery_receipts s" "authoritative_resources t = authoritative_resources s"
    "handoff_tickets t = handoff_tickets s"
    using assms(1) by (auto simp: sandbox_commit_def sandbox_effect_def bindE_def now_op_def modifyE_def getE_def raiseE_def returnE_def
        split: option.splits)
  then show ?thesis using assms(2) e insert_effect_distinct [of "action_effects s" e]
    by (auto simp: sandbox_ok_def insert_effect_def)
qed

lemma status_reads: "handoff_status_of tid s = (x, t) \<Longrightarrow> t = s"
  by (auto simp: handoff_status_of_def bindE_def getE_def raiseE_def returnE_def split: option.splits)

lemma enqueue_tables:
  assumes "handoff_enqueue h q s = (x, t)"
  shows "\<exists>now. t = s\<lparr>clock_idx := Suc (clock_idx s), handoff_tickets := insert_ticket
       \<lparr>tk_provider_ticket_id = ticket_id_of h (hr_handoff_id q), tk_handoff_id = hr_handoff_id q, tk_request = q,
        tk_status = ''queued'', tk_updated_at = now\<rparr> (handoff_tickets s)\<rparr>"
  using assms by (auto simp: handoff_enqueue_def Let_def bindE_def now_op_def modifyE_def dest!: status_reads)

lemma enqueue_answers:
  assumes "handoff_enqueue h q s = (x, t)"
  shows "x = fst (handoff_status_of (ticket_id_of h (hr_handoff_id q)) t)"
proof -
  obtain u where "handoff_status_of (ticket_id_of h (hr_handoff_id q)) u = (x, t)"
    using assms by (simp add: handoff_enqueue_def Let_def bindE_def now_op_def modifyE_def)
  with status_reads [OF this] show ?thesis by simp
qed

lemma set_status_tables:
  assumes "handoff_set_status tid st s = (x, t)"
  shows "\<exists>now. t = s\<lparr>clock_idx := Suc (clock_idx s), handoff_tickets := map (\<lambda>k. if tk_provider_ticket_id k = tid
       then k\<lparr>tk_status := st, tk_updated_at := now\<rparr> else k) (handoff_tickets s)\<rparr>"
  using assms by (auto simp: handoff_set_status_def bindE_def now_op_def getE_def modifyE_def raise_if_def raiseE_def returnE_def
      dest!: status_reads split: if_splits)

lemma set_status_keys:
  "map tk_handoff_id (map (\<lambda>k. if tk_provider_ticket_id k = tid then k\<lparr>tk_status := st, tk_updated_at := now\<rparr> else k) ks) =
     map tk_handoff_id ks"
  "map tk_provider_ticket_id (map (\<lambda>k. if tk_provider_ticket_id k = tid then k\<lparr>tk_status := st, tk_updated_at := now\<rparr> else k) ks) =
     map tk_provider_ticket_id ks"
  by auto

lemma chat_send_ok: "chat_send h f m s = (x, t) \<Longrightarrow> sandbox_ok s \<Longrightarrow> sandbox_ok t \<and> action_effects t = action_effects s"
  by (auto simp: chat_send_def bindE_def now_op_def liftE_def split: sum.splits dest!: record_receipt_ok)
    (auto simp: sandbox_ok_def)

lemma sandbox_step_ok:
  assumes "sandbox_step digest s t" "sandbox_ok s"
  shows "sandbox_ok t \<and> (\<exists>new. action_effects t = action_effects s @ new)"
  using assms(1)
proof cases
  case (enqueue h q x)
  from enqueue_tables [OF this] show ?thesis using assms(2) insert_ticket_distinct [of "handoff_tickets s"]
    by (auto simp: sandbox_ok_def)
next
  case (ticket tid st x)
  from set_status_tables [OF this] obtain now where t: "t = s\<lparr>clock_idx := Suc (clock_idx s), handoff_tickets :=
      map (\<lambda>k. if tk_provider_ticket_id k = tid then k\<lparr>tk_status := st, tk_updated_at := now\<rparr> else k) (handoff_tickets s)\<rparr>" ..
  have "map tk_handoff_id (handoff_tickets t) = map tk_handoff_id (handoff_tickets s)"
    "map tk_provider_ticket_id (handoff_tickets t) = map tk_provider_ticket_id (handoff_tickets s)"
    "action_effects t = action_effects s" "delivery_receipts t = delivery_receipts s"
    "authoritative_resources t = authoritative_resources s"
    unfolding t by (auto simp: set_status_keys)
  then show ?thesis using assms(2) unfolding sandbox_ok_def by simp
next
  case (scenario k sc x)
  then show ?thesis using assms(2) by (auto simp: set_scenario_def modifyE_def sandbox_ok_def)
next
  case (clock n)
  then show ?thesis using assms(2) by (simp add: sandbox_ok_def)
qed (use assms(2) record_receipt_ok chat_send_ok put_resource_ok commit_ok in fastforce)+

section \<open>Properties\<close>

text \<open>C12: The answer to an ambiguous dispatch. Whatever a dispatch to the action sandbox reported, and
  whatever further dispatches followed, reconciling reads only, answers success exactly when the
  effect is on record and unknown otherwise, and never loses a success that was reported; a
  reported failure had no effect; and asked again for a command that took effect, the sandbox adds
  nothing.\<close>

theorem sandbox_reconcile_truth:
  assumes "sandbox_dispatch digest c s = (r, t)"
    and "sandbox_reconcile c prior (attempts (sandbox_dispatch digest) cs t) = (Inr out, u)"
  shows "u = attempts (sandbox_dispatch digest) cs t \<and>
    co_status out = (if key_effect u c = None then UNKNOWN else SUCCEEDED) \<and>
    (\<forall>answer. r = Inr answer \<longrightarrow>
      (co_status answer = SUCCEEDED \<longrightarrow> co_status out = SUCCEEDED) \<and>
      (co_status answer = FAILED \<longrightarrow> key_effect t c = key_effect s c)) \<and>
    (key_effect t c \<noteq> None \<longrightarrow> attempts (sandbox_dispatch digest) (replicate n c) t = t)"
proof (intro conjI allI impI)
  show u: "u = attempts (sandbox_dispatch digest) cs t" by (rule sandbox.resolved(1) [OF assms])
  show "co_status out = (if key_effect u c = None then UNKNOWN else SUCCEEDED)"
    using sandbox.resolved(2) [OF assms] u by simp
  assume "key_effect t c \<noteq> None"
  then show "attempts (sandbox_dispatch digest) (replicate n c) t = t" by (rule sandbox.repeated_dispatch [OF assms(1)])
qed (use assms sandbox.resolved(3) sandbox.failed_no_effect sandbox.repeated_dispatch in blast)+

text \<open>The same of the refund connector: reconciling a refund answers success exactly when the refund
  of the order is on record, after any dispatches whatever they reported, and a refund reported as
  failed left none.\<close>

theorem refund_reconcile_truth:
  assumes "refund_dispatch py h c s = (r, t)"
    and "refund_reconcile c prior (attempts (refund_dispatch py h) cs t) = (Inr out, u)"
  shows "u = attempts (refund_dispatch py h) cs t \<and>
    co_status out = (if order_refund u c = None then UNKNOWN else SUCCEEDED) \<and>
    (\<forall>answer. r = Inr answer \<longrightarrow>
      (co_status answer = SUCCEEDED \<longrightarrow> co_status out = SUCCEEDED) \<and>
      (co_status answer = FAILED \<longrightarrow> order_refund t c = order_refund s c))"
proof (intro conjI allI impI)
  show u: "u = attempts (refund_dispatch py h) cs t" by (rule refunds.resolved(1) [OF assms])
  show "co_status out = (if order_refund u c = None then UNKNOWN else SUCCEEDED)"
    using refunds.resolved(2) [OF assms] u by simp
qed (use assms refunds.resolved(3) refunds.failed_no_effect in blast)+

text \<open>The tables of the sandbox stay sound however its adapters interleave: one effect per
  idempotency key and per provider identifier, one row per receipt, resource and ticket; no stored
  resource or receipt holds a sensitive field at any depth; and a committed effect is never
  changed, moved or removed.\<close>

theorem sandbox_invariant:
  assumes "(sandbox_step digest)\<^sup>*\<^sup>* s t" "sandbox_ok s"
  shows "sandbox_ok t \<and> (\<exists>new. action_effects t = action_effects s @ new)"
  using assms
proof (induction rule: rtranclp_induct)
  case (step u v)
  then show ?case using sandbox_step_ok [of digest u v] by auto
qed simp

text \<open>Enqueuing a handoff is idempotent: while no other handoff has the same ticket identifier, the
  second request adds nothing and answers the status the ticket has reached by then.\<close>

theorem handoff_enqueue_idempotent:
  assumes "\<forall>k\<in>set (handoff_tickets s). tk_provider_ticket_id k = ticket_id_of h (tk_handoff_id k)"
    and inj: "\<And>x. h x = h (hr_handoff_id q) \<Longrightarrow> x = hr_handoff_id q"
    and first: "handoff_enqueue h q s = (r, t)"
    and moved: "handoff_set_status (ticket_id_of h (hr_handoff_id q)) st t = (r2, u)"
    and again: "handoff_enqueue h q u = (r3, v)"
  shows "(\<exists>receipt. r3 = Inr receipt \<and> hp_handoff_id receipt = hr_handoff_id q \<and> hp_status receipt = st) \<and>
    handoff_tickets v = handoff_tickets u \<and> map tk_handoff_id (handoff_tickets u) = map tk_handoff_id (handoff_tickets t)"
proof -
  let ?tid = "ticket_id_of h (hr_handoff_id q)"
  obtain n1 where t: "handoff_tickets t = insert_ticket \<lparr>tk_provider_ticket_id = ?tid, tk_handoff_id = hr_handoff_id q,
      tk_request = q, tk_status = ''queued'', tk_updated_at = n1\<rparr> (handoff_tickets s)"
    using enqueue_tables [OF first] by auto
  have tids: "\<forall>k\<in>set (handoff_tickets t). tk_provider_ticket_id k = ?tid \<longleftrightarrow> tk_handoff_id k = hr_handoff_id q"
    using assms(1) inj by (auto simp: t insert_ticket_def ticket_id_of_def)
  have some: "\<exists>k\<in>set (handoff_tickets t). tk_provider_ticket_id k = ?tid"
    using assms(1) by (auto simp: t insert_ticket_def ticket_id_of_def list_ex_iff) (metis (no_types))
  obtain n2 where u: "handoff_tickets u = map (\<lambda>k. if tk_provider_ticket_id k = ?tid
      then k\<lparr>tk_status := st, tk_updated_at := n2\<rparr> else k) (handoff_tickets t)"
    using set_status_tables [OF moved] by fastforce
  have "?tid \<in> set (map tk_provider_ticket_id (handoff_tickets u))"
    using some unfolding u set_status_keys(2) by force
  then have su: "\<exists>k\<in>set (handoff_tickets u). tk_provider_ticket_id k = ?tid" by auto
  have fu: "\<forall>k\<in>set (handoff_tickets u). tk_provider_ticket_id k = ?tid \<longrightarrow> tk_handoff_id k = hr_handoff_id q \<and> tk_status k = st"
    using tids by (auto simp: u)
  have v: "handoff_tickets v = handoff_tickets u"
    using su enqueue_tables [OF again] by (auto simp: insert_ticket_def list_ex_iff)
  obtain k where k: "find_ticket ?tid (handoff_tickets u) = Some k" "tk_handoff_id k = hr_handoff_id q" "tk_status k = st"
    using su fu by (cases "filter (\<lambda>t. tk_provider_ticket_id t = ?tid) (handoff_tickets u)")
      (auto simp: find_ticket_def filter_empty_conv filter_eq_Cons_iff)
  have "r3 = fst (handoff_status_of ?tid v)"
    by (rule enqueue_answers [OF again])
  then have "\<exists>receipt. r3 = Inr receipt \<and> hp_handoff_id receipt = hr_handoff_id q \<and> hp_status receipt = st"
    using k by (simp add: handoff_status_of_def bindE_def getE_def returnE_def v)
  moreover have "map tk_handoff_id (handoff_tickets u) = map tk_handoff_id (handoff_tickets t)"
    unfolding u by (rule set_status_keys(1))
  ultimately show ?thesis using v by blast
qed

section \<open>Examples\<close>

definition demo_sandbox :: sbx where
  "demo_sandbox = \<lparr>clock_src = (\<lambda>n. int n), clock_idx = 0, uuid_src = (\<lambda>_. []), uuid_idx = 0, delivery_receipts = [],
     authoritative_resources = [], action_scenarios = [(''K1'', TIMEOUT_AFTER_COMMIT)], action_effects = [], handoff_tickets = []\<rparr>"

definition demo_sandbox_command :: ActionCommand where
  "demo_sandbox_command = demo_command\<lparr>cmd_idempotency_key := ''K1''\<rparr>"

definition demo_lost :: "(exn + ConnectorOutcome) \<times> sbx" where
  "demo_lost = sandbox_dispatch (\<lambda>k. k) demo_sandbox_command demo_sandbox"

definition demo_found :: "(exn + ConnectorOutcome) \<times> sbx" where
  "demo_found = sandbox_reconcile demo_sandbox_command None (attempts (sandbox_dispatch (\<lambda>k. k)) [] (snd demo_lost))"

lemma demo_sandbox_facts:
  "map_sum (\<lambda>e. e) co_status (fst demo_lost) = Inr UNKNOWN"
  "map_sum (\<lambda>e. e) co_status (fst demo_found) = Inr SUCCEEDED"
  "map ef_idempotency_key (action_effects (snd demo_found)) = [''K1'']"
  "key_effect (snd demo_lost) demo_sandbox_command \<noteq> None"
  "sandbox_ok demo_sandbox"
  by code_simp+

theorem sandbox_reconcile_truth_witness:
  "attempts (sandbox_dispatch (\<lambda>k. k)) (replicate 3 demo_sandbox_command) (snd demo_lost) = snd demo_lost"
proof -
  obtain out where "fst demo_found = Inr out" using demo_sandbox_facts(2) by (cases "fst demo_found") auto
  then have "demo_found = (Inr out, snd demo_found)" by (metis prod.collapse)
  then show ?thesis
    using sandbox_reconcile_truth [of "\<lambda>k. k" demo_sandbox_command demo_sandbox "fst demo_lost" "snd demo_lost" None "[]" out "snd demo_found"]
      demo_sandbox_facts(4) by (simp add: demo_lost_def demo_found_def)
qed

theorem refund_reconcile_truth_witness:
  "\<exists>out u. refund_reconcile demo_refund_command None (snd demo_paid) = (Inr out, u) \<and> co_status out = SUCCEEDED"
proof -
  have run: "refund_dispatch demo_py (\<lambda>k. k) demo_refund_command demo_bworld = (fst demo_paid, snd demo_paid)"
    by (simp add: demo_paid_def)
  obtain answer where a: "fst demo_paid = Inr answer" "co_status answer = SUCCEEDED"
    by (rule that [of "projr (fst demo_paid)"]) code_simp+
  have "text_param (cmd_parameters demo_refund_command) ''order_id'' = Inr ''O1''"
    by (simp add: text_param_def demo_refund_command_def dict_get_def)
  then obtain out u where rec: "refund_reconcile demo_refund_command None
      (attempts (refund_dispatch demo_py (\<lambda>k. k)) [] (snd demo_paid)) = (Inr out, u)"
    by (simp add: refund_reconcile_def bindE_def liftE_def returnE_def refund_get_by_order_eq)
  from refund_reconcile_truth [OF run rec] a have "co_status out = SUCCEEDED" by blast
  then show ?thesis using rec by (auto simp: attempts_def)
qed

theorem sandbox_invariant_witness: "sandbox_ok (snd (sandbox_commit (\<lambda>k. k) demo_sandbox_command demo_sandbox))"
proof -
  have "(sandbox_step (\<lambda>k. k))\<^sup>*\<^sup>* demo_sandbox (snd (sandbox_commit (\<lambda>k. k) demo_sandbox_command demo_sandbox))"
    by (rule r_into_rtranclp, rule sandbox_step.commit [OF prod.collapse [symmetric]])
  from sandbox_invariant [OF this demo_sandbox_facts(5)] show ?thesis by blast
qed

definition demo_handoff :: HandoffRequest where
  "demo_handoff = \<lparr>hr_handoff_id = ''H1'', hr_conversation_id = ''V1'', hr_case_id = ''C1'', hr_queue = ''q'', hr_priority = ''normal'', hr_context = []\<rparr>"

definition demo_queued :: "(exn + HandoffReceipt) \<times> sbx" where
  "demo_queued = handoff_enqueue (\<lambda>k. k) demo_handoff demo_sandbox"

definition demo_accepted :: "(exn + HandoffReceipt) \<times> sbx" where
  "demo_accepted = handoff_set_status ''TKT-H1'' ''accepted'' (snd demo_queued)"

theorem handoff_enqueue_idempotent_witness:
  "\<exists>receipt. fst (handoff_enqueue (\<lambda>k. k) demo_handoff (snd demo_accepted)) = Inr receipt \<and> hp_status receipt = ''accepted''"
proof -
  have tid: "ticket_id_of (\<lambda>k. k) (hr_handoff_id demo_handoff) = ''TKT-H1''" by (simp add: ticket_id_of_def demo_handoff_def)
  have "\<forall>k\<in>set (handoff_tickets demo_sandbox). tk_provider_ticket_id k = ticket_id_of (\<lambda>k. k) (tk_handoff_id k)"
    by (simp add: demo_sandbox_def)
  from handoff_enqueue_idempotent [OF this, of demo_handoff "fst demo_queued" "snd demo_queued" "''accepted''"
      "fst demo_accepted" "snd demo_accepted", OF _ _ _ prod.collapse [symmetric], unfolded tid]
  show ?thesis by (auto simp: demo_queued_def demo_accepted_def)
qed

end
