(* ===== verification/Urls.thy ===== *)
theory Urls
  imports Prelude
begin

text \<open>
  \<open>urllib.parse.urlparse\<close> and \<open>urljoin\<close> as far as the connector bindings use them, on ASCII text: the
  leading control characters are dropped and tabs and line breaks removed before a URL is split. A
  host in brackets is checked by the parameter \<open>ip_literal\<close>, which stands for the \<open>ipaddress\<close> module.
\<close>

section \<open>Text\<close>

definition code_of :: "char \<Rightarrow> nat" where
  "code_of c = of_char c"

fun upto_char :: "char \<Rightarrow> string \<Rightarrow> (string \<times> string) option" where
  "upto_char d [] = None"
| "upto_char d (c # cs) = (if c = d then Some ([], cs) else map_option (\<lambda>(a, b). (c # a, b)) (upto_char d cs))"

text \<open>\<open>s.split(d)\<close> for one character.\<close>

fun split_char :: "char \<Rightarrow> string \<Rightarrow> string list" where
  "split_char d [] = [[]]"
| "split_char d (c # cs) = (if c = d then [] # split_char d cs
     else (case split_char d cs of [] \<Rightarrow> [[c]] | w # ws \<Rightarrow> (c # w) # ws))"

definition lstrip_char :: "char \<Rightarrow> string \<Rightarrow> string" where
  "lstrip_char d s = dropWhile (\<lambda>c. c = d) s"

definition rstrip_char :: "char \<Rightarrow> string \<Rightarrow> string" where
  "rstrip_char d s = rev (dropWhile (\<lambda>c. c = d) (rev s))"

definition is_alpha :: "char \<Rightarrow> bool" where
  "is_alpha c = (let n = code_of c in 65 \<le> n \<and> n \<le> 90 \<or> 97 \<le> n \<and> n \<le> 122)"

definition is_alnum :: "char \<Rightarrow> bool" where
  "is_alnum c = (is_alpha c \<or> 48 \<le> code_of c \<and> code_of c \<le> 57)"

section \<open>Splitting\<close>

definition clean_url :: "string \<Rightarrow> string" where
  "clean_url url = filter (\<lambda>c. code_of c \<notin> {9, 10, 13}) (dropWhile (\<lambda>c. code_of c \<le> 32) url)"

definition scheme_char :: "char \<Rightarrow> bool" where
  "scheme_char c = (is_alnum c \<or> c = CHR ''+'' \<or> c = CHR ''-'' \<or> c = CHR ''.'')"

definition split_scheme :: "string \<Rightarrow> string \<Rightarrow> string \<times> string" where
  "split_scheme url dflt = (case upto_char CHR '':'' url of
      Some (a, rest) \<Rightarrow> if a \<noteq> [] \<and> is_alpha (hd a) \<and> list_all scheme_char a then (lower a, rest) else (dflt, url)
    | None \<Rightarrow> (dflt, url))"

definition netloc_end :: "char \<Rightarrow> bool" where
  "netloc_end c = (c = CHR ''/'' \<or> c = CHR ''?'' \<or> c = CHR ''#'')"

definition split_netloc :: "string \<Rightarrow> string \<times> string" where
  "split_netloc url = (if starts_with ''//'' url
     then (takeWhile (\<lambda>c. \<not> netloc_end c) (drop 2 url), dropWhile (\<lambda>c. \<not> netloc_end c) (drop 2 url)) else ([], url))"

record url_parts =
  up_scheme :: string
  up_netloc :: string
  up_path :: string
  up_params :: string
  up_query :: string
  up_fragment :: string

definition split_at :: "char \<Rightarrow> string \<Rightarrow> string \<times> string" where
  "split_at d s = (case upto_char d s of None \<Rightarrow> (s, []) | Some p \<Rightarrow> p)"

text \<open>The text after the last slash, where parameters may follow a semicolon.\<close>

definition last_segment :: "string \<Rightarrow> string" where
  "last_segment s = rev (takeWhile (\<lambda>c. c \<noteq> CHR ''/'') (rev s))"

definition split_params :: "string \<Rightarrow> string \<times> string" where
  "split_params s = (let seg = last_segment s; front = take (length s - length seg) s in
     case upto_char CHR '';'' seg of None \<Rightarrow> (s, []) | Some (a, b) \<Rightarrow> (front @ a, b))"

definition bracket_error :: "(string \<Rightarrow> bool) \<Rightarrow> string \<Rightarrow> bool" where
  "bracket_error ip_literal netloc =
     (let opens = CHR ''['' \<in> set netloc; closes = CHR '']'' \<in> set netloc in
      opens \<noteq> closes \<or> opens \<and> \<not> ip_literal netloc)"

definition hierarchical :: "string list" where
  "hierarchical = [[], ''http'', ''https'']"

definition urlparse :: "(string \<Rightarrow> bool) \<Rightarrow> string \<Rightarrow> string \<Rightarrow> exn + url_parts" where
  "urlparse ip_literal url dflt =
     (let (scheme, rest) = split_scheme (clean_url url) dflt;
          (netloc, rest1) = split_netloc rest;
          (rest2, fragment) = split_at CHR ''#'' rest1;
          (rest3, query) = split_at CHR ''?'' rest2;
          (path, params) = (if scheme \<in> set hierarchical then split_params rest3 else (rest3, [])) in
      if bracket_error ip_literal netloc then Inl (ValueError ''Invalid IPv6 URL'')
      else Inr \<lparr>up_scheme = scheme, up_netloc = netloc, up_path = path, up_params = params, up_query = query,
        up_fragment = fragment\<rparr>)"

text \<open>The host of a network location: after the last \<open>@\<close>, up to the port; lower case.\<close>

definition hostname :: "string \<Rightarrow> string option" where
  "hostname netloc =
     (let hostinfo = rev (takeWhile (\<lambda>c. c \<noteq> CHR ''@'') (rev netloc));
          host = (case upto_char CHR ''['' hostinfo of
              Some (_, bracketed) \<Rightarrow> fst (split_at CHR '']'' bracketed)
            | None \<Rightarrow> fst (split_at CHR '':'' hostinfo)) in
      if host = [] then None
      else Some (case upto_char (CHR 37) host of None \<Rightarrow> lower host | Some (a, zone) \<Rightarrow> lower a @ [CHR 37] @ zone))"

section \<open>Joining\<close>

definition urlunparse :: "url_parts \<Rightarrow> string" where
  "urlunparse u =
     (let path = up_path u @ (if up_params u \<noteq> [] then '';'' @ up_params u else []);
          located = (if up_netloc u \<noteq> []
            then ''//'' @ up_netloc u @ (if path \<noteq> [] \<and> \<not> starts_with ''/'' path then ''/'' else []) @ path else path) in
      (if up_scheme u \<noteq> [] then up_scheme u @ '':'' else []) @ located @
      (if up_query u \<noteq> [] then ''?'' @ up_query u else []) @
      (if up_fragment u \<noteq> [] then ''#'' @ up_fragment u else []))"

fun resolve_segments :: "string list \<Rightarrow> string list \<Rightarrow> string list" where
  "resolve_segments acc [] = acc"
| "resolve_segments acc (seg # segs) =
     resolve_segments (if seg = ''..'' then butlast acc else if seg = ''.'' then acc else acc @ [seg]) segs"

definition inner_nonempty :: "string list \<Rightarrow> string list" where
  "inner_nonempty segs = (case segs of
      [] \<Rightarrow> [] | [x] \<Rightarrow> [x]
    | x # xs \<Rightarrow> x # filter (\<lambda>w. w \<noteq> []) (butlast xs) @ [last xs])"

definition merge_paths :: "string \<Rightarrow> string \<Rightarrow> string" where
  "merge_paths bpath path =
     (let base_parts = split_char CHR ''/'' bpath;
          base = (if last base_parts \<noteq> [] then butlast base_parts else base_parts);
          segments = inner_nonempty (if starts_with ''/'' path then split_char CHR ''/'' path
            else base @ split_char CHR ''/'' path);
          resolved = resolve_segments [] segments @ (if last segments \<in> {''.'', ''..''} then [[]] else []);
          joined = join ''/'' resolved in
      if joined \<noteq> [] then joined else ''/'')"

definition join_parts :: "url_parts \<Rightarrow> url_parts \<Rightarrow> url_parts" where
  "join_parts b u =
     (if up_netloc u \<noteq> [] then u
      else if up_path u = [] \<and> up_params u = []
      then u\<lparr>up_netloc := up_netloc b, up_path := up_path b, up_params := up_params b,
             up_query := (if up_query u \<noteq> [] then up_query u else up_query b)\<rparr>
      else u\<lparr>up_netloc := up_netloc b, up_path := merge_paths (up_path b) (up_path u)\<rparr>)"

text \<open>Both are URLs of a hierarchical scheme here; a URL of another scheme is returned as it is.\<close>

definition urljoin :: "(string \<Rightarrow> bool) \<Rightarrow> string \<Rightarrow> string \<Rightarrow> exn + string" where
  "urljoin ip_literal base url =
     (if base = [] then Inr url else if url = [] then Inr base
      else andThen (urlparse ip_literal base []) (\<lambda>b.
      andThen (urlparse ip_literal url (up_scheme b)) (\<lambda>u.
      if up_scheme u \<noteq> up_scheme b \<or> up_scheme u \<notin> set hierarchical then Inr url
      else Inr (urlunparse (join_parts b u)))))"

end
