(* ===== verification/Connector_Registry.thy ===== *)
theory Connector_Registry
  imports Urls Bridge Web_Edge
begin

text \<open>
  The bindings from the closed action inventory to provider services (\<open>integrations/registry.py\<close>):
  their validation, the REST connector and the registry the gateway resolves connectors with
  (\<open>core/adapter_loading.py\<close> loads Python connectors). The HTTP client, the secret provider, the files,
  the SHA-256 of a file, the document parsers and the imports are parameters.
\<close>

section \<open>Bindings\<close>

datatype ActionTransport = TRANSPORT_SQLITE | TRANSPORT_REST | TRANSPORT_PYTHON | TRANSPORT_WEBSOCKET

record OpenApiDocument =
  oa_path :: string
  oa_sha256 :: string

record HttpOperation =
  ho_operation_id :: string
  ho_method :: string
  ho_path :: string
  ho_body :: "(string \<times> string) list"
  ho_query :: "(string \<times> string) list"

record HttpStatusMapping =
  hs_succeeded :: "int list"
  hs_accepted :: "int list"
  hs_failed :: "int list"

record RestActionBinding =
  rb_base_url :: string
  rb_allowed_hosts :: "string list"
  rb_timeout_seconds :: rat
  rb_idempotency_header :: string
  rb_secret_ref :: "string option"
  rb_auth_header :: string
  rb_auth_scheme :: string
  rb_openapi :: OpenApiDocument
  rb_execute :: HttpOperation
  rb_reconcile :: "HttpOperation option"
  rb_statuses :: HttpStatusMapping
  rb_provider_operation_id_pointer :: "string option"
  rb_response_fields :: "(string \<times> string) list"

record WebSocketMessageBinding =
  wm_message_type :: string
  wm_payload :: "(string \<times> string) list"

record WebSocketActionBinding =
  wb_url :: string
  wb_allowed_hosts :: "string list"
  wb_subprotocol :: "string option"
  wb_secret_ref :: "string option"
  wb_execute :: WebSocketMessageBinding
  wb_reconcile :: WebSocketMessageBinding
  wb_acknowledgement_type :: string
  wb_outcome_type :: string

text \<open>The discriminated union: each transport has its own fields.\<close>

datatype transport_binding =
    SQLiteActionBinding string
  | RestBinding RestActionBinding
  | PythonActionBinding string
  | WebSocketBinding WebSocketActionBinding

fun transport_of :: "transport_binding \<Rightarrow> ActionTransport" where
  "transport_of (SQLiteActionBinding _) = TRANSPORT_SQLITE"
| "transport_of (RestBinding _) = TRANSPORT_REST"
| "transport_of (PythonActionBinding _) = TRANSPORT_PYTHON"
| "transport_of (WebSocketBinding _) = TRANSPORT_WEBSOCKET"

record ActionConnectorBinding =
  ab_action_name :: string
  ab_binding_id :: string
  ab_binding_version :: string
  ab_contract_version :: string
  ab_enabled :: bool
  ab_transport :: transport_binding

record ActionRegistryConfig =
  rc_version :: int
  rc_bindings :: "ActionConnectorBinding list"

section \<open>Validation\<close>

definition is_hex :: "char \<Rightarrow> bool" where
  "is_hex c = (let n = code_of c in 48 \<le> n \<and> n \<le> 57 \<or> 65 \<le> n \<and> n \<le> 70 \<or> 97 \<le> n \<and> n \<le> 102)"

definition openapi_valid :: "OpenApiDocument \<Rightarrow> bool" where
  "openapi_valid d \<longleftrightarrow> length (oa_sha256 d) = 64 \<and> list_all is_hex (oa_sha256 d)"

definition require_relative_path :: "(string \<Rightarrow> bool) \<Rightarrow> string \<Rightarrow> bool" where
  "require_relative_path ip_literal value \<longleftrightarrow> starts_with ''/'' value \<and>
     (case urlparse ip_literal value [] of Inl _ \<Rightarrow> False | Inr u \<Rightarrow> up_scheme u = []) \<and> \<not> substring ''//'' value"

definition http_methods :: "string list" where
  "http_methods = [''GET'', ''POST'', ''PUT'', ''PATCH'', ''DELETE'']"

definition operation_valid :: "(string \<Rightarrow> bool) \<Rightarrow> HttpOperation \<Rightarrow> bool" where
  "operation_valid ip_literal op' \<longleftrightarrow> ho_operation_id op' \<noteq> [] \<and> ho_method op' \<in> set http_methods \<and>
     require_relative_path ip_literal (ho_path op')"

definition disjoint_lists :: "'a list \<Rightarrow> 'a list \<Rightarrow> bool" where
  "disjoint_lists xs ys \<longleftrightarrow> \<not> list_ex (\<lambda>x. x \<in> set ys) xs"

definition statuses_disjoint :: "HttpStatusMapping \<Rightarrow> bool" where
  "statuses_disjoint m \<longleftrightarrow> disjoint_lists (hs_succeeded m) (hs_accepted m) \<and>
     disjoint_lists (hs_succeeded m) (hs_failed m) \<and> disjoint_lists (hs_accepted m) (hs_failed m)"

definition binding_id_char :: "char \<Rightarrow> bool" where
  "binding_id_char c = (is_alnum c \<or> c \<in> set ''_.:-'')"

definition word_char :: "char \<Rightarrow> bool" where
  "word_char c = (is_alnum c \<or> c = CHR ''_'')"

text \<open>\<open>[A-Za-z_][\w.]*\<close>\<close>

definition dotted_name :: "string \<Rightarrow> bool" where
  "dotted_name s \<longleftrightarrow> s \<noteq> [] \<and> (is_alpha (hd s) \<or> hd s = CHR ''_'') \<and> list_all (\<lambda>c. word_char c \<or> c = CHR ''.'') s"

definition factory_valid :: "string \<Rightarrow> bool" where
  "factory_valid s = (case upto_char CHR '':'' s of None \<Rightarrow> False | Some (a, b) \<Rightarrow> dotted_name a \<and> dotted_name b)"

definition secret_ref_valid :: "string option \<Rightarrow> bool" where
  "secret_ref_valid ref = (case ref of None \<Rightarrow> True
     | Some s \<Rightarrow> s = [] \<or> starts_with ''env://'' s \<or> starts_with ''secret://'' s)"

definition origin_valid :: "(string \<Rightarrow> bool) \<Rightarrow> string list \<Rightarrow> string \<Rightarrow> string list \<Rightarrow> bool" where
  "origin_valid ip_literal schemes url allowed_hosts \<longleftrightarrow>
     (case urlparse ip_literal url [] of
        Inl _ \<Rightarrow> False
      | Inr u \<Rightarrow> up_scheme u \<in> set schemes \<and>
          (case hostname (up_netloc u) of None \<Rightarrow> False | Some h \<Rightarrow> h \<in> set allowed_hosts))"

definition validate_rest_contract :: "(string \<Rightarrow> bool) \<Rightarrow> RestActionBinding \<Rightarrow> bool" where
  "validate_rest_contract ip_literal b \<longleftrightarrow> rb_allowed_hosts b \<noteq> [] \<and>
     0 < rb_timeout_seconds b \<and> rb_timeout_seconds b \<le> 120 \<and>
     openapi_valid (rb_openapi b) \<and> operation_valid ip_literal (rb_execute b) \<and>
     (case rb_reconcile b of None \<Rightarrow> True | Some op' \<Rightarrow> operation_valid ip_literal op') \<and>
     statuses_disjoint (rb_statuses b) \<and>
     origin_valid ip_literal [''http'', ''https''] (rb_base_url b) (rb_allowed_hosts b) \<and>
     secret_ref_valid (rb_secret_ref b) \<and> (hs_accepted (rb_statuses b) \<noteq> [] \<longrightarrow> rb_reconcile b \<noteq> None)"

definition validate_ws_contract :: "(string \<Rightarrow> bool) \<Rightarrow> WebSocketActionBinding \<Rightarrow> bool" where
  "validate_ws_contract ip_literal b \<longleftrightarrow> wb_allowed_hosts b \<noteq> [] \<and>
     wm_message_type (wb_execute b) \<noteq> [] \<and> wm_message_type (wb_reconcile b) \<noteq> [] \<and>
     wb_acknowledgement_type b \<noteq> [] \<and> wb_outcome_type b \<noteq> [] \<and>
     origin_valid ip_literal [''ws'', ''wss''] (wb_url b) (wb_allowed_hosts b) \<and> secret_ref_valid (wb_secret_ref b)"

fun transport_valid :: "(string \<Rightarrow> bool) \<Rightarrow> transport_binding \<Rightarrow> bool" where
  "transport_valid ip_literal (SQLiteActionBinding url) = starts_with ''sqlite'' url"
| "transport_valid ip_literal (RestBinding b) = validate_rest_contract ip_literal b"
| "transport_valid ip_literal (PythonActionBinding factory) = factory_valid factory"
| "transport_valid ip_literal (WebSocketBinding b) = validate_ws_contract ip_literal b"

definition binding_valid :: "(string \<Rightarrow> bool) \<Rightarrow> ActionConnectorBinding \<Rightarrow> bool" where
  "binding_valid ip_literal b \<longleftrightarrow> ab_action_name b \<in> set (dict_keys ACTION_SPECIFICATIONS) \<and>
     ab_binding_id b \<noteq> [] \<and> list_all binding_id_char (ab_binding_id b) \<and>
     ab_binding_version b \<noteq> [] \<and> ab_contract_version b \<noteq> [] \<and> transport_valid ip_literal (ab_transport b)"

definition binding_identity :: "ActionConnectorBinding \<Rightarrow> string \<times> string" where
  "binding_identity b = (ab_binding_id b, ab_binding_version b)"

definition config_valid :: "(string \<Rightarrow> bool) \<Rightarrow> ActionRegistryConfig \<Rightarrow> bool" where
  "config_valid ip_literal c \<longleftrightarrow> 1 \<le> rc_version c \<and> list_all (binding_valid ip_literal) (rc_bindings c) \<and>
     distinct (map ab_action_name (filter ab_enabled (rc_bindings c))) \<and>
     distinct (map binding_identity (rc_bindings c))"

section \<open>Secrets and mappings\<close>

text \<open>\<open>os.getenv\<close> is a parameter.\<close>

definition environment_secret :: "(string \<Rightarrow> string option) \<Rightarrow> string \<Rightarrow> exn + string" where
  "environment_secret getenv reference =
     (if \<not> starts_with ''env://'' reference
      then Inl (ValueError ''The built-in secret provider supports only env:// references'')
      else let name = drop 6 reference in
        case getenv name of
          Some (c # cs) \<Rightarrow> Inr (c # cs)
        | _ \<Rightarrow> Inl (ValueError (''Required secret environment variable is not set: '' @ name)))"

definition removeprefix :: "string \<Rightarrow> string \<Rightarrow> string" where
  "removeprefix p s = (if starts_with p s then drop (length p) s else s)"

fun walk :: "string list \<Rightarrow> json \<Rightarrow> json option" where
  "walk [] value = Some value"
| "walk (part # parts) value = (case value of
      JObj d \<Rightarrow> (case dict_get d part of None \<Rightarrow> None | Some v \<Rightarrow> walk parts v) | _ \<Rightarrow> None)"

definition mapping_parts :: "string \<Rightarrow> string list" where
  "mapping_parts expression = split_char CHR ''.'' (removeprefix ''$.'' expression)"

definition source_roots :: "ActionCommand \<Rightarrow> pdict option \<Rightarrow> json" where
  "source_roots command prior = JObj
    [(''action'', JStr (cmd_action command)), (''case_id'', JStr (cmd_case_id command)),
     (''actor_id'', JStr (cmd_actor_id command)), (''idempotency_key'', JStr (cmd_idempotency_key command)),
     (''parameters'', JObj (cmd_parameters command)),
     (''prior'', JObj (case prior of None \<Rightarrow> [] | Some d \<Rightarrow> d))]"

definition mapping_source :: "ActionCommand \<Rightarrow> string \<Rightarrow> pdict option \<Rightarrow> exn + json" where
  "mapping_source command expression prior =
     (case walk (mapping_parts expression) (source_roots command prior) of
        None \<Rightarrow> Inl (ValueError (''Configured mapping source does not exist: '' @ expression))
      | Some v \<Rightarrow> Inr v)"

definition pointer :: "json \<Rightarrow> string option \<Rightarrow> json" where
  "pointer document p = (case p of
      Some (c # cs) \<Rightarrow> (case walk (mapping_parts (c # cs)) document of None \<Rightarrow> JNull | Some v \<Rightarrow> v)
    | _ \<Rightarrow> JNull)"

section \<open>The REST connector\<close>

record http_request =
  hq_method :: string
  hq_url :: string
  hq_headers :: "(string \<times> string) list"
  hq_params :: pdict
  hq_json :: "pdict option"
  hq_timeout :: rat

text \<open>What the client answers: a response with its status and its body as JSON (none when it is not
  JSON), or a timeout or network error by the name of its class; other exceptions are raised.\<close>

datatype http_answer = HttpResponse int "json option" | HttpFailure string

type_synonym 'p http_client = "http_request \<Rightarrow> (http_answer, 'p) op"

record 'p rest_env =
  re_client :: "'p http_client"
  re_secret :: "string \<Rightarrow> exn + string"
  re_ip_literal :: "string \<Rightarrow> bool"

fun mapped_body :: "ActionCommand \<Rightarrow> pdict option \<Rightarrow> (string \<times> string) list \<Rightarrow> exn + pdict" where
  "mapped_body command prior [] = Inr []"
| "mapped_body command prior ((target, source) # rest) =
     andThen (mapping_source command source prior) (\<lambda>v.
     andThen (mapped_body command prior rest) (\<lambda>d. Inr ((target, v) # d)))"

definition strip_spaces :: "string \<Rightarrow> string" where
  "strip_spaces s = rev (dropWhile is_space (rev (dropWhile is_space s)))"

definition rest_headers :: "'p rest_env \<Rightarrow> RestActionBinding \<Rightarrow> ActionCommand \<Rightarrow> exn + (string \<times> string) list" where
  "rest_headers env b command =
     (let headers = [(rb_idempotency_header b, cmd_idempotency_key command)] in
      case rb_secret_ref b of
        Some (c # cs) \<Rightarrow> andThen (re_secret env (c # cs)) (\<lambda>secret.
          Inr (dict_set headers (rb_auth_header b) (strip_spaces (rb_auth_scheme b @ '' '' @ secret))))
      | _ \<Rightarrow> Inr headers)"

definition rest_url :: "'p rest_env \<Rightarrow> RestActionBinding \<Rightarrow> HttpOperation \<Rightarrow> exn + string" where
  "rest_url env b op' = urljoin (re_ip_literal env) (rstrip_char CHR ''/'' (rb_base_url b) @ ''/'') (lstrip_char CHR ''/'' (ho_path op'))"

definition rest_request ::
  "'p rest_env \<Rightarrow> RestActionBinding \<Rightarrow> HttpOperation \<Rightarrow> ActionCommand \<Rightarrow> pdict option \<Rightarrow> exn + http_request" where
  "rest_request env b op' command prior =
     andThen (rest_headers env b command) (\<lambda>headers.
     andThen (mapped_body command prior (ho_body op')) (\<lambda>body.
     andThen (mapped_body command prior (ho_query op')) (\<lambda>query.
     andThen (rest_url env b op') (\<lambda>url.
     Inr \<lparr>hq_method = ho_method op', hq_url = url, hq_headers = headers, hq_params = query,
       hq_json = (if ho_method op' \<noteq> ''GET'' then Some body else None), hq_timeout = rb_timeout_seconds b\<rparr>))))"

definition response_details :: "RestActionBinding \<Rightarrow> int \<Rightarrow> json \<Rightarrow> pdict" where
  "response_details b status payload =
    [(''http_status'', JInt status), (''provider_operation_id'', pointer payload (rb_provider_operation_id_pointer b)),
     (''result'', JObj (map (\<lambda>(name, p). (name, pointer payload (Some p))) (rb_response_fields b)))]"

definition response_outcome :: "RestActionBinding \<Rightarrow> int \<Rightarrow> json option \<Rightarrow> ConnectorOutcome" where
  "response_outcome b status body =
     (let details = response_details b status (case body of None \<Rightarrow> JObj [] | Some p \<Rightarrow> p) in
      if status \<in> set (hs_succeeded (rb_statuses b)) then outcome_succeeded details
      else if status \<in> set (hs_failed (rb_statuses b)) then outcome_failed details
      else outcome_unknown (details @ [(''reason'', JStr ''provider_not_terminal'')]))"

definition rest_execute ::
  "'p rest_env \<Rightarrow> RestActionBinding \<Rightarrow> HttpOperation \<Rightarrow> ActionCommand \<Rightarrow> pdict option \<Rightarrow> (ConnectorOutcome, 'p) op" where
  "rest_execute env b op' command prior =
     bindE (liftE (rest_request env b op' command prior)) (\<lambda>request.
     bindE (re_client env request) (\<lambda>answer.
     returnE (case answer of
        HttpFailure name \<Rightarrow> outcome_unknown [(''reason'', JStr ''provider_outcome_ambiguous''), (''error_type'', JStr name)]
      | HttpResponse status body \<Rightarrow> response_outcome b status body)))"

definition rest_dispatch :: "'p rest_env \<Rightarrow> RestActionBinding \<Rightarrow> ActionCommand \<Rightarrow> (ConnectorOutcome, 'p) op" where
  "rest_dispatch env b command = rest_execute env b (rb_execute b) command None"

definition rest_reconcile :: "'p rest_env \<Rightarrow> RestActionBinding \<Rightarrow> ActionCommand \<Rightarrow> pdict option \<Rightarrow> (ConnectorOutcome, 'p) op" where
  "rest_reconcile env b command prior =
     (case rb_reconcile b of
        None \<Rightarrow> returnE (outcome_unknown (case prior of
            Some (x # xs) \<Rightarrow> x # xs | _ \<Rightarrow> [(''reason'', JStr ''reconciliation_not_configured'')]))
      | Some op' \<Rightarrow> rest_execute env b op' command prior)"

definition RestActionConnector :: "'p rest_env \<Rightarrow> RestActionBinding \<Rightarrow> 'p ActionConnector" where
  "RestActionConnector env b = \<lparr>conn_dispatch = rest_dispatch env b, conn_reconcile = rest_reconcile env b\<rparr>"

section \<open>The pinned OpenAPI document\<close>

text \<open>\<open>fi_read\<close> reads the bytes of a file, \<open>fi_json\<close> and \<open>fi_yaml\<close> parse them and \<open>fi_sha256\<close> is the hex digest.\<close>

record files =
  fi_read :: "string \<Rightarrow> exn + string"
  fi_json :: "string \<Rightarrow> exn + json"
  fi_yaml :: "string \<Rightarrow> exn + json"
  fi_sha256 :: "string \<Rightarrow> string"
  fi_suffix :: "string \<Rightarrow> string"

definition load_document :: "files \<Rightarrow> string \<Rightarrow> exn + pdict" where
  "load_document fs path =
     andThen (fi_read fs path) (\<lambda>content.
     andThen (if lower (fi_suffix fs path) = ''.json'' then fi_json fs content else fi_yaml fs content) (\<lambda>value.
     case value of JObj d \<Rightarrow> Inr d
     | _ \<Rightarrow> Inl (ValueError (''Configuration document must contain an object: '' @ path))))"

definition upper :: "string \<Rightarrow> string" where
  "upper s = map (\<lambda>c. if 97 \<le> code_of c \<and> code_of c \<le> 122 then char_of (code_of c - 32) else c) s"

definition add_operation ::
  "(json \<Rightarrow> string) \<Rightarrow> string \<Rightarrow> (string \<times> (string \<times> string)) list \<Rightarrow> string \<times> json \<Rightarrow> (string \<times> (string \<times> string)) list" where
  "add_operation render path ops item =
     (case snd item of
        JObj operation \<Rightarrow> if truthy_get operation ''operationId''
          then dict_set ops (py_str render (get_or_null operation ''operationId'')) (upper (fst item), path) else ops
      | _ \<Rightarrow> ops)"

definition path_operations ::
  "(json \<Rightarrow> string) \<Rightarrow> (string \<times> (string \<times> string)) list \<Rightarrow> string \<times> json \<Rightarrow> (string \<times> (string \<times> string)) list" where
  "path_operations render ops item =
     (case snd item of JObj path_item \<Rightarrow> foldl (add_operation render (fst item)) ops path_item | _ \<Rightarrow> ops)"

definition document_operations :: "(json \<Rightarrow> string) \<Rightarrow> pdict \<Rightarrow> exn + (string \<times> (string \<times> string)) list" where
  "document_operations render document =
     (case dict_get document ''paths'' of
        None \<Rightarrow> Inr []
      | Some (JObj paths) \<Rightarrow> Inr (foldl (path_operations render) [] paths)
      | Some _ \<Rightarrow> Inl (OtherError ''AttributeError''))"

definition operation_matches :: "(string \<times> (string \<times> string)) list \<Rightarrow> HttpOperation \<Rightarrow> bool" where
  "operation_matches ops op' \<longleftrightarrow> dict_get ops (ho_operation_id op') = Some (ho_method op', ho_path op')"

definition validate_openapi :: "files \<Rightarrow> (json \<Rightarrow> string) \<Rightarrow> string \<Rightarrow> RestActionBinding \<Rightarrow> exn + unit" where
  "validate_openapi fs render binding_id b =
     andThen (fi_read fs (oa_path (rb_openapi b))) (\<lambda>content.
     if lower (fi_sha256 fs content) \<noteq> lower (oa_sha256 (rb_openapi b))
     then Inl (ValueError (''OpenAPI digest mismatch for binding '' @ binding_id))
     else
     andThen (load_document fs (oa_path (rb_openapi b))) (\<lambda>document.
     andThen (document_operations render document) (\<lambda>ops.
     case filter (\<lambda>op'. \<not> operation_matches ops op')
         (rb_execute b # (case rb_reconcile b of None \<Rightarrow> [] | Some op' \<Rightarrow> [op'])) of
       [] \<Rightarrow> Inr ()
     | op' # _ \<Rightarrow> Inl (ValueError (''Configured operation '' @ ho_operation_id op' @ '' does not match pinned OpenAPI'')))))"

section \<open>The registry\<close>

text \<open>\<open>load_factory\<close>: \<open>import\<close> gives the attribute of a module, none when it is not callable.\<close>

definition load_factory :: "(string \<Rightarrow> string \<Rightarrow> exn + 'f option) \<Rightarrow> string \<Rightarrow> exn + 'f" where
  "load_factory import specification =
     (case upto_char CHR '':'' specification of
        Some (m # ms, a # as) \<Rightarrow> andThen (import (m # ms) (a # as)) (\<lambda>factory.
          case factory of
            None \<Rightarrow> Inl (ValueError (''Configured adapter factory is not callable: '' @ specification))
          | Some f \<Rightarrow> Inr f)
      | _ \<Rightarrow> Inl (ValueError ''Adapter factory must use package.module:callable format''))"

text \<open>A factory returns a candidate: a connector, or none when it lacks \<open>dispatch\<close> or \<open>reconcile\<close>.\<close>

type_synonym 'p connector_factory = "ActionConnectorBinding \<Rightarrow> exn + 'p ActionConnector option"

record 'p registry_env =
  rv_environment :: Environment
  rv_sqlite_connectors :: "(string \<times> 'p ActionConnector) list"
  rv_rest :: "'p rest_env"
  rv_files :: files
  rv_render :: "json \<Rightarrow> string"
  rv_import :: "string \<Rightarrow> string \<Rightarrow> exn + 'p connector_factory option"

record 'p ActionConnectorRegistry =
  rg_resolved :: "((string \<times> string \<times> string) \<times> 'p ResolvedActionConnector) list"
  rg_active :: "(string \<times> 'p ResolvedActionConnector) list"

definition production_check :: "Environment \<Rightarrow> ActionConnectorBinding \<Rightarrow> exn + unit" where
  "production_check target b =
     (if target \<noteq> PRODUCTION then Inr ()
      else case ab_transport b of
        SQLiteActionBinding _ \<Rightarrow> Inl (ValueError ''SQLite/demo action bindings are forbidden in production'')
      | RestBinding r \<Rightarrow> if starts_with ''https://'' (rb_base_url r) then Inr ()
          else Inl (ValueError ''Production REST action bindings require HTTPS'')
      | WebSocketBinding w \<Rightarrow> if starts_with ''wss://'' (wb_url w) then Inr ()
          else Inl (ValueError ''Production WebSocket action bindings require WSS'')
      | PythonActionBinding _ \<Rightarrow> Inr ())"

definition binding_connector :: "'p registry_env \<Rightarrow> ActionConnectorBinding \<Rightarrow> exn + 'p ActionConnector" where
  "binding_connector env b =
     (case ab_transport b of
        RestBinding r \<Rightarrow> andThen (validate_openapi (rv_files env) (rv_render env) (ab_binding_id b) r) (\<lambda>_.
          Inr (RestActionConnector (rv_rest env) r))
      | PythonActionBinding factory \<Rightarrow>
          andThen (load_factory (rv_import env) factory) (\<lambda>f.
          andThen (f b) (\<lambda>candidate.
          case candidate of
            None \<Rightarrow> Inl (TypeError ''Python action connector must implement dispatch and reconcile'')
          | Some c \<Rightarrow> Inr c))
      | SQLiteActionBinding _ \<Rightarrow>
          (case dict_get (rv_sqlite_connectors env) (ab_binding_id b) of
             Some c \<Rightarrow> Inr c
           | None \<Rightarrow> (case dict_get (rv_sqlite_connectors env) (ab_action_name b) of
                 Some c \<Rightarrow> Inr c
               | None \<Rightarrow> Inl (ValueError (''No SQLite connector supplied for binding '' @ ab_binding_id b))))
      | WebSocketBinding _ \<Rightarrow>
          Inl (ValueError ''WebSocket action bindings are contract-only; install a Python connector runtime''))"

definition resolved_binding :: "ActionConnectorBinding \<Rightarrow> 'p ActionConnector \<Rightarrow> 'p ResolvedActionConnector" where
  "resolved_binding b connector =
     \<lparr>rc_action_name = ab_action_name b, rc_binding_id = ab_binding_id b, rc_binding_version = ab_binding_version b,
      rc_contract_version = ab_contract_version b, rc_connector = connector\<rparr>"

definition binding_key :: "ActionConnectorBinding \<Rightarrow> string \<times> string \<times> string" where
  "binding_key b = (ab_action_name b, ab_binding_id b, ab_binding_version b)"

fun build_bindings ::
  "'p registry_env \<Rightarrow> ActionConnectorBinding list \<Rightarrow> 'p ActionConnectorRegistry \<Rightarrow> exn + 'p ActionConnectorRegistry" where
  "build_bindings env [] reg = Inr reg"
| "build_bindings env (b # bs) reg =
     andThen (production_check (rv_environment env) b) (\<lambda>_.
     andThen (binding_connector env b) (\<lambda>connector.
     let resolved = resolved_binding b connector in
     build_bindings env bs
       \<lparr>rg_resolved = dict_set (rg_resolved reg) (binding_key b) resolved,
        rg_active = (if ab_enabled b then dict_set (rg_active reg) (ab_action_name b) resolved else rg_active reg)\<rparr>))"

definition build_registry :: "'p registry_env \<Rightarrow> ActionRegistryConfig \<Rightarrow> exn + 'p ActionConnectorRegistry" where
  "build_registry env config = build_bindings env (rc_bindings config) \<lparr>rg_resolved = [], rg_active = []\<rparr>"

definition registry_resolve ::
  "'p ActionConnectorRegistry \<Rightarrow> string \<Rightarrow> string option \<Rightarrow> string option \<Rightarrow> string option \<Rightarrow>
   exn + 'p ResolvedActionConnector" where
  "registry_resolve reg action_name binding_id binding_version contract_version =
     (if action_name \<notin> set (dict_keys ACTION_SPECIFICATIONS)
      then Inl (ValueError (''Unknown action connector: '' @ action_name))
      else if binding_id = None \<and> binding_version = None \<and> contract_version = None
      then (case dict_get (rg_active reg) action_name of
          None \<Rightarrow> Inl (ValueError (''No enabled action binding: '' @ action_name)) | Some r \<Rightarrow> Inr r)
      else case (binding_id, binding_version, contract_version) of
        (Some (i # is), Some (v # vs), Some (c # cs)) \<Rightarrow>
          (case dict_get (rg_resolved reg) (action_name, i # is, v # vs) of
             None \<Rightarrow> Inl (ValueError (''Configured action binding is unavailable: '' @ action_name @ ''/'' @ (i # is) @ ''/'' @ (v # vs)))
           | Some r \<Rightarrow> if rc_contract_version r \<noteq> c # cs
               then Inl (ValueError (''Configured action contract is unavailable: '' @ action_name @ ''/'' @ (c # cs)))
               else Inr r)
      | _ \<Rightarrow> Inl (ValueError ''Binding ID, binding version, and contract version must be supplied together''))"

definition capabilities :: "'p ActionConnectorRegistry \<Rightarrow> (string \<times> string) list list" where
  "capabilities reg = map (\<lambda>r. [(''action_name'', rc_action_name r), (''binding_id'', rc_binding_id r),
     (''binding_version'', rc_binding_version r), (''contract_version'', rc_contract_version r)])
     (sort_key rc_action_name (map snd (rg_active reg)))"

end
