(* ===== verification/Registry_Laws.thy ===== *)
theory Registry_Laws
  imports Connector_Registry
begin

text \<open>
  What the registry gives the gateway: exactly the configured bindings, by their pins or by the
  enabled one of an action; what it refuses in production; and what a REST connector reports.
\<close>

section \<open>Building\<close>

lemma build_checks:
  "build_bindings env bs reg = Inr reg' \<Longrightarrow> b \<in> set bs \<Longrightarrow>
   production_check (rv_environment env) b = Inr () \<and> (\<exists>c. binding_connector env b = Inr c)"
  by (induction bs arbitrary: reg) (auto simp: andThen_Inr Let_def)

lemma build_resolved_sound:
  "build_bindings env bs reg = Inr reg' \<Longrightarrow> dict_get (rg_resolved reg') k = Some r \<Longrightarrow>
   dict_get (rg_resolved reg) k = Some r \<or>
   (\<exists>b\<in>set bs. \<exists>c. binding_connector env b = Inr c \<and> r = resolved_binding b c \<and> binding_key b = k)"
proof (induction bs arbitrary: reg)
  case (Cons b bs)
  then obtain c where "binding_connector env b = Inr c" and "build_bindings env bs
      \<lparr>rg_resolved = dict_set (rg_resolved reg) (binding_key b) (resolved_binding b c),
       rg_active = (if ab_enabled b then dict_set (rg_active reg) (ab_action_name b) (resolved_binding b c) else rg_active reg)\<rparr> = Inr reg'"
    by (auto simp: andThen_Inr Let_def)
  with Cons.IH Cons.prems(2) show ?case by (fastforce split: if_splits)
qed simp

lemma build_active_sound:
  "build_bindings env bs reg = Inr reg' \<Longrightarrow> dict_get (rg_active reg') a = Some r \<Longrightarrow>
   dict_get (rg_active reg) a = Some r \<or>
   (\<exists>b\<in>set bs. \<exists>c. binding_connector env b = Inr c \<and> r = resolved_binding b c \<and> ab_action_name b = a \<and> ab_enabled b)"
proof (induction bs arbitrary: reg)
  case (Cons b bs)
  then obtain c where "binding_connector env b = Inr c" and "build_bindings env bs
      \<lparr>rg_resolved = dict_set (rg_resolved reg) (binding_key b) (resolved_binding b c),
       rg_active = (if ab_enabled b then dict_set (rg_active reg) (ab_action_name b) (resolved_binding b c) else rg_active reg)\<rparr> = Inr reg'"
    by (auto simp: andThen_Inr Let_def)
  with Cons.IH Cons.prems(2) show ?case by (fastforce split: if_splits)
qed simp

text \<open>Later bindings leave the entries of other keys alone.\<close>

lemma build_keeps:
  "build_bindings env bs reg = Inr reg' \<Longrightarrow>
   (k \<notin> binding_key ` set bs \<longrightarrow> dict_get (rg_resolved reg') k = dict_get (rg_resolved reg) k) \<and>
   (a \<notin> ab_action_name ` set (filter ab_enabled bs) \<longrightarrow> dict_get (rg_active reg') a = dict_get (rg_active reg) a)"
proof (induction bs arbitrary: reg)
  case (Cons b bs)
  then obtain c where "build_bindings env bs
      \<lparr>rg_resolved = dict_set (rg_resolved reg) (binding_key b) (resolved_binding b c),
       rg_active = (if ab_enabled b then dict_set (rg_active reg) (ab_action_name b) (resolved_binding b c) else rg_active reg)\<rparr> = Inr reg'"
    by (auto simp: andThen_Inr Let_def)
  from Cons.IH [OF this] show ?case by auto
qed simp

lemma build_complete:
  "build_bindings env bs reg = Inr reg' \<Longrightarrow> distinct (map binding_key bs) \<Longrightarrow>
   distinct (map ab_action_name (filter ab_enabled bs)) \<Longrightarrow> b \<in> set bs \<Longrightarrow> binding_connector env b = Inr c \<Longrightarrow>
   dict_get (rg_resolved reg') (binding_key b) = Some (resolved_binding b c) \<and>
   (ab_enabled b \<longrightarrow> dict_get (rg_active reg') (ab_action_name b) = Some (resolved_binding b c))"
proof (induction bs arbitrary: reg)
  case (Cons x bs)
  then obtain d where x: "binding_connector env x = Inr d" and rest: "build_bindings env bs
      \<lparr>rg_resolved = dict_set (rg_resolved reg) (binding_key x) (resolved_binding x d),
       rg_active = (if ab_enabled x then dict_set (rg_active reg) (ab_action_name x) (resolved_binding x d) else rg_active reg)\<rparr> = Inr reg'"
    by (auto simp: andThen_Inr Let_def)
  show ?case
  proof (cases "b = x")
    case True
    then show ?thesis using x Cons.prems build_keeps [OF rest, of "binding_key x" "ab_action_name x"] by auto
  next
    case False
    then show ?thesis using Cons.prems Cons.IH [OF rest] by (auto split: if_splits)
  qed
qed simp

lemma distinct_keys: "distinct (map binding_identity bs) \<Longrightarrow> distinct (map binding_key bs)"
  by (induction bs) (auto simp: binding_identity_def binding_key_def)

section \<open>Resolution\<close>

text \<open>C13: The registry resolves exactly its configuration. A binding is found under its own identifier,
  version and contract, enabled or not, so an action that was authorised under it can still be
  dispatched and reconciled after another binding has taken over; without pins the enabled binding
  of the action is found; and whatever is found is a configured binding with the pins asked for.\<close>

theorem registry_resolves:
  assumes "config_valid ip_literal config" and "build_registry env config = Inr reg"
  shows "(\<forall>b\<in>set (rc_bindings config). \<exists>c. binding_connector env b = Inr c \<and>
      registry_resolve reg (ab_action_name b) (Some (ab_binding_id b)) (Some (ab_binding_version b))
        (Some (ab_contract_version b)) = Inr (resolved_binding b c) \<and>
      (ab_enabled b \<longrightarrow> registry_resolve reg (ab_action_name b) None None None = Inr (resolved_binding b c))) \<and>
    (\<forall>name i v k r. registry_resolve reg name i v k = Inr r \<longrightarrow>
      (\<exists>b\<in>set (rc_bindings config). \<exists>c. binding_connector env b = Inr c \<and> r = resolved_binding b c \<and> ab_action_name b = name \<and>
        (if i = None \<and> v = None \<and> k = None then ab_enabled b
         else i = Some (ab_binding_id b) \<and> v = Some (ab_binding_version b) \<and> k = Some (ab_contract_version b))))"
proof (intro conjI ballI allI impI)
  fix b assume b: "b \<in> set (rc_bindings config)"
  note build = assms(2) [unfolded build_registry_def]
  obtain c where c: "binding_connector env b = Inr c" using build_checks [OF build b] by blast
  have valid: "binding_valid ip_literal b" using assms(1) b by (simp add: config_valid_def list_all_iff)
  have "dict_get (rg_resolved reg) (binding_key b) = Some (resolved_binding b c) \<and>
     (ab_enabled b \<longrightarrow> dict_get (rg_active reg) (ab_action_name b) = Some (resolved_binding b c))"
    using build_complete [OF build _ _ b c] assms(1) distinct_keys by (simp add: config_valid_def)
  moreover obtain i il v vs k ks where "ab_binding_id b = i # il" "ab_binding_version b = v # vs" "ab_contract_version b = k # ks"
    using valid by (auto simp: binding_valid_def neq_Nil_conv)
  ultimately show "\<exists>c. binding_connector env b = Inr c \<and>
      registry_resolve reg (ab_action_name b) (Some (ab_binding_id b)) (Some (ab_binding_version b))
        (Some (ab_contract_version b)) = Inr (resolved_binding b c) \<and>
      (ab_enabled b \<longrightarrow> registry_resolve reg (ab_action_name b) None None None = Inr (resolved_binding b c))"
    using valid c by (auto simp: registry_resolve_def binding_valid_def binding_key_def resolved_binding_def)
next
  fix name i v k r assume found: "registry_resolve reg name i v k = Inr r"
  note build = assms(2) [unfolded build_registry_def]
  show "\<exists>b\<in>set (rc_bindings config). \<exists>c. binding_connector env b = Inr c \<and> r = resolved_binding b c \<and> ab_action_name b = name \<and>
        (if i = None \<and> v = None \<and> k = None then ab_enabled b
         else i = Some (ab_binding_id b) \<and> v = Some (ab_binding_version b) \<and> k = Some (ab_contract_version b))"
  proof (cases "i = None \<and> v = None \<and> k = None")
    case True
    then have "dict_get (rg_active reg) name = Some r"
      using found by (auto simp: registry_resolve_def split: if_splits option.splits)
    from build_active_sound [OF build this] True show ?thesis by (auto simp: dict_get_def)
  next
    case False
    then obtain i' v' k' where pins: "i = Some i'" "v = Some v'" "k = Some k'"
      and got: "dict_get (rg_resolved reg) (name, i', v') = Some r" "rc_contract_version r = k'"
      using found by (auto simp: registry_resolve_def split: if_splits option.splits list.splits)
    from build_resolved_sound [OF build got(1)] got(2) pins show ?thesis
      by (auto simp: dict_get_def binding_key_def resolved_binding_def)
  qed
qed

section \<open>Production\<close>

text \<open>A registry that starts in production has no SQLite and no WebSocket binding, every REST
  binding speaks HTTPS and matches its pinned OpenAPI document.\<close>

theorem production_bindings:
  assumes "rv_environment env = PRODUCTION" and "build_registry env config = Inr reg" and "b \<in> set (rc_bindings config)"
  shows "case ab_transport b of
      RestBinding r \<Rightarrow> starts_with ''https://'' (rb_base_url r) \<and>
        validate_openapi (rv_files env) (rv_render env) (ab_binding_id b) r = Inr ()
    | PythonActionBinding _ \<Rightarrow> True
    | _ \<Rightarrow> False"
  using build_checks [OF assms(2) [unfolded build_registry_def] assms(3)] assms(1)
  by (auto simp: production_check_def binding_connector_def andThen_Inr split: transport_binding.splits if_splits)

section \<open>REST outcomes\<close>

lemma idempotency_header_kept:
  "[(k, v)] = h \<Longrightarrow> dict_get h k = Some v" "a \<noteq> k \<Longrightarrow> dict_set [(k, v)] a x = h \<Longrightarrow> dict_get h k = Some v"
  by (auto simp: dict_get_def)

text \<open>A REST call reports success or failure only on a response whose status the binding maps so, in
  whatever order the mapping is consulted; an accepted status, an unmapped one, a timeout and a
  network error are all unknown, to be reconciled; and the request carries the idempotency key of
  the command whenever the credentials go in another header.\<close>

theorem rest_outcome_truthful:
  assumes "rest_execute env b op' c prior s = (Inr out, t)" and "statuses_disjoint (rb_statuses b)"
  shows "\<exists>request answer. rest_request env b op' c prior = Inr request \<and> re_client env request s = (Inr answer, t) \<and>
    (rb_auth_header b \<noteq> rb_idempotency_header b \<longrightarrow>
      dict_get (hq_headers request) (rb_idempotency_header b) = Some (cmd_idempotency_key c)) \<and>
    co_status out = (case answer of
        HttpFailure _ \<Rightarrow> UNKNOWN
      | HttpResponse status _ \<Rightarrow> if status \<in> set (hs_failed (rb_statuses b)) then FAILED
          else if status \<in> set (hs_accepted (rb_statuses b)) then UNKNOWN
          else if status \<in> set (hs_succeeded (rb_statuses b)) then SUCCEEDED else UNKNOWN)"
proof -
  obtain request answer where req: "rest_request env b op' c prior = Inr request"
    and ans: "re_client env request s = (Inr answer, t)"
    and out: "out = (case answer of
        HttpFailure name \<Rightarrow> outcome_unknown [(''reason'', JStr ''provider_outcome_ambiguous''), (''error_type'', JStr name)]
      | HttpResponse status body \<Rightarrow> response_outcome b status body)"
    using assms(1) by (auto simp: rest_execute_def bindE_Inr liftE_def returnE_def)
  have "rest_headers env b c = Inr (hq_headers request)" using req by (auto simp: rest_request_def andThen_Inr)
  then have "rb_auth_header b \<noteq> rb_idempotency_header b \<longrightarrow>
      dict_get (hq_headers request) (rb_idempotency_header b) = Some (cmd_idempotency_key c)"
    by (auto simp: rest_headers_def Let_def andThen_Inr idempotency_header_kept dest: sym split: option.splits list.splits)
  moreover have "co_status out = (case answer of
        HttpFailure _ \<Rightarrow> UNKNOWN
      | HttpResponse status _ \<Rightarrow> if status \<in> set (hs_failed (rb_statuses b)) then FAILED
          else if status \<in> set (hs_accepted (rb_statuses b)) then UNKNOWN
          else if status \<in> set (hs_succeeded (rb_statuses b)) then SUCCEEDED else UNKNOWN)"
    using assms(2) out
    by (auto simp: response_outcome_def Let_def outcome_succeeded_def outcome_failed_def outcome_unknown_def statuses_disjoint_def
        disjoint_lists_def list_ex_iff split: http_answer.splits)
  ultimately show ?thesis using req ans by blast
qed

section \<open>Hosts\<close>

definition tabbed_operation :: HttpOperation where
  "tabbed_operation = \<lparr>ho_operation_id = ''refund'', ho_method = ''POST'',
     ho_path = [CHR 47, CHR 9, CHR 47, CHR 9] @ ''/other.example/v1'', ho_body = [], ho_query = []\<rparr>"

definition tabbed_binding :: RestActionBinding where
  "tabbed_binding = \<lparr>rb_base_url = ''https://pay.example'', rb_allowed_hosts = [''pay.example''], rb_timeout_seconds = 10,
     rb_idempotency_header = ''Idempotency-Key'', rb_secret_ref = Some ''env://KEY'', rb_auth_header = ''Authorization'',
     rb_auth_scheme = ''Bearer'', rb_openapi = \<lparr>oa_path = ''api.json'', oa_sha256 = replicate 64 CHR ''0''\<rparr>,
     rb_execute = tabbed_operation, rb_reconcile = Some tabbed_operation,
     rb_statuses = \<lparr>hs_succeeded = [200, 201], hs_accepted = [202], hs_failed = [400, 401, 403, 404, 409, 422]\<rparr>,
     rb_provider_operation_id_pointer = None, rb_response_fields = []\<rparr>"

definition plain_rest :: "unit rest_env" where
  "plain_rest = \<lparr>re_client = (\<lambda>_. raiseE AssertionError), re_secret = (\<lambda>_. Inr ''key''), re_ip_literal = (\<lambda>_. False)\<rparr>"

text \<open>The host of a binding is checked on its base URL only, and an operation path with tabs between
  its slashes passes the check for a relative path; joining drops the tabs, so the request of a
  valid binding, with its credentials, goes to a host outside the allowed ones.\<close>

theorem operation_path_escapes:
  "validate_rest_contract (re_ip_literal plain_rest) tabbed_binding \<and>
   map_sum (\<lambda>_. ()) (\<lambda>u. u) (rest_url plain_rest tabbed_binding (rb_execute tabbed_binding)) = Inr ''https://other.example/v1'' \<and>
   map_sum (\<lambda>_. ()) (\<lambda>u. hostname (up_netloc u)) (urlparse (re_ip_literal plain_rest) ''https://other.example/v1'' []) =
     Inr (Some ''other.example'') \<and>
   ''other.example'' \<notin> set (rb_allowed_hosts tabbed_binding)"
  by code_simp

section \<open>Examples\<close>

definition demo_python :: ActionConnectorBinding where
  "demo_python = \<lparr>ab_action_name = ''issue_refund'', ab_binding_id = ''B1'', ab_binding_version = ''1'',
     ab_contract_version = ''1'', ab_enabled = False, ab_transport = PythonActionBinding ''pay.adapter:make''\<rparr>"

definition demo_registry_config :: ActionRegistryConfig where
  "demo_registry_config = \<lparr>rc_version = 1, rc_bindings = [demo_python, demo_python\<lparr>ab_binding_version := ''2'', ab_enabled := True\<rparr>]\<rparr>"

definition demo_connector :: "unit ActionConnector" where
  "demo_connector = \<lparr>conn_dispatch = (\<lambda>_. returnE (outcome_succeeded [])), conn_reconcile = (\<lambda>_ _. returnE (outcome_succeeded []))\<rparr>"

definition demo_registry_env :: "unit registry_env" where
  "demo_registry_env = \<lparr>rv_environment = PRODUCTION, rv_sqlite_connectors = [], rv_rest = plain_rest,
     rv_files = \<lparr>fi_read = (\<lambda>_. Inl AssertionError), fi_json = (\<lambda>_. Inl AssertionError), fi_yaml = (\<lambda>_. Inl AssertionError),
       fi_sha256 = (\<lambda>x. x), fi_suffix = (\<lambda>_. [])\<rparr>,
     rv_render = (\<lambda>_. []), rv_import = (\<lambda>_ _. Inr (Some (\<lambda>_. Inr (Some demo_connector))))\<rparr>"

definition demo_registry :: "unit ActionConnectorRegistry" where
  "demo_registry = projr (build_registry demo_registry_env demo_registry_config)"

lemma demo_registry_facts:
  "config_valid (\<lambda>_. False) demo_registry_config" "build_registry demo_registry_env demo_registry_config = Inr demo_registry"
proof -
  show "config_valid (\<lambda>_. False) demo_registry_config" by code_simp
  have "\<not> isl (build_registry demo_registry_env demo_registry_config)" by code_simp
  then show "build_registry demo_registry_env demo_registry_config = Inr demo_registry" by (simp add: demo_registry_def)
qed

theorem registry_resolves_witness:
  "\<exists>c. registry_resolve demo_registry ''issue_refund'' (Some ''B1'') (Some ''1'') (Some ''1'') = Inr (resolved_binding demo_python c)"
proof -
  have "demo_python \<in> set (rc_bindings demo_registry_config)" by (simp add: demo_registry_config_def)
  with registry_resolves [OF demo_registry_facts] obtain c where
    "registry_resolve demo_registry (ab_action_name demo_python) (Some (ab_binding_id demo_python))
       (Some (ab_binding_version demo_python)) (Some (ab_contract_version demo_python)) = Inr (resolved_binding demo_python c)" by blast
  then show ?thesis by (auto simp: demo_python_def)
qed

theorem production_bindings_witness:
  "rv_environment demo_registry_env = PRODUCTION \<and> transport_of (ab_transport demo_python) = TRANSPORT_PYTHON"
proof -
  have "rv_environment demo_registry_env = PRODUCTION" "demo_python \<in> set (rc_bindings demo_registry_config)"
    by (simp_all add: demo_registry_env_def demo_registry_config_def)
  with production_bindings [OF this(1) demo_registry_facts(2) this(2)] show ?thesis
    by (auto simp: demo_python_def split: transport_binding.splits)
qed

definition demo_rest :: "unit rest_env" where
  "demo_rest = plain_rest\<lparr>re_client := (\<lambda>_. returnE (HttpResponse 202 None))\<rparr>"

theorem rest_outcome_truthful_witness:
  "\<exists>out t. rest_execute demo_rest tabbed_binding tabbed_operation demo_command None () = (Inr out, t) \<and> co_status out = UNKNOWN"
proof -
  have "\<not> isl (fst (rest_execute demo_rest tabbed_binding tabbed_operation demo_command None ()))" by code_simp
  then obtain out t where run: "rest_execute demo_rest tabbed_binding tabbed_operation demo_command None () = (Inr out, t)"
    by (metis isl_def prod.collapse sum.collapse(2))
  have "statuses_disjoint (rb_statuses tabbed_binding)" by code_simp
  from rest_outcome_truthful [OF run this] show ?thesis using run
    by (auto simp: demo_rest_def returnE_def tabbed_binding_def)
qed

end
