(* ===== verification/Bootstrap.thy ===== *)
theory Bootstrap
  imports Web_Edge Policy_Store Action_Service
begin

text \<open>
  What \<open>main.py\<close> sets up before it serves: the signer and the three policy packages it approves and
  activates at import, their place in the repository when the application starts, and the choice of
  the package an action runs under.
\<close>

section \<open>The deployment\<close>

record deployment =
  dp_settings :: Settings
  dp_jurisdiction_profile :: string
  dp_policy_signing_key_id :: string
  dp_policy_verification_keys :: "(string \<times> string) list"

definition policy_signer :: "deployment \<Rightarrow> exn + PolicySigner" where
  "policy_signer dp = new_signer (policy_signing_key (dp_settings dp)) (dp_policy_signing_key_id dp)
     (dp_policy_verification_keys dp)"

section \<open>The packages\<close>

definition bootstrap_draft :: "deployment \<Rightarrow> string \<Rightarrow> string \<Rightarrow> pdict \<Rightarrow> PolicyPackage" where
  "bootstrap_draft dp name procedure_id rules =
     \<lparr>pp_package_id = name @ ''@1.0.0:'' @ dp_jurisdiction_profile dp, pp_procedure_id = procedure_id,
      pp_version = ''1.0.0'', pp_jurisdiction = dp_jurisdiction_profile dp,
      pp_author = policy_author (dp_settings dp), pp_rules = rules, pp_lifecycle = DRAFT, pp_approver = None,
      pp_signing_key_id = None, pp_activation_signature = None, pp_signature = None\<rparr>"

definition bootstrap_package ::
  "mac_fun \<Rightarrow> PolicySigner \<Rightarrow> deployment \<Rightarrow> string \<Rightarrow> string \<Rightarrow> pdict \<Rightarrow> exn + PolicyPackage" where
  "bootstrap_package mac sg dp name procedure_id rules =
     andThen (signer_approve mac sg (bootstrap_draft dp name procedure_id rules) (policy_approver (dp_settings dp)))
       (signer_activate mac sg)"

definition refund_actions :: "string list" where
  "refund_actions = [''issue_refund'', ''issue_store_credit'', ''update_case_status'', ''escalate_to_supervisor'',
     ''add_case_note'']"

definition reg_e_actions :: "string list" where
  "reg_e_actions = [''file_eft_dispute'', ''issue_provisional_credit'', ''escalate_to_supervisor'', ''add_case_note'']"

definition fraud_actions :: "string list" where
  "fraud_actions = [''flag_account'', ''submit_sar'', ''close_alert'', ''escalate_to_supervisor'', ''add_case_note'']"

definition active_refund_policy :: "mac_fun \<Rightarrow> PolicySigner \<Rightarrow> deployment \<Rightarrow> exn + PolicyPackage" where
  "active_refund_policy mac sg dp = bootstrap_package mac sg dp ''refund'' ''cs_refund''
     [(''refund_window_days'', JInt 30), (''requires_explicit_consent'', JBool True),
      (''allowed_actions'', JList (map JStr refund_actions))]"

definition active_reg_e_policy :: "mac_fun \<Rightarrow> PolicySigner \<Rightarrow> deployment \<Rightarrow> exn + PolicyPackage" where
  "active_reg_e_policy mac sg dp = bootstrap_package mac sg dp ''reg-e'' ''cs_eft_dispute''
     [(''allowed_actions'', JList (map JStr reg_e_actions))]"

definition active_fraud_policy :: "mac_fun \<Rightarrow> PolicySigner \<Rightarrow> deployment \<Rightarrow> exn + PolicyPackage" where
  "active_fraud_policy mac sg dp = bootstrap_package mac sg dp ''fraud'' ''fraud_alert_triage''
     [(''allowed_actions'', JList (map JStr fraud_actions))]"

text \<open>\<open>_POLICY_BY_PROCEDURE\<close>, whose values in order are \<open>bootstrap_policies\<close>.\<close>

definition POLICY_BY_PROCEDURE ::
  "mac_fun \<Rightarrow> PolicySigner \<Rightarrow> deployment \<Rightarrow> exn + (string \<times> PolicyPackage) list" where
  "POLICY_BY_PROCEDURE mac sg dp =
     andThen (active_refund_policy mac sg dp) (\<lambda>refund.
     andThen (active_reg_e_policy mac sg dp) (\<lambda>reg_e.
     andThen (active_fraud_policy mac sg dp) (\<lambda>fraud.
     Inr [(''cs_refund'', refund), (''cs_eft_dispute'', reg_e), (''fraud_alert_triage'', fraud)])))"

text \<open>The part of \<open>lifespan\<close> that concerns policies.\<close>

definition start_policies :: "mac_fun \<Rightarrow> PolicySigner \<Rightarrow> PolicyPackage list \<Rightarrow> (unit, 'z) pop" where
  "start_policies mac sg bootstrap_policies =
     bindE (foldE (\<lambda>package _. bindE (repo_get (pp_package_id package)) (\<lambda>known.
              if known = None then repo_save package else returnE ())) bootstrap_policies ()) (\<lambda>_.
     bindE (on_registry (\<lambda>r. Inr (registry_clear r))) (\<lambda>_.
     hydrate mac sg))"

section \<open>The package of an action\<close>

definition DEFAULT_PROCEDURE_BY_ACTION :: "(string \<times> string) list" where
  "DEFAULT_PROCEDURE_BY_ACTION =
     [(''issue_refund'', ''cs_refund''), (''issue_store_credit'', ''cs_refund''), (''update_case_status'', ''cs_refund''),
      (''file_eft_dispute'', ''cs_eft_dispute''), (''issue_provisional_credit'', ''cs_eft_dispute''),
      (''escalate_to_supervisor'', ''cs_refund''), (''add_case_note'', ''cs_refund''),
      (''flag_account'', ''fraud_alert_triage''), (''submit_sar'', ''fraud_alert_triage''),
      (''close_alert'', ''fraud_alert_triage'')]"

definition dict_at :: "(string \<times> 'v) list \<Rightarrow> string \<Rightarrow> exn + 'v" where
  "dict_at d k = (case dict_get d k of None \<Rightarrow> Inl (KeyError k) | Some v \<Rightarrow> Inr v)"

text \<open>\<open>action not in set(policy.rules.get("allowed_actions", []))\<close> for the packages above, whose list
  holds strings.\<close>

definition policy_allows :: "PolicyPackage \<Rightarrow> string \<Rightarrow> bool" where
  "policy_allows policy action \<longleftrightarrow>
     (case allowed_actions_list (pp_rules policy) of None \<Rightarrow> False | Some xs \<Rightarrow> action \<in> set xs)"

definition action_policy ::
  "(string \<times> PolicyPackage) list \<Rightarrow> string \<Rightarrow> string option \<Rightarrow> exn + (string \<times> PolicyPackage)" where
  "action_policy policies action requested_procedure =
     andThen (case requested_procedure of
         Some p \<Rightarrow> if p \<in> set (dict_keys policies) then Inr p else dict_at DEFAULT_PROCEDURE_BY_ACTION action
       | None \<Rightarrow> dict_at DEFAULT_PROCEDURE_BY_ACTION action) (\<lambda>procedure_id.
     andThen (dict_at policies procedure_id) (\<lambda>policy.
     if policy_allows policy action then Inr (procedure_id, policy)
     else
     andThen (dict_at DEFAULT_PROCEDURE_BY_ACTION action) (\<lambda>default_id.
     andThen (dict_at policies default_id) (\<lambda>default_policy. Inr (default_id, default_policy)))))"

end
