(* ===== verification/Turns.thy ===== *)
theory Turns
  imports Bootstrap Bridge Conversation Guardrails
begin

text \<open>
  The turn processor of \<open>main.py\<close>: one run of the agents, the safety pipeline over their answer, and
  the proposals prepared from the intents the model left in the session. The ADK session service and
  the runner are parameters that work on the state outside the core store (\<open>provider\<close>), as do the
  audit log and the reference data.
\<close>

section \<open>The application\<close>

text \<open>An event of a run: its author and the texts of its parts; an event without content has none.\<close>

record agent_event =
  ae_author :: string
  ae_parts :: "string option list"

text \<open>
  \<open>ss_get\<close> and \<open>ss_create\<close> return the state of a session. \<open>ss_run\<close> is given the state of the session
  object at hand and returns the events together with the state that object has after the run:
  the same when the service hands out copies, the one of the run when it hands out its own.
\<close>

record 'p session_service =
  ss_get :: "string \<Rightarrow> string \<Rightarrow> (pdict option, 'p) op"
  ss_create :: "string \<Rightarrow> string \<Rightarrow> pdict \<Rightarrow> (pdict, 'p) op"
  ss_list :: "string \<Rightarrow> ((string \<times> pdict) list, 'p) op"
  ss_run :: "string \<Rightarrow> string \<Rightarrow> pdict \<Rightarrow> string \<Rightarrow> (agent_event list \<times> pdict, 'p) op"

text \<open>
  The services \<open>main.py\<close> builds. \<open>ap_digest\<close> is the first 16 upper-case hex digits of the SHA-256 of a
  text, \<open>ap_repr\<close> Python's \<open>repr\<close> of the tuple a case identifier is made of, \<open>ap_today\<close> the ISO date.
\<close>

record 'p app =
  ap_deployment :: deployment
  ap_policies :: "(string \<times> PolicyPackage) list"
  ap_bridge :: "'p ActionBridge"
  ap_sessions :: "'p session_service"
  ap_audit :: "AuditEntry \<Rightarrow> (string, 'p) op"
  ap_procedures :: "(string \<times> pdict) list"
  ap_rails :: rails_settings
  ap_solver :: solver
  ap_digest :: "string \<Rightarrow> string"
  ap_repr :: "string \<times> string option \<times> string \<times> pdict \<Rightarrow> string"
  ap_today :: "time \<Rightarrow> string"

abbreviation ap_render :: "('p, 'y) app_scheme \<Rightarrow> json \<Rightarrow> string" where
  "ap_render a \<equiv> pt_render (ab_text (ap_bridge a))"

section \<open>Preparing an action\<close>

definition need_permission :: "UserContext \<Rightarrow> Permission \<Rightarrow> exn + unit" where
  "need_permission actor permission =
     (if uc_role actor \<noteq> ADMIN \<and> \<not> has_permission actor permission
      then Inl (AuthorizationError (''Operation requires '' @ permission_value permission)
        (Some (permission_value permission)))
      else Inr ())"

definition require_action_access :: "UserContext \<Rightarrow> string \<Rightarrow> exn + unit" where
  "require_action_access actor action =
     (case dict_get ACTION_PERMISSIONS action of
        None \<Rightarrow> Inl (RequestError (''Unknown consequential action: '' @ action) None [])
      | Some permission \<Rightarrow>
          if uc_role actor = CUSTOMER \<and> action = ''issue_refund'' then Inr ()
          else need_permission actor permission)"

definition action_case_id ::
  "('p, 'y) app_scheme \<Rightarrow> string \<Rightarrow> string \<Rightarrow> string option \<Rightarrow> pdict \<Rightarrow> string" where
  "action_case_id a action customer_id conversation_id arguments =
     (let (material, prefix) =
        (if action = ''issue_refund'' \<and> truthy_get arguments ''order_id''
         then (customer_id @ '':'' @ py_str (ap_render a) (get_or_null arguments ''order_id''), ''REFUND'')
         else (ap_repr a (customer_id, conversation_id, action, arguments),
               take 32 (map upper_char (map (\<lambda>c. if c = CHR ''_'' then CHR ''-'' else c) action)))) in
      ''CASE-'' @ prefix @ ''-'' @ ap_digest a material)"

text \<open>\<open>proposal.model_dump(mode="json")\<close>\<close>

definition opt_text :: "string option \<Rightarrow> json" where
  "opt_text x = (case x of None \<Rightarrow> JNull | Some s \<Rightarrow> JStr s)"

definition opt_int :: "int option \<Rightarrow> json" where
  "opt_int x = (case x of None \<Rightarrow> JNull | Some i \<Rightarrow> JInt i)"

definition proposal_dump :: "ActionProposal \<Rightarrow> pdict" where
  "proposal_dump p =
     [(''proposal_id'', JStr (pr_proposal_id p)), (''action'', JStr (pr_action p)),
      (''payload'', JObj (pr_payload p)), (''case_id'', JStr (pr_case_id p)),
      (''customer_id'', JStr (pr_customer_id p)), (''actor_id'', JStr (pr_actor_id p)),
      (''procedure_id'', JStr (pr_procedure_id p)), (''procedure_version'', JStr (pr_procedure_version p)),
      (''policy_package_id'', JStr (pr_policy_package_id p)), (''idempotency_key'', JStr (pr_idempotency_key p)),
      (''resource_type'', opt_text (pr_resource_type p)), (''resource_id'', opt_text (pr_resource_id p)),
      (''resource_version'', opt_int (pr_resource_version p)),
      (''conversation_id'', opt_text (pr_conversation_id p)), (''message_id'', opt_text (pr_message_id p)),
      (''connector_binding_id'', opt_text (pr_connector_binding_id p)),
      (''connector_binding_version'', opt_text (pr_connector_binding_version p)),
      (''contract_version'', opt_text (pr_contract_version p)), (''preview'', JObj (pr_preview p)),
      (''status'', JStr (proposal_status_value (pr_status p))),
      (''confirmation_evidence_ref'', opt_text (pr_confirmation_evidence_ref p)),
      (''action_id'', opt_text (pr_action_id p)), (''created_at'', JInt (pr_created_at p)),
      (''expires_at'', JInt (pr_expires_at p)), (''updated_at'', JInt (pr_updated_at p)),
      (''confirmed_at'', opt_int (pr_confirmed_at p)), (''cancelled_at'', opt_int (pr_cancelled_at p))]"

definition proposal_view :: "ActionProposal \<Rightarrow> pdict" where
  "proposal_view proposal =
     (let v = proposal_dump proposal;
          preview = get_default v ''preview'' (JObj (pr_preview proposal));
          v' = dict_set (dict_pop v ''preview'') ''safe_preview'' preview in
      dict_set v' ''state'' (get_or_null v' ''status''))"

definition propose_action ::
  "('p, 'y) app_scheme \<Rightarrow> ('p, 'z) resource_provider \<Rightarrow> UserContext \<Rightarrow> string \<Rightarrow> string \<Rightarrow> pdict \<Rightarrow>
   (string \<times> string) option \<Rightarrow> string option \<Rightarrow> string option \<Rightarrow> string option \<Rightarrow> (ActionProposal, 'p, 'z) gop" where
  "propose_action a resources actor customer_id action arguments resource conversation_id message_id requested_procedure =
     bindE (liftE (require_action_access actor action)) (\<lambda>_.
     bindE (liftE (action_policy (ap_policies a) action requested_procedure)) (\<lambda>(procedure_id, policy).
     propose (ap_bridge a) resources
       \<lparr>in_action = action, in_arguments = arguments, in_resource_type = map_option fst resource,
        in_resource_id = map_option snd resource\<rparr>
       \<lparr>ctx_actor_id = uc_user_id actor, ctx_customer_id = customer_id,
        ctx_case_id = action_case_id a action customer_id conversation_id arguments,
        ctx_procedure_id = procedure_id, ctx_procedure_version = pp_version policy,
        ctx_policy_package_id = pp_package_id policy, ctx_conversation_id = conversation_id,
        ctx_message_id = message_id, ctx_connector_binding_id = None, ctx_connector_binding_version = None,
        ctx_contract_version = None\<rparr>))"

section \<open>A turn\<close>

definition open_session :: "('p, 'y) app_scheme \<Rightarrow> TurnContext \<Rightarrow> (pdict, 'p, 'z) gop" where
  "open_session a context =
     bindE (on_provider (ss_get (ap_sessions a) (tc_owner_id context) (tc_conversation_id context))) (\<lambda>found.
     case found of
       Some state \<Rightarrow> returnE state
     | None \<Rightarrow>
         bindE now_op (\<lambda>now.
         on_provider (ss_create (ap_sessions a) (tc_owner_id context) (tc_conversation_id context)
           [(''customer_id'', JStr (tc_customer_id context)), (''actor_id'', JStr (tc_actor_id context)),
            (''actor_role'', JStr (tc_actor_role context)),
            (''actor_permissions'', JList (map JStr (tc_actor_permissions context))),
            (''current_date'', JStr (ap_today a now)), (''channel'', JStr (channel_value (tc_channel context))),
            (''locale'', JStr (tc_locale context)), (''timezone'', JStr (tc_timezone context))])))"

definition add_part :: "string option \<Rightarrow> string list \<Rightarrow> string list" where
  "add_part part parts = (case part of
      None \<Rightarrow> parts
    | Some txt \<Rightarrow> if txt \<noteq> [] \<and> strip_text txt \<noteq> [] \<and> (parts = [] \<or> strip_text txt \<noteq> strip_text (last parts))
        then parts @ [txt] else parts)"

definition response_parts :: "agent_event list \<Rightarrow> string list" where
  "response_parts events =
     fold (\<lambda>event parts. if ae_author event = ''router_agent'' then parts else fold add_part (ae_parts event) parts)
       events []"

definition no_answer :: string where
  "no_answer = ''I'' @ [CHR 39] @ ''m sorry, I wasn'' @ [CHR 39] @ ''t able to process your request. '' @
     ''Could you please rephrase or provide more details?''"

definition response_text :: "agent_event list \<Rightarrow> string" where
  "response_text events =
     (let answer = join [CHR 10, CHR 10] (response_parts events) in
      if strip_text answer = [] then no_answer else answer)"

definition procedure_risk :: "string option \<Rightarrow> RiskLevel" where
  "procedure_risk active_procedure_id =
     (if active_procedure_id = Some ''cs_eft_dispute'' then REGULATED
      else if active_procedure_id \<in> {Some ''cs_refund'', Some ''fraud_alert_triage''} then CONSEQUENTIAL
      else INFORMATIONAL)"

text \<open>\<open>AuthoritativeResourceRef.model_validate(...) if resource_data else None\<close>\<close>

definition intent_resource :: "pdict \<Rightarrow> exn + (string \<times> string) option" where
  "intent_resource raw_intent =
     (if \<not> truthy_get raw_intent ''resource'' then Inr None
      else case get_or_null raw_intent ''resource'' of
        JObj d \<Rightarrow> andThen (field_str d ''resource_type'') (\<lambda>rt. andThen (field_str d ''resource_id'') (\<lambda>ri. Inr (Some (rt, ri))))
      | _ \<Rightarrow> Inl (ValidationError ''AuthoritativeResourceRef''))"

text \<open>\<open>dict(v)\<close> for a dict or a list of pairs; what is no dict with string keys is refused, by \<open>dict\<close>
  itself or by the validation of the intent.\<close>

fun dict_pairs :: "json list \<Rightarrow> exn + pdict" where
  "dict_pairs [] = Inr []"
| "dict_pairs (JList [JStr k, v] # xs) = andThen (dict_pairs xs) (\<lambda>d. Inr ((k, v) # d))"
| "dict_pairs (JStr [k, c] # xs) = andThen (dict_pairs xs) (\<lambda>d. Inr (([k], JStr [c]) # d))"
| "dict_pairs _ = Inl (TypeError ''dict'')"

definition py_dict :: "json \<Rightarrow> exn + pdict" where
  "py_dict v = (case v of
      JObj d \<Rightarrow> Inr d
    | JList xs \<Rightarrow> map_sum id (dict_merge []) (dict_pairs xs)
    | JStr [] \<Rightarrow> Inr []
    | _ \<Rightarrow> Inl (TypeError ''dict''))"

definition intent_failure :: string where
  "intent_failure = [CHR 10, CHR 10] @ ''I could not prepare that action safely. No action was '' @
     ''executed; please verify the requested resource and details.''"

definition prepare_intent ::
  "('p, 'y) app_scheme \<Rightarrow> ('p, 'z) resource_provider \<Rightarrow> UserContext \<Rightarrow> TurnContext \<Rightarrow> string option \<Rightarrow> json \<Rightarrow>
   string \<times> pdict list \<Rightarrow> (string \<times> pdict list, 'p, 'z) gop" where
  "prepare_intent a resources actor context active_procedure_id raw_intent acc =
     (case raw_intent of
        JObj raw \<Rightarrow>
          catchE
            (bindE (liftE (intent_resource raw)) (\<lambda>resource.
             bindE (liftE (dict_require raw ''action'')) (\<lambda>action.
             bindE (liftE (py_dict (get_default raw ''arguments'' (JObj [])))) (\<lambda>arguments.
             bindE (propose_action a resources actor (tc_customer_id context) (py_str (ap_render a) action) arguments
               resource (Some (tc_conversation_id context)) (Some (tc_message_id context)) active_procedure_id) (\<lambda>proposal.
             returnE (fst acc, snd acc @ [proposal_view proposal]))))))
            (\<lambda>_. returnE (fst acc @ intent_failure, snd acc))
      | _ \<Rightarrow> raiseE (OtherError ''AttributeError''))"

text \<open>The session state holds the names of the active procedure and step as texts.\<close>

definition generate_safe_turn ::
  "('p, 'y) app_scheme \<Rightarrow> ('p, 'z) resource_provider \<Rightarrow> TurnContext \<Rightarrow> string \<Rightarrow> (GeneratedTurn, 'p, 'z) gop" where
  "generate_safe_turn a resources context txt =
     bindE (open_session a context) (\<lambda>state0.
     bindE now_op (\<lambda>now.
     let state1 = dict_set (dict_set (dict_set state0 ''customer_id'' (JStr (tc_customer_id context)))
           ''current_date'' (JStr (ap_today a now))) ''channel'' (JStr (channel_value (tc_channel context))) in
     bindE (on_provider (ss_run (ap_sessions a) (tc_owner_id context) (tc_conversation_id context) state1 txt))
       (\<lambda>(events, state).
     let active_procedure_id = text_opt (get_or_null state ''current_procedure'');
         active_step = text_opt (get_or_null state ''current_step'');
         procedure_def = (case active_procedure_id of None \<Rightarrow> None | Some p \<Rightarrow> dict_get (ap_procedures a) p) in
     bindE (steer_response (ap_rails a) (ap_solver a) (ap_render a) (\<lambda>e. on_provider (ap_audit a e))
              (response_text events) state active_procedure_id active_step procedure_def None (Some 2))
       (\<lambda>(response, violations, verification).
     bindE (liftE (role_of_value (tc_actor_role context))) (\<lambda>role.
     let trusted_actor = \<lparr>uc_user_id = tc_actor_id context, uc_role = role,
           uc_permissions = tc_actor_permissions context, uc_token_issued_at = None\<rparr> in
     bindE (foldE (prepare_intent a resources trusted_actor context active_procedure_id) (pending_intents state) (response, []))
       (\<lambda>(final_text, proposal_views).
     returnE \<lparr>gt_text = final_text, gt_risk = procedure_risk active_procedure_id, gt_authoritative_status = None,
       gt_action_proposals = proposal_views\<rparr>))))))"

end
