(* ===== verification/Api.thy ===== *)
theory Api
  imports Turns Workers Providers Connector_Registry Refunds Executor
begin

text \<open>
  The endpoints of \<open>main.py\<close>, in its order, and the routes that lead to them. An endpoint is an
  operation on the world of the core store; what it returns is the value the code turns into JSON.
  The parts of the outside world it calls (speech, telephony, chat, handoff queue, reference data)
  are the fields of \<open>endpoints\<close>, filled with the sandbox adapters or a provider bundle.
\<close>

section \<open>Services\<close>

record 'p endpoints = "'p app" +
  ep_profile :: JurisdictionProfile
  ep_transcribe :: "SttRequest \<Rightarrow> (SttResult, 'p) op"
  ep_synthesize :: "TtsRequest \<Rightarrow> (TtsResult, 'p) op"
  ep_accept_event :: "TelephonyEvent \<Rightarrow> (ProviderReceipt, 'p) op"
  ep_send :: "pdict \<Rightarrow> (ProviderReceipt, 'p) op"
  ep_record_receipt :: "ProviderReceipt \<Rightarrow> (ProviderReceipt, 'p) op"
  ep_list_receipts :: "int \<Rightarrow> (ProviderReceipt list, 'p) op"
  ep_enqueue :: "HandoffRequest \<Rightarrow> (HandoffReceipt, 'p) op"
  ep_order :: "string \<Rightarrow> (row option, 'p) op"
  ep_verify_chain :: "(ChainReport, 'p) op"
  ep_put_resource :: "string \<Rightarrow> string \<Rightarrow> pdict \<Rightarrow> (resource_row, 'p) op"
  ep_set_scenario :: "string \<Rightarrow> SandboxScenario \<Rightarrow> (unit, 'p) op"
  ep_capabilities :: "(string \<times> string) list list option"
  ep_worker :: ActionDeliveryWorker
  ep_reconciliation_delay :: int
  ep_executors :: executor_registry

abbreviation ep_settings :: "('p, 'y) endpoints_scheme \<Rightarrow> Settings" where
  "ep_settings a \<equiv> dp_settings (ap_deployment a)"

abbreviation ep_gateway :: "('p, 'y) endpoints_scheme \<Rightarrow> 'p ActionGateway" where
  "ep_gateway a \<equiv> ab_gateway (ap_bridge a)"

abbreviation ep_mac :: "('p, 'y) endpoints_scheme \<Rightarrow> mac_fun" where
  "ep_mac a \<equiv> gw_mac (ep_gateway a)"

abbreviation ep_signer :: "('p, 'y) endpoints_scheme \<Rightarrow> PolicySigner" where
  "ep_signer a \<equiv> gw_signer (ep_gateway a)"

definition require_upstream_available :: "('p, 'y) endpoints_scheme \<Rightarrow> exn + unit" where
  "require_upstream_available a =
     (if effective_upstream_mode (ep_settings a) = DISABLED
      then Inl (HTTPException 503 (JStr (''No upstream provider adapter is configured. The built-in sandbox '' @
        ''is available only in development.'')))
      else Inr ())"

text \<open>\<open>AuthMiddleware\<close> has put the actor on the request; here it is an argument.\<close>

section \<open>Requests\<close>

definition between :: "nat \<Rightarrow> nat \<Rightarrow> string \<Rightarrow> bool" where
  "between lo hi s \<longleftrightarrow> lo \<le> length s \<and> length s \<le> hi"

definition at_most :: "nat \<Rightarrow> string option \<Rightarrow> bool" where
  "at_most hi s = (case s of None \<Rightarrow> True | Some x \<Rightarrow> length x \<le> hi)"

record ChatRequest =
  cq_message :: string
  cq_session_id :: "string option"
  cq_message_id :: "string option"
  cq_provider_id :: string
  cq_user_id :: string

definition chat_request_valid :: "ChatRequest \<Rightarrow> bool" where
  "chat_request_valid r \<longleftrightarrow> between 1 10000 (cq_message r) \<and> between 1 100 (cq_provider_id r) \<and> between 1 100 (cq_user_id r)"

record ChatResponse =
  cs_response :: string
  cs_session_id :: string
  cs_action_proposals :: "pdict list"

record ActionProposalRequest =
  aq_customer_id :: string
  aq_action :: string
  aq_arguments :: pdict
  aq_resource :: "(string \<times> string) option"
  aq_conversation_id :: "string option"
  aq_message_id :: "string option"

definition proposal_request_valid :: "ActionProposalRequest \<Rightarrow> bool" where
  "proposal_request_valid r \<longleftrightarrow> between 1 100 (aq_customer_id r) \<and> between 1 100 (aq_action r) \<and>
     at_most 300 (aq_conversation_id r) \<and> at_most 300 (aq_message_id r)"

record RefundCommandRequest =
  rfq_customer_id :: string
  rfq_order_id :: string
  rfq_reason :: string
  rfq_consent_evidence_ref :: string

definition refund_request_valid :: "RefundCommandRequest \<Rightarrow> bool" where
  "refund_request_valid r \<longleftrightarrow> between 1 100 (rfq_customer_id r) \<and> between 1 100 (rfq_order_id r) \<and>
     between 3 1000 (rfq_reason r) \<and> between 3 500 (rfq_consent_evidence_ref r)"

record IvrTurnRequest =
  iq_provider_id :: string
  iq_message_id :: string
  iq_conversation_id :: string
  iq_customer_id :: string
  iq_transcript :: string
  iq_asr_confidence :: rat
  iq_interrupted :: bool

definition ivr_request_valid :: "IvrTurnRequest \<Rightarrow> bool" where
  "ivr_request_valid r \<longleftrightarrow> 0 \<le> iq_asr_confidence r \<and> iq_asr_confidence r \<le> 1"

record IvrTurnResponse =
  ir_accepted :: bool
  ir_requires_readback :: bool
  ir_proposed_authority :: FactAuthority

record ConversationTurnRequest =
  vq_provider_id :: string
  vq_message_id :: string
  vq_conversation_id :: string
  vq_customer_id :: string
  vq_channel :: ChannelKind
  vq_text :: string
  vq_locale :: string
  vq_timezone :: string
  vq_sequence :: "int option"
  vq_asr_confidence :: "rat option"
  vq_interrupted :: bool
  vq_consent_snapshot :: pdict
  vq_contains_dtmf_secret :: bool
  vq_secure_dtmf_capture :: bool

definition turn_request_valid :: "ConversationTurnRequest \<Rightarrow> bool" where
  "turn_request_valid r \<longleftrightarrow> between 1 100 (vq_provider_id r) \<and> between 1 300 (vq_message_id r) \<and>
     between 1 300 (vq_conversation_id r) \<and> between 1 100 (vq_customer_id r) \<and> between 1 10000 (vq_text r) \<and>
     (case vq_sequence r of None \<Rightarrow> True | Some n \<Rightarrow> 0 \<le> n) \<and>
     (case vq_asr_confidence r of None \<Rightarrow> True | Some c \<Rightarrow> 0 \<le> c \<and> c \<le> 1)"

record WebSocketTurnFrame =
  wf_provider_id :: string
  wf_message_id :: string
  wf_session_id :: "string option"
  wf_user_id :: string
  wf_message :: string
  wf_sequence :: "int option"
  wf_locale :: string
  wf_timezone :: string
  wf_consent_snapshot :: pdict

record CreateHandoffRequest =
  oq_conversation_id :: string
  oq_case_id :: string
  oq_customer_id :: string
  oq_queue :: string
  oq_priority :: string
  oq_context :: pdict

record PolicyDraftRequest =
  dq_package_id :: string
  dq_procedure_id :: string
  dq_version :: string
  dq_jurisdiction :: string
  dq_rules :: pdict

record ChatDeliveryRequest =
  lq_message_id :: "string option"
  lq_conversation_id :: string
  lq_customer_id :: string
  lq_text :: string
  lq_metadata :: pdict

definition delivery_request_valid :: "ChatDeliveryRequest \<Rightarrow> bool" where
  "delivery_request_valid r \<longleftrightarrow> between 1 10000 (lq_text r)"

section \<open>Turns\<close>

definition direct_provider :: "UserContext \<Rightarrow> string \<Rightarrow> string \<Rightarrow> string" where
  "direct_provider actor requested direct = (if uc_role actor \<in> {ADMIN, INTEGRATION} then requested else direct)"

text \<open>\<open>x or default\<close> for the optional texts of an inbound message.\<close>

definition or_op :: "json \<Rightarrow> (string, 's) op \<Rightarrow> (string, 's) op" where
  "or_op v m = (if json_str v \<noteq> [] then returnE (json_str v) else m)"

text \<open>\<open>sorted(actor.permissions)\<close>, a set.\<close>

definition sorted_permissions :: "UserContext \<Rightarrow> string list" where
  "sorted_permissions actor = sort (remdups (uc_permissions actor))"

definition run_turn ::
  "('p, 'y) endpoints_scheme \<Rightarrow> ('p, 'z) resource_provider \<Rightarrow> UserContext \<Rightarrow> string \<Rightarrow> MessageEnvelope \<Rightarrow>
   (TurnResult, 'p, 'z) gop" where
  "run_turn a resources actor customer_id envelope =
     process_turn (generate_safe_turn a resources) envelope (uc_user_id actor) (role_value (uc_role actor))
       (sorted_permissions actor) (session_owner_id (uc_user_id actor) customer_id)"

definition api_chat ::
  "('p, 'y) endpoints_scheme \<Rightarrow> ('p, 'z) resource_provider \<Rightarrow> UserContext \<Rightarrow> ChatRequest \<Rightarrow> (ChatResponse, 'p, 'z) gop" where
  "api_chat a resources actor request =
     bindE (channel_receive HTTP_REST
       [(''message'', JStr (cq_message request)), (''user_id'', JStr (cq_user_id request)),
        (''session_id'', opt_text (cq_session_id request)), (''message_id'', opt_text (cq_message_id request))]) (\<lambda>inbound.
     bindE (liftE (resolve_customer_context actor (json_str (ib_user_id inbound)))) (\<lambda>customer.
     bindE (or_op (ib_session_id inbound) uuid_op) (\<lambda>session_id.
     bindE initialize (\<lambda>_.
     bindE (or_op (ib_channel_message_id inbound) (bindE uuid_op (\<lambda>u. returnE (''local:'' @ u)))) (\<lambda>message_id.
     bindE uuid_op (\<lambda>correlation_id.
     bindE (run_turn a resources actor (cc_customer_id customer)
       \<lparr>me_provider_id = direct_provider actor (cq_provider_id request) ''direct-api'', me_message_id = message_id,
        me_conversation_id = session_id, me_customer_id = cc_customer_id customer, me_channel = CHAT,
        me_text = json_str (ib_text inbound), me_locale = ''en-US'', me_timezone = ''America/Chicago'',
        me_sequence = None, me_correlation_id = correlation_id, me_causation_id = None,
        me_consent_snapshot = [], me_capabilities = []\<rparr>) (\<lambda>result.
     returnE (if tr_duplicate result
       then \<lparr>cs_response = ''This message was already received.'', cs_session_id = session_id, cs_action_proposals = []\<rparr>
       else \<lparr>cs_response = (case tr_response result of None \<Rightarrow> [] | Some t \<Rightarrow> t), cs_session_id = session_id,
             cs_action_proposals = tr_action_proposals result\<rparr>))))))))"

definition api_ivr_turn ::
  "('p, 'y) endpoints_scheme \<Rightarrow> UserContext \<Rightarrow> IvrTurnRequest \<Rightarrow> (IvrTurnResponse, 'p, 'z) gop" where
  "api_ivr_turn a actor request =
     bindE (liftE (resolve_customer_context actor (iq_customer_id request))) (\<lambda>customer.
     bindE (liftE (ivr_normalize (9 / 10) (iq_message_id request) (iq_conversation_id request) (cc_customer_id customer)
       (iq_transcript request) (iq_asr_confidence request) (iq_interrupted request))) (\<lambda>turn.
     bindE initialize (\<lambda>_.
     bindE uuid_op (\<lambda>correlation_id.
     bindE (runtime_accept
       \<lparr>me_provider_id = iq_provider_id request, me_message_id = ivr_provider_message_id turn,
        me_conversation_id = ivr_conversation_id turn, me_customer_id = ivr_customer_id turn, me_channel = IVR,
        me_text = ivr_transcript turn, me_locale = ''en-US'', me_timezone = ''America/Chicago'', me_sequence = None,
        me_correlation_id = correlation_id, me_causation_id = None, me_consent_snapshot = [],
        me_capabilities = [(''asr_confidence'', JFloat (ivr_asr_confidence turn)),
          (''interrupted'', JBool (ivr_interrupted turn))]\<rparr>) (\<lambda>accepted.
     returnE \<lparr>ir_accepted = accepted, ir_requires_readback = ivr_requires_readback turn,
       ir_proposed_authority = ivr_proposed_authority turn\<rparr>)))))"

definition turn_capabilities :: "ConversationTurnRequest \<Rightarrow> string \<Rightarrow> exn + pdict" where
  "turn_capabilities request customer_id =
     (if vq_channel request \<noteq> IVR then Inr []
      else case vq_asr_confidence request of
        None \<Rightarrow> Inl (RequestError ''IVR turns require asr_confidence'' None [])
      | Some confidence \<Rightarrow>
          andThen (ivr_normalize (9 / 10) (vq_message_id request) (vq_conversation_id request) customer_id
            (vq_text request) confidence (vq_interrupted request)) (\<lambda>normalized.
          Inr [(''asr_confidence'', JFloat (ivr_asr_confidence normalized)),
               (''interrupted'', JBool (ivr_interrupted normalized)),
               (''requires_readback'', JBool (ivr_requires_readback normalized))]))"

definition jurisdiction_check :: "('p, 'y) endpoints_scheme \<Rightarrow> ConversationTurnRequest \<Rightarrow> exn + unit" where
  "jurisdiction_check a request =
     (let decision = evaluate_inbound (ep_profile a) (effective_jurisdiction_enforcement (ep_settings a))
            (vq_channel request) (vq_consent_snapshot request) (vq_contains_dtmf_secret request)
            (vq_secure_dtmf_capture request) in
      if \<not> jd_allowed decision
      then Inl (HTTPException 409 (JObj [(''code'', JStr ''JURISDICTION_CONTROL_BLOCKED''),
             (''blocks'', JList (map JStr (jd_blocks decision))), (''profile_id'', JStr (jd_profile_id decision))]))
      else Inr ())"

definition api_conversation_turn ::
  "('p, 'y) endpoints_scheme \<Rightarrow> ('p, 'z) resource_provider \<Rightarrow> UserContext \<Rightarrow> ConversationTurnRequest \<Rightarrow>
   (TurnResult, 'p, 'z) gop" where
  "api_conversation_turn a resources actor request =
     bindE (liftE (resolve_customer_context actor (vq_customer_id request))) (\<lambda>customer.
     bindE (liftE (if uc_role actor = INTEGRATION then need_permission actor CHANNEL_INGEST else Inr ())) (\<lambda>_.
     bindE (liftE (jurisdiction_check a request)) (\<lambda>_.
     bindE (liftE (turn_capabilities request (cc_customer_id customer))) (\<lambda>capabilities.
     bindE initialize (\<lambda>_.
     bindE uuid_op (\<lambda>correlation_id.
     run_turn a resources actor (cc_customer_id customer)
       \<lparr>me_provider_id = direct_provider actor (vq_provider_id request) ''direct-api'',
        me_message_id = vq_message_id request, me_conversation_id = vq_conversation_id request,
        me_customer_id = cc_customer_id customer, me_channel = vq_channel request, me_text = vq_text request,
        me_locale = vq_locale request, me_timezone = vq_timezone request, me_sequence = vq_sequence request,
        me_correlation_id = correlation_id, me_causation_id = None,
        me_consent_snapshot = vq_consent_snapshot request, me_capabilities = capabilities\<rparr>))))))"

section \<open>Actions\<close>

definition refund_snapshot :: "(json \<Rightarrow> string) \<Rightarrow> row \<Rightarrow> exn + OrderSnapshot" where
  "refund_snapshot render order =
     andThen (field_str order ''order_id'') (\<lambda>order_id.
     andThen (field_str order ''customer_id'') (\<lambda>customer_id.
     andThen (field_str order ''status'') (\<lambda>status.
     andThen (order_days order) (\<lambda>days.
     andThen (order_total order) (\<lambda>amount.
     Inr \<lparr>os_order_id = order_id, os_customer_id = customer_id, os_status = status, os_days_since_delivery = days,
       os_amount = amount, os_payment_method = (case cell order ''payment_method'' of
          JStr (c # cs) \<Rightarrow> c # cs | _ \<Rightarrow> ''original_payment_method''),
       os_evidence_ref = ''orders-db:'' @ order_id @ '':'' @ py_str render (cell order ''order_date'')\<rparr>)))))"

definition api_refund_command ::
  "('p, 'y) endpoints_scheme \<Rightarrow> UserContext \<Rightarrow> RefundCommandRequest \<Rightarrow> (ActionRecord, 'p, 'z) gop" where
  "api_refund_command a actor request =
     bindE (liftE (resolve_customer_context actor (rfq_customer_id request))) (\<lambda>customer.
     bindE (liftE (require_upstream_available a)) (\<lambda>_.
     bindE (raise_if (uc_role actor \<noteq> CUSTOMER \<and> \<not> has_permission actor REFUND_WRITE)
       (AuthorizationError ''Refund command requires refund write permission''
          (Some (permission_value REFUND_WRITE)))) (\<lambda>_.
     bindE (on_provider (ep_order a (rfq_order_id request))) (\<lambda>found.
     case found of
       None \<Rightarrow> raiseE (NotFoundError ''Order'' (rfq_order_id request))
     | Some order \<Rightarrow>
         bindE (raise_if (cell order ''customer_id'' \<noteq> JStr (cc_customer_id customer))
           (NotFoundError ''Order'' (rfq_order_id request))) (\<lambda>_.
         bindE initialize (\<lambda>_.
         bindE (liftE (dict_at (ap_policies a) ''cs_refund'')) (\<lambda>policy.
         bindE (liftE (refund_snapshot (ap_render a) order)) (\<lambda>snapshot.
         process_refund (ep_gateway a) (ap_render a) 30
           (''CASE-REFUND-'' @ ap_digest a (cc_customer_id customer @ '':'' @ rfq_order_id request))
           (cc_customer_id customer) (uc_user_id actor) (pp_package_id policy) ''1.0.0'' snapshot
           (rfq_reason request) (Some (rfq_consent_evidence_ref request))))))))))"

record catalog_item =
  ci_name :: string
  ci_required_parameters :: "string list"
  ci_authoritative_parameters :: "string list"
  ci_requires_consent :: bool
  ci_requires_approval :: bool
  ci_permission :: string
  ci_available :: bool
  ci_binding :: "(string \<times> string) list option"

definition binding_of :: "(string \<times> string) list list \<Rightarrow> string \<Rightarrow> (string \<times> string) list option" where
  "binding_of items name = List.find (\<lambda>i. dict_get i ''action_name'' = Some name) (rev items)"

definition catalog_item_of ::
  "(string \<times> string) list list option \<Rightarrow> ActionSpecification \<Rightarrow> Permission \<Rightarrow> catalog_item" where
  "catalog_item_of connectors sp permission =
     \<lparr>ci_name = spec_name sp, ci_required_parameters = sort (required_parameters sp),
      ci_authoritative_parameters = sort (authoritative_parameters sp), ci_requires_consent = requires_consent sp,
      ci_requires_approval = requires_approval sp, ci_permission = permission_value permission,
      ci_available = (case connectors of None \<Rightarrow> True | Some items \<Rightarrow> binding_of items (spec_name sp) \<noteq> None),
      ci_binding = (case connectors of None \<Rightarrow> None | Some items \<Rightarrow> binding_of items (spec_name sp))\<rparr>"

fun catalog_for :: "(string \<times> string) list list option \<Rightarrow> UserContext \<Rightarrow> (string \<times> ActionSpecification) list \<Rightarrow> exn + catalog_item list" where
  "catalog_for connectors actor [] = Inr []"
| "catalog_for connectors actor ((name, sp) # rest) =
     andThen (dict_at ACTION_PERMISSIONS name) (\<lambda>permission.
     andThen (catalog_for connectors actor rest) (\<lambda>items.
     Inr (if uc_role actor \<noteq> ADMIN \<and> \<not> (has_permission actor permission \<or> uc_role actor = CUSTOMER \<and> name = ''issue_refund'')
       then items else catalog_item_of connectors sp permission # items)))"

definition api_action_catalog :: "('p, 'y) endpoints_scheme \<Rightarrow> UserContext \<Rightarrow> exn + catalog_item list" where
  "api_action_catalog a actor = catalog_for (ep_capabilities a) actor ACTION_SPECIFICATIONS"

definition api_create_proposal ::
  "('p, 'y) endpoints_scheme \<Rightarrow> ('p, 'z) resource_provider \<Rightarrow> UserContext \<Rightarrow> ActionProposalRequest \<Rightarrow> (pdict, 'p, 'z) gop" where
  "api_create_proposal a resources actor request =
     bindE (liftE (resolve_customer_context actor (aq_customer_id request))) (\<lambda>customer.
     bindE (liftE (require_upstream_available a)) (\<lambda>_.
     bindE initialize (\<lambda>_.
     bindE (propose_action a resources actor (cc_customer_id customer) (aq_action request) (aq_arguments request)
       (aq_resource request) (aq_conversation_id request) (aq_message_id request) None) (\<lambda>proposal.
     returnE (proposal_view proposal)))))"

definition api_list_proposals :: "UserContext \<Rightarrow> string option \<Rightarrow> (pdict list, 'p, 'z) gop" where
  "api_list_proposals actor conversation_id =
     bindE initialize (\<lambda>_.
     bindE (list_action_proposals None conversation_id None 100) (\<lambda>proposals.
     returnE (map proposal_view (filter (\<lambda>p. pr_actor_id p = uc_user_id actor) proposals))))"

definition owned_proposal :: "string \<Rightarrow> UserContext \<Rightarrow> (ActionProposal, 'p, 'z) gop" where
  "owned_proposal proposal_id actor =
     bindE (get_action_proposal proposal_id) (\<lambda>found.
     case found of
       None \<Rightarrow> raiseE (NotFoundError ''ActionProposal'' proposal_id)
     | Some proposal \<Rightarrow>
         bindE (liftE (resolve_customer_context actor (pr_customer_id proposal))) (\<lambda>_.
         bindE (raise_if (pr_actor_id proposal \<noteq> uc_user_id actor)
           (AuthorizationError ''Action proposal belongs to a different actor'' None)) (\<lambda>_.
         returnE proposal)))"

definition api_get_proposal :: "UserContext \<Rightarrow> string \<Rightarrow> (pdict, 'p, 'z) gop" where
  "api_get_proposal actor proposal_id =
     bindE initialize (\<lambda>_.
     bindE (owned_proposal proposal_id actor) (\<lambda>proposal.
     bindE (bridge_status (pr_proposal_id proposal) (pr_customer_id proposal) (Some (uc_user_id actor))) (\<lambda>current.
     returnE (proposal_view current))))"

text \<open>The proposal as shown, with the record of its action when there is one.\<close>

definition api_confirm_proposal ::
  "('p, 'y) endpoints_scheme \<Rightarrow> ('p, 'z) resource_provider \<Rightarrow> UserContext \<Rightarrow> string \<Rightarrow>
   (pdict \<times> ActionRecord option, 'p, 'z) gop" where
  "api_confirm_proposal a resources actor proposal_id =
     bindE (liftE (require_upstream_available a)) (\<lambda>_.
     bindE initialize (\<lambda>_.
     bindE (owned_proposal proposal_id actor) (\<lambda>proposal.
     bindE (liftE (require_action_access actor (pr_action proposal))) (\<lambda>_.
     bindE uuid_op (\<lambda>u.
     let evidence = ''host-confirmation:'' @ proposal_id @ '':'' @ u in
     bindE (confirm (ap_bridge a) resources proposal_id
       \<lparr>cf_actor_id = uc_user_id actor, cf_customer_id = pr_customer_id proposal,
        cf_consent_evidence_ref = Some evidence, cf_approval_evidence_ref = Some evidence\<rparr>) (\<lambda>confirmed.
     bindE (if truthy_str (pr_action_id confirmed) then get_action (the (pr_action_id confirmed)) else returnE None) (\<lambda>record.
     returnE (proposal_view confirmed, record))))))))"

definition api_cancel_proposal :: "UserContext \<Rightarrow> string \<Rightarrow> (pdict, 'p, 'z) gop" where
  "api_cancel_proposal actor proposal_id =
     bindE initialize (\<lambda>_.
     bindE (owned_proposal proposal_id actor) (\<lambda>proposal.
     bindE (cancel proposal_id \<lparr>cf_actor_id = uc_user_id actor, cf_customer_id = pr_customer_id proposal,
       cf_consent_evidence_ref = None, cf_approval_evidence_ref = None\<rparr>) (\<lambda>cancelled.
     returnE (proposal_view cancelled))))"

definition api_action_status :: "UserContext \<Rightarrow> string \<Rightarrow> (ActionRecord \<times> event_row list, 'p, 'z) gop" where
  "api_action_status actor action_id =
     bindE initialize (\<lambda>_.
     bindE (get_action action_id) (\<lambda>found.
     case found of
       None \<Rightarrow> raiseE (NotFoundError ''Action'' action_id)
     | Some action \<Rightarrow>
         bindE (get_case (cmd_case_id (ar_command action))) (\<lambda>found_case.
         case found_case of
           None \<Rightarrow> raiseE (NotFoundError ''Case'' (cmd_case_id (ar_command action)))
         | Some c \<Rightarrow>
             bindE (liftE (resolve_customer_context actor (cr_customer_id c))) (\<lambda>_.
             bindE (raise_if (cmd_actor_id (ar_command action) \<noteq> uc_user_id actor)
               (AuthorizationError ''Action belongs to a different actor'' None)) (\<lambda>_.
             bindE (list_action_events action_id) (\<lambda>events.
             returnE (action, events)))))))"

definition api_submit_action ::
  "('p, 'y) endpoints_scheme \<Rightarrow> ('p, 'z) resource_provider \<Rightarrow> UserContext \<Rightarrow> ConsequentialActionRequest \<Rightarrow>
   (ActionRecord, 'p, 'z) gop" where
  "api_submit_action a resources actor request =
     bindE (liftE (resolve_customer_context actor (rq_customer_id request))) (\<lambda>customer.
     bindE (liftE (dict_at ACTION_PERMISSIONS (payload_name (rq_payload request)))) (\<lambda>permission.
     bindE (liftE (need_permission actor permission)) (\<lambda>_.
     bindE (liftE (require_upstream_available a)) (\<lambda>_.
     bindE (raise_if (cc_customer_id customer \<noteq> rq_customer_id request)
       (AuthorizationError ''Action customer binding mismatch'' None)) (\<lambda>_.
     bindE initialize (\<lambda>_.
     submit (ep_gateway a) resources (ap_render a) request (uc_user_id actor)))))))"

section \<open>Integrations and handoffs\<close>

text \<open>The endpoints that check a permission and that an upstream exists, then call one adapter.\<close>

definition guarded_call ::
  "('p, 'y) endpoints_scheme \<Rightarrow> UserContext \<Rightarrow> Permission \<Rightarrow> ('a, 'p) op \<Rightarrow> ('a, 'p, 'z) gop" where
  "guarded_call a actor permission m =
     bindE (liftE (need_permission actor permission)) (\<lambda>_.
     bindE (liftE (require_upstream_available a)) (\<lambda>_.
     on_provider m))"

definition api_transcribe :: "('p, 'y) endpoints_scheme \<Rightarrow> UserContext \<Rightarrow> SttRequest \<Rightarrow> (SttResult, 'p, 'z) gop" where
  "api_transcribe a actor request = guarded_call a actor CHANNEL_INGEST (ep_transcribe a request)"

definition api_synthesize :: "('p, 'y) endpoints_scheme \<Rightarrow> UserContext \<Rightarrow> TtsRequest \<Rightarrow> (TtsResult, 'p, 'z) gop" where
  "api_synthesize a actor request = guarded_call a actor CHANNEL_DELIVERY (ep_synthesize a request)"

definition api_telephony_event ::
  "('p, 'y) endpoints_scheme \<Rightarrow> UserContext \<Rightarrow> TelephonyEvent \<Rightarrow> (ProviderReceipt, 'p, 'z) gop" where
  "api_telephony_event a actor event = guarded_call a actor CHANNEL_INGEST (ep_accept_event a event)"

definition delivery_dump :: "ChatDeliveryRequest \<Rightarrow> pdict" where
  "delivery_dump r = [(''message_id'', opt_text (lq_message_id r)), (''conversation_id'', JStr (lq_conversation_id r)),
     (''customer_id'', JStr (lq_customer_id r)), (''text'', JStr (lq_text r)), (''metadata'', JObj (lq_metadata r))]"

definition api_deliver_chat ::
  "('p, 'y) endpoints_scheme \<Rightarrow> UserContext \<Rightarrow> ChatDeliveryRequest \<Rightarrow> (ProviderReceipt, 'p, 'z) gop" where
  "api_deliver_chat a actor request =
     bindE (liftE (resolve_customer_context actor (lq_customer_id request))) (\<lambda>customer.
     guarded_call a actor CHANNEL_DELIVERY
       (ep_send a (dict_set (delivery_dump request) ''customer_id'' (JStr (cc_customer_id customer)))))"

definition api_chat_receipt ::
  "('p, 'y) endpoints_scheme \<Rightarrow> UserContext \<Rightarrow> ProviderReceipt \<Rightarrow> (ProviderReceipt, 'p, 'z) gop" where
  "api_chat_receipt a actor receipt = guarded_call a actor PROVIDER_CALLBACK (ep_record_receipt a receipt)"

definition api_create_handoff ::
  "('p, 'y) endpoints_scheme \<Rightarrow> UserContext \<Rightarrow> CreateHandoffRequest \<Rightarrow> (handoff_row \<times> HandoffReceipt, 'p, 'z) gop" where
  "api_create_handoff a actor request =
     bindE (liftE (resolve_customer_context actor (oq_customer_id request))) (\<lambda>customer.
     bindE (liftE (need_permission actor ESCALATION_CREATE)) (\<lambda>_.
     bindE (liftE (require_upstream_available a)) (\<lambda>_.
     bindE (get_case (oq_case_id request)) (\<lambda>found.
     case found of
       None \<Rightarrow> raiseE (NotFoundError ''Core case'' (oq_case_id request))
     | Some c \<Rightarrow>
         bindE (raise_if (cr_customer_id c \<noteq> cc_customer_id customer)
           (AuthorizationError ''Handoff case does not belong to the serviced customer'' None)) (\<lambda>_.
         bindE (request_handoff (oq_conversation_id request) (oq_case_id request)
           (dict_set (oq_context request) ''customer_id'' (JStr (cc_customer_id customer)))) (\<lambda>record.
         bindE (on_provider (ep_enqueue a
           \<lparr>hr_handoff_id = ho_handoff_id record, hr_conversation_id = ho_conversation_id record,
            hr_case_id = ho_case_id record, hr_queue = oq_queue request, hr_priority = oq_priority request,
            hr_context = ho_context record\<rparr>)) (\<lambda>receipt.
         bindE (transition_handoff (ho_handoff_id record) H_QUEUED None) (\<lambda>queued.
         returnE (queued, receipt)))))))))"

definition api_get_handoff :: "UserContext \<Rightarrow> string \<Rightarrow> (handoff_row, 'p, 'z) gop" where
  "api_get_handoff actor handoff_id =
     bindE (liftE (need_permission actor CASE_READ)) (\<lambda>_.
     bindE (get_handoff handoff_id) (\<lambda>found.
     case found of None \<Rightarrow> raiseE (NotFoundError ''Handoff'' handoff_id) | Some record \<Rightarrow> returnE record))"

definition api_handoff_callback ::
  "('p, 'y) endpoints_scheme \<Rightarrow> UserContext \<Rightarrow> string \<Rightarrow> HandoffStatus \<Rightarrow> string option \<Rightarrow> (handoff_row, 'p, 'z) gop" where
  "api_handoff_callback a actor handoff_id status assigned_agent_id =
     bindE (liftE (need_permission actor PROVIDER_CALLBACK)) (\<lambda>_.
     bindE (liftE (require_upstream_available a)) (\<lambda>_.
     transition_handoff handoff_id status assigned_agent_id))"

section \<open>Policy governance\<close>

definition api_list_policies :: "UserContext \<Rightarrow> (PolicyPackage list, 'p, 'z) gop" where
  "api_list_policies actor =
     bindE (liftE (need_permission actor ADMIN_READ)) (\<lambda>_. repo_list None)"

definition api_policy_draft :: "UserContext \<Rightarrow> PolicyDraftRequest \<Rightarrow> (PolicyPackage, 'p, 'z) gop" where
  "api_policy_draft actor request =
     bindE (liftE (need_permission actor ADMIN_WRITE)) (\<lambda>_.
     create_draft
       \<lparr>pp_package_id = dq_package_id request, pp_procedure_id = dq_procedure_id request,
        pp_version = dq_version request, pp_jurisdiction = dq_jurisdiction request, pp_author = uc_user_id actor,
        pp_rules = dq_rules request, pp_lifecycle = DRAFT, pp_approver = None, pp_signing_key_id = None,
        pp_activation_signature = None, pp_signature = None\<rparr>)"

definition api_approve_policy ::
  "('p, 'y) endpoints_scheme \<Rightarrow> UserContext \<Rightarrow> string \<Rightarrow> (PolicyPackage, 'p, 'z) gop" where
  "api_approve_policy a actor package_id =
     bindE (liftE (need_permission actor ADMIN_WRITE)) (\<lambda>_.
     policy_approve (ep_mac a) (ep_signer a) package_id (uc_user_id actor))"

definition api_activate_policy ::
  "('p, 'y) endpoints_scheme \<Rightarrow> UserContext \<Rightarrow> string \<Rightarrow> (PolicyPackage, 'p, 'z) gop" where
  "api_activate_policy a actor package_id =
     bindE (liftE (need_permission actor ADMIN_WRITE)) (\<lambda>_.
     policy_activate (ep_mac a) (ep_signer a) package_id)"

definition api_retire_policy ::
  "('p, 'y) endpoints_scheme \<Rightarrow> UserContext \<Rightarrow> string \<Rightarrow> (PolicyPackage, 'p, 'z) gop" where
  "api_retire_policy a actor package_id =
     bindE (liftE (need_permission actor ADMIN_WRITE)) (\<lambda>_.
     policy_retire (ep_mac a) (ep_signer a) package_id)"

end
