(* ===== verification/Api_Routes.thy ===== *)
theory Api_Routes
  imports Api
begin

text \<open>
  The remaining endpoints of \<open>main.py\<close> (operations, development, sessions, data browser, metrics), the
  WebSocket conversation, the tools of the MCP server (\<open>mcp/server.py\<close>), the table of routes that take
  an authenticated actor, and the status a raised error is answered with.
\<close>

section \<open>Operations\<close>

definition api_list_actions :: "UserContext \<Rightarrow> ActionStatus option \<Rightarrow> int \<Rightarrow> (ActionRecord list, 'p, 'z) gop" where
  "api_list_actions actor status limit =
     bindE (liftE (need_permission actor ADMIN_READ)) (\<lambda>_. list_actions status (min limit 1000))"

definition api_list_outbox :: "UserContext \<Rightarrow> OutboxStatus option \<Rightarrow> int \<Rightarrow> (OutboxRecord list, 'p, 'z) gop" where
  "api_list_outbox actor status limit =
     bindE (liftE (need_permission actor ADMIN_READ)) (\<lambda>_. list_outbox status (min limit 1000))"

definition api_action_events :: "UserContext \<Rightarrow> string \<Rightarrow> (event_row list, 'p, 'z) gop" where
  "api_action_events actor action_id =
     bindE (liftE (need_permission actor ADMIN_READ)) (\<lambda>_.
     bindE (get_action action_id) (\<lambda>action.
     if action = None then raiseE (NotFoundError ''Action'' action_id) else list_action_events action_id))"

definition api_quarantine :: "UserContext \<Rightarrow> int \<Rightarrow> (inbox_row list, 'p, 'z) gop" where
  "api_quarantine actor limit =
     bindE (liftE (need_permission actor ADMIN_READ)) (\<lambda>_. list_quarantined_messages (min limit 1000))"

definition api_delivery_receipts ::
  "('p, 'y) endpoints_scheme \<Rightarrow> UserContext \<Rightarrow> int \<Rightarrow> (ProviderReceipt list, 'p, 'z) gop" where
  "api_delivery_receipts a actor limit =
     bindE (liftE (need_permission actor ADMIN_READ)) (\<lambda>_. on_provider (ep_list_receipts a (min limit 1000)))"

definition api_audit_integrity :: "('p, 'y) endpoints_scheme \<Rightarrow> UserContext \<Rightarrow> (ChainReport, 'p, 'z) gop" where
  "api_audit_integrity a actor =
     bindE (liftE (need_permission actor ADMIN_READ)) (\<lambda>_. on_provider (ep_verify_chain a))"

definition api_run_deliveries :: "('p, 'y) endpoints_scheme \<Rightarrow> UserContext \<Rightarrow> (WorkerRun, 'p, 'z) gop" where
  "api_run_deliveries a actor =
     bindE (liftE (need_permission actor ADMIN_WRITE)) (\<lambda>_. delivery_run_once (ep_gateway a) (ep_worker a) 10)"

definition api_run_reconciliation :: "('p, 'y) endpoints_scheme \<Rightarrow> UserContext \<Rightarrow> (WorkerRun, 'p, 'z) gop" where
  "api_run_reconciliation a actor =
     bindE (liftE (need_permission actor ADMIN_WRITE)) (\<lambda>_.
     reconciliation_run_once (ep_gateway a) (ep_reconciliation_delay a) 100)"

text \<open>The two endpoints that exist in development only.\<close>

definition api_put_resource ::
  "('p, 'y) endpoints_scheme \<Rightarrow> UserContext \<Rightarrow> string \<Rightarrow> string \<Rightarrow> pdict \<Rightarrow> (resource_row, 'p, 'z) gop" where
  "api_put_resource a actor resource_type resource_id payload =
     bindE (liftE (need_permission actor ADMIN_WRITE)) (\<lambda>_.
     on_provider (ep_put_resource a resource_type resource_id payload))"

definition api_put_scenario ::
  "('p, 'y) endpoints_scheme \<Rightarrow> UserContext \<Rightarrow> string \<Rightarrow> SandboxScenario \<Rightarrow> (unit, 'p, 'z) gop" where
  "api_put_scenario a actor idempotency_key scenario =
     bindE (liftE (need_permission actor ADMIN_WRITE)) (\<lambda>_.
     on_provider (ep_set_scenario a idempotency_key scenario))"

definition count_status :: "('r \<Rightarrow> 's) \<Rightarrow> ('s \<Rightarrow> string) \<Rightarrow> 's list \<Rightarrow> 'r list \<Rightarrow> json" where
  "count_status status value statuses rows =
     JObj (map (\<lambda>st. (value st, JInt (int (length (filter (\<lambda>r. status r = st) rows))))) statuses)"

fun outbox_status_value :: "OutboxStatus \<Rightarrow> string" where
  "outbox_status_value O_PENDING = ''pending''"
| "outbox_status_value O_LEASED = ''leased''"
| "outbox_status_value O_DELIVERED = ''delivered''"
| "outbox_status_value O_FAILED = ''failed''"
| "outbox_status_value O_QUARANTINED = ''quarantined''"

fun environment_value :: "Environment \<Rightarrow> string" where
  "environment_value DEV = ''dev''"
| "environment_value STAGING = ''staging''"
| "environment_value PRODUCTION = ''production''"

fun upstream_value :: "UpstreamMode \<Rightarrow> string" where
  "upstream_value DISABLED = ''disabled''"
| "upstream_value SANDBOX = ''sandbox''"
| "upstream_value PROVIDER = ''provider''"

definition api_metrics :: "('p, 'y) endpoints_scheme \<Rightarrow> UserContext \<Rightarrow> (pdict, 'p, 'z) gop" where
  "api_metrics a actor =
     bindE (liftE (need_permission actor ADMIN_READ)) (\<lambda>_.
     bindE initialize (\<lambda>_.
     bindE (list_actions None 1000) (\<lambda>actions.
     bindE (list_outbox None 1000) (\<lambda>outbox.
     bindE (repo_list (Some ACTIVE)) (\<lambda>active.
     returnE [(''procedures_loaded'', JInt (int (length (ap_procedures a)))),
       (''active_procedures'', JInt (int (length (list_active (ep_executors a))))),
       (''auth_enabled'', JBool (auth_enabled (ep_settings a))),
       (''rate_limit_enabled'', JBool (rate_limit_enabled (ep_settings a))),
       (''environment'', JStr (environment_value (environment (ep_settings a)))),
       (''upstream_mode'', JStr (upstream_value (effective_upstream_mode (ep_settings a)))),
       (''jurisdiction_profile'', JStr (jp_profile_id (ep_profile a))),
       (''actions'', count_status ar_status action_status_value
          [REQUESTED, AUTHORIZED, DISPATCHED, SUCCEEDED, FAILED, UNKNOWN, RECONCILED] actions),
       (''outbox'', count_status ob_status outbox_status_value 
          [O_PENDING, O_LEASED, O_DELIVERED, O_FAILED, O_QUARANTINED] outbox),
       (''active_policy_packages'', JInt (int (length active)))])))))"

section \<open>Sessions, procedures and data\<close>

definition WORKFLOW_STATE_KEYS :: "string list" where
  "WORKFLOW_STATE_KEYS = [''current_procedure'', ''current_procedure_name'', ''current_step'', ''steps_completed'',
     ''workflow_status'', ''workflow_started_at'', ''workflow_resolution'', ''workflow_completed_at'',
     ''escalation_reason'', ''escalated_at'']"

definition api_session_state ::
  "('p, 'y) endpoints_scheme \<Rightarrow> UserContext \<Rightarrow> string \<Rightarrow> string \<Rightarrow> (string \<times> pdict, 'p, 'z) gop" where
  "api_session_state a actor session_id user_id =
     bindE (liftE (resolve_customer_context actor user_id)) (\<lambda>customer.
     bindE (on_provider (ss_get (ap_sessions a) (session_owner_id (uc_user_id actor) (cc_customer_id customer)) session_id)) (\<lambda>session.
     case session of
       None \<Rightarrow> raiseE (NotFoundError ''Session'' session_id)
     | Some state \<Rightarrow> returnE (session_id, filter (\<lambda>(k, _). k \<in> set WORKFLOW_STATE_KEYS) state)))"

definition api_sessions ::
  "('p, 'y) endpoints_scheme \<Rightarrow> UserContext \<Rightarrow> string \<Rightarrow> (pdict list, 'p, 'z) gop" where
  "api_sessions a actor user_id =
     bindE (liftE (resolve_customer_context actor user_id)) (\<lambda>customer.
     bindE (on_provider (ss_list (ap_sessions a) (session_owner_id (uc_user_id actor) (cc_customer_id customer)))) (\<lambda>sessions.
     returnE (map (\<lambda>(sid, state). [(''session_id'', JStr sid),
       (''procedure'', get_default state ''current_procedure_name'' (JStr [])),
       (''status'', get_default state ''workflow_status'' (JStr []))]) sessions)))"

definition api_procedures :: "('p, 'y) endpoints_scheme \<Rightarrow> pdict list" where
  "api_procedures a = map (\<lambda>(proc_id, proc). [(''id'', JStr proc_id), (''name'', get_default proc ''name'' (JStr [])),
     (''description'', get_default proc ''description'' (JStr [])),
     (''trigger_intents'', get_default proc ''trigger_intents'' (JList [])),
     (''version'', get_or_null proc ''version'')]) (ap_procedures a)"

definition api_session_procedure :: "('p, 'y) endpoints_scheme \<Rightarrow> string \<Rightarrow> pdict" where
  "api_session_procedure a session_id =
     (case dict_get (ep_executors a) session_id of
        None \<Rightarrow> [(''session_id'', JStr session_id), (''procedure'', JNull),
          (''message'', JStr ''No active procedure for this session.'')]
      | Some ex \<Rightarrow> [(''session_id'', JStr session_id), (''procedure'', JObj (get_progress ex)),
          (''step_history'', JList (map JObj (get_step_history ex)))])"

text \<open>\<open>LIMIT ? OFFSET ?\<close>: a negative offset is none.\<close>

definition sql_page :: "int \<Rightarrow> int \<Rightarrow> 'a list \<Rightarrow> 'a list" where
  "sql_page limit offset xs = sql_limit limit (drop (nat offset) xs)"

definition api_customers :: "int \<Rightarrow> int \<Rightarrow> (row list, 'z) bop" where
  "api_customers limit offset = getE (\<lambda>s. project [''customer_id'', ''name''] (sql_page limit offset (biz s ''customers'')))"

definition ALLOWED_TABLES :: "string list" where
  "ALLOWED_TABLES = [''customers'', ''orders'', ''order_items'', ''accounts'', ''transactions'', ''fraud_alerts'', ''devices'',
     ''login_history'', ''risk_indicators'', ''cases'', ''case_notes'', ''disputes'', ''escalations'', ''refunds'',
     ''knowledge_articles'']"

definition api_table :: "string \<Rightarrow> int \<Rightarrow> int \<Rightarrow> (row list, 'z) bop" where
  "api_table table_name limit offset =
     bindE (raise_if (table_name \<notin> set ALLOWED_TABLES)
       (RequestError (''Table '' @ [CHR 39] @ table_name @ [CHR 39] @ '' is not browsable'') (Some ''table_name'')
          [(''allowed'', JList (map JStr (sort ALLOWED_TABLES)))])) (\<lambda>_.
     getE (\<lambda>s. sql_page limit offset (biz s table_name)))"

definition api_readiness :: "('p, 'y) endpoints_scheme \<Rightarrow> (bool \<times> int, 'p, 'z) gop" where
  "api_readiness a =
     catchE
       (bindE initialize (\<lambda>_.
        bindE (repo_list (Some ACTIVE)) (\<lambda>active. returnE (active \<noteq> [], int (length active)))))
       (\<lambda>e. raiseE (HTTPException 503 (JObj [(''ready'', JBool False), (''reason'', JStr (exn_name e))])))"

section \<open>The WebSocket\<close>

text \<open>\<open>except WorkflowEngineError\<close>\<close>

fun workflow_error :: "exn \<Rightarrow> WorkflowEngineError option" where
  "workflow_error (AuthorizationError m p) = Some (authorization_error m p)"
| "workflow_error (AuthenticationError m c) = Some (authentication_error m c)"
| "workflow_error (ProcedureError m c) = Some (procedure_error m c [])"
| "workflow_error (NotFoundError r i) = Some (not_found_error r i ''NOT_FOUND'')"
| "workflow_error (RequestError m f d) = Some (validation_error m f d)"
| "workflow_error _ = None"

text \<open>The actor of a connection, or the code and reason it is closed with.\<close>

definition ws_connect ::
  "jwt_library \<Rightarrow> Settings \<Rightarrow> string option \<Rightarrow> ((int \<times> string) + UserContext, 'z env_scheme) op" where
  "ws_connect jwt st authorization =
     (if auth_enabled st
      then let auth_header = (case authorization of None \<Rightarrow> [] | Some h \<Rightarrow> h);
               token = (if starts_with ''Bearer '' auth_header then drop 7 auth_header else []) in
           if token = [] then returnE (Inl (4401, ''Authentication required''))
           else catchE (bindE (decode_access_token jwt st token) (\<lambda>actor. returnE (Inr actor)))
             (\<lambda>e. if workflow_error e \<noteq> None then returnE (Inl (4401, ''Invalid authentication'')) else raiseE e)
      else returnE (Inr (build_user_context ''dev-user'' ADMIN None)))"

fun risk_value :: "RiskLevel \<Rightarrow> string" where
  "risk_value INFORMATIONAL = ''informational''"
| "risk_value CONSEQUENTIAL = ''consequential''"
| "risk_value REGULATED = ''regulated''"

definition ws_answers :: "string \<Rightarrow> TurnResult \<Rightarrow> pdict list" where
  "ws_answers session_id result =
     (if tr_duplicate result then [[(''type'', JStr ''duplicate_suppressed''), (''session_id'', JStr session_id)]]
      else if tr_quarantined result
      then [[(''type'', JStr ''message_quarantined''), (''session_id'', JStr session_id),
             (''message_id'', JStr (tr_message_id result)), (''reason'', JStr ''provider_sequence_gap'')]]
      else [[(''type'', JStr ''agent_response''), (''session_id'', JStr session_id),
             (''text'', opt_text (tr_response result)), (''risk'', JStr (risk_value (tr_risk result))),
             (''may_stream'', JBool (tr_may_stream result)),
             (''action_proposals'', JList (map JObj (tr_action_proposals result)))],
            [(''type'', JStr ''stream_end''), (''session_id'', JStr session_id)]])"

definition ws_turn ::
  "('p, 'y) endpoints_scheme \<Rightarrow> ('p, 'z) resource_provider \<Rightarrow> UserContext \<Rightarrow> WebSocketTurnFrame \<Rightarrow> (pdict list, 'p, 'z) gop" where
  "ws_turn a resources actor frame =
     bindE (channel_receive WEBSOCKET
       [(''type'', JStr ''user_turn''), (''provider_id'', JStr (wf_provider_id frame)), (''message_id'', JStr (wf_message_id frame)),
        (''session_id'', opt_text (wf_session_id frame)), (''user_id'', JStr (wf_user_id frame)),
        (''message'', JStr (wf_message frame)), (''sequence'', opt_int (wf_sequence frame)),
        (''locale'', JStr (wf_locale frame)), (''timezone'', JStr (wf_timezone frame)),
        (''consent_snapshot'', JObj (wf_consent_snapshot frame))]) (\<lambda>inbound.
     bindE (liftE (resolve_customer_context actor (json_str (ib_user_id inbound)))) (\<lambda>customer.
     bindE (or_op (ib_session_id inbound) uuid_op) (\<lambda>session_id.
     bindE initialize (\<lambda>_.
     bindE (or_op (ib_channel_message_id inbound) (bindE uuid_op (\<lambda>u. returnE (''ws:'' @ u)))) (\<lambda>message_id.
     bindE uuid_op (\<lambda>correlation_id.
     bindE (run_turn a resources actor (cc_customer_id customer)
       \<lparr>me_provider_id = direct_provider actor (wf_provider_id frame) ''direct-websocket'', me_message_id = message_id,
        me_conversation_id = session_id, me_customer_id = cc_customer_id customer, me_channel = CHAT,
        me_text = json_str (ib_text inbound), me_locale = wf_locale frame, me_timezone = wf_timezone frame,
        me_sequence = wf_sequence frame, me_correlation_id = correlation_id, me_causation_id = None,
        me_consent_snapshot = wf_consent_snapshot frame, me_capabilities = []\<rparr>) (\<lambda>result.
     returnE (ws_answers session_id result))))))))"

text \<open>What the client sends until it disconnects: a frame that satisfies the constraints of the
  model, or the errors of its validation.\<close>

definition ws_frame ::
  "('p, 'y) endpoints_scheme \<Rightarrow> ('p, 'z) resource_provider \<Rightarrow> UserContext \<Rightarrow> json + WebSocketTurnFrame \<Rightarrow> pdict list \<Rightarrow>
   (pdict list, 'p, 'z) gop" where
  "ws_frame a resources actor data sent =
     (case data of
        Inl errors \<Rightarrow> returnE (sent @ [[(''type'', JStr ''validation_error''), (''errors'', errors)]])
      | Inr frame \<Rightarrow> bindE (ws_turn a resources actor frame) (\<lambda>answers. returnE (sent @ answers)))"

definition websocket_chat ::
  "('p, 'y) endpoints_scheme \<Rightarrow> ('p, 'z) resource_provider \<Rightarrow> jwt_library \<Rightarrow> string option \<Rightarrow>
   (json + WebSocketTurnFrame) list \<Rightarrow> ((int \<times> string) + pdict list, 'p, 'z) gop" where
  "websocket_chat a resources jwt authorization frames =
     bindE (ws_connect jwt (ep_settings a) authorization) (\<lambda>connection.
     case connection of
       Inl refusal \<Rightarrow> returnE (Inl refusal)
     | Inr actor \<Rightarrow> bindE (foldE (ws_frame a resources actor) frames []) (\<lambda>sent. returnE (Inr sent)))"

section \<open>The MCP server\<close>

definition TRUSTED_ARGUMENT_NAMES :: "string list" where
  "TRUSTED_ARGUMENT_NAMES = [''actor_id'', ''customer_id'', ''case_id'', ''procedure_id'', ''procedure_version'',
     ''policy_package_id'', ''idempotency_key'', ''consent_evidence_ref'', ''approval_evidence_ref'', ''provider_url'',
     ''base_url'', ''connector_binding_id'', ''connector_binding_version'', ''contract_version'']"

definition safe_proposal :: "ActionProposal \<Rightarrow> pdict" where
  "safe_proposal p =
     [(''proposal_id'', JStr (pr_proposal_id p)), (''action'', JStr (pr_action p)), (''preview'', JObj (pr_preview p)),
      (''status'', JStr (proposal_status_value (pr_status p))), (''expires_at'', JInt (pr_expires_at p)),
      (''action_id'', opt_text (pr_action_id p))]"

definition mcp_catalog :: "pdict list" where
  "mcp_catalog = map (\<lambda>(name, sp). [(''name'', JStr name),
     (''required_arguments'', JList (map JStr (sort (required_parameters sp)))),
     (''authoritative_arguments'', JList (map JStr (sort (authoritative_parameters sp)))),
     (''requires_customer_confirmation'', JBool (requires_consent sp)),
     (''requires_host_approval'', JBool (requires_approval sp))]) (sort_key fst ACTION_SPECIFICATIONS)"

definition reject_trusted_arguments :: "pdict \<Rightarrow> exn + unit" where
  "reject_trusted_arguments arguments =
     (let rejected = filter (\<lambda>k. k \<in> set (dict_keys arguments)) TRUSTED_ARGUMENT_NAMES in
      if rejected \<noteq> []
      then Inl (ValueError (''Trusted action context cannot be supplied through MCP arguments: '' @
        join '', '' (sort rejected)))
      else Inr ())"

text \<open>The transport of an MCP call: the HTTP request, if there is one, with the actor the middleware
  put on it and its headers, and the identifier of the call.\<close>

record mcp_http =
  mh_user :: "UserContext option"
  mh_headers :: "(string \<times> string) list"

record mcp_context =
  mc_request :: "mcp_http option"
  mc_request_id :: string

definition header_or :: "mcp_http \<Rightarrow> string \<Rightarrow> string \<Rightarrow> string" where
  "header_or req name default_value =
     (if truthy_str (dict_get (mh_headers req) name) then the (dict_get (mh_headers req) name) else default_value)"

definition mcp_customer :: "('p, 'y) app_scheme \<Rightarrow> UserContext \<Rightarrow> mcp_http \<Rightarrow> string option" where
  "mcp_customer a actor req =
     (let requested = dict_get (mh_headers req) ''X-Workflow-Customer-ID'' in
      if uc_role actor = CUSTOMER then Some (uc_user_id actor)
      else if \<not> truthy_str requested \<and> is_dev (dp_settings (ap_deployment a)) then Some ''CUST-456''
      else requested)"

definition resolve_mcp_action_context ::
  "('p, 'y) app_scheme \<Rightarrow> mcp_context \<Rightarrow> string option \<Rightarrow> pdict option \<Rightarrow> exn + TrustedActionContext" where
  "resolve_mcp_action_context a context action arguments =
     (case mc_request context of
        None \<Rightarrow> Inl (AuthorizationError ''MCP request context is unavailable'' None)
      | Some req \<Rightarrow>
      (case mh_user req of
        None \<Rightarrow> Inl (AuthorizationError ''MCP request is not authenticated'' None)
      | Some actor \<Rightarrow>
          if \<not> truthy_str (mcp_customer a actor req)
          then Inl (AuthorizationError ''MCP host must bind X-Workflow-Customer-ID'' None)
          else
          andThen (resolve_customer_context actor (the (mcp_customer a actor req))) (\<lambda>customer.
          let selected_action = (if truthy_str action then the action else ''issue_refund'') in
          andThen (case action of None \<Rightarrow> Inr () | Some x \<Rightarrow> require_action_access actor x) (\<lambda>_.
          andThen (action_policy (ap_policies a) selected_action
            (dict_get (mh_headers req) ''X-Workflow-Procedure-ID'')) (\<lambda>(procedure_id, policy).
          let conversation_id = header_or req ''X-Workflow-Conversation-ID'' (mc_request_id context);
              message_id = header_or req ''X-Workflow-Message-ID'' (mc_request_id context) in
          Inr \<lparr>ctx_actor_id = uc_user_id actor, ctx_customer_id = cc_customer_id customer,
            ctx_case_id = action_case_id a selected_action (cc_customer_id customer) (Some conversation_id)
              (case arguments of None \<Rightarrow> [] | Some d \<Rightarrow> d),
            ctx_procedure_id = procedure_id, ctx_procedure_version = pp_version policy,
            ctx_policy_package_id = pp_package_id policy, ctx_conversation_id = Some conversation_id,
            ctx_message_id = Some message_id, ctx_connector_binding_id = None,
            ctx_connector_binding_version = None, ctx_contract_version = None\<rparr>)))))"

definition actions_prepare ::
  "('p, 'y) app_scheme \<Rightarrow> ('p, 'z) resource_provider \<Rightarrow> mcp_context \<Rightarrow> string \<Rightarrow> pdict \<Rightarrow> string option \<Rightarrow>
   string option \<Rightarrow> (pdict, 'p, 'z) gop" where
  "actions_prepare a resources context action arguments resource_type resource_id =
     bindE (liftE (reject_trusted_arguments arguments)) (\<lambda>_.
     bindE (liftE (resolve_mcp_action_context a context (Some action) (Some arguments))) (\<lambda>trusted.
     bindE (propose (ap_bridge a) resources
       \<lparr>in_action = action, in_arguments = arguments, in_resource_type = resource_type, in_resource_id = resource_id\<rparr>
       trusted) (\<lambda>proposal.
     returnE (safe_proposal proposal))))"

definition actions_get_status ::
  "('p, 'y) app_scheme \<Rightarrow> mcp_context \<Rightarrow> string \<Rightarrow> (pdict, 'p, 'z) gop" where
  "actions_get_status a context proposal_id =
     bindE (liftE (resolve_mcp_action_context a context None None)) (\<lambda>trusted.
     bindE (bridge_status proposal_id (ctx_customer_id trusted) (Some (ctx_actor_id trusted))) (\<lambda>proposal.
     returnE (safe_proposal proposal)))"

section \<open>Routes\<close>

datatype api_request =
    R_chat ChatRequest | R_refund RefundCommandRequest | R_ivr IvrTurnRequest | R_turn ConversationTurnRequest
  | R_catalog | R_propose ActionProposalRequest | R_proposals "string option" | R_proposal string
  | R_confirm string | R_cancel string | R_action string | R_submit ConsequentialActionRequest
  | R_transcribe SttRequest | R_synthesize TtsRequest | R_telephony TelephonyEvent
  | R_deliver ChatDeliveryRequest | R_receipt ProviderReceipt
  | R_handoff CreateHandoffRequest | R_get_handoff string | R_callback string HandoffStatus "string option"
  | R_policies | R_draft PolicyDraftRequest | R_approve string | R_activate string | R_retire string
  | R_actions "ActionStatus option" int | R_outbox "OutboxStatus option" int | R_events string | R_quarantine int
  | R_receipts int | R_audit | R_deliveries | R_reconcile
  | R_resource string string pdict | R_scenario string SandboxScenario
  | R_session string string | R_sessions string | R_metrics

datatype api_answer =
    A_chat ChatResponse | A_action ActionRecord | A_ivr IvrTurnResponse | A_turn TurnResult
  | A_catalog "catalog_item list" | A_proposal pdict | A_proposals "pdict list"
  | A_confirmed "pdict \<times> ActionRecord option" | A_status "ActionRecord \<times> event_row list"
  | A_transcript SttResult | A_speech TtsResult | A_receipt ProviderReceipt
  | A_queued "handoff_row \<times> HandoffReceipt" | A_handoff handoff_row | A_policies "PolicyPackage list"
  | A_policy PolicyPackage | A_actions "ActionRecord list" | A_outbox "OutboxRecord list"
  | A_events "event_row list" | A_quarantine "inbox_row list" | A_receipts "ProviderReceipt list"
  | A_chain ChainReport | A_run WorkerRun | A_resource resource_row | A_scenario
  | A_session "string \<times> pdict" | A_sessions "pdict list" | A_metrics pdict

fun request_valid :: "api_request \<Rightarrow> bool" where
  "request_valid (R_chat r) = chat_request_valid r"
| "request_valid (R_refund r) = refund_request_valid r"
| "request_valid (R_ivr r) = ivr_request_valid r"
| "request_valid (R_turn r) = turn_request_valid r"
| "request_valid (R_propose r) = proposal_request_valid r"
| "request_valid (R_submit r) = (case new_request r of Inl _ \<Rightarrow> False | Inr _ \<Rightarrow> True)"
| "request_valid (R_synthesize r) = tts_request_valid r"
| "request_valid (R_deliver r) = delivery_request_valid r"
| "request_valid _ = True"

definition answer :: "('a \<Rightarrow> api_answer) \<Rightarrow> ('a, 's) op \<Rightarrow> (api_answer, 's) op" where
  "answer c m = bindE m (\<lambda>x. returnE (c x))"

fun endpoint ::
  "('p, 'y) endpoints_scheme \<Rightarrow> ('p, 'z) resource_provider \<Rightarrow> UserContext \<Rightarrow> api_request \<Rightarrow> (api_answer, 'p, 'z) gop" where
  "endpoint a res u (R_chat r) = answer A_chat (api_chat a res u r)"
| "endpoint a res u (R_refund r) = answer A_action (api_refund_command a u r)"
| "endpoint a res u (R_ivr r) = answer A_ivr (api_ivr_turn a u r)"
| "endpoint a res u (R_turn r) = answer A_turn (api_conversation_turn a res u r)"
| "endpoint a res u R_catalog = answer A_catalog (liftE (api_action_catalog a u))"
| "endpoint a res u (R_propose r) = answer A_proposal (api_create_proposal a res u r)"
| "endpoint a res u (R_proposals c) = answer A_proposals (api_list_proposals u c)"
| "endpoint a res u (R_proposal pid) = answer A_proposal (api_get_proposal u pid)"
| "endpoint a res u (R_confirm pid) = answer A_confirmed (api_confirm_proposal a res u pid)"
| "endpoint a res u (R_cancel pid) = answer A_proposal (api_cancel_proposal u pid)"
| "endpoint a res u (R_action aid) = answer A_status (api_action_status u aid)"
| "endpoint a res u (R_submit r) = answer A_action (api_submit_action a res u r)"
| "endpoint a res u (R_transcribe r) = answer A_transcript (api_transcribe a u r)"
| "endpoint a res u (R_synthesize r) = answer A_speech (api_synthesize a u r)"
| "endpoint a res u (R_telephony e) = answer A_receipt (api_telephony_event a u e)"
| "endpoint a res u (R_deliver r) = answer A_receipt (api_deliver_chat a u r)"
| "endpoint a res u (R_receipt r) = answer A_receipt (api_chat_receipt a u r)"
| "endpoint a res u (R_handoff r) = answer A_queued (api_create_handoff a u r)"
| "endpoint a res u (R_get_handoff h) = answer A_handoff (api_get_handoff u h)"
| "endpoint a res u (R_callback h st ag) = answer A_handoff (api_handoff_callback a u h st ag)"
| "endpoint a res u R_policies = answer A_policies (api_list_policies u)"
| "endpoint a res u (R_draft r) = answer A_policy (api_policy_draft u r)"
| "endpoint a res u (R_approve k) = answer A_policy (api_approve_policy a u k)"
| "endpoint a res u (R_activate k) = answer A_policy (api_activate_policy a u k)"
| "endpoint a res u (R_retire k) = answer A_policy (api_retire_policy a u k)"
| "endpoint a res u (R_actions st n) = answer A_actions (api_list_actions u st n)"
| "endpoint a res u (R_outbox st n) = answer A_outbox (api_list_outbox u st n)"
| "endpoint a res u (R_events aid) = answer A_events (api_action_events u aid)"
| "endpoint a res u (R_quarantine n) = answer A_quarantine (api_quarantine u n)"
| "endpoint a res u (R_receipts n) = answer A_receipts (api_delivery_receipts a u n)"
| "endpoint a res u R_audit = answer A_chain (api_audit_integrity a u)"
| "endpoint a res u R_deliveries = answer A_run (api_run_deliveries a u)"
| "endpoint a res u R_reconcile = answer A_run (api_run_reconciliation a u)"
| "endpoint a res u (R_resource rt ri p) = answer A_resource (api_put_resource a u rt ri p)"
| "endpoint a res u (R_scenario k sc) = answer (\<lambda>_. A_scenario) (api_put_scenario a u k sc)"
| "endpoint a res u (R_session sid c) = answer A_session (api_session_state a u sid c)"
| "endpoint a res u (R_sessions c) = answer A_sessions (api_sessions a u c)"
| "endpoint a res u R_metrics = answer A_metrics (api_metrics a u)"

text \<open>The two development routes are registered in development only.\<close>

fun dev_only :: "api_request \<Rightarrow> bool" where
  "dev_only (R_resource _ _ _) = True"
| "dev_only (R_scenario _ _) = True"
| "dev_only _ = False"

definition api_serve ::
  "('p, 'y) endpoints_scheme \<Rightarrow> ('p, 'z) resource_provider \<Rightarrow> UserContext \<Rightarrow> api_request \<Rightarrow> (api_answer, 'p, 'z) gop" where
  "api_serve a resources actor r =
     (if dev_only r \<and> \<not> is_dev (ep_settings a) then raiseE (HTTPException 404 (JStr ''Not Found''))
      else if \<not> request_valid r then raiseE (HTTPException 422 JNull)
      else endpoint a resources actor r)"

text \<open>The exception handlers: errors of the engine, FastAPI's own exception, everything else.\<close>

definition error_response :: "exn \<Rightarrow> response" where
  "error_response e = (case workflow_error e of
      Some w \<Rightarrow> workflow_error_handler w
    | None \<Rightarrow> (case e of
          HTTPException status detail \<Rightarrow> \<lparr>rs_status = status, rs_body = [(''detail'', detail)], rs_headers = []\<rparr>
        | _ \<Rightarrow> generic_error_handler))"

end
