(* ===== verification/Bootstrap_Laws.thy ===== *)
theory Bootstrap_Laws
  imports Bootstrap Policy_Laws
begin

text \<open>
  A fresh installation is ready: the packages \<open>main.py\<close> signs at import verify, starting stores and
  loads them, and every action of the inventory, under whatever procedure it is requested, is given a
  package that is active, written for the procedure it is attributed to, and allows the action.
\<close>

section \<open>The packages\<close>

lemma bootstrap_package_valid:
  assumes "digests mac" and "signer_ok sg" and "bootstrap_package mac sg dp name procedure_id rules = Inr p"
  shows "verify mac sg p \<and> pp_lifecycle p = ACTIVE \<and> pp_package_id p = name @ ''@1.0.0:'' @ dp_jurisdiction_profile dp \<and>
    pp_procedure_id p = procedure_id \<and> pp_rules p = rules \<and> pp_version p = ''1.0.0''"
proof -
  obtain q where q: "signer_approve mac sg (bootstrap_draft dp name procedure_id rules)
      (policy_approver (dp_settings dp)) = Inr q" "signer_activate mac sg q = Inr p"
    using assms(3) by (auto simp: bootstrap_package_def andThen_Inr)
  have "verify mac sg p \<and> pp_lifecycle p = ACTIVE"
    using q(2) sealed_verifies [OF assms(1,2)] by (auto simp: signer_activate_def Let_def split: if_splits)
  moreover have "pp_package_id q = name @ ''@1.0.0:'' @ dp_jurisdiction_profile dp" "pp_procedure_id q = procedure_id"
    "pp_rules q = rules" "pp_version q = ''1.0.0''"
    using q(1) by (auto simp: signer_approve_def Let_def bootstrap_draft_def split: if_splits)
  ultimately show ?thesis using q(2) by (auto simp: signer_activate_def Let_def split: if_splits)
qed

lemmas bootstrap_defs = active_refund_policy_def active_reg_e_policy_def active_fraud_policy_def

lemma policies_cases:
  assumes "digests mac" and "signer_ok sg" and "POLICY_BY_PROCEDURE mac sg dp = Inr policies"
  obtains refund reg_e fraud where
    "policies = [(''cs_refund'', refund), (''cs_eft_dispute'', reg_e), (''fraud_alert_triage'', fraud)]"
    "list_all (\<lambda>(k, p). verify mac sg p \<and> pp_lifecycle p = ACTIVE \<and> pp_procedure_id p = k \<and> pp_version p = ''1.0.0'') policies"
    "distinct (map (pp_package_id \<circ> snd) policies)"
    "allowed_actions_list (pp_rules refund) = Some refund_actions"
    "allowed_actions_list (pp_rules reg_e) = Some reg_e_actions"
    "allowed_actions_list (pp_rules fraud) = Some fraud_actions"
proof -
  obtain refund reg_e fraud where p: "active_refund_policy mac sg dp = Inr refund"
      "active_reg_e_policy mac sg dp = Inr reg_e" "active_fraud_policy mac sg dp = Inr fraud"
      "policies = [(''cs_refund'', refund), (''cs_eft_dispute'', reg_e), (''fraud_alert_triage'', fraud)]"
    using assms(3) by (auto simp: POLICY_BY_PROCEDURE_def andThen_Inr)
  note v = p(1-3) [unfolded bootstrap_defs, THEN bootstrap_package_valid [OF assms(1,2)]]
  have rules: "allowed_actions_list (pp_rules refund) = Some refund_actions"
    "allowed_actions_list (pp_rules reg_e) = Some reg_e_actions"
    "allowed_actions_list (pp_rules fraud) = Some fraud_actions"
    using v by (simp_all add: allowed_actions_list_def dict_get_def list_all_iff comp_def)
  show thesis by (rule that [OF p(4) _ _ rules]) (use v in \<open>simp_all add: p(4)\<close>)
qed

section \<open>Starting\<close>

lemma save_fresh:
  assumes "\<forall>x \<in> set (policy_packages s). row_package_id x \<noteq> pp_package_id p \<and> row_procedure_id x \<noteq> pp_procedure_id p"
  shows "repo_save p s = (Inr (), s\<lparr>policy_packages := policy_packages s @ [row_of_package p]\<rparr>)"
proof -
  have "select_one (\<lambda>x. row_package_id x = pp_package_id p) (policy_packages s) = None"
    using assms by (simp add: select_one_None)
  moreover have "\<not> list_ex (active_clash (row_of_package p)) (policy_packages s)"
    "\<not> list_ex (\<lambda>x. row_package_id x = pp_package_id p) (policy_packages s)"
    using assms by (auto simp: list_ex_iff active_clash_def row_of_package_def)
  ultimately show ?thesis by (simp add: repo_save_def upsert_package_def Let_def)
qed

lemma save_all_fresh:
  assumes "distinct (map pp_package_id ps)" and "distinct (map pp_procedure_id ps)"
    and "\<forall>x \<in> set (policy_packages s). row_package_id x \<notin> pp_package_id ` set ps \<and> row_procedure_id x \<notin> pp_procedure_id ` set ps"
  shows "foldE (\<lambda>package _. bindE (repo_get (pp_package_id package)) (\<lambda>known.
      if known = None then repo_save package else returnE ())) ps () s =
    (Inr (), s\<lparr>policy_packages := policy_packages s @ map row_of_package ps\<rparr>)"
  using assms
proof (induction ps arbitrary: s)
  case (Cons p ps)
  have known: "select_one (\<lambda>x. row_package_id x = pp_package_id p) (policy_packages s) = None"
    using Cons.prems(3) by (simp add: select_one_None)
  have "repo_save p s = (Inr (), s\<lparr>policy_packages := policy_packages s @ [row_of_package p]\<rparr>)"
    using Cons.prems(3) by (intro save_fresh) simp
  moreover have "\<forall>x \<in> set (policy_packages s @ [row_of_package p]).
      row_package_id x \<notin> pp_package_id ` set ps \<and> row_procedure_id x \<notin> pp_procedure_id ` set ps"
    using Cons.prems by (auto simp: row_of_package_def)
  ultimately show ?case
    using Cons.IH [of "s\<lparr>policy_packages := policy_packages s @ [row_of_package p]\<rparr>"] Cons.prems(1,2) known
    by (simp add: bindE_def repo_get_def getE_def)
qed (simp add: returnE_def)

lemma load_history_all:
  assumes "\<forall>p \<in> set ps. pp_lifecycle p = ACTIVE \<and> verify mac sg p"
  shows "\<exists>t. foldE (\<lambda>p _. if pp_lifecycle p \<in> {ACTIVE, RETIRED}
      then on_registry (registry_load_history mac sg p) else returnE ()) ps () s = (Inr (), t) \<and>
    policy_packages t = policy_packages s"
  using assms
proof (induction ps arbitrary: s)
  case (Cons p ps)
  define r where "r = (case registry_load_history mac sg p (registry s) of Inr x \<Rightarrow> x)"
  have "registry_load_history mac sg p (registry s) = Inr r"
    using Cons.prems by (simp add: r_def registry_load_history_def Let_def)
  then show ?case using Cons.IH [of "s\<lparr>registry := r\<rparr>"] Cons.prems by (simp add: bindE_def on_registry_def)
qed (simp add: returnE_def)

lemma start_policies_fresh:
  assumes "distinct (map pp_package_id ps)" and "distinct (map pp_procedure_id ps)"
    and "\<forall>p \<in> set ps. pp_lifecycle p = ACTIVE \<and> verify mac sg p" and "policy_packages s = []"
  shows "\<exists>t. start_policies mac sg ps s = (Inr (), t) \<and> policy_packages t = map row_of_package ps"
proof -
  define u where "u = s\<lparr>policy_packages := map row_of_package ps, registry := registry_clear (registry s)\<rparr>"
  have "set (map row_package (order_by (\<lambda>x. (row_procedure_id x, row_version x)) (policy_packages u))) = set ps"
    by (simp add: u_def order_by_def image_image row_of_package_def)
  then obtain t where "hydrate mac sg u = (Inr (), t)" "policy_packages t = policy_packages u"
    using load_history_all [of "map row_package (order_by (\<lambda>x. (row_procedure_id x, row_version x)) (policy_packages u))" mac sg u]
      assms(3) by (auto simp: hydrate_def bindE_def repo_list_def getE_def)
  moreover have "start_policies mac sg ps s = hydrate mac sg u"
    using save_all_fresh [of ps s] assms by (simp add: start_policies_def bindE_def on_registry_def u_def)
  ultimately show ?thesis by (simp add: u_def)
qed

lemma require_active_row:
  assumes "policy_packages s = map row_of_package ps" and "distinct (map pp_package_id ps)" and "p \<in> set ps"
    and "pp_lifecycle p = ACTIVE" and "verify mac sg p"
  shows "\<exists>u. service_require_active mac sg (pp_package_id p) s = (Inr p, u)"
proof -
  have d: "distinct (map row_package_id (map row_of_package ps))"
    using assms(2) by (simp add: comp_def row_of_package_def)
  have "select_one (\<lambda>y. row_package_id y = pp_package_id p) (policy_packages s) = Some (row_of_package p)"
    using select_one_unique [OF d, of "row_of_package p"] assms(1,3) by (simp add: row_of_package_def)
  then show ?thesis using assms(4,5)
    by (simp add: service_require_active_def policy_require_def repo_get_def bindE_def getE_def returnE_def raise_if_def
        on_registry_def registry_load_history_def Let_def row_of_package_def)
qed

section \<open>Every action has an active package\<close>

lemma action_cases:
  "action \<in> set (dict_keys ACTION_SPECIFICATIONS) \<longleftrightarrow> action \<in> set (map fst DEFAULT_PROCEDURE_BY_ACTION)"
  by (auto simp: ACTION_SPECIFICATIONS_def specification_list_def mk_spec_def dict_keys_def DEFAULT_PROCEDURE_BY_ACTION_def)

lemma action_policy_choice:
  assumes "policies = [(''cs_refund'', refund), (''cs_eft_dispute'', reg_e), (''fraud_alert_triage'', fraud)]"
    and "allowed_actions_list (pp_rules refund) = Some refund_actions"
    and "allowed_actions_list (pp_rules reg_e) = Some reg_e_actions"
    and "allowed_actions_list (pp_rules fraud) = Some fraud_actions"
    and "action \<in> set (dict_keys ACTION_SPECIFICATIONS)"
  shows "\<exists>k p. action_policy policies action requested = Inr (k, p) \<and> (k, p) \<in> set policies \<and> policy_allows p action"
proof -
  have default: "\<exists>k p. dict_at DEFAULT_PROCEDURE_BY_ACTION action = Inr k \<and> dict_at policies k = Inr p \<and> (k, p) \<in> set policies \<and>
      policy_allows p action"
    using assms(5) [unfolded action_cases] assms(1-4)
    by (auto simp: DEFAULT_PROCEDURE_BY_ACTION_def dict_at_def dict_get_def policy_allows_def refund_actions_def
        reg_e_actions_def fraud_actions_def)
  have known: "\<exists>p. dict_at policies k = Inr p \<and> (k, p) \<in> set policies" if "k \<in> set (dict_keys policies)" for k
    using that assms(1) by (auto simp: dict_keys_def dict_at_def dict_get_def)
  show ?thesis
  proof (cases "requested \<noteq> None \<and> the requested \<in> set (dict_keys policies)")
    case True
    then obtain k p where "requested = Some k" "dict_at policies k = Inr p" "(k, p) \<in> set policies" "k \<in> set (dict_keys policies)"
      using known by fastforce
    then show ?thesis using default by (auto simp: action_policy_def andThen_def)
  next
    case False
    then show ?thesis using default by (auto simp: action_policy_def andThen_def split: option.split)
  qed
qed

text \<open>C25: A fresh installation is ready. Starting it succeeds, and afterwards every action of the inventory,
  whatever procedure it is requested under, is given a package that is active in the repository,
  validly signed, written for the procedure the action is attributed to, and that allows it.\<close>

theorem fresh_installation_ready:
  assumes "digests mac" and "policy_signer dp = Inr sg" and "POLICY_BY_PROCEDURE mac sg dp = Inr policies"
    and "policy_packages s = []"
  shows "\<exists>t. start_policies mac sg (map snd policies) s = (Inr (), t) \<and>
    (\<forall>action \<in> set (dict_keys ACTION_SPECIFICATIONS). \<forall>requested. \<exists>procedure_id policy u.
       action_policy policies action requested = Inr (procedure_id, policy) \<and> pp_procedure_id policy = procedure_id \<and>
       policy_allows policy action \<and> verify mac sg policy \<and>
       service_require_active mac sg (pp_package_id policy) t = (Inr policy, u))"
proof -
  have ok: "signer_ok sg" using assms(2) new_signer_ok by (auto simp: policy_signer_def)
  obtain refund reg_e fraud where
    p: "policies = [(''cs_refund'', refund), (''cs_eft_dispute'', reg_e), (''fraud_alert_triage'', fraud)]"
      "list_all (\<lambda>(k, p). verify mac sg p \<and> pp_lifecycle p = ACTIVE \<and> pp_procedure_id p = k \<and> pp_version p = ''1.0.0'') policies"
      "distinct (map (pp_package_id \<circ> snd) policies)"
    and allowed: "allowed_actions_list (pp_rules refund) = Some refund_actions"
      "allowed_actions_list (pp_rules reg_e) = Some reg_e_actions"
      "allowed_actions_list (pp_rules fraud) = Some fraud_actions"
    by (rule policies_cases [OF assms(1) ok assms(3)])
  have valid: "verify mac sg q \<and> pp_lifecycle q = ACTIVE \<and> pp_procedure_id q = k" if "(k, q) \<in> set policies" for k q
    using p(2) that by (auto simp: list_all_iff)
  have ids: "distinct (map pp_package_id (map snd policies))" using p(3) by simp
  have "distinct (map pp_procedure_id (map snd policies))" using p(1,2) by simp
  moreover have "\<forall>q \<in> set (map snd policies). pp_lifecycle q = ACTIVE \<and> verify mac sg q" using valid by auto
  ultimately obtain t where t: "start_policies mac sg (map snd policies) s = (Inr (), t)"
      "policy_packages t = map row_of_package (map snd policies)"
    using start_policies_fresh [OF ids _ _ assms(4)] by blast
  have "\<exists>k q u. action_policy policies action requested = Inr (k, q) \<and> pp_procedure_id q = k \<and>
      policy_allows q action \<and> verify mac sg q \<and> service_require_active mac sg (pp_package_id q) t = (Inr q, u)"
    if known: "action \<in> set (dict_keys ACTION_SPECIFICATIONS)" for action requested
  proof -
    obtain k q where q: "action_policy policies action requested = Inr (k, q)" "(k, q) \<in> set policies" "policy_allows q action"
      using action_policy_choice [OF p(1) allowed known] by blast
    then have "q \<in> set (map snd policies)" by force
    then obtain u where "service_require_active mac sg (pp_package_id q) t = (Inr q, u)"
      using require_active_row [OF t(2) ids] valid [OF q(2)] by blast
    then show ?thesis using q valid [OF q(2)] by blast
  qed
  then show ?thesis using t(1) by blast
qed

section \<open>A deployment\<close>

definition demo_dev_settings :: Settings where
  "demo_dev_settings = \<lparr>environment = DEV, cors_origins = [], database_url = ''sqlite:///d'',
     reference_data_database_url = ''sqlite:///d'', seed_reference_data = None, policy_database_url = None,
     auth_enabled = False, auth_secret_key = ''k'', auth_algorithm = ''HS256'', auth_token_expire_minutes = 480,
     auth_issuer = ''workflow-engine'', jurisdiction_enforce = None, policy_signing_key = ''dev-policy-signing-key'',
     policy_author = ''operations-author'', policy_approver = ''risk-approver'', upstream_mode = None,
     sandbox_database_url = ''sqlite:///s'', provider_bundle_factory = None, rate_limit_enabled = False,
     rate_limit_requests = 60, rate_limit_window_seconds = 60, log_level = ''INFO''\<rparr>"

definition demo_deployment :: deployment where
  "demo_deployment = \<lparr>dp_settings = demo_dev_settings, dp_jurisdiction_profile = ''NAM'',
     dp_policy_signing_key_id = ''primary'', dp_policy_verification_keys = []\<rparr>"

definition demo_boot_signer :: PolicySigner where
  "demo_boot_signer = \<lparr>sg_key = ''dev-policy-signing-key'', sg_key_id = ''primary'',
     sg_verification_keys = [(''primary'', ''dev-policy-signing-key'')]\<rparr>"

definition demo_active_package :: "string \<Rightarrow> string \<Rightarrow> pdict \<Rightarrow> PolicyPackage" where
  "demo_active_package name procedure_id rules =
     \<lparr>pp_package_id = name @ ''@1.0.0:NAM'', pp_procedure_id = procedure_id, pp_version = ''1.0.0'', pp_jurisdiction = ''NAM'',
      pp_author = ''operations-author'', pp_rules = rules, pp_lifecycle = ACTIVE, pp_approver = Some ''risk-approver'',
      pp_signing_key_id = Some ''primary'', pp_activation_signature = Some ''mac:dev-policy-signing-key'',
      pp_signature = Some ''mac:dev-policy-signing-key''\<rparr>"

definition demo_policies :: "(string \<times> PolicyPackage) list" where
  "demo_policies =
     [(''cs_refund'', demo_active_package ''refund'' ''cs_refund''
        [(''refund_window_days'', JInt 30), (''requires_explicit_consent'', JBool True),
         (''allowed_actions'', JList (map JStr refund_actions))]),
      (''cs_eft_dispute'', demo_active_package ''reg-e'' ''cs_eft_dispute'' [(''allowed_actions'', JList (map JStr reg_e_actions))]),
      (''fraud_alert_triage'', demo_active_package ''fraud'' ''fraud_alert_triage''
        [(''allowed_actions'', JList (map JStr fraud_actions))])]"

lemma demo_boot:
  "policy_signer demo_deployment = Inr demo_boot_signer"
  "POLICY_BY_PROCEDURE demo_mac demo_boot_signer demo_deployment = Inr demo_policies"
  by (simp_all add: policy_signer_def new_signer_def demo_deployment_def demo_dev_settings_def demo_boot_signer_def
      POLICY_BY_PROCEDURE_def bootstrap_defs bootstrap_package_def bootstrap_draft_def signer_approve_def signer_activate_def
      verify_def demo_mac_def demo_policies_def demo_active_package_def andThen_def Let_def truthy_str_def dict_get_def)

theorem fresh_installation_ready_witness:
  "\<exists>t procedure_id policy u. start_policies demo_mac demo_boot_signer (map snd demo_policies) demo_policy_start = (Inr (), t) \<and>
     action_policy demo_policies ''submit_sar'' (Some ''cs_refund'') = Inr (procedure_id, policy) \<and>
     policy_allows policy ''submit_sar'' \<and>
     service_require_active demo_mac demo_boot_signer (pp_package_id policy) t = (Inr policy, u)"
proof -
  have "policy_packages demo_policy_start = []" by (simp add: demo_policy_run)
  from fresh_installation_ready [OF demo_signing(1) demo_boot this]
  have *: "\<exists>t. start_policies demo_mac demo_boot_signer (map snd demo_policies) demo_policy_start = (Inr (), t) \<and>
      (\<forall>action \<in> set (dict_keys ACTION_SPECIFICATIONS). \<forall>requested. \<exists>procedure_id policy u.
       action_policy demo_policies action requested = Inr (procedure_id, policy) \<and> pp_procedure_id policy = procedure_id \<and>
       policy_allows policy action \<and> verify demo_mac demo_boot_signer policy \<and>
       service_require_active demo_mac demo_boot_signer (pp_package_id policy) t = (Inr policy, u))" .
  have "''submit_sar'' \<in> set (dict_keys ACTION_SPECIFICATIONS)" by code_simp
  with * show ?thesis by blast
qed

end
