(* ===== verification/Api_Laws.thy ===== *)
theory Api_Laws
  imports Api_Routes Bridge_Laws Bootstrap_Laws
begin

text \<open>
  What the routes guarantee: a route that needs a permission is refused without it, a customer reaches
  no other customer, only five routes can touch an action, what a conversation proposes is bound to its
  actor and customer, and a confirmation submits nothing its actor may not do.
\<close>

section \<open>Permissions\<close>

text \<open>The permission a route demands of every actor but the administrator.\<close>

fun route_permission :: "api_request \<Rightarrow> Permission option" where
  "route_permission (R_submit r) = dict_get ACTION_PERMISSIONS (payload_name (rq_payload r))"
| "route_permission (R_transcribe _) = Some CHANNEL_INGEST"
| "route_permission (R_synthesize _) = Some CHANNEL_DELIVERY"
| "route_permission (R_telephony _) = Some CHANNEL_INGEST"
| "route_permission (R_deliver _) = Some CHANNEL_DELIVERY"
| "route_permission (R_receipt _) = Some PROVIDER_CALLBACK"
| "route_permission (R_handoff _) = Some ESCALATION_CREATE"
| "route_permission (R_get_handoff _) = Some CASE_READ"
| "route_permission (R_callback _ _ _) = Some PROVIDER_CALLBACK"
| "route_permission R_policies = Some ADMIN_READ"
| "route_permission (R_draft _) = Some ADMIN_WRITE"
| "route_permission (R_approve _) = Some ADMIN_WRITE"
| "route_permission (R_activate _) = Some ADMIN_WRITE"
| "route_permission (R_retire _) = Some ADMIN_WRITE"
| "route_permission (R_actions _ _) = Some ADMIN_READ"
| "route_permission (R_outbox _ _) = Some ADMIN_READ"
| "route_permission (R_events _) = Some ADMIN_READ"
| "route_permission (R_quarantine _) = Some ADMIN_READ"
| "route_permission (R_receipts _) = Some ADMIN_READ"
| "route_permission R_audit = Some ADMIN_READ"
| "route_permission R_deliveries = Some ADMIN_WRITE"
| "route_permission R_reconcile = Some ADMIN_WRITE"
| "route_permission (R_resource _ _ _) = Some ADMIN_WRITE"
| "route_permission (R_scenario _ _) = Some ADMIN_WRITE"
| "route_permission R_metrics = Some ADMIN_READ"
| "route_permission _ = None"

text \<open>A result that refuses: an authorization error, and nothing has changed.\<close>

definition refuses :: "('a, 's) op \<Rightarrow> 's \<Rightarrow> bool" where
  "refuses m s \<longleftrightarrow> (\<exists>msg p. m s = (Inl (AuthorizationError msg p), s))"

lemma refuses_bindE: "refuses m s \<Longrightarrow> refuses (bindE m f) s"
  by (auto simp: refuses_def bindE_def)

lemma refuses_answer: "refuses m s \<Longrightarrow> refuses (answer c m) s"
  by (simp add: answer_def refuses_bindE)

lemma refuses_permission:
  "uc_role u \<noteq> ADMIN \<Longrightarrow> \<not> has_permission u p \<Longrightarrow> refuses (bindE (liftE (need_permission u p)) f) s"
  by (simp add: refuses_def need_permission_def bindE_def liftE_def)

text \<open>A check that passes or refuses, before the permission is looked at.\<close>

lemma refuses_resolve:
  assumes "\<And>x. refuses (f x) s"
  shows "refuses (bindE (liftE (resolve_customer_context u c)) f) s"
  using assms by (auto simp: resolve_customer_context_def refuses_def bindE_def liftE_def)

lemma refuses_known: "d = Inr x \<Longrightarrow> refuses (f x) s \<Longrightarrow> refuses (bindE (liftE d) f) s"
  by (simp add: refuses_def bindE_def liftE_def)

lemma refuses_guarded:
  "uc_role u \<noteq> ADMIN \<Longrightarrow> \<not> has_permission u p \<Longrightarrow> refuses (guarded_call a u p m) s"
  by (simp add: guarded_call_def refuses_permission)

lemmas endpoint_defs = api_transcribe_def api_synthesize_def api_telephony_event_def api_deliver_chat_def
  api_chat_receipt_def api_create_handoff_def api_get_handoff_def api_handoff_callback_def api_list_policies_def
  api_policy_draft_def api_approve_policy_def api_activate_policy_def api_retire_policy_def api_list_actions_def
  api_list_outbox_def api_action_events_def api_quarantine_def api_delivery_receipts_def api_audit_integrity_def
  api_run_deliveries_def api_run_reconciliation_def api_put_resource_def api_put_scenario_def api_metrics_def

lemma endpoint_refuses:
  assumes "route_permission r = Some p" and "uc_role u \<noteq> ADMIN" and "\<not> has_permission u p"
  shows "refuses (endpoint a res u r) s"
proof (cases r)
  case (R_submit q)
  then have "dict_at ACTION_PERMISSIONS (payload_name (rq_payload q)) = Inr p"
    using assms(1) by (simp add: dict_at_def)
  then show ?thesis unfolding R_submit endpoint.simps api_submit_action_def
    using assms(2,3) by (auto intro!: refuses_answer refuses_resolve refuses_known refuses_permission)
qed (use assms in \<open>auto simp: endpoint_defs intro!: refuses_answer refuses_resolve refuses_permission refuses_guarded\<close>)

text \<open>C19: A route that needs a permission is refused without it, before anything happens: the answer to an
  actor who is not an administrator and lacks the permission is 403 when the route exists and the
  request is well formed, and the core store, the policies, the registry and everything outside are
  as they were.\<close>

theorem route_needs_permission:
  assumes "route_permission r = Some p" and "uc_role actor \<noteq> ADMIN" and "\<not> has_permission actor p"
  shows "\<exists>e. api_serve a resources actor r s = (Inl e, s) \<and>
    (request_valid r \<and> (dev_only r \<longrightarrow> is_dev (ep_settings a)) \<longrightarrow> rs_status (error_response e) = 403)"
proof -
  obtain m q where "endpoint a resources actor r s = (Inl (AuthorizationError m q), s)"
    using endpoint_refuses [OF assms, of a resources s] by (auto simp: refuses_def)
  then show ?thesis
    by (auto simp: api_serve_def raiseE_def error_response_def workflow_error_handler_def authorization_error_def)
qed

section \<open>Customers\<close>

text \<open>The customer a request names.\<close>

fun request_customer :: "api_request \<Rightarrow> string option" where
  "request_customer (R_chat r) = Some (cq_user_id r)"
| "request_customer (R_refund r) = Some (rfq_customer_id r)"
| "request_customer (R_ivr r) = Some (iq_customer_id r)"
| "request_customer (R_turn r) = Some (vq_customer_id r)"
| "request_customer (R_propose r) = Some (aq_customer_id r)"
| "request_customer (R_submit r) = Some (rq_customer_id r)"
| "request_customer (R_deliver r) = Some (lq_customer_id r)"
| "request_customer (R_handoff r) = Some (oq_customer_id r)"
| "request_customer (R_session _ c) = Some c"
| "request_customer (R_sessions c) = Some c"
| "request_customer _ = None"

lemma refuses_customer:
  "uc_role u = CUSTOMER \<Longrightarrow> c \<noteq> uc_user_id u \<Longrightarrow> refuses (bindE (liftE (resolve_customer_context u c)) f) s"
  by (simp add: refuses_def resolve_customer_context_def bindE_def liftE_def)

lemma channel_receive_user:
  assumes "channel_receive ch raw s = (Inr m, t)" and "dict_get raw ''user_id'' = Some v"
  shows "ib_user_id m = v \<and> t = s\<lparr>clock_idx := Suc (clock_idx s)\<rparr>"
  using assms by (auto simp: channel_receive_def bindE_def now_op_def returnE_def raiseE_def split: option.splits if_splits)

lemma channel_receive_Inl: "channel_receive ch raw s = (Inl e, t) \<Longrightarrow> t = s"
  by (auto simp: channel_receive_def bindE_def now_op_def returnE_def raiseE_def split: option.splits if_splits)

lemma chat_refuses:
  fixes s :: "('p, 'z) gworld_scheme"
  assumes "uc_role u = CUSTOMER" and "cq_user_id r \<noteq> uc_user_id u"
  shows "\<exists>e t. api_chat a res u r s = (Inl e, t) \<and> db t = db s \<and> provider t = provider s"
proof -
  define raw where "raw = [(''message'', JStr (cq_message r)), (''user_id'', JStr (cq_user_id r)),
    (''session_id'', opt_text (cq_session_id r)), (''message_id'', opt_text (cq_message_id r))]"
  obtain x t where x: "channel_receive HTTP_REST raw s = (x, t)" by fastforce
  show ?thesis
  proof (cases x)
    case (Inl e)
    then show ?thesis using x channel_receive_Inl [of HTTP_REST raw s]
      unfolding api_chat_def raw_def [symmetric] by (auto simp: bindE_def)
  next
    case (Inr m)
    have m: "json_str (ib_user_id m) \<noteq> uc_user_id u" "db t = db s" "provider t = provider s"
      using channel_receive_user [OF x [unfolded Inr], of "JStr (cq_user_id r)"] assms(2) by (auto simp: raw_def dict_get_def)
    then show ?thesis using x Inr assms(1) unfolding api_chat_def raw_def [symmetric]
      by (auto simp: bindE_def [of "channel_receive _ _"] bindE_def [of "liftE _"] liftE_def resolve_customer_context_def)
  qed
qed


section \<open>Which routes can touch an action\<close>

context op_rel
begin

lemma keeps_bind_lift: "(\<And>x. r = Inr x \<Longrightarrow> keeps (f x)) \<Longrightarrow> keeps (bindE (liftE r) f)"
  by (cases r) (auto simp: keeps_def bindE_def liftE_def R_refl)

lemma keeps_bind_fact:
  "keeps m \<Longrightarrow> (\<And>x s t. m s = (Inr x, t) \<Longrightarrow> keeps (f x)) \<Longrightarrow> keeps (bindE m f)"
  unfolding keeps_def bindE_def
  by (auto split: prod.splits sum.splits) (metis R_trans snd_conv)+

lemma keeps_or_op: "keeps m \<Longrightarrow> keeps (or_op v m)"
  by (simp add: or_op_def keeps_returnE)

lemma keeps_answer: "keeps m \<Longrightarrow> keeps (answer c m)"
  unfolding answer_def by (intro keeps_bindE keeps_returnE)

lemmas api_intros = keeps_intros keeps_or_op keeps_answer

end

interpretation same_db: op_rel "\<lambda>s t. db t = db s"
  by unfold_locales auto

lemma same_db_world:
  "same_db.keeps (on_provider m)" "same_db.keeps (on_registry g)" "same_db.keeps now_op" "same_db.keeps uuid_op"
  "same_db.keeps (read_db f)" "same_db.keeps (repo_save p)" "same_db.keeps (replace_active p ps)"
  by (auto simp: same_db.keeps_def on_provider_def on_registry_def now_op_def uuid_op_def read_db_def repo_save_def
      replace_active_def split: prod.split sum.split)

lemmas same_db_intros = same_db.api_intros same_db_world

lemma same_db_channel: "same_db.keeps (channel_receive ch raw)"
  unfolding channel_receive_def by (auto intro!: same_db_intros split: option.split)

lemma same_db_verify: "same_db.keeps (Reasoning.verify solve r p st step)"
  unfolding Reasoning.verify_def verify_eligibility_claims_def order_age_days_def Let_def
  by (auto intro!: same_db_intros split: option.split prod.split sum.split json.split)

lemma same_db_verification: "same_db.keeps (run_verification solve cfg r st pid step policy)"
  unfolding run_verification_def Let_def by (auto intro!: same_db_intros same_db_verify split: option.split)

lemma same_db_steer_loop:
  assumes "\<And>e. same_db.keeps (sg_audit sg e)" and "sg_generate sg = None"
  shows "same_db.keeps (steer_loop sg i response violations last_v)"
  by (subst steer_loop.simps)
    (auto simp: rails_audit_def assms(2) intro!: same_db_intros same_db_verification assms(1))

lemma same_db_steer:
  "same_db.keeps (steer_response cfg solve render (\<lambda>e. on_provider (audit e)) r st pid step pdef None n)"
  unfolding steer_response_def Let_def
  by (auto intro!: same_db_intros same_db_steer_loop split: prod.split)

text \<open>The preparation of a proposal reads.\<close>

lemma same_db_load:
  assumes "reads_only resources"
  shows "same_db.keeps (load_resource resources rt ri)"
proof -
  have "same_db.keeps (resources x y)" for x y using assms by (simp add: reads_only_def same_db.keeps_def)
  then show ?thesis unfolding load_resource_def by (auto intro!: same_db_intros)
qed

lemma same_db_overlay: "same_db.keeps (overlay_authoritative b ctx sp r p)"
  unfolding overlay_authoritative_def copy_parameter_def check_customer_binding_def
  by (auto intro!: same_db_intros split: option.split)

lemma same_db_prepared:
  assumes "reads_only resources"
  shows "same_db.keeps (prepare_refund b resources intent ctx)" "same_db.keeps (prepare_generic b resources intent ctx)"
  unfolding prepare_refund_def prepare_generic_def Let_def
  by (auto intro!: same_db_intros same_db_load [OF assms] same_db_overlay split: option.split)

interpretation effect_view: table_view "\<lambda>d. (action_attempts d, action_proposals d)" .

lemma effect_view_ops:
  "effect_view.keeps initialize" "effect_view.keeps (accept_message_result env)"
  "effect_view.keeps (create_handoff h)" "effect_view.keeps (store_transition_handoff hid he hs agent)"
  unfolding store_defs append_event_def accept_message_result_def settle_message_def store_inbox_message_def Let_def
  by (auto intro!: effect_view.view_intros split: option.split)

text \<open>Nothing happened to any action.\<close>

interpretation untouched: op_rel "\<lambda>s t. action_attempts (db t) = action_attempts (db s)"
  by unfold_locales auto

lemma untouched_same: "same_db.keeps m \<Longrightarrow> untouched.keeps m"
  by (simp add: same_db.keeps_def untouched.keeps_def)

lemma untouched_view: "effect_view.keeps m \<Longrightarrow> untouched.keeps m"
  by (simp add: effect_view.keeps_def effect_view.same_view_def untouched.keeps_def)

lemma untouched_attempts: "attempt_view.keeps m \<Longrightarrow> untouched.keeps m"
  by (simp add: attempt_view.keeps_def attempt_view.same_view_def untouched.keeps_def)

lemma untouched_proposal:
  "untouched.keeps (create_action_proposal q)" "untouched.keeps (transition_action_proposal pid e st ev aid)"
  unfolding store_defs Let_def
  by (rule untouched_attempts, auto intro!: attempt_view.view_intros split: option.split)+

lemmas untouched_reads = same_db_world [THEN untouched_same] same_db_channel [THEN untouched_same]
  same_db_steer [THEN untouched_same] effect_view_ops [THEN untouched_view] untouched_proposal

lemma untouched_getters:
  "untouched.keeps (get_action_proposal pid)" "untouched.keeps (get_action aid)" "untouched.keeps (get_case cid)"
  "untouched.keeps (get_handoff hid)" "untouched.keeps (get_action_by_key k)" "untouched.keeps (list_actions st n)"
  "untouched.keeps (list_outbox os n)" "untouched.keeps (list_action_events aid)"
  "untouched.keeps (list_quarantined_messages n)" "untouched.keeps (list_action_proposals c v ps n)"
  unfolding get_action_proposal_def get_action_def get_case_def get_handoff_def get_action_by_key_def list_actions_def
    list_outbox_def list_action_events_def list_quarantined_messages_def list_action_proposals_def
  by (rule untouched_reads)+

lemmas untouched_intros = untouched.api_intros untouched_reads untouched_getters

lemma untouched_propose:
  fixes resources :: "('p, 'z) resource_provider"
  assumes "reads_only resources"
  shows "untouched.keeps (propose b resources intent context)"
  unfolding propose_def
  by (auto intro!: untouched_intros same_db_prepared [THEN untouched_same] assms)

lemma untouched_transition: "untouched.keeps (transition_or_current pid st aid)"
  unfolding transition_or_current_def by (auto intro!: untouched_intros split: option.split exn.split)

lemma untouched_owned: "untouched.keeps (get_owned pid cu ac)" "untouched.keeps (owned_proposal pid u)"
  unfolding get_owned_def owned_proposal_def by (auto intro!: untouched_intros split: option.split)

lemma untouched_bridge: "untouched.keeps (cancel pid ctx)" "untouched.keeps (bridge_status pid cu ac)"
  unfolding cancel_def bridge_status_def expire_def recover_confirmed_def
  by (auto intro!: untouched_intros untouched_transition untouched_owned split: option.split)

lemma untouched_turn:
  fixes resources :: "('p, 'z) resource_provider"
  assumes "reads_only resources"
  shows "untouched.keeps (run_turn a resources u c env)"
  unfolding run_turn_def process_turn_def accept_result_def generate_safe_turn_def open_session_def prepare_intent_def
    propose_action_def Let_def
  by (auto intro!: untouched_intros untouched_propose [OF assms] split: option.split json.split prod.split)

lemma untouched_handoff:
  "untouched.keeps (request_handoff v c ctx)" "untouched.keeps (transition_handoff h st ag)"
  unfolding request_handoff_def transition_handoff_def Let_def
  by (auto intro!: untouched_intros split: option.split)

lemma untouched_policy:
  "untouched.keeps (repo_list lc)" "untouched.keeps (create_draft p)" "untouched.keeps (policy_approve mac sg k ap)"
  "untouched.keeps (policy_activate mac sg k)" "untouched.keeps (policy_retire mac sg k)"
  unfolding repo_list_def create_draft_def policy_approve_def policy_activate_def policy_retire_def policy_require_def
    repo_get_def Let_def
  by (auto intro!: untouched_intros split: option.split)

text \<open>The routes that submit, dispatch or reconcile.\<close>

fun acts :: "api_request \<Rightarrow> bool" where
  "acts (R_refund _) = True"
| "acts (R_confirm _) = True"
| "acts (R_submit _) = True"
| "acts R_deliveries = True"
| "acts R_reconcile = True"
| "acts _ = False"

lemma endpoint_untouched:
  fixes resources :: "('p, 'z) resource_provider"
  assumes "reads_only resources" and "\<not> acts r"
  shows "untouched.keeps (endpoint a resources u r)"
  using assms(2)
proof (cases r)
qed (auto simp: endpoint_defs api_chat_def api_ivr_turn_def runtime_accept_def accept_message_def
    api_conversation_turn_def api_create_proposal_def propose_action_def api_list_proposals_def api_get_proposal_def
    api_cancel_proposal_def api_action_status_def guarded_call_def api_session_state_def api_sessions_def
    intro!: untouched_intros untouched_propose [OF assms(1)] untouched_owned untouched_bridge untouched_turn [OF assms(1)]
      untouched_handoff untouched_policy split: option.split prod.split)

text \<open>C17: Only five routes can touch an action: the refund command, the confirmation of a proposal, the
  direct submission and the two worker runs. Every other request, whatever the model answers in a
  turn, leaves the actions on record exactly as they were; the resources are only required to be
  read without writing to the core store.\<close>

theorem only_five_routes_act:
  assumes "reads_only resources" and "\<not> acts r" and "api_serve a resources actor r s = (x, t)"
  shows "action_attempts (db t) = action_attempts (db s)"
proof -
  have "untouched.keeps (api_serve a resources actor r)"
    unfolding api_serve_def using endpoint_untouched [OF assms(1,2)] by (auto intro: untouched_intros)
  then show ?thesis using untouched.keepsD assms(3) by blast
qed

section \<open>What a conversation proposes\<close>

text \<open>Proposals are only added, and each satisfies \<open>P\<close>.\<close>

definition adds_only :: "(ActionProposal \<Rightarrow> bool) \<Rightarrow> core_db \<Rightarrow> core_db \<Rightarrow> bool" where
  "adds_only P d d' \<longleftrightarrow> (\<exists>xs. action_proposals d' = action_proposals d @ xs \<and> (\<forall>p \<in> set xs. P p))"

interpretation adds: op_rel "\<lambda>s t. adds_only P (db s) (db t)" for P
proof
  show "adds_only P (db s) (db s)" for s :: "'b kworld_scheme" by (simp add: adds_only_def)
  show "adds_only P (db s) (db t) \<Longrightarrow> adds_only P (db t) (db u) \<Longrightarrow> adds_only P (db s) (db u)" for s t u :: "'b kworld_scheme"
    unfolding adds_only_def by (metis Un_iff append_assoc set_append)
qed

lemma adds_same: "same_db.keeps m \<Longrightarrow> adds.keeps P m"
  unfolding adds.keeps_def by (simp add: same_db.keeps_def adds_only_def)

lemma adds_view: "effect_view.keeps m \<Longrightarrow> adds.keeps P m"
  unfolding adds.keeps_def by (simp add: effect_view.keeps_def effect_view.same_view_def adds_only_def)

lemma adds_create: "P q \<Longrightarrow> adds.keeps P (create_action_proposal q)"
  unfolding adds.keeps_def by (auto simp: adds_only_def create_action_proposal_def tx_def bindE_def insert_row_eq returnE_def)

lemmas adds_reads = same_db_world [THEN adds_same] same_db_channel [THEN adds_same] same_db_steer [THEN adds_same]
  effect_view_ops [THEN adds_view]
lemmas adds_intros = adds.api_intros adds_reads

lemma resolve_context_kept:
  "resolve_context b act ctx = Inr ctx' \<Longrightarrow>
   ctx_actor_id ctx' = ctx_actor_id ctx \<and> ctx_customer_id ctx' = ctx_customer_id ctx"
  by (auto simp: resolve_context_def andThen_Inr split: option.splits)

lemma adds_propose:
  fixes resources :: "('p, 'z) resource_provider"
  assumes "reads_only resources"
    and "\<And>p. pr_actor_id p = ctx_actor_id context \<Longrightarrow> pr_customer_id p = ctx_customer_id context \<Longrightarrow>
      pr_action p = in_action intent \<Longrightarrow> pr_status p = P_PENDING \<Longrightarrow> P p"
  shows "adds.keeps P (propose b resources intent context)"
  unfolding propose_def
  by (auto intro!: adds.keeps_bind_lift adds_intros same_db_prepared [THEN adds_same] adds_create assms
      dest!: resolve_context_kept)

text \<open>A proposal the actor may make for the customer: it waits for a confirmation.\<close>

definition trusted_proposal :: "UserContext \<Rightarrow> string \<Rightarrow> ActionProposal \<Rightarrow> bool" where
  "trusted_proposal u c p \<longleftrightarrow> pr_actor_id p = uc_user_id u \<and> pr_customer_id p = c \<and> pr_status p = P_PENDING \<and>
     require_action_access u (pr_action p) = Inr ()"

lemma adds_propose_action:
  fixes resources :: "('p, 'z) resource_provider"
  assumes "reads_only resources"
  shows "adds.keeps (trusted_proposal u c) (propose_action a resources u c act args res v m req)"
  unfolding propose_action_def
  by (auto intro!: adds.keeps_bind_lift adds_propose [OF assms] split: prod.split simp: trusted_proposal_def)

lemma access_cong:
  "uc_role v = uc_role u \<Longrightarrow> uc_user_id v = uc_user_id u \<Longrightarrow> set (uc_permissions v) = set (uc_permissions u) \<Longrightarrow>
   trusted_proposal v = trusted_proposal u"
  by (auto simp: fun_eq_iff trusted_proposal_def require_action_access_def need_permission_def has_permission_def
      split: option.split)

lemma role_read_back: "role_of_value (role_value r) = Inr r"
  by (cases r) (simp_all add: role_of_value_def all_roles_def)

lemma adds_prepare_intent:
  fixes resources :: "('p, 'z) resource_provider"
  assumes "reads_only resources"
  shows "adds.keeps (trusted_proposal u (tc_customer_id ctx)) (prepare_intent a resources u ctx pid raw acc)"
  unfolding prepare_intent_def by (auto intro!: adds_intros adds_propose_action [OF assms] split: json.split)

lemma adds_turn:
  fixes resources :: "('p, 'z) resource_provider"
  assumes "reads_only resources"
  shows "adds.keeps (trusted_proposal u (me_customer_id env)) (run_turn a resources u c env)"
proof -
  let ?ctx = "turn_context env (uc_user_id u) (role_value (uc_role u)) (sorted_permissions u)
    (session_owner_id (uc_user_id u) c)"
  have ctx: "tc_customer_id ?ctx = me_customer_id env" "tc_actor_id ?ctx = uc_user_id u"
    "tc_actor_role ?ctx = role_value (uc_role u)" "set (tc_actor_permissions ?ctx) = set (uc_permissions u)"
    by (simp_all add: turn_context_def sorted_permissions_def)
  define v where "v = \<lparr>uc_user_id = tc_actor_id ?ctx, uc_role = uc_role u, uc_permissions = tc_actor_permissions ?ctx,
    uc_token_issued_at = None\<rparr>"
  have v: "trusted_proposal v = trusted_proposal u" by (rule access_cong) (simp_all add: v_def ctx)
  note intent = adds_prepare_intent [OF assms, of v ?ctx, unfolded v ctx(1)]
  have "adds.keeps (trusted_proposal u (me_customer_id env)) (generate_safe_turn a resources ?ctx msg)" for msg
    unfolding generate_safe_turn_def open_session_def Let_def ctx(3) role_read_back
    by (auto intro!: adds_intros adds.keeps_bind_lift intent [unfolded v_def] split: option.split prod.split)
  then show ?thesis unfolding run_turn_def process_turn_def accept_result_def by (auto intro!: adds_intros)
qed

text \<open>The routes a conversation or a host proposes through.\<close>

fun proposes :: "api_request \<Rightarrow> bool" where
  "proposes (R_chat _) = True"
| "proposes (R_turn _) = True"
| "proposes (R_propose _) = True"
| "proposes _ = False"

lemma resolve_customer: "resolve_customer_context u c = Inr x \<Longrightarrow> cc_customer_id x = c"
  by (auto simp: resolve_customer_context_def split: if_splits)

lemma adds_chat:
  fixes resources :: "('p, 'z) resource_provider"
  assumes "reads_only resources"
  shows "adds.keeps (trusted_proposal u (cq_user_id r)) (api_chat a resources u r)"
  unfolding api_chat_def
proof (rule adds.keeps_bind_fact, goal_cases)
  case (2 inbound s t)
  from channel_receive_user [OF this, of "JStr (cq_user_id r)"]
  have user: "json_str (ib_user_id inbound) = cq_user_id r" by (simp add: dict_get_def)
  have turn: "adds.keeps (trusted_proposal u (cq_user_id r)) (run_turn a resources u c env)"
    if "me_customer_id env = cq_user_id r" for c env using adds_turn [OF assms, of u env a c] that by simp
  show ?case unfolding user
    by (auto intro!: adds_intros adds.keeps_bind_lift turn dest!: resolve_customer)
qed (auto intro: adds_intros)

lemma endpoint_adds:
  fixes resources :: "('p, 'z) resource_provider"
  assumes "reads_only resources" and "proposes r" and "request_customer r = Some c"
  shows "adds.keeps (trusted_proposal u c) (endpoint a resources u r)"
proof (cases r)
  case (R_turn q)
  then have c: "c = vq_customer_id q" using assms(3) by simp
  have turn: "adds.keeps (trusted_proposal u (vq_customer_id q)) (run_turn a resources u x env)"
    if "me_customer_id env = vq_customer_id q" for x env
    using adds_turn [OF assms(1), of u env a x] that by simp
  show ?thesis unfolding c R_turn endpoint.simps api_conversation_turn_def
    by (auto intro!: adds_intros adds.keeps_bind_lift turn dest!: resolve_customer)
next
  case (R_propose q)
  then have c: "c = aq_customer_id q" using assms(3) by simp
  show ?thesis unfolding c R_propose endpoint.simps api_create_proposal_def
    by (auto intro!: adds_intros adds.keeps_bind_lift adds_propose_action [OF assms(1)] dest!: resolve_customer)
qed (use assms in \<open>auto intro!: adds.keeps_answer adds_chat\<close>)

text \<open>C18: What a conversation proposes is bound to who holds it. Whatever the model leaves behind in a turn,
  the proposals on record are only added to, and each new one names the authenticated actor and the
  customer the request was resolved to, is for an action that actor may request, and waits for a
  confirmation.\<close>

theorem proposals_bound_to_actor:
  assumes "reads_only resources" and "proposes r" and "request_customer r = Some c"
    and "api_serve a resources actor r s = (x, t)"
  shows "\<exists>new. action_proposals (db t) = action_proposals (db s) @ new \<and>
    (\<forall>p \<in> set new. pr_actor_id p = uc_user_id actor \<and> pr_customer_id p = c \<and> pr_status p = P_PENDING \<and>
       require_action_access actor (pr_action p) = Inr ())"
proof -
  have "adds.keeps (trusted_proposal actor c) (api_serve a resources actor r)"
    unfolding api_serve_def using endpoint_adds [OF assms(1-3)] by (auto intro: adds_intros)
  then show ?thesis using adds.keepsD assms(4) by (fastforce simp: adds_only_def trusted_proposal_def)
qed

section \<open>Confirmations\<close>

lemma confirm_touches:
  fixes resources :: "('p, 'z) resource_provider"
  assumes "quiet_reads resources" and "confirm b resources pid ctx s = (x, t)"
    and "action_attempts (db t) \<noteq> action_attempts (db s)"
  shows "\<exists>p. proposal_row (db s) pid = Some p \<and> may_submit p ctx (clock_src s (clock_idx s))"
proof -
  obtain q v where q: "confirm_check b resources pid ctx s = (q, v)" by fastforce
  have "action_attempts (db v) = action_attempts (db s)"
    using no_effect.keepsD [OF confirm_check_no_effect [OF assms(1)] q] by simp
  then obtain req where "q = Inr (Inr req)"
    using assms(2,3) q by (cases q; cases "projr q") (auto simp: confirm_def bindE_def returnE_def)
  then show ?thesis using confirm_check_submits q by blast
qed

lemma initialize_proposals: "initialize s = (x, t) \<Longrightarrow> proposal_row (db t) pid = proposal_row (db s) pid"
  using effect_view.view_kept [OF effect_view_ops(1), of s x t] by (simp add: proposal_row_def)

lemma owned_proposal_Inr:
  "owned_proposal pid u s = (Inr p, t) \<longleftrightarrow> t = s \<and> proposal_row (db s) pid = Some p \<and>
     (\<exists>c. resolve_customer_context u (pr_customer_id p) = Inr c) \<and> pr_actor_id p = uc_user_id u"
  by (auto simp: owned_proposal_def bindE_def get_action_proposal_eq proposal_row_def liftE_def raise_if_def raiseE_def
      returnE_def split: option.splits sum.splits if_splits)

lemma initialize_attempts: "initialize s = (x, t) \<Longrightarrow> action_attempts (db t) = action_attempts (db s)"
  using effect_view.view_kept [OF effect_view_ops(1), of s x t] by simp


section \<open>The MCP server\<close>

text \<open>The identity of an MCP call: the actor on the request, who may service the customer.\<close>

definition mcp_identity :: "mcp_context \<Rightarrow> UserContext \<Rightarrow> string \<Rightarrow> bool" where
  "mcp_identity ctx u c \<longleftrightarrow> (\<exists>req. mc_request ctx = Some req \<and> mh_user req = Some u) \<and>
     (if uc_role u = CUSTOMER then c = uc_user_id u else has_permission u CUSTOMER_READ)"

lemma resolve_mcp_Inr:
  assumes "resolve_mcp_action_context a ctx (Some act) args = Inr trusted"
  shows "\<exists>u. mcp_identity ctx u (ctx_customer_id trusted) \<and> ctx_actor_id trusted = uc_user_id u \<and>
    require_action_access u act = Inr ()"
proof -
  obtain req where req: "mc_request ctx = Some req"
    using assms by (cases "mc_request ctx") (simp_all add: resolve_mcp_action_context_def)
  obtain u where u: "mh_user req = Some u"
    using assms req by (cases "mh_user req") (simp_all add: resolve_mcp_action_context_def)
  let ?c = "the (mcp_customer a u req)"
  have "truthy_str (mcp_customer a u req)"
    using assms by (simp add: resolve_mcp_action_context_def req u split: if_splits)
  then obtain customer where customer: "resolve_customer_context u ?c = Inr customer"
      "require_action_access u act = Inr ()" and trusted: "ctx_actor_id trusted = uc_user_id u"
      "ctx_customer_id trusted = cc_customer_id customer"
    using assms by (auto simp: resolve_mcp_action_context_def req u Let_def andThen_Inr split: prod.splits)
  have "cc_customer_id customer = ?c" using resolve_customer [OF customer(1)] .
  moreover have "uc_role u = CUSTOMER \<Longrightarrow> ?c = uc_user_id u" by (simp add: mcp_customer_def Let_def)
  moreover have "uc_role u \<noteq> CUSTOMER \<Longrightarrow> has_permission u CUSTOMER_READ"
    using customer(1) by (auto simp: resolve_customer_context_def split: if_splits)
  ultimately show ?thesis using req u customer(2) trusted by (auto simp: mcp_identity_def)
qed

lemma reject_trusted_Inr:
  "reject_trusted_arguments args = Inr () \<longleftrightarrow> set (dict_keys args) \<inter> set TRUSTED_ARGUMENT_NAMES = {}"
  by (auto simp: reject_trusted_arguments_def Let_def filter_empty_conv)

text \<open>C24: Through MCP a model can only propose, and under no other identity than its host's. Preparing an
  action leaves the actions on record as they are and only adds proposals; a proposal is added only
  when the arguments name none of the trusted fields, and it is bound to the actor the transport
  authenticated, to a customer that actor may service (itself, for a customer) and to an action it may
  request, and waits for a confirmation that the server does not offer.\<close>

theorem mcp_only_proposes:
  assumes "reads_only resources" and "actions_prepare a resources ctx act args rt ri s = (x, t)"
  shows "action_attempts (db t) = action_attempts (db s) \<and>
    (\<exists>new. action_proposals (db t) = action_proposals (db s) @ new \<and>
       (\<forall>p \<in> set new. pr_status p = P_PENDING \<and> set (dict_keys args) \<inter> set TRUSTED_ARGUMENT_NAMES = {} \<and>
          (\<exists>u. mcp_identity ctx u (pr_customer_id p) \<and> pr_actor_id p = uc_user_id u \<and>
             require_action_access u (pr_action p) = Inr ())))"
proof -
  let ?P = "\<lambda>p. pr_status p = P_PENDING \<and> set (dict_keys args) \<inter> set TRUSTED_ARGUMENT_NAMES = {} \<and>
    (\<exists>u. mcp_identity ctx u (pr_customer_id p) \<and> pr_actor_id p = uc_user_id u \<and> require_action_access u (pr_action p) = Inr ())"
  have added: "adds.keeps ?P (actions_prepare a resources ctx act args rt ri)"
    unfolding actions_prepare_def
    by (auto intro!: adds.keeps_bind_lift adds.keeps_bindE adds_propose [OF assms(1)] adds_intros
        simp: reject_trusted_Inr dest!: resolve_mcp_Inr)
  have kept: "untouched.keeps (actions_prepare a resources ctx act args rt ri)"
    unfolding actions_prepare_def by (auto intro!: untouched_intros untouched_propose [OF assms(1)])
  show ?thesis using adds.keepsD [OF added assms(2)] untouched.keepsD [OF kept assms(2)] unfolding adds_only_def by simp
qed

end
