(* ===== verification/Api_Runs.thy ===== *)
theory Api_Runs
  imports Api_Routes Bridge_Laws Bootstrap_Laws
begin

text \<open>
  A concrete application in development: a connector that counts its calls, sessions whose agent
  answers every message with a refund intent, the packages of a fresh installation in the repository
  and a refund waiting for its confirmation. Its runs show two behaviours of the composition; the
  witnesses of \<open>Api_Laws\<close> use it.
\<close>

section \<open>The application\<close>

definition demo_api_bridge :: "nat ActionBridge" where
  "demo_api_bridge = demo_bridge\<lparr>ab_gateway := demo_refund_gateway
     \<lparr>gw_policy_registry := True, gw_policy_resolver := True, gw_signer := demo_boot_signer\<rparr>\<rparr>"

definition demo_sessions :: "nat session_service" where
  "demo_sessions = \<lparr>ss_get = (\<lambda>_ _ n. (Inr None, n)), ss_create = (\<lambda>_ _ st n. (Inr st, n)), ss_list = (\<lambda>_ n. (Inr [], n)),
     ss_run = (\<lambda>_ _ st _ n. (Inr ([\<lparr>ae_author = ''customer_service'', ae_parts = [Some ''Noted.'']\<rparr>],
       dict_set st ''pending_action_intents''
         (JList [intent_of ''issue_refund'' [(''order_id'', JStr ''O1'')] (Some (''order'', ''O1''))])), n))\<rparr>"

definition demo_receipt :: ProviderReceipt where
  "demo_receipt = \<lparr>dr_provider_id = ''p'', dr_provider_message_id = ''m'', dr_status = DELIVERED, dr_occurred_at = ''t'',
     dr_details = []\<rparr>"

definition demo_api :: "nat endpoints" where
  "demo_api = \<lparr>ap_deployment = demo_deployment, ap_policies = demo_policies, ap_bridge = demo_api_bridge,
     ap_sessions = demo_sessions, ap_audit = (\<lambda>_ n. (Inr [], n)), ap_procedures = [],
     ap_rails = \<lparr>reasoning_enabled = False, reasoning_max_iterations = 2, compliance_enabled = False\<rparr>,
     ap_solver = (\<lambda>_. Z_unknown), ap_digest = (\<lambda>x. x), ap_repr = (\<lambda>(c, v, act, args). c @ act), ap_today = (\<lambda>_. ''2025-01-01''),
     ep_profile = DEFAULT_NAM_PROFILE, ep_transcribe = (\<lambda>_ n. (Inl AssertionError, n)),
     ep_synthesize = (\<lambda>_ n. (Inl AssertionError, n)), ep_accept_event = (\<lambda>_ n. (Inr demo_receipt, n)),
     ep_send = (\<lambda>_ n. (Inr demo_receipt, n)), ep_record_receipt = (\<lambda>r n. (Inr r, n)), ep_list_receipts = (\<lambda>_ n. (Inr [], n)),
     ep_enqueue = (\<lambda>_ n. (Inl AssertionError, n)), ep_order = (\<lambda>_ n. (Inr None, n)),
     ep_verify_chain = (\<lambda>n. (Inl AssertionError, n)), ep_put_resource = (\<lambda>_ _ _ n. (Inl AssertionError, n)),
     ep_set_scenario = (\<lambda>_ _ n. (Inr (), n)), ep_capabilities = None, ep_worker = demo_worker,
     ep_reconciliation_delay = 60, ep_executors = []\<rparr>"

definition demo_api_world :: "nat gworld" where
  "demo_api_world = demo_gworld\<lparr>policy_packages := map (row_of_package \<circ> snd) demo_policies\<rparr>"

abbreviation demo_resources :: "(nat, unit) resource_provider" where
  "demo_resources \<equiv> single_order_resource demo_order"

definition demo_customer :: UserContext where
  "demo_customer = build_user_context ''U1'' CUSTOMER None"

definition demo_admin :: "string \<Rightarrow> UserContext" where
  "demo_admin name = build_user_context name ADMIN None"

definition demo_propose :: ActionProposalRequest where
  "demo_propose = \<lparr>aq_customer_id = ''U1'', aq_action = ''issue_refund'',
     aq_arguments = [(''order_id'', JStr ''O1'')], aq_resource = Some (''order'', ''O1''),
     aq_conversation_id = Some ''S1'', aq_message_id = None\<rparr>"

text \<open>The proposal this request leaves behind, waiting.\<close>

definition demo_waiting :: ActionProposal where
  "demo_waiting = \<lparr>pr_proposal_id = ''APR-'', pr_action = ''issue_refund'',
     pr_payload = [(''action'', JStr ''issue_refund''), (''order_id'', JStr ''O1''), (''customer_id'', JStr ''U1''),
       (''refund_amount'', JFloat 50), (''currency'', JStr ''USD''), (''payment_method'', JStr ''card''),
       (''reason'', JStr ''customer_request'')],
     pr_case_id = ''CASE-REFUND-U1:O1'', pr_customer_id = ''U1'', pr_actor_id = ''U1'', pr_procedure_id = ''cs_refund'',
     pr_procedure_version = ''1.0.0'', pr_policy_package_id = ''refund@1.0.0:NAM'', pr_idempotency_key = ''refund:O1'',
     pr_resource_type = Some ''order'', pr_resource_id = Some ''O1'', pr_resource_version = Some 1,
     pr_conversation_id = Some ''S1'', pr_message_id = None, pr_connector_binding_id = None,
     pr_connector_binding_version = None, pr_contract_version = None,
     pr_preview = [(''action'', JStr ''issue_refund''), (''order_id'', JStr ''O1''), (''refund_amount'', JFloat 50),
       (''currency'', JStr ''USD''), (''payment_method'', JStr ''card''), (''reason'', JStr ''customer_request'')],
     pr_status = P_PENDING, pr_confirmation_evidence_ref = None, pr_action_id = None, pr_created_at = seconds 1,
     pr_expires_at = seconds 901, pr_updated_at = seconds 1, pr_confirmed_at = None, pr_cancelled_at = None\<rparr>"

definition demo_pending :: "nat gworld" where
  "demo_pending = demo_api_world\<lparr>db := set_action_proposals [demo_waiting] (db demo_api_world), clock_idx := 5, uuid_idx := 5\<rparr>"

lemma demo_proposal_made:
  "action_proposals (db (snd (api_create_proposal demo_api demo_resources demo_customer demo_propose demo_api_world))) =
     [demo_waiting]"
  by code_simp

lemma demo_confirm_run:
  "map ar_status (action_attempts (db (snd (api_confirm_proposal demo_api demo_resources demo_customer ''APR-'' demo_pending)))) =
     [SUCCEEDED]"
  by code_simp

section \<open>A policy that is replaced\<close>

text \<open>Alice drafts a successor of the refund package, Bob approves it, Alice activates it.\<close>

definition demo_successor :: PolicyDraftRequest where
  "demo_successor = \<lparr>dq_package_id = ''refund@2'', dq_procedure_id = ''cs_refund'', dq_version = ''2'', dq_jurisdiction = ''NAM'',
     dq_rules = [(''allowed_actions'', JList [JStr ''issue_refund''])]\<rparr>"

definition demo_superseded :: "(PolicyPackage, nat, unit) gop" where
  "demo_superseded =
     bindE (api_policy_draft (demo_admin ''alice'') demo_successor) (\<lambda>_.
     bindE (api_approve_policy demo_api (demo_admin ''bob'') ''refund@2'') (\<lambda>_.
     api_activate_policy demo_api (demo_admin ''alice'') ''refund@2''))"

text \<open>An application names the packages it was started with for ever. After a successor of the refund
  package has been drafted, approved by another administrator and activated through the routes, the
  package an action is proposed under is still the one of the start, which is no longer active: the
  confirmation of a refund, which succeeded before, fails as an internal error, and no later start
  of the application brings the package back.\<close>

theorem superseded_policy_still_named:
  "map_sum (\<lambda>e. e) (\<lambda>(k, p). pp_package_id p) (action_policy (ap_policies demo_api) ''issue_refund'' None) = Inr ''refund@1.0.0:NAM'' \<and>
   map_sum (\<lambda>e. (e, rs_status (error_response e))) (\<lambda>_. ())
     (fst (bindE demo_superseded (\<lambda>_. api_confirm_proposal demo_api demo_resources demo_customer ''APR-'') demo_pending)) =
     Inl (ValueError ''Policy package is not active: refund@1.0.0:NAM'', 500)"
proof
  show "map_sum (\<lambda>e. e) (\<lambda>(k, p). pp_package_id p) (action_policy (ap_policies demo_api) ''issue_refund'' None) = Inr ''refund@1.0.0:NAM''"
    by code_simp
  show "map_sum (\<lambda>e. (e, rs_status (error_response e))) (\<lambda>_. ())
     (fst (bindE demo_superseded (\<lambda>_. api_confirm_proposal demo_api demo_resources demo_customer ''APR-'') demo_pending)) =
     Inl (ValueError ''Policy package is not active: refund@1.0.0:NAM'', 500)"
    by code_simp
qed

section \<open>A status that is only read\<close>

definition demo_mcp :: mcp_context where
  "demo_mcp = \<lparr>mc_request = Some \<lparr>mh_user = Some demo_customer, mh_headers = []\<rparr>, mc_request_id = ''1''\<rparr>"

text \<open>Reading the status of a proposal through MCP can change it: a pending proposal past its time is
  stored as expired by the read.\<close>

theorem mcp_status_expires:
  "map pr_status (action_proposals (db demo_pending)) = [P_PENDING] \<and>
   map pr_status (action_proposals (db (snd (actions_get_status demo_api demo_mcp ''APR-''
     (demo_pending\<lparr>clock_idx := 1000\<rparr>))))) = [P_EXPIRED]"
proof
  show "map pr_status (action_proposals (db demo_pending)) = [P_PENDING]" by code_simp
  show "map pr_status (action_proposals (db (snd (actions_get_status demo_api demo_mcp ''APR-''
     (demo_pending\<lparr>clock_idx := 1000\<rparr>))))) = [P_EXPIRED]" by code_simp
qed

end
