(* ===== verification/Api_Demo.thy ===== *)
theory Api_Demo
  imports Api_Laws Api_Runs
begin

text \<open>
  The laws of the routes at work: each is applied to a request of the application of \<open>Api_Runs\<close>.
\<close>

section \<open>Witnesses\<close>

lemma demo_quiet: "quiet_reads demo_resources"
  by (simp add: quiet_reads_def single_order_resource_def returnE_def)

theorem route_needs_permission_witness:
  "\<exists>e. api_serve demo_api demo_resources demo_customer R_metrics demo_api_world = (Inl e, demo_api_world) \<and>
     rs_status (error_response e) = 403"
  using route_needs_permission [of R_metrics ADMIN_READ demo_customer demo_api demo_resources demo_api_world]
  by (simp add: demo_customer_def build_user_context_def has_permission_def get_permissions_for_role_def)


theorem only_five_routes_act_witness:
  "action_attempts (db (snd (api_serve demo_api demo_resources demo_customer (R_propose demo_propose) demo_api_world))) =
     action_attempts (db demo_api_world)"
  using only_five_routes_act [OF demo_order_reads _ surjective_pairing, of "R_propose demo_propose" demo_api demo_customer
      demo_api_world] by simp

theorem proposals_bound_to_actor_witness:
  "\<exists>new. action_proposals (db (snd (api_serve demo_api demo_resources demo_customer (R_propose demo_propose) demo_api_world))) =
     action_proposals (db demo_api_world) @ new \<and> (\<forall>p \<in> set new. pr_actor_id p = ''U1'' \<and> pr_customer_id p = ''U1'')"
proof -
  have "request_customer (R_propose demo_propose) = Some ''U1''" "uc_user_id demo_customer = ''U1''"
    by (simp_all add: demo_propose_def demo_customer_def build_user_context_def)
  then show ?thesis
    using proposals_bound_to_actor [OF demo_order_reads _ _ surjective_pairing, of "R_propose demo_propose" "''U1''" demo_api
      demo_customer demo_api_world] by auto
qed

lemma demo_confirm_served:
  "snd (api_serve demo_api demo_resources demo_customer (R_confirm ''APR-'') demo_pending) =
     snd (api_confirm_proposal demo_api demo_resources demo_customer ''APR-'' demo_pending)"
  by (simp add: api_serve_def answer_def bindE_def returnE_def split: prod.split sum.split)


theorem mcp_only_proposes_witness:
  "\<exists>new. action_proposals (db (snd (actions_prepare demo_api demo_resources demo_mcp ''issue_refund''
       [(''order_id'', JStr ''O1'')] (Some ''order'') (Some ''O1'') demo_api_world))) = action_proposals (db demo_api_world) @ new \<and>
     (\<forall>p \<in> set new. pr_actor_id p = ''U1'' \<and> pr_status p = P_PENDING)"
proof -
  have u: "mcp_identity demo_mcp u c \<Longrightarrow> uc_user_id u = ''U1''" for u c
    by (auto simp: mcp_identity_def demo_mcp_def demo_customer_def build_user_context_def)
  obtain new where n: "action_proposals (db (snd (actions_prepare demo_api demo_resources demo_mcp ''issue_refund''
       [(''order_id'', JStr ''O1'')] (Some ''order'') (Some ''O1'') demo_api_world))) = action_proposals (db demo_api_world) @ new"
    and a: "\<And>p. p \<in> set new \<Longrightarrow> pr_status p = P_PENDING \<and>
       (\<exists>u. mcp_identity demo_mcp u (pr_customer_id p) \<and> pr_actor_id p = uc_user_id u)"
    using mcp_only_proposes [OF demo_order_reads surjective_pairing, of demo_api demo_mcp "''issue_refund''"
      "[(''order_id'', JStr ''O1'')]" "Some ''order''" "Some ''O1''" demo_api_world] by blast
  have "pr_actor_id p = ''U1'' \<and> pr_status p = P_PENDING" if "p \<in> set new" for p
    using a [OF that] u by auto
  with n show ?thesis by auto
qed

end
