(* ===== verification/Spec2Isabelle.thy ===== *)
theory Spec2Isabelle
  imports Bridge_Laws Workers Inbox_Laws Conversation Decisions Access Refunds Audit_Laws Executor_Laws Web_Edge_Laws
    Redaction Tools_Laws Provider_Laws Registry_Laws Api_Demo
begin

text \<open>
  A verification library of the workflow engine: a service in which a language model proposes
  consequential actions (refunds, credits, disputes, account flags) and a durable core decides, records
  and executes them. This theory imports the library and is its guide; paths are below
  \<open>src/workflow_engine/\<close>.

  \<^bold>\<open>The program and how its parts meet.\<close> A request passes the middlewares (\<open>middleware/\<close>, \<open>auth/\<close>) and
  reaches an endpoint of \<open>main.py\<close> (\<open>src/main.py\<close>), the WebSocket or the MCP server (\<open>mcp/server.py\<close>). A
  turn goes to the conversation service (\<open>conversation/\<close>), which stores the message in the ordered inbox of the
  core store (\<open>core/kernel.py\<close>) and asks the model for an answer. The model sees procedures
  (\<open>procedures/\<close>) and tools (\<open>tools/\<close>): read tools query the business database (\<open>database/\<close>), and
  consequential tools only queue intents. Its answer passes the rails, the compliance rules and the
  verify-and-rewrite loop (\<open>agents/guardrails.py\<close>, \<open>compliance.py\<close>, \<open>reasoning.py\<close>). An intent becomes a
  proposal of the action bridge (\<open>actions/bridge.py\<close>); a confirmed proposal is submitted by the
  consequential action service (\<open>core/action_service.py\<close>), which binds it to an authoritative resource
  and commits facts through the case kernel; the gateway (\<open>core/gateway.py\<close>) authorises it under a signed
  policy package (\<open>core/policy.py\<close>, \<open>core/policy_store.py\<close>), claims it and calls a connector: the refund
  connector (\<open>core/connectors.py\<close>), the sandbox (\<open>integrations/sandbox.py\<close>) or a configured REST or Python
  connector (\<open>integrations/registry.py\<close>). The packages come from the bootstrap in \<open>main.py\<close> or from the
  policy routes. Workers (\<open>core/workers.py\<close>) redeliver and reconcile, and the
  audit logger (\<open>audit/logger.py\<close>) chains every entry by hash.

  \<^bold>\<open>How the code is modelled.\<close> A class with state is a \<open>record\<close>, an enumeration a \<open>datatype\<close>, a method
  one definition. A computation that may raise returns \<open>exn + 'a\<close>; one with effects is an
  \<open>('a, 's) op\<close>, state passing in which what was written before an exception stays written. The state
  grows by record extension: \<open>env\<close> (clock and identifier sources, read in order), \<open>kworld\<close> (the core
  tables), \<open>policy_world\<close>, \<open>gworld\<close> (with the state of the provider behind the gateway); \<open>bworld\<close> (the
  business tables) with \<open>tworld\<close> (the session of a tool) and the executor's and the edge's worlds; \<open>sbx\<close>
  (the sandbox tables). A table is the list of its rows in rowid order; a JSON column holds its value; a
  primary key or unique index refuses an insertion with \<open>IntegrityError\<close>; \<open>tx\<close> rolls back. Foreign keys
  are not enforced, as on the connections the code uses. A timestamp is the number of microseconds its
  ISO text denotes; a finite float is the rational it denotes, without rounding; text is ASCII.
  Regular expressions (\<open>Regex\<close>), \<open>strptime\<close> and the calendar (\<open>Dates\<close>) and \<open>urllib.parse\<close> (\<open>Urls\<close>) are
  modelled. Where the source awaits between two statements, its parts are separate operations, and the
  step relations (\<open>core_step\<close>, \<open>dispatch_step\<close>, \<open>bridge_step\<close>, \<open>refund_step\<close>, \<open>audit_step\<close>,
  \<open>executor_step\<close>, \<open>sandbox_step\<close>) let any of them interleave.

  \<^bold>\<open>Parameters\<close>, for code outside the repository: the HMAC and SHA functions, JWT library, SMT solver (with
  the hypothesis \<open>sound_solver\<close>), rewriting model, ADK session service and runner, HTTP client, secret provider, file
  system, imports, executor hooks, \<open>datetime.fromisoformat\<close> and the rendering of nested values as text.

  \<^bold>\<open>The theories.\<close>
  \<^item> \<open>Prelude\<close>: JSON values, dicts, the operation combinators, SQL on lists, the clock; \<open>Regex\<close>, \<open>Dates\<close>,
    \<open>Urls\<close>: the parts of the standard library the code leans on.
  \<^item> \<open>Action_Specs\<close>, \<open>Kernel_Types\<close>, \<open>Kernel_Store\<close>, \<open>Kernel_Queues\<close>, \<open>Case_Kernel\<close>: the inventory and the core
    store with its cases, facts, actions, events, proposals, inbox, outbox and handoffs. \<open>Kernel_Laws\<close>,
    \<open>Kernel_Actions\<close>, \<open>Kernel_Properties\<close>, \<open>Kernel_Views\<close>, \<open>Inbox_Laws\<close>, \<open>Outbox_Laws\<close>: the life of an action
    and its log, evidence, idempotency, message order, leases and the migration.
  \<^item> \<open>Policy\<close>, \<open>Policy_Store\<close>, \<open>Policy_Laws\<close>: packages, signatures, the four-eyes workflow, one active
    package per domain.
  \<^item> \<open>Gateway\<close>, \<open>Dispatch_Concurrency\<close>, \<open>Gateway_Laws\<close>: authorisation, dispatch and reconciliation; a
    provider is called at most once per action under any interleaving.
  \<^item> \<open>Workers\<close>, \<open>Conversation\<close>, \<open>Decisions\<close>, \<open>Access\<close>: workers, turns and handoffs, decision services, roles
    and the tool catalogue.
  \<^item> \<open>Action_Service\<close>, \<open>Bridge\<close> and their laws: submission and the confirmation of proposals.
  \<^item> \<open>Database\<close>, \<open>Refunds\<close>, \<open>Audit_Trail\<close>, \<open>Audit_Laws\<close>: the business database, the refund connector, the
    hash chain.
  \<^item> \<open>Procedures\<close>, \<open>Executor\<close>, \<open>Executor_Laws\<close>: procedure validation and the step machine.
  \<^item> \<open>Web_Edge\<close>, \<open>Web_Edge_Laws\<close>: settings, tokens and the middlewares.
  \<^item> \<open>Reasoning\<close>, \<open>Compliance\<close>, \<open>Guardrails\<close> with \<open>Reasoning_Laws\<close>, \<open>Guardrails_Laws\<close>, \<open>Redaction\<close>: the checks
    on what the model says; the fallback, the bound on rewrites, the completeness of redaction.
  \<^item> \<open>Tools\<close>, \<open>Tools_Laws\<close>: every tool; what a session can see and what the dispute tools decide.
  \<^item> \<open>Providers\<close>, \<open>Provider_Laws\<close>: the sandbox adapters; the locale \<open>action_provider\<close> states what a
    connector promises and is interpreted on the sandbox, the refund connector and the disabled one.
  \<^item> \<open>Connector_Registry\<close>, \<open>Registry_Laws\<close>: bindings, the REST connector, resolution by pins.
  \<^item> \<open>Bootstrap\<close>, \<open>Bootstrap_Laws\<close>: the packages \<open>main.py\<close> signs at import and puts into the repository, and
    the choice of a package for an action; a fresh installation allows every action it names.
  \<^item> \<open>Turns\<close>: \<open>_generate_safe_turn\<close>, from the agent run through the rails to the proposals. \<open>Api\<close> and
    \<open>Api_Routes\<close>: the endpoints, one definition \<open>api_...\<close> each, the route table \<open>endpoint\<close>, the WebSocket
    (\<open>websocket_chat\<close>) and the MCP tools (\<open>actions_prepare\<close>, \<open>actions_get_status\<close>).
  \<^item> \<open>Api_Laws\<close>: permissions are checked before anything happens, a customer reaches no other customer,
    five routes can touch an action, proposals are bound to their actor, a confirmation is guarded, MCP
    only proposes. \<open>Api_Runs\<close> runs a small deployment: a superseded policy package that proposals
    still name, and a status read that stores an expiry. \<open>Api_Demo\<close> holds the witnesses of the laws.

  \<^bold>\<open>Interfaces as locales\<close>: \<open>op_rel\<close> (operations that keep a relation between their states), with its
  special case \<open>table_view\<close>, carries the frame and monotonicity proofs and is interpreted on the core
  steps, the tables each component leaves alone, the settled proposals and the refunds;
  \<open>transition_system\<close> turns a preserved invariant into one of all reachable states; \<open>cas_table\<close> is the
  compare-and-set the store makes on actions, proposals and handoffs; \<open>action_provider\<close> and
  \<open>replaying_provider\<close> are the gateway's contract with a connector.

  \<^bold>\<open>Bounds.\<close> No definition runs on fuel. Loops of the source are structural recursions or functions with a
  measure: the scan of a regular expression by the text left, the rewrite loop by the iterations left.

  \<^bold>\<open>Not modelled\<close>: FastAPI, the ADK and the MCP transport; the endpoints that only report configuration
  (\<open>health\<close>, \<open>integration_contracts\<close>, \<open>current_jurisdiction_profile\<close>) and the legacy routes, which call the
  versioned ones; the Streamlit interface (\<open>app_ui.py\<close>, \<open>ui/client.py\<close>), the agent factories
  (\<open>agents/customer_service.py\<close>, \<open>fraud_ops.py\<close>, \<open>router.py\<close>) and prompt texts, logging, demo data and process
  start-up: they hold no decision of their own or only call libraries. YAML and JSON parsing and the
  decoding of request bodies are left to the libraries that do them; the constraints the request models
  state are checked.
\<close>

end
